(* ===== verification/Prelude.thy ===== *)
theory Prelude
  imports Main "HOL-Library.AList"
begin

text \<open>
  Shared vocabulary of the development.

  \<^item> Go errors are values of \<open>go_error\<close>: the kind that the code inspects
    (\<open>k8serrors.IsNotFound\<close>, \<open>k8serrors.IsAlreadyExists\<close>, a run-time panic, anything else)
    and the text that \<open>err.Error()\<close> returns.
  \<^item> A fallible pure function returns \<open>go_error + 'a\<close>.
  \<^item> An effectful function is a \<open>go\<close> computation: it takes the state of the world and
    returns its result and the next state.  \<open>gbind\<close> is the \<open>if err != nil { return err }\<close>
    idiom, \<open>gtry\<close> the same test with a handler of its own.  A panic is never caught by either.
  \<^item> \<open>frames R m\<close> states that every run of \<open>m\<close> relates the state before and the state
    after by \<open>R\<close>; the locale \<open>frame_rel\<close> has the rules for any reflexive and transitive \<open>R\<close>.
  \<^item> \<open>hoare P m Q E\<close> is a total-correctness triple with a normal and an error postcondition.
\<close>

section \<open>Errors\<close>

datatype err_kind = NotFound | AlreadyExists | OtherErr | Panicked

datatype go_error = GoErr (ekind: err_kind) (emsg: string)

abbreviation errorf :: "string \<Rightarrow> go_error" where
  "errorf s \<equiv> GoErr OtherErr s"

abbreviation nil_deref :: go_error where
  "nil_deref \<equiv> GoErr Panicked ''invalid memory address or nil pointer dereference''"

abbreviation IsNotFound :: "go_error \<Rightarrow> bool" where
  "IsNotFound e \<equiv> ekind e = NotFound"

abbreviation IsAlreadyExists :: "go_error \<Rightarrow> bool" where
  "IsAlreadyExists e \<equiv> ekind e = AlreadyExists"

abbreviation is_panic :: "go_error \<Rightarrow> bool" where
  "is_panic e \<equiv> ekind e = Panicked"

section \<open>Fallible pure functions\<close>

definition rbind :: "go_error + 'a \<Rightarrow> ('a \<Rightarrow> go_error + 'b) \<Rightarrow> go_error + 'b" where
  "rbind r f = (case r of Inl e \<Rightarrow> Inl e | Inr x \<Rightarrow> f x)"

text \<open>Reading through a pointer: a nil pointer panics.\<close>

definition deref :: "'a option \<Rightarrow> go_error + 'a" where
  "deref p = (case p of None \<Rightarrow> Inl nil_deref | Some x \<Rightarrow> Inr x)"

lemma rbind_simps [simp]:
  "rbind (Inl e) f = Inl e" "rbind (Inr x) f = f x"
  by (simp_all add: rbind_def)

lemma deref_simps [simp]:
  "deref None = Inl nil_deref" "deref (Some x) = Inr x"
  by (simp_all add: deref_def)

lemma rbind_Inr: "rbind r f = Inr y \<longleftrightarrow> (\<exists>x. r = Inr x \<and> f x = Inr y)"
  by (cases r) auto

lemma rbind_Inl: "rbind r f = Inl e \<longleftrightarrow> r = Inl e \<or> (\<exists>x. r = Inr x \<and> f x = Inl e)"
  by (cases r) auto

lemma deref_Inr [simp]: "deref p = Inr x \<longleftrightarrow> p = Some x"
  by (cases p) auto

section \<open>Effectful functions\<close>

type_synonym ('w, 'a) go = "'w \<Rightarrow> (go_error + 'a) \<times> 'w"

definition gret :: "'a \<Rightarrow> ('w, 'a) go" where
  "gret x = (\<lambda>w. (Inr x, w))"

definition gfail :: "go_error \<Rightarrow> ('w, 'a) go" where
  "gfail e = (\<lambda>w. (Inl e, w))"

definition gbind :: "('w, 'a) go \<Rightarrow> ('a \<Rightarrow> ('w, 'b) go) \<Rightarrow> ('w, 'b) go" where
  "gbind m k = (\<lambda>w. case m w of (Inl e, w') \<Rightarrow> (Inl e, w') | (Inr x, w') \<Rightarrow> k x w')"

definition gtry :: "('w, 'a) go \<Rightarrow> (go_error \<Rightarrow> ('w, 'b) go) \<Rightarrow> ('a \<Rightarrow> ('w, 'b) go) \<Rightarrow> ('w, 'b) go" where
  "gtry m h k = (\<lambda>w. case m w of
      (Inl e, w') \<Rightarrow> (if is_panic e then (Inl e, w') else h e w')
    | (Inr x, w') \<Rightarrow> k x w')"

definition gread :: "('w \<Rightarrow> 'a) \<Rightarrow> ('w, 'a) go" where
  "gread f = (\<lambda>w. (Inr (f w), w))"

definition gmodify :: "('w \<Rightarrow> 'w) \<Rightarrow> ('w, unit) go" where
  "gmodify f = (\<lambda>w. (Inr (), f w))"

definition glift :: "go_error + 'a \<Rightarrow> ('w, 'a) go" where
  "glift r = (\<lambda>w. (r, w))"

text \<open>The value and the error of a call, for the calls whose error the code drops or collects.\<close>

definition gresult :: "('w, 'a) go \<Rightarrow> ('w, go_error + 'a) go" where
  "gresult m = gtry m (\<lambda>e. gret (Inl e)) (\<lambda>x. gret (Inr x))"

text \<open>A deferred call: it runs when the function returns, whatever it returns, a panic included.\<close>

definition gdefer :: "('w, 'a) go \<Rightarrow> ('w, unit) go \<Rightarrow> ('w, 'a) go" where
  "gdefer m c = (\<lambda>w. case m w of (r, w') \<Rightarrow> (r, snd (c w')))"

text \<open>A \<open>for\<close> loop over a slice whose body may return early with an error.\<close>

fun gforeach :: "('a \<Rightarrow> 's \<Rightarrow> ('w, 's) go) \<Rightarrow> 'a list \<Rightarrow> 's \<Rightarrow> ('w, 's) go" where
  "gforeach f [] s = gret s"
| "gforeach f (x # xs) s = gbind (f x s) (\<lambda>s'. gforeach f xs s')"

lemma gret_apply [simp]: "gret x w = (Inr x, w)"
  by (simp add: gret_def)

lemma gfail_apply [simp]: "gfail e w = (Inl e, w)"
  by (simp add: gfail_def)

lemma gread_apply [simp]: "gread f w = (Inr (f w), w)"
  by (simp add: gread_def)

lemma gmodify_apply [simp]: "gmodify f w = (Inr (), f w)"
  by (simp add: gmodify_def)

lemma glift_apply [simp]: "glift r w = (r, w)"
  by (simp add: glift_def)

lemma gbind_Inr: "m w = (Inr x, w') \<Longrightarrow> gbind m k w = k x w'"
  by (simp add: gbind_def)

lemma gbind_Inl: "m w = (Inl e, w') \<Longrightarrow> gbind m k w = (Inl e, w')"
  by (simp add: gbind_def)

lemma gbind_gret [simp]: "gbind (gret x) k = k x"
  by (rule ext) (simp add: gbind_def)

lemma gbind_gfail [simp]: "gbind (gfail e) k = gfail e"
  by (rule ext) (simp add: gbind_def)

lemma gbind_assoc: "gbind (gbind m f) g = gbind m (\<lambda>x. gbind (f x) g)"
  by (rule ext) (simp add: gbind_def split: prod.splits sum.splits)

lemma gbind_returns:
  "gbind m k w = (Inr y, w'') \<longleftrightarrow> (\<exists>x w'. m w = (Inr x, w') \<and> k x w' = (Inr y, w''))"
  by (auto simp: gbind_def split: prod.splits sum.splits)

lemma gtry_returns:
  "gtry m h k w = (Inr y, w'') \<longleftrightarrow>
     (\<exists>x w'. m w = (Inr x, w') \<and> k x w' = (Inr y, w'')) \<or>
     (\<exists>e w'. m w = (Inl e, w') \<and> \<not> is_panic e \<and> h e w' = (Inr y, w''))"
  by (auto simp: gtry_def split: prod.splits sum.splits if_splits)

lemma gbind_unfold:
  "gbind m k w = (case m w of (Inl e, w') \<Rightarrow> (Inl e, w') | (Inr x, w') \<Rightarrow> k x w')"
  by (simp add: gbind_def)

lemma gtry_unfold:
  "gtry m h k w = (case m w of
      (Inl e, w') \<Rightarrow> (if is_panic e then (Inl e, w') else h e w')
    | (Inr x, w') \<Rightarrow> k x w')"
  by (simp add: gtry_def)

section \<open>Two-state frame conditions\<close>

definition frames :: "('w \<Rightarrow> 'w \<Rightarrow> bool) \<Rightarrow> ('w, 'a) go \<Rightarrow> bool" where
  "frames R m \<longleftrightarrow> (\<forall>w. R w (snd (m w)))"

lemma framesI: "(\<And>w. R w (snd (m w))) \<Longrightarrow> frames R m"
  by (simp add: frames_def)

lemma framesD: "frames R m \<Longrightarrow> R w (snd (m w))"
  by (simp add: frames_def)

lemma framesD2: "frames R m \<Longrightarrow> m w = (r, w') \<Longrightarrow> R w w'"
  by (drule framesD [of R m w]) simp

lemma frames_mono: "frames R m \<Longrightarrow> (\<And>w w'. R w w' \<Longrightarrow> S w w') \<Longrightarrow> frames S m"
  by (simp add: frames_def)

named_theorems frame_intros \<open>frame conditions of the operations\<close>

locale frame_rel =
  fixes R :: "'w \<Rightarrow> 'w \<Rightarrow> bool"
  assumes R_refl: "R w w"
    and R_trans: "R u v \<Longrightarrow> R v w \<Longrightarrow> R u w"
begin

lemma frames_gret: "frames R (gret x)"
  by (simp add: frames_def R_refl)

lemma frames_gfail: "frames R (gfail e)"
  by (simp add: frames_def R_refl)

lemma frames_gread: "frames R (gread f)"
  by (simp add: frames_def R_refl)

lemma frames_glift: "frames R (glift r)"
  by (simp add: frames_def R_refl)

lemma frames_gmodify: "(\<And>w. R w (f w)) \<Longrightarrow> frames R (gmodify f)"
  by (simp add: frames_def)

lemma frames_gbind:
  assumes "frames R m" and "\<And>x. frames R (k x)"
  shows "frames R (gbind m k)"
proof (rule framesI)
  fix w
  obtain r w' where m: "m w = (r, w')" by (cases "m w")
  with assms(1) have "R w w'" by (rule framesD2)
  moreover have "R w' (snd (k x w'))" for x using assms(2) by (rule framesD)
  ultimately show "R w (snd (gbind m k w))"
    by (cases r) (auto simp: gbind_def m intro: R_trans)
qed

lemma frames_gbind_val:
  assumes "frames R m" and "\<And>x w w'. m w = (Inr x, w') \<Longrightarrow> frames R (k x)"
  shows "frames R (gbind m k)"
proof (rule framesI)
  fix w
  obtain r w' where m: "m w = (r, w')" by (cases "m w")
  with assms(1) have rel: "R w w'" by (rule framesD2)
  show "R w (snd (gbind m k w))"
  proof (cases r)
    case (Inr x)
    with assms(2) m have "R w' (snd (k x w'))" by (blast intro: framesD)
    with Inr rel show ?thesis by (auto simp: gbind_def m intro: R_trans)
  qed (simp add: gbind_def m rel)
qed

lemma frames_gtry:
  assumes "frames R m" and "\<And>e. frames R (h e)" and "\<And>x. frames R (k x)"
  shows "frames R (gtry m h k)"
proof (rule framesI)
  fix w
  obtain r w' where m: "m w = (r, w')" by (cases "m w")
  with assms(1) have "R w w'" by (rule framesD2)
  moreover have "R w' (snd (k x w'))" for x using assms(3) by (rule framesD)
  moreover have "R w' (snd (h e w'))" for e using assms(2) by (rule framesD)
  ultimately show "R w (snd (gtry m h k w))"
    by (cases r) (auto simp: gtry_def m intro: R_trans)
qed

lemma frames_gresult: "frames R m \<Longrightarrow> frames R (gresult m)"
  unfolding gresult_def by (intro frames_gtry frames_gret)

lemma frames_gdefer: "frames R m \<Longrightarrow> frames R c \<Longrightarrow> frames R (gdefer m c)"
  by (force simp: frames_def gdefer_def intro: R_trans split: prod.split)

lemma frames_gforeach:
  "(\<And>x s. x \<in> set xs \<Longrightarrow> frames R (f x s)) \<Longrightarrow> frames R (gforeach f xs s)"
  by (induction xs arbitrary: s) (auto intro!: frames_gret frames_gbind)

lemma frames_if: "(b \<Longrightarrow> frames R m) \<Longrightarrow> (\<not> b \<Longrightarrow> frames R n) \<Longrightarrow> frames R (if b then m else n)"
  by simp

lemma frames_case_option:
  "(x = None \<Longrightarrow> frames R m) \<Longrightarrow> (\<And>y. x = Some y \<Longrightarrow> frames R (k y)) \<Longrightarrow>
   frames R (case x of None \<Rightarrow> m | Some y \<Rightarrow> k y)"
  by (cases x) auto

lemma frames_case_list:
  "(x = [] \<Longrightarrow> frames R m) \<Longrightarrow> (\<And>y ys. x = y # ys \<Longrightarrow> frames R (k y ys)) \<Longrightarrow>
   frames R (case x of [] \<Rightarrow> m | y # ys \<Rightarrow> k y ys)"
  by (cases x) auto

lemma frames_case_sum:
  "(\<And>e. x = Inl e \<Longrightarrow> frames R (h e)) \<Longrightarrow> (\<And>y. x = Inr y \<Longrightarrow> frames R (k y)) \<Longrightarrow>
   frames R (case x of Inl e \<Rightarrow> h e | Inr y \<Rightarrow> k y)"
  by (cases x) auto

lemma frames_case_prod:
  "(\<And>a b. x = (a, b) \<Longrightarrow> frames R (k a b)) \<Longrightarrow> frames R (case x of (a, b) \<Rightarrow> k a b)"
  by (cases x) auto

lemma frames_Let: "frames R (k x) \<Longrightarrow> frames R (let y = x in k y)"
  by simp

lemmas frames_combinators =
  frames_gret frames_gfail frames_gread frames_glift frames_gbind frames_gtry frames_gresult
  frames_gdefer frames_gforeach frames_if frames_case_option frames_case_list frames_case_sum frames_case_prod frames_Let

end

section \<open>Predicates on results\<close>

text \<open>\<open>returns S m\<close>: whenever \<open>m\<close> returns without an error, its result satisfies \<open>S\<close>.\<close>

definition returns :: "('a \<Rightarrow> bool) \<Rightarrow> ('w, 'a) go \<Rightarrow> bool" where
  "returns S m \<longleftrightarrow> (\<forall>w x w'. m w = (Inr x, w') \<longrightarrow> S x)"

lemma returnsD: "returns S m \<Longrightarrow> m w = (Inr x, w') \<Longrightarrow> S x"
  unfolding returns_def by blast

lemma returns_gret: "S x \<Longrightarrow> returns S (gret x)"
  by (simp add: returns_def)

lemma returns_gfail: "returns S (gfail e)"
  by (simp add: returns_def)

lemma returns_gbind_any: "(\<And>x. returns S (k x)) \<Longrightarrow> returns S (gbind m k)"
  unfolding returns_def gbind_returns by blast

lemma returns_gtry: "(\<And>e. returns S (h e)) \<Longrightarrow> (\<And>x. returns S (k x)) \<Longrightarrow> returns S (gtry m h k)"
  unfolding returns_def gtry_returns by blast

lemma returns_if: "(b \<Longrightarrow> returns S m1) \<Longrightarrow> (\<not> b \<Longrightarrow> returns S m2) \<Longrightarrow> returns S (if b then m1 else m2)"
  by simp

lemma returns_case_prod: "(\<And>a c. returns S (f a c)) \<Longrightarrow> returns S (case p of (a, c) \<Rightarrow> f a c)"
  by (cases p) simp

lemma returns_case_sum:
  "(\<And>e. returns S (h e)) \<Longrightarrow> (\<And>y. returns S (k y)) \<Longrightarrow> returns S (case r of Inl e \<Rightarrow> h e | Inr y \<Rightarrow> k y)"
  by (cases r) simp_all

lemma returns_case_option:
  "returns S m \<Longrightarrow> (\<And>y. returns S (k y)) \<Longrightarrow> returns S (case z of None \<Rightarrow> m | Some y \<Rightarrow> k y)"
  by (cases z) simp_all

lemmas returns_rules =
  returns_gret returns_gfail returns_gbind_any returns_gtry returns_if returns_case_prod returns_case_sum
  returns_case_option

lemma returns_gbind: "returns T m \<Longrightarrow> (\<And>x. T x \<Longrightarrow> returns S (k x)) \<Longrightarrow> returns S (gbind m k)"
  unfolding returns_def gbind_returns by blast

section \<open>Hoare triples\<close>

definition hoare :: "('w \<Rightarrow> bool) \<Rightarrow> ('w, 'a) go \<Rightarrow> ('a \<Rightarrow> 'w \<Rightarrow> bool) \<Rightarrow> (go_error \<Rightarrow> 'w \<Rightarrow> bool) \<Rightarrow> bool" where
  "hoare P m Q E \<longleftrightarrow> (\<forall>w. P w \<longrightarrow> (case m w of (Inr x, w') \<Rightarrow> Q x w' | (Inl e, w') \<Rightarrow> E e w'))"

lemma hoareD:
  "hoare P m Q E \<Longrightarrow> P w \<Longrightarrow> m w = (Inr x, w') \<Longrightarrow> Q x w'"
  "hoare P m Q E \<Longrightarrow> P w \<Longrightarrow> m w = (Inl e, w') \<Longrightarrow> E e w'"
  by (force simp: hoare_def)+

lemma hoareI:
  assumes "\<And>w x w'. P w \<Longrightarrow> m w = (Inr x, w') \<Longrightarrow> Q x w'"
    and "\<And>w e w'. P w \<Longrightarrow> m w = (Inl e, w') \<Longrightarrow> E e w'"
  shows "hoare P m Q E"
  using assms by (auto simp: hoare_def split: prod.splits sum.splits)

lemma hoare_weaken:
  "hoare P m Q E \<Longrightarrow> (\<And>w. P' w \<Longrightarrow> P w) \<Longrightarrow> (\<And>x w. Q x w \<Longrightarrow> Q' x w) \<Longrightarrow>
   (\<And>e w. E e w \<Longrightarrow> E' e w) \<Longrightarrow> hoare P' m Q' E'"
  by (fastforce simp: hoare_def split: prod.splits sum.splits)

lemma hoare_gret: "(\<And>w. P w \<Longrightarrow> Q x w) \<Longrightarrow> hoare P (gret x) Q E"
  by (simp add: hoare_def)

lemma hoare_gfail: "(\<And>w. P w \<Longrightarrow> E e w) \<Longrightarrow> hoare P (gfail e) Q E"
  by (simp add: hoare_def)

lemma hoare_gbind:
  "hoare P m Q E \<Longrightarrow> (\<And>x. hoare (Q x) (k x) S E) \<Longrightarrow> hoare P (gbind m k) S E"
  by (fastforce simp: hoare_def gbind_def split: prod.splits sum.splits)

lemma hoare_gtry:
  "hoare P m Q F \<Longrightarrow> (\<And>x. hoare (Q x) (k x) S E) \<Longrightarrow>
   (\<And>e. \<not> is_panic e \<Longrightarrow> hoare (F e) (h e) S E) \<Longrightarrow> (\<And>e w. is_panic e \<Longrightarrow> F e w \<Longrightarrow> E e w) \<Longrightarrow>
   hoare P (gtry m h k) S E"
  by (fastforce simp: hoare_def gtry_def split: prod.splits sum.splits)

section \<open>Go maps\<close>

text \<open>
  A Go map that the program ranges over is an association list with distinct keys.  Writing
  replaces the value in place or appends, so the list order stands for one order of \<open>range\<close>; where
  the code ranges over a map, the model applies a shuffle argument to the list first and the
  theorems hold for every shuffle that keeps the entries (\<open>is_shuffle\<close>).
\<close>

type_synonym ('k, 'v) gomap = "('k \<times> 'v) list"

abbreviation gm_get :: "('k, 'v) gomap \<Rightarrow> 'k \<Rightarrow> 'v option" where
  "gm_get m k \<equiv> map_of m k"

abbreviation gm_set :: "'k \<Rightarrow> 'v \<Rightarrow> ('k, 'v) gomap \<Rightarrow> ('k, 'v) gomap" where
  "gm_set k v m \<equiv> AList.update k v m"

abbreviation gm_del :: "'k \<Rightarrow> ('k, 'v) gomap \<Rightarrow> ('k, 'v) gomap" where
  "gm_del k m \<equiv> AList.delete k m"

definition is_shuffle :: "('a list \<Rightarrow> 'a list) \<Rightarrow> bool" where
  "is_shuffle f \<longleftrightarrow> (\<forall>xs. set (f xs) = set xs \<and> length (f xs) = length xs)"

lemma is_shuffle_set [simp]: "is_shuffle f \<Longrightarrow> set (f xs) = set xs"
  by (simp add: is_shuffle_def)

lemma is_shuffle_length [simp]: "is_shuffle f \<Longrightarrow> length (f xs) = length xs"
  by (simp add: is_shuffle_def)

lemma is_shuffle_Nil [simp]: "is_shuffle f \<Longrightarrow> f xs = [] \<longleftrightarrow> xs = []"
  by (metis is_shuffle_length length_0_conv)

lemma is_shuffle_id: "is_shuffle (\<lambda>xs. xs)"
  by (simp add: is_shuffle_def)

lemma is_shuffle_rev: "is_shuffle rev"
  by (simp add: is_shuffle_def)

lemma gm_get_mem: "distinct (map fst m) \<Longrightarrow> gm_get m k = Some v \<longleftrightarrow> (k, v) \<in> set m"
  by (simp add: map_of_eq_Some_iff)

section \<open>Lists\<close>

lemma find_Some_set: "find P xs = Some x \<Longrightarrow> x \<in> set xs \<and> P x"
  by (induction xs) (auto split: if_splits)

lemma find_None_set: "find P xs = None \<longleftrightarrow> (\<forall>x \<in> set xs. \<not> P x)"
  by (induction xs) auto

lemma find_append:
  "find P (xs @ ys) = (case find P xs of Some x \<Rightarrow> Some x | None \<Rightarrow> find P ys)"
  by (induction xs) auto

lemma concat_map_Nil: "concat (map f xs) = [] \<longleftrightarrow> (\<forall>x \<in> set xs. f x = [])"
  by auto

text \<open>An optional failure as a slice of failures: the \<open>if failure, valid := \<dots>; !valid\<close> idiom.\<close>

definition opt_list :: "'a option \<Rightarrow> 'a list" where
  "opt_list x = (case x of None \<Rightarrow> [] | Some y \<Rightarrow> [y])"

lemma opt_list_simps [simp]: "opt_list None = []" "opt_list (Some y) = [y]"
  by (simp_all add: opt_list_def)

lemma set_opt_list [simp]: "set (opt_list x) = set_option x"
  by (cases x) auto

lemma opt_list_Nil [simp]: "opt_list x = [] \<longleftrightarrow> x = None"
  by (cases x) auto

end
