(* ===== verification/GoStrings.thy ===== *)
theory GoStrings
  imports Prelude
begin

text \<open>
  The parts of Go's \<open>strings\<close>, \<open>strconv\<close> and \<open>fmt\<close> packages that the program uses, on
  \<open>string\<close> (a list of bytes).  Letters are folded and classified as the packages do for ASCII
  text; names that contain bytes of 128 and above are outside the model.
\<close>

section \<open>Characters\<close>

definition is_lower :: "char \<Rightarrow> bool" where
  "is_lower c \<longleftrightarrow> 97 \<le> (of_char c :: nat) \<and> (of_char c :: nat) \<le> 122"

definition is_upper :: "char \<Rightarrow> bool" where
  "is_upper c \<longleftrightarrow> 65 \<le> (of_char c :: nat) \<and> (of_char c :: nat) \<le> 90"

definition is_digit :: "char \<Rightarrow> bool" where
  "is_digit c \<longleftrightarrow> 48 \<le> (of_char c :: nat) \<and> (of_char c :: nat) \<le> 57"

definition lower_char :: "char \<Rightarrow> char" where
  "lower_char c = (if is_upper c then char_of ((of_char c :: nat) + 32) else c)"

definition ToLower :: "string \<Rightarrow> string" where
  "ToLower s = map lower_char s"

lemma is_lower_lower_char: "is_upper c \<Longrightarrow> is_lower (lower_char c)"
  by (simp add: lower_char_def is_upper_def is_lower_def)

lemma not_upper_lower_char: "\<not> is_upper (lower_char c)"
  by (auto simp: lower_char_def is_upper_def)

lemma length_ToLower [simp]: "length (ToLower s) = length s"
  by (simp add: ToLower_def)

lemma ToLower_Nil [simp]: "ToLower s = [] \<longleftrightarrow> s = []"
  by (simp add: ToLower_def)

section \<open>Searching and splitting\<close>

fun HasPrefix :: "string \<Rightarrow> string \<Rightarrow> bool" where
  "HasPrefix s [] = True"
| "HasPrefix [] (c # p) = False"
| "HasPrefix (d # s) (c # p) = (d = c \<and> HasPrefix s p)"

fun Contains :: "string \<Rightarrow> string \<Rightarrow> bool" where
  "Contains [] p = (p = [])"
| "Contains (c # s) p = (HasPrefix (c # s) p \<or> Contains s p)"

lemma HasPrefix_iff: "HasPrefix s p \<longleftrightarrow> (\<exists>t. s = p @ t)"
  by (induction s p rule: HasPrefix.induct) auto

lemma Contains_iff: "Contains s p \<longleftrightarrow> (\<exists>a b. s = a @ p @ b)"
proof (induction s)
  case Nil
  then show ?case by simp
next
  case (Cons c s)
  note IH = Cons.IH
  show ?case
  proof
    assume "Contains (c # s) p"
    then consider t where "c # s = p @ t" | a b where "s = a @ p @ b"
      by (auto simp: HasPrefix_iff IH)
    then show "\<exists>a b. c # s = a @ p @ b"
      by cases (metis append_Nil, metis append_Cons)
  next
    assume "\<exists>a b. c # s = a @ p @ b"
    then obtain a b where ab: "c # s = a @ p @ b" by blast
    show "Contains (c # s) p"
    proof (cases a)
      case Nil
      with ab have "HasPrefix (c # s) p" by (simp add: HasPrefix_iff)
      then show ?thesis by simp
    next
      case (Cons x xs)
      with ab have "s = xs @ p @ b" by simp
      with IH show ?thesis by auto
    qed
  qed
qed

lemma Contains_char: "Contains s [c] \<longleftrightarrow> c \<in> set s"
  by (auto simp: Contains_iff in_set_conv_decomp)

text \<open>\<open>strings.Split(s, sep)\<close> for a separator of one character.\<close>

fun Split :: "string \<Rightarrow> char \<Rightarrow> string list" where
  "Split [] sep = [[]]"
| "Split (c # s) sep =
     (if c = sep then [] # Split s sep
      else case Split s sep of [] \<Rightarrow> [[c]] | p # ps \<Rightarrow> (c # p) # ps)"

fun Join :: "string list \<Rightarrow> string \<Rightarrow> string" where
  "Join [] sep = []"
| "Join [s] sep = s"
| "Join (s # t # ss) sep = s @ sep @ Join (t # ss) sep"

lemma Split_not_Nil [simp]: "Split s sep \<noteq> []"
  by (induction s) (auto split: list.splits)

lemma Join_Split: "Join (Split s sep) [sep] = s"
proof (induction s)
  case Nil
  then show ?case by simp
next
  case (Cons c s)
  obtain p ps where ps: "Split s sep = p # ps" by (cases "Split s sep") auto
  with Cons.IH show ?case by (cases ps) (auto simp: ps)
qed

lemma Split_no_sep: "sep \<notin> set s \<Longrightarrow> Split s sep = [s]"
  by (induction s) auto

lemma Split_append_sep: "sep \<notin> set s \<Longrightarrow> Split (s @ sep # t) sep = s # Split t sep"
  by (induction s) auto

definition TrimRight :: "string \<Rightarrow> string \<Rightarrow> string" where
  "TrimRight s cutset = rev (dropWhile (\<lambda>c. c \<in> set cutset) (rev s))"

definition EqualFold :: "string \<Rightarrow> string \<Rightarrow> bool" where
  "EqualFold s t \<longleftrightarrow> ToLower s = ToLower t"

text \<open>\<open>strings.Replace(s, c, d, -1)\<close> for one character replaced by another.\<close>

definition ReplaceChar :: "string \<Rightarrow> char \<Rightarrow> char \<Rightarrow> string" where
  "ReplaceChar s c d = map (\<lambda>x. if x = c then d else x) s"

section \<open>Numbers\<close>

definition digit_char :: "nat \<Rightarrow> char" where
  "digit_char d = char_of (48 + d)"

definition digit_val :: "char \<Rightarrow> nat" where
  "digit_val c = of_char c - 48"

fun show_nat :: "nat \<Rightarrow> string" where
  "show_nat n = (if n < 10 then [digit_char n] else show_nat (n div 10) @ [digit_char (n mod 10)])"

declare show_nat.simps [simp del]

definition Itoa :: "int \<Rightarrow> string" where
  "Itoa i = (if i < 0 then CHR ''-'' # show_nat (nat (- i)) else show_nat (nat i))"

definition read_nat :: "string \<Rightarrow> nat" where
  "read_nat s = foldl (\<lambda>n c. 10 * n + digit_val c) 0 s"

definition min_int64 :: int where "min_int64 = - (2 ^ 63)"
definition max_int64 :: int where "max_int64 = 2 ^ 63 - 1"

text \<open>\<open>strconv.Atoi\<close> on a 64-bit platform: an optional sign, then decimal digits, in range.\<close>

definition Atoi :: "string \<Rightarrow> int option" where
  "Atoi s =
     (let neg = (s \<noteq> [] \<and> hd s = CHR ''-'');
          digits = (if s \<noteq> [] \<and> (hd s = CHR ''-'' \<or> hd s = CHR ''+'') then tl s else s)
      in if digits = [] \<or> \<not> list_all is_digit digits then None
         else let v = (if neg then - int (read_nat digits) else int (read_nat digits))
              in if min_int64 \<le> v \<and> v \<le> max_int64 then Some v else None)"

text \<open>Two's complement wrap-around of a 64-bit signed result.\<close>

definition wrap64 :: "int \<Rightarrow> int" where
  "wrap64 x = (x + 2 ^ 63) mod 2 ^ 64 - 2 ^ 63"

lemma wrap64_id: "min_int64 \<le> x \<Longrightarrow> x \<le> max_int64 \<Longrightarrow> wrap64 x = x"
  by (simp add: wrap64_def min_int64_def max_int64_def)

lemma is_digit_digit_char: "d < 10 \<Longrightarrow> is_digit (digit_char d)"
  by (simp add: is_digit_def digit_char_def)

lemma digit_val_digit_char: "d < 10 \<Longrightarrow> digit_val (digit_char d) = d"
  by (simp add: digit_val_def digit_char_def)

lemma digit_val_bound: "is_digit c \<Longrightarrow> digit_val c < 10"
  unfolding is_digit_def digit_val_def by linarith

lemma show_nat_not_Nil [simp]: "show_nat n \<noteq> []"
  by (subst show_nat.simps) simp

lemma show_nat_digits: "list_all is_digit (show_nat n)"
proof (induction n rule: show_nat.induct)
  case (1 n)
  then show ?case
    by (subst show_nat.simps) (simp add: is_digit_digit_char)
qed

lemma read_nat_append: "read_nat (s @ [c]) = 10 * read_nat s + digit_val c"
  by (simp add: read_nat_def)

lemma read_show_nat [simp]: "read_nat (show_nat n) = n"
proof (induction n rule: show_nat.induct)
  case (1 n)
  show ?case
  proof (cases "n < 10")
    case True
    then show ?thesis
      by (subst show_nat.simps) (simp add: read_nat_def digit_val_digit_char)
  next
    case False
    with "1.IH" show ?thesis
      by (subst show_nat.simps) (simp add: read_nat_append digit_val_digit_char)
  qed
qed

lemma hd_show_nat_digit: "is_digit (hd (show_nat n))"
  using show_nat_digits [of n] by (cases "show_nat n") auto

lemma sign_not_digit: "\<not> is_digit CHR ''-''" "\<not> is_digit CHR ''+''"
  by (simp_all add: is_digit_def)

theorem Atoi_Itoa:
  assumes "min_int64 \<le> i" and "i \<le> max_int64"
  shows "Atoi (Itoa i) = Some i"
proof (cases "i < 0")
  case True
  with assms show ?thesis
    by (simp add: Atoi_def Itoa_def Let_def show_nat_digits)
next
  case False
  then have s: "Itoa i = show_nat (nat i)" by (simp add: Itoa_def)
  have "hd (show_nat (nat i)) \<noteq> CHR ''-''" "hd (show_nat (nat i)) \<noteq> CHR ''+''"
    using hd_show_nat_digit [of "nat i"] sign_not_digit by metis+
  with assms False show ?thesis
    by (simp add: Atoi_def s Let_def show_nat_digits)
qed

lemma length_show_nat: "n < 10 ^ Suc k \<Longrightarrow> length (show_nat n) \<le> Suc k"
proof (induction k arbitrary: n)
  case 0
  then show ?case by (subst show_nat.simps) simp
next
  case (Suc k)
  then have "n div 10 < 10 ^ Suc k" by (simp add: less_mult_imp_div_less)
  with Suc.IH have "length (show_nat (n div 10)) \<le> Suc k" by blast
  then show ?case by (subst show_nat.simps) simp
qed

end
