(* ===== verification/ImportTypes.thy ===== *)
theory ImportTypes
  imports GoStrings
begin

text \<open>
  The custom resources of \<open>pkg/apis/v2v/v1beta1\<close>: the virtual machine import with its spec,
  status and conditions, and the resource mappings.  Pointers are options; the typed string
  constants of the package are datatypes with the strings they stand for.  A nil map reads as an
  empty one in Go, and the code makes a nil annotation map before it writes to it, so the
  annotations and labels of the import are plain maps.  Times are seconds.
\<close>

section \<open>Conditions\<close>

datatype condition_type = Succeeded | Valid | MappingRulesVerified | Processing

datatype condition_status = ConditionTrue | ConditionFalse | ConditionUnknown

datatype SucceededConditionReason =
    ValidationFailed | VMTemplateMatchingFailed | VMCreationFailed | DataVolumeCreationFailed
  | GuestConversionFailed | VirtualMachineReady | VirtualMachineRunning

datatype ValidConditionReason =
    ValidationCompleted | SecretNotFound | ResourceMappingNotFound | UninitializedProvider
  | UnreachableProvider | SourceVMNotFound | IncompleteMappingRules | ValidationReportedWarnings

datatype MappingRulesVerifiedReason =
    MappingRulesVerificationCompleted | MappingRulesVerificationFailed
  | MappingRulesVerificationReportedWarnings

datatype ProcessingConditionReason =
    VMTemplateMatching | CreatingTargetVM | CopyingDisks | ConvertingGuest
  | ProcessingCompleted | ProcessingFailed | Pending

fun succeeded_reason :: "SucceededConditionReason \<Rightarrow> string" where
  "succeeded_reason ValidationFailed = ''ValidationFailed''"
| "succeeded_reason VMTemplateMatchingFailed = ''VMTemplateMatchingFailed''"
| "succeeded_reason VMCreationFailed = ''VMCreationFailed''"
| "succeeded_reason DataVolumeCreationFailed = ''DataVolumeCreationFailed''"
| "succeeded_reason GuestConversionFailed = ''GuestConversionFailed''"
| "succeeded_reason VirtualMachineReady = ''VirtualMachineReady''"
| "succeeded_reason VirtualMachineRunning = ''VirtualMachineRunning''"

fun valid_reason :: "ValidConditionReason \<Rightarrow> string" where
  "valid_reason ValidationCompleted = ''ValidationCompleted''"
| "valid_reason SecretNotFound = ''SecretNotFound''"
| "valid_reason ResourceMappingNotFound = ''ResourceMappingNotFound''"
| "valid_reason UninitializedProvider = ''UninitializedProvider''"
| "valid_reason UnreachableProvider = ''UnreachableProvider''"
| "valid_reason SourceVMNotFound = ''SourceVMNotFound''"
| "valid_reason IncompleteMappingRules = ''IncompleteMappingRules''"
| "valid_reason ValidationReportedWarnings = ''ValidationReportedWarnings''"

fun mapping_reason :: "MappingRulesVerifiedReason \<Rightarrow> string" where
  "mapping_reason MappingRulesVerificationCompleted = ''MappingRulesVerificationCompleted''"
| "mapping_reason MappingRulesVerificationFailed = ''MappingRulesVerificationFailed''"
| "mapping_reason MappingRulesVerificationReportedWarnings = ''MappingRulesVerificationReportedWarnings''"

fun processing_reason :: "ProcessingConditionReason \<Rightarrow> string" where
  "processing_reason VMTemplateMatching = ''VMTemplateMatching''"
| "processing_reason CreatingTargetVM = ''CreatingTargetVM''"
| "processing_reason CopyingDisks = ''CopyingDisks''"
| "processing_reason ConvertingGuest = ''ConvertingGuest''"
| "processing_reason ProcessingCompleted = ''ProcessingCompleted''"
| "processing_reason ProcessingFailed = ''ProcessingFailed''"
| "processing_reason Pending = ''Pending''"

lemma succeeded_reason_inject [simp]: "succeeded_reason r = succeeded_reason s \<longleftrightarrow> r = s"
  by (cases r; cases s) simp_all

type_synonym time = int

record condition =
  c_type :: condition_type
  c_status :: condition_status
  c_reason :: "string option"
  c_message :: "string option"
  c_heartbeat :: "time option"
  c_transition :: "time option"

section \<open>Resource mappings\<close>

record object_identifier =
  oi_name :: string
  oi_namespace :: "string option"

text \<open>The \<open>Source\<close> of a mapping item: how a resource is identified on the provider.\<close>

record source_id =
  src_name :: "string option"
  src_id :: "string option"

record network_item =
  ni_source :: source_id
  ni_target :: object_identifier
  ni_type :: "string option"

record storage_item =
  si_source :: source_id
  si_target :: object_identifier
  si_volume_mode :: "string option"

text \<open>\<open>OvirtMappings\<close> and \<open>VmwareMappings\<close> have the same three fields.\<close>

record resource_mappings =
  rm_network :: "network_item list option"
  rm_storage :: "storage_item list option"
  rm_disk :: "storage_item list option"

record mapping_spec =
  ms_ovirt :: "resource_mappings option"
  ms_vmware :: "resource_mappings option"

section \<open>The virtual machine import\<close>

record ovirt_source =
  os_vm_id :: "string option"
  os_vm_name :: "string option"
  os_cluster :: "(string option \<times> string option) option"  \<comment> \<open>id and name\<close>
  os_mappings :: "resource_mappings option"

record vmware_source =
  vs_vm_id :: "string option"
  vs_vm_name :: "string option"
  vs_mappings :: "resource_mappings option"

record source_spec =
  ss_ovirt :: "ovirt_source option"
  ss_vmware :: "vmware_source option"

record vmi_spec =
  sp_credentials :: object_identifier
  sp_resource_mapping :: "object_identifier option"
  sp_source :: source_spec
  sp_target_vm_name :: "string option"
  sp_start_vm :: "bool option"

record vmi_status =
  st_target_vm_name :: string
  st_conditions :: "condition list"
  st_data_volumes :: "string list"

record vmimport =
  vi_name :: string
  vi_namespace :: string
  vi_annotations :: "string \<rightharpoonup> string"
  vi_labels :: "string \<rightharpoonup> string"
  vi_finalizers :: "string list"
  vi_deletion :: "time option"
  vi_creation :: time
  vi_uid :: string
  vi_spec :: vmi_spec
  vi_status :: vmi_status

text \<open>\<open>types.NamespacedName\<close>: namespace and name.\<close>

type_synonym nsname = "string \<times> string"

definition vi_key :: "vmimport \<Rightarrow> nsname" where
  "vi_key v = (vi_namespace v, vi_name v)"

abbreviation vi_conditions :: "vmimport \<Rightarrow> condition list" where
  "vi_conditions v \<equiv> st_conditions (vi_status v)"

definition set_conditions :: "vmimport \<Rightarrow> condition list \<Rightarrow> vmimport" where
  "set_conditions v cs = v\<lparr>vi_status := (vi_status v)\<lparr>st_conditions := cs\<rparr>\<rparr>"

lemma set_conditions_simps [simp]:
  "vi_conditions (set_conditions v cs) = cs"
  "vi_name (set_conditions v cs) = vi_name v"
  "vi_namespace (set_conditions v cs) = vi_namespace v"
  "vi_annotations (set_conditions v cs) = vi_annotations v"
  "vi_labels (set_conditions v cs) = vi_labels v"
  "vi_finalizers (set_conditions v cs) = vi_finalizers v"
  "vi_deletion (set_conditions v cs) = vi_deletion v"
  "vi_spec (set_conditions v cs) = vi_spec v"
  "st_target_vm_name (vi_status (set_conditions v cs)) = st_target_vm_name (vi_status v)"
  "st_data_volumes (vi_status (set_conditions v cs)) = st_data_volumes (vi_status v)"
  by (simp_all add: set_conditions_def)

lemma vi_key_set_conditions [simp]: "vi_key (set_conditions v cs) = vi_key v"
  by (simp add: vi_key_def)

end
