(* ===== verification/Utils.thy ===== *)
theory Utils
  imports ImportTypes
begin

text \<open>
  \<open>pkg/utils/utils.go\<close>, the pure part: loggable names, indexing of mappings, normalisation of
  names and labels to DNS 1123, formatting of byte counts, and UTC offsets.  The DNS 1123
  predicates translate the regular expressions of \<open>k8s.io/apimachinery/pkg/util/validation\<close>.
  The time-zone database that \<open>time.LoadLocation\<close> reads is a parameter.
\<close>

section \<open>Loggable names\<close>

definition GetMapKeys :: "(string \<times> string) list \<Rightarrow> string list" where
  "GetMapKeys kvs = map fst kvs"

definition ToLoggableResourceName :: "string \<Rightarrow> string option \<Rightarrow> string" where
  "ToLoggableResourceName name namespace =
     (case namespace of None \<Rightarrow> name | Some ns \<Rightarrow> ns @ ''/'' @ name)"

definition ToLoggableID :: "string option \<Rightarrow> string option \<Rightarrow> string" where
  "ToLoggableID ident name =
     (let identifier = (case ident of None \<Rightarrow> [] | Some i \<Rightarrow> i)
      in case name of
           None \<Rightarrow> identifier
         | Some n \<Rightarrow> n @ (if identifier \<noteq> [] then ''('' @ identifier @ '')'' else identifier))"

definition WithMessage :: "string \<Rightarrow> string \<Rightarrow> string" where
  "WithMessage message newMessage = (if message = [] then newMessage else message @ '', '' @ newMessage)"

section \<open>Indexing of mapping items\<close>

text \<open>
  The \<open>for\<close> loop stores each item under its id and under its name: later items overwrite.
  One function serves both item types, as the two Go functions differ in the item type only.
\<close>

fun index_by :: "('i \<Rightarrow> source_id) \<Rightarrow> 'i list \<Rightarrow> (string, 'i) gomap \<times> (string, 'i) gomap \<Rightarrow>
    (string, 'i) gomap \<times> (string, 'i) gomap" where
  "index_by src [] (byID, byName) = (byID, byName)"
| "index_by src (item # items) (byID, byName) =
     index_by src items
       ((case src_id (src item) of None \<Rightarrow> byID | Some i \<Rightarrow> gm_set i item byID),
        (case src_name (src item) of None \<Rightarrow> byName | Some n \<Rightarrow> gm_set n item byName))"

definition IndexStorageItemByIDAndName ::
    "storage_item list \<Rightarrow> (string, storage_item) gomap \<times> (string, storage_item) gomap" where
  "IndexStorageItemByIDAndName items = index_by si_source items ([], [])"

definition IndexNetworkByIDAndName ::
    "network_item list \<Rightarrow> (string, network_item) gomap \<times> (string, network_item) gomap" where
  "IndexNetworkByIDAndName items = index_by ni_source items ([], [])"

section \<open>DNS 1123 names\<close>

definition is_alnum :: "char \<Rightarrow> bool" where
  "is_alnum c \<longleftrightarrow> is_lower c \<or> is_digit c"

definition label_char :: "char \<Rightarrow> bool" where
  "label_char c \<longleftrightarrow> is_alnum c \<or> c = CHR ''-''"

text \<open>\<open>[a-z0-9]([-a-z0-9]*[a-z0-9])?\<close>\<close>

definition dns1123_label :: "string \<Rightarrow> bool" where
  "dns1123_label s \<longleftrightarrow> s \<noteq> [] \<and> is_alnum (hd s) \<and> is_alnum (last s) \<and> list_all label_char s"

definition DNS1123SubdomainMaxLength :: nat where "DNS1123SubdomainMaxLength = 253"
definition LabelValueMaxLength :: nat where "LabelValueMaxLength = 63"

text \<open>The validators return the list of errors; the code only asks whether it is empty.\<close>

definition IsDNS1123Label :: "string \<Rightarrow> bool" where
  "IsDNS1123Label s \<longleftrightarrow> length s \<le> LabelValueMaxLength \<and> dns1123_label s"

definition IsDNS1123Subdomain :: "string \<Rightarrow> bool" where
  "IsDNS1123Subdomain s \<longleftrightarrow>
     length s \<le> DNS1123SubdomainMaxLength \<and> list_all dns1123_label (Split s CHR ''.'')"

definition IndexFunc :: "string \<Rightarrow> (char \<Rightarrow> bool) \<Rightarrow> nat option" where
  "IndexFunc s P = (let k = length (takeWhile (\<lambda>c. \<not> P c) s) in if k < length s then Some k else None)"

definition LastIndexFunc :: "string \<Rightarrow> (char \<Rightarrow> bool) \<Rightarrow> nat option" where
  "LastIndexFunc s P =
     (let k = length (takeWhile (\<lambda>c. \<not> P c) (rev s)) in if k < length s then Some (length s - 1 - k) else None)"

definition normalize :: "string \<Rightarrow> go_error + string" where
  "normalize s =
     (let name = ReplaceChar (ToLower s) CHR ''.'' CHR ''-''
      in case (IndexFunc name is_alnum, LastIndexFunc name is_alnum) of
           (Some firstLegal, Some lastLegal) \<Rightarrow>
             Inr (filter label_char (take (lastLegal + 1 - firstLegal) (drop firstLegal name)))
         | _ \<Rightarrow> Inl (errorf ''The name doesn't contain a legal alphanumeric character''))"

definition NormalizeName :: "string \<Rightarrow> go_error + string" where
  "NormalizeName s =
     (if length s = 0 then Inl (errorf ''The provided name is empty'')
      else if IsDNS1123Subdomain s then Inr s
      else rbind (normalize s) (\<lambda>name. Inr (take DNS1123SubdomainMaxLength name)))"

definition EnsureLabelValueLength :: "string \<Rightarrow> string" where
  "EnsureLabelValueLength value =
     (let n = length value
      in if n > LabelValueMaxLength
         then let suffix = Itoa (int n);
                  maxNameLen = LabelValueMaxLength - length suffix - 1
              in take maxNameLen value @ ''-'' @ suffix
         else value)"

definition NormalizeLabel :: "string \<Rightarrow> go_error + string" where
  "NormalizeLabel s =
     (if length s = 0 then Inl (errorf ''The provided label is empty'')
      else if IsDNS1123Label s then Inr s
      else rbind (normalize s) (\<lambda>name. Inr (EnsureLabelValueLength name)))"

section \<open>Maps and counts\<close>

definition AppendMap :: "(string \<rightharpoonup> string) \<Rightarrow> (string \<rightharpoonup> string) \<Rightarrow> (string \<rightharpoonup> string)" where
  "AppendMap origin newMap = origin ++ newMap"

definition CountImportedDataVolumes :: "(string \<times> bool) list \<Rightarrow> nat" where
  "CountImportedDataVolumes dvsDone = foldl (\<lambda>done kv. if snd kv then done + 1 else done) 0 dvsDone"

section \<open>Byte counts\<close>

definition KiB :: int where "KiB = 1024"

text \<open>The loop \<open>for i := bytes / kib; i >= kib; i /= kib\<close>, with the 64-bit product \<open>n *= kib\<close>.\<close>

function format_loop :: "int \<Rightarrow> int \<Rightarrow> nat \<Rightarrow> int \<times> nat" where
  "format_loop i n suffix =
     (if i \<ge> KiB then format_loop (i div KiB) (wrap64 (n * KiB)) (suffix + 1) else (n, suffix))"
  by pat_completeness auto
termination
  by (relation "measure (\<lambda>(i, n, s). nat i)") (auto simp: KiB_def)

declare format_loop.simps [simp del]

definition FormatBytes :: "int \<Rightarrow> go_error + string" where
  "FormatBytes bytes =
     (if bytes < 0 then Inl (errorf ''bytes can't be negative'')
      else if bytes < KiB then Inr (Itoa bytes)
      else let (n, suffix) = format_loop (bytes div KiB) KiB 0
           in if bytes mod n > 0 then Inr (Itoa bytes)
              else if suffix < 6 then Inr (Itoa (bytes div n) @ [''KMGTPE'' ! suffix] @ ''i'')
              else Inl (GoErr Panicked ''index out of range''))"

section \<open>Time zones\<close>

text \<open>
  What the program reads of a location of the time-zone database: its name and its offsets now,
  on the first of January and on the first of July of the current year.
\<close>

record tz_location =
  tz_name :: string
  tz_offset_now :: int
  tz_offset_winter :: int
  tz_offset_summer :: int

definition hasNoTimeChange :: "tz_location \<Rightarrow> bool" where
  "hasNoTimeChange loc =
     (if tz_name loc = ''Africa/El_Aaiun'' then False
      else tz_offset_winter loc = tz_offset_summer loc)"

definition IsUtcCompatible :: "(string \<Rightarrow> tz_location option) \<Rightarrow> string \<Rightarrow> bool" where
  "IsUtcCompatible LoadLocation timezone =
     (if timezone \<in> {''GMT Standard Time'', ''Greenwich Standard Time''} then True
      else case LoadLocation timezone of
             None \<Rightarrow> False
           | Some loc \<Rightarrow> tz_offset_now loc = 0 \<and> hasNoTimeChange loc)"

definition ParseUtcOffsetToSeconds :: "string \<Rightarrow> go_error + int" where
  "ParseUtcOffsetToSeconds offset =
     (if length offset \<noteq> 6 then Inl (errorf (''utc offset string has illegal length: '' @ offset))
      else if offset ! 0 \<noteq> CHR ''+'' \<and> offset ! 0 \<noteq> CHR ''-''
      then Inl (errorf (''utc offset string does not start with a sign character: '' @ offset))
      else let multiplier = (if offset ! 0 = CHR ''+'' then 1 else -1)
      in case Split (tl offset) CHR '':'' of
           [h, m] \<Rightarrow>
             (case Atoi h of
                None \<Rightarrow> Inl (errorf (''utc offset hours segment is malformed: '' @ offset))
              | Some hours \<Rightarrow>
                 (case Atoi m of
                    None \<Rightarrow> Inl (errorf (''utc offset minutes segment is malformed: '' @ offset))
                  | Some minutes \<Rightarrow> Inr (multiplier * 60 * (hours * 60 + minutes))))
         | _ \<Rightarrow> Inl (errorf (''utc offset string is malformed: '' @ offset)))"

definition FoldCleanUpErrors :: "go_error list \<Rightarrow> nsname \<Rightarrow> go_error" where
  "FoldCleanUpErrors errs vmiName =
     errorf (''clean-up for '' @ ToLoggableResourceName (snd vmiName) (Some (fst vmiName)) @ '' failed: '' @
       foldl (\<lambda>message e. WithMessage message (emsg e)) [] errs)"

section \<open>Lemmas\<close>

lemma WithMessage_Nil [simp]: "WithMessage m n = [] \<longleftrightarrow> m = [] \<and> n = []"
  by (simp add: WithMessage_def)

lemma index_by_id:
  "gm_get (fst (index_by src items (a, b))) k =
     (case find (\<lambda>i. src_id (src i) = Some k) (rev items) of Some i \<Rightarrow> Some i | None \<Rightarrow> gm_get a k)"
proof (induction items arbitrary: a b)
  case (Cons i items)
  then show ?case
    by (cases "src_id (src i)") (auto simp: find_append update_conv' split: option.split)
qed simp

lemma index_by_name:
  "gm_get (snd (index_by src items (a, b))) k =
     (case find (\<lambda>i. src_name (src i) = Some k) (rev items) of Some i \<Rightarrow> Some i | None \<Rightarrow> gm_get b k)"
proof (induction items arbitrary: a b)
  case (Cons i items)
  then show ?case
    by (cases "src_name (src i)") (auto simp: find_append update_conv' split: option.split)
qed simp

lemma index_by_distinct:
  "distinct (map fst a) \<Longrightarrow> distinct (map fst b) \<Longrightarrow>
   distinct (map fst (fst (index_by src items (a, b)))) \<and> distinct (map fst (snd (index_by src items (a, b))))"
proof (induction items arbitrary: a b)
  case (Cons i items)
  then show ?case by (auto simp: distinct_update split: option.split)
qed simp

lemma index_by_id_Some:
  "gm_get (fst (index_by src items ([], []))) k = Some i \<Longrightarrow> i \<in> set items \<and> src_id (src i) = Some k"
  by (auto simp: index_by_id dest!: find_Some_set split: option.splits)

lemma index_by_name_Some:
  "gm_get (snd (index_by src items ([], []))) k = Some i \<Longrightarrow> i \<in> set items \<and> src_name (src i) = Some k"
  by (auto simp: index_by_name dest!: find_Some_set split: option.splits)

lemma IndexFunc_Some:
  assumes "IndexFunc s P = Some i"
  shows "i < length s" and "P (s ! i)"
  using assms nth_length_takeWhile [of "\<lambda>c. \<not> P c" s]
  by (auto simp: IndexFunc_def Let_def split: if_splits)

lemma IndexFunc_first:
  assumes "IndexFunc s P = Some i" and "j < i"
  shows "\<not> P (s ! j)"
proof -
  have "j < length (takeWhile (\<lambda>c. \<not> P c) s)" using assms by (auto simp: IndexFunc_def Let_def split: if_splits)
  then show ?thesis using nth_mem [of j "takeWhile (\<lambda>c. \<not> P c) s"] set_takeWhileD takeWhile_nth by metis
qed

lemma LastIndexFunc_Some:
  assumes "LastIndexFunc s P = Some j"
  shows "j < length s" and "P (s ! j)"
proof -
  let ?k = "length (takeWhile (\<lambda>c. \<not> P c) (rev s))"
  from assms have k: "?k < length s" and j: "j = length s - 1 - ?k"
    by (auto simp: LastIndexFunc_def Let_def split: if_splits)
  then show "j < length s" by simp
  have "P (rev s ! ?k)" using nth_length_takeWhile [of "\<lambda>c. \<not> P c" "rev s"] k by simp
  then show "P (s ! j)" using k j by (simp add: rev_nth)
qed

lemma LastIndexFunc_last:
  assumes "LastIndexFunc s P = Some j" and "j < i" and "i < length s"
  shows "\<not> P (s ! i)"
proof -
  let ?t = "takeWhile (\<lambda>c. \<not> P c) (rev s)"
  from assms have k: "length ?t < length s" and j: "j = length s - 1 - length ?t"
    by (auto simp: LastIndexFunc_def Let_def split: if_splits)
  let ?m = "length s - 1 - i"
  have m: "?m < length ?t" using assms k j by linarith
  then have "\<not> P (rev s ! ?m)"
    using nth_mem [of ?m ?t] set_takeWhileD takeWhile_nth by metis
  moreover have "rev s ! ?m = s ! i" using assms(3) by (simp add: rev_nth)
  ultimately show ?thesis by simp
qed

lemma First_le_Last:
  "IndexFunc s P = Some i \<Longrightarrow> LastIndexFunc s P = Some j \<Longrightarrow> i \<le> j"
  using IndexFunc_Some [of s P i] LastIndexFunc_last [of s P j i] by (meson not_le_imp_less)

lemma last_filter: "xs \<noteq> [] \<Longrightarrow> P (last xs) \<Longrightarrow> last (filter P xs) = last xs"
  by (cases xs rule: rev_cases) auto

lemma hd_filter: "xs \<noteq> [] \<Longrightarrow> P (hd xs) \<Longrightarrow> filter P xs \<noteq> [] \<and> hd (filter P xs) = hd xs"
  by (cases xs) auto

lemma is_alnum_label: "is_alnum c \<Longrightarrow> label_char c"
  by (simp add: label_char_def)

lemma normalize_label:
  assumes "normalize s = Inr r"
  shows "dns1123_label r"
proof -
  define n where "n = ReplaceChar (ToLower s) CHR ''.'' CHR ''-''"
  from assms obtain i j where ij: "IndexFunc n is_alnum = Some i" "LastIndexFunc n is_alnum = Some j"
    and r: "r = filter label_char (take (j + 1 - i) (drop i n))"
    by (auto simp: normalize_def n_def Let_def split: option.splits)
  let ?t = "take (j + 1 - i) (drop i n)"
  note i = IndexFunc_Some [OF ij(1)] and j = LastIndexFunc_Some [OF ij(2)] and le = First_le_Last [OF ij]
  have len: "length ?t = j + 1 - i" using i j le by simp
  then have ne: "?t \<noteq> []" using le by auto
  have "hd ?t = n ! i" using ne i by (simp add: hd_drop_conv_nth)
  moreover have "last ?t = n ! j"
    using ne len i j le by (simp add: last_conv_nth)
  ultimately have al: "is_alnum (hd ?t)" "is_alnum (last ?t)" using i j by simp_all
  have "r \<noteq> [] \<and> hd r = hd ?t" unfolding r using ne al is_alnum_label by (intro hd_filter)
  moreover have "last r = last ?t" unfolding r using ne al is_alnum_label by (intro last_filter)
  moreover have "list_all label_char r" by (simp add: r list_all_iff)
  ultimately show ?thesis using al by (simp add: dns1123_label_def)
qed

lemma dot_not_label: "\<not> label_char CHR ''.''"
  by (simp add: label_char_def is_alnum_def is_lower_def is_digit_def)

lemma Split_label: "list_all label_char s \<Longrightarrow> Split s CHR ''.'' = [s]"
  by (rule Split_no_sep) (auto simp: list_all_iff dot_not_label)

lemma last_Join: "ps \<noteq> [] \<Longrightarrow> last ps \<noteq> [] \<Longrightarrow> Join ps sep \<noteq> [] \<and> last (Join ps sep) = last (last ps)"
  by (induction ps sep rule: Join.induct) auto

lemma subdomain_last:
  assumes "IsDNS1123Subdomain s"
  shows "s \<noteq> [] \<and> is_alnum (last s)"
proof -
  let ?ps = "Split s CHR ''.''"
  from assms have "dns1123_label (last ?ps)"
    by (simp add: IsDNS1123Subdomain_def list_all_iff)
  then have ne: "last ?ps \<noteq> []" and al: "is_alnum (last (last ?ps))"
    by (simp_all add: dns1123_label_def)
  have "Join ?ps [CHR ''.''] \<noteq> [] \<and> last (Join ?ps [CHR ''.'']) = last (last ?ps)"
    by (rule last_Join) (simp_all add: ne)
  then show ?thesis using al by (simp add: Join_Split)
qed

lemma take_label:
  assumes "dns1123_label r" and "0 < k"
  shows "take k r \<noteq> [] \<and> is_alnum (hd (take k r)) \<and> list_all label_char (take k r)"
  using assms by (auto simp: dns1123_label_def list_all_iff dest: in_set_takeD)

lemma label_subdomain:
  "r \<noteq> [] \<Longrightarrow> is_alnum (hd r) \<Longrightarrow> list_all label_char r \<Longrightarrow> length r \<le> DNS1123SubdomainMaxLength \<Longrightarrow>
   IsDNS1123Subdomain r \<longleftrightarrow> is_alnum (last r)"
  by (simp add: IsDNS1123Subdomain_def Split_label dns1123_label_def)

subsection \<open>Label length\<close>

lemma suffix_length:
  assumes "int n \<le> max_int64"
  shows "length (Itoa (int n)) \<le> 19"
proof -
  have "n < 10 ^ Suc 18" using assms by (simp add: max_int64_def)
  from length_show_nat [OF this] show ?thesis by (simp add: Itoa_def)
qed

lemma EnsureLabel_short: "length v \<le> LabelValueMaxLength \<Longrightarrow> EnsureLabelValueLength v = v"
  by (simp add: EnsureLabelValueLength_def Let_def)

lemma EnsureLabel_long:
  assumes "length v > LabelValueMaxLength" and "int (length v) \<le> max_int64"
  shows "\<exists>k. 43 \<le> k \<and> k + 1 + length (Itoa (int (length v))) = LabelValueMaxLength \<and>
     EnsureLabelValueLength v = take k v @ ''-'' @ Itoa (int (length v))"
  using suffix_length [OF assms(2)] assms(1)
  by (intro exI [of _ "LabelValueMaxLength - length (Itoa (int (length v))) - 1"])
     (simp add: EnsureLabelValueLength_def Let_def LabelValueMaxLength_def)

lemma Itoa_nat_digits: "Itoa (int n) \<noteq> [] \<and> list_all is_digit (Itoa (int n))"
  by (simp add: Itoa_def show_nat_digits)

lemma EnsureLabel_label:
  assumes "dns1123_label v" and "int (length v) \<le> max_int64"
  shows "IsDNS1123Label (EnsureLabelValueLength v)"
proof (cases "length v \<le> LabelValueMaxLength")
  case True
  then show ?thesis using assms by (simp add: EnsureLabel_short IsDNS1123Label_def)
next
  case False
  with assms obtain k where k: "43 \<le> k" "k + 1 + length (Itoa (int (length v))) = LabelValueMaxLength"
    and e: "EnsureLabelValueLength v = take k v @ ''-'' @ Itoa (int (length v))"
    using EnsureLabel_long [of v] by auto
  have d: "Itoa (int (length v)) \<noteq> []" "list_all is_digit (Itoa (int (length v)))"
    using Itoa_nat_digits by blast+
  then have "is_digit (last (Itoa (int (length v))))" by (simp add: list_all_iff)
  moreover have "list_all label_char (Itoa (int (length v)))"
    using d by (simp add: list_all_iff label_char_def is_alnum_def)
  moreover have "label_char CHR ''-''" by (simp add: label_char_def)
  moreover have "take k v \<noteq> [] \<and> is_alnum (hd (take k v)) \<and> list_all label_char (take k v)"
    using k by (intro take_label [OF assms(1)]) simp
  moreover have "length (EnsureLabelValueLength v) = LabelValueMaxLength"
    using k False by (simp add: e)
  ultimately show ?thesis
    using d k by (simp add: IsDNS1123Label_def dns1123_label_def e is_alnum_def hd_take)
qed

lemma length_normalize: "normalize s = Inr r \<Longrightarrow> length r \<le> length s"
  by (auto simp: normalize_def ReplaceChar_def Let_def split: option.splits
      intro!: order_trans [OF length_filter_le])

subsection \<open>Byte counts\<close>

text \<open>
  How Kubernetes reads the quantities that \<open>FormatBytes\<close> writes: decimal digits, optionally
  followed by one of the binary suffixes Ki, Mi, Gi, Ti, Pi, Ei.
\<close>

fun suffix_exp :: "char \<Rightarrow> string \<Rightarrow> nat option" where
  "suffix_exp c [] = None"
| "suffix_exp c (d # ds) = (if c = d then Some 1 else map_option Suc (suffix_exp c ds))"

definition quantity_value :: "string \<Rightarrow> int option" where
  "quantity_value s =
     (if s \<noteq> [] \<and> last s = CHR ''i''
      then (case (suffix_exp (last (butlast s)) ''KMGTPE'', Atoi (butlast (butlast s))) of
              (Some e, Some v) \<Rightarrow> Some (v * 1024 ^ e) | _ \<Rightarrow> None)
      else Atoi s)"

lemma format_loop_inv:
  assumes "0 \<le> bytes" "bytes \<le> max_int64" "n = KiB ^ Suc s" "i = bytes div n" "1 \<le> i"
  shows "\<exists>t. format_loop i n s = (KiB ^ Suc t, t) \<and> s \<le> t \<and> 1 \<le> bytes div KiB ^ Suc t \<and> bytes div KiB ^ Suc t < KiB"
  using assms
proof (induction i n s rule: format_loop.induct)
  case (1 i n s)
  have n0: "0 < n" using "1.prems"(3) by (simp add: KiB_def)
  show ?case
  proof (cases "KiB \<le> i")
    case False
    with "1.prems" show ?thesis
      by (subst format_loop.simps) (auto simp del: power_Suc)
  next
    case True
    have "n * KiB \<le> n * i" using True n0 by simp
    also have "\<dots> \<le> bytes" using "1.prems"(4) n0 by (simp add: minus_mod_eq_mult_div [symmetric] mult.commute)
    finally have nb: "n * KiB \<le> bytes" .
    then have w: "wrap64 (n * KiB) = n * KiB"
      using "1.prems"(2) n0 by (intro wrap64_id) (simp_all add: KiB_def min_int64_def)
    have i': "i div KiB = bytes div (n * KiB)"
      using "1.prems"(4) n0 by (simp add: zdiv_zmult2_eq KiB_def)
    have "1 \<le> i div KiB" using True by (simp add: KiB_def pos_imp_zdiv_pos_iff int_one_le_iff_zero_less)
    then have "\<exists>t. format_loop (i div KiB) (wrap64 (n * KiB)) (s + 1) = (KiB ^ Suc t, t) \<and> s + 1 \<le> t \<and>
        1 \<le> bytes div KiB ^ Suc t \<and> bytes div KiB ^ Suc t < KiB"
      using "1.prems" True w i' by (intro "1.IH") (simp_all add: mult.commute)
    with True show ?thesis by (subst format_loop.simps) auto
  qed
qed

lemma format_suffix_bound:
  assumes "bytes \<le> max_int64" and "1 \<le> bytes div KiB ^ Suc t"
  shows "t < 6"
proof (rule ccontr)
  assume "\<not> t < 6"
  then have "KiB ^ 7 \<le> KiB ^ Suc t" by (intro power_increasing) (simp_all add: KiB_def)
  moreover have "KiB ^ Suc t \<le> bytes"
  proof (rule ccontr)
    assume "\<not> KiB ^ Suc t \<le> bytes"
    moreover have "0 \<le> bytes" using assms(2) by (metis KiB_def div_neg_pos_less0 not_le zero_less_numeral zero_less_power order.strict_trans2 zero_le_one not_less)
    ultimately show False using assms(2) by (simp add: div_pos_pos_trivial)
  qed
  ultimately show False using assms(1) by (simp add: KiB_def max_int64_def)
qed

lemma suffix_exp_nth: "t < 6 \<Longrightarrow> suffix_exp (''KMGTPE'' ! t) ''KMGTPE'' = Some (Suc t)"
proof -
  assume "t < 6"
  then consider "t = 0" | "t = 1" | "t = 2" | "t = 3" | "t = 4" | "t = 5" by linarith
  then show ?thesis by cases simp_all
qed

lemma last_Itoa_digit: "0 \<le> v \<Longrightarrow> Itoa v \<noteq> [] \<and> last (Itoa v) \<noteq> CHR ''i''"
proof -
  assume "0 \<le> v"
  then have "Itoa v \<noteq> []" "list_all is_digit (Itoa v)" using Itoa_nat_digits [of "nat v"] by simp_all
  then have "Itoa v \<noteq> []" "is_digit (last (Itoa v))" by (simp_all add: list_all_iff)
  moreover have "\<not> is_digit CHR ''i''" by (simp add: is_digit_def)
  ultimately show ?thesis by metis
qed

lemma quantity_plain: "0 \<le> v \<Longrightarrow> v \<le> max_int64 \<Longrightarrow> quantity_value (Itoa v) = Some v"
  using last_Itoa_digit [of v] by (simp add: quantity_value_def Atoi_Itoa min_int64_def)

lemma quantity_suffix:
  "0 \<le> v \<Longrightarrow> v \<le> max_int64 \<Longrightarrow> t < 6 \<Longrightarrow>
   quantity_value (Itoa v @ [''KMGTPE'' ! t] @ ''i'') = Some (v * 1024 ^ Suc t)"
  by (simp add: quantity_value_def butlast_append suffix_exp_nth Atoi_Itoa min_int64_def del: suffix_exp.simps)

section \<open>Properties\<close>

lemma NormalizeName_shape:
  assumes "NormalizeName s = Inr r"
  shows "r \<noteq> [] \<and> length r \<le> DNS1123SubdomainMaxLength \<and> (IsDNS1123Subdomain r \<longleftrightarrow> is_alnum (last r))"
proof (cases "IsDNS1123Subdomain s")
  case True
  with assms have "r = s" by (auto simp: NormalizeName_def split: if_splits)
  with True show ?thesis using subdomain_last [of s] by (simp add: IsDNS1123Subdomain_def)
next
  case False
  with assms obtain n where n: "normalize s = Inr n" and r: "r = take DNS1123SubdomainMaxLength n"
    by (auto simp: NormalizeName_def rbind_Inr split: if_splits)
  have "0 < DNS1123SubdomainMaxLength" by (simp add: DNS1123SubdomainMaxLength_def)
  then have "r \<noteq> [] \<and> is_alnum (hd r) \<and> list_all label_char r"
    unfolding r by (rule take_label [OF normalize_label [OF n]])
  moreover have "length r \<le> DNS1123SubdomainMaxLength" by (simp add: r)
  ultimately show ?thesis using label_subdomain [of r] by blast
qed



text \<open>
  The truncation bug is real: a name of 254 characters whose 253rd character is a dash is
  normalised to a name that is not a legal DNS 1123 subdomain.
\<close>

lemma NormalizeName_truncates_to_dash:
  "\<exists>s r. length s = 254 \<and> NormalizeName s = Inr r \<and> \<not> IsDNS1123Subdomain r"
proof -
  let ?a = "replicate 252 CHR ''a''"
  let ?s = "?a @ ''-B''"
  have N: "normalize ?s = Inr (?a @ ''-b'')" by code_simp
  have "length ?s = 254" by simp
  moreover have "\<not> IsDNS1123Subdomain ?s" by (simp add: IsDNS1123Subdomain_def DNS1123SubdomainMaxLength_def)
  ultimately have "NormalizeName ?s = Inr (?a @ ''-'')"
    by (simp add: NormalizeName_def N DNS1123SubdomainMaxLength_def)
  moreover from NormalizeName_shape [OF this] have "\<not> IsDNS1123Subdomain (?a @ ''-'')"
    by (simp add: is_alnum_def is_lower_def is_digit_def)
  ultimately show ?thesis using \<open>length ?s = 254\<close> by blast
qed

text \<open>
  A label that \<open>NormalizeLabel\<close> returns is always a legal DNS 1123 label of at most 63
  characters, for every name that a Go string can hold.
\<close>

lemma NormalizeLabel_legal:
  assumes "int (length s) \<le> max_int64" and "NormalizeLabel s = Inr r"
  shows "IsDNS1123Label r"
proof (cases "IsDNS1123Label s")
  case True
  with assms(2) show ?thesis by (auto simp: NormalizeLabel_def split: if_splits)
next
  case False
  with assms(2) obtain n where n: "normalize s = Inr n" and r: "r = EnsureLabelValueLength n"
    by (auto simp: NormalizeLabel_def rbind_Inr split: if_splits)
  have "int (length n) \<le> max_int64" using length_normalize [OF n] assms(1) by linarith
  with normalize_label [OF n] show ?thesis unfolding r by (rule EnsureLabel_label)
qed

lemma NormalizeLabel_legal_example: "IsDNS1123Label ''host-example-com''"
proof -
  have "NormalizeLabel ''Host.Example.com'' = Inr ''host-example-com''" by code_simp
  then show ?thesis by (rule NormalizeLabel_legal [rotated]) (simp add: max_int64_def)
qed

lemma FormatBytes_exact:
  assumes "0 \<le> bytes" and "bytes \<le> max_int64"
  shows "\<exists>s. FormatBytes bytes = Inr s \<and> quantity_value s = Some bytes"
proof (cases "bytes < KiB")
  case True
  with assms show ?thesis by (simp add: FormatBytes_def quantity_plain)
next
  case False
  then have "1 \<le> bytes div KiB" by (simp add: KiB_def pos_imp_zdiv_pos_iff int_one_le_iff_zero_less)
  then obtain t where t: "format_loop (bytes div KiB) KiB 0 = (KiB ^ Suc t, t)"
    and b: "1 \<le> bytes div KiB ^ Suc t" "bytes div KiB ^ Suc t < KiB"
    using format_loop_inv [of bytes KiB 0 "bytes div KiB"] assms by auto
  have t6: "t < 6" using format_suffix_bound [OF assms(2) b(1)] .
  show ?thesis
  proof (cases "bytes mod KiB ^ Suc t > 0")
    case True
    with False assms show ?thesis by (simp add: FormatBytes_def t quantity_plain)
  next
    case exact: False
    have "0 \<le> bytes mod KiB ^ Suc t" by (simp add: KiB_def)
    with exact have "bytes mod KiB ^ Suc t = 0" by linarith
    then have "bytes div KiB ^ Suc t * 1024 ^ Suc t = bytes"
      using div_mult_mod_eq [of bytes "KiB ^ Suc t"] unfolding KiB_def by linarith
    moreover have "bytes div KiB ^ Suc t \<le> max_int64" using b by (simp add: KiB_def max_int64_def)
    ultimately have "quantity_value (Itoa (bytes div KiB ^ Suc t) @ [''KMGTPE'' ! t] @ ''i'') = Some bytes"
      using quantity_suffix [of "bytes div KiB ^ Suc t" t] b t6 by (simp del: power_Suc)
    with False exact t6 assms show ?thesis by (simp add: FormatBytes_def t del: power_Suc)
  qed
qed

text \<open>
  C35. Formatting a byte count loses nothing: for every non-negative 64-bit count \<open>FormatBytes\<close>
  returns (it neither fails, nor overflows its 64-bit divisor, nor runs past the suffix table), and
  Kubernetes reads the text back as exactly that count.
\<close>

theorem FormatBytes_roundtrip:
  assumes "0 \<le> bytes" and "bytes \<le> max_int64"
  shows "\<exists>s. FormatBytes bytes = Inr s \<and> quantity_value s = Some bytes"
  using assms by (rule FormatBytes_exact)

theorem FormatBytes_roundtrip_witness:
  "\<exists>s. FormatBytes 10737418240 = Inr s \<and> quantity_value s = Some 10737418240"
  by (rule FormatBytes_roundtrip) (simp_all add: max_int64_def)

text \<open>
  Every offset of the documented form, a sign, two digits, a colon and two digits, is parsed to
  the signed number of seconds it denotes.
\<close>

lemma ParseUtcOffset_wellformed:
  assumes "is_digit a" "is_digit b" "is_digit c" "is_digit d" "sg \<in> {CHR ''+'', CHR ''-''}"
  shows "ParseUtcOffsetToSeconds [sg, a, b, CHR '':'', c, d] =
    Inr ((if sg = CHR ''+'' then 60 else -60) *
      ((10 * int (digit_val a) + int (digit_val b)) * 60 + (10 * int (digit_val c) + int (digit_val d))))"
proof -
  have nc: "x \<noteq> CHR '':''" if "is_digit x" for x using that by (auto simp: is_digit_def)
  have S: "Split [a, b, CHR '':'', c, d] CHR '':'' = [[a, b], [c, d]]"
    using assms(1-4) [THEN nc] by simp
  have A: "Atoi [x, y] = Some (10 * int (digit_val x) + int (digit_val y))" if "is_digit x" "is_digit y" for x y
  proof -
    have "x \<noteq> CHR ''-''" "x \<noteq> CHR ''+''" using that sign_not_digit by auto
    moreover have "digit_val x < 10" "digit_val y < 10" using that digit_val_bound by auto
    ultimately show ?thesis using that
      by (simp add: Atoi_def read_nat_def min_int64_def max_int64_def Let_def)
  qed
  show ?thesis using assms S A by (auto simp: ParseUtcOffsetToSeconds_def Let_def)
qed

lemma ParseUtcOffset_wellformed_example: "ParseUtcOffsetToSeconds ''-05:30'' = Inr (-19800)"
  using ParseUtcOffset_wellformed [of "CHR ''0''" "CHR ''5''" "CHR ''3''" "CHR ''0''" "CHR ''-''"]
  by (simp add: is_digit_def digit_val_def)

text \<open>
  The parser accepts more than the documented [+|-]HH:MM: a three-digit hour with a one-digit
  minute and segments with signs of their own go through.
\<close>

lemma ParseUtcOffset_accepts_malformed:
  "ParseUtcOffsetToSeconds ''+123:4'' = Inr 443040 \<and> ParseUtcOffsetToSeconds ''-+1:-5'' = Inr (-3300)"
  by code_simp

end
