(* ===== verification/KubeTypes.thy ===== *)
theory KubeTypes
  imports ImportTypes "HOL-Library.Word"
begin

text \<open>
  The Kubernetes, KubeVirt and CDI objects that the operator reads and writes, with the fields its
  code uses.  Pointers are options; a Go map that may be nil is an option of a map where the code
  tells nil from empty.  A resource quantity is its value in bytes.
\<close>

section \<open>Metadata\<close>

record owner_ref =
  or_api_version :: string
  or_kind :: string
  or_name :: string
  or_uid :: string
  or_controller :: "bool option"
  or_block_deletion :: "bool option"

record object_meta =
  om_name :: string
  om_generate_name :: string
  om_namespace :: string
  om_labels :: "(string \<rightharpoonup> string) option"
  om_annotations :: "(string \<rightharpoonup> string) option"
  om_owners :: "owner_ref list"
  om_uid :: string

definition empty_meta :: object_meta where
  "empty_meta = \<lparr>om_name = [], om_generate_name = [], om_namespace = [], om_labels = None,
     om_annotations = None, om_owners = [], om_uid = []\<rparr>"

definition om_key :: "object_meta \<Rightarrow> nsname" where
  "om_key m = (om_namespace m, om_name m)"

text \<open>Reading a nil map is reading an empty one.\<close>

definition map_of_opt :: "('k \<rightharpoonup> 'v) option \<Rightarrow> ('k \<rightharpoonup> 'v)" where
  "map_of_opt m = (case m of None \<Rightarrow> Map.empty | Some f \<Rightarrow> f)"

lemma map_of_opt_simps [simp]: "map_of_opt None = Map.empty" "map_of_opt (Some f) = f"
  by (simp_all add: map_of_opt_def)

section \<open>KubeVirt virtual machines\<close>

record vm_cpu =
  cpu_cores :: "32 word"
  cpu_sockets :: "32 word"
  cpu_threads :: "32 word"
  cpu_model :: string
  cpu_dedicated :: bool

definition empty_cpu :: vm_cpu where
  "empty_cpu = \<lparr>cpu_cores = 0, cpu_sockets = 0, cpu_threads = 0, cpu_model = [], cpu_dedicated = False\<rparr>"

datatype bootloader = BIOS | EFI

record vm_firmware =
  fw_bootloader :: "bootloader option"
  fw_serial :: string

record vm_resources =
  rr_limits_memory :: "int option"
  rr_requests_memory :: "int option"

definition empty_resources :: vm_resources where
  "empty_resources = \<lparr>rr_limits_memory = None, rr_requests_memory = None\<rparr>"

record vm_input =
  in_type :: string
  in_bus :: string
  in_name :: string

datatype interface_binding = Bridge | SRIOV | Masquerade

record vm_interface =
  if_name :: string
  if_mac :: string
  if_model :: string
  if_binding :: "interface_binding option"

record vm_disk =
  dk_name :: string
  dk_bus :: string
  dk_boot_order :: "nat option"

record vm_volume =
  vo_name :: string
  vo_data_volume :: "string option"

record vm_network =
  nw_name :: string
  nw_pod :: bool
  nw_multus :: "string option"

record vm_devices =
  dv_graphics :: "bool option"
  dv_serial_console :: "bool option"
  dv_inputs :: "vm_input list"
  dv_interfaces :: "vm_interface list"
  dv_disks :: "vm_disk list"

definition empty_devices :: vm_devices where
  "empty_devices = \<lparr>dv_graphics = None, dv_serial_console = None, dv_inputs = [], dv_interfaces = [], dv_disks = []\<rparr>"

record vm_domain =
  do_cpu :: "vm_cpu option"
  do_firmware :: "vm_firmware option"
  do_smm :: "bool option option"   \<comment> \<open>\<open>Features\<close> and its \<open>SMM.Enabled\<close>\<close>
  do_machine :: string
  do_hugepages :: "string option option"   \<comment> \<open>\<open>Memory\<close> and its \<open>Hugepages.PageSize\<close>\<close>
  do_resources :: vm_resources
  do_devices :: vm_devices
  do_clock_utc :: "int option option"   \<comment> \<open>\<open>Clock\<close> and its UTC offset in seconds\<close>

definition empty_domain :: vm_domain where
  "empty_domain = \<lparr>do_cpu = None, do_firmware = None, do_smm = None, do_machine = [], do_hugepages = None,
     do_resources = empty_resources, do_devices = empty_devices, do_clock_utc = None\<rparr>"

record vm_template =
  tp_labels :: "(string \<rightharpoonup> string) option"
  tp_hostname :: string
  tp_domain :: vm_domain
  tp_volumes :: "vm_volume list"
  tp_networks :: "vm_network list"
  tp_live_migrate :: bool   \<comment> \<open>\<open>EvictionStrategy\<close> is \<open>LiveMigrate\<close>\<close>

definition empty_template :: vm_template where
  "empty_template = \<lparr>tp_labels = None, tp_hostname = [], tp_domain = empty_domain, tp_volumes = [],
     tp_networks = [], tp_live_migrate = False\<rparr>"

record kubevm =
  vm_meta :: object_meta
  vm_running :: "bool option"
  vm_template_spec :: "vm_template option"
  vm_dv_templates :: "string list"

definition empty_vm :: kubevm where
  "empty_vm = \<lparr>vm_meta = empty_meta, vm_running = None, vm_template_spec = None, vm_dv_templates = []\<rparr>"

text \<open>The phases of a virtual machine instance that the code tests.\<close>

datatype instance_phase = InstanceRunning | InstanceScheduled | OtherInstancePhase string

section \<open>Data volumes, pods, jobs, secrets and config maps\<close>

datatype dv_phase = DVSucceeded | DVFailed | DVPending | DVImportInProgress | DVOther string

datatype dv_source =
    NoSource
  | Imageio (io_url: string) (io_disk: string) (io_secret: string) (io_certs: string)
  | VDDK (vd_url: string) (vd_uuid: string) (vd_backing: string) (vd_thumbprint: string) (vd_secret: string)

datatype access_mode = ReadWriteOnce | ReadOnlyMany | ReadWriteMany

record datavolume =
  dv_meta :: object_meta
  dv_from :: dv_source
  dv_access_mode :: access_mode
  dv_storage :: int
  dv_volume_mode :: "string option"
  dv_storage_class :: "string option"
  dv_phase :: dv_phase
  dv_progress :: string

definition empty_datavolume :: datavolume where
  "empty_datavolume = \<lparr>dv_meta = empty_meta, dv_from = NoSource, dv_access_mode = ReadWriteOnce, dv_storage = 0,
     dv_volume_mode = None, dv_storage_class = None, dv_phase = DVOther [], dv_progress = []\<rparr>"

record container_status =
  cs_terminated :: "(int \<times> string) option"   \<comment> \<open>exit code and message of the last termination\<close>
  cs_waiting_reason :: "string option"
  cs_restart_count :: int

record pod =
  pod_container_statuses :: "container_status list option"

record job_volume =
  jv_name :: string
  jv_claim :: "string option"
  jv_config_map :: "string option"

record job_mount =
  jm_name :: string
  jm_path :: string

record job_spec =
  js_completions :: int
  js_parallelism :: int
  js_backoff_limit :: int
  js_template_labels :: "(string \<rightharpoonup> string) option"
  js_restart_policy :: string
  js_image :: string
  js_pull_policy :: string
  js_volumes :: "job_volume list"
  js_mounts :: "job_mount list"
  js_node_selector :: "string \<rightharpoonup> string"

record job =
  jb_meta :: object_meta
  jb_spec :: job_spec
  jb_active :: int
  jb_failed :: int
  jb_succeeded :: int

record secret =
  se_meta :: object_meta
  se_data :: "string \<rightharpoonup> string"

record config_map =
  cm_meta :: object_meta
  cm_data :: "string \<rightharpoonup> string"
  cm_binary :: "string \<rightharpoonup> string"

section \<open>Templates\<close>

record template =
  tm_name :: string
  tm_namespace :: string
  tm_labels :: "string \<rightharpoonup> string"
  tm_annotations :: "string \<rightharpoonup> string"
  tm_creation :: time
  tm_parameters :: "(string \<times> string) list"   \<comment> \<open>names and values\<close>
  tm_objects :: "string list"   \<comment> \<open>raw objects\<close>

end
