(* ===== verification/Cluster.thy ===== *)
theory Cluster
  imports Utils KubeTypes
begin

text \<open>
  The state that the operator shares with the cluster, and the calls of the Kubernetes client.

  \<^item> \<open>world\<close> holds the objects of the API server, the events and metrics written so far and the
    state \<open>'p\<close> of the source provider.  \<open>w_calls\<close> counts the calls; call number \<open>n\<close> fails as
    \<open>w_faults n\<close> says: not at all, before the server acts, or after it acted (the response is lost).
    The clock, the generated names and the uids are functions of the call number as well.
  \<^item> \<open>Patch\<close> with \<open>client.MergeFrom\<close> sends the fields in which the copy differs from the original, so
    each patch is modelled as the change of these fields on the stored object.
  \<^item> An object whose deletion timestamp is set gets no new finalizer and disappears when its last one
    is removed.
\<close>

section \<open>The world\<close>

datatype fault = NoFault | FailBefore go_error | FailAfter go_error

datatype event_type = EventNormal | EventWarning

record event =
  ev_object :: nsname
  ev_type :: event_type
  ev_reason :: string
  ev_message :: string

datatype import_result = ResultSuccessful | ResultFailed | ResultCancelled

record 'p world =
  w_imports :: "nsname \<rightharpoonup> vmimport"
  w_mappings :: "nsname \<rightharpoonup> mapping_spec"
  w_vms :: "nsname \<rightharpoonup> kubevm"
  w_instances :: "nsname \<rightharpoonup> instance_phase"
  w_dvs :: "nsname \<rightharpoonup> datavolume"
  w_pods :: "nsname \<rightharpoonup> pod"
  w_secrets :: "(nsname, secret) gomap"
  w_config_maps :: "(nsname, config_map) gomap"
  w_jobs :: "(nsname, job) gomap"
  w_templates :: "template list"
  w_nads :: "nsname \<rightharpoonup> string"   \<comment> \<open>network attachment definitions: the configuration\<close>
  w_storage_classes :: "nsname \<rightharpoonup> unit"
  w_kv_config :: "string \<rightharpoonup> string"
  w_ctrl_config :: "string \<rightharpoonup> string"
  w_events :: "event list"
  w_counters :: "import_result \<Rightarrow> nat"
  w_durations :: "(import_result \<times> int) list"
  w_watches :: "(string \<times> nsname) list"
  w_calls :: nat
  w_faults :: "nat \<Rightarrow> fault"
  w_now :: "nat \<Rightarrow> time"
  w_suffix :: "nat \<Rightarrow> string"
  w_uids :: "nat \<Rightarrow> string"
  w_provider :: 'p

type_synonym ('p, 'a) op = "('p world, 'a) go"

definition api :: "('p world \<Rightarrow> go_error + 'a \<times> 'p world) \<Rightarrow> ('p, 'a) op" where
  "api f = (\<lambda>w. let w1 = w\<lparr>w_calls := Suc (w_calls w)\<rparr> in
     case w_faults w (w_calls w) of
       FailBefore e \<Rightarrow> (Inl e, w1)
     | NoFault \<Rightarrow> (case f w1 of Inl e \<Rightarrow> (Inl e, w1) | Inr (x, w2) \<Rightarrow> (Inr x, w2))
     | FailAfter e \<Rightarrow> (case f w1 of Inl e' \<Rightarrow> (Inl e', w1) | Inr (x, w2) \<Rightarrow> (Inl e, w2)))"

definition not_found :: "string \<Rightarrow> nsname \<Rightarrow> go_error" where
  "not_found kind k = GoErr NotFound (kind @ '' '' @ snd k @ '' not found'')"

definition already_exists :: "string \<Rightarrow> nsname \<Rightarrow> go_error" where
  "already_exists kind k = GoErr AlreadyExists (kind @ '' '' @ snd k @ '' already exists'')"

definition get_from :: "string \<Rightarrow> ('p world \<Rightarrow> nsname \<rightharpoonup> 'a) \<Rightarrow> nsname \<Rightarrow> ('p, 'a) op" where
  "get_from kind store k = api (\<lambda>w. case store w k of None \<Rightarrow> Inl (not_found kind k) | Some x \<Rightarrow> Inr (x, w))"

definition now :: "('p, time) op" where
  "now = gread (\<lambda>w. w_now w (w_calls w))"

section \<open>Calls on virtual machine imports\<close>

definition get_import :: "nsname \<Rightarrow> ('p, vmimport) op" where
  "get_import = get_from ''virtualmachineimports'' w_imports"

text \<open>What the server stores for an import: nothing once it is deleted and has no finalizer left.\<close>

definition stored :: "vmimport \<Rightarrow> vmimport option" where
  "stored v = (if vi_deletion v \<noteq> None \<and> vi_finalizers v = [] then None else Some v)"

definition put_import :: "nsname \<Rightarrow> vmimport \<Rightarrow> 'p world \<Rightarrow> 'p world" where
  "put_import k v w = w\<lparr>w_imports := (w_imports w)(k := stored v)\<rparr>"

definition patch_import :: "nsname \<Rightarrow> (vmimport \<Rightarrow> vmimport) \<Rightarrow> ('p, vmimport) op" where
  "patch_import k change = api (\<lambda>w. case w_imports w k of
     None \<Rightarrow> Inl (not_found ''virtualmachineimports'' k)
   | Some v \<Rightarrow>
       if vi_deletion v \<noteq> None \<and> \<not> set (vi_finalizers (change v)) \<subseteq> set (vi_finalizers v)
       then Inl (errorf ''no new finalizers can be added if the object is being deleted'')
       else Inr (change v, put_import k (change v) w))"

text \<open>\<open>Status().Update\<close> writes the status of the copy and nothing else.\<close>

definition update_import_status :: "nsname \<Rightarrow> vmi_status \<Rightarrow> ('p, unit) op" where
  "update_import_status k st =
     gbind (patch_import k (\<lambda>v. v\<lparr>vi_status := st\<rparr>)) (\<lambda>_. gret ())"

section \<open>Finalizers (\<open>pkg/utils/utils.go\<close>)\<close>

definition RestoreVMStateFinalizer :: string where
  "RestoreVMStateFinalizer = ''vmimport.v2v.kubevirt.io/restore-state''"

definition CancelledImportFinalizer :: string where
  "CancelledImportFinalizer = ''vmimport.v2v.kubevirt.io/cancelled-import''"

definition HasFinalizer :: "vmimport \<Rightarrow> string \<Rightarrow> bool" where
  "HasFinalizer cr name = list_ex (\<lambda>f. f = name) (vi_finalizers cr)"

text \<open>The patched import replaces the finalizers of the one in memory, which is the result.\<close>

definition patch_finalizers :: "vmimport \<Rightarrow> string list \<Rightarrow> ('p, vmimport) op" where
  "patch_finalizers cr fs =
     gbind (patch_import (vi_key cr) (\<lambda>v. v\<lparr>vi_finalizers := fs\<rparr>))
       (\<lambda>copy. gret (cr\<lparr>vi_finalizers := vi_finalizers copy\<rparr>))"

definition AddFinalizer :: "vmimport \<Rightarrow> string \<Rightarrow> ('p, vmimport) op" where
  "AddFinalizer cr name =
     (if HasFinalizer cr name then gret cr
      else patch_finalizers cr (vi_finalizers cr @ [name]))"

definition RemoveFinalizer :: "vmimport \<Rightarrow> string \<Rightarrow> ('p, vmimport) op" where
  "RemoveFinalizer cr name =
     (if \<not> HasFinalizer cr name then gret cr
      else patch_finalizers cr (filter (\<lambda>f. f \<noteq> name) (vi_finalizers cr)))"

section \<open>Calls on the other objects\<close>

definition get_mapping :: "nsname \<Rightarrow> ('p, mapping_spec) op" where
  "get_mapping = get_from ''resourcemappings'' w_mappings"

definition get_vm :: "nsname \<Rightarrow> ('p, kubevm) op" where
  "get_vm = get_from ''virtualmachines'' w_vms"

definition get_instance :: "nsname \<Rightarrow> ('p, instance_phase) op" where
  "get_instance = get_from ''virtualmachineinstances'' w_instances"

definition get_dv :: "nsname \<Rightarrow> ('p, datavolume) op" where
  "get_dv = get_from ''datavolumes'' w_dvs"

definition get_pod :: "nsname \<Rightarrow> ('p, pod) op" where
  "get_pod = get_from ''pods'' w_pods"

definition get_secret :: "nsname \<Rightarrow> ('p, secret) op" where
  "get_secret = get_from ''secrets'' (\<lambda>w. gm_get (w_secrets w))"

definition get_config_map :: "nsname \<Rightarrow> ('p, config_map) op" where
  "get_config_map = get_from ''configmaps'' (\<lambda>w. gm_get (w_config_maps w))"

definition get_nad :: "nsname \<Rightarrow> ('p, string) op" where
  "get_nad = get_from ''network-attachment-definitions'' w_nads"

definition get_storage_class :: "nsname \<Rightarrow> ('p, unit) op" where
  "get_storage_class = get_from ''storageclasses'' w_storage_classes"

text \<open>The templates of a namespace that have all the given label keys.\<close>

definition list_templates :: "string \<Rightarrow> string list \<Rightarrow> ('p, template list) op" where
  "list_templates ns keys = api (\<lambda>w. Inr
     (filter (\<lambda>t. tm_namespace t = ns \<and> list_all (\<lambda>k. tm_labels t k \<noteq> None) keys) (w_templates w), w))"

text \<open>What the server fills in when it creates an object: a generated name and a uid.\<close>

definition admitted :: "'p world \<Rightarrow> object_meta \<Rightarrow> object_meta" where
  "admitted w m = m\<lparr>om_name := (if om_name m = [] \<and> om_generate_name m \<noteq> [] then om_generate_name m @ w_suffix w (w_calls w) else om_name m),
                    om_uid := w_uids w (w_calls w)\<rparr>"

definition create_vm :: "kubevm \<Rightarrow> ('p, kubevm) op" where
  "create_vm vm = api (\<lambda>w.
     let vm' = vm\<lparr>vm_meta := admitted w (vm_meta vm)\<rparr>; k = om_key (vm_meta vm')
     in if om_name (vm_meta vm') = [] then Inl (errorf ''name or generateName is required'')
        else if w_vms w k \<noteq> None then Inl (already_exists ''virtualmachines'' k)
        else Inr (vm', w\<lparr>w_vms := (w_vms w)(k \<mapsto> vm')\<rparr>))"

definition patch_vm :: "nsname \<Rightarrow> (kubevm \<Rightarrow> kubevm) \<Rightarrow> ('p, kubevm) op" where
  "patch_vm k change = api (\<lambda>w. case w_vms w k of
     None \<Rightarrow> Inl (not_found ''virtualmachines'' k)
   | Some vm \<Rightarrow> Inr (change vm, w\<lparr>w_vms := (w_vms w)(k \<mapsto> change vm)\<rparr>))"

definition delete_vm :: "nsname \<Rightarrow> ('p, unit) op" where
  "delete_vm k = api (\<lambda>w. if w_vms w k = None then Inl (not_found ''virtualmachines'' k)
     else Inr ((), w\<lparr>w_vms := (w_vms w)(k := None)\<rparr>))"

definition create_dv :: "datavolume \<Rightarrow> ('p, datavolume) op" where
  "create_dv dv = api (\<lambda>w.
     let dv' = dv\<lparr>dv_meta := admitted w (dv_meta dv)\<rparr>; k = om_key (dv_meta dv')
     in if om_name (dv_meta dv') = [] then Inl (errorf ''name or generateName is required'')
        else if w_dvs w k \<noteq> None then Inl (already_exists ''datavolumes'' k)
        else Inr (dv', w\<lparr>w_dvs := (w_dvs w)(k \<mapsto> dv')\<rparr>))"

definition patch_dv_owners :: "nsname \<Rightarrow> owner_ref list \<Rightarrow> ('p, unit) op" where
  "patch_dv_owners k refs = api (\<lambda>w. case w_dvs w k of
     None \<Rightarrow> Inl (not_found ''datavolumes'' k)
   | Some dv \<Rightarrow> Inr ((), w\<lparr>w_dvs := (w_dvs w)(k \<mapsto> dv\<lparr>dv_meta := (dv_meta dv)\<lparr>om_owners := refs\<rparr>\<rparr>)\<rparr>))"

definition delete_dv :: "nsname \<Rightarrow> ('p, unit) op" where
  "delete_dv k = api (\<lambda>w. if w_dvs w k = None then Inl (not_found ''datavolumes'' k)
     else Inr ((), w\<lparr>w_dvs := (w_dvs w)(k := None)\<rparr>))"

section \<open>Events, metrics and watches\<close>

definition record_event :: "vmimport \<Rightarrow> event_type \<Rightarrow> string \<Rightarrow> string \<Rightarrow> ('p, unit) op" where
  "record_event v t reason message = gmodify (\<lambda>w. w\<lparr>w_events := w_events w @
     [\<lparr>ev_object = vi_key v, ev_type = t, ev_reason = reason, ev_message = message\<rparr>]\<rparr>)"

definition inc_counter :: "import_result \<Rightarrow> ('p, unit) op" where
  "inc_counter r = gmodify (\<lambda>w. w\<lparr>w_counters := (w_counters w)(r := Suc (w_counters w r))\<rparr>)"

definition save_duration :: "import_result \<Rightarrow> int \<Rightarrow> ('p, unit) op" where
  "save_duration r d = gmodify (\<lambda>w. w\<lparr>w_durations := w_durations w @ [(r, d)]\<rparr>)"

definition watch_pod :: "string \<Rightarrow> nsname \<Rightarrow> ('p, unit) op" where
  "watch_pod pod_name request = api (\<lambda>w. Inr ((), w\<lparr>w_watches := w_watches w @ [(pod_name, request)]\<rparr>))"

section \<open>What the calls change\<close>

text \<open>A run that changes one import at most, by \<open>f\<close>.\<close>

definition changes_import :: "nsname \<Rightarrow> (vmimport \<Rightarrow> vmimport) \<Rightarrow> 'p world \<Rightarrow> 'p world \<Rightarrow> bool" where
  "changes_import k f w w' \<longleftrightarrow> (\<exists>n. w' = w\<lparr>w_calls := n\<rparr> \<or>
     (\<exists>v. w_imports w k = Some v \<and> w' = put_import k (f v) (w\<lparr>w_calls := n\<rparr>)))"

lemma api_cases:
  assumes "api f w = (r, w')"
  obtains (unchanged) e where "r = Inl e" and "w' = w\<lparr>w_calls := Suc (w_calls w)\<rparr>"
  | (performed) x where "f (w\<lparr>w_calls := Suc (w_calls w)\<rparr>) = Inr (x, w')" and "r = Inr x \<or> (\<exists>e. r = Inl e)"
  using assms by (auto simp: api_def Let_def split: fault.splits sum.splits)

lemma api_success:
  "api f w = (Inr x, w') \<Longrightarrow> f (w\<lparr>w_calls := Suc (w_calls w)\<rparr>) = Inr (x, w')"
  by (auto simp: api_def Let_def split: fault.splits sum.splits)

lemma get_from_world: "get_from kind store k w = (r, w') \<Longrightarrow> w' = w\<lparr>w_calls := Suc (w_calls w)\<rparr>"
  by (auto simp: get_from_def elim!: api_cases split: option.splits)

lemma get_from_result:
  assumes "\<And>n. store (w\<lparr>w_calls := n\<rparr>) = store w" and "get_from kind store k w = (Inr x, w')"
  shows "store w k = Some x"
  using assms by (auto simp: get_from_def dest!: api_success split: option.splits)

lemma get_import_result: "get_import k w = (Inr v, w') \<Longrightarrow> w_imports w k = Some v \<and> w' = w\<lparr>w_calls := Suc (w_calls w)\<rparr>"
  using get_from_result [of w_imports w _ k v w'] get_from_world [of _ w_imports k w]
  by (simp add: get_import_def)

lemma patch_import_changes: "patch_import k f w = (r, w') \<Longrightarrow> changes_import k f w w'"
  by (auto simp: patch_import_def changes_import_def elim!: api_cases split: option.splits if_splits)

lemma patch_import_result:
  "patch_import k f w = (Inr v', w') \<Longrightarrow>
   \<exists>v. w_imports w k = Some v \<and> v' = f v \<and> w' = put_import k v' (w\<lparr>w_calls := Suc (w_calls w)\<rparr>)"
  by (auto simp: patch_import_def dest!: api_success split: option.splits if_splits)

lemma changes_import_calls: "changes_import k f (w\<lparr>w_calls := m\<rparr>) w' \<Longrightarrow> changes_import k f w w'"
  by (auto simp: changes_import_def)

lemma changes_import_cong:
  "changes_import k f w w' \<Longrightarrow> (\<And>v. w_imports w k = Some v \<Longrightarrow> f v = g v) \<Longrightarrow> changes_import k g w w'"
  by (auto simp: changes_import_def)

section \<open>Configuration (\<open>pkg/config\<close>)\<close>

text \<open>A config map that does not exist is an empty one; only the read itself can fail.\<close>

definition GetBareConfig :: "('p world \<Rightarrow> string \<rightharpoonup> string) \<Rightarrow> ('p, string \<rightharpoonup> string) op" where
  "GetBareConfig sel = api (\<lambda>w. Inr (sel w, w))"

fun TrimSpaceLeft :: "string \<Rightarrow> string" where
  "TrimSpaceLeft [] = []"
| "TrimSpaceLeft (c # cs) = (if c = CHR '' '' \<or> c \<in> set [CHR 0x09, CHR 0x0A, CHR 0x0B, CHR 0x0C, CHR 0x0D]
     then TrimSpaceLeft cs else c # cs)"

definition TrimSpace :: "string \<Rightarrow> string" where
  "TrimSpace s = rev (TrimSpaceLeft (rev (TrimSpaceLeft s)))"

definition NewKubeVirtConfigFrom :: "(string \<rightharpoonup> string) \<Rightarrow> string" where
  "NewKubeVirtConfigFrom data =
     (let gates = TrimSpace (case data ''feature-gates'' of None \<Rightarrow> [] | Some g \<Rightarrow> g) in gates)"

definition isFeatureGateEnabled :: "string \<Rightarrow> string \<Rightarrow> bool" where
  "isFeatureGateEnabled gates gate = Contains gates gate"

definition LiveMigrationEnabled :: "string \<Rightarrow> bool" where
  "LiveMigrationEnabled gates = isFeatureGateEnabled gates ''LiveMigration''"

definition ImportWithoutTemplateEnabled :: "string \<Rightarrow> bool" where
  "ImportWithoutTemplateEnabled gates = isFeatureGateEnabled gates ''ImportWithoutTemplate''"

text \<open>On an error the provider returns a configuration made from an empty config map.\<close>

definition GetKubeVirtConfig :: "('p, string) op" where
  "GetKubeVirtConfig = gtry (GetBareConfig w_kv_config)
     (\<lambda>e. gret (NewKubeVirtConfigFrom Map.empty)) (\<lambda>data. gret (NewKubeVirtConfigFrom data))"

definition config_value :: "(string \<rightharpoonup> string) \<Rightarrow> string \<Rightarrow> string" where
  "config_value data key = (case data key of None \<Rightarrow> [] | Some s \<Rightarrow> s)"

definition OsConfigMapNamespace :: "(string \<rightharpoonup> string) \<Rightarrow> string" where
  "OsConfigMapNamespace data = config_value data ''osConfigMap.namespace''"

definition OsConfigMapName :: "(string \<rightharpoonup> string) \<Rightarrow> string" where
  "OsConfigMapName data = config_value data ''osConfigMap.name''"

end
