(* ===== verification/Managers.thy ===== *)
theory Managers
  imports Cluster
begin

text \<open>
  The managers of the objects that belong to one import (\<open>pkg/secrets\<close>, \<open>pkg/configmaps\<close>,
  \<open>pkg/jobs\<close>, \<open>pkg/datavolumes\<close>, \<open>pkg/virtualmachines\<close>) and the owner references
  (\<open>pkg/ownerreferences\<close>).  Secrets, config maps and jobs are kept by the same code on three types: a
  \<open>store\<close> names the collection, and the locale \<open>object_store\<close> is the contract of its accessors.
\<close>

section \<open>Objects found by the label of their import\<close>

record ('p, 'o) store =
  ob_kind :: string
  ob_get :: "'p world \<Rightarrow> (nsname, 'o) gomap"
  ob_put :: "(nsname, 'o) gomap \<Rightarrow> 'p world \<Rightarrow> 'p world"
  ob_meta :: "'o \<Rightarrow> object_meta"
  ob_set_meta :: "object_meta \<Rightarrow> 'o \<Rightarrow> 'o"

definition prefix :: string where
  "prefix = ''vmimport.v2v.kubevirt.io''"

definition vmiNameLabel :: string where
  "vmiNameLabel = prefix @ ''/vmi-name''"

definition has_label :: "object_meta \<Rightarrow> string \<Rightarrow> string \<Rightarrow> bool" where
  "has_label m key val \<longleftrightarrow> map_of_opt (om_labels m) key = Some val"

definition labelled_for :: "nsname \<Rightarrow> object_meta \<Rightarrow> bool" where
  "labelled_for vmiCrName m \<longleftrightarrow>
     om_namespace m = fst vmiCrName \<and> has_label m vmiNameLabel (EnsureLabelValueLength (snd vmiCrName))"

definition list_labelled :: "('p, 'o) store \<Rightarrow> nsname \<Rightarrow> ('p, 'o list) op" where
  "list_labelled S vmiCrName = api (\<lambda>w. Inr (filter (labelled_for vmiCrName \<circ> ob_meta S) (map snd (ob_get S w)), w))"

definition FindFor :: "('p, 'o) store \<Rightarrow> nsname \<Rightarrow> ('p, 'o option) op" where
  "FindFor S vmiCrName = gbind (list_labelled S vmiCrName) (\<lambda>items.
     case items of
       [] \<Rightarrow> gret None
     | [x] \<Rightarrow> gret (Some x)
     | _ \<Rightarrow> gfail (errorf (''too many '' @ ob_kind S @ '' matching given labels: '' @ vmiNameLabel)))"

definition create_object :: "('p, 'o) store \<Rightarrow> 'o \<Rightarrow> ('p, 'o) op" where
  "create_object S x = api (\<lambda>w.
     let m = admitted w (ob_meta S x); x' = ob_set_meta S m x; k = om_key m
     in if om_name m = [] then Inl (errorf ''name or generateName is required'')
        else if gm_get (ob_get S w) k \<noteq> None then Inl (already_exists (ob_kind S) k)
        else Inr (x', ob_put S (gm_set k x' (ob_get S w)) w))"

definition delete_object :: "('p, 'o) store \<Rightarrow> nsname \<Rightarrow> ('p, unit) op" where
  "delete_object S k = api (\<lambda>w.
     if gm_get (ob_get S w) k = None then Inl (not_found (ob_kind S) k)
     else Inr ((), ob_put S (gm_del k (ob_get S w)) w))"

definition label_meta :: "nsname \<Rightarrow> object_meta \<Rightarrow> object_meta" where
  "label_meta vmiCrName m =
     m\<lparr>om_namespace := fst vmiCrName, om_generate_name := prefix, om_name := [],
       om_labels := Some ((map_of_opt (om_labels m))(vmiNameLabel \<mapsto> EnsureLabelValueLength (snd vmiCrName)))\<rparr>"

definition CreateFor :: "('p, 'o) store \<Rightarrow> 'o \<Rightarrow> nsname \<Rightarrow> ('p, 'o) op" where
  "CreateFor S x vmiCrName = create_object S (ob_set_meta S (label_meta vmiCrName (ob_meta S x)) x)"

definition DeleteFor :: "('p, 'o) store \<Rightarrow> nsname \<Rightarrow> ('p, unit) op" where
  "DeleteFor S vmiCrName = gbind (FindFor S vmiCrName) (\<lambda>found.
     case found of None \<Rightarrow> gret () | Some x \<Rightarrow> delete_object S (om_key (ob_meta S x)))"

definition secret_store :: "('p, secret) store" where
  "secret_store = \<lparr>ob_kind = ''secrets'', ob_get = w_secrets, ob_put = (\<lambda>x w. w\<lparr>w_secrets := x\<rparr>),
     ob_meta = se_meta, ob_set_meta = (\<lambda>m s. s\<lparr>se_meta := m\<rparr>)\<rparr>"

definition config_map_store :: "('p, config_map) store" where
  "config_map_store = \<lparr>ob_kind = ''config maps'', ob_get = w_config_maps, ob_put = (\<lambda>x w. w\<lparr>w_config_maps := x\<rparr>),
     ob_meta = cm_meta, ob_set_meta = (\<lambda>m s. s\<lparr>cm_meta := m\<rparr>)\<rparr>"

definition job_store :: "('p, job) store" where
  "job_store = \<lparr>ob_kind = ''jobs'', ob_get = w_jobs, ob_put = (\<lambda>x w. w\<lparr>w_jobs := x\<rparr>),
     ob_meta = jb_meta, ob_set_meta = (\<lambda>m j. j\<lparr>jb_meta := m\<rparr>)\<rparr>"

text \<open>A job's pod template gets the label too.\<close>

definition CreateForJob :: "job \<Rightarrow> nsname \<Rightarrow> ('p, job) op" where
  "CreateForJob j vmiCrName =
     CreateFor job_store
       (j\<lparr>jb_spec := (jb_spec j)\<lparr>js_template_labels :=
          Some ((map_of_opt (js_template_labels (jb_spec j)))(vmiNameLabel \<mapsto> EnsureLabelValueLength (snd vmiCrName)))\<rparr>\<rparr>)
       vmiCrName"

section \<open>Data volumes and the virtual machine of an import\<close>

text \<open>A data volume that cannot be read stays in the list as an empty object.\<close>

fun find_dvs :: "string \<Rightarrow> string list \<Rightarrow> ('p, datavolume list \<times> go_error list) op" where
  "find_dvs ns [] = gret ([], [])"
| "find_dvs ns (n # names) =
     gbind (gresult (get_dv (ns, n))) (\<lambda>r.
     gbind (find_dvs ns names) (\<lambda>(dvs, errs).
       case r of
         Inl e \<Rightarrow> gret (empty_datavolume # dvs, e # errs)
       | Inr dv \<Rightarrow> gret (dv # dvs, errs)))"

definition FindDataVolumes :: "nsname \<Rightarrow> ('p, datavolume list \<times> go_error option) op" where
  "FindDataVolumes vmiCrName =
     gtry (get_import vmiCrName)
       (\<lambda>e. gret ([], Some e))
       (\<lambda>v. gbind (find_dvs (vi_namespace v) (st_data_volumes (vi_status v))) (\<lambda>(dvs, errs).
          gret (dvs, if errs \<noteq> []
            then Some (errorf (''Find of datavolumes of VM import '' @ snd vmiCrName @ ''/'' @ fst vmiCrName @ '' failed''))
            else None)))"

fun delete_dvs :: "datavolume list \<Rightarrow> ('p, go_error list) op" where
  "delete_dvs [] = gret []"
| "delete_dvs (dv # dvs) =
     gbind (gresult (delete_dv (om_key (dv_meta dv)))) (\<lambda>r.
     gbind (delete_dvs dvs) (\<lambda>errs.
       gret (case r of Inl e \<Rightarrow> e # errs | Inr _ \<Rightarrow> errs)))"

text \<open>The error of \<open>FindFor\<close> is printed when a deletion fails and dropped otherwise.\<close>

definition DeleteDataVolumes :: "nsname \<Rightarrow> ('p, unit) op" where
  "DeleteDataVolumes vmiCrName =
     gbind (FindDataVolumes vmiCrName) (\<lambda>(dvs, err).
     gbind (delete_dvs dvs) (\<lambda>errs.
       if errs \<noteq> []
       then gfail (errorf (''Delete of datavolumes of VM import '' @ snd vmiCrName @ ''/'' @ fst vmiCrName @
              '' failed: '' @ (case err of None \<Rightarrow> ''<nil>'' | Some e \<Rightarrow> emsg e)))
       else gret ()))"

definition FindVirtualMachine :: "nsname \<Rightarrow> ('p, kubevm option) op" where
  "FindVirtualMachine vmiCrName =
     gbind (get_import vmiCrName) (\<lambda>v.
       if st_target_vm_name (vi_status v) = [] then gret None
       else gbind (get_vm (vi_namespace v, st_target_vm_name (vi_status v))) (\<lambda>vm. gret (Some vm)))"

definition DeleteVirtualMachine :: "nsname \<Rightarrow> ('p, unit) op" where
  "DeleteVirtualMachine vmiCrName =
     gbind (FindVirtualMachine vmiCrName) (\<lambda>found.
       case found of None \<Rightarrow> gret () | Some vm \<Rightarrow> delete_vm (om_key (vm_meta vm)))"

section \<open>Owner references\<close>

definition vm_api_version :: string where "vm_api_version = ''kubevirt.io/v1alpha3''"
definition import_api_version :: string where "import_api_version = ''v2v.kubevirt.io/v1beta1''"

definition newVMOwnerReference :: "kubevm \<Rightarrow> owner_ref" where
  "newVMOwnerReference vm = \<lparr>or_api_version = vm_api_version, or_kind = ''VirtualMachine'',
     or_name = om_name (vm_meta vm), or_uid = om_uid (vm_meta vm),
     or_controller = Some False, or_block_deletion = Some True\<rparr>"

definition import_owner_reference :: "bool \<Rightarrow> vmimport \<Rightarrow> owner_ref" where
  "import_owner_reference controller v = \<lparr>or_api_version = import_api_version, or_kind = ''VirtualMachineImport'',
     or_name = vi_name v, or_uid = vi_uid v, or_controller = Some controller, or_block_deletion = Some True\<rparr>"

definition NewVMImportOwnerReference :: "vmimport \<Rightarrow> owner_ref" where
  "NewVMImportOwnerReference v = import_owner_reference False v"

definition NewVMImportControllerReference :: "vmimport \<Rightarrow> owner_ref" where
  "NewVMImportControllerReference v = import_owner_reference True v"

fun removeControllerReference :: "owner_ref list \<Rightarrow> owner_ref list" where
  "removeControllerReference [] = []"
| "removeControllerReference (r # rs) =
     (if or_controller r = Some True then rs else r # removeControllerReference rs)"

definition AddOwnerReference :: "kubevm \<Rightarrow> datavolume \<Rightarrow> ('p, unit) op" where
  "AddOwnerReference vm dv =
     patch_dv_owners (om_key (dv_meta dv)) (om_owners (dv_meta dv) @ [newVMOwnerReference vm])"

definition removeDataVolumeOwnerReference :: "string \<Rightarrow> string \<Rightarrow> ('p, unit) op" where
  "removeDataVolumeOwnerReference namespace dvName =
     gbind (get_dv (namespace, dvName)) (\<lambda>dv.
       let refs = om_owners (dv_meta dv); newRefs = removeControllerReference refs
       in if length newRefs < length refs then patch_dv_owners (om_key (dv_meta dv)) newRefs else gret ())"

fun remove_dv_owners :: "string \<Rightarrow> vm_volume list \<Rightarrow> ('p, go_error list) op" where
  "remove_dv_owners ns [] = gret []"
| "remove_dv_owners ns (v # vs) =
     (case vo_data_volume v of
        None \<Rightarrow> remove_dv_owners ns vs
      | Some n \<Rightarrow> gbind (gresult (removeDataVolumeOwnerReference ns n)) (\<lambda>r.
          gbind (remove_dv_owners ns vs) (\<lambda>errs. gret (case r of Inl e \<Rightarrow> e # errs | Inr _ \<Rightarrow> errs))))"

text \<open>A virtual machine without a template makes this panic.\<close>

definition removeDataVolumesOwnerReferences :: "kubevm \<Rightarrow> ('p, go_error list) op" where
  "removeDataVolumesOwnerReferences vm =
     gbind (glift (deref (vm_template_spec vm))) (\<lambda>t.
       remove_dv_owners (om_namespace (vm_meta vm)) (tp_volumes t))"

definition removeVMOwnerReference :: "kubevm \<Rightarrow> ('p, unit) op" where
  "removeVMOwnerReference vm =
     (let refs = om_owners (vm_meta vm); newRefs = removeControllerReference refs
      in if length newRefs < length refs
         then gbind (patch_vm (om_key (vm_meta vm)) (\<lambda>x. x\<lparr>vm_meta := (vm_meta x)\<lparr>om_owners := newRefs\<rparr>\<rparr>)) (\<lambda>_. gret ())
         else gret ())"

definition PurgeOwnerReferences :: "nsname \<Rightarrow> ('p, go_error list) op" where
  "PurgeOwnerReferences vmName =
     gtry (get_vm vmName)
       (\<lambda>e. gret [e])
       (\<lambda>vm. gbind (removeDataVolumesOwnerReferences vm) (\<lambda>errs.
          gbind (gresult (removeVMOwnerReference vm)) (\<lambda>r.
            gret (case r of Inl e \<Rightarrow> errs @ [e] | Inr _ \<Rightarrow> errs))))"

text \<open>
  \<open>controllerutil.SetControllerReference\<close> of controller-runtime: the owner has to be in the namespace
  of the object, an object has at most one controller, and a reference to the same owner is replaced.
\<close>

definition group_of :: "string \<Rightarrow> string" where
  "group_of api_version = (if CHR ''/'' \<in> set api_version then takeWhile (\<lambda>c. c \<noteq> CHR ''/'') api_version else [])"

definition refer_same :: "owner_ref \<Rightarrow> owner_ref \<Rightarrow> bool" where
  "refer_same a b \<longleftrightarrow>
     group_of (or_api_version a) = group_of (or_api_version b) \<and> or_kind a = or_kind b \<and> or_name a = or_name b"

fun upsertOwnerRef :: "owner_ref \<Rightarrow> owner_ref list \<Rightarrow> owner_ref list" where
  "upsertOwnerRef ref [] = [ref]"
| "upsertOwnerRef ref (r # rs) = (if refer_same r ref then ref # rs else r # upsertOwnerRef ref rs)"

definition GetControllerOf :: "owner_ref list \<Rightarrow> owner_ref option" where
  "GetControllerOf refs = find (\<lambda>r. or_controller r = Some True) refs"

definition SetControllerReference :: "vmimport \<Rightarrow> object_meta \<Rightarrow> go_error + object_meta" where
  "SetControllerReference owner m =
     (let ref = import_owner_reference True owner
      in if vi_namespace owner \<noteq> [] \<and> om_namespace m \<noteq> vi_namespace owner
         then Inl (errorf ''cross-namespace owner references are disallowed'')
         else case GetControllerOf (om_owners m) of
           Some existing \<Rightarrow>
             if \<not> refer_same existing ref then Inl (errorf ''Object is already owned by another controller'')
             else Inr (m\<lparr>om_owners := upsertOwnerRef ref (om_owners m)\<rparr>)
         | None \<Rightarrow> Inr (m\<lparr>om_owners := upsertOwnerRef ref (om_owners m)\<rparr>))"

section \<open>The contract of a store\<close>

text \<open>The objects of an import, stated without the definitions of the managers.\<close>

definition belongs :: "nsname \<Rightarrow> object_meta \<Rightarrow> bool" where
  "belongs k m \<longleftrightarrow> om_namespace m = fst k \<and>
     (\<exists>ls. om_labels m = Some ls \<and> ls ''vmimport.v2v.kubevirt.io/vmi-name'' = Some (EnsureLabelValueLength (snd k)))"

definition none_for :: "('p, 'o) store \<Rightarrow> nsname \<Rightarrow> 'p world \<Rightarrow> bool" where
  "none_for S k w \<longleftrightarrow> (\<forall>x \<in> snd ` set (ob_get S w). \<not> belongs k (ob_meta S x))"

lemma labelled_for_belongs: "labelled_for k m \<longleftrightarrow> belongs k m"
  by (auto simp: labelled_for_def belongs_def has_label_def vmiNameLabel_def prefix_def map_of_opt_def split: option.splits)

text \<open>
  The abstract specification of a manager: what it finds belongs to the import, what it creates for an import it
  finds, and it can delete it.
\<close>

definition manager_spec :: "('p, 'o) store \<Rightarrow> bool" where
  "manager_spec S \<longleftrightarrow> (\<forall>k w y. fst (FindFor S k w) = Inr (Some y) \<longrightarrow> belongs k (ob_meta S y)) \<and> (\<forall>k x w x' w'.
     none_for S k w \<and> CreateFor S x k w = (Inr x', w') \<longrightarrow>
       belongs k (ob_meta S x') \<and> x' = ob_set_meta S (ob_meta S x') x \<and>
       (w_faults w (w_calls w') = NoFault \<longrightarrow> fst (FindFor S k w') = Inr (Some x')) \<and>
       (\<forall>w''. DeleteFor S k w' = (Inr (), w'') \<longrightarrow> none_for S k w''))"

lemma update_new: "k \<notin> fst ` set al \<Longrightarrow> gm_set k v al = al @ [(k, v)]"
  by (induction al) auto

locale object_store =
  fixes S :: "('p, 'o) store"
  assumes get_put: "ob_get S (ob_put S x w) = x"
    and meta_set: "ob_meta S (ob_set_meta S m y) = m"
    and set_set: "ob_set_meta S m (ob_set_meta S m' y) = ob_set_meta S m y"
    and put_calls: "w_calls (ob_put S x w) = w_calls w"
    and put_faults: "w_faults (ob_put S x w) = w_faults w"
    and get_calls: "ob_get S (w\<lparr>w_calls := n\<rparr>) = ob_get S w"
begin

lemma list_labelled_ok:
  "w_faults w (w_calls w) = NoFault \<Longrightarrow>
   list_labelled S k w = (Inr (filter (labelled_for k \<circ> ob_meta S) (map snd (ob_get S w))), w\<lparr>w_calls := Suc (w_calls w)\<rparr>)"
  by (simp add: list_labelled_def api_def Let_def get_calls)

lemma FindFor_none:
  assumes "w_faults w (w_calls w) = NoFault" and "none_for S k w"
  shows "fst (FindFor S k w) = Inr None"
proof -
  have "filter (labelled_for k \<circ> ob_meta S) (map snd (ob_get S w)) = []"
    using assms(2) by (auto simp: none_for_def filter_empty_conv labelled_for_belongs)
  with assms(1) show ?thesis by (simp add: FindFor_def gbind_def list_labelled_ok)
qed

lemma FindFor_frame:
  assumes "FindFor S k w = (r, w')"
  shows "w' = w\<lparr>w_calls := Suc (w_calls w)\<rparr>"
  using assms
  by (auto simp: FindFor_def gbind_def list_labelled_def api_def Let_def split: fault.splits list.splits prod.splits sum.splits)

lemma labelled_label_meta: "labelled_for k (admitted w (label_meta k m))"
  by (simp add: labelled_for_def has_label_def label_meta_def admitted_def)

lemma CreateFor_result:
  assumes "CreateFor S x k w = (Inr x', w')"
  shows "ob_meta S x' = admitted (w\<lparr>w_calls := Suc (w_calls w)\<rparr>) (label_meta k (ob_meta S x)) \<and>
    x' = ob_set_meta S (ob_meta S x') x \<and>
    gm_get (ob_get S w) (om_key (ob_meta S x')) = None \<and>
    ob_get S w' = gm_set (om_key (ob_meta S x')) x' (ob_get S w) \<and>
    w_calls w' = Suc (w_calls w) \<and> w_faults w' = w_faults w"
  using assms
  by (auto simp: CreateFor_def create_object_def api_def Let_def get_put meta_set set_set put_calls put_faults get_calls
      split: fault.splits if_splits)

lemma created_store:
  assumes "none_for S k w" and c: "CreateFor S x k w = (Inr x', w')"
  shows "ob_get S w' = ob_get S w @ [(om_key (ob_meta S x'), x')]"
    and "filter (labelled_for k \<circ> ob_meta S) (map snd (ob_get S w')) = [x']"
proof -
  note r = CreateFor_result [OF c]
  have "gm_get (ob_get S w) (om_key (ob_meta S x')) = None" using r by blast
  then have "om_key (ob_meta S x') \<notin> fst ` set (ob_get S w)" by (simp add: map_of_eq_None_iff)
  then show get: "ob_get S w' = ob_get S w @ [(om_key (ob_meta S x'), x')]"
    using r update_new by metis
  have "filter (labelled_for k \<circ> ob_meta S) (map snd (ob_get S w)) = []"
    using assms(1) by (auto simp: none_for_def filter_empty_conv labelled_for_belongs)
  moreover have "labelled_for k (ob_meta S x')" using r labelled_label_meta by metis
  ultimately show "filter (labelled_for k \<circ> ob_meta S) (map snd (ob_get S w')) = [x']" by (simp add: get)
qed

lemma FindFor_Some:
  assumes "filter (labelled_for k \<circ> ob_meta S) (map snd (ob_get S w)) = [x]" and "FindFor S k w = (Inr y, w')"
  shows "y = Some x" and "ob_get S w' = ob_get S w"
  using assms FindFor_frame [OF assms(2)]
  by (auto simp: FindFor_def gbind_def list_labelled_def api_def Let_def get_calls split: fault.splits prod.splits sum.splits)

lemma DeleteFor_one:
  assumes one: "filter (labelled_for k \<circ> ob_meta S) (map snd (ob_get S w)) = [x]"
    and get: "ob_get S w = al @ [(om_key (ob_meta S x), x)]"
    and none: "\<forall>y \<in> snd ` set al. \<not> belongs k (ob_meta S y)"
    and d: "DeleteFor S k w = (Inr (), w')"
  shows "none_for S k w'"
proof -
  from d obtain y w1 where f: "FindFor S k w = (Inr y, w1)"
    and r: "(case y of None \<Rightarrow> gret () | Some x \<Rightarrow> delete_object S (om_key (ob_meta S x))) w1 = (Inr (), w')"
    by (auto simp: DeleteFor_def gbind_returns)
  note fs = FindFor_Some [OF one f]
  from r fs have "delete_object S (om_key (ob_meta S x)) w1 = (Inr (), w')" by simp
  then have "ob_get S w' = gm_del (om_key (ob_meta S x)) (ob_get S w)"
    by (auto simp: delete_object_def api_def Let_def get_put get_calls fs(2) split: fault.splits if_splits)
  then have "set (ob_get S w') \<subseteq> set al" by (auto simp: get AList.delete_eq)
  with none show ?thesis by (auto simp: none_for_def)
qed

lemma FindFor_belongs:
  assumes "fst (FindFor S k w) = Inr (Some y)"
  shows "belongs k (ob_meta S y)"
proof -
  from assms obtain w' where "FindFor S k w = (Inr (Some y), w')" by (cases "FindFor S k w") simp
  then obtain xs where l: "list_labelled S k w = (Inr xs, w')"
    and "(case xs of [] \<Rightarrow> gret None | [x] \<Rightarrow> gret (Some x)
      | _ \<Rightarrow> gfail (errorf (''too many '' @ ob_kind S @ '' matching given labels: '' @ vmiNameLabel))) w' = (Inr (Some y), w')"
    by (auto simp: FindFor_def gbind_returns list_labelled_def api_def Let_def split: fault.splits list.splits)
  then have "list_labelled S k w = (Inr [y], w')" by (cases xs rule: remdups_adj.cases) auto
  then have "filter (labelled_for k \<circ> ob_meta S) (map snd (ob_get S (w\<lparr>w_calls := Suc (w_calls w)\<rparr>))) = [y]"
    by (auto simp: list_labelled_def api_def Let_def split: fault.splits)
  from filter_eq_ConsD [OF this] show ?thesis by (auto simp: labelled_for_belongs)
qed

lemma spec: "manager_spec S"
  unfolding manager_spec_def
proof (intro allI impI conjI)
  show "belongs k (ob_meta S y)" if "fst (FindFor S k w) = Inr (Some y)" for k w y
    using that by (rule FindFor_belongs)
next
  fix k x w x' w'
  assume "none_for S k w \<and> CreateFor S x k w = (Inr x', w')"
  then have n: "none_for S k w" and c: "CreateFor S x k w = (Inr x', w')" by auto
  note r = CreateFor_result [OF c] and s = created_store [OF n c]
  show "belongs k (ob_meta S x')" using r labelled_label_meta labelled_for_belongs by metis
  show "x' = ob_set_meta S (ob_meta S x') x" using r by blast
  show "fst (FindFor S k w') = Inr (Some x')" if "w_faults w (w_calls w') = NoFault"
  proof -
    have "w_faults w' (w_calls w') = NoFault" using that r by simp
    then show ?thesis using s(2) by (simp add: FindFor_def gbind_def list_labelled_ok)
  qed
  show "none_for S k w''" if "DeleteFor S k w' = (Inr (), w'')" for w''
    using n by (intro DeleteFor_one [OF s(2) s(1) _ that]) (simp add: none_for_def)
qed

end

interpretation secrets: object_store secret_store
  by unfold_locales (simp_all add: secret_store_def)

interpretation config_maps: object_store config_map_store
  by unfold_locales (simp_all add: config_map_store_def)

interpretation jobs: object_store job_store
  by unfold_locales (simp_all add: job_store_def)

section \<open>Properties\<close>


definition long_name :: "char \<Rightarrow> string" where
  "long_name c = replicate 69 CHR ''x'' @ [c]"

lemma FindFor_label:
  "EnsureLabelValueLength a = EnsureLabelValueLength b \<Longrightarrow> FindFor S (ns, a) = FindFor S (ns, b)"
  by (simp add: FindFor_def list_labelled_def labelled_for_def [abs_def])

text \<open>
  Objects are found by a label that holds at most 63 characters of the import's name and, for longer
  names, the length of the name: two imports of one namespace with different long names share the
  secret, the config map and the job, so each finds, uses and deletes those of the other.
\<close>

lemma managers_confuse_long_names:
  "\<exists>a b. a \<noteq> b \<and> length a < 253 \<and> length b < 253 \<and>
     (\<forall>ns w. FindFor secret_store (ns, a) w = FindFor secret_store (ns, b) w \<and>
        DeleteFor secret_store (ns, a) w = DeleteFor secret_store (ns, b) w \<and>
        FindFor job_store (ns, a) w = FindFor job_store (ns, b) w)"
proof (intro exI conjI allI)
  have e: "EnsureLabelValueLength (long_name CHR ''a'') = EnsureLabelValueLength (long_name CHR ''b'')"
    by code_simp
  show "long_name CHR ''a'' \<noteq> long_name CHR ''b''" by (simp add: long_name_def)
  show "length (long_name CHR ''a'') < 253" "length (long_name CHR ''b'') < 253" by (simp_all add: long_name_def)
  fix ns w
  show "FindFor secret_store (ns, long_name CHR ''a'') w = FindFor secret_store (ns, long_name CHR ''b'') w"
    "FindFor job_store (ns, long_name CHR ''a'') w = FindFor job_store (ns, long_name CHR ''b'') w"
    using FindFor_label [OF e] by metis+
  show "DeleteFor secret_store (ns, long_name CHR ''a'') w = DeleteFor secret_store (ns, long_name CHR ''b'') w"
    by (simp only: DeleteFor_def FindFor_label [OF e])
qed

end
