(* ===== verification/ProviderApi.thy ===== *)
theory ProviderApi
  imports Managers Complex_Main
begin

text \<open>
  The interfaces of \<open>pkg/providers/provider.go\<close>: what the controller calls on a source provider and on
  its mapper.  A provider is a record of operations over the world; its own fields are the component
  \<open>w_provider\<close> of the world.  \<open>MapDataVolumes\<close> returns the entries of its map in the order in which the
  controller ranges over them.  \<open>runtime_env\<close> holds what the controller takes from its surroundings:
  an environment variable and the parsing and the rounding of floating-point numbers.
\<close>

text \<open>The apostrophe, for the texts that hold one.\<close>

definition apos :: string where "apos = [CHR 0x27]"

definition VMStatusDown :: string where "VMStatusDown = ''down''"
definition VMStatusUp :: string where "VMStatusUp = ''up''"

record 'p mapper =
  mp_CreateEmptyVM :: "string option \<Rightarrow> go_error + kubevm"
  mp_ResolveVMName :: "string option \<Rightarrow> string option"
  mp_MapVM :: "string option \<Rightarrow> kubevm \<Rightarrow> ('p, kubevm) op"
  mp_MapDataVolumes :: "string \<Rightarrow> go_error + (string, datavolume) gomap"
  mp_MapDisk :: "kubevm \<Rightarrow> datavolume \<Rightarrow> go_error + kubevm"

record 'p provider =
  pv_New :: "vmimport \<Rightarrow> (string \<rightharpoonup> string) \<Rightarrow> 'p \<Rightarrow> 'p"
  pv_Init :: "secret \<Rightarrow> vmimport \<Rightarrow> ('p, unit) op"
  pv_TestConnection :: "('p, unit) op"
  pv_Close :: "('p, unit) op"
  pv_LoadVM :: "source_spec \<Rightarrow> ('p, unit) op"
  pv_PrepareResourceMapping :: "mapping_spec option \<Rightarrow> source_spec \<Rightarrow> ('p, unit) op"
  pv_Validate :: "('p, condition list) op"
  pv_ValidateDiskStatus :: "string \<Rightarrow> ('p, bool) op"
  pv_StopVM :: "vmimport \<Rightarrow> ('p, vmimport) op"
  pv_CreateMapper :: "('p, 'p mapper) op"
  pv_GetVMStatus :: "('p, string) op"
  pv_GetVMName :: "('p, string) op"
  pv_StartVM :: "('p, unit) op"
  pv_CleanUp :: "bool \<Rightarrow> vmimport \<Rightarrow> ('p, vmimport) op"
  pv_FindTemplate :: "('p, template) op"
  pv_ProcessTemplate :: "template \<Rightarrow> string option \<Rightarrow> string \<Rightarrow> ('p, kubevm) op"
  pv_NeedsGuestConversion :: bool
  pv_GetGuestConversionJob :: "('p, job option) op"
  pv_LaunchGuestConversionJob :: "kubevm \<Rightarrow> ('p, job option) op"

record runtime_env =
  re_pod_restart_tolerance :: int
  re_ParseFloat :: "string \<Rightarrow> rat option"
  re_round :: "rat \<Rightarrow> rat"
  re_nan_to_int :: int
  re_range_progress :: "(string, rat) gomap \<Rightarrow> (string, rat) gomap"
  re_UnmarshalStringMap :: "string \<Rightarrow> (string \<rightharpoonup> string) option"

end
