(* ===== verification/Conditions.thy ===== *)
theory Conditions
  imports ImportTypes
begin

text \<open>
  \<open>pkg/conditions/conditions.go\<close>: building, finding, testing and upserting the status
  conditions of a virtual machine import.  The current time that \<open>time.Now()\<close> returns is an
  argument.  \<open>conds_wf\<close> is the invariant of a condition list: at most one condition of each type,
  every one with a reason.
\<close>

definition NewCondition :: "condition_type \<Rightarrow> string \<Rightarrow> string \<Rightarrow> condition_status \<Rightarrow> time \<Rightarrow> condition" where
  "NewCondition t reason message status now =
     \<lparr>c_type = t, c_status = status, c_reason = Some reason, c_message = Some message,
      c_heartbeat = Some now, c_transition = Some now\<rparr>"

definition NewSucceededCondition :: "string \<Rightarrow> string \<Rightarrow> condition_status \<Rightarrow> time \<Rightarrow> condition" where
  "NewSucceededCondition reason message status now = NewCondition Succeeded reason message status now"

definition NewProcessingCondition :: "string \<Rightarrow> string \<Rightarrow> condition_status \<Rightarrow> time \<Rightarrow> condition" where
  "NewProcessingCondition reason message status now = NewCondition Processing reason message status now"

fun FindConditionOfType :: "condition list \<Rightarrow> condition_type \<Rightarrow> condition option" where
  "FindConditionOfType [] t = None"
| "FindConditionOfType (c # cs) t = (if c_type c = t then Some c else FindConditionOfType cs t)"

text \<open>Writing through the pointer that \<open>FindConditionOfType\<close> returns: the first match changes.\<close>

fun update_found :: "condition_type \<Rightarrow> (condition \<Rightarrow> condition) \<Rightarrow> condition list \<Rightarrow> condition list" where
  "update_found t f [] = []"
| "update_found t f (c # cs) = (if c_type c = t then f c # cs else c # update_found t f cs)"

definition merge_condition :: "condition \<Rightarrow> time \<Rightarrow> condition \<Rightarrow> condition" where
  "merge_condition new now old =
     (let c = old\<lparr>c_message := c_message new, c_reason := c_reason new, c_heartbeat := Some now\<rparr>
      in if c_status old \<noteq> c_status new
         then c\<lparr>c_status := c_status new, c_transition := c_transition new\<rparr> else c)"

definition UpsertCondition :: "vmimport \<Rightarrow> condition \<Rightarrow> time \<Rightarrow> vmimport" where
  "UpsertCondition v new now =
     (case FindConditionOfType (vi_conditions v) (c_type new) of
        Some old \<Rightarrow> set_conditions v (update_found (c_type new) (merge_condition new now) (vi_conditions v))
      | None \<Rightarrow> set_conditions v (vi_conditions v @ [new]))"

text \<open>The inner loop dereferences the reason once per candidate.\<close>

fun reason_among :: "string option \<Rightarrow> SucceededConditionReason list \<Rightarrow> go_error + bool" where
  "reason_among p [] = Inr False"
| "reason_among p (r # rs) =
     rbind (deref p) (\<lambda>s. if s = succeeded_reason r then Inr True else reason_among p rs)"

fun HasSucceededConditionOfReason :: "condition list \<Rightarrow> SucceededConditionReason list \<Rightarrow> go_error + bool" where
  "HasSucceededConditionOfReason [] rs = Inr False"
| "HasSucceededConditionOfReason (c # cs) rs =
     (if c_type c = Succeeded
      then rbind (reason_among (c_reason c) rs)
             (\<lambda>found. if found then Inr True else HasSucceededConditionOfReason cs rs)
      else HasSucceededConditionOfReason cs rs)"

section \<open>Lemmas\<close>

definition cond_wf :: "condition \<Rightarrow> bool" where
  "cond_wf c \<longleftrightarrow> c_reason c \<noteq> None"

definition conds_wf :: "condition list \<Rightarrow> bool" where
  "conds_wf cs \<longleftrightarrow> distinct (map c_type cs) \<and> list_all cond_wf cs"

lemma NewCondition_simps [simp]:
  "c_type (NewCondition t r m s now) = t"
  "c_status (NewCondition t r m s now) = s"
  "c_reason (NewCondition t r m s now) = Some r"
  "c_message (NewCondition t r m s now) = Some m"
  "cond_wf (NewCondition t r m s now)"
  by (simp_all add: NewCondition_def cond_wf_def)

lemma New_conditions [simp]:
  "NewSucceededCondition r m s now = NewCondition Succeeded r m s now"
  "NewProcessingCondition r m s now = NewCondition Processing r m s now"
  by (simp_all add: NewSucceededCondition_def NewProcessingCondition_def)

lemma merge_condition_simps [simp]:
  "c_type (merge_condition new now old) = c_type old"
  "c_status (merge_condition new now old) = c_status new"
  "c_reason (merge_condition new now old) = c_reason new"
  "c_message (merge_condition new now old) = c_message new"
  "c_heartbeat (merge_condition new now old) = Some now"
  by (simp_all add: merge_condition_def Let_def)

lemma merge_condition_transition:
  "c_transition (merge_condition new now old) =
     (if c_status old = c_status new then c_transition old else c_transition new)"
  by (simp add: merge_condition_def Let_def)

lemma merge_condition_wf: "cond_wf new \<Longrightarrow> cond_wf (merge_condition new now old)"
  by (simp add: cond_wf_def)

lemma Find_Some: "FindConditionOfType cs t = Some c \<Longrightarrow> c \<in> set cs \<and> c_type c = t"
  by (induction cs) (auto split: if_splits)

lemma Find_None: "FindConditionOfType cs t = None \<longleftrightarrow> t \<notin> c_type ` set cs"
  by (induction cs) auto

lemma Find_append:
  "FindConditionOfType (cs @ ds) t =
     (case FindConditionOfType cs t of Some c \<Rightarrow> Some c | None \<Rightarrow> FindConditionOfType ds t)"
  by (induction cs) auto

lemma map_type_update_found:
  "(\<And>c. c_type (f c) = c_type c) \<Longrightarrow> map c_type (update_found t f cs) = map c_type cs"
  by (induction cs) auto

lemma Find_update_found:
  "(\<And>c. c_type (f c) = c_type c) \<Longrightarrow>
   FindConditionOfType (update_found t f cs) t' =
     (if t' = t then map_option f (FindConditionOfType cs t) else FindConditionOfType cs t')"
  by (induction cs) auto

lemma list_all_update_found: "list_all P cs \<Longrightarrow> (\<And>c. P c \<Longrightarrow> P (f c)) \<Longrightarrow> list_all P (update_found t f cs)"
  by (induction cs) auto

text \<open>The condition that an upsert leaves behind.\<close>

definition upserted :: "condition list \<Rightarrow> condition \<Rightarrow> time \<Rightarrow> condition" where
  "upserted cs new now =
     (case FindConditionOfType cs (c_type new) of Some old \<Rightarrow> merge_condition new now old | None \<Rightarrow> new)"

lemma upserted_simps [simp]:
  "c_type (upserted cs new now) = c_type new"
  "c_status (upserted cs new now) = c_status new"
  "c_reason (upserted cs new now) = c_reason new"
  "c_message (upserted cs new now) = c_message new"
  by (auto simp: upserted_def dest: Find_Some split: option.split)

lemma upserted_old:
  assumes "FindConditionOfType cs (c_type new) = Some old"
  shows "c_heartbeat (upserted cs new now) = Some now"
    and "c_transition (upserted cs new now) =
           (if c_status old = c_status new then c_transition old else c_transition new)"
  using assms by (simp_all add: upserted_def merge_condition_transition)

lemma Find_Upsert:
  "FindConditionOfType (vi_conditions (UpsertCondition v new now)) t =
     (if t = c_type new then Some (upserted (vi_conditions v) new now)
      else FindConditionOfType (vi_conditions v) t)"
  by (auto simp: UpsertCondition_def upserted_def Find_update_found Find_append split: option.split)

lemma Upsert_frame [simp]:
  "vi_name (UpsertCondition v new now) = vi_name v"
  "vi_namespace (UpsertCondition v new now) = vi_namespace v"
  "vi_annotations (UpsertCondition v new now) = vi_annotations v"
  "vi_finalizers (UpsertCondition v new now) = vi_finalizers v"
  "vi_deletion (UpsertCondition v new now) = vi_deletion v"
  "vi_labels (UpsertCondition v new now) = vi_labels v"
  "vi_spec (UpsertCondition v new now) = vi_spec v"
  "st_target_vm_name (vi_status (UpsertCondition v new now)) = st_target_vm_name (vi_status v)"
  "st_data_volumes (vi_status (UpsertCondition v new now)) = st_data_volumes (vi_status v)"
  by (simp_all add: UpsertCondition_def split: option.split)

lemma vi_key_Upsert [simp]: "vi_key (UpsertCondition v new now) = vi_key v"
  by (simp add: vi_key_def)

lemma Upsert_wf:
  assumes "conds_wf (vi_conditions v)" and "cond_wf new"
  shows "conds_wf (vi_conditions (UpsertCondition v new now))"
proof (cases "FindConditionOfType (vi_conditions v) (c_type new)")
  case None
  then have "c_type new \<notin> c_type ` set (vi_conditions v)" by (simp add: Find_None)
  with None assms show ?thesis by (simp add: UpsertCondition_def conds_wf_def)
next
  case (Some old)
  have "list_all cond_wf (update_found (c_type new) (merge_condition new now) (vi_conditions v))"
    using assms by (intro list_all_update_found) (simp_all add: conds_wf_def merge_condition_wf)
  then show ?thesis
    using assms Some by (simp add: UpsertCondition_def conds_wf_def map_type_update_found)
qed

lemma reason_among_Some: "reason_among (Some s) rs = Inr (s \<in> succeeded_reason ` set rs)"
  by (induction rs) auto

lemma HasSucceeded_wf:
  "conds_wf cs \<Longrightarrow>
   HasSucceededConditionOfReason cs rs =
     Inr (case FindConditionOfType cs Succeeded of
            None \<Rightarrow> False | Some c \<Rightarrow> the (c_reason c) \<in> succeeded_reason ` set rs)"
proof (induction cs)
  case Nil
  then show ?case by simp
next
  case (Cons c cs)
  then have wf: "conds_wf cs" and c: "cond_wf c" and d: "c_type c \<notin> c_type ` set cs"
    by (auto simp: conds_wf_def)
  from c obtain s where s: "c_reason c = Some s" by (auto simp: cond_wf_def)
  show ?case
  proof (cases "c_type c = Succeeded")
    case True
    with d have "FindConditionOfType cs Succeeded = None" by (simp add: Find_None)
    with Cons.IH [OF wf] True s show ?thesis by (auto simp: reason_among_Some)
  next
    case False
    with Cons.IH [OF wf] show ?thesis by simp
  qed
qed

section \<open>Properties\<close>

text \<open>
  C31. Upserting a condition keeps the list well formed (one condition per type, each with a
  reason), makes the new status, reason and message the ones found under its type, leaves the
  conditions of the other types alone, and moves the transition time exactly when the status changes.
\<close>

theorem upsert_condition_correct:
  assumes "conds_wf (vi_conditions v)" and "cond_wf new"
  shows "conds_wf (vi_conditions (UpsertCondition v new now)) \<and>
    (\<exists>c. FindConditionOfType (vi_conditions (UpsertCondition v new now)) (c_type new) = Some c \<and>
         c_status c = c_status new \<and> c_reason c = c_reason new \<and> c_message c = c_message new \<and>
         (\<forall>old. FindConditionOfType (vi_conditions v) (c_type new) = Some old \<longrightarrow>
            c_heartbeat c = Some now \<and>
            c_transition c = (if c_status old = c_status new then c_transition old else c_transition new))) \<and>
    (\<forall>t. t \<noteq> c_type new \<longrightarrow>
       FindConditionOfType (vi_conditions (UpsertCondition v new now)) t = FindConditionOfType (vi_conditions v) t)"
  using Upsert_wf [OF assms, of now] by (auto simp: Find_Upsert upserted_old)

definition example_cond :: condition where
  "example_cond = NewCondition Processing ''CopyingDisks'' ''Copying virtual machine disks'' ConditionTrue 7"

definition example_vmi :: vmimport where
  "example_vmi =
    \<lparr>vi_name = ''vmi'', vi_namespace = ''ns'', vi_annotations = Map.empty, vi_labels = Map.empty,
     vi_finalizers = [], vi_deletion = None, vi_creation = 0, vi_uid = ''u'',
     vi_spec = \<lparr>sp_credentials = \<lparr>oi_name = ''secret'', oi_namespace = None\<rparr>, sp_resource_mapping = None,
       sp_source = \<lparr>ss_ovirt = Some \<lparr>os_vm_id = Some ''vm'', os_vm_name = None, os_cluster = None, os_mappings = None\<rparr>,
                    ss_vmware = None\<rparr>,
       sp_target_vm_name = None, sp_start_vm = None\<rparr>,
     vi_status = \<lparr>st_target_vm_name = [], st_conditions = [], st_data_volumes = []\<rparr>\<rparr>"

theorem upsert_condition_correct_witness:
  "\<exists>c. FindConditionOfType (vi_conditions (UpsertCondition example_vmi example_cond 9)) Processing = Some c \<and>
       c_status c = ConditionTrue"
proof -
  have wf: "conds_wf (vi_conditions example_vmi)" by (simp add: example_vmi_def conds_wf_def)
  have c: "cond_wf example_cond" by (simp add: example_cond_def)
  show ?thesis
    using upsert_condition_correct [OF wf c, of 9] by (auto simp: example_cond_def)
qed

end
