(* ===== verification/Controller.thy ===== *)
theory Controller
  imports ProviderApi Conditions
begin

text \<open>
  \<open>pkg/controller/virtualmachineimport/virtualmachineimport_controller.go\<close>: the reconciler of virtual
  machine imports, function by function.  An import that a Go function changes in memory through its
  pointer is returned by the definition; an error result is an \<open>Inl\<close>.  Where the Go code returns a nil
  error in place of one it overwrote, the definition returns normally as well.
\<close>

section \<open>Constants\<close>

definition annAPIGroup :: string where "annAPIGroup = ''vmimport.v2v.kubevirt.io''"
definition sourceVMInitialState :: string where "sourceVMInitialState = annAPIGroup @ ''/source-vm-initial-state''"
definition AnnCurrentProgress :: string where "AnnCurrentProgress = annAPIGroup @ ''/progress''"
definition AnnPropagate :: string where "AnnPropagate = annAPIGroup @ ''/propagate-annotations''"
definition TrackingLabel :: string where "TrackingLabel = annAPIGroup @ ''/tracker''"

definition progressStart :: string where "progressStart = ''0''"
definition progressCreatingVM :: string where "progressCreatingVM = ''5''"
definition progressCopyingDisks :: string where "progressCopyingDisks = ''10''"
definition progressConvertingGuest :: string where "progressConvertingGuest = ''70''"
definition progressStartVM :: string where "progressStartVM = ''90''"
definition progressDone :: string where "progressDone = ''100''"
definition progressCopyDiskRange :: rat where "progressCopyDiskRange = 65 / 100"

definition requeueAfterValidationFailureTime :: nat where "requeueAfterValidationFailureTime = 5"
definition podCrashLoopBackOff :: string where "podCrashLoopBackOff = ''CrashLoopBackOff''"

definition importerPodNameFromDv :: "string \<Rightarrow> string" where
  "importerPodNameFromDv dvID = ''importer-'' @ dvID"

text \<open>\<open>reconcile.Result\<close>: after how many seconds to requeue, if so.\<close>

record reconcile_result =
  rq_after :: "nat option"

definition no_requeue :: reconcile_result where "no_requeue = \<lparr>rq_after = None\<rparr>"
definition requeue_after :: "nat \<Rightarrow> reconcile_result" where "requeue_after n = \<lparr>rq_after = Some n\<rparr>"

section \<open>Decisions on an import\<close>

definition vmImportInProgress :: "vmimport \<Rightarrow> bool" where
  "vmImportInProgress v \<longleftrightarrow> vi_annotations v AnnCurrentProgress \<noteq> None"

definition shouldReconcile :: "vmimport \<Rightarrow> bool" where
  "shouldReconcile v =
     (case FindConditionOfType (vi_conditions v) Succeeded of
        None \<Rightarrow> True
      | Some c \<Rightarrow> c_reason c = Some (succeeded_reason VirtualMachineReady) \<and> sp_start_vm (vi_spec v) = Some True)"

definition shouldStartVM :: "vmimport \<Rightarrow> go_error + bool" where
  "shouldStartVM v =
     (if sp_start_vm (vi_spec v) = Some True
      then HasSucceededConditionOfReason (vi_conditions v) [VirtualMachineReady]
      else Inr False)"

definition has_import_finished :: "vmimport \<Rightarrow> go_error + bool" where
  "has_import_finished v = HasSucceededConditionOfReason (vi_conditions v) [VirtualMachineReady, VirtualMachineRunning]"

definition shouldConvertGuest :: "'p provider \<Rightarrow> vmimport \<Rightarrow> go_error + bool" where
  "shouldConvertGuest P v =
     (if pv_NeedsGuestConversion P then rbind (has_import_finished v) (\<lambda>b. Inr (\<not> b)) else Inr False)"

definition shouldImportDisks :: "vmimport \<Rightarrow> go_error + bool" where
  "shouldImportDisks v = rbind (has_import_finished v) (\<lambda>b. Inr (\<not> b))"

definition isIncomplete :: "condition option \<Rightarrow> bool" where
  "isIncomplete c = (case c of None \<Rightarrow> True | Some c \<Rightarrow> c_status c \<noteq> ConditionTrue)"

definition shouldInvoke :: "vmi_status \<Rightarrow> bool" where
  "shouldInvoke st =
     (isIncomplete (FindConditionOfType (st_conditions st) Valid) \<or>
      isIncomplete (FindConditionOfType (st_conditions st) MappingRulesVerified))"

definition isDoneImport :: "(string, bool) gomap \<Rightarrow> nat \<Rightarrow> bool" where
  "isDoneImport dvsDone numberOfDvs = (CountImportedDataVolumes dvsDone = numberOfDvs)"

text \<open>Whether no condition is false, and the messages of those that are.\<close>

definition shouldFailWith :: "condition list \<Rightarrow> bool \<times> string" where
  "shouldFailWith cs = foldl (\<lambda>(valid, message) c.
     if c_status c = ConditionFalse
     then (False, case c_message c of None \<Rightarrow> message | Some m \<Rightarrow> WithMessage message m)
     else (valid, message)) (True, []) cs"

text \<open>
  The progress while the disks are copied.  Every float64 operation is followed by the rounding of the
  environment; without disks the average is 0/0, and \<open>re_nan_to_int\<close> is what \<open>int\<close> makes of it.
\<close>

definition truncate_rat :: "rat \<Rightarrow> int" where
  "truncate_rat x = (if x < 0 then \<lceil>x\<rceil> else \<lfloor>x\<rfloor>)"

definition disksImportProgress :: "runtime_env \<Rightarrow> (string, rat) gomap \<Rightarrow> nat \<Rightarrow> string" where
  "disksImportProgress E dvsImportProgress dvCount =
     (let rnd = re_round E;
          sumProgress = foldl (\<lambda>s kv. rnd (s + snd kv)) 0 (re_range_progress E dvsImportProgress);
          startProgress = (case Atoi progressCopyingDisks of None \<Rightarrow> 0 | Some n \<Rightarrow> n);
          average = rnd (sumProgress / of_nat dvCount)
      in Itoa (wrap64 (startProgress +
           (if dvCount = 0 then re_nan_to_int E else truncate_rat (rnd (average * rnd progressCopyDiskRange))))))"

section \<open>Conditions and progress in the cluster\<close>

definition new_condition :: "condition_type \<Rightarrow> string \<Rightarrow> string \<Rightarrow> condition_status \<Rightarrow> ('p, condition) op" where
  "new_condition t reason message status = gbind now (\<lambda>n. gret (NewCondition t reason message status n))"

definition newValidationCondition :: "ValidConditionReason \<Rightarrow> string \<Rightarrow> ('p, condition) op" where
  "newValidationCondition reason message = new_condition Valid (valid_reason reason) message ConditionFalse"

definition upsertStatusConditions :: "nsname \<Rightarrow> condition list \<Rightarrow> ('p, unit) op" where
  "upsertStatusConditions vmiName newConditions =
     gbind (get_import vmiName) (\<lambda>v.
     gbind now (\<lambda>n.
       update_import_status vmiName (vi_status (fold (\<lambda>c copy. UpsertCondition copy c n) newConditions v))))"

definition upsertValidationCondition :: "vmimport \<Rightarrow> ValidConditionReason \<Rightarrow> string \<Rightarrow> go_error \<Rightarrow> ('p, unit) op" where
  "upsertValidationCondition v reason message e =
     gbind (newValidationCondition reason (message @ '': '' @ emsg e)) (\<lambda>c. upsertStatusConditions (vi_key v) [c])"

definition set_annotation :: "vmimport \<Rightarrow> string \<Rightarrow> string \<Rightarrow> ('p, unit) op" where
  "set_annotation v key val =
     gbind (patch_import (vi_key v) (\<lambda>x. x\<lparr>vi_annotations := (vi_annotations x)(key \<mapsto> val)\<rparr>)) (\<lambda>_. gret ())"

text \<open>A patch whose copy equals the original changes nothing on the server.\<close>

definition storeSourceVMStatus :: "vmimport \<Rightarrow> string \<Rightarrow> ('p, unit) op" where
  "storeSourceVMStatus v vmStatus =
     (if vi_annotations v sourceVMInitialState = Some vmStatus
      then gbind (patch_import (vi_key v) (\<lambda>x. x)) (\<lambda>_. gret ())
      else set_annotation v sourceVMInitialState vmStatus)"

definition parse_int :: "string \<Rightarrow> go_error + int" where
  "parse_int s = (case Atoi s of None \<Rightarrow> Inl (errorf (''strconv.Atoi: parsing '' @ s @ '': invalid syntax'')) | Some n \<Rightarrow> Inr n)"

definition updateProgress :: "vmimport \<Rightarrow> string \<Rightarrow> ('p, unit) op" where
  "updateProgress v progress =
     (let currentProgress = (case vi_annotations v AnnCurrentProgress of None \<Rightarrow> ''0'' | Some p \<Rightarrow> p)
      in gbind (glift (parse_int currentProgress)) (\<lambda>currentProgressInt.
         gbind (glift (parse_int progress)) (\<lambda>newProgressInt.
           if currentProgressInt < newProgressInt then set_annotation v AnnCurrentProgress progress else gret ())))"

definition updateTargetVMName :: "nsname \<Rightarrow> string \<Rightarrow> ('p, unit) op" where
  "updateTargetVMName vmiName vmName =
     gbind (get_import vmiName) (\<lambda>_.
     gbind (patch_import vmiName (\<lambda>x. x\<lparr>vi_status := (vi_status x)\<lparr>st_target_vm_name := vmName\<rparr>\<rparr>)) (\<lambda>_. gret ()))"

definition updateDVs :: "nsname \<Rightarrow> string \<Rightarrow> ('p, unit) op" where
  "updateDVs vmiName dvName =
     gbind (get_import vmiName) (\<lambda>v.
       if dvName \<in> set (st_data_volumes (vi_status v)) then gret ()
       else update_import_status vmiName ((vi_status v)\<lparr>st_data_volumes := st_data_volumes (vi_status v) @ [dvName]\<rparr>))"

definition updateToRunning :: "nsname \<Rightarrow> ('p, unit) op" where
  "updateToRunning vmName =
     gbind (get_vm vmName) (\<lambda>_.
     gbind (patch_vm vmName (\<lambda>vm. vm\<lparr>vm_running := Some True\<rparr>)) (\<lambda>_. gret ()))"

definition updateVMSpecDataVolumes :: "'p mapper \<Rightarrow> nsname \<Rightarrow> datavolume \<Rightarrow> ('p, unit) op" where
  "updateVMSpecDataVolumes mapper vmName dv =
     gbind (get_vm vmName) (\<lambda>vm.
     gbind (glift (mp_MapDisk mapper vm dv)) (\<lambda>copy.
     gbind (patch_vm vmName (\<lambda>x. x\<lparr>vm_template_spec := vm_template_spec copy\<rparr>)) (\<lambda>_. gret ())))"

section \<open>The end of an import\<close>

definition calculateImportDuration :: "vmimport \<Rightarrow> ('p, int) op" where
  "calculateImportDuration v = gbind now (\<lambda>n.
     gret ((case vi_deletion v of None \<Rightarrow> n | Some t \<Rightarrow> t) - vi_creation v))"

definition removeFinalizer :: "string \<Rightarrow> vmimport \<Rightarrow> ('p, vmimport) op" where
  "removeFinalizer finalizer v = gtry (RemoveFinalizer v finalizer) (\<lambda>e. gret v) gret"

definition foldErrors :: "go_error list \<Rightarrow> string \<Rightarrow> nsname \<Rightarrow> go_error" where
  "foldErrors errs pre vmiName =
     errorf (pre @ '' clean-up for '' @ ToLoggableResourceName (snd vmiName) (Some (fst vmiName)) @ '' failed: '' @
       foldl (\<lambda>message e. WithMessage message (emsg e)) [] errs)"

definition restoreInitialVMState :: "'p provider \<Rightarrow> nsname \<Rightarrow> ('p, unit) op" where
  "restoreInitialVMState P vmiName =
     gbind (get_import vmiName) (\<lambda>v.
       case vi_annotations v sourceVMInitialState of
         None \<Rightarrow> gfail (errorf (''VM didn'' @ apos @ ''t have initial state stored in '' @ apos @ sourceVMInitialState @ apos @ '' annotation''))
       | Some s \<Rightarrow> if s = VMStatusUp then pv_StartVM P else gret ())"

definition save_metrics :: "import_result \<Rightarrow> vmimport \<Rightarrow> ('p, unit) op" where
  "save_metrics r v = gbind (inc_counter r) (\<lambda>_. gbind (calculateImportDuration v) (save_duration r))"

definition err_list :: "go_error + 'a \<Rightarrow> go_error list" where
  "err_list r = (case r of Inl e \<Rightarrow> [e] | Inr _ \<Rightarrow> [])"

definition afterSuccess :: "'p provider \<Rightarrow> nsname \<Rightarrow> vmimport \<Rightarrow> ('p, vmimport) op" where
  "afterSuccess P vmName v =
     gbind (removeFinalizer CancelledImportFinalizer v) (\<lambda>v.
     gbind (save_metrics ResultSuccessful v) (\<lambda>_.
     gbind (gresult (pv_CleanUp P False v)) (\<lambda>r.
     gbind (PurgeOwnerReferences vmName) (\<lambda>e.
       let errs = err_list r @ e
       in if errs \<noteq> [] then gfail (foldErrors errs ''Import success'' (vi_key v))
          else gret (case r of Inl _ \<Rightarrow> v | Inr v' \<Rightarrow> v')))))"

definition afterFailure :: "'p provider \<Rightarrow> vmimport \<Rightarrow> ('p, vmimport) op" where
  "afterFailure P v =
     gbind (removeFinalizer CancelledImportFinalizer v) (\<lambda>v.
     gbind (save_metrics ResultFailed v) (\<lambda>_.
     gbind (gresult (pv_CleanUp P True v)) (\<lambda>r.
     gbind (gresult (restoreInitialVMState P (vi_key v))) (\<lambda>r2.
       let errs = err_list r @ err_list r2
       in if errs \<noteq> [] then gfail (foldErrors errs ''Import failure'' (vi_key v))
          else gret (case r of Inl _ \<Rightarrow> v | Inr v' \<Rightarrow> v')))))"

text \<open>Both ends of a failed import: conditions, progress, event and clean-up.\<close>

definition end_as_failed :: "'p provider \<Rightarrow> SucceededConditionReason \<Rightarrow> string \<Rightarrow> vmimport \<Rightarrow> string \<Rightarrow> string \<Rightarrow> ('p, vmimport) op" where
  "end_as_failed P reason eventReason v errorMessage message =
     gbind (new_condition Processing (processing_reason ProcessingFailed) errorMessage ConditionFalse) (\<lambda>processingCond.
     gbind (upsertStatusConditions (vi_key v) [processingCond]) (\<lambda>_.
     gbind (new_condition Succeeded (succeeded_reason reason) errorMessage ConditionFalse) (\<lambda>succeededCond.
     gbind (upsertStatusConditions (vi_key v) [succeededCond]) (\<lambda>_.
     gbind (updateProgress v progressDone) (\<lambda>_.
     gbind (record_event v EventWarning eventReason message) (\<lambda>_.
       afterFailure P v))))))"

definition endGuestConversionAsFailed :: "'p provider \<Rightarrow> vmimport \<Rightarrow> string \<Rightarrow> ('p, vmimport) op" where
  "endGuestConversionAsFailed P v message =
     end_as_failed P GuestConversionFailed ''GuestConversionFailed'' v (''Error converting guests: '' @ message) message"

definition endImportAsFailed :: "'p provider \<Rightarrow> vmimport \<Rightarrow> datavolume \<Rightarrow> string \<Rightarrow> ('p, vmimport) op" where
  "endImportAsFailed P v dv message =
     end_as_failed P DataVolumeCreationFailed ''DVCreationFailed'' v
       (''Error while importing disk image: '' @ om_name (dv_meta dv) @ ''. '' @ message) message"

text \<open>The processing condition is changed in memory as well, through the pointer into the import.\<close>

definition complete_processing :: "condition \<Rightarrow> condition" where
  "complete_processing c = c\<lparr>c_status := ConditionTrue, c_reason := Some (processing_reason ProcessingCompleted)\<rparr>"

definition updateConditionsAfterSuccess :: "vmimport \<Rightarrow> string \<Rightarrow> SucceededConditionReason \<Rightarrow> ('p, vmimport) op" where
  "updateConditionsAfterSuccess v message reason =
     gbind (new_condition Succeeded (succeeded_reason reason) message ConditionTrue) (\<lambda>succeededCond.
       let v' = set_conditions v (update_found Processing complete_processing (vi_conditions v));
           conds = succeededCond # opt_list (FindConditionOfType (vi_conditions v') Processing)
       in gbind (upsertStatusConditions (vi_key v) conds) (\<lambda>_. gret v'))"


section \<open>Preparing the provider\<close>

definition fetchSecret :: "vmimport \<Rightarrow> ('p, secret) op" where
  "fetchSecret v =
     (let cred = sp_credentials (vi_spec v);
          secretNamespace = (case oi_namespace cred of None \<Rightarrow> vi_namespace v | Some ns \<Rightarrow> ns)
      in get_secret (secretNamespace, oi_name cred))"

definition fetchResourceMapping :: "object_identifier option \<Rightarrow> string \<Rightarrow> ('p, mapping_spec option) op" where
  "fetchResourceMapping resourceMappingID crNamespace =
     (case resourceMappingID of
        None \<Rightarrow> gret None
      | Some i \<Rightarrow>
          gbind (get_mapping ((case oi_namespace i of None \<Rightarrow> crNamespace | Some ns \<Rightarrow> ns), oi_name i))
            (\<lambda>m. gret (Some m)))"

text \<open>
  The two provider constructors are arguments.  The new provider starts from its own fields, so the
  constructor sets the provider component of the world.
\<close>

definition createProvider :: "'p provider \<Rightarrow> 'p provider \<Rightarrow> vmimport \<Rightarrow> ('p, 'p provider) op" where
  "createProvider ovirt vmware v =
     gbind (gresult (GetBareConfig w_ctrl_config)) (\<lambda>r.
       let config = (case r of Inl _ \<Rightarrow> Map.empty | Inr data \<Rightarrow> data);
           src = sp_source (vi_spec v);
           use = (\<lambda>P. gbind (gmodify (\<lambda>w. w\<lparr>w_provider := pv_New P v config (w_provider w)\<rparr>)) (\<lambda>_. gret P))
       in if ss_ovirt src \<noteq> None \<and> ss_vmware src \<noteq> None
          then gfail (errorf ''Invalid source. Must only include one source type.'')
          else if ss_ovirt src \<noteq> None then use ovirt
          else if ss_vmware src \<noteq> None then use vmware
          else gfail (errorf ''Invalid source type. Only Ovirt and Vmware type is supported''))"

text \<open>\<open>initProvider\<close> returns a message with its error: both are the result here.\<close>

definition initProvider :: "vmimport \<Rightarrow> 'p provider \<Rightarrow> ('p, string \<times> go_error option) op" where
  "initProvider v P =
     (let condition_or = (\<lambda>reason message e. gtry (upsertValidationCondition v reason message e)
            (\<lambda>cerr. gret (message, Some cerr)) (\<lambda>_. gret (message, Some e)))
      in gtry (fetchSecret v)
        (\<lambda>e. if IsNotFound e
             then gtry (upsertValidationCondition v SecretNotFound ''Secret not found'' e)
               (\<lambda>cerr. gret (''Secret not found'', Some cerr))
               (\<lambda>_. gret (''Failed to read the secret'', Some e))
             else gret (''Failed to read the secret'', Some e))
        (\<lambda>s. gtry (pv_Init P s v)
          (condition_or UninitializedProvider ''Source provider initialization failed'')
          (\<lambda>_. if \<not> vmImportInProgress v
               then gtry (pv_TestConnection P)
                 (condition_or UnreachableProvider ''Failed to connect to source provider'')
                 (\<lambda>_. gret ([], None))
               else gret ([], None))))"

definition failNewImportProcess :: "vmimport \<Rightarrow> string \<Rightarrow> go_error \<Rightarrow> ('p, unit) op" where
  "failNewImportProcess v message failure =
     gbind (new_condition Succeeded (succeeded_reason ValidationFailed)
         (''Failed to initialize the source provider ('' @ message @ ''): '' @ emsg failure) ConditionFalse) (\<lambda>c.
       upsertStatusConditions (vi_key v) [c])"

definition fetchVM :: "vmimport \<Rightarrow> 'p provider \<Rightarrow> ('p, unit) op" where
  "fetchVM v P =
     gbind (if shouldInvoke (vi_status v)
            then gtry (pv_LoadVM P (sp_source (vi_spec v)))
              (\<lambda>e. gbind (newValidationCondition SourceVMNotFound (''Failed to load source VM: '' @ emsg e)) (\<lambda>c.
                   gbind (upsertStatusConditions (vi_key v) [c]) (\<lambda>_. gfail e)))
              gret
            else gret ()) (\<lambda>_.
     gtry (fetchResourceMapping (sp_resource_mapping (vi_spec v)) (vi_namespace v))
       (\<lambda>e. if IsNotFound e
            then gbind (newValidationCondition ResourceMappingNotFound ''Resource mapping not found'') (\<lambda>c.
                 gbind (upsertStatusConditions (vi_key v) [c]) (\<lambda>_. gfail e))
            else gfail e)
       (\<lambda>m. pv_PrepareResourceMapping P m (sp_source (vi_spec v))))"

definition validate :: "vmimport \<Rightarrow> 'p provider \<Rightarrow> ('p, bool) op" where
  "validate v P =
     (if shouldInvoke (vi_status v)
      then gbind (pv_Validate P) (\<lambda>conditions.
           gbind (upsertStatusConditions (vi_key v) conditions) (\<lambda>_.
             case shouldFailWith conditions of
               (False, message) \<Rightarrow>
                 gbind (gtry (pv_GetVMName P) (\<lambda>_. gret ())
                     (\<lambda>vmName. record_event v EventNormal ''ImportBlocked''
                        (''Virtual Machine '' @ vi_namespace v @ ''/'' @ vmName @ '' import blocked: '' @ message)))
                   (\<lambda>_. gret False)
             | (True, _) \<Rightarrow>
                 gbind (pv_GetVMStatus P) (\<lambda>vmStatus.
                 gbind (storeSourceVMStatus v vmStatus) (\<lambda>_. gret True))))
      else gret True)"

section \<open>Creating the virtual machine\<close>

definition templateMatchingFailed :: "string \<Rightarrow> condition \<Rightarrow> 'p provider \<Rightarrow> vmimport \<Rightarrow> ('p, vmimport) op" where
  "templateMatchingFailed errorMessage processingCond P v =
     gbind (new_condition Succeeded (succeeded_reason VMTemplateMatchingFailed)
         (''Couldn'' @ apos @ ''t find matching template. Either change the virtual machine OS type or add a custom template configMap for it, and a common template if there is none. Refer to documentation for more details.'')
         ConditionFalse) (\<lambda>succeededCond.
     gbind (upsertStatusConditions (vi_key v)
         [succeededCond, processingCond\<lparr>c_status := ConditionFalse,
            c_reason := Some (processing_reason ProcessingFailed), c_message := Some errorMessage\<rparr>]) (\<lambda>_.
       afterFailure P v))"

text \<open>Only missing keys are taken from the annotation; text that does not parse adds none.\<close>

definition setAnnotations :: "runtime_env \<Rightarrow> vmimport \<Rightarrow> kubevm \<Rightarrow> kubevm" where
  "setAnnotations E v vmSpec =
     (case vi_annotations v AnnPropagate of
        None \<Rightarrow> vmSpec
      | Some propagate \<Rightarrow>
          if propagate = [] then vmSpec
          else let annotations = map_of_opt (om_annotations (vm_meta vmSpec));
                   prop = (case re_UnmarshalStringMap E propagate of None \<Rightarrow> Map.empty | Some m \<Rightarrow> m)
               in vmSpec\<lparr>vm_meta := (vm_meta vmSpec)\<lparr>om_annotations := Some (prop ++ annotations)\<rparr>\<rparr>)"

text \<open>
  The metadata is passed by value: a label map that exists is shared with the caller, one that this
  function makes is not.
\<close>

definition setTrackerLabel :: "object_meta \<Rightarrow> vmimport \<Rightarrow> object_meta" where
  "setTrackerLabel m v =
     (case vi_labels v TrackingLabel of
        None \<Rightarrow> m
      | Some tracker \<Rightarrow>
          if tracker = [] then m
          else case om_labels m of
            None \<Rightarrow> m
          | Some labels \<Rightarrow> m\<lparr>om_labels := Some (labels(TrackingLabel \<mapsto> tracker))\<rparr>)"

text \<open>The template is processed, or the empty definition is used where the configuration allows it.\<close>

definition vm_definition :: "'p provider \<Rightarrow> 'p mapper \<Rightarrow> vmimport \<Rightarrow> condition \<Rightarrow> string option \<Rightarrow>
    ('p, string option \<times> kubevm) op" where
  "vm_definition P mapper v processingCond targetVMName =
     gbind (gresult (pv_FindTemplate P)) (\<lambda>template.
     gbind GetKubeVirtConfig (\<lambda>config.
       let emptyVM = gbind (glift (mp_CreateEmptyVM mapper targetVMName)) (\<lambda>vm. gret (targetVMName, vm))
       in case template of
         Inl e \<Rightarrow>
           (if \<not> ImportWithoutTemplateEnabled config
            then gbind (templateMatchingFailed (emsg e) processingCond P v) (\<lambda>_. gfail e)
            else emptyVM)
       | Inr t \<Rightarrow>
           gtry (pv_ProcessTemplate P t targetVMName (vi_namespace v))
             (\<lambda>e. if \<not> ImportWithoutTemplateEnabled config then gfail e else emptyVM)
             (\<lambda>vm. gret (if om_name (vm_meta vm) \<noteq> [] then Some (om_name (vm_meta vm)) else targetVMName, vm))))"

text \<open>
  When the creation fails, the error is overwritten by those of the status update and of the clean-up:
  the function returns an empty name and no error.
\<close>

definition createVM :: "runtime_env \<Rightarrow> 'p provider \<Rightarrow> vmimport \<Rightarrow> 'p mapper \<Rightarrow> ('p, string \<times> vmimport) op" where
  "createVM E P v mapper =
     gbind (new_condition Processing (processing_reason VMTemplateMatching) ''Matching virtual machine template'' ConditionTrue)
       (\<lambda>processingCond.
     gbind (upsertStatusConditions (vi_key v) [processingCond]) (\<lambda>_.
     gbind (vm_definition P mapper v processingCond (mp_ResolveVMName mapper (sp_target_vm_name (vi_spec v))))
       (\<lambda>(targetVMName, spec).
     gbind (mp_MapVM mapper targetVMName spec) (\<lambda>vmSpec.
       let vmSpec = setAnnotations E v vmSpec;
           vmSpec = vmSpec\<lparr>vm_meta := setTrackerLabel (vm_meta vmSpec) v\<rparr>
       in
     gbind (updateProgress v progressStart) (\<lambda>_.
     gbind (glift (SetControllerReference v (vm_meta vmSpec))) (\<lambda>m.
       let vmSpec = vmSpec\<lparr>vm_meta := m\<rparr>
       in
     gbind (new_condition Processing (processing_reason CreatingTargetVM) ''Creating virtual machine'' ConditionTrue)
       (\<lambda>processingCond.
     gbind (upsertStatusConditions (vi_key v) [processingCond]) (\<lambda>_.
     gbind (gresult (create_vm vmSpec)) (\<lambda>created.
       let finish = (\<lambda>vmSpec.
             gbind (get_vm (om_key (vm_meta vmSpec))) (\<lambda>found.
             gbind (updateTargetVMName (vi_key v) (om_name (vm_meta found))) (\<lambda>_.
             gbind (updateProgress v progressCreatingVM) (\<lambda>_.
               gret (om_name (vm_meta found), v)))))
       in case created of
         Inr vmSpec' \<Rightarrow> finish vmSpec'
       | Inl e \<Rightarrow>
           if IsAlreadyExists e then finish vmSpec
           else
             let message = ''Error while creating virtual machine '' @ om_namespace (vm_meta vmSpec) @ ''/'' @
                   om_name (vm_meta vmSpec) @ '': '' @ emsg e
             in
             gbind (record_event v EventWarning ''VMCreationFailed'' message) (\<lambda>_.
             gbind (new_condition Succeeded (succeeded_reason VMCreationFailed) message ConditionFalse) (\<lambda>succeededCond.
             gbind (upsertStatusConditions (vi_key v)
                 [succeededCond, processingCond\<lparr>c_status := ConditionFalse,
                    c_reason := Some (processing_reason ProcessingFailed)\<rparr>]) (\<lambda>_.
             gbind (afterFailure P v) (\<lambda>v'.
               gret ([], v'))))))))))))))"


section \<open>Importing the disks\<close>

definition createDataVolume :: "'p mapper \<Rightarrow> vmimport \<Rightarrow> datavolume \<Rightarrow> nsname \<Rightarrow> ('p, unit) op" where
  "createDataVolume mapper v dv vmName =
     gbind (new_condition Processing (processing_reason CopyingDisks) ''Copying virtual machine disks'' ConditionTrue) (\<lambda>c.
     gbind (upsertStatusConditions (vi_key v) [c]) (\<lambda>_.
     gbind (updateProgress v progressCopyingDisks) (\<lambda>_.
     gbind (get_vm vmName) (\<lambda>vmDef.
     gbind (glift (SetControllerReference v (dv_meta dv))) (\<lambda>m.
     gbind (gtry (create_dv (dv\<lparr>dv_meta := setTrackerLabel m v\<rparr>))
         (\<lambda>e. gfail (errorf (''Data volume '' @ om_namespace (dv_meta dv) @ ''/'' @ om_name (dv_meta dv) @
                 '' creation failed: '' @ emsg e)))
         gret) (\<lambda>dv.
     gbind (AddOwnerReference vmDef dv) (\<lambda>_.
     gbind (record_event v EventNormal ''ImportInProgress''
         (''Import of Virtual Machine '' @ fst vmName @ ''/'' @ snd vmName @ '' disk '' @ om_name (dv_meta dv) @ '' in progress'')) (\<lambda>_.
     gbind (updateDVs (vi_key v) (om_name (dv_meta dv))) (\<lambda>_.
       updateVMSpecDataVolumes mapper vmName dv)))))))))"

record disk_loop =
  dl_import :: vmimport
  dl_done :: "(string, bool) gomap"
  dl_progress :: "(string, rat) gomap"

text \<open>One iteration goes on with the loop or makes \<open>importDisks\<close> return false without an error.\<close>

datatype loop_step = Continue disk_loop | ReturnFalse vmimport

text \<open>The importer pod of a data volume that is being imported may crash too often.\<close>

definition check_pod :: "runtime_env \<Rightarrow> 'p provider \<Rightarrow> vmimport \<Rightarrow> datavolume \<Rightarrow> pod \<Rightarrow> ('p, vmimport) op" where
  "check_pod E P v dv p =
     gbind (case pod_container_statuses p of
         None \<Rightarrow> gret ()
       | Some [] \<Rightarrow> gfail (GoErr Panicked ''index out of range'')
       | Some (cs # _) \<Rightarrow>
           (case cs_terminated cs of
              Some (exitCode, message) \<Rightarrow>
                if exitCode > 0 then record_event v EventWarning ''EventPVCImportFailed'' message else gret ()
            | None \<Rightarrow> gret ())) (\<lambda>_.
     gforeach (\<lambda>cs v.
         if cs_waiting_reason cs = Some podCrashLoopBackOff \<and> cs_restart_count cs > re_pod_restart_tolerance E
         then endImportAsFailed P v dv ''pod CrashLoopBackoff restart exceeded''
         else gret v)
       (case pod_container_statuses p of None \<Rightarrow> [] | Some css \<Rightarrow> css) v)"

text \<open>What an iteration does by the phase of the data volume it found.\<close>

definition handle_phase :: "runtime_env \<Rightarrow> 'p provider \<Rightarrow> string \<Rightarrow> datavolume \<Rightarrow> disk_loop \<Rightarrow> ('p, disk_loop) op" where
  "handle_phase E P dvID foundDv s =
     (let v = dl_import s in
      case dv_phase foundDv of
        DVSucceeded \<Rightarrow> gret (s\<lparr>dl_done := gm_set dvID True (dl_done s)\<rparr>)
      | DVFailed \<Rightarrow>
          gbind (endImportAsFailed P v foundDv ''dv is in Failed Phase'') (\<lambda>v'. gret (s\<lparr>dl_import := v'\<rparr>))
      | DVPending \<Rightarrow>
          gbind (new_condition Processing (processing_reason Pending)
              (''DataVolume '' @ om_name (dv_meta foundDv) @ '' is pending to bound'') ConditionTrue) (\<lambda>c.
          gbind (upsertStatusConditions (vi_key v) [c]) (\<lambda>_. gret s))
      | DVImportInProgress \<Rightarrow>
          gbind (new_condition Processing (processing_reason CopyingDisks) ''Copying virtual machine disks'' ConditionTrue) (\<lambda>c.
          gbind (upsertStatusConditions (vi_key v) [c]) (\<lambda>_.
            gtry (get_pod (vi_namespace v, importerPodNameFromDv dvID))
              (\<lambda>_. gret s)
              (\<lambda>p. gbind (check_pod E P v foundDv p) (\<lambda>v'. gret (s\<lparr>dl_import := v'\<rparr>)))))
      | DVOther _ \<Rightarrow> gret s)"

definition dv_progress_value :: "runtime_env \<Rightarrow> datavolume \<Rightarrow> rat" where
  "dv_progress_value E dv = (case re_ParseFloat E (TrimRight (dv_progress dv) ''%'') of None \<Rightarrow> 0 | Some x \<Rightarrow> x)"

definition import_disk :: "runtime_env \<Rightarrow> 'p provider \<Rightarrow> 'p mapper \<Rightarrow> nsname \<Rightarrow> string \<times> datavolume \<Rightarrow> disk_loop \<Rightarrow> ('p, loop_step) op" where
  "import_disk E P mapper vmName = (\<lambda>(dvID, dv) s.
     let v = dl_import s in
     gbind (watch_pod (importerPodNameFromDv dvID) (vi_key v)) (\<lambda>_.
     gtry (get_dv (vi_namespace v, dvID))
       (\<lambda>e. if IsNotFound e
          then gbind (pv_ValidateDiskStatus P (om_name (dv_meta dv))) (\<lambda>valid.
            if valid
            then gtry (createDataVolume mapper v dv vmName)
                (\<lambda>e. gbind (endImportAsFailed P v empty_datavolume (emsg e)) (\<lambda>v'. gret (ReturnFalse v')))
                (\<lambda>_. gret (Continue s))
            else gbind (endImportAsFailed P v empty_datavolume ''disk is in illegal status'')
                (\<lambda>v'. gret (Continue (s\<lparr>dl_import := v'\<rparr>))))
          else gfail e)
       (\<lambda>foundDv. gbind (handle_phase E P dvID foundDv s) (\<lambda>s'.
          gret (Continue (s'\<lparr>dl_progress := gm_set dvID (dv_progress_value E foundDv) (dl_progress s')\<rparr>))))))"

fun import_disk_loop :: "('a \<Rightarrow> disk_loop \<Rightarrow> ('p, loop_step) op) \<Rightarrow> 'a list \<Rightarrow> disk_loop \<Rightarrow> ('p, loop_step) op" where
  "import_disk_loop f [] s = gret (Continue s)"
| "import_disk_loop f (x # xs) s = gbind (f x s) (\<lambda>r.
     case r of ReturnFalse v \<Rightarrow> gret (ReturnFalse v) | Continue s' \<Rightarrow> import_disk_loop f xs s')"

definition importDisks :: "runtime_env \<Rightarrow> 'p provider \<Rightarrow> vmimport \<Rightarrow> 'p mapper \<Rightarrow> nsname \<Rightarrow> ('p, bool \<times> vmimport) op" where
  "importDisks E P v mapper vmName =
     gbind (glift (mp_MapDataVolumes mapper (snd vmName))) (\<lambda>dvs.
     gbind (import_disk_loop (import_disk E P mapper vmName) dvs
         \<lparr>dl_import = v, dl_done = [], dl_progress = []\<rparr>) (\<lambda>r.
       case r of
         ReturnFalse v' \<Rightarrow> gret (False, v')
       | Continue s \<Rightarrow>
           gbind (updateProgress (dl_import s) (disksImportProgress E (dl_progress s) (length dvs))) (\<lambda>_.
             gret (isDoneImport (dl_done s) (length dvs), dl_import s))))"

section \<open>Converting the guest and starting the virtual machine\<close>

definition convertGuest :: "'p provider \<Rightarrow> vmimport \<Rightarrow> nsname \<Rightarrow> ('p, bool \<times> vmimport) op" where
  "convertGuest P v vmName =
     gbind (get_vm vmName) (\<lambda>vmSpec.
     gbind (pv_GetGuestConversionJob P) (\<lambda>found.
     gbind (case found of
         Some job \<Rightarrow> gret job
       | None \<Rightarrow>
           gbind (pv_LaunchGuestConversionJob P vmSpec) (\<lambda>launched.
           gbind (glift (deref launched)) (\<lambda>job.
           gbind (new_condition Processing (processing_reason ConvertingGuest)
               (''Running virt-v2v job '' @ om_name (jb_meta job)) ConditionTrue) (\<lambda>c.
           gbind (upsertStatusConditions (vi_key v) [c]) (\<lambda>_.
           gbind (updateProgress v progressConvertingGuest) (\<lambda>_. gret job)))))) (\<lambda>job.
       if jb_active job > 0 then gret (False, v)
       else if jb_failed job > 0
       then gbind (endGuestConversionAsFailed P v (''virt-v2v job '' @ om_name (jb_meta job) @ '' failed''))
              (\<lambda>v'. gret (False, v'))
       else gret (jb_succeeded job > 0, v))))"

definition startVM :: "'p provider \<Rightarrow> vmimport \<Rightarrow> nsname \<Rightarrow> ('p, vmimport) op" where
  "startVM P v vmName =
     (let vmIdentifier = ToLoggableResourceName (snd vmName) (Some (fst vmName)) in
      gtry (get_instance vmName)
        (\<lambda>e. if IsNotFound e
           then gbind (updateProgress v progressStartVM) (\<lambda>_.
             gtry (updateToRunning vmName)
               (\<lambda>e. gbind (record_event v EventWarning ''VMStartFailed''
                    (''Virtual Machine '' @ vmIdentifier @ '' failed to start: '' @ emsg e)) (\<lambda>_. gfail e))
               (\<lambda>_. gret v))
           else gfail e)
        (\<lambda>phase. if phase = InstanceRunning \<or> phase = InstanceScheduled
           then gbind (record_event v EventNormal ''ImportSucceeded''
                  (''Virtual Machine '' @ vmIdentifier @ '' imported and started'')) (\<lambda>_.
                gbind (updateConditionsAfterSuccess v ''Virtual machine running'' VirtualMachineRunning) (\<lambda>v.
                gbind (updateProgress v progressDone) (\<lambda>_.
                  afterSuccess P vmName v)))
           else gret v))"

section \<open>Reconcile\<close>

text \<open>Only an error whose text holds "locked" is returned; a finalizer that stays is only logged.\<close>

definition finalize :: "vmimport \<Rightarrow> 'p provider \<Rightarrow> ('p, unit) op" where
  "finalize v P =
     gbind (gresult (restoreInitialVMState P (vi_key v))) (\<lambda>r.
       case r of
         Inl e \<Rightarrow> if Contains (emsg e) ''locked'' then gfail e
                  else gbind (gresult (RemoveFinalizer v RestoreVMStateFinalizer)) (\<lambda>_. gret ())
       | Inr _ \<Rightarrow> gbind (gresult (RemoveFinalizer v RestoreVMStateFinalizer)) (\<lambda>_. gret ()))"

definition finish_import :: "'p provider \<Rightarrow> vmimport \<Rightarrow> nsname \<Rightarrow> ('p, reconcile_result) op" where
  "finish_import P v vmName =
     gbind (glift (has_import_finished v)) (\<lambda>finished.
     gbind (if \<not> finished
            then updateConditionsAfterSuccess v ''Virtual machine disks import done'' VirtualMachineReady
            else gret v) (\<lambda>v.
     gbind (glift (shouldStartVM v)) (\<lambda>start.
       if start then gbind (startVM P v vmName) (\<lambda>_. gret no_requeue)
       else gbind (updateProgress v progressDone) (\<lambda>_.
            gbind (afterSuccess P vmName v) (\<lambda>v.
            gbind (record_event v EventNormal ''ImportSucceeded''
                (''Virtual Machine '' @ fst vmName @ ''/'' @ snd vmName @ '' import successful'')) (\<lambda>_.
              gret no_requeue))))))"

definition convert_and_finish :: "'p provider \<Rightarrow> vmimport \<Rightarrow> nsname \<Rightarrow> ('p, reconcile_result) op" where
  "convert_and_finish P v vmName =
     gbind (glift (shouldConvertGuest P v)) (\<lambda>convert.
       if convert
       then gbind (convertGuest P v vmName) (\<lambda>(finished, v).
              if \<not> finished then gret no_requeue else finish_import P v vmName)
       else finish_import P v vmName)"

text \<open>The virtual machine of the import: its name, when it has been created before.\<close>

definition ensure_vm :: "runtime_env \<Rightarrow> 'p provider \<Rightarrow> string \<Rightarrow> vmimport \<Rightarrow> 'p mapper \<Rightarrow> ('p, string \<times> vmimport) op" where
  "ensure_vm E P namespace v mapper =
     (if st_target_vm_name (vi_status v) = []
      then gbind (createVM E P v mapper) (\<lambda>(newName, v).
           gbind (record_event v EventNormal ''ImportScheduled''
               (''Import of Virtual Machine '' @ namespace @ ''/'' @ newName @ '' started'')) (\<lambda>_.
             gret (newName, v)))
      else gret (st_target_vm_name (vi_status v), v))"

definition import_vm :: "runtime_env \<Rightarrow> 'p provider \<Rightarrow> string \<Rightarrow> vmimport \<Rightarrow> ('p, reconcile_result) op" where
  "import_vm E P namespace v =
     gbind (pv_StopVM P v) (\<lambda>v.
     gbind (pv_CreateMapper P) (\<lambda>mapper.
     gbind (ensure_vm E P namespace v mapper) (\<lambda>(name, v).
     gbind (glift (shouldImportDisks v)) (\<lambda>import.
       if import
       then gbind (importDisks E P v mapper (namespace, name)) (\<lambda>(finished, v).
              if \<not> finished then gret no_requeue else convert_and_finish P v (namespace, name))
       else convert_and_finish P v (namespace, name)))))"

definition reconcile_with_provider :: "runtime_env \<Rightarrow> 'p provider \<Rightarrow> string \<Rightarrow> vmimport \<Rightarrow> ('p, reconcile_result) op" where
  "reconcile_with_provider E P namespace v =
     (if vi_deletion v \<noteq> None \<and> HasFinalizer v RestoreVMStateFinalizer
      then gtry (finalize v P) (\<lambda>_. gret (requeue_after 1)) (\<lambda>_. gret no_requeue)
      else if \<not> shouldReconcile v then gret no_requeue
      else gbind (fetchVM v P) (\<lambda>_.
           gbind (validate v P) (\<lambda>valid.
             if \<not> valid then gret (requeue_after requeueAfterValidationFailureTime)
             else import_vm E P namespace v)))"

text \<open>The part of the reconciler that needs a provider; the provider is closed once it is initialized.\<close>

definition reconcile_existing :: "runtime_env \<Rightarrow> 'p provider \<Rightarrow> 'p provider \<Rightarrow> string \<Rightarrow> vmimport \<Rightarrow> ('p, reconcile_result) op" where
  "reconcile_existing E ovirt vmware namespace v =
     gbind (createProvider ovirt vmware v) (\<lambda>P.
     gbind (initProvider v P) (\<lambda>(message, err).
       case err of
         Some e \<Rightarrow>
           (if vmImportInProgress v then gfail e
            else gbind (failNewImportProcess v message e) (\<lambda>_. gret no_requeue))
       | None \<Rightarrow> gdefer (reconcile_with_provider E P namespace v) (pv_Close P)))"

text \<open>The finalizer of a cancelled import: whether the reconciler stops there, and the import.\<close>

definition handle_deletion :: "vmimport \<Rightarrow> ('p, bool \<times> vmimport) op" where
  "handle_deletion v =
     (if vi_deletion v \<noteq> None
      then gbind (if HasFinalizer v CancelledImportFinalizer
                  then gbind (RemoveFinalizer v CancelledImportFinalizer) (\<lambda>v.
                       gbind (save_metrics ResultCancelled v) (\<lambda>_. gret v))
                  else gret v) (\<lambda>v. gret (vi_finalizers v = [], v))
      else gret (False, v))"

definition Reconcile :: "runtime_env \<Rightarrow> 'p provider \<Rightarrow> 'p provider \<Rightarrow> nsname \<Rightarrow> ('p, reconcile_result) op" where
  "Reconcile E ovirt vmware request =
     gtry (get_import request)
       (\<lambda>e. if IsNotFound e then gret no_requeue else gfail e)
       (\<lambda>v.
         gbind (if \<not> vmImportInProgress v then AddFinalizer v CancelledImportFinalizer else gret v) (\<lambda>v.
         gbind (handle_deletion v) (\<lambda>(stop, v).
           if stop then gret no_requeue
           else reconcile_existing E ovirt vmware (fst request) v)))"

end
