(* ===== verification/ProviderContract.thy ===== *)
theory ProviderContract
  imports Controller
begin

text \<open>
  What the controller may rely on when it calls a provider, as a locale, and the relations between the
  worlds before and after an operation that its proofs use.

  \<^item> \<open>provider_step\<close>: of the imports an operation changes finalizers only (an import that is being
    deleted may disappear with its last one).
  \<^item> \<open>keeps_disks\<close>: the virtual machines and the data volumes stay as they are.
  \<^item> \<open>import_rel\<close>: a reflexive and transitive relation on worlds that looks at the imports only and
    allows every change that the controller makes to an import, with \<open>ok\<close> for the conditions that
    may be upserted.  Every function of the controller is shown to respect such a relation, once.
\<close>

section \<open>The provider's contract\<close>

definition import_step :: "vmimport option \<Rightarrow> vmimport option \<Rightarrow> bool" where
  "import_step before after =
     (case after of
        None \<Rightarrow> (case before of None \<Rightarrow> True | Some v \<Rightarrow> vi_deletion v \<noteq> None)
      | Some v' \<Rightarrow> (case before of None \<Rightarrow> False | Some v \<Rightarrow> (\<exists>fs. v' = v\<lparr>vi_finalizers := fs\<rparr>)))"

definition provider_step :: "'p world \<Rightarrow> 'p world \<Rightarrow> bool" where
  "provider_step w w' \<longleftrightarrow> (\<forall>k. import_step (w_imports w k) (w_imports w' k))"

definition keeps_disks :: "'p world \<Rightarrow> 'p world \<Rightarrow> bool" where
  "keeps_disks w w' \<longleftrightarrow> w_vms w' = w_vms w \<and> w_dvs w' = w_dvs w"

definition quiet :: "'p world \<Rightarrow> 'p world \<Rightarrow> bool" where
  "quiet w w' \<longleftrightarrow> provider_step w w' \<and> keeps_disks w w'"

lemma import_step_refl [simp]: "import_step x x"
proof (cases x)
  case (Some v)
  have "\<exists>fs. v = v\<lparr>vi_finalizers := fs\<rparr>" by (rule exI [of _ "vi_finalizers v"]) simp
  then show ?thesis unfolding import_step_def Some by simp
qed (simp add: import_step_def)

lemma import_step_trans: "import_step x y \<Longrightarrow> import_step y z \<Longrightarrow> import_step x z"
  by (cases x; cases y; cases z) (auto simp: import_step_def)

interpretation provider_step: frame_rel provider_step
proof unfold_locales
  show "provider_step u w" if "provider_step u v" "provider_step v w" for u v w :: "'p world"
    using that import_step_trans unfolding provider_step_def by blast
qed (simp add: provider_step_def)

interpretation keeps_disks: frame_rel keeps_disks
  by unfold_locales (auto simp: keeps_disks_def)

interpretation quiet: frame_rel quiet
  by unfold_locales
    (auto simp: quiet_def intro: provider_step.R_refl provider_step.R_trans keeps_disks.R_refl keeps_disks.R_trans)

locale provider_contract =
  fixes P :: "'p provider"
  assumes Init: "frames quiet (pv_Init P s v)"
    and TestConnection: "frames quiet (pv_TestConnection P)"
    and Close: "frames quiet (pv_Close P)"
    and LoadVM: "frames quiet (pv_LoadVM P src)"
    and PrepareResourceMapping: "frames quiet (pv_PrepareResourceMapping P m src)"
    and Validate: "frames quiet (pv_Validate P)"
    and Validate_result: "pv_Validate P w = (Inr cs, w') \<Longrightarrow> c \<in> set cs \<Longrightarrow>
          c_reason c \<noteq> None \<and> c_type c \<in> {Valid, MappingRulesVerified}"
    and ValidateDiskStatus: "frames quiet (pv_ValidateDiskStatus P n)"
    and StopVM: "frames quiet (pv_StopVM P v)"
    and StopVM_result: "pv_StopVM P v w = (Inr v', w') \<Longrightarrow> \<exists>fs. v' = v\<lparr>vi_finalizers := fs\<rparr>"
    and CreateMapper: "frames quiet (pv_CreateMapper P)"
    and MapVM: "pv_CreateMapper P w = (Inr mapper, w') \<Longrightarrow> frames quiet (mp_MapVM mapper t vm)"
    and GetVMStatus: "frames quiet (pv_GetVMStatus P)"
    and GetVMName: "frames quiet (pv_GetVMName P)"
    and StartVM: "frames quiet (pv_StartVM P)"
    and CleanUp_success: "frames quiet (pv_CleanUp P False v)"
    and CleanUp: "frames provider_step (pv_CleanUp P failure v)"
    and CleanUp_result: "pv_CleanUp P failure v w = (Inr v', w') \<Longrightarrow> \<exists>fs. v' = v\<lparr>vi_finalizers := fs\<rparr>"
    and FindTemplate: "frames quiet (pv_FindTemplate P)"
    and ProcessTemplate: "frames quiet (pv_ProcessTemplate P tpl t ns)"
    and GetGuestConversionJob: "frames quiet (pv_GetGuestConversionJob P)"
    and LaunchGuestConversionJob: "frames quiet (pv_LaunchGuestConversionJob P vm)"
begin

lemmas quiet_ops = Init TestConnection Close LoadVM PrepareResourceMapping Validate ValidateDiskStatus StopVM
  CreateMapper GetVMStatus GetVMName StartVM CleanUp_success FindTemplate ProcessTemplate
  GetGuestConversionJob LaunchGuestConversionJob

end

section \<open>How the controller changes imports\<close>

lemma vi_status_Upsert:
  "vi_status (UpsertCondition v c n) = (vi_status v)\<lparr>st_conditions := vi_conditions (UpsertCondition v c n)\<rparr>"
  by (simp add: UpsertCondition_def set_conditions_def split: option.split)

lemma vi_status_upserts:
  "vi_status (fold (\<lambda>c v. UpsertCondition v c n) cs v) =
   (vi_status v)\<lparr>st_conditions := vi_conditions (fold (\<lambda>c v. UpsertCondition v c n) cs v)\<rparr>"
proof (induction cs arbitrary: v)
  case (Cons c cs)
  have "(vi_status (UpsertCondition v c n))\<lparr>st_conditions := X\<rparr> = (vi_status v)\<lparr>st_conditions := X\<rparr>" for X
    by (subst vi_status_Upsert) simp
  with Cons.IH [of "UpsertCondition v c n"] show ?case by simp
qed simp

definition upserts :: "time \<Rightarrow> condition list \<Rightarrow> vmimport \<Rightarrow> vmimport" where
  "upserts n cs v = set_conditions v (vi_conditions (fold (\<lambda>c v. UpsertCondition v c n) cs v))"

lemma upsertStatusConditions_changes:
  assumes "upsertStatusConditions k cs w = (r, w')"
  shows "\<exists>n. changes_import k (upserts n cs) w w'"
proof (cases "get_import k w")
  case (Pair r1 w1)
  then have w1: "w1 = w\<lparr>w_calls := Suc (w_calls w)\<rparr>"
    using get_from_world [of _ w_imports k w] by (simp add: get_import_def)
  show ?thesis
  proof (cases r1)
    case (Inl e)
    with assms Pair w1 show ?thesis
      by (auto simp: upsertStatusConditions_def gbind_def changes_import_def)
  next
    case (Inr v)
    then have v: "w_imports w k = Some v" using get_import_result Pair by blast
    let ?n = "w_now w (Suc (w_calls w))"
    let ?f = "\<lambda>x. x\<lparr>vi_status := vi_status (fold (\<lambda>c v. UpsertCondition v c ?n) cs v)\<rparr>"
    obtain r2 where "patch_import k ?f w1 = (r2, w')"
      using assms Pair Inr w1
      by (auto simp: upsertStatusConditions_def update_import_status_def now_def gbind_def split: prod.splits sum.splits)
    then have "changes_import k ?f w w'"
      using patch_import_changes changes_import_calls unfolding w1 by blast
    then have "changes_import k (upserts ?n cs) w w'"
      by (rule changes_import_cong) (use v in \<open>simp add: upserts_def set_conditions_def vi_status_upserts [symmetric]\<close>)
    then show ?thesis ..
  qed
qed

lemma updateDVs_changes:
  assumes "updateDVs k d w = (r, w')"
  shows "changes_import k (\<lambda>v. v\<lparr>vi_status := (vi_status v)\<lparr>st_data_volumes := st_data_volumes (vi_status v) @ [d]\<rparr>\<rparr>) w w'"
    (is "changes_import k ?f w w'")
proof (cases "get_import k w")
  case (Pair r1 w1)
  then have w1: "w1 = w\<lparr>w_calls := Suc (w_calls w)\<rparr>"
    using get_from_world [of _ w_imports k w] by (simp add: get_import_def)
  show ?thesis
  proof (cases r1)
    case (Inl e)
    with assms Pair w1 show ?thesis by (auto simp: updateDVs_def gbind_def changes_import_def)
  next
    case (Inr v)
    then have v: "w_imports w k = Some v" using get_import_result Pair by blast
    show ?thesis
    proof (cases "d \<in> set (st_data_volumes (vi_status v))")
      case True
      with assms Pair Inr w1 show ?thesis by (auto simp: updateDVs_def gbind_def changes_import_def)
    next
      case False
      let ?g = "\<lambda>x. x\<lparr>vi_status := (vi_status v)\<lparr>st_data_volumes := st_data_volumes (vi_status v) @ [d]\<rparr>\<rparr>"
      obtain r2 where "patch_import k ?g w1 = (r2, w')"
        using assms Pair Inr w1 False
        by (auto simp: updateDVs_def update_import_status_def gbind_def split: prod.splits sum.splits)
      then have "changes_import k ?g w w'"
        using patch_import_changes changes_import_calls unfolding w1 by blast
      then show ?thesis by (rule changes_import_cong) (use v in simp)
    qed
  qed
qed

lemma gbind_snd: "snd (gbind m k w) = (case m w of (Inl e, w') \<Rightarrow> w' | (Inr x, w') \<Rightarrow> snd (k x w'))"
  by (simp add: gbind_def split: prod.split sum.split)

end
