(* ===== verification/ControllerFrames.thy ===== *)
theory ControllerFrames
  imports ProviderContract
begin

text \<open>
  The functions of the controller respect every relation of the locale \<open>import_rel\<close>: a reflexive and
  transitive relation that allows the changes a provider makes and the controller's own changes of an
  import, where only conditions that satisfy \<open>ok\<close> are upserted.  \<open>success_rel\<close> adds that the condition
  of a successful import may be upserted, so that all of \<open>Reconcile\<close> respects its relations.
\<close>

locale import_rel = frame_rel R for R :: "'p world \<Rightarrow> 'p world \<Rightarrow> bool" +
  fixes ok :: "condition \<Rightarrow> bool"
  assumes R_same: "w_imports w' = w_imports w \<Longrightarrow> R w w'"
    and R_provider: "provider_step w w' \<Longrightarrow> R w w'"
    and R_annotation: "changes_import k (\<lambda>v. v\<lparr>vi_annotations := (vi_annotations v)(key \<mapsto> val)\<rparr>) w w' \<Longrightarrow> R w w'"
    and R_nothing: "changes_import k (\<lambda>v. v) w w' \<Longrightarrow> R w w'"
    and R_target: "changes_import k (\<lambda>v. v\<lparr>vi_status := (vi_status v)\<lparr>st_target_vm_name := t\<rparr>\<rparr>) w w' \<Longrightarrow> R w w'"
    and R_data_volumes: "changes_import k (\<lambda>v. v\<lparr>vi_status := (vi_status v)
          \<lparr>st_data_volumes := st_data_volumes (vi_status v) @ [d]\<rparr>\<rparr>) w w' \<Longrightarrow> R w w'"
    and R_finalizers: "changes_import k (\<lambda>v. v\<lparr>vi_finalizers := fs\<rparr>) w w' \<Longrightarrow> R w w'"
    and R_conditions: "(\<And>c. c \<in> set cs \<Longrightarrow> ok c) \<Longrightarrow> changes_import k (upserts n cs) w w' \<Longrightarrow> R w w'"
    and ok_other: "c_reason c \<noteq> None \<Longrightarrow> c_type c \<noteq> Succeeded \<Longrightarrow> ok c"
begin

section \<open>Calls of the client\<close>

lemma frames_api:
  "(\<And>w x w'. f w = Inr (x, w') \<Longrightarrow> w_imports w' = w_imports w) \<Longrightarrow> frames R (api f)"
  by (rule framesI, rule R_same) (force simp: api_def Let_def split: fault.split sum.split)

lemma frames_get_from: "frames R (get_from kind store k)"
  unfolding get_from_def by (rule frames_api) (auto split: option.splits)

lemma frames_patch_import:
  "(\<And>w w'. changes_import k f w w' \<Longrightarrow> R w w') \<Longrightarrow> frames R (patch_import k f)"
  by (rule framesI) (use patch_import_changes [OF surjective_pairing] in blast)

lemma frames_now: "frames R now"
  unfolding now_def by (rule frames_gread)

lemma frames_background:
  "frames R (record_event v t reason message)" "frames R (inc_counter res)" "frames R (save_duration res d)"
  "frames R (watch_pod n k)" "frames R (GetBareConfig sel)" "frames R (create_vm vm)" "frames R (delete_vm k)"
  "frames R (patch_vm k g)" "frames R (create_dv dv)" "frames R (delete_dv k)" "frames R (patch_dv_owners k refs)"
  unfolding record_event_def inc_counter_def save_duration_def watch_pod_def GetBareConfig_def create_vm_def
    delete_vm_def patch_vm_def create_dv_def delete_dv_def patch_dv_owners_def
  by (auto intro!: frames_gmodify frames_api R_same simp: Let_def split: if_splits option.splits)

lemma frames_gets:
  "frames R (get_import k)" "frames R (get_mapping k)" "frames R (get_vm k)" "frames R (get_instance k)"
  "frames R (get_dv k)" "frames R (get_pod k)" "frames R (get_secret k)" "frames R (get_config_map k)"
  unfolding get_import_def get_mapping_def get_vm_def get_instance_def get_dv_def get_pod_def get_secret_def
    get_config_map_def
  by (rule frames_get_from)+

lemma frames_GetKubeVirtConfig: "frames R GetKubeVirtConfig"
  unfolding GetKubeVirtConfig_def by (intro frames_combinators frames_background)

lemma frames_patch_finalizers: "frames R (patch_finalizers v fs)"
  unfolding patch_finalizers_def
  by (intro frames_combinators frames_patch_import) (rule R_finalizers)

lemma frames_finalizers: "frames R (AddFinalizer v f)" "frames R (RemoveFinalizer v f)" "frames R (removeFinalizer f v)"
  unfolding AddFinalizer_def RemoveFinalizer_def removeFinalizer_def
  by (intro frames_combinators frames_patch_finalizers)+

lemma frames_set_annotation: "frames R (set_annotation v key val)"
  unfolding set_annotation_def by (intro frames_combinators frames_patch_import) (rule R_annotation)

lemma frames_upsertStatusConditions:
  "(\<And>c. c \<in> set cs \<Longrightarrow> ok c) \<Longrightarrow> frames R (upsertStatusConditions k cs)"
  by (rule framesI) (use upsertStatusConditions_changes [OF surjective_pairing] R_conditions in blast)

lemma frames_updateDVs: "frames R (updateDVs k d)"
  by (rule framesI) (rule R_data_volumes [OF updateDVs_changes [OF surjective_pairing]])

lemma frames_updateTargetVMName: "frames R (updateTargetVMName k t)"
  unfolding updateTargetVMName_def
  by (intro frames_combinators frames_patch_import frames_gets) (rule R_target)

lemma frames_updateProgress: "frames R (updateProgress v p)"
  unfolding updateProgress_def by (intro frames_combinators frames_set_annotation)

lemma frames_storeSourceVMStatus: "frames R (storeSourceVMStatus v s)"
  unfolding storeSourceVMStatus_def
  by (intro frames_combinators frames_set_annotation frames_patch_import) (rule R_nothing)

lemmas client_frames = frames_now frames_background frames_gets frames_GetKubeVirtConfig frames_finalizers
  frames_set_annotation frames_updateDVs frames_updateTargetVMName frames_updateProgress frames_storeSourceVMStatus

lemma frames_managers:
  "frames R (updateToRunning k)" "frames R (updateVMSpecDataVolumes mapper k dv)" "frames R (AddOwnerReference vm dv)"
  "frames R (calculateImportDuration v)" "frames R (save_metrics res v)"
  unfolding updateToRunning_def updateVMSpecDataVolumes_def AddOwnerReference_def calculateImportDuration_def
    save_metrics_def
  by (intro frames_combinators client_frames)+

lemma frames_remove_dv_owners: "frames R (remove_dv_owners ns vs)"
proof (induction vs)
  case (Cons v vs)
  then show ?case
    unfolding remove_dv_owners.simps removeDataVolumeOwnerReference_def
    by (intro frames_combinators client_frames)
qed (simp only: remove_dv_owners.simps frames_gret)

lemma frames_PurgeOwnerReferences: "frames R (PurgeOwnerReferences k)"
  unfolding PurgeOwnerReferences_def removeDataVolumesOwnerReferences_def removeVMOwnerReference_def
  by (intro frames_combinators client_frames frames_remove_dv_owners)

lemma frames_new_condition:
  "(\<And>n. frames R (k (NewCondition t reason message status n))) \<Longrightarrow>
   frames R (gbind (new_condition t reason message status) k)"
  unfolding new_condition_def gbind_assoc gbind_gret by (intro frames_gbind frames_now)

lemma frames_newValidationCondition:
  "(\<And>n. frames R (k (NewCondition Valid (valid_reason reason) message ConditionFalse n))) \<Longrightarrow>
   frames R (gbind (newValidationCondition reason message) k)"
  unfolding newValidationCondition_def by (rule frames_new_condition)

end

section \<open>The controller's own functions\<close>

text \<open>
  \<open>controller_rel\<close> combines such a relation with a provider that keeps the contract.  The premise
  \<open>ok_success\<close> of some lemmas is the only one about the condition of a successful import.
\<close>

locale controller_rel = import_rel R ok + provider_contract P
  for R :: "'p world \<Rightarrow> 'p world \<Rightarrow> bool" and ok and P :: "'p provider"
begin

lemma frames_quiet: "frames quiet m \<Longrightarrow> frames R m"
  by (erule frames_mono) (simp add: quiet_def R_provider)

lemmas provider_frames = quiet_ops [THEN frames_quiet]

lemma frames_CleanUp: "frames R (pv_CleanUp P failure v)"
  using CleanUp by (rule frames_mono) (rule R_provider)

lemma frames_restore: "frames R (restoreInitialVMState P k)"
  unfolding restoreInitialVMState_def by (intro frames_combinators client_frames provider_frames)

lemma frames_afterFailure: "frames R (afterFailure P v)"
  unfolding afterFailure_def
  by (intro frames_combinators client_frames frames_managers frames_restore frames_CleanUp)

lemma frames_afterSuccess: "frames R (afterSuccess P k v)"
  unfolding afterSuccess_def
  by (intro frames_combinators client_frames frames_managers frames_PurgeOwnerReferences frames_CleanUp)

lemma frames_upsert_other:
  "list_all (\<lambda>c. c_reason c \<noteq> None \<and> c_type c \<noteq> Succeeded) cs \<Longrightarrow>
   frames R (upsertStatusConditions k cs)"
  by (rule frames_upsertStatusConditions) (auto simp: list_all_iff intro: ok_other)

lemma frames_upsertValidationCondition: "frames R (upsertValidationCondition v reason message e)"
  unfolding upsertValidationCondition_def
  by (intro frames_newValidationCondition frames_upsert_other) simp

lemma frames_initProvider: "frames R (initProvider v P)"
  unfolding initProvider_def fetchSecret_def Let_def
  by (intro frames_combinators client_frames provider_frames frames_upsertValidationCondition)

lemma frames_fetchVM: "frames R (fetchVM v P)"
  unfolding fetchVM_def fetchResourceMapping_def
  by (intro frames_newValidationCondition frames_combinators client_frames provider_frames frames_upsert_other) simp_all

lemma frames_validate: "frames R (validate v P)"
proof -
  have "frames R (upsertStatusConditions (vi_key v) cs)" if "pv_Validate P w = (Inr cs, w')" for cs w w'
    by (rule frames_upsert_other) (fastforce simp: list_all_iff dest: Validate_result [OF that])
  then show ?thesis
    unfolding validate_def
    by (intro frames_if frames_gbind_val [where m = "pv_Validate P"] frames_gbind
        [where m = "upsertStatusConditions k cs" for k cs]) 
      (auto intro!: frames_combinators client_frames provider_frames split: bool.split prod.split)
qed

lemma frames_createDataVolume: "frames R (createDataVolume mapper v dv k)"
  unfolding createDataVolume_def
  by (intro frames_new_condition frames_combinators client_frames frames_managers frames_upsert_other) simp_all

lemma frames_finalize: "frames R (finalize v P)"
  unfolding finalize_def by (intro frames_combinators client_frames frames_restore)

end

text \<open>Functions that may end an import as failed: a Succeeded condition that is not true is upserted.\<close>

locale failing_rel = controller_rel +
  assumes ok_failed: "c_reason c \<noteq> None \<Longrightarrow> c_status c \<noteq> ConditionTrue \<Longrightarrow> ok c"
begin

lemma frames_upsert_failed:
  "list_all (\<lambda>c. c_reason c \<noteq> None \<and> (c_type c = Succeeded \<longrightarrow> c_status c \<noteq> ConditionTrue)) cs \<Longrightarrow>
   frames R (upsertStatusConditions k cs)"
proof (rule frames_upsertStatusConditions)
  fix c
  assume "list_all (\<lambda>c. c_reason c \<noteq> None \<and> (c_type c = Succeeded \<longrightarrow> c_status c \<noteq> ConditionTrue)) cs" and "c \<in> set cs"
  then have "c_reason c \<noteq> None" and "c_type c = Succeeded \<longrightarrow> c_status c \<noteq> ConditionTrue"
    by (simp_all add: list_all_iff)
  then show "ok c" by (cases "c_type c = Succeeded") (simp_all add: ok_failed ok_other)
qed

lemma frames_end_as_failed: "frames R (end_as_failed P reason ev v msg message)"
  unfolding end_as_failed_def
  by (intro frames_new_condition frames_combinators client_frames frames_afterFailure frames_upsert_failed) simp_all

lemma frames_ends: "frames R (endImportAsFailed P v dv message)" "frames R (endGuestConversionAsFailed P v message)"
  unfolding endImportAsFailed_def endGuestConversionAsFailed_def by (rule frames_end_as_failed)+

lemma frames_failNewImportProcess: "frames R (failNewImportProcess v message e)"
  unfolding failNewImportProcess_def by (intro frames_new_condition frames_upsert_failed) simp

lemma frames_templateMatchingFailed: "frames R (templateMatchingFailed msg c P v)"
  unfolding templateMatchingFailed_def
  by (intro frames_new_condition frames_combinators frames_afterFailure frames_upsert_failed) simp

lemma frames_vm_definition:
  "frames R (vm_definition P mapper v c t)"
  unfolding vm_definition_def Let_def
  by (intro frames_combinators client_frames provider_frames frames_templateMatchingFailed)

lemma frames_createVM:
  assumes "\<And>t vm. frames R (mp_MapVM mapper t vm)"
  shows "frames R (createVM E P v mapper)"
  unfolding createVM_def Let_def
  by (intro frames_new_condition frames_combinators client_frames frames_vm_definition frames_afterFailure
      frames_upsert_failed assms) simp_all

lemma frames_check_pod: "frames R (check_pod E P v dv p)"
  unfolding check_pod_def by (intro frames_combinators client_frames frames_ends)

lemma frames_handle_phase: "frames R (handle_phase E P i dv s)"
proof (cases "dv_phase dv")
  case DVPending
  then show ?thesis
    by (simp add: handle_phase_def Let_def)
      (intro frames_new_condition frames_combinators frames_upsert_other, simp)
next
  case DVImportInProgress
  then show ?thesis
    by (simp add: handle_phase_def Let_def)
      (intro frames_new_condition frames_combinators frames_upsert_other client_frames frames_check_pod, simp)
next
  case DVFailed
  then show ?thesis
    by (simp add: handle_phase_def Let_def) (intro frames_combinators frames_ends)
qed (simp_all add: handle_phase_def Let_def frames_gret del: gret_apply)

lemma frames_import_disk: "frames R (import_disk E P mapper k x s)"
  unfolding import_disk_def
  by (cases x) (simp only: prod.case Let_def, intro frames_combinators client_frames provider_frames
      frames_createDataVolume frames_ends frames_handle_phase)

lemma frames_import_disk_loop:
  "(\<And>x s. frames R (f x s)) \<Longrightarrow> frames R (import_disk_loop f xs s)"
proof (induction xs arbitrary: s)
  case (Cons x xs)
  then have "frames R (case r of ReturnFalse v \<Rightarrow> gret (ReturnFalse v) | Continue s' \<Rightarrow> import_disk_loop f xs s')" for r
    by (cases r) (auto intro: frames_gret simp del: gret_apply)
  with Cons.prems show ?case by (simp add: frames_gbind)
qed (simp only: import_disk_loop.simps frames_gret)

lemma frames_importDisks: "frames R (importDisks E P v mapper k)"
proof -
  have "frames R (case r of ReturnFalse v' \<Rightarrow> gret (False, v')
       | Continue s \<Rightarrow>
           gbind (updateProgress (dl_import s) (disksImportProgress E (dl_progress s) n)) (\<lambda>_.
             gret (isDoneImport (dl_done s) n, dl_import s)))" for r n
    by (cases r) (simp_all only: loop_step.case, intro frames_combinators client_frames, rule frames_gret)
  then show ?thesis
    unfolding importDisks_def by (intro frames_glift frames_gbind frames_import_disk_loop frames_import_disk)
qed

lemma frames_convertGuest: "frames R (convertGuest P v k)"
  unfolding convertGuest_def
  by (intro frames_new_condition frames_combinators client_frames provider_frames frames_ends frames_upsert_other) simp

end

text \<open>Functions that may end an import as successful.\<close>

locale success_rel = failing_rel +
  assumes ok_success: "c_reason c \<noteq> None \<Longrightarrow> ok c"
begin

lemma frames_updateConditionsAfterSuccess: "frames R (updateConditionsAfterSuccess v message reason)"
proof -
  have "c_reason c \<noteq> None"
    if "FindConditionOfType (update_found Processing complete_processing cs) Processing = Some c" for c cs
    using that by (auto simp: Find_update_found complete_processing_def)
  then have "ok c"
    if "c \<in> set (opt_list (FindConditionOfType (update_found Processing complete_processing (vi_conditions v)) Processing))" for c
    using that by (auto intro: ok_success)
  then show ?thesis
    unfolding updateConditionsAfterSuccess_def Let_def
    by (intro frames_new_condition frames_combinators frames_upsertStatusConditions) (auto intro: ok_success)
qed

lemma frames_startVM: "frames R (startVM P v k)"
  unfolding startVM_def Let_def
  by (intro frames_combinators client_frames frames_managers frames_updateConditionsAfterSuccess frames_afterSuccess)

lemma frames_finish_import: "frames R (finish_import P v k)"
  unfolding finish_import_def
  by (intro frames_combinators client_frames frames_updateConditionsAfterSuccess frames_startVM frames_afterSuccess)

lemma frames_convert_and_finish: "frames R (convert_and_finish P v k)"
  unfolding convert_and_finish_def
  by (intro frames_combinators frames_convertGuest frames_finish_import)

lemma frames_import_vm: "frames R (import_vm E P ns v)"
  unfolding import_vm_def ensure_vm_def
  by (intro frames_gbind_val [where m = "pv_CreateMapper P"] frames_combinators provider_frames client_frames
      frames_createVM frames_importDisks frames_convert_and_finish frames_quiet MapVM)

lemma frames_reconcile_with_provider: "frames R (reconcile_with_provider E P ns v)"
  unfolding reconcile_with_provider_def
  by (intro frames_combinators frames_finalize frames_fetchVM frames_validate frames_import_vm)

lemma frames_with_provider:
  "frames R (gbind (initProvider v P) (\<lambda>(message, err). case err of
       Some e \<Rightarrow> (if vmImportInProgress v then gfail e
            else gbind (failNewImportProcess v message e) (\<lambda>_. gret no_requeue))
     | None \<Rightarrow> gdefer (reconcile_with_provider E P ns v) (pv_Close P)))"
  by (intro frames_combinators frames_initProvider frames_failNewImportProcess frames_reconcile_with_provider
      provider_frames)

end

locale reconcile_rel = O: success_rel R ok ovirt + V: success_rel R ok vmware
  for R :: "'p world \<Rightarrow> 'p world \<Rightarrow> bool" and ok and ovirt vmware :: "'p provider"
begin

lemma createProvider_result:
  "createProvider ovirt vmware v w = (Inr P, w') \<Longrightarrow> P = ovirt \<or> P = vmware"
  by (auto simp: createProvider_def Let_def gbind_returns split: if_splits)

lemma frames_createProvider: "frames R (createProvider ovirt vmware v)"
  unfolding createProvider_def Let_def
  by (intro O.frames_combinators O.frames_background O.frames_gmodify O.R_same) simp_all

lemma frames_reconcile_existing: "frames R (reconcile_existing E ovirt vmware ns v)"
  unfolding reconcile_existing_def
  by (rule O.frames_gbind_val [OF frames_createProvider])
    (use createProvider_result O.frames_with_provider V.frames_with_provider in blast)

lemma frames_handle_deletion: "frames R (handle_deletion v)"
  unfolding handle_deletion_def by (intro O.frames_combinators O.client_frames O.frames_managers)

lemma frames_Reconcile: "frames R (Reconcile E ovirt vmware request)"
  unfolding Reconcile_def
  by (intro O.frames_combinators O.client_frames frames_handle_deletion frames_reconcile_existing)

end

section \<open>Invariants of the stored imports\<close>

definition all_imports :: "(nsname \<Rightarrow> vmimport \<Rightarrow> bool) \<Rightarrow> 'p world \<Rightarrow> bool" where
  "all_imports Q w \<longleftrightarrow> (\<forall>k v. w_imports w k = Some v \<longrightarrow> Q k v)"

definition keeps_all :: "(nsname \<Rightarrow> vmimport \<Rightarrow> bool) \<Rightarrow> 'p world \<Rightarrow> 'p world \<Rightarrow> bool" where
  "keeps_all Q w w' \<longleftrightarrow> (all_imports Q w \<longrightarrow> all_imports Q w')"

lemma keeps_all_changes:
  "changes_import k f w w' \<Longrightarrow> (\<And>v. Q k v \<Longrightarrow> Q k (f v)) \<Longrightarrow> keeps_all Q w w'"
  by (auto simp: changes_import_def keeps_all_def all_imports_def put_import_def stored_def split: if_splits)

lemma keeps_all_provider:
  assumes "\<And>k v fs. Q k v \<Longrightarrow> Q k (v\<lparr>vi_finalizers := fs\<rparr>)" and "provider_step w w'"
  shows "keeps_all Q w w'"
  unfolding keeps_all_def all_imports_def
proof (intro impI allI)
  fix k v'
  assume all: "\<forall>k v. w_imports w k = Some v \<longrightarrow> Q k v" and v': "w_imports w' k = Some v'"
  from assms(2) have "import_step (w_imports w k) (w_imports w' k)" unfolding provider_step_def by blast
  with v' obtain v fs where "w_imports w k = Some v" "v' = v\<lparr>vi_finalizers := fs\<rparr>"
    by (auto simp: import_step_def split: option.splits)
  with all assms(1) show "Q k v'" by blast
qed

text \<open>A property of the conditions of an import that every allowed upsert preserves gives such a relation.\<close>

locale condition_invariant =
  fixes C :: "nsname \<Rightarrow> condition list \<Rightarrow> bool" and ok :: "condition \<Rightarrow> bool"
  assumes C_upsert: "ok c \<Longrightarrow> C k (vi_conditions v) \<Longrightarrow> C k (vi_conditions (UpsertCondition v c n))"
    and ok_nonsucceeded: "c_reason c \<noteq> None \<Longrightarrow> c_type c \<noteq> Succeeded \<Longrightarrow> ok c"
begin

lemma C_upserts:
  "(\<And>c. c \<in> set cs \<Longrightarrow> ok c) \<Longrightarrow> C k (vi_conditions v) \<Longrightarrow> C k (vi_conditions (upserts n cs v))"
  unfolding upserts_def set_conditions_simps
  by (induction cs arbitrary: v) (auto intro: C_upsert)

sublocale import_rel "keeps_all (\<lambda>k v. C k (vi_conditions v))" ok
proof unfold_locales
  let ?Q = "\<lambda>k v. C k (vi_conditions v)"
  show "keeps_all ?Q w w" for w :: "'b world" by (simp add: keeps_all_def)
  show "keeps_all ?Q u w" if "keeps_all ?Q u v" "keeps_all ?Q v w" for u v w :: "'b world"
    using that by (simp add: keeps_all_def)
  show "keeps_all ?Q w w'" if "w_imports w' = w_imports w" for w w' :: "'b world"
    using that by (simp add: keeps_all_def all_imports_def)
  show "keeps_all ?Q w w'" if "provider_step w w'" for w w' :: "'b world"
    using that by (intro keeps_all_provider) simp_all
  show "keeps_all ?Q w w'" if "\<And>c. c \<in> set cs \<Longrightarrow> ok c" "changes_import k (upserts n cs) w w'"
    for cs k n and w w' :: "'b world"
    using that by (intro keeps_all_changes [OF that(2)] C_upserts)
qed (auto elim!: keeps_all_changes intro: ok_nonsucceeded)

end

end
