(* ===== verification/ControllerProps.thy ===== *)
theory ControllerProps
  imports ControllerFrames
begin

text \<open>
  What the reconciler guarantees, for any two providers that keep the contract (locale \<open>providers\<close>):
  the conditions stay well formed, an import becomes successful only after all its disks (and its guest
  conversion), and the outcome of a finished import does not change.
\<close>

section \<open>Operations that keep the phases of the data volumes\<close>

definition keeps_phases :: "'p world \<Rightarrow> 'p world \<Rightarrow> bool" where
  "keeps_phases w w' \<longleftrightarrow> (\<forall>k. map_option dv_phase (w_dvs w' k) = map_option dv_phase (w_dvs w k))"

interpretation keeps_phases: frame_rel keeps_phases
  by unfold_locales (simp_all add: keeps_phases_def)

lemma phases_same: "w_dvs w' = w_dvs w \<Longrightarrow> keeps_phases w w'"
  by (simp add: keeps_phases_def)

lemma phases_quiet: "frames quiet m \<Longrightarrow> frames keeps_phases m"
  by (erule frames_mono) (simp add: quiet_def keeps_disks_def phases_same)

lemma phases_api: "(\<And>w x w'. f w = Inr (x, w') \<Longrightarrow> keeps_phases w w') \<Longrightarrow> frames keeps_phases (api f)"
  by (rule framesI) (force simp: api_def Let_def keeps_phases_def split: fault.split sum.split)

lemma phases_changes: "changes_import k f w w' \<Longrightarrow> keeps_phases w w'"
  by (auto simp: changes_import_def put_import_def phases_same)

lemma phases_get_from: "frames keeps_phases (get_from kind store k)"
  unfolding get_from_def by (rule phases_api) (auto simp: phases_same split: option.splits)

lemma phases_gets:
  "frames keeps_phases (get_import k)" "frames keeps_phases (get_vm k)" "frames keeps_phases (get_instance k)"
  "frames keeps_phases (get_dv k)"
  unfolding get_import_def get_vm_def get_instance_def get_dv_def by (rule phases_get_from)+

lemma phases_background:
  "frames keeps_phases now" "frames keeps_phases (record_event v t reason message)"
  "frames keeps_phases (inc_counter res)" "frames keeps_phases (save_duration res d)"
  "frames keeps_phases (watch_pod n k)" "frames keeps_phases (patch_vm k g)" "frames keeps_phases (patch_dv_owners k refs)"
  "frames keeps_phases (patch_import k f)"
  unfolding now_def record_event_def inc_counter_def save_duration_def watch_pod_def patch_vm_def
    patch_dv_owners_def patch_import_def
  by (auto intro!: keeps_phases.frames_gread keeps_phases.frames_gmodify phases_api
      simp: Let_def keeps_phases_def put_import_def split: if_splits option.splits)

lemmas phases_client = phases_gets phases_background

lemma phases_ops:
  "frames keeps_phases (upsertStatusConditions k cs)" "frames keeps_phases (updateProgress v p)"
  "frames keeps_phases (new_condition t r m s)" "frames keeps_phases (removeFinalizer f v)"
  "frames keeps_phases (save_metrics res v)" "frames keeps_phases (updateToRunning k)"
  unfolding upsertStatusConditions_def update_import_status_def updateProgress_def set_annotation_def
    new_condition_def removeFinalizer_def RemoveFinalizer_def patch_finalizers_def save_metrics_def
    calculateImportDuration_def updateToRunning_def
  by (intro keeps_phases.frames_combinators phases_client)+

lemma phases_PurgeOwnerReferences: "frames keeps_phases (PurgeOwnerReferences k)"
proof -
  have "frames keeps_phases (remove_dv_owners ns vs)" for ns vs
  proof (induction vs)
    case (Cons v vs)
    then show ?case
      unfolding remove_dv_owners.simps removeDataVolumeOwnerReference_def
      by (intro keeps_phases.frames_combinators phases_client)
  qed (simp only: remove_dv_owners.simps keeps_phases.frames_gret)
  then show ?thesis
    unfolding PurgeOwnerReferences_def removeDataVolumesOwnerReferences_def removeVMOwnerReference_def
    by (intro keeps_phases.frames_combinators phases_client)
qed

text \<open>The job that the guest conversion finds or launches has a success, no failure and nothing active.\<close>

definition conversion_done :: "'p provider \<Rightarrow> nsname \<Rightarrow> 'p world \<Rightarrow> bool" where
  "conversion_done P k w \<longleftrightarrow> (\<exists>vm w1 found w2 j w3.
     get_vm k w = (Inr vm, w1) \<and> pv_GetGuestConversionJob P w1 = (Inr found, w2) \<and>
     (found = Some j \<or> found = None \<and> pv_LaunchGuestConversionJob P vm w2 = (Inr (Some j), w3)) \<and>
     jb_succeeded j > 0 \<and> \<not> jb_failed j > 0 \<and> \<not> jb_active j > 0)"

context provider_contract
begin

lemmas phases_provider = quiet_ops [THEN phases_quiet]

lemma phases_afterSuccess: "frames keeps_phases (afterSuccess P k v)"
  unfolding afterSuccess_def
  by (intro keeps_phases.frames_combinators phases_client phases_ops phases_PurgeOwnerReferences phases_provider)

lemma phases_finish_import: "frames keeps_phases (finish_import P v k)"
  unfolding finish_import_def startVM_def updateConditionsAfterSuccess_def Let_def
  by (intro keeps_phases.frames_combinators phases_client phases_ops phases_afterSuccess)

lemma convertGuest_done:
  assumes "convertGuest P v k w = (Inr (True, v'), w')"
  shows "v' = v \<and> keeps_phases w w' \<and> conversion_done P k w"
proof -
  let ?get = "\<lambda>vm found. case found of
         Some job \<Rightarrow> gret job
       | None \<Rightarrow>
           gbind (pv_LaunchGuestConversionJob P vm) (\<lambda>launched.
           gbind (glift (deref launched)) (\<lambda>job.
           gbind (new_condition Processing (processing_reason ConvertingGuest)
               (''Running virt-v2v job '' @ om_name (jb_meta job)) ConditionTrue) (\<lambda>c.
           gbind (upsertStatusConditions (vi_key v) [c]) (\<lambda>_.
           gbind (updateProgress v progressConvertingGuest) (\<lambda>_. gret job)))))"
  from assms obtain vm found job w1 w2 w3 where
    vm: "get_vm k w = (Inr vm, w1)" and found: "pv_GetGuestConversionJob P w1 = (Inr found, w2)"
    and job: "?get vm found w2 = (Inr job, w3)"
    and fin: "(if jb_active job > 0 then gret (False, v)
       else if jb_failed job > 0
       then gbind (endGuestConversionAsFailed P v (''virt-v2v job '' @ om_name (jb_meta job) @ '' failed''))
              (\<lambda>v'. gret (False, v'))
       else gret (jb_succeeded job > 0, v)) w3 = (Inr (True, v'), w')"
    unfolding convertGuest_def gbind_returns by blast
  from fin have r: "\<not> jb_active job > 0" "\<not> jb_failed job > 0" "jb_succeeded job > 0" "v' = v" "w' = w3"
    by (auto simp: gbind_returns split: if_splits)
  have "frames keeps_phases (?get vm found)"
    by (intro keeps_phases.frames_combinators phases_client phases_ops phases_provider)
  then have "keeps_phases w2 w3" using job by (rule framesD2)
  moreover have "keeps_phases w w1" using phases_gets(2) vm by (rule framesD2)
  moreover have "keeps_phases w1 w2" using phases_quiet [OF GetGuestConversionJob] found by (rule framesD2)
  moreover have "found = Some job \<or> (\<exists>w4. found = None \<and> pv_LaunchGuestConversionJob P vm w2 = (Inr (Some job), w4))"
    using job by (cases found) (auto simp: gbind_returns)
  ultimately show ?thesis using r vm found unfolding conversion_done_def by (blast intro: keeps_phases.R_trans)
qed

end

section \<open>A run of the disk loop after which every disk is done\<close>

text \<open>A data volume that the server holds in the phase Succeeded.\<close>

definition disk_done :: "string \<Rightarrow> 'p world \<Rightarrow> string \<Rightarrow> bool" where
  "disk_done ns w i \<longleftrightarrow> (\<exists>d. w_dvs w (ns, i) = Some d \<and> dv_phase d = DVSucceeded)"

lemma disk_done_phases: "keeps_phases w w' \<Longrightarrow> disk_done ns w' i = disk_done ns w i"
proof -
  assume "keeps_phases w w'"
  then have "map_option dv_phase (w_dvs w' (ns, i)) = map_option dv_phase (w_dvs w (ns, i))"
    unfolding keeps_phases_def by blast
  then show ?thesis by (cases "w_dvs w (ns, i)"; cases "w_dvs w' (ns, i)") (simp_all add: disk_done_def)
qed

text \<open>An iteration notes a disk as done only in the branch of the phase Succeeded, which changes nothing.\<close>

lemma handle_phase_step:
  assumes "handle_phase E P i d s w = (Inr s', w')"
  shows "dl_done s' = dl_done s \<or>
    (dl_done s' = gm_set i True (dl_done s) \<and> dv_phase d = DVSucceeded \<and> w' = w \<and> dl_import s' = dl_import s)"
  using assms
  by (cases "dv_phase d") (auto simp: handle_phase_def Let_def gbind_returns gtry_returns)

lemma import_disk_step:
  assumes r: "import_disk E P mapper k (i, dv) s w = (Inr (Continue s'), w')"
  shows "dl_done s' = dl_done s \<or>
    (dl_done s' = gm_set i True (dl_done s) \<and> dl_import s' = dl_import s \<and> keeps_phases w w' \<and>
     disk_done (vi_namespace (dl_import s)) w' i)"
proof -
  let ?v = "dl_import s"
  from r obtain w1 where w1: "watch_pod (importerPodNameFromDv i) (vi_key ?v) w = (Inr (), w1)"
    unfolding import_disk_def by (auto simp: gbind_returns Let_def)
  obtain g w2 where g: "get_dv (vi_namespace ?v, i) w1 = (g, w2)" by fastforce
  have k1: "keeps_phases w w1" using phases_background(5) w1 by (rule framesD2)
  have k2: "keeps_phases w1 w2" using phases_gets(4) g by (rule framesD2)
  show ?thesis
  proof (cases g)
    case (Inl e)
    then show ?thesis using r w1 g
      by (auto simp: import_disk_def gbind_returns gtry_returns Let_def split: if_splits prod.splits sum.splits)
  next
    case (Inr d)
    have d: "w_dvs w1 (vi_namespace ?v, i) = Some d"
      using g Inr get_from_result [of w_dvs w1 _ "(vi_namespace ?v, i)" d w2] by (simp add: get_dv_def)
    have same: "w_dvs w2 = w_dvs w1"
      using get_from_world g unfolding get_dv_def by fastforce
    obtain s1 where h: "handle_phase E P i d s w2 = (Inr s1, w')"
      and s': "s' = s1\<lparr>dl_progress := gm_set i (dv_progress_value E d) (dl_progress s1)\<rparr>"
      using r w1 g Inr by (auto simp: import_disk_def gbind_returns gtry_returns Let_def)
    have fin: "keeps_phases w w2 \<and> disk_done (vi_namespace ?v) w2 i" if "dv_phase d = DVSucceeded"
      using that d k1 k2 same by (auto simp: disk_done_def intro: keeps_phases.R_trans)
    from handle_phase_step [OF h] fin s' show ?thesis by auto
  qed
qed

lemma gm_set_length: "length (gm_set k v m) \<le> Suc (length m)"
  by (induction m) auto

lemma import_disk_loop_step:
  assumes "import_disk_loop (import_disk E P mapper k) (x # xs) s w = (Inr (Continue s'), w')"
  obtains s1 w1 where "import_disk E P mapper k x s w = (Inr (Continue s1), w1)"
    and "import_disk_loop (import_disk E P mapper k) xs s1 w1 = (Inr (Continue s'), w')"
proof -
  from assms obtain r w1 where a: "import_disk E P mapper k x s w = (Inr r, w1)"
    and b: "(case r of ReturnFalse v \<Rightarrow> gret (ReturnFalse v)
      | Continue s' \<Rightarrow> import_disk_loop (import_disk E P mapper k) xs s') w1 = (Inr (Continue s'), w')"
    by (auto simp: gbind_returns)
  from b a that show thesis by (cases r) simp_all
qed

lemma loop_length:
  "import_disk_loop (import_disk E P mapper k) xs s w = (Inr (Continue s'), w') \<Longrightarrow>
   length (dl_done s') \<le> length (dl_done s) + length xs"
proof (induction xs arbitrary: s w)
  case (Cons x xs)
  obtain i dv where x: "x = (i, dv)" by fastforce
  from Cons.prems obtain s1 w1 where s1: "import_disk E P mapper k (i, dv) s w = (Inr (Continue s1), w1)"
    and l: "import_disk_loop (import_disk E P mapper k) xs s1 w1 = (Inr (Continue s'), w')"
    unfolding x by (rule import_disk_loop_step)
  have "length (dl_done s1) \<le> Suc (length (dl_done s))"
    using import_disk_step [OF s1] gm_set_length [of i True "dl_done s"] by auto
  with Cons.IH [OF l] show ?case by simp
qed simp

lemma loop_all_done:
  assumes "import_disk_loop (import_disk E P mapper k) xs s w = (Inr (Continue s'), w')"
    and "length (dl_done s') = length (dl_done s) + length xs"
  shows "keeps_phases w w' \<and> dl_import s' = dl_import s \<and>
    (\<forall>(i, dv) \<in> set xs. disk_done (vi_namespace (dl_import s)) w i)"
  using assms
proof (induction xs arbitrary: s w)
  case Nil
  then show ?case by (simp add: keeps_phases.R_refl)
next
  case (Cons x xs)
  obtain i dv where x: "x = (i, dv)" by fastforce
  from Cons.prems(1) obtain s1 w1 where s1: "import_disk E P mapper k (i, dv) s w = (Inr (Continue s1), w1)"
    and l: "import_disk_loop (import_disk E P mapper k) xs s1 w1 = (Inr (Continue s'), w')"
    unfolding x by (rule import_disk_loop_step)
  from loop_length [OF l] Cons.prems(2) have "length (dl_done s1) \<noteq> length (dl_done s)" by simp
  then have st: "dl_done s1 = gm_set i True (dl_done s)" "dl_import s1 = dl_import s" "keeps_phases w w1"
    "disk_done (vi_namespace (dl_import s)) w1 i"
    using import_disk_step [OF s1] by auto
  have len: "length (dl_done s') = length (dl_done s1) + length xs"
    using loop_length [OF l] Cons.prems(2) gm_set_length [of i True "dl_done s"] st(1) by simp
  from Cons.IH [OF l len] have IH: "keeps_phases w1 w'" "dl_import s' = dl_import s1"
    "\<forall>(i, dv) \<in> set xs. disk_done (vi_namespace (dl_import s)) w1 i"
    using st(2) by simp_all
  show ?case
    using IH st disk_done_phases [OF st(3)] by (auto simp: x intro: keeps_phases.R_trans)
qed

lemma CountImported_le: "CountImportedDataVolumes m \<le> length m"
proof -
  have "foldl (\<lambda>done kv. if snd kv then done + 1 else done) n m \<le> n + length m" for n
  proof (induction m arbitrary: n)
    case (Cons kv m)
    have "foldl (\<lambda>done kv. if snd kv then done + 1 else done) n m \<le> n + length m"
      "foldl (\<lambda>done kv. if snd kv then done + 1 else done) (n + 1) m \<le> n + 1 + length m"
      by (rule Cons.IH)+
    then show ?case by (cases "snd kv") simp_all
  qed simp
  from this [of 0] show ?thesis by (simp add: CountImportedDataVolumes_def)
qed

lemma importDisks_done:
  assumes "importDisks E P v mapper k w = (Inr (True, v'), w')"
  shows "\<exists>dvs. mp_MapDataVolumes mapper (snd k) = Inr dvs \<and> v' = v \<and> keeps_phases w w' \<and>
    (\<forall>(i, dv) \<in> set dvs. disk_done (vi_namespace v) w' i)"
proof -
  let ?s0 = "\<lparr>dl_import = v, dl_done = [], dl_progress = []\<rparr>"
  from assms obtain dvs w0 r w1 where g: "glift (mp_MapDataVolumes mapper (snd k)) w = (Inr dvs, w0)"
    and r0: "import_disk_loop (import_disk E P mapper k) dvs ?s0 w0 = (Inr r, w1)"
    and c: "(case r of ReturnFalse v' \<Rightarrow> gret (False, v')
       | Continue s \<Rightarrow>
           gbind (updateProgress (dl_import s) (disksImportProgress E (dl_progress s) (length dvs))) (\<lambda>_.
             gret (isDoneImport (dl_done s) (length dvs), dl_import s))) w1 = (Inr (True, v'), w')"
    unfolding importDisks_def gbind_returns by (elim exE conjE) (rule that; assumption)
  from g have m: "mp_MapDataVolumes mapper (snd k) = Inr dvs" and "w0 = w" by simp_all
  with r0 have r: "import_disk_loop (import_disk E P mapper k) dvs ?s0 w = (Inr r, w1)" by simp
  obtain s where s: "r = Continue s" using c by (cases r) simp_all
  from r s have l: "import_disk_loop (import_disk E P mapper k) dvs ?s0 w = (Inr (Continue s), w1)" by simp
  from c [unfolded s loop_step.case gbind_returns]
  have u: "updateProgress (dl_import s) (disksImportProgress E (dl_progress s) (length dvs)) w1 = (Inr (), w')"
    and fin: "isDoneImport (dl_done s) (length dvs)" and v': "v' = dl_import s"
    by auto
  have "length (dl_done s) = length (dl_done ?s0) + length dvs"
    using loop_length [OF l] CountImported_le [of "dl_done s"] fin by (simp add: isDoneImport_def)
  from loop_all_done [OF l this] have a: "keeps_phases w w1" "dl_import s = v"
    "\<forall>(i, dv) \<in> set dvs. disk_done (vi_namespace v) w i" by simp_all
  moreover have "keeps_phases w1 w'" using phases_ops(2) u by (rule framesD2)
  ultimately have k: "keeps_phases w w'" by (blast intro: keeps_phases.R_trans)
  show ?thesis
  proof (intro exI conjI)
    show "mp_MapDataVolumes mapper (snd k) = Inr dvs" by (rule m)
    show "v' = v" using v' a(2) by simp
    show "keeps_phases w w'" by (rule k)
    show "\<forall>(i, dv) \<in> set dvs. disk_done (vi_namespace v) w' i"
      using a(3) disk_done_phases [OF k] by auto
  qed
qed

section \<open>No success without evidence\<close>

definition succeeded_true :: "condition list \<Rightarrow> bool" where
  "succeeded_true cs \<longleftrightarrow> (\<exists>c. FindConditionOfType cs Succeeded = Some c \<and> c_status c = ConditionTrue)"

definition not_succeeded :: "nsname \<Rightarrow> nsname \<Rightarrow> condition list \<Rightarrow> bool" where
  "not_succeeded k0 k cs \<longleftrightarrow> (k = k0 \<longrightarrow> \<not> succeeded_true cs)"

definition failing_cond :: "condition \<Rightarrow> bool" where
  "failing_cond c \<longleftrightarrow> c_reason c \<noteq> None \<and> (c_type c = Succeeded \<longrightarrow> c_status c \<noteq> ConditionTrue)"

interpretation unsuccessful: condition_invariant "not_succeeded k0" failing_cond for k0
  by unfold_locales (auto simp: not_succeeded_def succeeded_true_def failing_cond_def Find_Upsert)

interpretation wellformed: condition_invariant "\<lambda>_. conds_wf" cond_wf
  by unfold_locales (auto simp: Upsert_wf, simp add: cond_wf_def)

text \<open>
  What the end of a run shows before an import is successful, along the calls of this run: the data
  volumes that the mapper of the run lists for the virtual machine are all in the phase Succeeded, and
  where the provider asks for it the guest conversion is done.
\<close>

definition disks_imported :: "string \<Rightarrow> 'p mapper \<Rightarrow> string \<Rightarrow> 'p world \<Rightarrow> bool" where
  "disks_imported ns mapper name w \<longleftrightarrow>
     (\<exists>dvs. mp_MapDataVolumes mapper name = Inr dvs \<and> (\<forall>(i, dv) \<in> set dvs. disk_done ns w i))"

definition import_completed :: "runtime_env \<Rightarrow> 'p provider \<Rightarrow> string \<Rightarrow> vmimport \<Rightarrow> 'p world \<Rightarrow> 'p world \<Rightarrow> bool" where
  "import_completed E P ns v w w' \<longleftrightarrow> (\<exists>v1 w1 mapper w2 name v2 w3 w4.
     pv_StopVM P v w = (Inr v1, w1) \<and> pv_CreateMapper P w1 = (Inr mapper, w2) \<and>
     ensure_vm E P ns v1 mapper w2 = (Inr (name, v2), w3) \<and>
     importDisks E P v2 mapper (ns, name) w3 = (Inr (True, v2), w4) \<and>
     (pv_NeedsGuestConversion P \<longrightarrow> conversion_done P (ns, name) w4) \<and>
     disks_imported (vi_namespace v) mapper name w')"

definition provider_completed :: "runtime_env \<Rightarrow> 'p provider \<Rightarrow> string \<Rightarrow> vmimport \<Rightarrow> 'p world \<Rightarrow> 'p world \<Rightarrow> bool" where
  "provider_completed E P ns v w w' \<longleftrightarrow> (\<exists>w1 w2.
     fetchVM v P w = (Inr (), w1) \<and> validate v P w1 = (Inr True, w2) \<and> import_completed E P ns v w2 w')"

definition existing_completed :: "runtime_env \<Rightarrow> 'p provider \<Rightarrow> 'p provider \<Rightarrow> string \<Rightarrow> vmimport \<Rightarrow> 'p world \<Rightarrow> 'p world \<Rightarrow> bool" where
  "existing_completed E ovirt vmware ns v w w' \<longleftrightarrow> (\<exists>P w1 message w2.
     createProvider ovirt vmware v w = (Inr P, w1) \<and> initProvider v P w1 = (Inr (message, None), w2) \<and>
     provider_completed E P ns v w2 w')"

definition reconcile_completed :: "runtime_env \<Rightarrow> 'p provider \<Rightarrow> 'p provider \<Rightarrow> nsname \<Rightarrow> 'p world \<Rightarrow> 'p world \<Rightarrow> bool" where
  "reconcile_completed E ovirt vmware k w w' \<longleftrightarrow> (\<exists>v w0 v1 w1 v2 w2.
     get_import k w = (Inr v, w0) \<and>
     (if \<not> vmImportInProgress v then AddFinalizer v CancelledImportFinalizer else gret v) w0 = (Inr v1, w1) \<and>
     handle_deletion v1 w1 = (Inr (False, v2), w2) \<and> existing_completed E ovirt vmware (fst k) v2 w2 w')"

lemma disks_imported_phases: "disks_imported ns mapper name w \<Longrightarrow> keeps_phases w w' \<Longrightarrow> disks_imported ns mapper name w'"
  unfolding disks_imported_def by (simp add: disk_done_phases)

text \<open>Such evidence stays when the phases of the data volumes do.\<close>

definition lasting :: "('p world \<Rightarrow> bool) \<Rightarrow> bool" where
  "lasting D \<longleftrightarrow> (\<forall>w w'. D w \<longrightarrow> keeps_phases w w' \<longrightarrow> D w')"

lemma lastingD: "lasting D \<Longrightarrow> D w \<Longrightarrow> keeps_phases w w' \<Longrightarrow> D w'"
  unfolding lasting_def by blast

lemma lasting_completed:
  "lasting (import_completed E P ns v w)" "lasting (provider_completed E P ns v w)"
  unfolding lasting_def provider_completed_def import_completed_def
  by (blast intro: disks_imported_phases)+

text \<open>The import in memory keeps everything but its finalizers.\<close>

definition same_but_finalizers :: "vmimport \<Rightarrow> vmimport \<Rightarrow> bool" where
  "same_but_finalizers v v' \<longleftrightarrow> (\<exists>fs. v' = v\<lparr>vi_finalizers := fs\<rparr>)"

lemma same_but_finalizers_refl [simp]: "same_but_finalizers v v"
  unfolding same_but_finalizers_def by (rule exI [of _ "vi_finalizers v"]) simp

lemma same_but_finalizers_trans:
  "same_but_finalizers u v \<Longrightarrow> same_but_finalizers v w \<Longrightarrow> same_but_finalizers u w"
  by (auto simp: same_but_finalizers_def)

lemma same_but_finalizers_fields:
  "same_but_finalizers v v' \<Longrightarrow> vi_status v' = vi_status v \<and> vi_spec v' = vi_spec v \<and> vi_namespace v' = vi_namespace v \<and>
     vi_name v' = vi_name v \<and> vi_annotations v' = vi_annotations v \<and> vi_deletion v' = vi_deletion v"
  by (auto simp: same_but_finalizers_def)

lemma patch_finalizers_same: "patch_finalizers v fs w = (Inr v', w') \<Longrightarrow> same_but_finalizers v v'"
  unfolding same_but_finalizers_def by (auto simp: patch_finalizers_def gbind_returns)

lemma finalizers_same:
  "AddFinalizer v f w = (Inr v', w') \<Longrightarrow> same_but_finalizers v v'"
  "RemoveFinalizer v f w = (Inr v', w') \<Longrightarrow> same_but_finalizers v v'"
  "removeFinalizer f v w = (Inr v', w') \<Longrightarrow> same_but_finalizers v v'"
  by (auto simp: AddFinalizer_def RemoveFinalizer_def removeFinalizer_def gtry_returns
      dest: patch_finalizers_same split: if_splits)

lemma handle_deletion_same: "handle_deletion v w = (Inr (b, v'), w') \<Longrightarrow> same_but_finalizers v v'"
  by (auto simp: handle_deletion_def gbind_returns dest: finalizers_same split: if_splits)

lemma no_succeeded_not_finished:
  "FindConditionOfType cs Succeeded = None \<Longrightarrow> HasSucceededConditionOfReason cs rs = Inr False"
  by (induction cs) (auto split: if_splits)

context provider_contract
begin

sublocale unsuccessful: failing_rel "keeps_all (\<lambda>k v. not_succeeded k0 k (vi_conditions v))" failing_cond P for k0
  by unfold_locales (auto simp: failing_cond_def)

sublocale wellformed: success_rel "keeps_all (\<lambda>k v. conds_wf (vi_conditions v))" cond_wf P
  by unfold_locales (auto simp: cond_wf_def)

lemma afterFailure_same:
  assumes "afterFailure P v w = (Inr v', w')"
  shows "same_but_finalizers v v'"
proof -
  from assms obtain v1 u u' where v1: "same_but_finalizers v v1" and c: "pv_CleanUp P True v1 u = (Inr v', u')"
    by (auto simp: afterFailure_def gbind_returns gresult_def gtry_returns err_list_def Let_def
        dest!: finalizers_same split: if_splits sum.splits)
  from CleanUp_result [OF c] have "same_but_finalizers v1 v'" by (simp add: same_but_finalizers_def)
  with v1 show ?thesis by (rule same_but_finalizers_trans)
qed

lemma createVM_same:
  assumes "createVM E P v mapper w = (Inr (n, v'), w')"
  shows "same_but_finalizers v v'"
proof -
  have "returns (same_but_finalizers v) (afterFailure P v)"
    unfolding returns_def using afterFailure_same by blast
  then have failed: "returns (\<lambda>x. same_but_finalizers v (snd x)) (gbind (afterFailure P v) (\<lambda>v'. gret ([], v')))"
    by (rule returns_gbind) (rule returns_gret, simp)
  have "returns (\<lambda>x. same_but_finalizers v (snd x)) (createVM E P v mapper)"
    unfolding createVM_def Let_def
    by (rule failed | rule returns_gbind_any returns_case_prod returns_case_sum returns_if
        | rule returns_gret, simp only: snd_conv same_but_finalizers_refl)+
  from returnsD [OF this assms] show ?thesis by simp
qed

text \<open>A step keeps the import unsuccessful, or there is evidence in the world it ends in.\<close>

definition sound_step :: "('p world \<Rightarrow> bool) \<Rightarrow> nsname \<Rightarrow> 'p world \<Rightarrow> 'p world \<Rightarrow> bool" where
  "sound_step D k0 w w' \<longleftrightarrow> keeps_all (\<lambda>k v. not_succeeded k0 k (vi_conditions v)) w w' \<or> D w'"

lemma sound_frames: "frames (keeps_all (\<lambda>k v. not_succeeded k0 k (vi_conditions v))) m \<Longrightarrow> sound_step D k0 w (snd (m w))"
  by (simp add: frames_def sound_step_def)

lemma sound_trans:
  "keeps_all (\<lambda>k v. not_succeeded k0 k (vi_conditions v)) w w1 \<Longrightarrow> sound_step D k0 w1 w' \<Longrightarrow> sound_step D k0 w w'"
  by (auto simp: sound_step_def keeps_all_def)

lemma sound_mono: "sound_step D k0 w w' \<Longrightarrow> (D w' \<Longrightarrow> D' w') \<Longrightarrow> sound_step D' k0 w w'"
  by (auto simp: sound_step_def)

lemma sound_bind:
  assumes "frames (keeps_all (\<lambda>k v. not_succeeded k0 k (vi_conditions v))) m"
    and "\<And>x w1. m w = (Inr x, w1) \<Longrightarrow> sound_step D k0 w1 (snd (g x w1))"
  shows "sound_step D k0 w (snd (gbind m g w))"
proof -
  obtain r w1 where m: "m w = (r, w1)" by (cases "m w")
  have k: "keeps_all (\<lambda>k v. not_succeeded k0 k (vi_conditions v)) w w1" using assms(1) m by (rule framesD2)
  show ?thesis
  proof (cases r)
    case (Inl e)
    with k m show ?thesis by (simp add: gbind_def sound_step_def)
  next
    case (Inr x)
    with assms(2) m have "sound_step D k0 w1 (snd (g x w1))" by blast
    with k have "sound_step D k0 w (snd (g x w1))" by (rule sound_trans)
    then show ?thesis by (simp add: gbind_def m Inr)
  qed
qed

lemma finish_import_sound: "D w \<Longrightarrow> lasting D \<Longrightarrow> sound_step D k0 w (snd (finish_import P v k w))"
  unfolding sound_step_def using lastingD framesD [OF phases_finish_import] by blast

lemma convert_and_finish_sound:
  assumes last: "lasting D" and none: "FindConditionOfType (vi_conditions v) Succeeded = None"
    and D: "\<And>w1. keeps_phases w w1 \<Longrightarrow> (pv_NeedsGuestConversion P \<longrightarrow> conversion_done P k w) \<Longrightarrow> D w1"
  shows "sound_step D k0 w (snd (convert_and_finish P v k w))"
proof (cases "pv_NeedsGuestConversion P")
  case False
  with D [OF keeps_phases.R_refl] have "D w" by simp
  with False last show ?thesis
    using finish_import_sound by (simp add: convert_and_finish_def shouldConvertGuest_def gbind_def)
next
  case True
  have "convert_and_finish P v k w =
     gbind (convertGuest P v k) (\<lambda>(finished, v). if \<not> finished then gret no_requeue else finish_import P v k) w"
    using none True
    by (simp add: convert_and_finish_def shouldConvertGuest_def has_import_finished_def no_succeeded_not_finished
        gbind_def del: HasSucceededConditionOfReason.simps)
  moreover have "sound_step D k0 w (snd (gbind (convertGuest P v k)
      (\<lambda>(finished, v). if \<not> finished then gret no_requeue else finish_import P v k) w))"
  proof (rule sound_bind [OF unsuccessful.frames_convertGuest])
    fix x w1
    assume r: "convertGuest P v k w = (Inr x, w1)"
    obtain finished v' where x: "x = (finished, v')" by fastforce
    have "D w1" if finished
    proof -
      from r that x have "convertGuest P v k w = (Inr (True, v'), w1)" by simp
      from convertGuest_done [OF this] D show ?thesis by blast
    qed
    then show "sound_step D k0 w1 (snd ((case x of (finished, v) \<Rightarrow>
        if \<not> finished then gret no_requeue else finish_import P v k) w1))"
      using finish_import_sound last by (simp add: x sound_step_def keeps_all_def)
  qed
  ultimately show ?thesis by simp
qed

lemma frames_ensure_vm_unsuccessful:
  assumes "pv_CreateMapper P w1 = (Inr mapper, w2)"
  shows "frames (keeps_all (\<lambda>k v. not_succeeded k0 k (vi_conditions v))) (ensure_vm E P ns v mapper)"
  unfolding ensure_vm_def
  by (intro unsuccessful.frames_combinators unsuccessful.frames_createVM unsuccessful.client_frames
      unsuccessful.frames_quiet MapVM [OF assms])

lemma ensure_vm_same:
  assumes "ensure_vm E P ns v mapper w = (Inr (name, v'), w')"
  shows "same_but_finalizers v v'"
  using assms createVM_same by (auto simp: ensure_vm_def gbind_returns split: if_splits)

text \<open>The part of \<open>import_vm\<close> that starts with the disks.\<close>

lemma disks_sound:
  assumes stop: "pv_StopVM P v w = (Inr v1, w1)" and c: "pv_CreateMapper P w1 = (Inr mapper, w2)"
    and e: "ensure_vm E P ns v1 mapper w2 = (Inr (name, v2), w3)" and v2: "same_but_finalizers v v2"
    and none: "FindConditionOfType (vi_conditions v) Succeeded = None"
  shows "sound_step (import_completed E P ns v w) k0 w3 (snd (gbind (importDisks E P v2 mapper (ns, name)) (\<lambda>(finished, v).
              if \<not> finished then gret no_requeue else convert_and_finish P v (ns, name)) w3))"
proof (rule sound_bind [OF unsuccessful.frames_importDisks])
  fix x w4
  assume r: "importDisks E P v2 mapper (ns, name) w3 = (Inr x, w4)"
  obtain finished v3 where x: "x = (finished, v3)" by fastforce
  have f: "FindConditionOfType (vi_conditions v2) Succeeded = None" and n: "vi_namespace v2 = vi_namespace v"
    using none same_but_finalizers_fields [OF v2] by simp_all
  let ?D = "import_completed E P ns v w"
  show "sound_step ?D k0 w4 (snd ((case x of (finished, v) \<Rightarrow>
          if \<not> finished then gret no_requeue else convert_and_finish P v (ns, name)) w4))"
  proof (cases finished)
    case False
    then show ?thesis by (simp add: x sound_step_def keeps_all_def)
  next
    case True
    with r x have rt: "importDisks E P v2 mapper (ns, name) w3 = (Inr (True, v3), w4)" by simp
    from importDisks_done [OF rt] have v3: "v3 = v2" and d: "disks_imported (vi_namespace v) mapper name w4"
      unfolding disks_imported_def n by auto
    have "sound_step ?D k0 w4 (snd (convert_and_finish P v2 (ns, name) w4))"
    proof (rule convert_and_finish_sound [OF lasting_completed(1) f])
      fix w5
      assume "keeps_phases w4 w5" and conv: "pv_NeedsGuestConversion P \<longrightarrow> conversion_done P (ns, name) w4"
      with d have "disks_imported (vi_namespace v) mapper name w5" by (blast intro: disks_imported_phases)
      with stop c e rt v3 conv show "?D w5" unfolding import_completed_def by blast
    qed
    then show ?thesis using True by (simp add: x v3)
  qed
qed

lemma import_vm_sound:
  assumes none: "FindConditionOfType (vi_conditions v) Succeeded = None"
  shows "sound_step (import_completed E P ns v w) k0 w (snd (import_vm E P ns v w))"
  unfolding import_vm_def
proof (rule sound_bind [OF unsuccessful.provider_frames(8)], rule sound_bind [OF unsuccessful.provider_frames(9)])
  fix v1 w1 mapper w2
  assume stop: "pv_StopVM P v w = (Inr v1, w1)" and c: "pv_CreateMapper P w1 = (Inr mapper, w2)"
  have v1: "same_but_finalizers v v1" using StopVM_result [OF stop] by (simp add: same_but_finalizers_def)
  let ?body = "\<lambda>(name, v). gbind (glift (shouldImportDisks v)) (\<lambda>import.
       if import
       then gbind (importDisks E P v mapper (ns, name)) (\<lambda>(finished, v).
              if \<not> finished then gret no_requeue else convert_and_finish P v (ns, name))
       else convert_and_finish P v (ns, name))"
  show "sound_step (import_completed E P ns v w) k0 w2 (snd (gbind (ensure_vm E P ns v1 mapper) ?body w2))"
  proof (rule sound_bind [OF frames_ensure_vm_unsuccessful [OF c]])
    fix x w3
    assume x: "ensure_vm E P ns v1 mapper w2 = (Inr x, w3)"
    obtain name v2 where xp: "x = (name, v2)" by fastforce
    have v2: "same_but_finalizers v v2"
      using v1 ensure_vm_same [OF x [unfolded xp]] by (rule same_but_finalizers_trans)
    have f: "FindConditionOfType (vi_conditions v2) Succeeded = None"
      using none same_but_finalizers_fields [OF v2] by simp
    then have "?body (name, v2) w3 =
        gbind (importDisks E P v2 mapper (ns, name)) (\<lambda>(finished, v).
              if \<not> finished then gret no_requeue else convert_and_finish P v (ns, name)) w3"
      by (simp add: shouldImportDisks_def has_import_finished_def no_succeeded_not_finished gbind_def
          del: HasSucceededConditionOfReason.simps)
    then show "sound_step (import_completed E P ns v w) k0 w3 (snd (?body x w3))"
      using disks_sound [OF stop c x [unfolded xp] v2 none] by (simp add: xp)
  qed
qed

lemma sound_defer:
  assumes "sound_step D k0 w (snd (m w))" and last: "lasting D"
  shows "sound_step D k0 w (snd (gdefer m (pv_Close P) w))"
proof -
  obtain r w1 where m: "m w = (r, w1)" by (cases "m w")
  have "frames (keeps_all (\<lambda>k v. not_succeeded k0 k (vi_conditions v))) (pv_Close P)"
    by (rule unsuccessful.frames_quiet) (rule Close)
  then have "keeps_all (\<lambda>k v. not_succeeded k0 k (vi_conditions v)) w1 (snd (pv_Close P w1))" by (rule framesD)
  moreover have "keeps_phases w1 (snd (pv_Close P w1))" by (rule framesD [OF phases_quiet [OF Close]])
  ultimately show ?thesis
    using assms(1) lastingD [OF last] by (auto simp: gdefer_def m sound_step_def keeps_all_def)
qed

lemma reconcile_with_provider_sound:
  assumes "FindConditionOfType (vi_conditions v) Succeeded = None"
  shows "sound_step (provider_completed E P ns v w) k0 w (snd (reconcile_with_provider E P ns v w))"
proof -
  let ?D = "provider_completed E P ns v w"
  have "sound_step ?D k0 w (snd (gbind (fetchVM v P) (\<lambda>_.
           gbind (validate v P) (\<lambda>valid.
             if \<not> valid then gret (requeue_after requeueAfterValidationFailureTime)
             else import_vm E P ns v)) w))"
  proof (rule sound_bind [OF unsuccessful.frames_fetchVM], rule sound_bind [OF unsuccessful.frames_validate])
    fix u w1 valid w2
    assume f: "fetchVM v P w = (Inr u, w1)" and va: "validate v P w1 = (Inr valid, w2)"
    show "sound_step ?D k0 w2 (snd ((if \<not> valid then gret (requeue_after requeueAfterValidationFailureTime)
             else import_vm E P ns v) w2))"
    proof (cases valid)
      case False
      then show ?thesis by (simp add: sound_step_def keeps_all_def)
    next
      case True
      have "sound_step ?D k0 w2 (snd (import_vm E P ns v w2))"
        by (rule sound_mono [OF import_vm_sound [OF assms]])
          (use f va True in \<open>auto simp: provider_completed_def\<close>)
      with True show ?thesis by simp
    qed
  qed
  moreover have "sound_step ?D k0 w (snd (gtry (finalize v P) (\<lambda>_. gret (requeue_after 1)) (\<lambda>_. gret no_requeue) w))"
    by (intro sound_frames unsuccessful.frames_combinators unsuccessful.frames_finalize)
  ultimately show ?thesis
    unfolding reconcile_with_provider_def by (simp add: sound_step_def keeps_all_def)
qed

lemma with_provider_sound:
  assumes "FindConditionOfType (vi_conditions v) Succeeded = None"
  shows "sound_step (\<lambda>w'. \<exists>message w1. initProvider v P w = (Inr (message, None), w1) \<and> provider_completed E P ns v w1 w')
    k0 w (snd (gbind (initProvider v P) (\<lambda>(message, err). case err of
       Some e \<Rightarrow> (if vmImportInProgress v then gfail e
            else gbind (failNewImportProcess v message e) (\<lambda>_. gret no_requeue))
     | None \<Rightarrow> gdefer (reconcile_with_provider E P ns v) (pv_Close P)) w))" (is "sound_step ?D _ _ _")
proof (rule sound_bind [OF unsuccessful.frames_initProvider])
  fix x w1
  assume i: "initProvider v P w = (Inr x, w1)"
  obtain message err where x: "x = (message, err)" by fastforce
  have "sound_step ?D k0 w1 (snd ((if vmImportInProgress v then gfail e
            else gbind (failNewImportProcess v message e) (\<lambda>_. gret no_requeue)) w1))" for e
    by (intro sound_frames unsuccessful.frames_combinators unsuccessful.frames_failNewImportProcess)
  moreover have "sound_step ?D k0 w1 (snd (gdefer (reconcile_with_provider E P ns v) (pv_Close P) w1))" if "err = None"
    by (rule sound_mono [OF sound_defer [OF reconcile_with_provider_sound [OF assms] lasting_completed(2)]])
      (use i x that in auto)
  ultimately show "sound_step ?D k0 w1 (snd ((case x of (message, err) \<Rightarrow> case err of
       Some e \<Rightarrow> (if vmImportInProgress v then gfail e
            else gbind (failNewImportProcess v message e) (\<lambda>_. gret no_requeue))
     | None \<Rightarrow> gdefer (reconcile_with_provider E P ns v) (pv_Close P)) w1))"
    by (simp add: x split: option.split)
qed

end

text \<open>Two providers that keep the contract, as the reconciler has them.\<close>

locale providers = O: provider_contract ovirt + V: provider_contract vmware
  for ovirt vmware :: "'p provider"
begin

sublocale wellformed: reconcile_rel "keeps_all (\<lambda>k v. conds_wf (vi_conditions v))" cond_wf ovirt vmware
  by unfold_locales

lemma Reconcile_wellformed:
  "all_imports (\<lambda>k v. conds_wf (vi_conditions v)) w \<Longrightarrow>
   all_imports (\<lambda>k v. conds_wf (vi_conditions v)) (snd (Reconcile E ovirt vmware request w))"
  using framesD [OF wellformed.frames_Reconcile, of w] by (simp add: keeps_all_def)

lemma createProvider_unsuccessful:
  "frames (keeps_all (\<lambda>k v. not_succeeded k0 k (vi_conditions v))) (createProvider ovirt vmware v)"
  unfolding createProvider_def Let_def
  by (intro O.unsuccessful.frames_combinators O.unsuccessful.frames_background O.unsuccessful.frames_gmodify
      O.unsuccessful.R_same) simp_all

lemma reconcile_existing_sound:
  assumes "FindConditionOfType (vi_conditions v) Succeeded = None"
  shows "O.sound_step (existing_completed E ovirt vmware ns v w) k0 w (snd (reconcile_existing E ovirt vmware ns v w))"
proof -
  let ?D = "existing_completed E ovirt vmware ns v w"
  obtain r w1 where c: "createProvider ovirt vmware v w = (r, w1)" by fastforce
  have k: "keeps_all (\<lambda>k v. not_succeeded k0 k (vi_conditions v)) w w1"
    using createProvider_unsuccessful c by (rule framesD2)
  let ?rest = "\<lambda>P. gbind (initProvider v P) (\<lambda>(message, err). case err of
       Some e \<Rightarrow> (if vmImportInProgress v then gfail e
            else gbind (failNewImportProcess v message e) (\<lambda>_. gret no_requeue))
     | None \<Rightarrow> gdefer (reconcile_with_provider E P ns v) (pv_Close P))"
  show ?thesis
  proof (cases r)
    case (Inl e)
    with k c show ?thesis by (simp add: reconcile_existing_def gbind_def O.sound_step_def)
  next
    case (Inr P)
    then have P: "P = ovirt \<or> P = vmware" using wellformed.createProvider_result c by blast
    have run: "snd (reconcile_existing E ovirt vmware ns v w) = snd (?rest P w1)"
      using c Inr by (simp add: reconcile_existing_def gbind_Inr)
    have "O.sound_step ?D k0 w1 (snd (?rest P w1))"
      using P
    proof
      assume "P = ovirt"
      then show ?thesis
        using O.sound_mono [OF O.with_provider_sound [OF assms], where D' = ?D] c Inr
        unfolding existing_completed_def by blast
    next
      assume "P = vmware"
      then show ?thesis
        using V.sound_mono [OF V.with_provider_sound [OF assms], where D' = ?D] c Inr
        unfolding existing_completed_def O.sound_step_def V.sound_step_def by blast
    qed
    then show ?thesis unfolding run using O.sound_trans [OF k] by simp
  qed
qed

lemma Reconcile_sound:
  assumes run: "Reconcile E ovirt vmware k w = (r, w')"
    and before: "w_imports w k = Some v" "FindConditionOfType (vi_conditions v) Succeeded = None"
    and after: "w_imports w' k = Some v'" "succeeded_true (vi_conditions v')"
  shows "reconcile_completed E ovirt vmware k w w'"
proof -
  let ?U = "keeps_all (\<lambda>k' v. not_succeeded k k' (vi_conditions v)) :: 'p world \<Rightarrow> 'p world \<Rightarrow> bool"
  have not_kept: "\<not> ?U w w'"
  proof
    assume "?U w w'"
    moreover have "all_imports (\<lambda>k' v. not_succeeded k k' (vi_conditions v)) w"
      using before by (auto simp: all_imports_def not_succeeded_def succeeded_true_def)
    ultimately have "not_succeeded k k (vi_conditions v')"
      using after(1) unfolding keeps_all_def all_imports_def by blast
    with after(2) show False by (simp add: not_succeeded_def)
  qed
  let ?fin = "\<lambda>v. if \<not> vmImportInProgress v then AddFinalizer v CancelledImportFinalizer else gret v"
  let ?rest = "\<lambda>(stop, v). if stop then gret no_requeue else reconcile_existing E ovirt vmware (fst k) v"
  obtain r0 w0 where g: "get_import k w = (r0, w0)" by fastforce
  have w0: "?U w w0" using O.unsuccessful.frames_gets(1) g by (rule framesD2)
  show ?thesis
  proof (cases r0)
    case (Inl e)
    with run g w0 not_kept show ?thesis by (auto simp: Reconcile_def gtry_unfold split: if_splits)
  next
    case (Inr v0)
    then have "v0 = v" using get_import_result [of k w v0 w0] g before(1) by simp
    with run g Inr have body: "gbind (?fin v) (\<lambda>v. gbind (handle_deletion v) ?rest) w0 = (r, w')"
      by (simp add: Reconcile_def gtry_unfold)
    have U0: "\<not> ?U w0 w'" using not_kept w0 by (auto simp: keeps_all_def)
    have ff: "frames ?U (?fin v)"
      by (intro O.unsuccessful.frames_combinators O.unsuccessful.client_frames)
    from body U0 obtain v1 w1 where v1: "?fin v w0 = (Inr v1, w1)"
      and body1: "gbind (handle_deletion v1) ?rest w1 = (r, w')"
      using framesD2 [OF ff] by (auto simp: gbind_unfold split: prod.splits sum.splits)
    have U1: "\<not> ?U w1 w'" using U0 framesD2 [OF ff v1] by (auto simp: keeps_all_def)
    have fd: "frames ?U (handle_deletion v1)"
      unfolding handle_deletion_def
      by (intro O.unsuccessful.frames_combinators O.unsuccessful.client_frames O.unsuccessful.frames_managers)
    from body1 U1 obtain stop v2 w2 where v2: "handle_deletion v1 w1 = (Inr (stop, v2), w2)"
      and body2: "?rest (stop, v2) w2 = (r, w')"
      using framesD2 [OF fd] by (auto simp: gbind_unfold split: prod.splits sum.splits)
    have U2: "\<not> ?U w2 w'" using U1 framesD2 [OF fd v2] by (auto simp: keeps_all_def)
    have "same_but_finalizers v v1"
      using v1 finalizers_same(1) [of v _ w0 v1 w1] by (simp split: if_splits)
    then have same: "same_but_finalizers v v2"
      using handle_deletion_same [OF v2] by (rule same_but_finalizers_trans)
    from body2 U2 have go: "\<not> stop" and "snd (reconcile_existing E ovirt vmware (fst k) v2 w2) = w'"
      by (auto simp: keeps_all_def split: if_splits)
    with reconcile_existing_sound [of v2 E "fst k" w2 k] U2 before(2) same_but_finalizers_fields [OF same]
    have "existing_completed E ovirt vmware (fst k) v2 w2 w'" by (auto simp: O.sound_step_def)
    moreover have "get_import k w = (Inr v, w0)" using g Inr \<open>v0 = v\<close> by simp
    moreover have "?fin v w0 = (Inr v1, w1)" using v1 by simp
    moreover have "handle_deletion v1 w1 = (Inr (False, v2), w2)" using v2 go by simp
    ultimately show ?thesis unfolding reconcile_completed_def by (intro exI conjI)
  qed
qed

end

end
