(* ===== verification/Templates.thy ===== *)
theory Templates
  imports Cluster Complex_Main
begin

text \<open>
  Templates and operating systems: \<open>pkg/os/os-mapper-provider.go\<close> (the built-in maps and those of the
  user's config map), \<open>pkg/templates\<close> (searching, processing and labelling), and the updates of labels
  and annotations of \<open>pkg/utils\<close>.  What is not the program's own code is in the record \<open>platform\<close>:
  decoding of YAML, JSON and raw objects, encoding of XML, the processing of a template by the OpenShift server, the
  time-zone database, and how \<open>fmt\<close> prints objects of the oVirt SDK.
\<close>

section \<open>The platform\<close>

text \<open>A value of an interface type after \<open>json.Unmarshal\<close>, as far as \<open>toInt64\<close> tells them apart.\<close>

datatype go_value = GoInt int | GoFloat rat | GoOther

record template_rule =
  rl_name :: string
  rl_min :: go_value

text \<open>The libvirt domain that the guest conversion reads.\<close>

record libvirt_disk =
  ll_file :: string
  ll_dev :: string

record libvirt_domain =
  ld_name :: string
  ld_memory :: int
  ld_sockets :: "32 word"
  ld_cores :: "32 word"
  ld_disks :: "libvirt_disk list"

record platform =
  pl_yaml_map :: "string \<Rightarrow> (string \<rightharpoonup> string) \<Rightarrow> go_error + (string \<rightharpoonup> string)"
  pl_rules :: "string \<Rightarrow> template_rule list option"
  pl_cni_type :: "string \<Rightarrow> go_error + string option"
  pl_process :: "string \<Rightarrow> template \<Rightarrow> go_error + string list"
  pl_decode_vm :: "string \<Rightarrow> go_error + kubevm option"
  pl_xml :: "libvirt_domain \<Rightarrow> go_error + string"
  pl_LoadLocation :: "string \<Rightarrow> tz_location option"
  pl_print :: "string \<Rightarrow> string option list \<Rightarrow> string"
  pl_keys :: "string list \<Rightarrow> string list"
  pl_virt_v2v_image :: string
  pl_pull_policy :: string

abbreviation nil_map_write :: go_error where
  "nil_map_write \<equiv> GoErr Panicked ''assignment to entry in nil map''"

section \<open>Operating systems\<close>

type_synonym os_map = "string \<rightharpoonup> string"

definition initGuestOsToCommon :: "(string \<times> string) list" where
  "initGuestOsToCommon =
  [(''Red Hat Enterprise Linux Server'', ''rhel''),
   (''Red Hat Enterprise Linux'', ''rhel''),
   (''CentOS Linux'', ''centos''),
   (''Fedora'', ''fedora''),
   (''Ubuntu'', ''ubuntu''),
   (''openSUSE'', ''opensuse'')]"

definition initOsInfoToCommon :: "(string \<times> string) list" where
  "initOsInfoToCommon =
  [(''rhel_6_9_plus_ppc64'', ''rhel6.9''),
   (''rhel_6_ppc64'', ''rhel6.9''),
   (''rhel_6'', ''rhel6.9''),
   (''rhel_6x64'', ''rhel6.9''),
   (''rhel_7_ppc64'', ''rhel7.7''),
   (''rhel_7_s390x'', ''rhel7.7''),
   (''rhel_7x64'', ''rhel7.7''),
   (''rhel_8x64'', ''rhel8.1''),
   (''sles_11_ppc64'', ''opensuse15.0''),
   (''sles_11'', ''opensuse15.0''),
   (''sles_12_s390x'', ''opensuse15.0''),
   (''ubuntu_12_04'', ''ubuntu18.04''),
   (''ubuntu_12_10'', ''ubuntu18.04''),
   (''ubuntu_13_04'', ''ubuntu18.04''),
   (''ubuntu_13_10'', ''ubuntu18.04''),
   (''ubuntu_14_04_ppc64'', ''ubuntu18.04''),
   (''ubuntu_14_04'', ''ubuntu18.04''),
   (''ubuntu_16_04_s390x'', ''ubuntu18.04''),
   (''windows_10'', ''win10''),
   (''windows_10x64'', ''win10''),
   (''windows_2003'', ''win10''),
   (''windows_2003x64'', ''win10''),
   (''windows_2008R2x64'', ''win2k8''),
   (''windows_2008'', ''win2k8''),
   (''windows_2008x64'', ''win2k8''),
   (''windows_2012R2x64'', ''win2k12r2''),
   (''windows_2012x64'', ''win2k12r2''),
   (''windows_2016x64'', ''win2k16''),
   (''windows_2019x64'', ''win2k19''),
   (''windows_7'', ''win10''),
   (''windows_7x64'', ''win10''),
   (''windows_8'', ''win10''),
   (''windows_8x64'', ''win10''),
   (''windows_xp'', ''win10''),
   (''centos6_64Guest'', ''centos6.10''),
   (''centos64Guest'', ''centos5.11''),
   (''centos6Guest'', ''centos6.10''),
   (''centos7_64Guest'', ''centos7.0''),
   (''centos7Guest'', ''centos7.0''),
   (''centos8_64Guest'', ''centos8''),
   (''centos8Guest'', ''centos8''),
   (''debian4_64Guest'', ''debian4''),
   (''debian4Guest'', ''debian4''),
   (''debian5_64Guest'', ''debian5''),
   (''debian5Guest'', ''debian5''),
   (''debian6_64Guest'', ''debian6''),
   (''debian6Guest'', ''debian6''),
   (''debian7_64Guest'', ''debian7''),
   (''debian7Guest'', ''debian7''),
   (''debian8_64Guest'', ''debian8''),
   (''debian8Guest'', ''debian8''),
   (''debian9_64Guest'', ''debian9''),
   (''debian9Guest'', ''debian9''),
   (''debian10_64Guest'', ''debian10''),
   (''debian10Guest'', ''debian10''),
   (''fedora64Guest'', ''fedora-unknown''),
   (''fedoraGuest'', ''fedora-unknown''),
   (''genericLinuxGuest'', ''linux''),
   (''rhel2Guest'', ''rhel2.1.7''),
   (''rhel3_64Guest'', ''rhel3.9''),
   (''rhel3Guest'', ''rhel3.9''),
   (''rhel4_64Guest'', ''rhel4.9''),
   (''rhel4Guest'', ''rhel4.9''),
   (''rhel5_64Guest'', ''rhel5.11''),
   (''rhel5Guest'', ''rhel5.11''),
   (''rhel6_64Guest'', ''rhel6.9''),
   (''rhel6Guest'', ''rhel6.9''),
   (''rhel7_64Guest'', ''rhel7.7''),
   (''rhel7Guest'', ''rhel7.7''),
   (''rhel8_64Guest'', ''rhel8.1''),
   (''ubuntu64Guest'', ''ubuntu18.04''),
   (''ubuntuGuest'', ''ubuntu18.04''),
   (''win2000AdvServGuest'', ''win2k''),
   (''win2000ProGuest'', ''win2k''),
   (''win2000ServGuest'', ''win2k''),
   (''windows7Guest'', ''win7''),
   (''windows7Server64Guest'', ''win2k8r2''),
   (''windows8_64Guest'', ''win8''),
   (''windows8Guest'', ''win8''),
   (''windows8Server64Guest'', ''win2k12r2''),
   (''windows9_64Guest'', ''win10''),
   (''windows9Guest'', ''win10''),
   (''windows9Server64Guest'', ''win2k19'')]"

text \<open>
  \<open>yaml.Unmarshal\<close> into an existing map keeps its other entries; a key that the config map does not
  have is the empty document.
\<close>

definition updateOsMapsByUserMaps :: "platform \<Rightarrow> string \<Rightarrow> string \<Rightarrow> os_map \<Rightarrow> os_map \<Rightarrow> ('p, os_map \<times> os_map) op" where
  "updateOsMapsByUserMaps pl name namespace guestOs osInfo =
     (if name = [] \<and> namespace = [] then gret (guestOs, osInfo)
      else let whence = ''['' @ namespace @ ''/'' @ name @ '']''
           in gtry (get_config_map (namespace, name))
             (\<lambda>e. gfail (errorf (''Failed to read user OS config-map '' @ whence @ '' due to: ['' @ emsg e @ '']'')))
             (\<lambda>cm. case pl_yaml_map pl (config_value (cm_data cm) ''guestos2common'') guestOs of
                Inl e \<Rightarrow> gfail (errorf (''Failed to parse user OS config-map '' @ whence @ '' element guestos2common due to: ['' @ emsg e @ '']''))
              | Inr g \<Rightarrow> (case pl_yaml_map pl (config_value (cm_data cm) ''osinfo2common'') osInfo of
                  Inl e \<Rightarrow> gfail (errorf (''Failed to parse user OS config-map '' @ whence @ '' element osinfo2common due to: ['' @ emsg e @ '']''))
                | Inr i \<Rightarrow> gret (g, i))))"

definition GetOSMaps :: "platform \<Rightarrow> string \<Rightarrow> string \<Rightarrow> ('p, os_map \<times> os_map) op" where
  "GetOSMaps pl name namespace =
     updateOsMapsByUserMaps pl name namespace (map_of initGuestOsToCommon) (map_of initOsInfoToCommon)"

section \<open>Searching for templates\<close>

definition TemplateOsLabel :: "string \<Rightarrow> string" where
  "TemplateOsLabel os = ''os.template.kubevirt.io/'' @ os"

definition TemplateWorkloadLabel :: "string \<Rightarrow> string" where
  "TemplateWorkloadLabel w = ''workload.template.kubevirt.io/'' @ w"

definition TemplateFlavorLabel :: "string \<Rightarrow> string" where
  "TemplateFlavorLabel f = ''flavor.template.kubevirt.io/'' @ f"

definition TemplateNameOsAnnotation :: "string \<Rightarrow> string" where
  "TemplateNameOsAnnotation os = ''name.os.template.kubevirt.io/'' @ os"

definition OSLabelBuilder :: "string option \<Rightarrow> string option \<Rightarrow> string option \<Rightarrow> (string, string) gomap" where
  "OSLabelBuilder os workload flavor =
     (let put = (\<lambda>key v m. case v of None \<Rightarrow> m | Some x \<Rightarrow> gm_set (key x) ''true'' m)
      in put TemplateFlavorLabel flavor (put TemplateWorkloadLabel workload (put TemplateOsLabel os [])))"

text \<open>The selector of bare keys asks for their presence, whatever their order.\<close>

definition FindTemplates :: "string \<Rightarrow> string option \<Rightarrow> string option \<Rightarrow> string option \<Rightarrow> ('p, template list) op" where
  "FindTemplates namespace os workload flavor =
     list_templates namespace (map fst (OSLabelBuilder os workload flavor))"

text \<open>\<open>sort.Slice\<close> by creation time, the newest first, and the first of the sorted slice.\<close>

definition newest_first :: "template list \<Rightarrow> template list" where
  "newest_first ts = sort_key (\<lambda>t. - tm_creation t) ts"

definition defaultFlavor :: string where "defaultFlavor = ''medium''"
definition TemplateNamespace :: string where "TemplateNamespace = ''openshift''"

section \<open>Processing of a template\<close>

definition ProcessParameters :: "string option \<Rightarrow> template \<Rightarrow> template" where
  "ProcessParameters vmName t = t\<lparr>tm_parameters := map (\<lambda>(n, v).
     if n = ''NAME'' then (n, case vmName of None \<Rightarrow> v | Some x \<Rightarrow> x) else (n, ''other'')) (tm_parameters t)\<rparr>"

text \<open>The request to the server may fail as any other; what it answers is the platform's.\<close>

definition Process :: "platform \<Rightarrow> string \<Rightarrow> string option \<Rightarrow> template \<Rightarrow> ('p, string list) op" where
  "Process pl namespace vmName t = api (\<lambda>w.
     case pl_process pl namespace (ProcessParameters vmName t) of Inl e \<Rightarrow> Inl e | Inr objs \<Rightarrow> Inr (objs, w))"

fun first_vm :: "platform \<Rightarrow> string list \<Rightarrow> go_error + kubevm" where
  "first_vm pl [] = Inr empty_vm"
| "first_vm pl (raw # raws) =
     (case pl_decode_vm pl raw of
        Inl e \<Rightarrow> Inl e
      | Inr (Some vm) \<Rightarrow> Inr vm
      | Inr None \<Rightarrow> first_vm pl raws)"

definition addLabels :: "kubevm \<Rightarrow> template \<Rightarrow> go_error + kubevm" where
  "addLabels vm t =
     (let labels = (map_of_opt (om_labels (vm_meta vm)))
            (''vm.kubevirt.io/template'' \<mapsto> tm_name t, ''vm.kubevirt.io/template.namespace'' \<mapsto> tm_namespace t);
          vm1 = vm\<lparr>vm_meta := (vm_meta vm)\<lparr>om_labels := Some labels\<rparr>\<rparr>
      in rbind (deref (vm_template_spec vm1)) (\<lambda>tp.
         case tp_labels tp of
           None \<Rightarrow> Inl nil_map_write
         | Some ls \<Rightarrow> Inr (vm1\<lparr>vm_template_spec :=
             Some (tp\<lparr>tp_labels := Some (ls(''vm.kubevirt.io/name'' \<mapsto> om_name (vm_meta vm1)))\<rparr>)\<rparr>)))"

definition strip_vm :: "kubevm \<Rightarrow> go_error + kubevm" where
  "strip_vm vm = rbind (deref (vm_template_spec vm)) (\<lambda>tp.
     Inr (vm\<lparr>vm_template_spec := Some (tp\<lparr>tp_volumes := [], tp_networks := []\<rparr>), vm_dv_templates := []\<rparr>))"

definition HandlerProcessTemplate :: "platform \<Rightarrow> template \<Rightarrow> string option \<Rightarrow> string \<Rightarrow> ('p, kubevm) op" where
  "HandlerProcessTemplate pl t vmName namespace =
     gbind (Process pl namespace vmName t) (\<lambda>objs.
       glift (rbind (first_vm pl objs) (\<lambda>vm. rbind (strip_vm vm) (\<lambda>vm1. addLabels vm1 t))))"

text \<open>\<open>AppendMap\<close> writes into the maps it is given: a nil map makes it panic unless there is nothing to write.\<close>

definition append_opt :: "(string \<rightharpoonup> string) option \<Rightarrow> (string, string) gomap \<Rightarrow> go_error + (string \<rightharpoonup> string) option" where
  "append_opt m new =
     (case m of None \<Rightarrow> (if new = [] then Inr None else Inl nil_map_write)
      | Some f \<Rightarrow> Inr (Some (AppendMap f (map_of new))))"

definition UpdateLabels :: "kubevm \<Rightarrow> (string, string) gomap \<Rightarrow> go_error + kubevm" where
  "UpdateLabels vm labels =
     rbind (append_opt (om_labels (vm_meta vm)) labels) (\<lambda>ls.
     rbind (deref (vm_template_spec vm)) (\<lambda>tp.
     rbind (append_opt (tp_labels tp) labels) (\<lambda>tls.
       Inr (vm\<lparr>vm_meta := (vm_meta vm)\<lparr>om_labels := ls\<rparr>, vm_template_spec := Some (tp\<lparr>tp_labels := tls\<rparr>)\<rparr>))))"

definition UpdateAnnotations :: "kubevm \<Rightarrow> (string, string) gomap \<Rightarrow> kubevm" where
  "UpdateAnnotations vm annotations =
     vm\<lparr>vm_meta := (vm_meta vm)\<lparr>om_annotations :=
        Some (AppendMap (map_of_opt (om_annotations (vm_meta vm))) (map_of annotations))\<rparr>\<rparr>"

section \<open>Lemmas\<close>

text \<open>The operations on templates change nothing but the number of calls.\<close>

definition silent :: "'p world \<Rightarrow> 'p world \<Rightarrow> bool" where
  "silent w w' \<longleftrightarrow> (\<exists>n. w' = w\<lparr>w_calls := n\<rparr>)"

interpretation silent: frame_rel silent
proof unfold_locales
  show "silent w w" for w :: "'p world" by (auto simp: silent_def intro: exI [of _ "w_calls w"])
qed (auto simp: silent_def)

lemma silent_api:
  assumes "\<And>w x w'. f w = Inr (x, w') \<Longrightarrow> w' = w"
  shows "frames silent (api f)"
proof (rule framesI)
  fix w
  obtain r w' where "api f w = (r, w')" by (cases "api f w")
  then show "silent w (snd (api f w))"
    by (auto simp: silent_def elim!: api_cases dest!: assms)
qed

lemma silent_get: "frames silent (get_from kind store k)"
  unfolding get_from_def by (rule silent_api) (auto split: option.splits)

lemma silent_gets [frame_intros]:
  "frames silent (get_config_map k)" "frames silent (get_nad k)" "frames silent (get_storage_class k)"
  "frames silent (get_import k)" "frames silent (get_secret k)"
  unfolding get_config_map_def get_nad_def get_storage_class_def get_import_def get_secret_def by (rule silent_get)+

lemma silent_GetOSMaps [frame_intros]: "frames silent (GetOSMaps pl n ns)"
  unfolding GetOSMaps_def updateOsMapsByUserMaps_def Let_def
  by (intro silent.frames_combinators frame_intros)

lemma silent_FindTemplates [frame_intros]: "frames silent (FindTemplates ns os wl fl)"
  unfolding FindTemplates_def list_templates_def by (rule silent_api) auto

lemma silent_GetKubeVirtConfig [frame_intros]: "frames silent GetKubeVirtConfig"
  unfolding GetKubeVirtConfig_def GetBareConfig_def by (intro silent.frames_combinators silent_api) auto

lemma silent_ProcessTemplate [frame_intros]: "frames silent (HandlerProcessTemplate pl t n ns)"
  unfolding HandlerProcessTemplate_def Process_def
  by (intro silent.frames_combinators silent_api) (auto split: sum.splits)

end
