(* ===== verification/OvirtModel.thy ===== *)
theory OvirtModel
  imports Templates
begin

text \<open>
  The objects of the oVirt SDK that the program reads.  A getter of the SDK returns a value and
  whether it is present, so a field is an option; a field that is an object of which the code reads
  one field is an option of an option.  Calling a getter on an absent object panics, as the SDK
  reads through its receiver.  Then the functions of \<open>pkg/providers/ovirt/utils\<close>, the
  finders of operating systems and templates, and the table of firmware types that validation and
  mapping share.
\<close>

section \<open>Objects of the SDK\<close>

record ov_property =
  cp_name :: "string option"
  cp_value :: "string option"

record ov_profile =
  vp_id :: "string option"
  vp_name :: "string option"
  vp_network :: "string option option"   \<comment> \<open>\<open>Network().Name()\<close>\<close>
  vp_pass_through :: "string option option"   \<comment> \<open>\<open>PassThrough().Mode()\<close>\<close>
  vp_port_mirroring :: "bool option"
  vp_custom_properties :: "ov_property list option"
  vp_network_filter :: "string option option"   \<comment> \<open>\<open>NetworkFilter().Id()\<close>\<close>
  vp_qos :: "string option option"   \<comment> \<open>\<open>Qos().Id()\<close>\<close>

record ov_nic =
  nc_id :: "string option"
  nc_name :: "string option"
  nc_mac :: "string option option"   \<comment> \<open>\<open>Mac().Address()\<close>\<close>
  nc_interface :: "string option"
  nc_on_boot :: "bool option"
  nc_plugged :: "bool option"
  nc_profile :: "ov_profile option"

record ov_domain =
  sd_id :: "string option"
  sd_name :: "string option"
  sd_type :: "string option"

record ov_disk =
  od_id :: "string option"
  od_alias :: "string option"
  od_interface :: "string option"
  od_logical_name :: "string option"
  od_uses_scsi_reservation :: "bool option"
  od_backup :: "string option"
  od_lun_storage :: "string option option"   \<comment> \<open>\<open>LunStorage().Id()\<close>\<close>
  od_propagate_errors :: "bool option"
  od_wipe_after_delete :: "bool option"
  od_status :: "string option"
  od_storage_type :: "string option"
  od_sgio :: "string option"
  od_storage_domain :: "ov_domain option"
  od_provisioned_size :: "int option"

record ov_attachment =
  da_id :: "string option"
  da_interface :: "string option"
  da_logical_name :: "string option"
  da_pass_discard :: "bool option"
  da_uses_scsi_reservation :: "bool option"
  da_bootable :: "bool option"
  da_read_only :: "bool option"
  da_disk :: "ov_disk option"

record ov_bios =
  bi_boot_menu :: "bool option option"   \<comment> \<open>\<open>BootMenu().Enabled()\<close>\<close>
  bi_type :: "string option"

record ov_pin =
  pn_cpu_set :: "string option"
  pn_vcpu :: "int option"

record ov_topology =
  to_cores :: "int option"
  to_sockets :: "int option"
  to_threads :: "int option"

record ov_cpu =
  oc_architecture :: "string option"
  oc_topology :: "ov_topology option"
  oc_tune :: "ov_pin list option option"   \<comment> \<open>\<open>CpuTune().VcpuPins()\<close>\<close>

record ov_memory_policy =
  mo_ballooning :: "bool option"
  mo_over_commit :: "int option option"   \<comment> \<open>\<open>OverCommit().Percent()\<close>\<close>
  mo_guaranteed :: "int option"
  mo_max :: "int option"

record ov_time_zone =
  oz_name :: "string option"
  oz_utc_offset :: "string option"

record ov_high_availability =
  ha_enabled :: "bool option"
  ha_priority :: "int option"

record ov_cdrom =
  cd_id :: "string option"
  cd_file :: "ov_domain option option"   \<comment> \<open>\<open>File().StorageDomain()\<close>\<close>

record ov_guest_os =
  go_distribution :: "string option"
  go_version :: "string option option"   \<comment> \<open>\<open>Version().FullVersion()\<close>\<close>

record ov_serial =
  sn_policy :: "string option"
  sn_value :: "string option"

record ov_vm =
  ov_id :: "string option"
  ov_name :: "string option"
  ov_type :: "string option"
  ov_status :: "string option"
  ov_fqdn :: "string option"
  ov_bios :: "ov_bios option"
  ov_cluster :: "string option option"   \<comment> \<open>\<open>Cluster().BiosType()\<close>\<close>
  ov_time_zone :: "ov_time_zone option"
  ov_cpu :: "ov_cpu option"
  ov_cpu_shares :: "int option"
  ov_custom_cpu_model :: "string option"
  ov_custom_emulated_machine :: "string option"
  ov_custom_properties :: "ov_property list option"
  ov_display :: "string option option"   \<comment> \<open>\<open>Display().Type()\<close>\<close>
  ov_has_illegal_images :: "bool option"
  ov_high_availability :: "ov_high_availability option"
  ov_io :: "int option option"   \<comment> \<open>\<open>Io().Threads()\<close>\<close>
  ov_memory :: "int option"
  ov_memory_policy :: "ov_memory_policy option"
  ov_migration :: "unit option"
  ov_migration_downtime :: "int option"
  ov_numa_tune_mode :: "string option"
  ov_origin :: "string option"
  ov_placement_policy :: "string option option"   \<comment> \<open>\<open>PlacementPolicy().Affinity()\<close>\<close>
  ov_rng_device :: "string option option"   \<comment> \<open>\<open>RngDevice().Source()\<close>\<close>
  ov_serial_number :: "ov_serial option"
  ov_soundcard_enabled :: "bool option"
  ov_start_paused :: "bool option"
  ov_tunnel_migration :: "bool option"
  ov_storage_error_resume :: "string option"
  ov_usb :: "bool option option"   \<comment> \<open>\<open>Usb().Enabled()\<close>\<close>
  ov_console :: "bool option option"   \<comment> \<open>\<open>Console().Enabled()\<close>\<close>
  ov_graphics_consoles :: "string option list option"   \<comment> \<open>their protocols\<close>
  ov_host_devices :: "string option list option"   \<comment> \<open>their names\<close>
  ov_reported_devices :: "(string option \<times> string option) list option"   \<comment> \<open>ids and names\<close>
  ov_quota :: "string option option"   \<comment> \<open>\<open>Quota().Id()\<close>\<close>
  ov_watchdogs :: "string option list option"   \<comment> \<open>their models\<close>
  ov_cdroms :: "ov_cdrom list option"
  ov_floppies :: "string option list option"   \<comment> \<open>their ids\<close>
  ov_nics :: "ov_nic list option"
  ov_disk_attachments :: "ov_attachment list option"
  ov_instance_type :: "string option option"   \<comment> \<open>\<open>InstanceType().Name()\<close>\<close>
  ov_tags :: "string option list option"   \<comment> \<open>their names\<close>
  ov_comment :: "string option"
  ov_sso :: "string list option option"   \<comment> \<open>\<open>Sso().Methods()\<close>\<close>
  ov_guest_os :: "ov_guest_os option"
  ov_os :: "string option option"   \<comment> \<open>\<open>Os().Type()\<close>\<close>

text \<open>The value of a getter whose second result is ignored: the zero value when it is absent.\<close>

definition str :: "string option \<Rightarrow> string" where
  "str x = (case x of None \<Rightarrow> [] | Some s \<Rightarrow> s)"

definition num :: "int option \<Rightarrow> int" where
  "num x = (case x of None \<Rightarrow> 0 | Some n \<Rightarrow> n)"

definition flag :: "bool option \<Rightarrow> bool" where
  "flag x \<longleftrightarrow> x = Some True"

text \<open>A getter that is called on an object that may be absent.\<close>

definition at_obj :: "'a option option \<Rightarrow> 'a option" where
  "at_obj x = (case x of None \<Rightarrow> None | Some y \<Rightarrow> y)"

lemma getter_simps [simp]:
  "str None = []" "str (Some s) = s" "num None = 0" "num (Some n) = n"
  "at_obj None = None" "at_obj (Some y) = y" "flag None = False" "flag (Some b) = b"
  by (simp_all add: str_def num_def at_obj_def flag_def)

lemma at_obj_Some [simp]: "at_obj x = Some y \<longleftrightarrow> x = Some (Some y)"
  by (cases x) auto

section \<open>Utilities of the oVirt provider\<close>

definition GetNetworkMappingName :: "string \<Rightarrow> string \<Rightarrow> string" where
  "GetNetworkMappingName networkName vnicProfileName = networkName @ ''/'' @ vnicProfileName"

text \<open>\<open>MustCpuSet\<close> and \<open>MustVcpu\<close> panic when the field is absent.\<close>

abbreviation must_panic :: go_error where
  "must_panic \<equiv> GoErr Panicked ''the field has not been set''"

definition must :: "'a option \<Rightarrow> go_error + 'a" where
  "must x = (case x of None \<Rightarrow> Inl must_panic | Some y \<Rightarrow> Inr y)"

fun pin_mapping :: "ov_pin list \<Rightarrow> (int, int) gomap \<Rightarrow> go_error + (int, int) gomap" where
  "pin_mapping [] m = Inr m"
| "pin_mapping (pin # pins) m =
     rbind (must (pn_cpu_set pin)) (\<lambda>cpus.
       case Atoi cpus of
         None \<Rightarrow> pin_mapping pins m
       | Some cpuID \<Rightarrow> rbind (must (pn_vcpu pin)) (\<lambda>vcpu. pin_mapping pins (gm_set cpuID vcpu m)))"

definition IsCPUPinningExact :: "ov_pin list option \<Rightarrow> go_error + bool" where
  "IsCPUPinningExact pins =
     (case pins of
        None \<Rightarrow> Inr False
      | Some ps \<Rightarrow> rbind (pin_mapping ps []) (\<lambda>m. Inr (length m = length ps)))"

definition IsSRIOV :: "ov_profile \<Rightarrow> bool" where
  "IsSRIOV p \<longleftrightarrow> at_obj (vp_pass_through p) = Some ''enabled''"

definition BiosTypeMapping :: "(string \<times> bootloader) list" where
  "BiosTypeMapping =
     [(''q35_sea_bios'', BIOS), (''q35_secure_boot'', BIOS), (''q35_ovmf'', EFI), (''i440fx_sea_bios'', BIOS)]"

section \<open>Operating system and template of a virtual machine\<close>

definition ovirt_default_linux :: string where "ovirt_default_linux = ''rhel8.2''"
definition ovirt_default_windows :: string where "ovirt_default_windows = ''win10''"

definition os_by_type :: "os_map \<Rightarrow> string \<Rightarrow> string option" where
  "os_by_type osInfo osType =
     (case osInfo osType of
        Some os \<Rightarrow> Some os
      | None \<Rightarrow> let t = ToLower osType
          in if Contains t ''linux'' \<or> Contains t ''rhel'' then Some ovirt_default_linux
             else if Contains t ''win'' then Some ovirt_default_windows else None)"

text \<open>A guest system without a version object makes this panic.\<close>

definition os_of_vm :: "os_map \<Rightarrow> os_map \<Rightarrow> ov_vm \<Rightarrow> go_error + string" where
  "os_of_vm guestOs osInfo vm =
     (let by_type = (case ov_os vm of
            None \<Rightarrow> Inl (errorf ''Failed to find operating system for the VM'')
          | Some t \<Rightarrow> (case os_by_type osInfo (str t) of
              Some os \<Rightarrow> Inr os
            | None \<Rightarrow> Inl (errorf ''Failed to find operating system for the VM'')))
      in case ov_guest_os vm of
           None \<Rightarrow> by_type
         | Some gos \<Rightarrow> rbind (deref (go_version gos)) (\<lambda>version.
             case guestOs (str (go_distribution gos)) of
               Some os \<Rightarrow> Inr (os @ str version)
             | None \<Rightarrow> by_type))"

text \<open>The name and the namespace of the user's config map with the maps.\<close>

record os_finder =
  of_name :: string
  of_namespace :: string

definition OvirtFindOperatingSystem :: "platform \<Rightarrow> os_finder \<Rightarrow> ov_vm \<Rightarrow> ('p, string) op" where
  "OvirtFindOperatingSystem pl f vm =
     gbind (GetOSMaps pl (of_name f) (of_namespace f)) (\<lambda>(guestOs, osInfo). glift (os_of_vm guestOs osInfo vm))"

definition getWorkload :: "ov_vm \<Rightarrow> string" where
  "getWorkload vm = filter (\<lambda>c. c \<noteq> CHR ''_'') (str (ov_type vm))"

definition getTemplate :: "string \<Rightarrow> string \<Rightarrow> ('p, template) op" where
  "getTemplate os workload =
     gbind (FindTemplates TemplateNamespace (Some os) (Some workload) (Some defaultFlavor)) (\<lambda>ts.
       case newest_first ts of
         [] \<Rightarrow> gfail (errorf (''Template not found for '' @ os @ '' OS and '' @ workload @ '' workload''))
       | t # _ \<Rightarrow> gret t)"

definition OvirtFindTemplate :: "platform \<Rightarrow> os_finder \<Rightarrow> ov_vm \<Rightarrow> ('p, template) op" where
  "OvirtFindTemplate pl f vm =
     gbind (OvirtFindOperatingSystem pl f vm) (\<lambda>os. getTemplate os (getWorkload vm))"

definition OvirtGetMetadata :: "platform \<Rightarrow> os_finder \<Rightarrow> template \<Rightarrow> ov_vm \<Rightarrow>
    ('p, (string, string) gomap \<times> (string, string) gomap) op" where
  "OvirtGetMetadata pl f t vm =
     gbind (OvirtFindOperatingSystem pl f vm) (\<lambda>os.
       let key = TemplateNameOsAnnotation os
       in gret (OSLabelBuilder (Some os) (Some (getWorkload vm)) (Some defaultFlavor),
                [(key, config_value (tm_annotations t) key)]))"

section \<open>Lemmas\<close>

lemma silent_OvirtFindOperatingSystem [frame_intros]: "frames silent (OvirtFindOperatingSystem pl f vm)"
  unfolding OvirtFindOperatingSystem_def by (intro silent.frames_combinators frame_intros)

lemma silent_OvirtFindTemplate [frame_intros]: "frames silent (OvirtFindTemplate pl f vm)"
  unfolding OvirtFindTemplate_def getTemplate_def by (intro silent.frames_combinators frame_intros)

lemma silent_OvirtGetMetadata [frame_intros]: "frames silent (OvirtGetMetadata pl f t vm)"
  unfolding OvirtGetMetadata_def Let_def by (intro silent.frames_combinators frame_intros)

end
