(* ===== verification/OvirtChecks.thy ===== *)
theory OvirtChecks
  imports OvirtModel
begin

text \<open>
  The checks of the oVirt validation (\<open>validators/definitions.go\<close>) and the action that each failure
  calls for (\<open>checkToAction\<close> of \<open>vm-import-validation.go\<close>): a check that the map does not have is
  logged, as the zero value of the action type is.
\<close>

type_synonym CheckID = string

definition NicInterfaceCheckID :: CheckID where "NicInterfaceCheckID = ''nic.interface''"
definition NicOnBootID :: CheckID where "NicOnBootID = ''nic.on_boot''"
definition NicPluggedID :: CheckID where "NicPluggedID = ''nic.plugged''"
definition NicVNicPortMirroringID :: CheckID where "NicVNicPortMirroringID = ''nic.vnic_profile.port_mirroring''"
definition NicVNicCustomPropertiesID :: CheckID where "NicVNicCustomPropertiesID = ''nic.vnic_profile.custom_properties''"
definition NicVNicNetworkFilterID :: CheckID where "NicVNicNetworkFilterID = ''nic.vnic_profile.network_filter''"
definition NicVNicQosID :: CheckID where "NicVNicQosID = ''nic.vnic_profile.qos''"
definition DiskAttachmentsExistID :: CheckID where "DiskAttachmentsExistID = ''disk_attachments.exist''"
definition DiskAttachmentInterfaceID :: CheckID where "DiskAttachmentInterfaceID = ''disk_attachment.interface''"
definition DiskAttachmentLogicalNameID :: CheckID where "DiskAttachmentLogicalNameID = ''disk_attachment.logical_name''"
definition DiskAttachmentPassDiscardID :: CheckID where "DiskAttachmentPassDiscardID = ''disk_attachment.pass_discard''"
definition DiskAttachmentUsesScsiReservationID :: CheckID where "DiskAttachmentUsesScsiReservationID = ''disk_attachment.uses_scsi_reservation''"
definition DiskInterfaceID :: CheckID where "DiskInterfaceID = ''disk_attachment.disk.interface''"
definition DiskLogicalNameID :: CheckID where "DiskLogicalNameID = ''disk_attachment.disk.logical_name''"
definition DiskUsesScsiReservationID :: CheckID where "DiskUsesScsiReservationID = ''disk_attachment.disk.uses_scsi_reservation''"
definition DiskBackupID :: CheckID where "DiskBackupID = ''disk_attachment.disk.backup''"
definition DiskLunStorageID :: CheckID where "DiskLunStorageID = ''disk_attachment.disk.lun_storage''"
definition DiskPropagateErrorsID :: CheckID where "DiskPropagateErrorsID = ''disk_attachment.disk.propagate_errors''"
definition DiskWipeAfterDeleteID :: CheckID where "DiskWipeAfterDeleteID = ''disk_attachment.disk.wipe_after_delete''"
definition DiskStatusID :: CheckID where "DiskStatusID = ''disk_attachment.disk.status''"
definition DiskStoragaTypeID :: CheckID where "DiskStoragaTypeID = ''disk_attachment.disk.storage_type''"
definition DiskSgioID :: CheckID where "DiskSgioID = ''disk_attachment.disk.sgio''"
definition VMStatusID :: CheckID where "VMStatusID = ''vm.status''"
definition VMBiosBootMenuID :: CheckID where "VMBiosBootMenuID = ''vm.bios.boot_menu.enabled''"
definition VMBiosTypeID :: CheckID where "VMBiosTypeID = ''vm.bios.type''"
definition VMBiosTypeQ35SecureBootID :: CheckID where "VMBiosTypeQ35SecureBootID = ''vm.bios.type.q35_secure_boot''"
definition VMTimezoneID :: CheckID where "VMTimezoneID = ''vm.timezone''"
definition VMCpuArchitectureID :: CheckID where "VMCpuArchitectureID = ''vm.cpu.architecture''"
definition VMCpuTuneID :: CheckID where "VMCpuTuneID = ''vm.cpu.cpu_tune''"
definition VMCpuSharesID :: CheckID where "VMCpuSharesID = ''vm.cpu_shares''"
definition VMCustomPropertiesID :: CheckID where "VMCustomPropertiesID = ''vm.custom_properties''"
definition VMDisplayTypeID :: CheckID where "VMDisplayTypeID = ''vm.display.type''"
definition VMHasIllegalImagesID :: CheckID where "VMHasIllegalImagesID = ''vm.has_illegal_images''"
definition VMHighAvailabilityPriorityID :: CheckID where "VMHighAvailabilityPriorityID = ''vm.high_availability.priority''"
definition VMIoThreadsID :: CheckID where "VMIoThreadsID = ''vm.io.threads''"
definition VMMemoryPolicyBallooningID :: CheckID where "VMMemoryPolicyBallooningID = ''vm.memory_policy.ballooning''"
definition VMMemoryPolicyOvercommitPercentID :: CheckID where "VMMemoryPolicyOvercommitPercentID = ''vm.memory_policy.over_commit.percent''"
definition VMMemoryPolicyGuaranteedID :: CheckID where "VMMemoryPolicyGuaranteedID = ''vm.memory_policy.guaranteed''"
definition VMCustomEmulatedMachine :: CheckID where "VMCustomEmulatedMachine = ''vm.machine.type''"
definition VMMemoryTemplateLimitID :: CheckID where "VMMemoryTemplateLimitID = ''vm.memory template.requests''"
definition VMMigrationID :: CheckID where "VMMigrationID = ''vm.migration''"
definition VMMigrationDowntimeID :: CheckID where "VMMigrationDowntimeID = ''vm.migration_downtime''"
definition VMNumaTuneModeID :: CheckID where "VMNumaTuneModeID = ''vm.numa_tune_mode''"
definition VMOriginID :: CheckID where "VMOriginID = ''vm.origin''"
definition VMPlacementPolicyAffinityID :: CheckID where "VMPlacementPolicyAffinityID = ''vm.placement_policy.affinity''"
definition VMRngDeviceSourceID :: CheckID where "VMRngDeviceSourceID = ''vm.rng_device.source''"
definition VMSoundcardEnabledID :: CheckID where "VMSoundcardEnabledID = ''vm.soundcard_enabled''"
definition VMStartPausedID :: CheckID where "VMStartPausedID = ''vm.start_paused''"
definition VMStorageErrorResumeBehaviourID :: CheckID where "VMStorageErrorResumeBehaviourID = ''vm.storage_error_resume_behaviour''"
definition VMTunnelMigrationID :: CheckID where "VMTunnelMigrationID = ''vm.tunnel_migration''"
definition VMUsbID :: CheckID where "VMUsbID = ''vm.usb''"
definition VMGraphicConsolesID :: CheckID where "VMGraphicConsolesID = ''vm.graphic_consoles.protocol''"
definition VMHostDevicesID :: CheckID where "VMHostDevicesID = ''vm.host_devices''"
definition VMReportedDevicesID :: CheckID where "VMReportedDevicesID = ''vm.reported_devices''"
definition VMQuotaID :: CheckID where "VMQuotaID = ''vm.quota''"
definition VMWatchdogsID :: CheckID where "VMWatchdogsID = ''vm.watchdogs''"
definition VMCdromsID :: CheckID where "VMCdromsID = ''vm.cdroms.file.storage_domain.type''"
definition VMFloppiesID :: CheckID where "VMFloppiesID = ''vm.floppies''"
definition NetworkMappingID :: CheckID where "NetworkMappingID = ''network.mapping''"
definition NetworkTypeID :: CheckID where "NetworkTypeID = ''network.type''"
definition NetworkTargetID :: CheckID where "NetworkTargetID = ''network.target''"
definition NetworkConfig :: CheckID where "NetworkConfig = ''network.config''"
definition NetworkMultiplePodTargetsID :: CheckID where "NetworkMultiplePodTargetsID = ''network.pod.multiple''"
definition StorageTargetID :: CheckID where "StorageTargetID = ''storage.target''"
definition DiskTargetID :: CheckID where "DiskTargetID = ''disk.target''"
definition StorageTargetDefaultClass :: CheckID where "StorageTargetDefaultClass = ''storage.target.default''"

lemmas check_ids =
  NicInterfaceCheckID_def NicOnBootID_def NicPluggedID_def
  NicVNicPortMirroringID_def NicVNicCustomPropertiesID_def NicVNicNetworkFilterID_def
  NicVNicQosID_def DiskAttachmentsExistID_def DiskAttachmentInterfaceID_def
  DiskAttachmentLogicalNameID_def DiskAttachmentPassDiscardID_def DiskAttachmentUsesScsiReservationID_def
  DiskInterfaceID_def DiskLogicalNameID_def DiskUsesScsiReservationID_def
  DiskBackupID_def DiskLunStorageID_def DiskPropagateErrorsID_def
  DiskWipeAfterDeleteID_def DiskStatusID_def DiskStoragaTypeID_def
  DiskSgioID_def VMStatusID_def VMBiosBootMenuID_def
  VMBiosTypeID_def VMBiosTypeQ35SecureBootID_def VMTimezoneID_def
  VMCpuArchitectureID_def VMCpuTuneID_def VMCpuSharesID_def
  VMCustomPropertiesID_def VMDisplayTypeID_def VMHasIllegalImagesID_def
  VMHighAvailabilityPriorityID_def VMIoThreadsID_def VMMemoryPolicyBallooningID_def
  VMMemoryPolicyOvercommitPercentID_def VMMemoryPolicyGuaranteedID_def VMCustomEmulatedMachine_def
  VMMemoryTemplateLimitID_def VMMigrationID_def VMMigrationDowntimeID_def
  VMNumaTuneModeID_def VMOriginID_def VMPlacementPolicyAffinityID_def
  VMRngDeviceSourceID_def VMSoundcardEnabledID_def VMStartPausedID_def
  VMStorageErrorResumeBehaviourID_def VMTunnelMigrationID_def VMUsbID_def
  VMGraphicConsolesID_def VMHostDevicesID_def VMReportedDevicesID_def
  VMQuotaID_def VMWatchdogsID_def VMCdromsID_def
  VMFloppiesID_def NetworkMappingID_def NetworkTypeID_def
  NetworkTargetID_def NetworkConfig_def NetworkMultiplePodTargetsID_def
  StorageTargetID_def DiskTargetID_def StorageTargetDefaultClass_def

record ValidationFailure =
  vf_id :: CheckID
  vf_message :: string

abbreviation failure :: "CheckID \<Rightarrow> string \<Rightarrow> ValidationFailure" where
  "failure c m \<equiv> \<lparr>vf_id = c, vf_message = m\<rparr>"

datatype action = Log | Warn | Block

definition checkToAction :: "(CheckID \<times> action) list" where
  "checkToAction =
  [(NicInterfaceCheckID, Block),
   (NicOnBootID, Log),
   (NicPluggedID, Warn),
   (NicVNicPortMirroringID, Warn),
   (NicVNicCustomPropertiesID, Warn),
   (NicVNicNetworkFilterID, Warn),
   (NicVNicQosID, Log),
   (DiskAttachmentsExistID, Block),
   (DiskAttachmentInterfaceID, Block),
   (DiskAttachmentLogicalNameID, Log),
   (DiskAttachmentPassDiscardID, Log),
   (DiskAttachmentUsesScsiReservationID, Block),
   (DiskInterfaceID, Block),
   (DiskLogicalNameID, Log),
   (DiskUsesScsiReservationID, Block),
   (DiskBackupID, Warn),
   (DiskLunStorageID, Block),
   (DiskPropagateErrorsID, Log),
   (DiskWipeAfterDeleteID, Log),
   (DiskStatusID, Block),
   (DiskStoragaTypeID, Block),
   (DiskSgioID, Block),
   (VMBiosBootMenuID, Log),
   (VMStatusID, Block),
   (VMBiosTypeID, Block),
   (VMBiosTypeQ35SecureBootID, Warn),
   (VMCpuArchitectureID, Block),
   (VMCpuTuneID, Warn),
   (VMCpuSharesID, Log),
   (VMCustomEmulatedMachine, Log),
   (VMCustomPropertiesID, Warn),
   (VMDisplayTypeID, Log),
   (VMHasIllegalImagesID, Block),
   (VMHighAvailabilityPriorityID, Log),
   (VMIoThreadsID, Warn),
   (VMMemoryPolicyBallooningID, Log),
   (VMMemoryPolicyOvercommitPercentID, Log),
   (VMMemoryPolicyGuaranteedID, Log),
   (VMMemoryTemplateLimitID, Block),
   (VMMigrationID, Log),
   (VMMigrationDowntimeID, Log),
   (VMNumaTuneModeID, Warn),
   (VMOriginID, Block),
   (VMPlacementPolicyAffinityID, Block),
   (VMRngDeviceSourceID, Log),
   (VMSoundcardEnabledID, Warn),
   (VMStartPausedID, Log),
   (VMStorageErrorResumeBehaviourID, Log),
   (VMTunnelMigrationID, Warn),
   (VMUsbID, Block),
   (VMGraphicConsolesID, Log),
   (VMHostDevicesID, Log),
   (VMReportedDevicesID, Log),
   (VMQuotaID, Log),
   (VMWatchdogsID, Block),
   (VMCdromsID, Log),
   (VMFloppiesID, Log),
   (VMTimezoneID, Block),
   (NetworkConfig, Block),
   (NetworkTargetID, Block),
   (NetworkMappingID, Block),
   (NetworkMultiplePodTargetsID, Block),
   (NetworkTypeID, Block),
   (StorageTargetID, Block),
   (DiskTargetID, Block),
   (StorageTargetDefaultClass, Warn)]"

definition action_of :: "CheckID \<Rightarrow> action" where
  "action_of c = (case map_of checkToAction c of None \<Rightarrow> Log | Some a \<Rightarrow> a)"

text \<open>Every check that the validators use is in the map, and no two of them share an id.\<close>

definition all_checks :: "CheckID list" where
  "all_checks =
  [NicInterfaceCheckID, NicOnBootID, NicPluggedID,
   NicVNicPortMirroringID, NicVNicCustomPropertiesID, NicVNicNetworkFilterID,
   NicVNicQosID, DiskAttachmentsExistID, DiskAttachmentInterfaceID,
   DiskAttachmentLogicalNameID, DiskAttachmentPassDiscardID, DiskAttachmentUsesScsiReservationID,
   DiskInterfaceID, DiskLogicalNameID, DiskUsesScsiReservationID,
   DiskBackupID, DiskLunStorageID, DiskPropagateErrorsID,
   DiskWipeAfterDeleteID, DiskStatusID, DiskStoragaTypeID,
   DiskSgioID, VMStatusID, VMBiosBootMenuID,
   VMBiosTypeID, VMBiosTypeQ35SecureBootID, VMTimezoneID,
   VMCpuArchitectureID, VMCpuTuneID, VMCpuSharesID,
   VMCustomPropertiesID, VMDisplayTypeID, VMHasIllegalImagesID,
   VMHighAvailabilityPriorityID, VMIoThreadsID, VMMemoryPolicyBallooningID,
   VMMemoryPolicyOvercommitPercentID, VMMemoryPolicyGuaranteedID, VMCustomEmulatedMachine,
   VMMemoryTemplateLimitID, VMMigrationID, VMMigrationDowntimeID,
   VMNumaTuneModeID, VMOriginID, VMPlacementPolicyAffinityID,
   VMRngDeviceSourceID, VMSoundcardEnabledID, VMStartPausedID,
   VMStorageErrorResumeBehaviourID, VMTunnelMigrationID, VMUsbID,
   VMGraphicConsolesID, VMHostDevicesID, VMReportedDevicesID,
   VMQuotaID, VMWatchdogsID, VMCdromsID,
   VMFloppiesID, NetworkMappingID, NetworkTypeID,
   NetworkTargetID, NetworkConfig, NetworkMultiplePodTargetsID,
   StorageTargetID, DiskTargetID, StorageTargetDefaultClass]"

text \<open>Distinctness of strings by partition on their first characters, for evaluation.\<close>

fun distinct_strings :: "nat \<Rightarrow> string list \<Rightarrow> bool" where
  "distinct_strings 0 xs = (xs = [])"
| "distinct_strings (Suc n) [] = True"
| "distinct_strings (Suc n) [x] = True"
| "distinct_strings (Suc n) (x # y # xs) =
     (case x of
        [] \<Rightarrow> list_all (\<lambda>s. s \<noteq> []) (y # xs) \<and> distinct_strings n (y # xs)
      | c # cs \<Rightarrow>
          (let same = filter (\<lambda>s. s \<noteq> [] \<and> hd s = c) (y # xs)
           in distinct_strings n (cs # map tl same) \<and>
              distinct_strings n (filter (\<lambda>s. \<not> (s \<noteq> [] \<and> hd s = c)) (y # xs))))"

lemma distinct_filters:
  "distinct (filter P xs) \<Longrightarrow> distinct (filter (\<lambda>x. \<not> P x) xs) \<Longrightarrow> distinct xs"
  by (induction xs) (auto split: if_splits)

lemma distinct_strings: "distinct_strings n xs \<Longrightarrow> distinct xs"
proof (induction n xs rule: distinct_strings.induct)
  case (4 n x y xs)
  show ?case
  proof (cases x)
    case Nil
    with 4 show ?thesis by (auto simp: list_all_iff)
  next
    case (Cons c cs)
    let ?P = "\<lambda>s. s \<noteq> [] \<and> hd s = c"
    let ?same = "filter ?P (y # xs)"
    from 4 Cons have tls: "distinct (cs # map tl ?same)" and others: "distinct (filter (\<lambda>s. \<not> ?P s) (y # xs))"
      by (simp_all only: distinct_strings.simps list.case Let_def)
    have "distinct (map tl ?same)" using tls by (simp only: distinct.simps)
    then have "distinct ?same" by (simp only: distinct_map)
    then have "distinct (y # xs)" using others by (rule distinct_filters)
    moreover have "x \<notin> set (y # xs)"
    proof
      assume "x \<in> set (y # xs)"
      then have "x \<in> set ?same" using Cons by (simp only: set_filter) simp
      then have "tl x \<in> set (map tl ?same)" by (simp only: set_map imageI)
      with tls Cons show False by (simp only: distinct.simps list.sel)
    qed
    ultimately show ?thesis by simp
  qed
qed simp_all

lemma all_checks_distinct: "distinct all_checks"
  by (rule distinct_strings [of 2000]) code_simp

lemma checkToAction_checks: "set (map fst checkToAction) = set all_checks"
  unfolding checkToAction_def all_checks_def by (rule equalityI) simp_all

lemma checkToAction_distinct: "distinct (map fst checkToAction)"
proof -
  have "length (map fst checkToAction) = length all_checks" by (simp add: checkToAction_def all_checks_def)
  also have "\<dots> = card (set (map fst checkToAction))"
    using all_checks_distinct checkToAction_checks by (simp only: distinct_card)
  finally show ?thesis by (simp only: card_distinct)
qed

text \<open>The table that decides what a failed check means is complete and unambiguous: the identifiers
  of the checks are pairwise different, the table has an entry for each of them and no other entry, and
  lists none twice, so no check is silently treated as a log message.\<close>

lemma checkToAction_complete:
  "distinct all_checks \<and> distinct (map fst checkToAction) \<and> set (map fst checkToAction) = set all_checks"
  using all_checks_distinct checkToAction_distinct checkToAction_checks by blast

lemma action_of_entry: "(c, a) \<in> set checkToAction \<Longrightarrow> action_of c = a"
  using map_of_is_SomeI [OF checkToAction_distinct] by (simp add: action_of_def)

lemma action_of_Block: "action_of c = Block \<Longrightarrow> (c, Block) \<in> set checkToAction"
  by (auto simp: action_of_def split: option.splits dest: map_of_SomeD)

end
