(* ===== verification/OvirtValidation.thy ===== *)
theory OvirtValidation
  imports OvirtChecks ProviderApi
begin

text \<open>
  The rules for the virtual machine, its network interfaces and its disks
  (\<open>validators/vm-validator.go\<close>, \<open>nic-validator.go\<close>, \<open>storage-validator.go\<close>).  A check that returns a
  failure and whether it is valid is a \<open>ValidationFailure option\<close>; a check that appends to a slice is
  a list.  Reading an unset field of a CPU pin panics, so the checks of the CPU may.
\<close>

definition show_strings :: "string list \<Rightarrow> string" where
  "show_strings xs = ''['' @ Join xs '' '' @ '']''"

definition show_bool :: "bool \<Rightarrow> string" where
  "show_bool b = (if b then ''true'' else ''false'')"

definition quoted :: "string \<Rightarrow> string" where
  "quoted s = apos @ s @ apos"

text \<open>A failure under a condition.\<close>

definition fail_when :: "bool \<Rightarrow> CheckID \<Rightarrow> string \<Rightarrow> ValidationFailure option" where
  "fail_when b c m = (if b then Some (failure c m) else None)"

lemma fail_when_None [simp]: "fail_when b c m = None \<longleftrightarrow> \<not> b"
  by (simp add: fail_when_def)

lemma fail_when_Some [simp]: "fail_when b c m = Some f \<longleftrightarrow> b \<and> f = failure c m"
  by (auto simp: fail_when_def)

section \<open>The virtual machine\<close>

definition isValidStatus :: "ov_vm \<Rightarrow> ValidationFailure option" where
  "isValidStatus vm =
     (case ov_status vm of
        Some status \<Rightarrow> fail_when (status \<noteq> ''up'' \<and> status \<noteq> ''down'') VMStatusID
          (''VM has illegal status: '' @ status @ ''. Only '' @ quoted ''up'' @ '' and '' @ quoted ''down'' @ '' are allowed.'')
      | None \<Rightarrow> Some (failure VMStatusID
          (''VM doesn'' @ apos @ ''t have any status. Must be '' @ quoted ''up'' @ '' or '' @ quoted ''down'' @ ''.'')))"

definition isValidTimezone :: "platform \<Rightarrow> ov_vm \<Rightarrow> ValidationFailure option" where
  "isValidTimezone pl vm =
     (case ov_time_zone vm of
        None \<Rightarrow> None
      | Some tz \<Rightarrow> (case oz_name tz of
          None \<Rightarrow> None
        | Some name \<Rightarrow> fail_when (\<not> IsUtcCompatible (pl_LoadLocation pl) name) VMTimezoneID
            (''VM'' @ apos @ ''s timezone is not UTC-compatible. It should have offset of 0 and not observe DST'')))"

definition isValidBootMenu :: "ov_bios \<Rightarrow> ValidationFailure option" where
  "isValidBootMenu bios =
     fail_when (at_obj (bi_boot_menu bios) = Some True) VMBiosBootMenuID ''VM Bios has boot menu enabled''"

text \<open>The default of the cluster stands for \<open>cluster_default\<close>.\<close>

definition bios_type_of :: "ov_bios \<Rightarrow> string option \<Rightarrow> string" where
  "bios_type_of bios clusterDefault =
     (case clusterDefault of
        Some t \<Rightarrow> (if str (bi_type bios) = ''cluster_default'' then t else str (bi_type bios))
      | None \<Rightarrow> str (bi_type bios))"

definition isValidBiosType :: "ov_bios \<Rightarrow> string option \<Rightarrow> ValidationFailure option" where
  "isValidBiosType bios clusterDefault =
     (let biosType = bios_type_of bios clusterDefault
      in if map_of BiosTypeMapping biosType = None
         then Some (failure VMBiosTypeID (''VM uses unsupported bios type: '' @ biosType))
         else fail_when (biosType = ''q35_secure_boot'') VMBiosTypeQ35SecureBootID ''VM uses q35_secure_boot bios'')"

definition isValidBios :: "ov_vm \<Rightarrow> ValidationFailure list" where
  "isValidBios vm =
     (case ov_bios vm of
        None \<Rightarrow> []
      | Some bios \<Rightarrow> opt_list (isValidBootMenu bios) @ opt_list (isValidBiosType bios (at_obj (ov_cluster vm))))"

definition isValidCustomEmulatedMachine :: "ov_vm \<Rightarrow> ValidationFailure option" where
  "isValidCustomEmulatedMachine vm =
     (case ov_custom_emulated_machine vm of
        None \<Rightarrow> None
      | Some m \<Rightarrow> fail_when (Contains m ''i440fx'') VMCustomEmulatedMachine
          ''Source VM use custom emulated machine which is overwitten by cpu architecture.'')"

text \<open>
  \<open>math.Round\<close> (halves away from zero) and the conversion to \<open>int64\<close>, which gives the least value
  for a number out of range on amd64.
\<close>

definition go_round :: "rat \<Rightarrow> int" where
  "go_round x = (if x < 0 then - floor (- x + 1 / 2) else floor (x + 1 / 2))"

definition to_int64_range :: "int \<Rightarrow> int" where
  "to_int64_range i = (if min_int64 \<le> i \<and> i \<le> max_int64 then i else min_int64)"

fun toInt64 :: "go_value \<Rightarrow> int option" where
  "toInt64 (GoInt i) = Some (wrap64 i)"
| "toInt64 (GoFloat x) = Some (to_int64_range (go_round x))"
| "toInt64 GoOther = None"

fun memory_rule :: "ov_vm \<Rightarrow> string \<Rightarrow> template_rule list \<Rightarrow> ValidationFailure option" where
  "memory_rule vm template_name [] = None"
| "memory_rule vm template_name (r # rs) =
     (if rl_name r = ''minimal-required-memory''
      then (case (toInt64 (rl_min r), ov_memory vm) of
              (Some tempMem, Some sourceMem) \<Rightarrow>
                if tempMem > sourceMem
                then Some (failure VMMemoryTemplateLimitID (''Source VM memory '' @ Itoa sourceMem @ '' is lower than '' @
                       Itoa tempMem @ '' enforced by '' @ template_name @ '' template.''))
                else memory_rule vm template_name rs
            | _ \<Rightarrow> memory_rule vm template_name rs)
      else memory_rule vm template_name rs)"

definition isMemoryAboveRequests :: "platform \<Rightarrow> os_finder \<Rightarrow> ov_vm \<Rightarrow> ('p, ValidationFailure option) op" where
  "isMemoryAboveRequests pl f vm =
     gtry (OvirtFindTemplate pl f vm)
       (\<lambda>e. gret None)
       (\<lambda>t. case pl_rules pl (config_value (tm_annotations t) ''validations'') of
          None \<Rightarrow> gret None
        | Some rules \<Rightarrow> gret (memory_rule vm (tm_name t) rules))"

definition isValidArchitecture :: "ov_cpu \<Rightarrow> ValidationFailure option" where
  "isValidArchitecture cpu =
     fail_when (oc_architecture cpu = Some ''s390x'') VMCpuArchitectureID ''VM uses unsupported s390x CPU architecture''"

definition isValidCPUTune :: "ov_cpu \<Rightarrow> go_error + ValidationFailure option" where
  "isValidCPUTune cpu =
     (case oc_tune cpu of
        None \<Rightarrow> Inr None
      | Some tune \<Rightarrow> rbind (IsCPUPinningExact tune) (\<lambda>exact. Inr (fail_when (\<not> exact) VMCpuTuneID
          ''VM uses unsupported CPU pinning layout. Only 1 vCPU - unique 1 pCpu pinning is supported'')))"

definition isValidCPU :: "ov_vm \<Rightarrow> go_error + ValidationFailure list" where
  "isValidCPU vm =
     (case ov_cpu vm of
        None \<Rightarrow> Inr []
      | Some cpu \<Rightarrow> rbind (isValidCPUTune cpu) (\<lambda>tune. Inr (opt_list (isValidArchitecture cpu) @ opt_list tune)))"

definition isValidCPUShares :: "ov_vm \<Rightarrow> ValidationFailure option" where
  "isValidCPUShares vm =
     fail_when (ov_cpu_shares vm \<noteq> None) VMCpuSharesID ''VM specifies CPU shares that should be available to it''"

definition non_empty :: "'a list option \<Rightarrow> bool" where
  "non_empty xs \<longleftrightarrow> xs \<noteq> None \<and> the xs \<noteq> []"

definition slice :: "'a list option \<Rightarrow> 'a list" where
  "slice xs = (case xs of None \<Rightarrow> [] | Some ys \<Rightarrow> ys)"

definition isValidCustomProperties :: "platform \<Rightarrow> ov_vm \<Rightarrow> ValidationFailure option" where
  "isValidCustomProperties pl vm =
     fail_when (non_empty (ov_custom_properties vm)) VMCustomPropertiesID
       (''VM specifies custom properties: '' @ pl_print pl ''CustomPropertySlice'' (map cp_name (slice (ov_custom_properties vm))))"

definition isValidDisplayType :: "ov_vm \<Rightarrow> ValidationFailure option" where
  "isValidDisplayType vm =
     fail_when (at_obj (ov_display vm) \<noteq> None \<and> at_obj (ov_display vm) \<noteq> Some ''vnc'') VMDisplayTypeID ''VM uses spice display''"

definition hasIllegalImages :: "ov_vm \<Rightarrow> ValidationFailure option" where
  "hasIllegalImages vm = fail_when (flag (ov_has_illegal_images vm)) VMHasIllegalImagesID ''VM has illegal images''"

definition isValidHighAvailabilityPriority :: "ov_vm \<Rightarrow> ValidationFailure option" where
  "isValidHighAvailabilityPriority vm =
     (case ov_high_availability vm of
        None \<Rightarrow> None
      | Some ha \<Rightarrow> fail_when (ha_priority ha \<noteq> None) VMHighAvailabilityPriorityID
          (''VM uses high availability priority: '' @ Itoa (num (ha_priority ha))))"

definition isValidIoThreads :: "ov_vm \<Rightarrow> ValidationFailure option" where
  "isValidIoThreads vm =
     fail_when (at_obj (ov_io vm) \<noteq> None) VMIoThreadsID (''VM specifies IO Threads: '' @ Itoa (num (at_obj (ov_io vm))))"

definition isValidBallooning :: "ov_memory_policy \<Rightarrow> ValidationFailure option" where
  "isValidBallooning policy =
     fail_when (flag (mo_ballooning policy)) VMMemoryPolicyBallooningID ''VM enables memory ballooning''"

definition isValidGuaranteed :: "ov_memory_policy \<Rightarrow> ValidationFailure option" where
  "isValidGuaranteed policy =
     fail_when (mo_guaranteed policy \<noteq> None) VMMemoryPolicyGuaranteedID
       (''VM specifies guaranteed memory: '' @ Itoa (num (mo_guaranteed policy)))"

definition isValidOvercommit :: "ov_memory_policy \<Rightarrow> ValidationFailure option" where
  "isValidOvercommit policy =
     fail_when (at_obj (mo_over_commit policy) \<noteq> None) VMMemoryPolicyOvercommitPercentID
       (''VM specifies memory overcommit percent: '' @ Itoa (num (at_obj (mo_over_commit policy))))"

definition isValidMemoryPolicy :: "ov_vm \<Rightarrow> ValidationFailure list" where
  "isValidMemoryPolicy vm =
     (case ov_memory_policy vm of
        None \<Rightarrow> []
      | Some policy \<Rightarrow> opt_list (isValidBallooning policy) @ opt_list (isValidOvercommit policy) @
          opt_list (isValidGuaranteed policy))"

definition isValidMigration :: "ov_vm \<Rightarrow> ValidationFailure option" where
  "isValidMigration vm = fail_when (ov_migration vm \<noteq> None) VMMigrationID ''VM has migration options specified''"

definition isValidMigrationDowntime :: "ov_vm \<Rightarrow> ValidationFailure option" where
  "isValidMigrationDowntime vm =
     fail_when (ov_migration_downtime vm \<noteq> None) VMMigrationDowntimeID
       (''VM has migration downtime specified: '' @ Itoa (num (ov_migration_downtime vm)))"

definition isValidNumaTuneMode :: "ov_vm \<Rightarrow> ValidationFailure option" where
  "isValidNumaTuneMode vm =
     fail_when (ov_numa_tune_mode vm \<noteq> None) VMNumaTuneModeID
       (''VM has NUMA tune mode secified: '' @ str (ov_numa_tune_mode vm))"

definition isValidOrigin :: "ov_vm \<Rightarrow> ValidationFailure option" where
  "isValidOrigin vm =
     fail_when (ov_origin vm = Some ''kubevirt'') VMOriginID (''VM has origin set to '' @ quoted ''kubevirt'')"

definition isValidPlacementPolicy :: "ov_vm \<Rightarrow> bool \<Rightarrow> ValidationFailure option" where
  "isValidPlacementPolicy vm liveMigrationEnabled =
     fail_when (at_obj (ov_placement_policy vm) = Some ''migratable'' \<and> \<not> liveMigrationEnabled) VMPlacementPolicyAffinityID
       ''VM has placement policy affinity set to `migratable`''"

definition isValidRandomNumberGeneratorSource :: "ov_vm \<Rightarrow> ValidationFailure option" where
  "isValidRandomNumberGeneratorSource vm =
     (case at_obj (ov_rng_device vm) of
        None \<Rightarrow> None
      | Some src \<Rightarrow> fail_when (src \<noteq> ''urandom'') VMRngDeviceSourceID
          (''VM has unsupported random number generator device source set: '' @ src @ ''. Supported value: '' @ quoted ''urandom''))"

definition isValidSoundcardEnabled :: "ov_vm \<Rightarrow> ValidationFailure option" where
  "isValidSoundcardEnabled vm = fail_when (flag (ov_soundcard_enabled vm)) VMSoundcardEnabledID ''VM has sound card enabled''"

definition isValidStartPaused :: "ov_vm \<Rightarrow> ValidationFailure option" where
  "isValidStartPaused vm = fail_when (flag (ov_start_paused vm)) VMStartPausedID ''VM has start paused enabled''"

definition isValidTunnelMigration :: "ov_vm \<Rightarrow> ValidationFailure option" where
  "isValidTunnelMigration vm =
     fail_when (flag (ov_tunnel_migration vm)) VMTunnelMigrationID ''VM has start tunnel migration enabled''"

definition isValidStorageErrorResumeBehaviour :: "ov_vm \<Rightarrow> ValidationFailure option" where
  "isValidStorageErrorResumeBehaviour vm =
     fail_when (ov_storage_error_resume vm \<noteq> None) VMStorageErrorResumeBehaviourID
       (''VM has storage error resume behaviour set: '' @ str (ov_storage_error_resume vm))"

definition isValidUsb :: "ov_vm \<Rightarrow> ValidationFailure option" where
  "isValidUsb vm = fail_when (flag (at_obj (ov_usb vm))) VMUsbID ''VM has USB enabled''"

definition isValidGraphicsConsoles :: "ov_vm \<Rightarrow> ValidationFailure list" where
  "isValidGraphicsConsoles vm =
     concat (map (\<lambda>protocol. opt_list (fail_when (protocol \<noteq> None \<and> protocol \<noteq> Some ''vnc'') VMGraphicConsolesID
       (''VM has non-VNC graphics console configured: '' @ str protocol))) (slice (ov_graphics_consoles vm)))"

definition isValidHostDevices :: "platform \<Rightarrow> ov_vm \<Rightarrow> ValidationFailure option" where
  "isValidHostDevices pl vm =
     fail_when (non_empty (ov_host_devices vm)) VMHostDevicesID
       (''VM has following host devices: '' @ pl_print pl ''HostDeviceSlice'' (slice (ov_host_devices vm)))"

definition reportedDeviceToString :: "string option \<times> string option \<Rightarrow> string" where
  "reportedDeviceToString rd = ToLoggableID (fst rd) (snd rd)"

definition reportedDevicesToStrings :: "(string option \<times> string option) list \<Rightarrow> string list" where
  "reportedDevicesToStrings devices = map reportedDeviceToString devices"

definition isValidReportedDevices :: "ov_vm \<Rightarrow> ValidationFailure option" where
  "isValidReportedDevices vm =
     fail_when (non_empty (ov_reported_devices vm)) VMReportedDevicesID
       (''VM has following reported devices: '' @ show_strings (reportedDevicesToStrings (slice (ov_reported_devices vm))))"

definition isValidQuota :: "ov_vm \<Rightarrow> ValidationFailure option" where
  "isValidQuota vm =
     (case ov_quota vm of
        None \<Rightarrow> None
      | Some quota_id \<Rightarrow> Some (failure VMQuotaID
          (case quota_id of Some i \<Rightarrow> ''VM has quota with ID '' @ i @ '' assigned'' | None \<Rightarrow> ''VM has quota assigned'')))"

definition isValidWatchdogs :: "platform \<Rightarrow> ov_vm \<Rightarrow> ValidationFailure list" where
  "isValidWatchdogs pl vm =
     concat (map (\<lambda>model. opt_list (fail_when (model \<noteq> None \<and> model \<noteq> Some ''i6300esb'') VMWatchdogsID
       (''VM has unsupported watchdog configured: '' @ pl_print pl ''Watchdog'' [model]))) (slice (ov_watchdogs vm)))"

definition getStorageDomainType :: "ov_domain option \<Rightarrow> string option" where
  "getStorageDomainType file = (case file of None \<Rightarrow> None | Some sd \<Rightarrow> sd_type sd)"

definition isValidCdrom :: "ov_cdrom \<Rightarrow> ValidationFailure option" where
  "isValidCdrom cdrom =
     (case cd_file cdrom of
        None \<Rightarrow> None
      | Some file \<Rightarrow> fail_when (getStorageDomainType file \<noteq> None \<and> getStorageDomainType file \<noteq> Some ''data'') VMCdromsID
          (''VM uses CD ROM with image not stored in data domain'' @
           (case cd_id cdrom of Some i \<Rightarrow> '': '' @ i | None \<Rightarrow> [])))"

definition isValidCdroms :: "ov_vm \<Rightarrow> ValidationFailure list" where
  "isValidCdroms vm = concat (map (\<lambda>c. opt_list (isValidCdrom c)) (slice (ov_cdroms vm)))"

definition isValidFloppies :: "ov_vm \<Rightarrow> ValidationFailure option" where
  "isValidFloppies vm =
     fail_when (non_empty (ov_floppies vm)) VMFloppiesID
       (''VM uses '' @ Itoa (int (length (slice (ov_floppies vm)))) @ '' floppies'')"

text \<open>The checks between those of the CPU and the one that looks up the template.\<close>

definition vm_checks :: "platform \<Rightarrow> string \<Rightarrow> ov_vm \<Rightarrow> ValidationFailure list" where
  "vm_checks pl kvConfig vm =
     opt_list (isValidCPUShares vm) @ opt_list (isValidCustomProperties pl vm) @ opt_list (isValidDisplayType vm) @
     opt_list (hasIllegalImages vm) @ opt_list (isValidHighAvailabilityPriority vm) @ opt_list (isValidIoThreads vm) @
     isValidMemoryPolicy vm @ opt_list (isValidMigration vm) @ opt_list (isValidMigrationDowntime vm) @
     opt_list (isValidNumaTuneMode vm) @ opt_list (isValidOrigin vm) @
     opt_list (isValidPlacementPolicy vm (LiveMigrationEnabled kvConfig)) @
     opt_list (isValidRandomNumberGeneratorSource vm) @ opt_list (isValidSoundcardEnabled vm) @
     opt_list (isValidStartPaused vm) @ opt_list (isValidTunnelMigration vm) @
     opt_list (isValidStorageErrorResumeBehaviour vm) @ opt_list (isValidUsb vm) @ isValidGraphicsConsoles vm @
     opt_list (isValidHostDevices pl vm) @ opt_list (isValidReportedDevices vm) @ opt_list (isValidQuota vm) @
     isValidWatchdogs pl vm @ isValidCdroms vm @ opt_list (isValidFloppies vm) @
     opt_list (isValidCustomEmulatedMachine vm)"

definition ValidateVM :: "platform \<Rightarrow> ov_vm \<Rightarrow> string \<Rightarrow> os_finder \<Rightarrow> ('p, ValidationFailure list) op" where
  "ValidateVM pl vm kvConfig f =
     gbind (glift (isValidCPU vm)) (\<lambda>cpu.
     gbind (isMemoryAboveRequests pl f vm) (\<lambda>memory.
       gret (isValidBios vm @ opt_list (isValidStatus vm) @ opt_list (isValidTimezone pl vm) @ cpu @
             vm_checks pl kvConfig vm @ opt_list memory)))"

section \<open>The network interfaces\<close>

definition InterfaceModelMapping :: "(string \<times> string) list" where
  "InterfaceModelMapping =
     [(''e1000'', ''e1000''), (''rtl8139'', ''rtl8139''), (''virtio'', ''virtio''), (''pci_passthrough'', ''pci_passthrough'')]"

definition isValidNicInterfaceModel :: "platform \<Rightarrow> ov_nic \<Rightarrow> string \<Rightarrow> ValidationFailure option" where
  "isValidNicInterfaceModel pl nic nicID =
     fail_when (nc_interface nic = None \<or> map_of InterfaceModelMapping (str (nc_interface nic)) = None) NicInterfaceCheckID
       (''interface '' @ nicID @ '' uses model '' @ str (nc_interface nic) @ '' that is not supported. Supported models: '' @
        show_strings (pl_keys pl (GetMapKeys InterfaceModelMapping)))"

definition isValidNicOnBoot :: "ov_nic \<Rightarrow> string \<Rightarrow> ValidationFailure option" where
  "isValidNicOnBoot nic nicID =
     fail_when (\<not> flag (nc_on_boot nic)) NicOnBootID (''interface '' @ nicID @ '' is not enabled on boot.'')"

definition isValidNicPlugged :: "ov_nic \<Rightarrow> string \<Rightarrow> ValidationFailure option" where
  "isValidNicPlugged nic nicID =
     fail_when (\<not> flag (nc_plugged nic)) NicPluggedID (''interface '' @ nicID @ '' is unplugged.'')"

definition isValidVnicPortMirroring :: "ov_profile \<Rightarrow> string \<Rightarrow> ValidationFailure option" where
  "isValidVnicPortMirroring p nicID =
     fail_when (flag (vp_port_mirroring p)) NicVNicPortMirroringID
       (''interface '' @ nicID @ '' uses profile with port mirroring.'')"

definition isValidVnicProfileCustomProperties :: "platform \<Rightarrow> ov_profile \<Rightarrow> string \<Rightarrow> ValidationFailure option" where
  "isValidVnicProfileCustomProperties pl p nicID =
     fail_when (non_empty (vp_custom_properties p)) NicVNicCustomPropertiesID
       (''interface '' @ nicID @ '' uses profile with custom properties: '' @
        pl_print pl ''CustomPropertySlice'' (map cp_name (slice (vp_custom_properties p))) @ ''.'')"

definition isValidVnicProfileNetworFilter :: "ov_profile \<Rightarrow> string \<Rightarrow> ValidationFailure option" where
  "isValidVnicProfileNetworFilter p nicID =
     (case vp_network_filter p of
        None \<Rightarrow> None
      | Some filter_id \<Rightarrow> Some (failure NicVNicNetworkFilterID
          (case filter_id of
             Some i \<Rightarrow> ''Interface '' @ nicID @ '' uses profile with a network filter with ID: '' @ i @ ''.''
           | None \<Rightarrow> ''Interface '' @ nicID @ '' uses profile with a network filter'')))"

definition isValidVnicProfileQos :: "ov_profile \<Rightarrow> string \<Rightarrow> ValidationFailure option" where
  "isValidVnicProfileQos p nicID =
     (case vp_qos p of
        None \<Rightarrow> None
      | Some qos_id \<Rightarrow> Some (failure NicVNicQosID
          (case qos_id of
             Some i \<Rightarrow> ''Interface '' @ nicID @ '' uses profile with QOS with ID: '' @ i @ ''.''
           | None \<Rightarrow> ''Interface '' @ nicID @ '' uses profile with QOS'')))"

definition validateNic :: "platform \<Rightarrow> ov_nic \<Rightarrow> ValidationFailure list" where
  "validateNic pl nic =
     (let nicID = str (nc_id nic)
      in opt_list (isValidNicInterfaceModel pl nic nicID) @ opt_list (isValidNicOnBoot nic nicID) @
         opt_list (isValidNicPlugged nic nicID) @
         (case nc_profile nic of
            None \<Rightarrow> []
          | Some p \<Rightarrow> opt_list (isValidVnicPortMirroring p nicID) @ opt_list (isValidVnicProfileCustomProperties pl p nicID) @
              opt_list (isValidVnicProfileNetworFilter p nicID) @ opt_list (isValidVnicProfileQos p nicID)))"

definition ValidateNics :: "platform \<Rightarrow> ov_nic list \<Rightarrow> ValidationFailure list" where
  "ValidateNics pl nics = concat (map (validateNic pl) nics)"

section \<open>The disks\<close>

definition DiskInterfaceModelMapping :: "(string \<times> string) list" where
  "DiskInterfaceModelMapping = [(''sata'', ''sata''), (''virtio_scsi'', ''virtio''), (''virtio'', ''virtio'')]"

definition disk_status_ok :: "ov_disk \<Rightarrow> bool" where
  "disk_status_ok disk \<longleftrightarrow> od_status disk = None \<or> od_status disk = Some ''ok''"

definition ValidateDiskStatus :: "ov_attachment \<Rightarrow> bool" where
  "ValidateDiskStatus da = (case da_disk da of None \<Rightarrow> True | Some disk \<Rightarrow> disk_status_ok disk)"

text \<open>The interfaces that a disk and its attachment share, on the values their getters return.\<close>

definition isValidStorageInterface :: "platform \<Rightarrow> string option \<Rightarrow> string \<Rightarrow> CheckID \<Rightarrow> ValidationFailure option" where
  "isValidStorageInterface pl iface ownerID checkID =
     (case iface of
        None \<Rightarrow> None
      | Some i \<Rightarrow> fail_when (map_of DiskInterfaceModelMapping i = None) checkID
          (checkID @ '' '' @ ownerID @ '' uses interface '' @ i @ ''. Allowed values: '' @
           show_strings (pl_keys pl (GetMapKeys DiskInterfaceModelMapping))))"

definition isValidStorageLogicalName :: "string option \<Rightarrow> string \<Rightarrow> CheckID \<Rightarrow> ValidationFailure option" where
  "isValidStorageLogicalName logicalName ownerID checkID =
     fail_when (logicalName \<noteq> None) checkID
       (checkID @ '' '' @ ownerID @ '' has logical name of '' @ str logicalName @ '' defined'')"

definition isValidStorageUsesScsiReservation :: "bool option \<Rightarrow> string \<Rightarrow> CheckID \<Rightarrow> ValidationFailure option" where
  "isValidStorageUsesScsiReservation sr ownerID checkID =
     fail_when (flag sr) checkID (checkID @ '' '' @ ownerID @ '' has uses_scsi_reservation == true'')"

definition isValidDiskAttachmentPassDiscard :: "ov_attachment \<Rightarrow> string \<Rightarrow> ValidationFailure option" where
  "isValidDiskAttachmentPassDiscard da attachmentID =
     fail_when (flag (da_pass_discard da)) DiskAttachmentPassDiscardID
       (''disk attachment '' @ attachmentID @ '' has pass_discard == true'')"

definition isValidDiskBackup :: "ov_disk \<Rightarrow> string \<Rightarrow> ValidationFailure option" where
  "isValidDiskBackup disk diskID =
     fail_when (od_backup disk = Some ''incremental'') DiskBackupID
       (''disk '' @ diskID @ '' uses backup == '' @ quoted ''incremental'' @ ''. Allowed value: '' @ quoted ''none'' @ ''.'')"

definition isValidDiskLunStorage :: "ov_disk \<Rightarrow> string \<Rightarrow> ValidationFailure option" where
  "isValidDiskLunStorage disk diskID =
     (case od_lun_storage disk of
        None \<Rightarrow> None
      | Some storage_id \<Rightarrow> Some (failure DiskLunStorageID
          (case storage_id of
             Some i \<Rightarrow> ''disk '' @ diskID @ '' uses LUN storage with ID: '' @ i
           | None \<Rightarrow> ''disk '' @ diskID @ '' uses LUN storage'')))"

definition isValidDiskPropagateErrors :: "ov_disk \<Rightarrow> string \<Rightarrow> ValidationFailure option" where
  "isValidDiskPropagateErrors disk diskID =
     fail_when (od_propagate_errors disk \<noteq> None) DiskPropagateErrorsID
       (''disk '' @ diskID @ '' has propagate_errors configured: '' @ show_bool (flag (od_propagate_errors disk)))"

definition isValidDiskWipeAfterDelete :: "ov_disk \<Rightarrow> string \<Rightarrow> ValidationFailure option" where
  "isValidDiskWipeAfterDelete disk diskID =
     fail_when (flag (od_wipe_after_delete disk)) DiskWipeAfterDeleteID
       (''disk '' @ diskID @ '' has wipe_after_delete enabled'')"

definition isValidDiskStatus :: "ov_disk \<Rightarrow> string \<Rightarrow> ValidationFailure option" where
  "isValidDiskStatus disk diskID =
     fail_when (\<not> disk_status_ok disk) DiskStatusID
       (''disk '' @ diskID @ '' has illegal status: '' @ quoted (str (od_status disk)) @ ''. Allowed value: '' @ quoted ''ok'')"

definition isValidDiskStorageType :: "ov_disk \<Rightarrow> string \<Rightarrow> ValidationFailure option" where
  "isValidDiskStorageType disk diskID =
     fail_when (od_storage_type disk \<noteq> Some ''image'') DiskStoragaTypeID
       (''disk '' @ diskID @ '' has illegal storage type: '' @ quoted (str (od_storage_type disk)) @ ''. Allowed value: '' @ quoted ''image'')"

definition isValidDiskSgio :: "ov_disk \<Rightarrow> string \<Rightarrow> ValidationFailure option" where
  "isValidDiskSgio disk diskID =
     fail_when (od_sgio disk \<noteq> None \<and> od_sgio disk \<noteq> Some ''disabled'') DiskSgioID
       (''disk '' @ diskID @ '' has illegal sgio setting: '' @ quoted (str (od_sgio disk)) @ ''. Allowed value: '' @ quoted ''disabled'')"

definition validateDisk :: "platform \<Rightarrow> ov_disk \<Rightarrow> ValidationFailure list" where
  "validateDisk pl disk =
     (let diskID = str (od_id disk)
      in opt_list (isValidStorageInterface pl (od_interface disk) diskID DiskInterfaceID) @
         opt_list (isValidStorageLogicalName (od_logical_name disk) diskID DiskLogicalNameID) @
         opt_list (isValidStorageUsesScsiReservation (od_uses_scsi_reservation disk) diskID DiskUsesScsiReservationID) @
         opt_list (isValidDiskBackup disk diskID) @ opt_list (isValidDiskLunStorage disk diskID) @
         opt_list (isValidDiskPropagateErrors disk diskID) @ opt_list (isValidDiskWipeAfterDelete disk diskID) @
         opt_list (isValidDiskStatus disk diskID) @ opt_list (isValidDiskStorageType disk diskID) @
         opt_list (isValidDiskSgio disk diskID))"

definition validateDiskAttachment :: "platform \<Rightarrow> ov_attachment \<Rightarrow> ValidationFailure list" where
  "validateDiskAttachment pl da =
     (let attachmentID = str (da_id da)
      in opt_list (isValidStorageInterface pl (da_interface da) attachmentID DiskAttachmentInterfaceID) @
         opt_list (isValidStorageLogicalName (da_logical_name da) attachmentID DiskAttachmentLogicalNameID) @
         opt_list (isValidDiskAttachmentPassDiscard da attachmentID) @
         opt_list (isValidStorageUsesScsiReservation (da_uses_scsi_reservation da) attachmentID DiskAttachmentUsesScsiReservationID) @
         (case da_disk da of None \<Rightarrow> [] | Some disk \<Rightarrow> validateDisk pl disk))"

definition ValidateDiskAttachments :: "platform \<Rightarrow> ov_attachment list \<Rightarrow> ValidationFailure list" where
  "ValidateDiskAttachments pl das =
     (if das = [] then [failure DiskAttachmentsExistID ''VM has no disks'']
      else concat (map (validateDiskAttachment pl) das))"

end
