(* ===== verification/Mappings.thy ===== *)
theory Mappings
  imports Utils
begin

text \<open>
  \<open>pkg/mappings/merger.go\<close> and the \<open>MergeMappings\<close> of both providers: merging the mappings of an
  import (primary) with those of an external resource mapping (secondary).  The network and the
  storage merger are the same code on two item types, so one polymorphic function models both; the
  orders in which Go ranges over the two secondary maps are the shuffle arguments.
\<close>

text \<open>The state of the merger: the output, the used ids and what is left of the secondary maps.\<close>

record 'i merge_state =
  mg_out :: "'i list"
  mg_used :: "string list"
  mg_ids :: "(string, 'i) gomap"
  mg_names :: "(string, 'i) gomap"

definition drop_name :: "string option \<Rightarrow> (string, 'i) gomap \<Rightarrow> (string, 'i) gomap" where
  "drop_name name m = (case name of None \<Rightarrow> m | Some n \<Rightarrow> gm_del n m)"

definition merge_primary_item :: "('i \<Rightarrow> source_id) \<Rightarrow> 'i \<Rightarrow> 'i merge_state \<Rightarrow> 'i merge_state" where
  "merge_primary_item src item s =
     (let i = src_id (src item); name = src_name (src item)
      in if i = None \<and> name = None then s
         else s\<lparr>mg_out := mg_out s @ [item],
                mg_used := (case i of None \<Rightarrow> mg_used s | Some k \<Rightarrow> k # mg_used s),
                mg_ids := (case i of None \<Rightarrow> mg_ids s | Some k \<Rightarrow> gm_del k (mg_ids s)),
                mg_names := drop_name name (mg_names s)\<rparr>)"

definition merge_secondary_id :: "('i \<Rightarrow> source_id) \<Rightarrow> string \<times> 'i \<Rightarrow> 'i merge_state \<Rightarrow> 'i merge_state" where
  "merge_secondary_id src = (\<lambda>(i, item) s.
     s\<lparr>mg_out := mg_out s @ [item], mg_used := i # mg_used s,
       mg_names := drop_name (src_name (src item)) (mg_names s)\<rparr>)"

definition merge_secondary_name :: "('i \<Rightarrow> source_id) \<Rightarrow> string \<times> 'i \<Rightarrow> 'i merge_state \<Rightarrow> 'i merge_state" where
  "merge_secondary_name src = (\<lambda>(n, item) s.
     if (case src_id (src item) of None \<Rightarrow> True | Some i \<Rightarrow> i \<notin> set (mg_used s))
     then s\<lparr>mg_out := mg_out s @ [item]\<rparr> else s)"

definition merge_items :: "('i \<Rightarrow> source_id) \<Rightarrow> ((string, 'i) gomap \<Rightarrow> (string, 'i) gomap) \<Rightarrow>
    'i list option \<Rightarrow> 'i list option \<Rightarrow> 'i list option" where
  "merge_items src shuffle primary secondary =
     (case primary of
        None \<Rightarrow> secondary
      | Some ps \<Rightarrow>
         (case secondary of
            None \<Rightarrow> primary
          | Some ss \<Rightarrow>
             (let (byID, byName) = index_by src ss ([], []);
                  s1 = fold (merge_primary_item src) ps
                         \<lparr>mg_out = [], mg_used = [], mg_ids = byID, mg_names = byName\<rparr>;
                  s2 = fold (merge_secondary_id src) (shuffle (mg_ids s1)) s1;
                  s3 = fold (merge_secondary_name src) (shuffle (mg_names s2)) s2
              in Some (mg_out s3))))"

definition MergeNetworkMappings :: "((string, network_item) gomap \<Rightarrow> (string, network_item) gomap) \<Rightarrow>
    network_item list option \<Rightarrow> network_item list option \<Rightarrow> network_item list option" where
  "MergeNetworkMappings = merge_items ni_source"

definition MergeStorageMappings :: "((string, storage_item) gomap \<Rightarrow> (string, storage_item) gomap) \<Rightarrow>
    storage_item list option \<Rightarrow> storage_item list option \<Rightarrow> storage_item list option" where
  "MergeStorageMappings = merge_items si_source"

definition empty_mappings :: resource_mappings where
  "empty_mappings = \<lparr>rm_network = None, rm_storage = None, rm_disk = None\<rparr>"

definition extractMappings :: "(mapping_spec \<Rightarrow> resource_mappings option) \<Rightarrow> mapping_spec option \<Rightarrow>
    resource_mappings option \<Rightarrow> resource_mappings \<times> resource_mappings" where
  "extractMappings sel external cr =
     ((case cr of None \<Rightarrow> empty_mappings | Some m \<Rightarrow> m),
      (case external of None \<Rightarrow> empty_mappings
       | Some e \<Rightarrow> (case sel e of None \<Rightarrow> empty_mappings | Some m \<Rightarrow> m)))"

record mapping_shuffles =
  sh_network :: "(string, network_item) gomap \<Rightarrow> (string, network_item) gomap"
  sh_storage :: "(string, storage_item) gomap \<Rightarrow> (string, storage_item) gomap"

definition merge_mappings :: "(mapping_spec \<Rightarrow> resource_mappings option) \<Rightarrow> mapping_shuffles \<Rightarrow>
    mapping_spec option \<Rightarrow> resource_mappings option \<Rightarrow> resource_mappings" where
  "merge_mappings sel sh external vmi =
     (if external = None \<and> vmi = None then empty_mappings
      else let (primary, secondary) = extractMappings sel external vmi
           in \<lparr>rm_network = MergeNetworkMappings (sh_network sh) (rm_network primary) (rm_network secondary),
               rm_storage = MergeStorageMappings (sh_storage sh) (rm_storage primary) (rm_storage secondary),
               rm_disk = rm_disk primary\<rparr>)"

definition OvirtMergeMappings :: "mapping_shuffles \<Rightarrow> mapping_spec option \<Rightarrow> resource_mappings option \<Rightarrow> resource_mappings" where
  "OvirtMergeMappings = merge_mappings ms_ovirt"

definition VmwareMergeMappings :: "mapping_shuffles \<Rightarrow> mapping_spec option \<Rightarrow> resource_mappings option \<Rightarrow> resource_mappings" where
  "VmwareMergeMappings = merge_mappings ms_vmware"

section \<open>Lemmas\<close>

definition identified :: "('i \<Rightarrow> source_id) \<Rightarrow> 'i \<Rightarrow> bool" where
  "identified src i \<longleftrightarrow> src_id (src i) \<noteq> None \<or> src_name (src i) \<noteq> None"

definition ids_of :: "('i \<Rightarrow> source_id) \<Rightarrow> 'i list \<Rightarrow> string set" where
  "ids_of src is = {k. \<exists>i \<in> set is. src_id (src i) = Some k}"

lemma primary_fold:
  "mg_out (fold (merge_primary_item src) ps s) = mg_out s @ filter (identified src) ps \<and>
   set (mg_used (fold (merge_primary_item src) ps s)) = set (mg_used s) \<union> ids_of src ps \<and>
   gm_get (mg_ids (fold (merge_primary_item src) ps s)) = gm_get (mg_ids s) |` (- ids_of src ps) \<and>
   (distinct (map fst (mg_ids s)) \<longrightarrow> distinct (map fst (mg_ids (fold (merge_primary_item src) ps s)))) \<and>
   (\<forall>k i. gm_get (mg_names (fold (merge_primary_item src) ps s)) k = Some i \<longrightarrow> gm_get (mg_names s) k = Some i) \<and>
   (distinct (map fst (mg_names s)) \<longrightarrow> distinct (map fst (mg_names (fold (merge_primary_item src) ps s))))"
proof (induction ps arbitrary: s)
  case Nil
  then show ?case by (simp add: ids_of_def)
next
  case (Cons p ps)
  let ?s = "merge_primary_item src p s"
  have ids: "ids_of src (p # ps) = set_option (src_id (src p)) \<union> ids_of src ps"
    by (auto simp: ids_of_def)
  have step: "mg_out ?s = mg_out s @ (if identified src p then [p] else [])"
    "set (mg_used ?s) = set (mg_used s) \<union> set_option (src_id (src p))"
    "gm_get (mg_ids ?s) = gm_get (mg_ids s) |` (- set_option (src_id (src p)))"
    "distinct (map fst (mg_ids s)) \<longrightarrow> distinct (map fst (mg_ids ?s))"
    "\<And>k i. gm_get (mg_names ?s) k = Some i \<Longrightarrow> gm_get (mg_names s) k = Some i"
    "distinct (map fst (mg_names s)) \<longrightarrow> distinct (map fst (mg_names ?s))"
    by (auto simp: merge_primary_item_def identified_def Let_def drop_name_def delete_conv' distinct_delete
        restrict_map_def fun_eq_iff split: option.splits if_splits)
  from Cons.IH [of ?s] step show ?case
    by (auto simp: ids restrict_map_def fun_eq_iff)
qed

lemma secondary_id_fold:
  "mg_out (fold (merge_secondary_id src) kvs s) = mg_out s @ map snd kvs \<and>
   set (mg_used (fold (merge_secondary_id src) kvs s)) = set (mg_used s) \<union> fst ` set kvs \<and>
   (\<forall>k i. gm_get (mg_names (fold (merge_secondary_id src) kvs s)) k = Some i \<longrightarrow> gm_get (mg_names s) k = Some i) \<and>
   (distinct (map fst (mg_names s)) \<longrightarrow> distinct (map fst (mg_names (fold (merge_secondary_id src) kvs s))))"
proof (induction kvs arbitrary: s)
  case Nil
  then show ?case by simp
next
  case (Cons kv kvs)
  obtain k v where kv: "kv = (k, v)" by (cases kv)
  let ?s = "merge_secondary_id src kv s"
  have "mg_out ?s = mg_out s @ [v]" "set (mg_used ?s) = insert k (set (mg_used s))"
    "\<And>k i. gm_get (mg_names ?s) k = Some i \<Longrightarrow> gm_get (mg_names s) k = Some i"
    "distinct (map fst (mg_names s)) \<longrightarrow> distinct (map fst (mg_names ?s))"
    by (auto simp: merge_secondary_id_def kv drop_name_def delete_conv' distinct_delete split: option.splits if_splits)
  with Cons.IH [of ?s] show ?case by (auto simp: kv)
qed

text \<open>The items of the name map that the last loop keeps: their id has not been used.\<close>

definition unused_item :: "('i \<Rightarrow> source_id) \<Rightarrow> string list \<Rightarrow> string \<times> 'i \<Rightarrow> bool" where
  "unused_item src used kv \<longleftrightarrow>
     (case src_id (src (snd kv)) of None \<Rightarrow> True | Some i \<Rightarrow> i \<notin> set used)"

lemma secondary_name_fold:
  "mg_out (fold (merge_secondary_name src) kvs s) = mg_out s @ map snd (filter (unused_item src (mg_used s)) kvs)"
proof (induction kvs arbitrary: s)
  case Nil
  then show ?case by simp
next
  case (Cons kv kvs)
  have "mg_used (merge_secondary_name src kv s) = mg_used s"
    and "mg_out (merge_secondary_name src kv s) = mg_out s @ (if unused_item src (mg_used s) kv then [snd kv] else [])"
    by (simp_all add: merge_secondary_name_def unused_item_def split: prod.splits)
  with Cons.IH [of "merge_secondary_name src kv s"] show ?case by simp
qed

text \<open>The shape of the merged list: the primary items, the secondary items of new ids, the rest.\<close>

lemma merge_items_shape:
  assumes "merge_items src sh (Some ps) (Some ss) = Some out" and sh: "is_shuffle sh"
  shows "\<exists>ids names. out = filter (identified src) ps @ map snd ids @ map snd names \<and>
    set ids = {(k, i). k \<notin> ids_of src ps \<and> gm_get (fst (index_by src ss ([], []))) k = Some i} \<and>
    (\<forall>(n, i) \<in> set names. gm_get (snd (index_by src ss ([], []))) n = Some i \<and> src_id (src i) = None)"
proof -
  obtain byID byName where ix: "index_by src ss ([], []) = (byID, byName)" by fastforce
  from index_by_distinct [of "[]" "[]" src ss] ix
  have dist: "distinct (map fst byID)" "distinct (map fst byName)" by auto
  define s0 where "s0 = \<lparr>mg_out = [] :: 'a list, mg_used = [], mg_ids = byID, mg_names = byName\<rparr>"
  define s1 where "s1 = fold (merge_primary_item src) ps s0"
  define s2 where "s2 = fold (merge_secondary_id src) (sh (mg_ids s1)) s1"
  have out: "out = mg_out (fold (merge_secondary_name src) (sh (mg_names s2)) s2)"
    using assms(1) by (simp add: merge_items_def ix Let_def s0_def s1_def s2_def)
  note P = primary_fold [of src ps s0, folded s1_def]
  note I = secondary_id_fold [of src "sh (mg_ids s1)" s1, folded s2_def]
  have P': "mg_out s1 = filter (identified src) ps" "set (mg_used s1) = ids_of src ps"
    "gm_get (mg_ids s1) = gm_get byID |` (- ids_of src ps)"
    "\<And>k i. gm_get (mg_names s1) k = Some i \<Longrightarrow> gm_get byName k = Some i"
    "distinct (map fst (mg_names s1))"
    and d1: "distinct (map fst (mg_ids s1))"
    using P dist by (simp_all add: s0_def)
  have I': "mg_out s2 = mg_out s1 @ map snd (sh (mg_ids s1))"
    "set (mg_used s2) = set (mg_used s1) \<union> fst ` set (sh (mg_ids s1))"
    "\<And>k i. gm_get (mg_names s2) k = Some i \<Longrightarrow> gm_get (mg_names s1) k = Some i"
    and d2: "distinct (map fst (mg_names s2))"
    using I P'(5) by simp_all
  have used: "set (mg_used s2) = ids_of src ps \<union> fst ` set (mg_ids s1)"
    using P'(2) I'(2) sh by simp
  have ids: "set (mg_ids s1) = {(k, i). k \<notin> ids_of src ps \<and> gm_get byID k = Some i}"
    using gm_get_mem [OF d1, symmetric] by (auto simp: P'(3) restrict_map_def split: if_splits)
  let ?N = "filter (unused_item src (mg_used s2)) (sh (mg_names s2))"
  have "out = filter (identified src) ps @ map snd (sh (mg_ids s1)) @ map snd ?N"
    using P'(1) I'(1) by (simp add: out secondary_name_fold)
  moreover have "set (sh (mg_ids s1)) = {(k, i). k \<notin> ids_of src ps \<and> gm_get byID k = Some i}"
    using ids sh by simp
  moreover have "gm_get byName n = Some i \<and> src_id (src i) = None" if "(n, i) \<in> set ?N" for n i
  proof -
    from that sh have "gm_get (mg_names s2) n = Some i" and un: "unused_item src (mg_used s2) (n, i)"
      using gm_get_mem [OF d2] by auto
    then have bn: "gm_get byName n = Some i" using P'(4) I'(3) by blast
    then have "i \<in> set ss" using index_by_name_Some [of src ss n i] ix by auto
    have "src_id (src i) = None"
    proof (rule ccontr)
      assume "src_id (src i) \<noteq> None"
      then obtain k where k: "src_id (src i) = Some k" by auto
      with \<open>i \<in> set ss\<close> have "find (\<lambda>j. src_id (src j) = Some k) (rev ss) \<noteq> None"
        by (auto simp: find_None_set)
      then obtain j where "gm_get byID k = Some j"
        using index_by_id [of src ss "[]" "[]" k] ix by auto
      then have "k \<in> set (mg_used s2)" using ids by (force simp: used)
      with un k show False by (simp add: unused_item_def)
    qed
    with bn show ?thesis by blast
  qed
  ultimately show ?thesis unfolding ix fst_conv snd_conv by blast
qed

lemma find_unique:
  assumes "x \<in> set xs" and "P x" and uniq: "\<And>y. y \<in> set xs \<Longrightarrow> P y \<Longrightarrow> y = x"
  shows "find P xs = Some x"
proof (cases "find P xs")
  case None
  with assms(1,2) show ?thesis by (simp add: find_None_set)
next
  case (Some y)
  then show ?thesis using find_Some_set [OF Some] uniq by simp
qed

lemma find_filter: "(\<And>x. P x \<Longrightarrow> Q x) \<Longrightarrow> find P (filter Q xs) = find P xs"
  by (induction xs) auto

lemma merge_items_id_lookup:
  assumes m: "merge_items src sh (Some ps) (Some ss) = Some out" and sh: "is_shuffle sh"
  shows "gm_get (fst (index_by src out ([], []))) k =
    (case gm_get (fst (index_by src ps ([], []))) k of
       Some i \<Rightarrow> Some i | None \<Rightarrow> gm_get (fst (index_by src ss ([], []))) k)"
proof -
  let ?P = "\<lambda>i. src_id (src i) = Some k"
  from merge_items_shape [OF m sh] obtain ids names where
    out: "out = filter (identified src) ps @ map snd ids @ map snd names"
    and ids: "set ids = {(k, i). k \<notin> ids_of src ps \<and> gm_get (fst (index_by src ss ([], []))) k = Some i}"
    and names: "\<forall>(n, i) \<in> set names. gm_get (snd (index_by src ss ([], []))) n = Some i \<and> src_id (src i) = None"
    by blast
  have N: "find ?P (rev (map snd names)) = None" using names by (auto simp: find_None_set)
  have P: "find ?P (rev (filter (identified src) ps)) = find ?P (rev ps)"
    by (simp only: rev_filter, rule find_filter) (simp add: identified_def)
  have I: "find ?P (rev (map snd ids)) =
      (if k \<in> ids_of src ps then None else gm_get (fst (index_by src ss ([], []))) k)"
  proof (cases "k \<notin> ids_of src ps \<and> (\<exists>i. gm_get (fst (index_by src ss ([], []))) k = Some i)")
    case True
    then obtain i where i: "gm_get (fst (index_by src ss ([], []))) k = Some i" by blast
    have "find ?P (rev (map snd ids)) = Some i"
    proof (rule find_unique)
      show "i \<in> set (rev (map snd ids))" using True i ids by force
      show "src_id (src i) = Some k" using index_by_id_Some [OF i] by simp
      fix y assume "y \<in> set (rev (map snd ids))" "src_id (src y) = Some k"
      then show "y = i" using ids i index_by_id_Some by fastforce
    qed
    with True i show ?thesis by simp
  next
    case False
    have "src_id (src i) \<noteq> Some k" if "(k', i) \<in> set ids" for k' i
    proof -
      from that ids have "k' \<notin> ids_of src ps" and g: "gm_get (fst (index_by src ss ([], []))) k' = Some i"
        by auto
      with False show ?thesis using index_by_id_Some [OF g] by auto
    qed
    then have "find ?P (rev (map snd ids)) = None" by (auto simp: find_None_set)
    with False show ?thesis by auto
  qed
  have "k \<in> ids_of src ps \<longleftrightarrow> find ?P (rev ps) \<noteq> None" by (auto simp: ids_of_def find_None_set)
  with N P I show ?thesis
    by (auto simp: index_by_id out find_append split: option.split)
qed

section \<open>Properties\<close>

text \<open>
  C32. Merging keeps the primary mapping wherever the two lists give a mapping for the same id:
  looking an id up in the merged list yields the primary item if there is one and the secondary
  item otherwise, for networks and for storage, whatever the order in which the maps are ranged over.
\<close>

theorem merge_prefers_primary_by_id:
  assumes "is_shuffle shN" and "is_shuffle shS"
    and "MergeNetworkMappings shN (Some pn) (Some sn) = Some outN"
    and "MergeStorageMappings shS (Some pst) (Some sst) = Some outS"
  shows "(\<forall>k. gm_get (fst (IndexNetworkByIDAndName outN)) k =
       (case gm_get (fst (IndexNetworkByIDAndName pn)) k of
          Some i \<Rightarrow> Some i | None \<Rightarrow> gm_get (fst (IndexNetworkByIDAndName sn)) k)) \<and>
    (\<forall>k. gm_get (fst (IndexStorageItemByIDAndName outS)) k =
       (case gm_get (fst (IndexStorageItemByIDAndName pst)) k of
          Some i \<Rightarrow> Some i | None \<Rightarrow> gm_get (fst (IndexStorageItemByIDAndName sst)) k))"
proof -
  note N = merge_items_id_lookup [OF assms(3) [unfolded MergeNetworkMappings_def] assms(1)]
  note S = merge_items_id_lookup [OF assms(4) [unfolded MergeStorageMappings_def] assms(2)]
  show ?thesis
    unfolding IndexNetworkByIDAndName_def IndexStorageItemByIDAndName_def using N S by blast
qed

definition example_net :: "string option \<Rightarrow> string option \<Rightarrow> string \<Rightarrow> network_item" where
  "example_net i n target =
     \<lparr>ni_source = \<lparr>src_name = n, src_id = i\<rparr>, ni_target = \<lparr>oi_name = target, oi_namespace = None\<rparr>, ni_type = None\<rparr>"

definition example_sto :: "string option \<Rightarrow> string option \<Rightarrow> string \<Rightarrow> storage_item" where
  "example_sto i n target =
     \<lparr>si_source = \<lparr>src_name = n, src_id = i\<rparr>, si_target = \<lparr>oi_name = target, oi_namespace = None\<rparr>, si_volume_mode = None\<rparr>"

lemmas merge_eval =
  MergeNetworkMappings_def MergeStorageMappings_def merge_items_def merge_primary_item_def
  merge_secondary_id_def merge_secondary_name_def drop_name_def example_net_def example_sto_def
  IndexNetworkByIDAndName_def IndexStorageItemByIDAndName_def Let_def

theorem merge_prefers_primary_by_id_witness:
  "\<exists>out. MergeNetworkMappings rev (Some [example_net (Some ''1'') None ''a''])
      (Some [example_net (Some ''1'') None ''b'', example_net (Some ''2'') None ''c'']) = Some out \<and>
    gm_get (fst (IndexNetworkByIDAndName out)) ''1'' = Some (example_net (Some ''1'') None ''a'')"
proof -
  let ?pn = "[example_net (Some ''1'') None ''a'']"
  let ?sn = "[example_net (Some ''1'') None ''b'', example_net (Some ''2'') None ''c'']"
  have N: "MergeNetworkMappings rev (Some ?pn) (Some ?sn) = Some [hd ?pn, last ?sn]"
    by (simp add: merge_eval)
  have S: "MergeStorageMappings rev (Some []) (Some []) = Some []"
    by (simp add: merge_eval)
  have "gm_get (fst (IndexNetworkByIDAndName [hd ?pn, last ?sn])) ''1'' =
      (case gm_get (fst (IndexNetworkByIDAndName ?pn)) ''1'' of
          Some i \<Rightarrow> Some i | None \<Rightarrow> gm_get (fst (IndexNetworkByIDAndName ?sn)) ''1'')"
    using merge_prefers_primary_by_id [OF is_shuffle_rev is_shuffle_rev N S] by blast
  also have "\<dots> = Some (example_net (Some ''1'') None ''a'')" by (simp add: merge_eval)
  finally show ?thesis using N by blast
qed

text \<open>
  The comment of the mergers promises that the primary item wins where the lists conflict, but a
  secondary item with an id of its own and the name of a primary item is appended behind it: looking
  that name up in the merged list yields the secondary item.
\<close>

lemma merge_name_conflict_secondary_wins:
  "\<exists>out. MergeNetworkMappings (\<lambda>xs. xs) (Some [example_net None (Some ''n/p'') ''primary''])
      (Some [example_net (Some ''7'') (Some ''n/p'') ''secondary'']) = Some out \<and>
    gm_get (snd (IndexNetworkByIDAndName out)) ''n/p'' = Some (example_net (Some ''7'') (Some ''n/p'') ''secondary'')"
  by (simp add: merge_eval)

end
