(* ===== verification/OvirtMappingValidation.thy ===== *)
theory OvirtMappingValidation
  imports OvirtValidation Mappings Conditions
begin

text \<open>
  The validation of the resource mappings (\<open>validators/network-mapping-validator.go\<close>,
  \<open>storage-mapping-validator.go\<close>) and the whole of the validation
  (\<open>validator-wrapper.go\<close>, \<open>vm-import-validation.go\<close>).

  The targets that the virtual machine needs are collected in Go maps keyed by the struct
  \<open>ObjectIdentifier\<close>, whose namespace is a pointer: two keys are equal when the names are and the
  pointers are the same.  Each mapping item has a pointer of its own, so the items are numbered and the
  number stands for the pointer.  The \<open>Source\<close> keys of \<open>getRequiredVnicProfiles\<close> are made of fresh
  pointers, so no two of them are equal.  \<open>orders\<close> has the orders in which Go ranges over these maps, and over the map of data volumes.
\<close>

type_synonym network_target = "(string \<times> nat option) \<times> (object_identifier \<times> string option)"

datatype source_type = DiskSource | StorageDomainSource

record mapping_source =
  sr_id :: "string option"
  sr_name :: "string option"
  sr_type :: source_type

type_synonym class_target = "(string \<times> (source_type \<times> nat) option) \<times> mapping_source list"

record orders =
  rd_names :: "string list \<Rightarrow> string list"
  rd_sources :: "source_id list \<Rightarrow> source_id list"
  rd_networks :: "network_target list \<Rightarrow> network_target list"
  rd_classes :: "class_target list \<Rightarrow> class_target list"
  rd_volumes :: "(string, datavolume) gomap \<Rightarrow> (string, datavolume) gomap"

definition fair_orders :: "orders \<Rightarrow> bool" where
  "fair_orders o' \<longleftrightarrow> is_shuffle (rd_names o') \<and> is_shuffle (rd_sources o') \<and> is_shuffle (rd_networks o') \<and> is_shuffle (rd_classes o') \<and> is_shuffle (rd_volumes o')"

section \<open>The network mapping\<close>

type_synonym numbered_items = "(string, nat \<times> network_item) gomap"

definition index_networks :: "network_item list \<Rightarrow> numbered_items \<times> numbered_items" where
  "index_networks items = index_by (\<lambda>ni. ni_source (snd ni)) (enumerate 0 items) ([], [])"

definition target_key :: "nat \<times> network_item \<Rightarrow> string \<times> nat option" where
  "target_key ni = (oi_name (ni_target (snd ni)), map_option (\<lambda>_. fst ni) (oi_namespace (ni_target (snd ni))))"

definition hasAtLeastOneWithVNicProfile :: "ov_nic list \<Rightarrow> bool" where
  "hasAtLeastOneWithVNicProfile nics = list_ex (\<lambda>nic. nc_profile nic \<noteq> None) nics"

definition validateSourceNetworkFormat :: "orders \<Rightarrow> numbered_items \<Rightarrow> ValidationFailure option" where
  "validateSourceNetworkFormat rd mapByName =
     (let invalidNames = filter (\<lambda>k. \<not> Contains k ''/'') (rd_names rd (map fst mapByName))
      in if invalidNames = [] then None
         else Some (failure NetworkMappingID (''Network mapping name format is invalid: '' @ show_strings invalidNames @
                ''. Expected format is '' @ quoted ''network-name/vnic-profile-name'')))"

definition createSourceNetworkIdentifier :: "string option \<Rightarrow> ov_profile \<Rightarrow> source_id option" where
  "createSourceNetworkIdentifier networkName vnic =
     (if vp_id vnic \<noteq> None \<or> networkName \<noteq> None \<and> vp_name vnic \<noteq> None
      then Some \<lparr>src_name = Some (GetNetworkMappingName (str networkName) (str (vp_name vnic))),
                 src_id = Some (str (vp_id vnic))\<rparr>
      else None)"

definition nic_source :: "ov_nic \<Rightarrow> source_id option" where
  "nic_source nic =
     (case nc_profile nic of
        None \<Rightarrow> None
      | Some vnic \<Rightarrow> (case vp_network vnic of
          None \<Rightarrow> None
        | Some networkName \<Rightarrow> createSourceNetworkIdentifier networkName vnic))"

definition getRequiredVnicProfiles :: "orders \<Rightarrow> ov_nic list \<Rightarrow> source_id list" where
  "getRequiredVnicProfiles rd nics = rd_sources rd (concat (map (\<lambda>nic. opt_list (nic_source nic)) nics))"

definition lookup_source :: "numbered_items \<Rightarrow> numbered_items \<Rightarrow> source_id \<Rightarrow> (nat \<times> network_item) option" where
  "lookup_source mapByID mapByName vnic =
     (case (case src_id vnic of None \<Rightarrow> None | Some i \<Rightarrow> gm_get mapByID i) of
        Some item \<Rightarrow> Some item
      | None \<Rightarrow> (case src_name vnic of None \<Rightarrow> None | Some n \<Rightarrow> gm_get mapByName n))"

fun required_networks :: "numbered_items \<Rightarrow> numbered_items \<Rightarrow> source_id list \<Rightarrow>
    (string \<times> nat option, object_identifier \<times> string option) gomap \<Rightarrow> ValidationFailure list \<times> network_target list" where
  "required_networks byID byName [] targets = ([], targets)"
| "required_networks byID byName (vnic # vnics) targets =
     (case lookup_source byID byName vnic of
        Some item \<Rightarrow> required_networks byID byName vnics
          (gm_set (target_key item) (ni_target (snd item), ni_type (snd item)) targets)
      | None \<Rightarrow> (case required_networks byID byName vnics targets of (failures, targets') \<Rightarrow>
          (failure NetworkMappingID (''Required source Vnic Profile '' @
             quoted (ToLoggableID (src_id vnic) (src_name vnic)) @ '' lacks mapping'') # failures, targets')))"

definition maps_to_pod :: "network_item \<Rightarrow> bool" where
  "maps_to_pod item \<longleftrightarrow> ni_type item = None \<or> ni_type item = Some ''pod''"

definition pod_network :: "numbered_items \<Rightarrow> numbered_items \<Rightarrow> ov_nic \<Rightarrow> string option" where
  "pod_network mapByID mapByName nic =
     (let loggable = (\<lambda>item. ToLoggableID (src_id (ni_source item)) (src_name (ni_source item)));
          pod_in = (\<lambda>m k. case k of None \<Rightarrow> None | Some s \<Rightarrow> (case gm_get m s of
              None \<Rightarrow> None | Some ni \<Rightarrow> if maps_to_pod (snd ni) then Some (loggable (snd ni)) else None))
      in case nc_profile nic of
           None \<Rightarrow> None
         | Some p \<Rightarrow> (case pod_in mapByID (vp_id p) of Some s \<Rightarrow> Some s | None \<Rightarrow> pod_in mapByName (vp_name p)))"

definition getPodNetworks :: "ov_nic list \<Rightarrow> numbered_items \<Rightarrow> numbered_items \<Rightarrow> string list" where
  "getPodNetworks nics mapByID mapByName = concat (map (\<lambda>nic. opt_list (pod_network mapByID mapByName nic)) nics)"

definition isValidMultusNetwork :: "object_identifier \<Rightarrow> string \<Rightarrow> ('p, ValidationFailure option) op" where
  "isValidMultusNetwork networkID crNamespace =
     (let namespace = (case oi_namespace networkID of None \<Rightarrow> crNamespace | Some ns \<Rightarrow> ns)
      in gtry (get_nad (namespace, oi_name networkID))
           (\<lambda>e. gret (Some (failure NetworkTargetID (''Network Attachment Defintion '' @
              ToLoggableResourceName (oi_name networkID) (Some namespace) @ '' has not been found. Error: '' @ emsg e))))
           (\<lambda>_. gret None))"

text \<open>The type is printed as a pointer, not as the string it points to.\<close>

definition validateNetwork :: "platform \<Rightarrow> object_identifier \<Rightarrow> string option \<Rightarrow> string \<Rightarrow> ('p, ValidationFailure option) op" where
  "validateNetwork pl networkID networkType crNamespace =
     (let name = ToLoggableResourceName (oi_name networkID) (oi_namespace networkID)
      in case networkType of
           None \<Rightarrow> (case oi_namespace networkID of
               None \<Rightarrow> gret None
             | Some ns \<Rightarrow> gret (Some (failure NetworkTypeID (''Network '' @ name @
                 '' has unspecified network type and target namespace: '' @ ns @
                 ''. When target type is omitted, the namespace must be omitted as well.''))))
         | Some t \<Rightarrow>
             if t = ''pod'' then gret None
             else if t = ''multus'' then isValidMultusNetwork networkID crNamespace
             else gret (Some (failure NetworkTypeID (''Network '' @ name @ '' has unsupported network type: '' @
                    pl_print pl ''*string'' [Some t]))))"

fun validate_networks :: "platform \<Rightarrow> string \<Rightarrow> network_target list \<Rightarrow> ('p, ValidationFailure list) op" where
  "validate_networks pl crNamespace [] = gret []"
| "validate_networks pl crNamespace ((k, networkID, networkType) # targets) =
     gbind (validateNetwork pl networkID networkType crNamespace) (\<lambda>f.
     gbind (validate_networks pl crNamespace targets) (\<lambda>fs. gret (opt_list f @ fs)))"

definition mapNetworkType :: "network_item \<Rightarrow> string \<Rightarrow> string \<times> string" where
  "mapNetworkType mapping crNamespace =
     (oi_name (ni_target mapping), case oi_namespace (ni_target mapping) of None \<Rightarrow> crNamespace | Some ns \<Rightarrow> ns)"

definition matches_nic :: "string \<Rightarrow> ov_profile \<Rightarrow> network_item \<Rightarrow> bool" where
  "matches_nic nicMappingName p mapping \<longleftrightarrow>
     src_name (ni_source mapping) = Some nicMappingName \<or> src_id (ni_source mapping) = Some (str (vp_id p))"

text \<open>The network of the profile is read without a test: an absent one panics.\<close>

definition getSROIVNetworkNameForNic :: "ov_profile \<Rightarrow> network_item list \<Rightarrow> string \<Rightarrow> go_error + string \<times> string" where
  "getSROIVNetworkNameForNic p mappings crNamespace =
     rbind (deref (vp_network p)) (\<lambda>networkName.
       let nicMappingName = GetNetworkMappingName (str networkName) (str (vp_name p))
       in Inr (case find (matches_nic nicMappingName p) mappings of
                 None \<Rightarrow> ([], []) | Some m \<Rightarrow> mapNetworkType m crNamespace))"

text \<open>A configuration whose \<open>type\<close> is not a string fails the type assertion, which panics.\<close>

definition validate_sriov_profile :: "platform \<Rightarrow> ov_profile \<Rightarrow> network_item list \<Rightarrow> string \<Rightarrow> ('p, ValidationFailure option) op" where
  "validate_sriov_profile pl p mapping crNamespace =
     gbind (glift (getSROIVNetworkNameForNic p mapping crNamespace)) (\<lambda>(name, ns).
       let nad = ''Network Attachment Defintion '' @ ToLoggableResourceName name (Some ns)
       in gtry (get_nad (ns, name))
         (\<lambda>e. gret (Some (failure NetworkTargetID (nad @ '' has not been found. Error: '' @ emsg e))))
         (\<lambda>config. case pl_cni_type pl config of
            Inl e \<Rightarrow> gret (Some (failure NetworkConfig (nad @ '' has not correct config. Error: '' @ emsg e)))
          | Inr None \<Rightarrow> gfail (GoErr Panicked ''interface conversion: interface {} is nil, not string'')
          | Inr (Some t) \<Rightarrow> gret (fail_when (t \<noteq> ''sriov'') NetworkTypeID (nad @ '' is not SRIOV network. Error: <nil>''))))"

fun validateSRIOV :: "platform \<Rightarrow> ov_nic list \<Rightarrow> network_item list \<Rightarrow> string \<Rightarrow> ('p, ValidationFailure list) op" where
  "validateSRIOV pl [] mapping crNamespace = gret []"
| "validateSRIOV pl (nic # nics) mapping crNamespace =
     gbind (case nc_profile nic of
              None \<Rightarrow> gret None
            | Some p \<Rightarrow> if IsSRIOV p then validate_sriov_profile pl p mapping crNamespace else gret None) (\<lambda>f.
     gbind (validateSRIOV pl nics mapping crNamespace) (\<lambda>fs. gret (opt_list f @ fs)))"

definition pod_failures :: "string list \<Rightarrow> ValidationFailure list" where
  "pod_failures podNetworks = opt_list (fail_when (length podNetworks > 1) NetworkMultiplePodTargetsID
     (''There are more than one source networks mapped to a pod network: '' @ show_strings podNetworks @ '' ''))"

definition ValidateNetworkMapping :: "platform \<Rightarrow> orders \<Rightarrow> ov_nic list \<Rightarrow> network_item list option \<Rightarrow> string \<Rightarrow>
    ('p, ValidationFailure list) op" where
  "ValidateNetworkMapping pl rd nics mapping crNamespace =
     (case mapping of
        None \<Rightarrow> gret (opt_list (fail_when (hasAtLeastOneWithVNicProfile nics) NetworkMappingID ''Network mapping is missing''))
      | Some items \<Rightarrow>
         (case index_networks items of (mapByID, mapByName) \<Rightarrow>
            case validateSourceNetworkFormat rd mapByName of
              Some f \<Rightarrow> gret [f]
            | None \<Rightarrow>
               (case required_networks mapByID mapByName (getRequiredVnicProfiles rd nics) [] of (failures, targets) \<Rightarrow>
                  gbind (validate_networks pl crNamespace (rd_networks rd targets)) (\<lambda>targetFailures.
                  gbind (validateSRIOV pl nics items crNamespace) (\<lambda>sriovFailures.
                    gret (failures @ pod_failures (getPodNetworks nics mapByID mapByName) @ targetFailures @ sriovFailures))))))"

section \<open>The storage mapping\<close>

type_synonym numbered_storage = "(string, nat \<times> storage_item) gomap"

definition index_storage :: "storage_item list \<Rightarrow> numbered_storage \<times> numbered_storage" where
  "index_storage items = index_by (\<lambda>ni. si_source (snd ni)) (enumerate 0 items) ([], [])"

definition class_key :: "source_type \<Rightarrow> nat \<times> storage_item \<Rightarrow> string \<times> (source_type \<times> nat) option" where
  "class_key t ni = (oi_name (si_target (snd ni)), map_option (\<lambda>_. (t, fst ni)) (oi_namespace (si_target (snd ni))))"

definition item_source :: "source_type \<Rightarrow> storage_item \<Rightarrow> mapping_source" where
  "item_source t item = \<lparr>sr_id = src_id (si_source item), sr_name = src_name (si_source item), sr_type = t\<rparr>"

definition DefaultStorageClassTargetName :: string where
  "DefaultStorageClassTargetName = []"

text \<open>The first lookup that succeeds decides: disk id, disk name, storage domain id, storage domain name.\<close>

definition first_of :: "'a option \<Rightarrow> 'a option \<Rightarrow> 'a option" where
  "first_of x y = (case x of None \<Rightarrow> y | Some _ \<Rightarrow> x)"

lemma first_of_simps [simp]: "first_of None y = y" "first_of (Some a) y = Some a"
  by (simp_all add: first_of_def)

definition disk_class :: "numbered_storage \<times> numbered_storage \<Rightarrow> numbered_storage \<times> numbered_storage \<Rightarrow> ov_disk \<Rightarrow>
    (string \<times> (source_type \<times> nat) option) \<times> mapping_source" where
  "disk_class disks domains disk =
     (let found = (\<lambda>t m k. map_option (\<lambda>ni. (class_key t ni, item_source t (snd ni))) (gm_get m k));
          by_disk = first_of (found DiskSource (fst disks) (str (od_id disk)))
                             (found DiskSource (snd disks) (str (od_alias disk)));
          by_domain = (case od_storage_domain disk of None \<Rightarrow> None
             | Some sd \<Rightarrow> first_of (found StorageDomainSource (fst domains) (str (sd_id sd)))
                                   (found StorageDomainSource (snd domains) (str (sd_name sd))))
      in case first_of by_disk by_domain of
           Some target \<Rightarrow> target
         | None \<Rightarrow> ((DefaultStorageClassTargetName, None),
                    \<lparr>sr_id = Some (str (od_id disk)), sr_name = Some (str (od_alias disk)), sr_type = DiskSource\<rparr>))"

definition add_source :: "(string \<times> (source_type \<times> nat) option) \<times> mapping_source \<Rightarrow> class_target list \<Rightarrow> class_target list" where
  "add_source ks m = gm_set (fst ks) (slice (gm_get m (fst ks)) @ [snd ks]) m"

definition getRequiredStorageClasses :: "ov_attachment list \<Rightarrow> storage_item list \<Rightarrow> storage_item list \<Rightarrow> class_target list" where
  "getRequiredStorageClasses attachments diskMapping storageMapping =
     fold (\<lambda>da m. case da_disk da of
             None \<Rightarrow> m
           | Some disk \<Rightarrow> add_source (disk_class (index_storage diskMapping) (index_storage storageMapping) disk) m)
       attachments []"

definition getCheckID :: "mapping_source \<Rightarrow> CheckID" where
  "getCheckID source = (case sr_type source of DiskSource \<Rightarrow> DiskTargetID | StorageDomainSource \<Rightarrow> StorageTargetID)"

definition show_source_type :: "source_type \<Rightarrow> string" where
  "show_source_type t = (case t of DiskSource \<Rightarrow> ''disk'' | StorageDomainSource \<Rightarrow> ''storage domain'')"

definition loggable_source :: "mapping_source \<Rightarrow> string" where
  "loggable_source s = ToLoggableID (sr_id s) (sr_name s)"

fun validateStorageClasses :: "class_target list \<Rightarrow> ('p, ValidationFailure list) op" where
  "validateStorageClasses [] = gret []"
| "validateStorageClasses ((k, sources) # targets) =
     gbind (if fst k = DefaultStorageClassTargetName
            then gret (map (\<lambda>s. failure StorageTargetDefaultClass
                   (''Default storage class will be used for '' @ loggable_source s @ '' disk '')) sources)
            else gtry (get_storage_class ([], fst k))
              (\<lambda>e. gret (map (\<lambda>s. failure (getCheckID s) (''Storage class '' @ fst k @ '' has not been found for '' @
                   show_source_type (sr_type s) @ '': '' @ loggable_source s @ ''. Error: '' @ emsg e)) sources))
              (\<lambda>_. gret [])) (\<lambda>fs.
     gbind (validateStorageClasses targets) (\<lambda>gs. gret (fs @ gs)))"

definition ValidateStorageMapping :: "orders \<Rightarrow> ov_attachment list \<Rightarrow> storage_item list option \<Rightarrow> storage_item list option \<Rightarrow>
    ('p, ValidationFailure list) op" where
  "ValidateStorageMapping rd attachments storageMapping diskMapping =
     validateStorageClasses (rd_classes rd (getRequiredStorageClasses attachments (slice diskMapping) (slice storageMapping)))"

section \<open>The validation of an import\<close>

definition processFailures :: "ValidationFailure list \<Rightarrow> string \<times> string" where
  "processFailures failures =
     foldl (\<lambda>(warnMessage, errorMessage) f.
        case action_of (vf_id f) of
          Log \<Rightarrow> (warnMessage, errorMessage)
        | Warn \<Rightarrow> (WithMessage warnMessage (vf_message f), errorMessage)
        | Block \<Rightarrow> (warnMessage, WithMessage errorMessage (vf_message f))) ([], []) failures"

definition processMappingValidationFailures :: "time \<Rightarrow> ValidationFailure list \<Rightarrow> condition" where
  "processMappingValidationFailures n failures =
     (case processFailures failures of (warnMessage, errorMessage) \<Rightarrow>
        if errorMessage \<noteq> [] then NewCondition Valid (valid_reason IncompleteMappingRules) errorMessage ConditionFalse n
        else if warnMessage \<noteq> [] then NewCondition Valid (valid_reason ValidationReportedWarnings) warnMessage ConditionTrue n
        else NewCondition Valid (valid_reason ValidationCompleted) ''Validation completed successfully'' ConditionTrue n)"

definition processValidationFailures :: "time \<Rightarrow> ValidationFailure list \<Rightarrow> condition" where
  "processValidationFailures n failures =
     (case processFailures failures of (warnMessage, errorMessage) \<Rightarrow>
        if errorMessage \<noteq> [] then NewCondition MappingRulesVerified (mapping_reason MappingRulesVerificationFailed) errorMessage ConditionFalse n
        else if warnMessage \<noteq> [] then NewCondition MappingRulesVerified (mapping_reason MappingRulesVerificationReportedWarnings) warnMessage ConditionTrue n
        else NewCondition MappingRulesVerified (mapping_reason MappingRulesVerificationCompleted) ''All mapping rules checks passed'' ConditionTrue n)"

text \<open>The mappings are read through a pointer.\<close>

definition validateMappings :: "platform \<Rightarrow> orders \<Rightarrow> ov_vm \<Rightarrow> resource_mappings option \<Rightarrow> string \<Rightarrow> ('p, condition) op" where
  "validateMappings pl rd vm mappings namespace =
     gbind (case ov_nics vm of None \<Rightarrow> gret []
            | Some nics \<Rightarrow> gbind (glift (deref mappings)) (\<lambda>ms. ValidateNetworkMapping pl rd nics (rm_network ms) namespace)) (\<lambda>networkFailures.
     gbind (case ov_disk_attachments vm of None \<Rightarrow> gret []
            | Some das \<Rightarrow> gbind (glift (deref mappings)) (\<lambda>ms. ValidateStorageMapping rd das (rm_storage ms) (rm_disk ms))) (\<lambda>storageFailures.
     gbind now (\<lambda>n.
       gret (processMappingValidationFailures n (networkFailures @ storageFailures)))))"

definition rule_failures :: "platform \<Rightarrow> ov_vm \<Rightarrow> ValidationFailure list" where
  "rule_failures pl vm =
     (case ov_nics vm of None \<Rightarrow> [] | Some nics \<Rightarrow> ValidateNics pl nics) @
     (case ov_disk_attachments vm of None \<Rightarrow> [] | Some das \<Rightarrow> ValidateDiskAttachments pl das)"

definition OvirtValidate :: "platform \<Rightarrow> orders \<Rightarrow> os_finder \<Rightarrow> ov_vm \<Rightarrow> resource_mappings option \<Rightarrow> string \<Rightarrow>
    ('p, condition list) op" where
  "OvirtValidate pl rd f vm mappings namespace =
     gbind (validateMappings pl rd vm mappings namespace) (\<lambda>mappingsCheckResult.
     gbind GetKubeVirtConfig (\<lambda>kvConfig.
     gbind (ValidateVM pl vm kvConfig f) (\<lambda>failures.
     gbind now (\<lambda>n.
       gret [mappingsCheckResult, processValidationFailures n (failures @ rule_failures pl vm)]))))"

end
