(* ===== verification/OvirtMapper.thy ===== *)
theory OvirtMapper
  imports OvirtMappingValidation
begin

text \<open>
  \<open>pkg/providers/ovirt/mapper/mapper.go\<close>: how an oVirt virtual machine becomes a KubeVirt one and how
  its disks become data volumes.  A function that reads through an absent object of the SDK, or through
  a nil pointer of its own, panics; that is a \<open>go_error\<close> of kind \<open>Panicked\<close>.
\<close>

record data_volume_credentials =
  cr_url :: string
  cr_ca_certificate :: string
  cr_key_access :: string
  cr_key_secret :: string
  cr_config_map :: string
  cr_secret :: string

record ovirt_mapper =
  ma_vm :: ov_vm
  ma_mappings :: "resource_mappings option"
  ma_creds :: data_volume_credentials
  ma_namespace :: string
  ma_os_finder :: os_finder

definition vmNamePrefix :: string where "vmNamePrefix = ''ovirt-''"

definition archMapping :: "(string \<times> string) list" where
  "archMapping = [(''x86_64'', ''q35''), (''ppc64'', ''pseries'')]"

text \<open>The result of a call whose error is dropped: the zero value.\<close>

definition or_empty :: "go_error + string \<Rightarrow> string" where
  "or_empty r = (case r of Inl _ \<Rightarrow> [] | Inr s \<Rightarrow> s)"

lemma or_empty_simps [simp]: "or_empty (Inl e) = []" "or_empty (Inr s) = s"
  by (simp_all add: or_empty_def)

definition quantity :: "string \<Rightarrow> int" where
  "quantity s = num (quantity_value s)"

section \<open>Names\<close>

text \<open>\<open>CreateEmptyVM\<close> is the same function in both mappers; it reads through the name.\<close>

definition CreateEmptyVM :: "string option \<Rightarrow> go_error + kubevm" where
  "CreateEmptyVM vmName =
     rbind (deref vmName) (\<lambda>n. Inr (empty_vm
       \<lparr>vm_meta := empty_meta\<lparr>om_labels := Some [''app'' \<mapsto> n]\<rparr>,
        vm_template_spec := Some (empty_template
          \<lparr>tp_labels := Some [''kubevirt.io/domain'' \<mapsto> n, ''vm.kubevirt.io/name'' \<mapsto> n]\<rparr>)\<rparr>))"

definition resolveVMNameBase :: "ovirt_mapper \<Rightarrow> string option \<Rightarrow> string option" where
  "resolveVMNameBase o' targetVMName =
     (case targetVMName of
        Some n \<Rightarrow> Some n
      | None \<Rightarrow> (case ov_name (ma_vm o') of
          None \<Rightarrow> None
        | Some name \<Rightarrow> (case NormalizeName name of Inl _ \<Rightarrow> None | Inr n \<Rightarrow> Some n)))"

definition ResolveVMName :: "ovirt_mapper \<Rightarrow> string option \<Rightarrow> string option" where
  "ResolveVMName o' targetVMName = map_option EnsureLabelValueLength (resolveVMNameBase o' targetVMName)"

definition buildDataVolumeName :: "string \<Rightarrow> string \<Rightarrow> string" where
  "buildDataVolumeName targetVMName diskAttachID = or_empty (NormalizeName (targetVMName @ ''-'' @ diskAttachID))"

section \<open>Disks\<close>

definition mapDiskInterface :: "string \<Rightarrow> string" where
  "mapDiskInterface iface = (if iface = ''virtio_scsi'' then ''virtio'' else iface)"

definition getAccessMode :: "ovirt_mapper \<Rightarrow> ov_attachment \<Rightarrow> access_mode" where
  "getAccessMode o' da =
     (if at_obj (ov_placement_policy (ma_vm o')) = Some ''migratable'' then ReadWriteMany
      else if flag (da_read_only da) then ReadOnlyMany else ReadWriteOnce)"

definition source_is :: "source_id \<Rightarrow> string \<Rightarrow> string \<Rightarrow> bool" where
  "source_is src i n \<longleftrightarrow> src_id src = Some i \<or> src_name src = Some n"

text \<open>The loop over the storage mappings reads the storage domain as soon as an item has an id or a name.\<close>

fun find_domain_mapping :: "ov_domain option \<Rightarrow> storage_item list \<Rightarrow> go_error + storage_item option" where
  "find_domain_mapping sd [] = Inr None"
| "find_domain_mapping sd (m # ms) =
     (if src_id (si_source m) = None \<and> src_name (si_source m) = None then find_domain_mapping sd ms
      else rbind (deref sd) (\<lambda>d.
        if source_is (si_source m) (str (sd_id d)) (str (sd_name d)) then Inr (Some m) else find_domain_mapping sd ms))"

definition getMapping :: "ov_disk \<Rightarrow> resource_mappings option \<Rightarrow> go_error + storage_item option" where
  "getMapping disk mappings =
     rbind (deref mappings) (\<lambda>ms.
       case find (\<lambda>m. source_is (si_source m) (str (od_id disk)) (str (od_alias disk))) (slice (rm_disk ms)) of
         Some m \<Rightarrow> Inr (Some m)
       | None \<Rightarrow> (case rm_storage ms of None \<Rightarrow> Inr None | Some items \<Rightarrow> find_domain_mapping (od_storage_domain disk) items))"

definition DefaultVolumeMode :: string where "DefaultVolumeMode = ''Filesystem''"

definition getVolumeMode :: "storage_item option \<Rightarrow> string option" where
  "getVolumeMode mapping = (case mapping of Some m \<Rightarrow> si_volume_mode m | None \<Rightarrow> Some DefaultVolumeMode)"

definition getStorageClassForDisk :: "storage_item option \<Rightarrow> string option" where
  "getStorageClassForDisk mapping =
     (case mapping of
        Some m \<Rightarrow> (if oi_name (si_target m) \<noteq> DefaultStorageClassTargetName then Some (oi_name (si_target m)) else None)
      | None \<Rightarrow> None)"

definition map_data_volume :: "ovirt_mapper \<Rightarrow> string \<Rightarrow> ov_attachment \<Rightarrow> go_error + datavolume" where
  "map_data_volume o' dvName da =
     rbind (deref (da_disk da)) (\<lambda>disk.
     rbind (FormatBytes (num (od_provisioned_size disk))) (\<lambda>size.
     rbind (getMapping disk (ma_mappings o')) (\<lambda>mapping.
       Inr (empty_datavolume
         \<lparr>dv_meta := empty_meta\<lparr>om_name := dvName, om_namespace := ma_namespace o'\<rparr>,
          dv_from := Imageio (cr_url (ma_creds o')) (str (od_id disk)) (cr_secret (ma_creds o')) (cr_config_map (ma_creds o')),
          dv_access_mode := getAccessMode o' da,
          dv_storage := quantity size,
          dv_volume_mode := getVolumeMode mapping,
          dv_storage_class := getStorageClassForDisk mapping\<rparr>))))"

fun map_data_volumes :: "ovirt_mapper \<Rightarrow> string \<Rightarrow> ov_attachment list \<Rightarrow> (string, datavolume) gomap \<Rightarrow>
    go_error + (string, datavolume) gomap" where
  "map_data_volumes o' targetVMName [] dvs = Inr dvs"
| "map_data_volumes o' targetVMName (da # das) dvs =
     (let dvName = buildDataVolumeName targetVMName (str (da_id da))
      in rbind (map_data_volume o' dvName da) (\<lambda>dv. map_data_volumes o' targetVMName das (gm_set dvName dv dvs)))"

definition MapDataVolumes :: "ovirt_mapper \<Rightarrow> string \<Rightarrow> go_error + (string, datavolume) gomap" where
  "MapDataVolumes o' targetVMName =
     rbind (deref (ov_disk_attachments (ma_vm o'))) (\<lambda>das. map_data_volumes o' targetVMName das [])"

definition getDiskAttachmentByID :: "string \<Rightarrow> ov_attachment list option \<Rightarrow> string \<Rightarrow> go_error + ov_attachment option" where
  "getDiskAttachmentByID dv_name diskAttachments targetVMName =
     rbind (deref diskAttachments) (\<lambda>das.
       Inr (find (\<lambda>da. case da_id da of None \<Rightarrow> False | Some i \<Rightarrow> buildDataVolumeName targetVMName i = dv_name) das))"

definition append_volume :: "vm_volume \<Rightarrow> vm_disk \<Rightarrow> kubevm \<Rightarrow> go_error + kubevm" where
  "append_volume vol dk vm =
     rbind (deref (vm_template_spec vm)) (\<lambda>t.
       let devs = do_devices (tp_domain t)
       in Inr (vm\<lparr>vm_template_spec := Some (t\<lparr>tp_volumes := tp_volumes t @ [vol],
            tp_domain := (tp_domain t)\<lparr>do_devices := devs\<lparr>dv_disks := dv_disks devs @ [dk]\<rparr>\<rparr>\<rparr>)\<rparr>))"

definition disk_volume_name :: "datavolume \<Rightarrow> string" where
  "disk_volume_name dv = EnsureLabelValueLength (''dv-'' @ om_name (dv_meta dv))"

definition MapDisk :: "ovirt_mapper \<Rightarrow> kubevm \<Rightarrow> datavolume \<Rightarrow> go_error + kubevm" where
  "MapDisk o' vmSpec dv =
     (let name = disk_volume_name dv
      in rbind (getDiskAttachmentByID (om_name (dv_meta dv)) (ov_disk_attachments (ma_vm o')) (om_name (vm_meta vmSpec))) (\<lambda>found.
         rbind (deref found) (\<lambda>da.
           append_volume \<lparr>vo_name = name, vo_data_volume = Some (om_name (dv_meta dv))\<rparr>
             \<lparr>dk_name = name, dk_bus = mapDiskInterface (str (da_interface da)),
              dk_boot_order = (if flag (da_bootable da) then Some 1 else None)\<rparr> vmSpec)))"

section \<open>Networks\<close>

definition apply_network_type :: "string \<Rightarrow> bool \<Rightarrow> network_item \<Rightarrow> vm_network \<Rightarrow> vm_network" where
  "apply_network_type namespace sriov mapping net =
     (if maps_to_pod mapping then net\<lparr>nw_pod := True\<rparr>
      else if ni_type mapping = Some ''multus''
      then net\<lparr>nw_multus := Some (if sriov
             then (case oi_namespace (ni_target mapping) of None \<Rightarrow> namespace | Some ns \<Rightarrow> ns) @ ''/'' @ oi_name (ni_target mapping)
             else oi_name (ni_target mapping))\<rparr>
      else net)"

text \<open>The loop goes through all the items: a later match overwrites an earlier one of its kind.\<close>

definition getNetworkForNic :: "ovirt_mapper \<Rightarrow> ov_profile \<Rightarrow> go_error + vm_network" where
  "getNetworkForNic o' p =
     rbind (deref (vp_network p)) (\<lambda>networkName.
     rbind (deref (ma_mappings o')) (\<lambda>ms.
     rbind (deref (rm_network ms)) (\<lambda>items.
       let nicMappingName = GetNetworkMappingName (str networkName) (str (vp_name p))
       in Inr (fold (\<lambda>m net. if matches_nic nicMappingName p m then apply_network_type (ma_namespace o') (IsSRIOV p) m net else net)
            items \<lparr>nw_name = [], nw_pod = False, nw_multus = None\<rparr>))))"

fun map_networks :: "ovirt_mapper \<Rightarrow> ov_nic list \<Rightarrow> go_error + vm_network list" where
  "map_networks o' [] = Inr []"
| "map_networks o' (nic # nics) =
     (case nc_profile nic of
        None \<Rightarrow> map_networks o' nics
      | Some p \<Rightarrow> rbind (getNetworkForNic o' p) (\<lambda>net.
          rbind (map_networks o' nics) (\<lambda>nets.
            Inr (net\<lparr>nw_name := or_empty (NormalizeName (str (nc_name nic)))\<rparr> # nets))))"

definition mapNetworks :: "ovirt_mapper \<Rightarrow> go_error + vm_network list" where
  "mapNetworks o' = rbind (deref (ov_nics (ma_vm o'))) (map_networks o')"

definition mapNetworksToTypes :: "vm_network list \<Rightarrow> (string, string) gomap" where
  "mapNetworksToTypes networks =
     fold (\<lambda>n m. if nw_multus n \<noteq> None then gm_set (nw_name n) ''multus'' m
                 else if nw_pod n then gm_set (nw_name n) ''pod'' m else m) networks []"

definition map_nic :: "(string, string) gomap \<Rightarrow> ov_nic \<Rightarrow> ov_profile \<Rightarrow> vm_interface" where
  "map_nic networkToType nic p =
     (let name = or_empty (NormalizeName (str (nc_name nic)))
      in \<lparr>if_name = name, if_mac = str (at_obj (nc_mac nic)),
          if_model = (if IsSRIOV p then [] else str (nc_interface nic)),
          if_binding = (case gm_get networkToType name of
             None \<Rightarrow> None
           | Some t \<Rightarrow> if t = ''multus'' then Some (if IsSRIOV p then SRIOV else Bridge)
               else if t = ''pod'' then Some Masquerade else None)\<rparr>)"

definition mapNics :: "ovirt_mapper \<Rightarrow> (string, string) gomap \<Rightarrow> go_error + vm_interface list" where
  "mapNics o' networkToType =
     rbind (deref (ov_nics (ma_vm o'))) (\<lambda>nics.
       Inr (concat (map (\<lambda>nic. case nc_profile nic of None \<Rightarrow> [] | Some p \<Rightarrow> [map_nic networkToType nic p]) nics)))"

section \<open>The virtual machine\<close>

definition getBiosType :: "ov_vm \<Rightarrow> go_error + string" where
  "getBiosType vm =
     rbind (deref (ov_bios vm)) (\<lambda>bios. Inr (bios_type_of bios (at_obj (ov_cluster vm))))"

definition mapArchitecture :: "ovirt_mapper \<Rightarrow> go_error + string" where
  "mapArchitecture o' =
     rbind (deref (ov_cpu (ma_vm o'))) (\<lambda>cpu.
       let machine = str (map_of archMapping (str (oc_architecture cpu)))
       in Inr (case ov_custom_emulated_machine (ma_vm o') of
                 None \<Rightarrow> machine
               | Some custom \<Rightarrow> if \<not> Contains custom ''i440fx'' then custom else machine))"

definition mapSerialNumber :: "ovirt_mapper \<Rightarrow> string option" where
  "mapSerialNumber o' =
     (case ov_serial_number (ma_vm o') of
        None \<Rightarrow> None
      | Some sn \<Rightarrow>
          if sn_policy sn = Some ''vm'' then Some (str (ov_id (ma_vm o')))
          else if sn_policy sn = Some ''custom'' then Some (str (sn_value sn)) else None)"

definition mapFirmware :: "ovirt_mapper \<Rightarrow> go_error + vm_firmware" where
  "mapFirmware o' =
     rbind (getBiosType (ma_vm o')) (\<lambda>t.
       Inr \<lparr>fw_bootloader = map_of BiosTypeMapping t, fw_serial = str (mapSerialNumber o')\<rparr>)"

text \<open>\<open>SMM.Enabled\<close> of the features; a firmware type outside the table panics here.\<close>

definition mapFeatures :: "ovirt_mapper \<Rightarrow> go_error + bool option" where
  "mapFeatures o' =
     rbind (getBiosType (ma_vm o')) (\<lambda>t.
     rbind (deref (map_of BiosTypeMapping t)) (\<lambda>bootloader.
       Inr (if bootloader = EFI then Some True else None)))"

text \<open>\<open>uint32(n)\<close> of an \<open>int64\<close> keeps the low 32 bits.\<close>

definition mapCPU :: "ovirt_mapper \<Rightarrow> go_error + vm_cpu" where
  "mapCPU o' =
     (let model = str (ov_custom_cpu_model (ma_vm o'))
      in case ov_cpu (ma_vm o') of
           None \<Rightarrow> Inr (empty_cpu\<lparr>cpu_model := model\<rparr>)
         | Some cpuDef \<Rightarrow>
             (let topology = (\<lambda>sel. case oc_topology cpuDef of None \<Rightarrow> 0 | Some t \<Rightarrow> word_of_int (num (sel t)))
              in rbind (case oc_tune cpuDef of None \<Rightarrow> Inr False | Some tune \<Rightarrow> IsCPUPinningExact tune) (\<lambda>dedicated.
                   Inr \<lparr>cpu_cores = topology to_cores, cpu_sockets = topology to_sockets, cpu_threads = topology to_threads,
                        cpu_model = model, cpu_dedicated = dedicated\<rparr>)))"

definition mapHighAvailability :: "ovirt_mapper \<Rightarrow> go_error + bool option" where
  "mapHighAvailability o' =
     rbind (deref (ov_high_availability (ma_vm o'))) (\<lambda>ha. Inr (Some (flag (ha_enabled ha))))"

definition mapHugePages :: "ovirt_mapper \<Rightarrow> string option" where
  "mapHugePages o' =
     (case find (\<lambda>cp. str (cp_name cp) = ''hugepages'') (slice (ov_custom_properties (ma_vm o'))) of
        None \<Rightarrow> None
      | Some cp \<Rightarrow> Some (str (cp_value cp) @ ''Mi''))"

definition mapResourceRequirements :: "ovirt_mapper \<Rightarrow> bool \<Rightarrow> go_error + vm_resources" where
  "mapResourceRequirements o' dedicatedCPUPlacement =
     rbind (deref (ov_memory_policy (ma_vm o'))) (\<lambda>policy.
     rbind (FormatBytes (num (mo_max policy))) (\<lambda>maxMemory.
     rbind (if dedicatedCPUPlacement then Inr (quantity maxMemory)
            else rbind (FormatBytes (num (ov_memory (ma_vm o')))) (\<lambda>m. Inr (quantity m))) (\<lambda>requested.
       Inr \<lparr>rr_limits_memory = Some (quantity maxMemory), rr_requests_memory = Some requested\<rparr>)))"

definition prepareTabletInputDevice :: "string \<Rightarrow> vm_input" where
  "prepareTabletInputDevice os =
     \<lparr>in_type = ''tablet'',
      in_bus = (if length os \<ge> 3 \<and> EqualFold (take 3 os) ''win'' then ''usb'' else ''virtio''),
      in_name = ''tablet''\<rparr>"

definition mapGraphicalConsoles :: "ovirt_mapper \<Rightarrow> string \<Rightarrow> go_error + vm_devices" where
  "mapGraphicalConsoles o' os =
     rbind (deref (ov_graphics_consoles (ma_vm o'))) (\<lambda>gc.
       Inr (empty_devices
         \<lparr>dv_graphics := (if gc \<noteq> [] then Some True else None),
          dv_inputs := (if gc \<noteq> [] then [prepareTabletInputDevice os] else []),
          dv_serial_console := map_option flag (ov_console (ma_vm o'))\<rparr>))"

definition ovirt_labels :: "ovirt_mapper \<Rightarrow> (string \<rightharpoonup> string) option \<Rightarrow> (string \<rightharpoonup> string)" where
  "ovirt_labels o' vmLabels =
     (let vm = ma_vm o';
          put = (\<lambda>k v m. case v of None \<Rightarrow> m | Some s \<Rightarrow> m(k \<mapsto> s))
      in put ''tags'' (map_option (\<lambda>tags. Join (map str tags) '','') (ov_tags vm))
           (put ''instanceType'' (map_option str (ov_instance_type vm))
             ((map_of_opt vmLabels)(''origin'' \<mapsto> str (ov_origin vm)))))"

definition ovirt_annotations :: "ovirt_mapper \<Rightarrow> go_error + (string \<rightharpoonup> string)" where
  "ovirt_annotations o' =
     (let comment = (case ov_comment (ma_vm o') of None \<Rightarrow> Map.empty | Some c \<Rightarrow> [''comment'' \<mapsto> c])
      in case ov_sso (ma_vm o') of
           None \<Rightarrow> Inr comment
         | Some methods \<Rightarrow> rbind (deref methods) (\<lambda>ms.
             Inr (comment(''sso'' \<mapsto> (if ms \<noteq> [] then ''guest_agent'' else ''disabled'')))))"

definition mapPlacementPolicy :: "ovirt_mapper \<Rightarrow> bool" where
  "mapPlacementPolicy o' \<longleftrightarrow> at_obj (ov_placement_policy (ma_vm o')) = Some ''migratable''"

definition mapTimeZone :: "ovirt_mapper \<Rightarrow> int option" where
  "mapTimeZone o' =
     (case ov_time_zone (ma_vm o') of
        None \<Rightarrow> None
      | Some tz \<Rightarrow> (case oz_utc_offset tz of
          None \<Rightarrow> None
        | Some utcOffset \<Rightarrow> (case ParseUtcOffsetToSeconds utcOffset of Inl _ \<Rightarrow> None | Inr s \<Rightarrow> Some s)))"

text \<open>The metadata that both mappers set: the namespace and the name, or a prefix for a generated one.\<close>

definition name_vm :: "string \<Rightarrow> string \<Rightarrow> string option \<Rightarrow> object_meta \<Rightarrow> object_meta" where
  "name_vm prefix' namespace targetVMName m =
     (case targetVMName of
        None \<Rightarrow> m\<lparr>om_namespace := namespace, om_generate_name := prefix'\<rparr>
      | Some n \<Rightarrow> m\<lparr>om_namespace := namespace, om_name := n\<rparr>)"

definition template_of :: "kubevm \<Rightarrow> vm_template" where
  "template_of vm = (case vm_template_spec vm of None \<Rightarrow> empty_template | Some t \<Rightarrow> t)"

text \<open>What \<open>MapVM\<close> computes before it asks for the operating system.\<close>

definition map_domain :: "ovirt_mapper \<Rightarrow> vm_domain \<Rightarrow> go_error + vm_domain \<times> bool option" where
  "map_domain o' domain =
     rbind (mapCPU o') (\<lambda>cpu.
     rbind (mapFirmware o') (\<lambda>firmware.
     rbind (mapFeatures o') (\<lambda>smm.
     rbind (mapArchitecture o') (\<lambda>machine.
     rbind (mapHighAvailability o') (\<lambda>running.
     rbind (mapResourceRequirements o' (cpu_dedicated cpu)) (\<lambda>resources.
       Inr (domain\<lparr>do_cpu := Some cpu, do_firmware := Some firmware, do_smm := Some smm, do_machine := machine,
                do_hugepages := Some (mapHugePages o'), do_resources := resources\<rparr>, running)))))))"

definition map_networking :: "ovirt_mapper \<Rightarrow> go_error + vm_network list \<times> vm_interface list" where
  "map_networking o' =
     rbind (mapNetworks o') (\<lambda>networks.
     rbind (mapNics o' (mapNetworksToTypes networks)) (\<lambda>interfaces. Inr (networks, interfaces)))"

definition MapVM :: "platform \<Rightarrow> ovirt_mapper \<Rightarrow> string option \<Rightarrow> kubevm \<Rightarrow> ('p, kubevm) op" where
  "MapVM pl o' targetVMName vmSpec =
     (let t = template_of vmSpec;
          hostname = (case ov_fqdn (ma_vm o') of None \<Rightarrow> tp_hostname t | Some fqdn \<Rightarrow> or_empty (NormalizeLabel fqdn))
      in gbind (glift (map_domain o' (tp_domain t))) (\<lambda>(domain, running).
         gbind (gresult (OvirtFindOperatingSystem pl (ma_os_finder o') (ma_vm o'))) (\<lambda>os.
         gbind (glift (mapGraphicalConsoles o' (or_empty os))) (\<lambda>devices.
         gbind (glift (ovirt_annotations o')) (\<lambda>annotations.
         gbind (glift (map_networking o')) (\<lambda>(networks, interfaces).
           gret (vmSpec
             \<lparr>vm_meta := (name_vm vmNamePrefix (ma_namespace o') targetVMName (vm_meta vmSpec))
                \<lparr>om_labels := Some (ovirt_labels o' (om_labels (vm_meta vmSpec))), om_annotations := Some annotations\<rparr>,
              vm_running := running,
              vm_template_spec := Some (t
                \<lparr>tp_hostname := hostname,
                 tp_domain := domain\<lparr>do_devices := devices\<lparr>dv_interfaces := interfaces\<rparr>, do_clock_utc := Some (mapTimeZone o')\<rparr>,
                 tp_networks := networks,
                 tp_live_migrate := mapPlacementPolicy o'\<rparr>)\<rparr>)))))))"

text \<open>The controller ranges over the map of data volumes in an order of the run time.\<close>

definition ranged :: "orders \<Rightarrow> go_error + (string, datavolume) gomap \<Rightarrow> go_error + (string, datavolume) gomap" where
  "ranged rd r = rbind r (\<lambda>dvs. Inr (rd_volumes rd dvs))"

definition ovirt_mapper_ops :: "platform \<Rightarrow> orders \<Rightarrow> ovirt_mapper \<Rightarrow> 'p mapper" where
  "ovirt_mapper_ops pl rd o' = \<lparr>mp_CreateEmptyVM = CreateEmptyVM, mp_ResolveVMName = ResolveVMName o',
     mp_MapVM = MapVM pl o', mp_MapDataVolumes = (\<lambda>n. ranged rd (MapDataVolumes o' n)), mp_MapDisk = MapDisk o'\<rparr>"

lemma silent_MapVM [frame_intros]: "frames silent (MapVM pl o' t vm)"
  unfolding MapVM_def Let_def by (intro silent.frames_combinators frame_intros)

end
