(* ===== verification/VmwareMapper.thy ===== *)
theory VmwareMapper
  imports OvirtMapper "HOL-Library.Signed_Division" "HOL-Library.List_Lexorder" "HOL-Library.Char_ord"
begin

text \<open>
  The VMware side: the properties that govmomi returns, as far as they are read, the finders of operating
  systems and templates (\<open>pkg/providers/vmware/os\<close>, \<open>templates\<close>), and the mapper
  (\<open>pkg/providers/vmware/mapper/mapper.go\<close>).  Pointers and interface values are options; an integer of
  32 bits is a word where the code divides or converts it.
\<close>

section \<open>Objects of govmomi\<close>

datatype vw_nic_backing =
    NetworkBacking "string option" string   \<comment> \<open>reference of the network, \<open>DeviceName\<close>\<close>
  | PortBacking string   \<comment> \<open>\<open>Port.PortgroupKey\<close>\<close>
  | OtherBacking

record vw_card =
  wc_backing :: "vw_nic_backing option"
  wc_mac :: string
  wc_label :: "string option"   \<comment> \<open>\<open>DeviceInfo\<close> and its label\<close>

record vw_disk =
  wd_backing :: "(string option \<times> string) option"   \<comment> \<open>a file backing: datastore and file name\<close>
  wd_capacity_bytes :: int
  wd_capacity_kb :: int
  wd_vdisk_id :: "string option"
  wd_object_id :: string
  wd_label :: "string option"

datatype vw_device =
    VirtualE1000 vw_card | VirtualE1000e vw_card | VirtualVmxnet vw_card | VirtualVmxnet2 vw_card
  | VirtualVmxnet3 vw_card | VirtualDisk vw_disk | OtherDevice

record vw_config =
  wf_devices :: "vw_device list"
  wf_num_cpu :: "32 word"
  wf_cores_per_socket :: "32 word"
  wf_firmware :: string
  wf_uuid :: string
  wf_instance_uuid :: string
  wf_annotation :: string

record vw_properties =
  wp_name :: string
  wp_power_state :: string
  wp_config :: "vw_config option"
  wp_guest_host_name :: "string option"   \<comment> \<open>\<open>Guest\<close> and its \<open>HostName\<close>\<close>
  wp_summary_guest_id :: "string option"   \<comment> \<open>\<open>Summary.Guest\<close> and its \<open>GuestId\<close>\<close>
  wp_config_guest_id :: string
  wp_guest_full_name :: string
  wp_memory_mb :: int
  wp_tags :: "string list"

text \<open>\<open>object.VirtualMachine\<close>: its reference and its inventory path, and \<open>Name\<close>, the base of the path.\<close>

record vw_object =
  wo_reference :: string
  wo_inventory_path :: string

definition path_base :: "string \<Rightarrow> string" where
  "path_base p =
     (let q = TrimRight p ''/''
      in if p = [] then ''.'' else if q = [] then ''/'' else rev (takeWhile (\<lambda>c. c \<noteq> CHR ''/'') (rev q)))"

definition object_name :: "vw_object \<Rightarrow> string" where
  "object_name vm = (if wo_inventory_path vm = [] then [] else path_base (wo_inventory_path vm))"

section \<open>Operating system and template\<close>

definition vmware_default_linux :: string where "vmware_default_linux = ''rhel8''"
definition vmware_default_windows :: string where "vmware_default_windows = ''windows''"

definition vmware_os :: "os_map \<Rightarrow> vw_properties \<Rightarrow> go_error + string" where
  "vmware_os osInfo vm =
     rbind (deref (wp_summary_guest_id vm)) (\<lambda>guestId.
       case osInfo guestId of
         Some os \<Rightarrow> Inr os
       | None \<Rightarrow> (case osInfo (wp_config_guest_id vm) of
           Some os \<Rightarrow> Inr os
         | None \<Rightarrow> let fullName = ToLower (wp_guest_full_name vm)
             in if Contains fullName ''linux'' \<or> Contains fullName ''rhel'' then Inr vmware_default_linux
                else if Contains fullName ''win'' then Inr vmware_default_windows
                else Inl (errorf ''failed to find operating system for the VM'')))"

definition VmwareFindOperatingSystem :: "platform \<Rightarrow> os_finder \<Rightarrow> vw_properties \<Rightarrow> ('p, string) op" where
  "VmwareFindOperatingSystem pl f vm =
     gbind (GetOSMaps pl (of_name f) (of_namespace f)) (\<lambda>(_, osInfo). glift (vmware_os osInfo vm))"

definition serverWorkload :: string where "serverWorkload = ''server''"
definition desktopWorkload :: string where "desktopWorkload = ''desktop''"

definition VmwareFindTemplate :: "platform \<Rightarrow> os_finder \<Rightarrow> vw_properties \<Rightarrow> ('p, template) op" where
  "VmwareFindTemplate pl f vm =
     gbind (VmwareFindOperatingSystem pl f vm) (\<lambda>os.
       let find_templates = (\<lambda>workload. FindTemplates TemplateNamespace (Some os) (Some workload) (Some defaultFlavor))
       in gbind (find_templates serverWorkload) (\<lambda>servers.
          gbind (if servers = [] then find_templates desktopWorkload else gret servers) (\<lambda>ts.
            case newest_first ts of
              [] \<Rightarrow> gfail (errorf (''template not found for '' @ os @ '' OS''))
            | t # _ \<Rightarrow> gret t)))"

definition template_workload :: "template \<Rightarrow> string option" where
  "template_workload t =
     (if tm_labels t (TemplateWorkloadLabel serverWorkload) \<noteq> None then Some serverWorkload
      else if tm_labels t (TemplateWorkloadLabel desktopWorkload) \<noteq> None then Some desktopWorkload
      else None)"

definition VmwareGetMetadata :: "platform \<Rightarrow> os_finder \<Rightarrow> template \<Rightarrow> vw_properties \<Rightarrow>
    ('p, (string, string) gomap \<times> (string, string) gomap) op" where
  "VmwareGetMetadata pl f t vm =
     gbind (VmwareFindOperatingSystem pl f vm) (\<lambda>os.
       let key = TemplateNameOsAnnotation os
       in gret (OSLabelBuilder (Some os) (template_workload t) (Some defaultFlavor),
                [(key, config_value (tm_annotations t) key)]))"

section \<open>The mapper\<close>

record mapper_nic =
  mn_name :: string
  mn_network :: string
  mn_mac :: string
  mn_dvportgroup :: string

record mapper_disk =
  md_backing_file :: string
  md_capacity :: int
  md_datastore_ref :: string
  md_datastore_name :: string
  md_id :: string
  md_name :: string

record vmware_credentials =
  vc_url :: string
  vc_username :: string
  vc_password :: string
  vc_thumbprint :: string
  vc_secret :: string

text \<open>Of the properties of the host the mapper reads the offset of its time zone.\<close>

record vmware_mapper =
  wm_vm :: vw_object
  wm_properties :: vw_properties
  wm_gmt_offset :: "int option"
  wm_credentials :: vmware_credentials
  wm_mappings :: "resource_mappings option"
  wm_namespace :: string
  wm_os_finder :: os_finder

definition vmware_vm_prefix :: string where "vmware_vm_prefix = ''vmware-''"

definition biosTypeMapping :: "(string \<times> bootloader) list" where
  "biosTypeMapping = [(''efi'', EFI), (''bios'', BIOS)]"

subsection \<open>Network interfaces\<close>

fun ethernet_card :: "vw_device \<Rightarrow> vw_card option" where
  "ethernet_card (VirtualE1000 c) = Some c"
| "ethernet_card (VirtualE1000e c) = Some c"
| "ethernet_card (VirtualVmxnet c) = Some c"
| "ethernet_card (VirtualVmxnet2 c) = Some c"
| "ethernet_card (VirtualVmxnet3 c) = Some c"
| "ethernet_card (VirtualDisk d) = None"
| "ethernet_card OtherDevice = None"

definition card_nic :: "vw_card \<Rightarrow> vw_nic_backing \<Rightarrow> go_error + mapper_nic" where
  "card_nic c backing =
     (case backing of
        NetworkBacking network deviceName \<Rightarrow>
          Inr \<lparr>mn_name = deviceName, mn_network = str network, mn_mac = wc_mac c, mn_dvportgroup = []\<rparr>
      | PortBacking key \<Rightarrow> rbind (deref (wc_label c)) (\<lambda>label.
          Inr \<lparr>mn_name = label, mn_network = [], mn_mac = wc_mac c, mn_dvportgroup = key\<rparr>)
      | OtherBacking \<Rightarrow> Inr \<lparr>mn_name = [], mn_network = [], mn_mac = wc_mac c, mn_dvportgroup = []\<rparr>)"

fun build_nics :: "vw_device list \<Rightarrow> go_error + mapper_nic list" where
  "build_nics [] = Inr []"
| "build_nics (d # ds) =
     (case ethernet_card d of
        None \<Rightarrow> build_nics ds
      | Some c \<Rightarrow> (case wc_backing c of
          None \<Rightarrow> build_nics ds
        | Some backing \<Rightarrow> rbind (card_nic c backing) (\<lambda>n. rbind (build_nics ds) (\<lambda>ns. Inr (n # ns)))))"

definition buildNics :: "vmware_mapper \<Rightarrow> go_error + mapper_nic list" where
  "buildNics r = rbind (deref (wp_config (wm_properties r))) (\<lambda>config. build_nics (wf_devices config))"

definition nic_matches :: "mapper_nic \<Rightarrow> network_item \<Rightarrow> bool" where
  "nic_matches n m \<longleftrightarrow>
     src_name (ni_source m) = Some (mn_name n) \<or>
     src_id (ni_source m) = Some (mn_network n) \<or> src_id (ni_source m) = Some (mn_dvportgroup n)"

definition vmware_network_type :: "network_item \<Rightarrow> vm_network \<Rightarrow> vm_network" where
  "vmware_network_type m net =
     (if maps_to_pod m then net\<lparr>nw_pod := True\<rparr>
      else if ni_type m = Some ''multus'' then net\<lparr>nw_multus := Some (oi_name (ni_target m))\<rparr> else net)"

definition vmware_network :: "network_item list \<Rightarrow> mapper_nic \<Rightarrow> vm_network" where
  "vmware_network items n =
     (fold (\<lambda>m net. if nic_matches n m then vmware_network_type m net else net) items
        \<lparr>nw_name = [], nw_pod = False, nw_multus = None\<rparr>)\<lparr>nw_name := or_empty (NormalizeName (mn_name n))\<rparr>"

definition vmware_mapNetworks :: "vmware_mapper \<Rightarrow> network_item list \<Rightarrow> go_error + vm_network list" where
  "vmware_mapNetworks r items = rbind (buildNics r) (\<lambda>nics. Inr (map (vmware_network items) nics))"

definition vmware_interface :: "(string, string) gomap \<Rightarrow> mapper_nic \<Rightarrow> vm_interface option" where
  "vmware_interface networkToType n =
     (let name = or_empty (NormalizeName (mn_name n));
          iface = \<lparr>if_name = name, if_mac = mn_mac n, if_model = ''virtio'', if_binding = None\<rparr>
      in case gm_get networkToType name of
           None \<Rightarrow> None
         | Some t \<Rightarrow> if t = ''multus'' then Some (iface\<lparr>if_binding := Some Bridge\<rparr>)
             else if t = ''pod'' then Some (iface\<lparr>if_binding := Some Masquerade\<rparr>) else None)"

definition mapNetworkInterfaces :: "vmware_mapper \<Rightarrow> (string, string) gomap \<Rightarrow> go_error + vm_interface list" where
  "mapNetworkInterfaces r networkToType =
     rbind (buildNics r) (\<lambda>nics. Inr (concat (map (\<lambda>n. opt_list (vmware_interface networkToType n)) nics)))"

subsection \<open>Disks\<close>

text \<open>The pattern \<open>^\[(.+)\]\<close>: up to the last closing bracket of the line, with something between.\<close>

definition getDatastoreNameFromBacking :: "string \<Rightarrow> string" where
  "getDatastoreNameFromBacking backingFile =
     (case backingFile of
        [] \<Rightarrow> []
      | c # cs \<Rightarrow>
          if c = CHR ''['' then rev (tl (dropWhile (\<lambda>d. d \<noteq> CHR '']'') (rev (takeWhile (\<lambda>d. d \<noteq> CHR 0x0A) cs))))
          else [])"

definition getCapacityForVirtualDisk :: "vw_disk \<Rightarrow> go_error + int" where
  "getCapacityForVirtualDisk d =
     (let bytes = (if wd_capacity_bytes d > 0 then wd_capacity_bytes d else wrap64 (wd_capacity_kb d * 1024))
      in rbind (FormatBytes bytes) (\<lambda>s. Inr (quantity s)))"

definition build_disk :: "vw_disk \<Rightarrow> go_error + mapper_disk" where
  "build_disk d =
     (case wd_backing d of
        None \<Rightarrow> Inl (GoErr Panicked ''interface conversion: the backing is not a file backing'')
      | Some (datastore, fileName) \<Rightarrow>
          rbind (getCapacityForVirtualDisk d) (\<lambda>capacity.
          rbind (deref (wd_label d)) (\<lambda>label.
            Inr \<lparr>md_backing_file = fileName, md_capacity = capacity, md_datastore_ref = str datastore,
                 md_datastore_name = getDatastoreNameFromBacking fileName,
                 md_id = (case wd_vdisk_id d of Some i \<Rightarrow> i | None \<Rightarrow> wd_object_id d), md_name = label\<rparr>)))"

fun build_disks :: "vw_device list \<Rightarrow> go_error + mapper_disk list" where
  "build_disks [] = Inr []"
| "build_disks (VirtualDisk d # ds) = rbind (build_disk d) (\<lambda>x. rbind (build_disks ds) (\<lambda>xs. Inr (x # xs)))"
| "build_disks (_ # ds) = build_disks ds"

definition buildDisks :: "vmware_mapper \<Rightarrow> go_error + mapper_disk list" where
  "buildDisks r = rbind (deref (wp_config (wm_properties r))) (\<lambda>config. build_disks (wf_devices config))"

text \<open>A match whose target is the default class does not end the search.\<close>

definition class_match :: "string \<Rightarrow> string \<Rightarrow> storage_item \<Rightarrow> bool" where
  "class_match i n m \<longleftrightarrow> source_is (si_source m) i n \<and> oi_name (si_target m) \<noteq> DefaultStorageClassTargetName"

definition vmware_storage_class :: "resource_mappings \<Rightarrow> mapper_disk \<Rightarrow> string option" where
  "vmware_storage_class ms d =
     map_option (\<lambda>m. oi_name (si_target m))
       (first_of (find (class_match (md_id d) (md_name d)) (slice (rm_disk ms)))
                 (find (class_match (md_datastore_ref d) (md_datastore_name d)) (slice (rm_storage ms))))"

definition vmware_data_volume :: "vmware_mapper \<Rightarrow> vw_config \<Rightarrow> resource_mappings \<Rightarrow> string \<Rightarrow> mapper_disk \<Rightarrow> datavolume" where
  "vmware_data_volume r config ms dvName d =
     empty_datavolume
       \<lparr>dv_meta := empty_meta\<lparr>om_name := dvName, om_namespace := wm_namespace r\<rparr>,
        dv_from := VDDK (vc_url (wm_credentials r)) (wf_uuid config) (md_backing_file d)
          (vc_thumbprint (wm_credentials r)) (vc_secret (wm_credentials r)),
        dv_access_mode := ReadWriteOnce, dv_storage := md_capacity d,
        dv_storage_class := vmware_storage_class ms d\<rparr>"

definition vmware_MapDataVolumes :: "vmware_mapper \<Rightarrow> string \<Rightarrow> go_error + (string, datavolume) gomap" where
  "vmware_MapDataVolumes r targetVMName =
     rbind (deref (wp_config (wm_properties r))) (\<lambda>config.
     rbind (build_disks (wf_devices config)) (\<lambda>disks.
       if disks = [] then Inr []
       else rbind (deref (wm_mappings r)) (\<lambda>ms.
         Inr (fold (\<lambda>d dvs. let dvName = buildDataVolumeName targetVMName (md_name d)
                in gm_set dvName (vmware_data_volume r config ms dvName d) dvs) disks []))))"

text \<open>The disks are sorted by name after each addition.\<close>

definition sort_disks :: "vm_disk list \<Rightarrow> vm_disk list" where
  "sort_disks ds = sort_key dk_name ds"

definition vmware_MapDisk :: "kubevm \<Rightarrow> datavolume \<Rightarrow> go_error + kubevm" where
  "vmware_MapDisk vmSpec dv =
     (let name = disk_volume_name dv
      in rbind (deref (vm_template_spec vmSpec)) (\<lambda>t.
         let devs = do_devices (tp_domain t)
         in Inr (vmSpec\<lparr>vm_template_spec := Some (t
              \<lparr>tp_volumes := tp_volumes t @ [\<lparr>vo_name = name, vo_data_volume = Some (om_name (dv_meta dv))\<rparr>],
               tp_domain := (tp_domain t)\<lparr>do_devices := devs\<lparr>dv_disks :=
                 sort_disks (dv_disks devs @ [\<lparr>dk_name = name, dk_bus = ''virtio'', dk_boot_order = None\<rparr>])\<rparr>\<rparr>\<rparr>)\<rparr>)))"

subsection \<open>The virtual machine\<close>

definition vmware_resolveVMNameBase :: "vmware_mapper \<Rightarrow> string option \<Rightarrow> string option" where
  "vmware_resolveVMNameBase r targetVMName =
     (case targetVMName of
        Some n \<Rightarrow> Some n
      | None \<Rightarrow> (case NormalizeName (object_name (wm_vm r)) of Inl _ \<Rightarrow> None | Inr n \<Rightarrow> Some n))"

definition vmware_ResolveVMName :: "vmware_mapper \<Rightarrow> string option \<Rightarrow> string option" where
  "vmware_ResolveVMName r targetVMName = map_option EnsureLabelValueLength (vmware_resolveVMNameBase r targetVMName)"

text \<open>A division of \<open>int32\<close>: towards zero, with a panic on zero.\<close>

definition mapCPUTopology :: "vw_config \<Rightarrow> go_error + vm_cpu" where
  "mapCPUTopology config =
     (if wf_cores_per_socket config = 0 then Inl (GoErr Panicked ''integer divide by zero'')
      else Inr (empty_cpu
        \<lparr>cpu_sockets := word_of_int (sint (wf_num_cpu config) sdiv sint (wf_cores_per_socket config)),
         cpu_cores := wf_cores_per_socket config\<rparr>))"

definition vmware_mapFirmware :: "vw_config \<Rightarrow> vm_firmware" where
  "vmware_mapFirmware config =
     \<lparr>fw_bootloader = (case map_of biosTypeMapping (wf_firmware config) of
        None \<Rightarrow> map_of biosTypeMapping ''bios'' | Some b \<Rightarrow> Some b),
      fw_serial = wf_instance_uuid config\<rparr>"

definition vmware_mapFeatures :: "vw_config \<Rightarrow> bool option" where
  "vmware_mapFeatures config = (if map_of biosTypeMapping (wf_firmware config) = Some EFI then Some True else None)"

definition mapResourceReservations :: "vw_properties \<Rightarrow> vm_resources" where
  "mapResourceReservations p =
     empty_resources\<lparr>rr_requests_memory := Some (quantity (Itoa (wp_memory_mb p) @ ''Mi''))\<rparr>"

definition vmware_labels :: "vw_properties \<Rightarrow> (string \<rightharpoonup> string) option \<Rightarrow> (string \<rightharpoonup> string)" where
  "vmware_labels p vmLabels = (map_of_opt vmLabels)(''tags'' \<mapsto> Join (wp_tags p) '','')"

definition vmware_networking :: "vmware_mapper \<Rightarrow> vm_template \<Rightarrow> go_error + vm_network list \<times> vm_interface list" where
  "vmware_networking r t =
     (case (case wm_mappings r of None \<Rightarrow> None | Some ms \<Rightarrow> rm_network ms) of
        None \<Rightarrow> Inr (tp_networks t, dv_interfaces (do_devices (tp_domain t)))
      | Some items \<Rightarrow>
          rbind (vmware_mapNetworks r items) (\<lambda>networks.
          rbind (mapNetworkInterfaces r (mapNetworksToTypes networks)) (\<lambda>interfaces. Inr (networks, interfaces))))"

definition vmware_MapVM :: "platform \<Rightarrow> vmware_mapper \<Rightarrow> string option \<Rightarrow> kubevm \<Rightarrow> ('p, kubevm) op" where
  "vmware_MapVM pl r targetVMName vmSpec =
     (let t = template_of vmSpec; p = wm_properties r
      in gbind (glift (deref (wp_config p))) (\<lambda>config.
         gbind (glift (deref (wp_guest_host_name p))) (\<lambda>hostName.
         gbind (glift (mapCPUTopology config)) (\<lambda>cpu.
         gbind (glift (vmware_networking r t)) (\<lambda>(networks, interfaces).
         gbind (gresult (VmwareFindOperatingSystem pl (wm_os_finder r) p)) (\<lambda>os.
           gret (vmSpec
             \<lparr>vm_meta := (name_vm vmware_vm_prefix (wm_namespace r) targetVMName (vm_meta vmSpec))
                \<lparr>om_labels := Some (vmware_labels p (om_labels (vm_meta vmSpec))),
                 om_annotations := Some [''vmware-description'' \<mapsto> wf_annotation config]\<rparr>,
              vm_running := Some False,
              vm_template_spec := Some (t
                \<lparr>tp_hostname := hd (Split (or_empty (NormalizeName hostName)) CHR ''.''),
                 tp_networks := networks,
                 tp_domain := (tp_domain t)
                   \<lparr>do_machine := ''q35'', do_cpu := Some cpu, do_firmware := Some (vmware_mapFirmware config),
                    do_smm := Some (vmware_mapFeatures config), do_resources := mapResourceReservations p,
                    do_clock_utc := Some (wm_gmt_offset r),
                    do_devices := (do_devices (tp_domain t))
                      \<lparr>dv_interfaces := interfaces, dv_inputs := [prepareTabletInputDevice (or_empty os)], dv_disks := []\<rparr>\<rparr>\<rparr>)\<rparr>)))))))"

definition vmware_mapper_ops :: "platform \<Rightarrow> orders \<Rightarrow> vmware_mapper \<Rightarrow> 'p mapper" where
  "vmware_mapper_ops pl rd r = \<lparr>mp_CreateEmptyVM = CreateEmptyVM, mp_ResolveVMName = vmware_ResolveVMName r,
     mp_MapVM = vmware_MapVM pl r, mp_MapDataVolumes = (\<lambda>n. ranged rd (vmware_MapDataVolumes r n)), mp_MapDisk = vmware_MapDisk\<rparr>"

lemma silent_VmwareFindOperatingSystem [frame_intros]: "frames silent (VmwareFindOperatingSystem pl f vm)"
  unfolding VmwareFindOperatingSystem_def by (intro silent.frames_combinators frame_intros)

lemma silent_VmwareFindTemplate [frame_intros]: "frames silent (VmwareFindTemplate pl f vm)"
  unfolding VmwareFindTemplate_def Let_def by (intro silent.frames_combinators frame_intros)

lemma silent_VmwareGetMetadata [frame_intros]: "frames silent (VmwareGetMetadata pl f t vm)"
  unfolding VmwareGetMetadata_def Let_def by (intro silent.frames_combinators frame_intros)

lemma silent_vmware_MapVM [frame_intros]: "frames silent (vmware_MapVM pl r t vm)"
  unfolding vmware_MapVM_def Let_def by (intro silent.frames_combinators frame_intros)

end
