(* ===== verification/GuestConversion.thy ===== *)
theory GuestConversion
  imports Templates
begin

text \<open>
  \<open>pkg/guestconversion/guestconversion.go\<close>: the job that runs virt-v2v on the imported disks, and the
  libvirt domain that tells it where they are.
\<close>

definition configMapVolumeName :: string where "configMapVolumeName = ''libvirt-domain-xml''"

text \<open>A volume without a data volume source makes these loops panic.\<close>

definition disk_path :: "nat \<Rightarrow> string" where
  "disk_path i = ''/mnt/disks/disk'' @ Itoa (int i)"

fun disk_volumes :: "nat \<Rightarrow> vm_volume list \<Rightarrow> go_error + (job_volume \<times> job_mount) list" where
  "disk_volumes i [] = Inr []"
| "disk_volumes i (v # vs) =
     rbind (deref (vo_data_volume v)) (\<lambda>n.
     rbind (disk_volumes (Suc i) vs) (\<lambda>rest.
       Inr ((\<lparr>jv_name = n, jv_claim = Some n, jv_config_map = None\<rparr>, \<lparr>jm_name = n, jm_path = disk_path i\<rparr>) # rest)))"

definition makeJobVolumeMounts :: "vm_template \<Rightarrow> config_map \<Rightarrow> go_error + job_volume list \<times> job_mount list" where
  "makeJobVolumeMounts t libvirtConfigMap =
     rbind (disk_volumes 0 (tp_volumes t)) (\<lambda>vs. Inr
       (map fst vs @ [\<lparr>jv_name = configMapVolumeName, jv_claim = None, jv_config_map = Some (om_name (cm_meta libvirtConfigMap))\<rparr>],
        map snd vs @ [\<lparr>jm_name = configMapVolumeName, jm_path = ''/mnt/v2v''\<rparr>]))"

definition MakeGuestConversionJobSpec :: "platform \<Rightarrow> kubevm \<Rightarrow> config_map \<Rightarrow> go_error + job" where
  "MakeGuestConversionJobSpec pl vmSpec libvirtConfigMap =
     rbind (deref (vm_template_spec vmSpec)) (\<lambda>t.
     rbind (makeJobVolumeMounts t libvirtConfigMap) (\<lambda>(volumes, mounts).
       Inr \<lparr>jb_meta = empty_meta,
            jb_spec = \<lparr>js_completions = 1, js_parallelism = 1, js_backoff_limit = 0, js_template_labels = None,
              js_restart_policy = ''Never'', js_image = pl_virt_v2v_image pl, js_pull_policy = pl_pull_policy pl,
              js_volumes = volumes, js_mounts = mounts, js_node_selector = [''kubevirt.io/schedulable'' \<mapsto> ''true'']\<rparr>,
            jb_active = 0, jb_failed = 0, jb_succeeded = 0\<rparr>))"

text \<open>\<open>string(rune(n))\<close>: the UTF-8 encoding of a code point below 2048.\<close>

definition rune_string :: "nat \<Rightarrow> string" where
  "rune_string n = (if n < 128 then [char_of n] else [char_of (192 + n div 64), char_of (128 + n mod 64)])"

definition disk_device :: "nat \<Rightarrow> string" where
  "disk_device i = ''hd'' @ rune_string (97 + i)"

definition libvirt_disks :: "vm_volume list \<Rightarrow> libvirt_disk list" where
  "libvirt_disks vs = map (\<lambda>i. \<lparr>ll_file = disk_path i @ ''/disk.img'', ll_dev = disk_device i\<rparr>) [0..<length vs]"

definition MakeLibvirtDomain :: "kubevm \<Rightarrow> go_error + libvirt_domain" where
  "MakeLibvirtDomain vmSpec =
     rbind (deref (vm_template_spec vmSpec)) (\<lambda>t.
     rbind (deref (do_cpu (tp_domain t))) (\<lambda>cpu.
       Inr \<lparr>ld_name = om_name (vm_meta vmSpec),
            ld_memory = (case rr_requests_memory (do_resources (tp_domain t)) of None \<Rightarrow> 0 | Some m \<Rightarrow> m),
            ld_sockets = cpu_sockets cpu, ld_cores = cpu_cores cpu, ld_disks = libvirt_disks (tp_volumes t)\<rparr>))"

section \<open>Lemmas\<close>

lemma disk_volumes_nth:
  assumes "disk_volumes k vs = Inr jv" and "i < length vs"
  shows "length jv = length vs \<and> (\<exists>n. vo_data_volume (vs ! i) = Some n \<and>
           jv ! i = (\<lparr>jv_name = n, jv_claim = Some n, jv_config_map = None\<rparr>, \<lparr>jm_name = n, jm_path = disk_path (k + i)\<rparr>))"
  using assms
proof (induction vs arbitrary: k jv i)
  case (Cons v vs)
  then obtain n rest where n: "vo_data_volume v = Some n" and rest: "disk_volumes (Suc k) vs = Inr rest"
    and jv: "jv = (\<lparr>jv_name = n, jv_claim = Some n, jv_config_map = None\<rparr>, \<lparr>jm_name = n, jm_path = disk_path k\<rparr>) # rest"
    by (auto simp: rbind_Inr)
  have len: "length rest = length vs"
    by (cases vs) (use rest Cons.IH [OF rest, of 0] in auto)
  show ?case
  proof (cases i)
    case 0
    with n jv len show ?thesis by simp
  next
    case (Suc j)
    with Cons.prems Cons.IH [OF rest, of j] jv len show ?thesis by auto
  qed
qed simp

lemma disk_volumes_length: "disk_volumes k vs = Inr jv \<Longrightarrow> length jv = length vs"
  by (cases vs) (use disk_volumes_nth [of k vs jv 0] in auto)

text \<open>C34. The conversion job sees every disk where its libvirt domain says it is: when the job and the
  domain are made from the same virtual machine, the job mounts the data volume of the i-th volume at
  a directory whose \<open>disk.img\<close> is the file of the i-th disk of the domain, and there are no other disks.\<close>

theorem conversion_disks_agree:
  assumes "MakeGuestConversionJobSpec pl vm cm = Inr j" and "MakeLibvirtDomain vm = Inr d"
    and "vm_template_spec vm = Some t"
  shows "length (ld_disks d) = length (tp_volumes t) \<and>
    (\<forall>i < length (tp_volumes t). \<exists>n path.
       vo_data_volume (tp_volumes t ! i) = Some n \<and>
       js_volumes (jb_spec j) ! i = \<lparr>jv_name = n, jv_claim = Some n, jv_config_map = None\<rparr> \<and>
       js_mounts (jb_spec j) ! i = \<lparr>jm_name = n, jm_path = path\<rparr> \<and>
       ll_file (ld_disks d ! i) = path @ ''/disk.img'')"
proof -
  from assms(1,3) obtain jv where jv: "disk_volumes 0 (tp_volumes t) = Inr jv"
    and j: "js_volumes (jb_spec j) = map fst jv @ [\<lparr>jv_name = configMapVolumeName, jv_claim = None, jv_config_map = Some (om_name (cm_meta cm))\<rparr>]"
      "js_mounts (jb_spec j) = map snd jv @ [\<lparr>jm_name = configMapVolumeName, jm_path = ''/mnt/v2v''\<rparr>]"
    by (auto simp: MakeGuestConversionJobSpec_def makeJobVolumeMounts_def rbind_Inr)
  from assms(2,3) have d: "ld_disks d = libvirt_disks (tp_volumes t)"
    by (auto simp: MakeLibvirtDomain_def rbind_Inr)
  note len = disk_volumes_length [OF jv]
  show ?thesis
  proof (intro conjI allI impI)
    show "length (ld_disks d) = length (tp_volumes t)" by (simp add: d libvirt_disks_def)
    fix i assume i: "i < length (tp_volumes t)"
    from disk_volumes_nth [OF jv i] obtain n where "vo_data_volume (tp_volumes t ! i) = Some n"
      and "jv ! i = (\<lparr>jv_name = n, jv_claim = Some n, jv_config_map = None\<rparr>, \<lparr>jm_name = n, jm_path = disk_path i\<rparr>)" by auto
    then show "\<exists>n path. vo_data_volume (tp_volumes t ! i) = Some n \<and>
       js_volumes (jb_spec j) ! i = \<lparr>jv_name = n, jv_claim = Some n, jv_config_map = None\<rparr> \<and>
       js_mounts (jb_spec j) ! i = \<lparr>jm_name = n, jm_path = path\<rparr> \<and>
       ll_file (ld_disks d ! i) = path @ ''/disk.img''"
      using i len by (auto simp: j d nth_append libvirt_disks_def)
  qed
qed

definition example_platform :: platform where
  "example_platform = \<lparr>pl_yaml_map = (\<lambda>s m. Inr m), pl_rules = (\<lambda>s. Some []), pl_cni_type = (\<lambda>s. Inr (Some s)),
     pl_process = (\<lambda>ns t. Inr (tm_objects t)), pl_decode_vm = (\<lambda>s. Inr (Some (empty_vm\<lparr>vm_template_spec :=
       Some (empty_template\<lparr>tp_labels := Some Map.empty\<rparr>)\<rparr>))),
     pl_xml = (\<lambda>d. Inr (ld_name d)), pl_LoadLocation = (\<lambda>s. None), pl_print = (\<lambda>s xs. s), pl_keys = (\<lambda>xs. xs),
     pl_virt_v2v_image = ''virt-v2v'', pl_pull_policy = ''Always''\<rparr>"

definition example_disk_vm :: kubevm where
  "example_disk_vm = empty_vm\<lparr>vm_template_spec := Some (empty_template\<lparr>tp_domain := empty_domain\<lparr>do_cpu := Some empty_cpu\<rparr>,
     tp_volumes := [\<lparr>vo_name = ''dv-a'', vo_data_volume = Some ''a''\<rparr>, \<lparr>vo_name = ''dv-b'', vo_data_volume = Some ''b''\<rparr>]\<rparr>)\<rparr>"

theorem conversion_disks_agree_witness:
  "\<exists>path. js_mounts (jb_spec (projr (MakeGuestConversionJobSpec example_platform example_disk_vm
       \<lparr>cm_meta = empty_meta, cm_data = Map.empty, cm_binary = Map.empty\<rparr>))) ! 1 = \<lparr>jm_name = ''b'', jm_path = path\<rparr> \<and>
     ll_file (ld_disks (projr (MakeLibvirtDomain example_disk_vm)) ! 1) = path @ ''/disk.img''"
proof -
  let ?cm = "\<lparr>cm_meta = empty_meta, cm_data = Map.empty, cm_binary = Map.empty\<rparr>"
  let ?t = "the (vm_template_spec example_disk_vm)"
  have j: "MakeGuestConversionJobSpec example_platform example_disk_vm ?cm =
      Inr (projr (MakeGuestConversionJobSpec example_platform example_disk_vm ?cm))"
    by (simp add: MakeGuestConversionJobSpec_def makeJobVolumeMounts_def example_disk_vm_def)
  have d: "MakeLibvirtDomain example_disk_vm = Inr (projr (MakeLibvirtDomain example_disk_vm))"
    by (simp add: MakeLibvirtDomain_def example_disk_vm_def)
  have t: "vm_template_spec example_disk_vm = Some ?t" by (simp add: example_disk_vm_def)
  have "1 < length (tp_volumes ?t)" and b: "vo_data_volume (tp_volumes ?t ! 1) = Some ''b''"
    by (simp_all add: example_disk_vm_def)
  with conversion_disks_agree [OF j d t] show ?thesis by auto
qed

text \<open>The device names of the domain's disks follow the alphabet for 26 disks, all different from
  each other; the next one is not a letter: the 27th disk is called \<open>hd{\<close>.\<close>

lemma disk_devices:
  "map disk_device [0..<26] = map (\<lambda>c. ''hd'' @ [c]) ''abcdefghijklmnopqrstuvwxyz'' \<and> disk_device 26 = ''hd{''"
  by (intro conjI) (code_simp, code_simp)

end
