(* ===== verification/Providers.thy ===== *)
theory Providers
  imports ControllerProps VmwareMapper GuestConversion
begin

text \<open>
  The two source providers, \<open>pkg/providers/ovirt/provider.go\<close> and \<open>pkg/providers/vmware/provider.go\<close>,
  as values of the record that the controller calls.  \<open>source\<close> has the fields of both provider
  structs (one of them is in use at a time) and the state \<open>'e\<close> of the source system, which only the
  clients touch.  A client is a record of operations on that state, made from the data of the secret:
  the interface \<open>pclient.VMClient\<close> with its factory.
\<close>

record ('e, 'v) vm_client =
  cl_New :: "(string \<rightharpoonup> string) \<Rightarrow> ('e, unit) go"
  cl_GetVM :: "(string \<rightharpoonup> string) \<Rightarrow> string option \<Rightarrow> string option \<Rightarrow> string option \<Rightarrow> string option \<Rightarrow> ('e, 'v) go"
  cl_StopVM :: "(string \<rightharpoonup> string) \<Rightarrow> string \<Rightarrow> ('e, unit) go"
  cl_StartVM :: "(string \<rightharpoonup> string) \<Rightarrow> string \<Rightarrow> ('e, unit) go"
  cl_TestConnection :: "(string \<rightharpoonup> string) \<Rightarrow> ('e, unit) go"
  cl_Close :: "(string \<rightharpoonup> string) \<Rightarrow> ('e, unit) go"

record 'e vmware_client = "('e, vw_object) vm_client" +
  cl_GetVMProperties :: "(string \<rightharpoonup> string) \<Rightarrow> vw_object \<Rightarrow> ('e, vw_properties) go"
  cl_GetVMHostProperties :: "(string \<rightharpoonup> string) \<Rightarrow> vw_object \<Rightarrow> ('e, int option) go"

record 'e source =
  so_meta :: vmimport
  so_os_finder :: os_finder
  so_secret :: "string \<rightharpoonup> string"
  so_instance :: "vmimport option"
  so_mapping :: "resource_mappings option"
  so_ovirt_client :: "(string \<rightharpoonup> string) option"
  so_ovirt_vm :: "ov_vm option"
  so_vmware_client :: "(string \<rightharpoonup> string) option"
  so_vmware_vm :: "vw_object option"
  so_vmware_properties :: "vw_properties option"
  so_external :: 'e

type_synonym ('e, 'a) sop = "('e source, 'a) op"

definition get_source :: "('e source \<Rightarrow> 'a) \<Rightarrow> ('e, 'a) sop" where
  "get_source f = gread (\<lambda>w. f (w_provider w))"

definition set_source :: "('e source \<Rightarrow> 'e source) \<Rightarrow> ('e, unit) sop" where
  "set_source f = gmodify (\<lambda>w. w\<lparr>w_provider := f (w_provider w)\<rparr>)"

definition external :: "('e, 'a) go \<Rightarrow> ('e, 'a) sop" where
  "external m = (\<lambda>w. case m (so_external (w_provider w)) of
     (r, x) \<Rightarrow> (r, w\<lparr>w_provider := (w_provider w)\<lparr>so_external := x\<rparr>\<rparr>))"

text \<open>A new provider: the metadata of the import and the finder of operating systems, nothing else.\<close>

definition new_source :: "vmimport \<Rightarrow> (string \<rightharpoonup> string) \<Rightarrow> 'e source \<Rightarrow> 'e source" where
  "new_source v config old =
     \<lparr>so_meta = v, so_os_finder = \<lparr>of_name = OsConfigMapName config, of_namespace = OsConfigMapNamespace config\<rparr>,
      so_secret = Map.empty, so_instance = None, so_mapping = None, so_ovirt_client = None, so_ovirt_vm = None,
      so_vmware_client = None, so_vmware_vm = None, so_vmware_properties = None, so_external = so_external old\<rparr>"

definition GetVmiNamespacedName :: "('e, nsname) sop" where
  "GetVmiNamespacedName = get_source (\<lambda>s. vi_key (so_meta s))"

text \<open>The checks of \<open>Init\<close>: each attribute is present and not empty.\<close>

fun check_attributes :: "string \<Rightarrow> string list \<Rightarrow> (string \<rightharpoonup> string) \<Rightarrow> go_error + unit" where
  "check_attributes provider_name [] data = Inr ()"
| "check_attributes provider_name (k # ks) data =
     (case data k of
        None \<Rightarrow> Inl (errorf (provider_name @ '' secret must contain '' @ k @ '' attribute''))
      | Some v \<Rightarrow> if v = [] then Inl (errorf (provider_name @ '' secret '' @ k @ '' cannot be empty''))
          else check_attributes provider_name ks data)"

definition init_source :: "platform \<Rightarrow> string \<Rightarrow> string \<Rightarrow> string list \<Rightarrow> secret \<Rightarrow> vmimport \<Rightarrow> ('e, unit) sop" where
  "init_source pl key provider_name attributes sec instance' =
     (case pl_yaml_map pl (config_value (se_data sec) key) Map.empty of
        Inl e \<Rightarrow> gbind (set_source (\<lambda>s. s\<lparr>so_secret := Map.empty\<rparr>)) (\<lambda>_. gfail e)
      | Inr data \<Rightarrow> gbind (set_source (\<lambda>s. s\<lparr>so_secret := data\<rparr>)) (\<lambda>_.
          gbind (glift (check_attributes provider_name attributes data)) (\<lambda>_.
            set_source (\<lambda>s. s\<lparr>so_instance := Some instance'\<rparr>))))"

text \<open>An object of the import is found, or made and created.\<close>

definition ensure_present :: "('e source, 'o) store \<Rightarrow> ('e source, 'o) op \<Rightarrow> ('e, 'o) sop" where
  "ensure_present S create =
     gbind GetVmiNamespacedName (\<lambda>k.
     gbind (FindFor S k) (\<lambda>found. case found of Some x \<Rightarrow> gret x | None \<Rightarrow> create))"

definition create_owned_secret :: "string \<Rightarrow> string \<Rightarrow> ('e, secret) sop" where
  "create_owned_secret keyAccess keySecret =
     gbind (get_source so_meta) (\<lambda>v.
       CreateFor secret_store
         \<lparr>se_meta = empty_meta\<lparr>om_owners := [NewVMImportOwnerReference v]\<rparr>,
          se_data = [''accessKeyId'' \<mapsto> keyAccess, ''secretKey'' \<mapsto> keySecret]\<rparr> (vi_key v))"

section \<open>The oVirt provider\<close>

definition ovirt_getClient :: "('e, ov_vm) vm_client \<Rightarrow> ('e, string \<rightharpoonup> string) sop" where
  "ovirt_getClient C =
     gbind (get_source so_ovirt_client) (\<lambda>client. case client of
       Some c \<Rightarrow> gret c
     | None \<Rightarrow> gbind (get_source so_secret) (\<lambda>data.
         gbind (external (cl_New C data)) (\<lambda>_.
         gbind (set_source (\<lambda>s. s\<lparr>so_ovirt_client := Some data\<rparr>)) (\<lambda>_. gret data))))"

definition ovirt_LoadVM :: "('e, ov_vm) vm_client \<Rightarrow> source_spec \<Rightarrow> ('e, unit) sop" where
  "ovirt_LoadVM C src =
     gbind (glift (deref (ss_ovirt src))) (\<lambda>o'.
     gbind (ovirt_getClient C) (\<lambda>c.
     gbind (external (cl_GetVM C c (os_vm_id o') (os_vm_name o')
         (case os_cluster o' of None \<Rightarrow> None | Some (i, n) \<Rightarrow> n)
         (case os_cluster o' of None \<Rightarrow> None | Some (i, n) \<Rightarrow> i))) (\<lambda>vm.
       set_source (\<lambda>s. s\<lparr>so_ovirt_vm := Some vm\<rparr>))))"

definition load_instance :: "(source_spec \<Rightarrow> ('e, unit) sop) \<Rightarrow> ('e, unit) sop" where
  "load_instance load =
     gbind (get_source so_instance) (\<lambda>i. gbind (glift (deref i)) (\<lambda>v. load (sp_source (vi_spec v))))"

definition ovirt_getVM :: "('e, ov_vm) vm_client \<Rightarrow> ('e, ov_vm) sop" where
  "ovirt_getVM C =
     gbind (get_source so_ovirt_vm) (\<lambda>vm. case vm of
       Some vm \<Rightarrow> gret vm
     | None \<Rightarrow> gbind (load_instance (ovirt_LoadVM C)) (\<lambda>_.
         gbind (get_source so_ovirt_vm) (\<lambda>vm. glift (deref vm))))"

definition ovirt_Init :: "platform \<Rightarrow> secret \<Rightarrow> vmimport \<Rightarrow> ('e, unit) sop" where
  "ovirt_Init pl = init_source pl ''ovirt'' ''oVirt'' [''apiUrl'', ''username'', ''password'', ''caCert'']"

definition ovirt_TestConnection :: "('e, ov_vm) vm_client \<Rightarrow> ('e, unit) sop" where
  "ovirt_TestConnection C = gbind (ovirt_getClient C) (\<lambda>c. external (cl_TestConnection C c))"

text \<open>The error of closing a client is dropped.\<close>

definition ovirt_Close :: "('e, ov_vm) vm_client \<Rightarrow> ('e, unit) sop" where
  "ovirt_Close C =
     gbind (get_source so_ovirt_client) (\<lambda>client. case client of
       None \<Rightarrow> gret () | Some c \<Rightarrow> gbind (gresult (external (cl_Close C c))) (\<lambda>_. gret ()))"

definition ovirt_PrepareResourceMapping :: "mapping_shuffles \<Rightarrow> mapping_spec option \<Rightarrow> source_spec \<Rightarrow> ('e, unit) sop" where
  "ovirt_PrepareResourceMapping sh externalMapping src =
     gbind (glift (deref (ss_ovirt src))) (\<lambda>o'.
       set_source (\<lambda>s. s\<lparr>so_mapping := Some (OvirtMergeMappings sh externalMapping (os_mappings o'))\<rparr>))"

definition ovirt_Validate :: "platform \<Rightarrow> orders \<Rightarrow> ('e, ov_vm) vm_client \<Rightarrow> ('e, condition list) sop" where
  "ovirt_Validate pl rd C =
     gbind (ovirt_getVM C) (\<lambda>vm.
     gbind (get_source (\<lambda>s. (so_os_finder s, so_mapping s, vi_namespace (so_meta s)))) (\<lambda>(f, mappings, ns).
       OvirtValidate pl rd f vm mappings ns))"

definition disk_by_name :: "string \<Rightarrow> ov_vm \<Rightarrow> ov_attachment option" where
  "disk_by_name diskName vm =
     find (\<lambda>da. case da_id da of None \<Rightarrow> False | Some i \<Rightarrow> Contains diskName i) (slice (ov_disk_attachments vm))"

definition ovirt_ValidateDiskStatus :: "('e, ov_vm) vm_client \<Rightarrow> string \<Rightarrow> ('e, bool) sop" where
  "ovirt_ValidateDiskStatus C diskName =
     gbind (load_instance (ovirt_LoadVM C)) (\<lambda>_.
     gbind (get_source so_ovirt_vm) (\<lambda>vm.
     gbind (glift (deref vm)) (\<lambda>vm.
       gret (case disk_by_name diskName vm of None \<Rightarrow> False | Some da \<Rightarrow> ValidateDiskStatus da))))"

definition ovirt_StopVM :: "('e, ov_vm) vm_client \<Rightarrow> vmimport \<Rightarrow> ('e, vmimport) sop" where
  "ovirt_StopVM C instance' =
     gbind (ovirt_getVM C) (\<lambda>vm.
       if ov_status vm = Some ''down'' then gret instance'
       else gbind (ovirt_getClient C) (\<lambda>c.
            gbind (external (cl_StopVM C c (str (ov_id vm)))) (\<lambda>_.
              AddFinalizer instance' RestoreVMStateFinalizer)))"

definition ovirt_StartVM :: "('e, ov_vm) vm_client \<Rightarrow> ('e, unit) sop" where
  "ovirt_StartVM C =
     gbind (ovirt_getVM C) (\<lambda>vm. case ov_id vm of
       None \<Rightarrow> gret ()
     | Some i \<Rightarrow> gbind (ovirt_getClient C) (\<lambda>c. external (cl_StartVM C c i)))"

definition ovirt_GetVMStatus :: "('e, ov_vm) vm_client \<Rightarrow> ('e, string) sop" where
  "ovirt_GetVMStatus C =
     gbind (ovirt_getVM C) (\<lambda>vm.
       if ov_status vm = Some ''down'' then gret VMStatusDown
       else if ov_status vm = Some ''up'' then gret VMStatusUp
       else gfail (errorf (''VM doesn'' @ apos @ ''t have a legal status. Allowed statuses: [up, down]'')))"

definition ovirt_GetVMName :: "('e, ov_vm) vm_client \<Rightarrow> ('e, string) sop" where
  "ovirt_GetVMName C = gbind (ovirt_getVM C) (\<lambda>vm. gret (str (ov_name vm)))"

definition ovirt_FindTemplate :: "platform \<Rightarrow> ('e, ov_vm) vm_client \<Rightarrow> ('e, template) sop" where
  "ovirt_FindTemplate pl C =
     gbind (ovirt_getVM C) (\<lambda>vm. gbind (get_source so_os_finder) (\<lambda>f. OvirtFindTemplate pl f vm))"

definition with_metadata :: "kubevm \<Rightarrow> (string, string) gomap \<times> (string, string) gomap \<Rightarrow> go_error + kubevm" where
  "with_metadata vm meta = rbind (UpdateLabels vm (fst meta)) (\<lambda>vm1. Inr (UpdateAnnotations vm1 (snd meta)))"

definition ovirt_ProcessTemplate :: "platform \<Rightarrow> ('e, ov_vm) vm_client \<Rightarrow> template \<Rightarrow> string option \<Rightarrow> string \<Rightarrow> ('e, kubevm) sop" where
  "ovirt_ProcessTemplate pl C t vmName namespace =
     gbind (HandlerProcessTemplate pl t vmName namespace) (\<lambda>vm.
     gbind (ovirt_getVM C) (\<lambda>sourceVM.
     gbind (get_source so_os_finder) (\<lambda>f.
     gbind (OvirtGetMetadata pl f t sourceVM) (\<lambda>meta. glift (with_metadata vm meta)))))"

definition ensureSecretIsPresent :: "string \<Rightarrow> string \<Rightarrow> ('e, secret) sop" where
  "ensureSecretIsPresent keyAccess keySecret = ensure_present secret_store (create_owned_secret keyAccess keySecret)"

definition createConfigMap :: "string \<Rightarrow> ('e, config_map) sop" where
  "createConfigMap caCert =
     gbind (get_source so_meta) (\<lambda>v.
       CreateFor config_map_store
         \<lparr>cm_meta = empty_meta\<lparr>om_owners := [NewVMImportOwnerReference v]\<rparr>, cm_data = [''ca.pem'' \<mapsto> caCert],
          cm_binary = Map.empty\<rparr> (vi_key v))"

definition ensureConfigMapIsPresent :: "string \<Rightarrow> ('e, config_map) sop" where
  "ensureConfigMapIsPresent caCert = ensure_present config_map_store (createConfigMap caCert)"

definition prepareDataVolumeCredentials :: "('e, data_volume_credentials) sop" where
  "prepareDataVolumeCredentials =
     gbind (get_source so_secret) (\<lambda>data.
     let keyAccess = config_value data ''username''; keySecret = config_value data ''password''; caCert = config_value data ''caCert''
     in gbind (ensureSecretIsPresent keyAccess keySecret) (\<lambda>sec.
        gbind (ensureConfigMapIsPresent caCert) (\<lambda>cm.
          gret \<lparr>cr_url = config_value data ''apiUrl'', cr_ca_certificate = caCert, cr_key_access = keyAccess,
                cr_key_secret = keySecret, cr_config_map = om_name (cm_meta cm), cr_secret = om_name (se_meta sec)\<rparr>)))"

definition ovirt_CreateMapper :: "platform \<Rightarrow> orders \<Rightarrow> ('e, ov_vm) vm_client \<Rightarrow> ('e, 'e source mapper) sop" where
  "ovirt_CreateMapper pl rd C =
     gbind prepareDataVolumeCredentials (\<lambda>creds.
     gbind (ovirt_getVM C) (\<lambda>vm.
     gbind (get_source (\<lambda>s. s)) (\<lambda>s.
       gret (ovirt_mapper_ops pl rd \<lparr>ma_vm = vm, ma_mappings = so_mapping s, ma_creds = creds,
               ma_namespace = vi_namespace (so_meta s), ma_os_finder = so_os_finder s\<rparr>))))"

text \<open>The errors that the steps of a clean-up collect.\<close>

fun run_all :: "('e, unit) sop list \<Rightarrow> ('e, go_error list) sop" where
  "run_all [] = gret []"
| "run_all (m # ms) =
     gbind (gresult m) (\<lambda>r. gbind (run_all ms) (\<lambda>errs. gret (case r of Inl e \<Rightarrow> e # errs | Inr _ \<Rightarrow> errs)))"

definition clean_up :: "(nsname \<Rightarrow> ('e, unit) sop list) \<Rightarrow> vmimport \<Rightarrow> ('e, vmimport) sop" where
  "clean_up steps cr =
     gbind (gresult (RemoveFinalizer cr RestoreVMStateFinalizer)) (\<lambda>r.
     gbind GetVmiNamespacedName (\<lambda>vmiName.
     gbind (run_all (steps vmiName)) (\<lambda>errs.
       case r of
         Inl e \<Rightarrow> gfail (FoldCleanUpErrors (e # errs) vmiName)
       | Inr cr' \<Rightarrow> if errs \<noteq> [] then gfail (FoldCleanUpErrors errs vmiName) else gret cr')))"

definition ovirt_CleanUp :: "bool \<Rightarrow> vmimport \<Rightarrow> ('e, vmimport) sop" where
  "ovirt_CleanUp failure' cr =
     clean_up (\<lambda>k. [DeleteFor secret_store k, DeleteFor config_map_store k] @
       (if failure' then [DeleteDataVolumes k, DeleteVirtualMachine k] else [])) cr"

definition ovirt_provider :: "platform \<Rightarrow> orders \<Rightarrow> mapping_shuffles \<Rightarrow> ('e, ov_vm) vm_client \<Rightarrow> 'e source provider" where
  "ovirt_provider pl rd sh C =
     \<lparr>pv_New = new_source, pv_Init = ovirt_Init pl, pv_TestConnection = ovirt_TestConnection C, pv_Close = ovirt_Close C,
      pv_LoadVM = ovirt_LoadVM C, pv_PrepareResourceMapping = ovirt_PrepareResourceMapping sh,
      pv_Validate = ovirt_Validate pl rd C, pv_ValidateDiskStatus = ovirt_ValidateDiskStatus C, pv_StopVM = ovirt_StopVM C,
      pv_CreateMapper = ovirt_CreateMapper pl rd C, pv_GetVMStatus = ovirt_GetVMStatus C, pv_GetVMName = ovirt_GetVMName C,
      pv_StartVM = ovirt_StartVM C, pv_CleanUp = ovirt_CleanUp, pv_FindTemplate = ovirt_FindTemplate pl C,
      pv_ProcessTemplate = ovirt_ProcessTemplate pl C, pv_NeedsGuestConversion = False,
      pv_GetGuestConversionJob = gret None, pv_LaunchGuestConversionJob = (\<lambda>_. gret None)\<rparr>"

section \<open>The VMware provider\<close>

definition vmware_getClient :: "'e vmware_client \<Rightarrow> ('e, string \<rightharpoonup> string) sop" where
  "vmware_getClient C =
     gbind (get_source so_vmware_client) (\<lambda>client. case client of
       Some c \<Rightarrow> gret c
     | None \<Rightarrow> gbind (get_source so_secret) (\<lambda>data.
         gbind (external (cl_New C data)) (\<lambda>_.
         gbind (set_source (\<lambda>s. s\<lparr>so_vmware_client := Some data\<rparr>)) (\<lambda>_. gret data))))"

definition vmware_LoadVM :: "'e vmware_client \<Rightarrow> source_spec \<Rightarrow> ('e, unit) sop" where
  "vmware_LoadVM C src =
     gbind (vmware_getClient C) (\<lambda>c.
     gbind (glift (deref (ss_vmware src))) (\<lambda>v.
     gbind (external (cl_GetVM C c (vs_vm_id v) (vs_vm_name v) None None)) (\<lambda>vm.
       set_source (\<lambda>s. s\<lparr>so_vmware_vm := Some vm\<rparr>))))"

definition vmware_getVM :: "'e vmware_client \<Rightarrow> ('e, vw_object) sop" where
  "vmware_getVM C =
     gbind (get_source so_vmware_vm) (\<lambda>vm. case vm of
       Some vm \<Rightarrow> gret vm
     | None \<Rightarrow> gbind (load_instance (vmware_LoadVM C)) (\<lambda>_.
         gbind (get_source so_vmware_vm) (\<lambda>vm. glift (deref vm))))"

definition getVmProperties :: "'e vmware_client \<Rightarrow> ('e, vw_properties) sop" where
  "getVmProperties C =
     gbind (vmware_getClient C) (\<lambda>c.
     gbind (vmware_getVM C) (\<lambda>vm.
     gbind (get_source so_vmware_properties) (\<lambda>p. case p of
       Some p \<Rightarrow> gret p
     | None \<Rightarrow> gbind (external (cl_GetVMProperties C c vm)) (\<lambda>p.
         gbind (set_source (\<lambda>s. s\<lparr>so_vmware_properties := Some p\<rparr>)) (\<lambda>_. gret p)))))"

definition vmware_Init :: "platform \<Rightarrow> secret \<Rightarrow> vmimport \<Rightarrow> ('e, unit) sop" where
  "vmware_Init pl = init_source pl ''vmware'' ''vmware'' [''apiUrl'', ''username'', ''password'']"

definition vmware_TestConnection :: "'e vmware_client \<Rightarrow> ('e, unit) sop" where
  "vmware_TestConnection C = gbind (vmware_getClient C) (\<lambda>c. external (cl_TestConnection C c))"

definition vmware_Close :: "'e vmware_client \<Rightarrow> ('e, unit) sop" where
  "vmware_Close C =
     gbind (get_source so_vmware_client) (\<lambda>client. case client of
       None \<Rightarrow> gret () | Some c \<Rightarrow> gbind (gresult (external (cl_Close C c))) (\<lambda>_. gret ()))"

definition vmware_PrepareResourceMapping :: "mapping_shuffles \<Rightarrow> mapping_spec option \<Rightarrow> source_spec \<Rightarrow> ('e, unit) sop" where
  "vmware_PrepareResourceMapping sh externalMapping src =
     gbind (glift (deref (ss_vmware src))) (\<lambda>v.
       set_source (\<lambda>s. s\<lparr>so_mapping := Some (VmwareMergeMappings sh externalMapping (vs_mappings v))\<rparr>))"

definition vmware_Validate :: "('e, condition list) sop" where
  "vmware_Validate = gbind now (\<lambda>n. gret
     [NewCondition Valid (valid_reason ValidationCompleted) ''Validation completed successfully'' ConditionTrue n,
      NewCondition MappingRulesVerified (mapping_reason MappingRulesVerificationCompleted) ''All mapping rules checks passed'' ConditionTrue n])"

definition poweredOff :: string where "poweredOff = ''poweredOff''"
definition poweredOn :: string where "poweredOn = ''poweredOn''"

definition vmware_StopVM :: "'e vmware_client \<Rightarrow> vmimport \<Rightarrow> ('e, vmimport) sop" where
  "vmware_StopVM C instance' =
     gbind (vmware_getClient C) (\<lambda>c.
     gbind (vmware_getVM C) (\<lambda>vm.
     gbind (getVmProperties C) (\<lambda>p.
       if wp_power_state p \<noteq> poweredOff
       then gbind (external (cl_StopVM C c (wo_reference vm))) (\<lambda>_. AddFinalizer instance' RestoreVMStateFinalizer)
       else gret instance')))"

definition vmware_StartVM :: "'e vmware_client \<Rightarrow> ('e, unit) sop" where
  "vmware_StartVM C =
     gbind (vmware_getClient C) (\<lambda>c. gbind (vmware_getVM C) (\<lambda>vm. external (cl_StartVM C c (wo_reference vm))))"

definition vmware_GetVMStatus :: "'e vmware_client \<Rightarrow> ('e, string) sop" where
  "vmware_GetVMStatus C =
     gbind (getVmProperties C) (\<lambda>p.
       if wp_power_state p = poweredOn then gret VMStatusUp
       else if wp_power_state p = poweredOff then gret VMStatusDown
       else gfail (errorf (''VM doesn'' @ apos @ ''t have a legal status. Allowed statuses: [poweredOn, poweredOff]'')))"

definition vmware_GetVMName :: "'e vmware_client \<Rightarrow> ('e, string) sop" where
  "vmware_GetVMName C = gbind (getVmProperties C) (\<lambda>p. gret (wp_name p))"

definition vmware_FindTemplate :: "platform \<Rightarrow> 'e vmware_client \<Rightarrow> ('e, template) sop" where
  "vmware_FindTemplate pl C =
     gbind (getVmProperties C) (\<lambda>p. gbind (get_source so_os_finder) (\<lambda>f. VmwareFindTemplate pl f p))"

definition vmware_ProcessTemplate :: "platform \<Rightarrow> 'e vmware_client \<Rightarrow> template \<Rightarrow> string option \<Rightarrow> string \<Rightarrow> ('e, kubevm) sop" where
  "vmware_ProcessTemplate pl C t vmName namespace =
     gbind (HandlerProcessTemplate pl t vmName namespace) (\<lambda>vm.
     gbind (getVmProperties C) (\<lambda>p.
     gbind (get_source so_os_finder) (\<lambda>f.
     gbind (VmwareGetMetadata pl f t p) (\<lambda>meta. glift (with_metadata vm meta)))))"

definition vmware_ensureSecretIsPresent :: "string \<Rightarrow> string \<Rightarrow> ('e, secret) sop" where
  "vmware_ensureSecretIsPresent username password = ensure_present secret_store (create_owned_secret username password)"

definition vmware_prepareDataVolumeCredentials :: "('e, vmware_credentials) sop" where
  "vmware_prepareDataVolumeCredentials =
     gbind (get_source so_secret) (\<lambda>data.
     let username = config_value data ''username''; password = config_value data ''password''
     in gbind (vmware_ensureSecretIsPresent username password) (\<lambda>sec.
          gret \<lparr>vc_url = config_value data ''apiUrl'', vc_username = username, vc_password = password,
                vc_thumbprint = config_value data ''thumbprint'', vc_secret = om_name (se_meta sec)\<rparr>))"

definition vmware_CreateMapper :: "platform \<Rightarrow> orders \<Rightarrow> 'e vmware_client \<Rightarrow> ('e, 'e source mapper) sop" where
  "vmware_CreateMapper pl rd C =
     gbind vmware_prepareDataVolumeCredentials (\<lambda>creds.
     gbind (vmware_getClient C) (\<lambda>c.
     gbind (vmware_getVM C) (\<lambda>vm.
     gbind (getVmProperties C) (\<lambda>p.
     gbind (external (cl_GetVMHostProperties C c vm)) (\<lambda>offset.
     gbind (get_source (\<lambda>s. s)) (\<lambda>s.
       gret (vmware_mapper_ops pl rd \<lparr>wm_vm = vm, wm_properties = p, wm_gmt_offset = offset, wm_credentials = creds,
               wm_mappings = so_mapping s, wm_namespace = vi_namespace (so_meta s), wm_os_finder = so_os_finder s\<rparr>)))))))"

text \<open>The job is kept after a failure, for its log.\<close>

definition vmware_CleanUp :: "bool \<Rightarrow> vmimport \<Rightarrow> ('e, vmimport) sop" where
  "vmware_CleanUp failure' cr =
     clean_up (\<lambda>k. [DeleteFor secret_store k, DeleteFor config_map_store k] @
       (if failure' then [DeleteDataVolumes k, DeleteVirtualMachine k] else [DeleteFor job_store k])) cr"

definition GetGuestConversionJob :: "('e, job option) sop" where
  "GetGuestConversionJob = gbind GetVmiNamespacedName (FindFor job_store)"

definition create_domain_config_map :: "platform \<Rightarrow> kubevm \<Rightarrow> ('e, config_map) sop" where
  "create_domain_config_map pl vmSpec =
     gbind (get_source so_meta) (\<lambda>v.
     gbind (glift (MakeLibvirtDomain vmSpec)) (\<lambda>d.
     gbind (glift (pl_xml pl d)) (\<lambda>xml.
       CreateFor config_map_store
         \<lparr>cm_meta = empty_meta\<lparr>om_owners := [NewVMImportOwnerReference v]\<rparr>, cm_data = Map.empty,
          cm_binary = [''input.xml'' \<mapsto> xml]\<rparr> (vi_key v))))"

definition createGuestConversionJob :: "platform \<Rightarrow> kubevm \<Rightarrow> config_map \<Rightarrow> ('e, job) sop" where
  "createGuestConversionJob pl vmSpec cm =
     gbind (get_source so_meta) (\<lambda>v.
     gbind (glift (MakeGuestConversionJobSpec pl vmSpec cm)) (\<lambda>j.
       CreateForJob (j\<lparr>jb_meta := (jb_meta j)\<lparr>om_owners := [NewVMImportControllerReference v]\<rparr>\<rparr>) (vi_key v)))"

definition LaunchGuestConversionJob :: "platform \<Rightarrow> kubevm \<Rightarrow> ('e, job option) sop" where
  "LaunchGuestConversionJob pl vmSpec =
     gbind (ensure_present config_map_store (create_domain_config_map pl vmSpec)) (\<lambda>cm.
     gbind (ensure_present job_store (createGuestConversionJob pl vmSpec cm)) (\<lambda>j. gret (Some j)))"

definition vmware_provider :: "platform \<Rightarrow> orders \<Rightarrow> mapping_shuffles \<Rightarrow> 'e vmware_client \<Rightarrow> 'e source provider" where
  "vmware_provider pl rd sh C =
     \<lparr>pv_New = new_source, pv_Init = vmware_Init pl, pv_TestConnection = vmware_TestConnection C, pv_Close = vmware_Close C,
      pv_LoadVM = vmware_LoadVM C, pv_PrepareResourceMapping = vmware_PrepareResourceMapping sh,
      pv_Validate = vmware_Validate, pv_ValidateDiskStatus = (\<lambda>_. gret True), pv_StopVM = vmware_StopVM C,
      pv_CreateMapper = vmware_CreateMapper pl rd C, pv_GetVMStatus = vmware_GetVMStatus C, pv_GetVMName = vmware_GetVMName C,
      pv_StartVM = vmware_StartVM C, pv_CleanUp = vmware_CleanUp, pv_FindTemplate = vmware_FindTemplate pl C,
      pv_ProcessTemplate = vmware_ProcessTemplate pl C, pv_NeedsGuestConversion = True,
      pv_GetGuestConversionJob = GetGuestConversionJob, pv_LaunchGuestConversionJob = LaunchGuestConversionJob pl\<rparr>"

end
