(* ===== verification/ProviderLaws.thy ===== *)
theory ProviderLaws
  imports Providers
begin

text \<open>
  Both providers meet \<open>provider_contract\<close>: every operation leaves the imports alone but for their
  finalizers, and only a clean-up after a failure touches virtual machines and data volumes.  The two
  interpretations, and the one of \<open>providers\<close> on both, give the theorems on \<open>Reconcile\<close> for the program.
\<close>

section \<open>What the steps of the providers change\<close>

lemma quiet_same: "w_imports w' = w_imports w \<Longrightarrow> w_vms w' = w_vms w \<Longrightarrow> w_dvs w' = w_dvs w \<Longrightarrow> quiet w w'"
  by (simp add: quiet_def provider_step_def keeps_disks_def)

lemma quiet_provider_step: "frames quiet m \<Longrightarrow> frames provider_step m"
  by (erule frames_mono) (simp add: quiet_def)

lemma quiet_silent: "frames silent m \<Longrightarrow> frames quiet m"
  by (erule frames_mono) (auto simp: silent_def intro: quiet_same)

lemma quiet_api: "(\<And>w x w'. f w = Inr (x, w') \<Longrightarrow> quiet w w') \<Longrightarrow> frames quiet (api f)"
proof (rule framesI)
  fix w
  assume f: "\<And>w x w'. f w = Inr (x, w') \<Longrightarrow> quiet w w'"
  obtain r w' where a: "api f w = (r, w')" by (cases "api f w")
  have calls: "quiet w (w\<lparr>w_calls := Suc (w_calls w)\<rparr>)" by (simp add: quiet_same)
  from a show "quiet w (snd (api f w))"
    by (cases rule: api_cases) (use a calls quiet.R_trans [OF calls f] in auto)
qed

lemma quiet_source:
  "frames quiet (get_source f)" "frames quiet (set_source g)" "frames quiet (external m)" "frames quiet now"
  by (auto simp: get_source_def set_source_def external_def now_def frames_def intro: quiet_same split: prod.split)

lemma quiet_GetVmiNamespacedName: "frames quiet GetVmiNamespacedName"
  unfolding GetVmiNamespacedName_def by (rule quiet_source)

locale quiet_store = object_store S for S :: "('e source, 'o) store" +
  assumes put_quiet: "quiet w (ob_put S x w)"
begin

lemma quiet_FindFor: "frames quiet (FindFor S k)"
  unfolding FindFor_def list_labelled_def by (intro quiet.frames_combinators quiet_api) (auto simp: quiet.R_refl)

lemma quiet_CreateFor: "frames quiet (CreateFor S x k)"
  unfolding CreateFor_def create_object_def
  by (intro quiet_api) (auto simp: Let_def put_quiet split: if_splits)

lemma quiet_DeleteFor: "frames quiet (DeleteFor S k)"
  unfolding DeleteFor_def delete_object_def
  by (intro quiet.frames_combinators quiet_FindFor quiet_api) (auto simp: put_quiet split: if_splits)

lemma quiet_ensure_present: "frames quiet create \<Longrightarrow> frames quiet (ensure_present S create)"
  unfolding ensure_present_def by (intro quiet.frames_combinators quiet_GetVmiNamespacedName quiet_FindFor)

end

interpretation quiet_secrets: quiet_store secret_store
  by unfold_locales (auto simp: secret_store_def intro: quiet_same)

interpretation quiet_config_maps: quiet_store config_map_store
  by unfold_locales (auto simp: config_map_store_def intro: quiet_same)

interpretation quiet_jobs: quiet_store job_store
  by unfold_locales (auto simp: job_store_def intro: quiet_same)

lemma quiet_put_import:
  assumes "w_imports w k = Some v"
  shows "quiet w (put_import k (v\<lparr>vi_finalizers := fs\<rparr>) w)"
proof -
  have "import_step (w_imports w k') (w_imports (put_import k (v\<lparr>vi_finalizers := fs\<rparr>) w) k')" for k'
    using assms by (cases "k' = k") (auto simp: put_import_def stored_def import_step_def [of "Some v"])
  then show ?thesis by (simp add: quiet_def provider_step_def keeps_disks_def put_import_def)
qed

lemma quiet_patch_finalizers: "frames quiet (patch_finalizers cr fs)"
  unfolding patch_finalizers_def patch_import_def
  by (intro quiet.frames_combinators quiet_api) (auto intro: quiet_put_import split: option.splits if_splits)

lemma quiet_finalizers:
  "frames quiet (AddFinalizer cr f)" "frames quiet (RemoveFinalizer cr f)"
  unfolding AddFinalizer_def RemoveFinalizer_def
  by (intro quiet.frames_combinators quiet_patch_finalizers)+

lemma finalizers_result:
  "AddFinalizer cr f w = (Inr v', w') \<Longrightarrow> \<exists>fs. v' = cr\<lparr>vi_finalizers := fs\<rparr>"
  "RemoveFinalizer cr f w = (Inr v', w') \<Longrightarrow> \<exists>fs. v' = cr\<lparr>vi_finalizers := fs\<rparr>"
  using finalizers_same(1) [of cr f w v' w'] finalizers_same(2) [of cr f w v' w']
  by (simp_all add: same_but_finalizers_def)

lemmas quiet_frames = quiet_source quiet_GetVmiNamespacedName quiet_finalizers
  quiet_secrets.quiet_FindFor quiet_secrets.quiet_CreateFor quiet_secrets.quiet_DeleteFor quiet_secrets.quiet_ensure_present
  quiet_config_maps.quiet_CreateFor quiet_config_maps.quiet_DeleteFor quiet_config_maps.quiet_ensure_present
  quiet_jobs.quiet_FindFor quiet_jobs.quiet_CreateFor quiet_jobs.quiet_DeleteFor quiet_jobs.quiet_ensure_present

text \<open>A clean-up after a failure deletes what was made for the import.\<close>

lemma step_same: "w_imports w' = w_imports w \<Longrightarrow> provider_step w w'"
  by (simp add: provider_step_def)

lemma step_api:
  assumes f: "\<And>w x w'. f w = Inr (x, w') \<Longrightarrow> w_imports w' = w_imports w"
  shows "frames provider_step (api f)"
proof (rule framesI)
  fix w
  obtain r w' where a: "api f w = (r, w')" by (cases "api f w")
  then have "w_imports w' = w_imports w"
    by (cases rule: api_cases) (use f in force)+
  then show "provider_step w (snd (api f w))" by (simp add: a step_same)
qed

lemma step_gets: "frames provider_step (get_dv k)" "frames provider_step (get_vm k)" "frames provider_step (get_import k)"
  unfolding get_dv_def get_vm_def get_import_def get_from_def
  by (intro step_api; auto split: option.splits)+

lemma step_find_dvs: "frames provider_step (find_dvs ns names)"
  by (induction names) (simp_all only: find_dvs.simps, (intro provider_step.frames_combinators step_gets | assumption)+)

lemma step_delete_dvs: "frames provider_step (delete_dvs dvs)"
proof (induction dvs)
  case (Cons dv dvs)
  have "frames provider_step (delete_dv (om_key (dv_meta dv)))"
    unfolding delete_dv_def by (intro step_api) (auto split: if_splits)
  with Cons show ?case unfolding delete_dvs.simps by (intro provider_step.frames_combinators)
qed (simp only: delete_dvs.simps provider_step.frames_gret)

lemma step_deletions:
  "frames provider_step (DeleteDataVolumes k)" "frames provider_step (DeleteVirtualMachine k)"
proof -
  show "frames provider_step (DeleteDataVolumes k)"
    unfolding DeleteDataVolumes_def FindDataVolumes_def
    by (intro provider_step.frames_combinators step_gets step_find_dvs step_delete_dvs)
  have "frames provider_step (delete_vm k')" for k'
    unfolding delete_vm_def by (intro step_api) (auto split: if_splits)
  then show "frames provider_step (DeleteVirtualMachine k)"
    unfolding DeleteVirtualMachine_def FindVirtualMachine_def
    by (intro provider_step.frames_combinators step_gets)
qed

lemma quiet_run_all: "(\<And>m. m \<in> set ms \<Longrightarrow> frames quiet m) \<Longrightarrow> frames quiet (run_all ms)"
  by (induction ms) (simp_all only: run_all.simps list.set_intros, (intro quiet.frames_combinators | simp)+)

lemma step_run_all: "(\<And>m. m \<in> set ms \<Longrightarrow> frames provider_step m) \<Longrightarrow> frames provider_step (run_all ms)"
  by (induction ms) (simp_all only: run_all.simps list.set_intros, (intro provider_step.frames_combinators | simp)+)

lemma quiet_clean_up: "(\<And>k m. m \<in> set (steps k) \<Longrightarrow> frames quiet m) \<Longrightarrow> frames quiet (clean_up steps cr)"
  unfolding clean_up_def by (intro quiet.frames_combinators quiet_frames quiet_run_all)

lemma step_clean_up: "(\<And>k m. m \<in> set (steps k) \<Longrightarrow> frames provider_step m) \<Longrightarrow> frames provider_step (clean_up steps cr)"
  unfolding clean_up_def
  by (intro provider_step.frames_combinators quiet_frames [THEN quiet_provider_step] step_run_all)

lemma clean_up_result: "clean_up steps cr w = (Inr v', w') \<Longrightarrow> \<exists>fs. v' = cr\<lparr>vi_finalizers := fs\<rparr>"
  by (auto simp: clean_up_def gresult_def gbind_returns gtry_returns split: sum.splits if_splits dest!: finalizers_result(2))

lemma quiet_init_source: "frames quiet (init_source pl key n attrs s v)"
  unfolding init_source_def by (intro quiet.frames_combinators quiet_frames)

lemma quiet_load_instance: "(\<And>src. frames quiet (load src)) \<Longrightarrow> frames quiet (load_instance load)"
  unfolding load_instance_def by (intro quiet.frames_combinators quiet_frames)

lemma quiet_HandlerProcessTemplate: "frames quiet (HandlerProcessTemplate pl t n ns)"
  by (rule quiet_silent) (rule silent_ProcessTemplate)

lemma quiet_create_owned_secret: "frames quiet (create_owned_secret a b)"
  unfolding create_owned_secret_def by (intro quiet.frames_combinators quiet_frames)

section \<open>oVirt\<close>

lemma silent_validation [frame_intros]:
  "frames silent (validate_networks pl ns targets)" "frames silent (validateSRIOV pl nics items ns)"
  "frames silent (validateStorageClasses classes)"
proof -
  have net: "frames silent (validateNetwork pl i t ns)" for pl i t ns
    unfolding validateNetwork_def isValidMultusNetwork_def Let_def by (intro silent.frames_combinators frame_intros)
  show "frames silent (validate_networks pl ns targets)"
    by (induction pl ns targets rule: validate_networks.induct)
      (simp_all only: validate_networks.simps, (intro silent.frames_combinators net | assumption)+)
  have profile: "frames silent (validate_sriov_profile pl p items ns)" for p
    unfolding validate_sriov_profile_def Let_def by (intro silent.frames_combinators frame_intros)
  show "frames silent (validateSRIOV pl nics items ns)"
    by (induction nics) (simp_all only: validateSRIOV.simps, (intro silent.frames_combinators profile | assumption)+)
  show "frames silent (validateStorageClasses classes)"
    by (induction classes rule: validateStorageClasses.induct)
      (simp_all only: validateStorageClasses.simps, (intro silent.frames_combinators frame_intros | assumption)+)
qed

lemma silent_OvirtValidate: "frames silent (OvirtValidate pl rd f vm mappings ns)"
  unfolding OvirtValidate_def validateMappings_def ValidateNetworkMapping_def ValidateStorageMapping_def
    ValidateVM_def isMemoryAboveRequests_def now_def
  by (intro silent.frames_combinators frame_intros)

lemma ovirt_client_frames:
  "frames quiet (ovirt_getClient C)" "frames quiet (ovirt_LoadVM C src)" "frames quiet (ovirt_getVM C)"
proof -
  show c: "frames quiet (ovirt_getClient C)"
    unfolding ovirt_getClient_def by (intro quiet.frames_combinators quiet_frames)
  show l: "frames quiet (ovirt_LoadVM C src)" for src
    unfolding ovirt_LoadVM_def by (intro quiet.frames_combinators quiet_frames c)
  show "frames quiet (ovirt_getVM C)"
    unfolding ovirt_getVM_def by (intro quiet.frames_combinators quiet_frames quiet_load_instance l)
qed

lemma ovirt_mapper_frames:
  assumes "ovirt_CreateMapper pl rd C w = (Inr mapper, w')"
  shows "frames quiet (mp_MapVM mapper t vm)"
proof -
  from assms obtain o' where "mapper = ovirt_mapper_ops pl rd o'"
    by (auto simp: ovirt_CreateMapper_def gbind_returns)
  then show ?thesis by (simp add: ovirt_mapper_ops_def quiet_silent silent_MapVM)
qed

lemma OvirtValidate_result:
  assumes "OvirtValidate pl rd f vm mappings ns w = (Inr cs, w')" and "c \<in> set cs"
  shows "c_reason c \<noteq> None \<and> c_type c \<in> {Valid, MappingRulesVerified}"
proof -
  have m: "c_reason (processMappingValidationFailures n fs) \<noteq> None \<and> c_type (processMappingValidationFailures n fs) = Valid" for n fs
    by (simp add: processMappingValidationFailures_def NewCondition_def split: prod.split)
  have r: "c_reason (processValidationFailures n fs) \<noteq> None \<and> c_type (processValidationFailures n fs) = MappingRulesVerified" for n fs
    by (simp add: processValidationFailures_def NewCondition_def split: prod.split)
  from assms(1) obtain n1 fs1 n2 fs2 where "cs = [processMappingValidationFailures n1 fs1, processValidationFailures n2 fs2]"
    by (auto simp: OvirtValidate_def validateMappings_def gbind_returns)
  with assms(2) m r show ?thesis by auto
qed

interpretation ovirt: provider_contract "ovirt_provider pl rd sh C" for pl rd sh C
proof unfold_locales
  fix s v src m n t vm tpl ns failure'
  let ?P = "ovirt_provider pl rd sh C"
  note prov = quiet.frames_combinators quiet_frames ovirt_client_frames quiet_load_instance quiet_HandlerProcessTemplate
  show "frames quiet (pv_Init ?P s v)"
    by (simp add: ovirt_provider_def ovirt_Init_def quiet_init_source)
  show "frames quiet (pv_TestConnection ?P)"
    by (simp add: ovirt_provider_def ovirt_TestConnection_def) (intro prov)
  show "frames quiet (pv_Close ?P)"
    by (simp add: ovirt_provider_def ovirt_Close_def) (intro prov)
  show "frames quiet (pv_LoadVM ?P src)"
    by (simp add: ovirt_provider_def ovirt_client_frames)
  show "frames quiet (pv_PrepareResourceMapping ?P m src)"
    by (simp add: ovirt_provider_def ovirt_PrepareResourceMapping_def) (intro prov)
  show "frames quiet (pv_Validate ?P)"
    by (simp add: ovirt_provider_def ovirt_Validate_def) (intro prov quiet_silent silent_OvirtValidate)
  show "frames quiet (pv_ValidateDiskStatus ?P n)"
    by (simp add: ovirt_provider_def ovirt_ValidateDiskStatus_def) (intro prov)
  show "frames quiet (pv_StopVM ?P v)"
    by (simp add: ovirt_provider_def ovirt_StopVM_def) (intro prov)
  show "frames quiet (pv_CreateMapper ?P)"
    by (simp add: ovirt_provider_def ovirt_CreateMapper_def prepareDataVolumeCredentials_def ensureSecretIsPresent_def
        ensureConfigMapIsPresent_def createConfigMap_def Let_def) (intro prov quiet_create_owned_secret)
  show "frames quiet (pv_GetVMStatus ?P)"
    by (simp add: ovirt_provider_def ovirt_GetVMStatus_def) (intro prov)
  show "frames quiet (pv_GetVMName ?P)"
    by (simp add: ovirt_provider_def ovirt_GetVMName_def) (intro prov)
  show "frames quiet (pv_StartVM ?P)"
    by (simp add: ovirt_provider_def ovirt_StartVM_def) (intro prov)
  show "frames quiet (pv_CleanUp ?P False v)"
    by (simp add: ovirt_provider_def ovirt_CleanUp_def) (rule quiet_clean_up, auto intro: quiet_frames)
  show "frames provider_step (pv_CleanUp ?P failure' v)"
    by (simp add: ovirt_provider_def ovirt_CleanUp_def)
      (rule step_clean_up, auto intro: quiet_frames [THEN quiet_provider_step] step_deletions split: if_splits)
  show "frames quiet (pv_FindTemplate ?P)"
    by (simp add: ovirt_provider_def ovirt_FindTemplate_def) (intro prov quiet_silent [OF silent_OvirtFindTemplate])
  show "frames quiet (pv_ProcessTemplate ?P tpl t ns)"
    by (simp add: ovirt_provider_def ovirt_ProcessTemplate_def) (intro prov quiet_silent [OF silent_OvirtGetMetadata])
  show "frames quiet (pv_GetGuestConversionJob ?P)"
    by (simp add: ovirt_provider_def quiet.frames_gret)
  show "frames quiet (pv_LaunchGuestConversionJob ?P vm)"
    by (simp add: ovirt_provider_def quiet.frames_gret)
next
  fix w cs w' c
  assume "pv_Validate (ovirt_provider pl rd sh C) w = (Inr cs, w')" "c \<in> set cs"
  then show "c_reason c \<noteq> None \<and> c_type c \<in> {Valid, MappingRulesVerified}"
    by (auto simp: ovirt_provider_def ovirt_Validate_def gbind_returns simp del: gread_apply dest!: OvirtValidate_result split: prod.splits)
next
  fix v w v' w'
  assume "pv_StopVM (ovirt_provider pl rd sh C) v w = (Inr v', w')"
  then show "\<exists>fs. v' = v\<lparr>vi_finalizers := fs\<rparr>"
    by (auto simp: ovirt_provider_def ovirt_StopVM_def gbind_returns split: if_splits dest!: finalizers_result(1)
        intro: exI [of _ "vi_finalizers v"])
next
  fix w mapper w' t vm
  assume "pv_CreateMapper (ovirt_provider pl rd sh C) w = (Inr mapper, w')"
  then show "frames quiet (mp_MapVM mapper t vm)"
    by (simp add: ovirt_provider_def ovirt_mapper_frames)
next
  fix failure' v w v' w'
  assume "pv_CleanUp (ovirt_provider pl rd sh C) failure' v w = (Inr v', w')"
  then show "\<exists>fs. v' = v\<lparr>vi_finalizers := fs\<rparr>"
    by (simp add: ovirt_provider_def ovirt_CleanUp_def clean_up_result)
qed

section \<open>VMware\<close>

lemma vmware_client_frames:
  "frames quiet (vmware_getClient C)" "frames quiet (vmware_LoadVM C src)" "frames quiet (vmware_getVM C)"
  "frames quiet (getVmProperties C)"
proof -
  show c: "frames quiet (vmware_getClient C)"
    unfolding vmware_getClient_def by (intro quiet.frames_combinators quiet_frames)
  show l: "frames quiet (vmware_LoadVM C src)" for src
    unfolding vmware_LoadVM_def by (intro quiet.frames_combinators quiet_frames c)
  show v: "frames quiet (vmware_getVM C)"
    unfolding vmware_getVM_def by (intro quiet.frames_combinators quiet_frames quiet_load_instance l)
  show "frames quiet (getVmProperties C)"
    unfolding getVmProperties_def by (intro quiet.frames_combinators quiet_frames c v)
qed

lemma vmware_mapper_frames:
  assumes "vmware_CreateMapper pl rd C w = (Inr mapper, w')"
  shows "frames quiet (mp_MapVM mapper t vm)"
proof -
  from assms obtain r where "mapper = vmware_mapper_ops pl rd r"
    by (auto simp: vmware_CreateMapper_def gbind_returns)
  then show ?thesis by (simp add: vmware_mapper_ops_def quiet_silent silent_vmware_MapVM)
qed

lemma quiet_conversion:
  "frames quiet (create_domain_config_map pl vm)" "frames quiet (createGuestConversionJob pl vm cm)"
  unfolding create_domain_config_map_def createGuestConversionJob_def CreateForJob_def
  by (intro quiet.frames_combinators quiet_frames)+

interpretation vmware: provider_contract "vmware_provider pl rd sh C" for pl rd sh C
proof unfold_locales
  fix s v src m n t vm tpl ns failure'
  let ?P = "vmware_provider pl rd sh C"
  note prov = quiet.frames_combinators quiet_frames vmware_client_frames quiet_load_instance quiet_HandlerProcessTemplate
  show "frames quiet (pv_Init ?P s v)"
    by (simp add: vmware_provider_def vmware_Init_def quiet_init_source)
  show "frames quiet (pv_TestConnection ?P)"
    by (simp add: vmware_provider_def vmware_TestConnection_def) (intro prov)
  show "frames quiet (pv_Close ?P)"
    by (simp add: vmware_provider_def vmware_Close_def) (intro prov)
  show "frames quiet (pv_LoadVM ?P src)"
    by (simp add: vmware_provider_def vmware_client_frames)
  show "frames quiet (pv_PrepareResourceMapping ?P m src)"
    by (simp add: vmware_provider_def vmware_PrepareResourceMapping_def) (intro prov)
  show "frames quiet (pv_Validate ?P)"
    by (simp add: vmware_provider_def vmware_Validate_def) (intro prov)
  show "frames quiet (pv_ValidateDiskStatus ?P n)"
    by (simp add: vmware_provider_def quiet.frames_gret)
  show "frames quiet (pv_StopVM ?P v)"
    by (simp add: vmware_provider_def vmware_StopVM_def) (intro prov)
  show "frames quiet (pv_CreateMapper ?P)"
    by (simp add: vmware_provider_def vmware_CreateMapper_def vmware_prepareDataVolumeCredentials_def
        vmware_ensureSecretIsPresent_def Let_def) (intro prov quiet_create_owned_secret)
  show "frames quiet (pv_GetVMStatus ?P)"
    by (simp add: vmware_provider_def vmware_GetVMStatus_def) (intro prov)
  show "frames quiet (pv_GetVMName ?P)"
    by (simp add: vmware_provider_def vmware_GetVMName_def) (intro prov)
  show "frames quiet (pv_StartVM ?P)"
    by (simp add: vmware_provider_def vmware_StartVM_def) (intro prov)
  show "frames quiet (pv_CleanUp ?P False v)"
    by (simp add: vmware_provider_def vmware_CleanUp_def) (rule quiet_clean_up, auto intro: quiet_frames)
  show "frames provider_step (pv_CleanUp ?P failure' v)"
    by (simp add: vmware_provider_def vmware_CleanUp_def)
      (rule step_clean_up, auto intro: quiet_frames [THEN quiet_provider_step] step_deletions split: if_splits)
  show "frames quiet (pv_FindTemplate ?P)"
    by (simp add: vmware_provider_def vmware_FindTemplate_def) (intro prov quiet_silent [OF silent_VmwareFindTemplate])
  show "frames quiet (pv_ProcessTemplate ?P tpl t ns)"
    by (simp add: vmware_provider_def vmware_ProcessTemplate_def) (intro prov quiet_silent [OF silent_VmwareGetMetadata])
  show "frames quiet (pv_GetGuestConversionJob ?P)"
    by (simp add: vmware_provider_def GetGuestConversionJob_def) (intro prov)
  show "frames quiet (pv_LaunchGuestConversionJob ?P vm)"
    by (simp add: vmware_provider_def LaunchGuestConversionJob_def) (intro prov quiet_conversion)
next
  fix w cs w' c
  assume "pv_Validate (vmware_provider pl rd sh C) w = (Inr cs, w')" "c \<in> set cs"
  then show "c_reason c \<noteq> None \<and> c_type c \<in> {Valid, MappingRulesVerified}"
    by (auto simp: vmware_provider_def vmware_Validate_def gbind_returns NewCondition_def)
next
  fix v w v' w'
  assume "pv_StopVM (vmware_provider pl rd sh C) v w = (Inr v', w')"
  then show "\<exists>fs. v' = v\<lparr>vi_finalizers := fs\<rparr>"
    by (auto simp: vmware_provider_def vmware_StopVM_def gbind_returns split: if_splits dest!: finalizers_result(1)
        intro: exI [of _ "vi_finalizers v"])
next
  fix w mapper w' t vm
  assume "pv_CreateMapper (vmware_provider pl rd sh C) w = (Inr mapper, w')"
  then show "frames quiet (mp_MapVM mapper t vm)"
    by (simp add: vmware_provider_def vmware_mapper_frames)
next
  fix failure' v w v' w'
  assume "pv_CleanUp (vmware_provider pl rd sh C) failure' v w = (Inr v', w')"
  then show "\<exists>fs. v' = v\<lparr>vi_finalizers := fs\<rparr>"
    by (simp add: vmware_provider_def vmware_CleanUp_def clean_up_result)
qed

section \<open>The program\<close>

text \<open>The surroundings of the program: what both providers and the controller take from outside.\<close>

record 'e surroundings =
  en_runtime :: runtime_env
  en_platform :: platform
  en_orders :: orders
  en_shuffles :: mapping_shuffles
  en_ovirt :: "('e, ov_vm) vm_client"
  en_vmware :: "'e vmware_client"

definition the_ovirt :: "'e surroundings \<Rightarrow> 'e source provider" where
  "the_ovirt X = ovirt_provider (en_platform X) (en_orders X) (en_shuffles X) (en_ovirt X)"

definition the_vmware :: "'e surroundings \<Rightarrow> 'e source provider" where
  "the_vmware X = vmware_provider (en_platform X) (en_orders X) (en_shuffles X) (en_vmware X)"

definition reconcile :: "'e surroundings \<Rightarrow> nsname \<Rightarrow> ('e, reconcile_result) sop" where
  "reconcile X = Reconcile (en_runtime X) (the_ovirt X) (the_vmware X)"

interpretation program: providers "the_ovirt X" "the_vmware X" for X
  unfolding the_ovirt_def the_vmware_def by unfold_locales

end
