(* ===== verification/Blocking.thy ===== *)
theory Blocking
  imports ProviderLaws
begin

text \<open>
  What has to happen before a run of the reconciler may touch a virtual machine or a data volume: the
  import is found and still to be reconciled, its provider is initialized, the source machine is
  loaded and the validation passes.  Everything before keeps the machines and the data volumes
  (\<open>keeps_disks\<close>), so a run that does not has come through all of it.
\<close>

section \<open>A sequence that breaks a frame condition\<close>

context frame_rel
begin

lemma gbind_breaks:
  assumes "\<not> R w (snd (gbind m k w))" and "frames R m"
  obtains x w1 where "m w = (Inr x, w1)" and "\<not> R w1 (snd (k x w1))"
proof -
  obtain r w1 where m: "m w = (r, w1)" by (cases "m w")
  have R: "R w w1" using assms(2) m by (rule framesD2)
  show ?thesis
  proof (cases r)
    case (Inl e)
    with assms(1) m R show ?thesis by (simp add: gbind_def)
  next
    case (Inr x)
    with assms(1) m have "\<not> R w (snd (k x w1))" by (simp add: gbind_def)
    with m Inr R that show ?thesis by (blast intro: R_trans)
  qed
qed

lemma gtry_breaks:
  assumes "\<not> R w (snd (gtry m h k w))" and "frames R m" and "\<And>e. frames R (h e)"
  obtains x w1 where "m w = (Inr x, w1)" and "\<not> R w1 (snd (k x w1))"
proof -
  obtain r w1 where m: "m w = (r, w1)" by (cases "m w")
  have R: "R w w1" using assms(2) m by (rule framesD2)
  show ?thesis
  proof (cases r)
    case (Inl e)
    have "R w1 (snd (h e w1))" using assms(3) by (rule framesD)
    with assms(1) m Inl R show ?thesis by (auto simp: gtry_def intro: R_trans split: if_splits)
  next
    case (Inr x)
    with assms(1) m have "\<not> R w (snd (k x w1))" by (simp add: gtry_def)
    with m Inr R that show ?thesis by (blast intro: R_trans)
  qed
qed

lemma frames_case_bool: "frames R m \<Longrightarrow> frames R n \<Longrightarrow> frames R (case b of True \<Rightarrow> m | False \<Rightarrow> n)"
  by (cases b) simp_all

lemma gdefer_breaks:
  assumes "\<not> R w (snd (gdefer m c w))" and "frames R c"
  shows "\<not> R w (snd (m w))"
  using assms framesD [OF assms(2), of "snd (m w)"] by (auto simp: gdefer_def intro: R_trans split: prod.splits)

end

section \<open>Operations that keep machines and data volumes\<close>

lemma disks_same: "w_vms w' = w_vms w \<Longrightarrow> w_dvs w' = w_dvs w \<Longrightarrow> keeps_disks w w'"
  by (simp add: keeps_disks_def)

lemma disks_quiet: "frames quiet m \<Longrightarrow> frames keeps_disks m"
  by (erule frames_mono) (simp add: quiet_def)

lemma disks_api: "(\<And>w x w'. f w = Inr (x, w') \<Longrightarrow> keeps_disks w w') \<Longrightarrow> frames keeps_disks (api f)"
  by (rule framesI) (force simp: api_def Let_def keeps_disks_def split: fault.split sum.split)

lemma disks_get_from: "frames keeps_disks (get_from kind store k)"
  unfolding get_from_def by (rule disks_api) (auto simp: disks_same split: option.splits)

lemma disks_client:
  "frames keeps_disks (get_import k)" "frames keeps_disks (get_mapping k)" "frames keeps_disks (get_secret k)"
  "frames keeps_disks (patch_import k f)" "frames keeps_disks (GetBareConfig sel)" "frames keeps_disks now"
  "frames keeps_disks (record_event v t reason message)" "frames keeps_disks (inc_counter res)"
  "frames keeps_disks (save_duration res d)"
  unfolding get_import_def get_mapping_def get_secret_def patch_import_def GetBareConfig_def now_def record_event_def
    inc_counter_def save_duration_def
  by (auto intro!: disks_get_from disks_api keeps_disks.frames_gread keeps_disks.frames_gmodify
      simp: disks_same put_import_def split: option.splits if_splits)

lemma disks_ops:
  "frames keeps_disks (upsertStatusConditions k cs)" "frames keeps_disks (set_annotation v key val)"
  "frames keeps_disks (storeSourceVMStatus v s)" "frames keeps_disks (new_condition t r m st)"
  "frames keeps_disks (newValidationCondition r' m)" "frames keeps_disks (upsertValidationCondition v r' m e)"
  "frames keeps_disks (AddFinalizer v f)" "frames keeps_disks (RemoveFinalizer v f)"
  "frames keeps_disks (failNewImportProcess v m e)" "frames keeps_disks (fetchSecret v)"
  "frames keeps_disks (fetchResourceMapping i ns)" "frames keeps_disks (save_metrics res v)"
  unfolding upsertStatusConditions_def update_import_status_def set_annotation_def storeSourceVMStatus_def
    newValidationCondition_def new_condition_def upsertValidationCondition_def AddFinalizer_def RemoveFinalizer_def
    patch_finalizers_def failNewImportProcess_def fetchSecret_def fetchResourceMapping_def save_metrics_def
    calculateImportDuration_def
  by (intro keeps_disks.frames_combinators disks_client)+

lemma disks_handle_deletion: "frames keeps_disks (handle_deletion v)"
  unfolding handle_deletion_def by (intro keeps_disks.frames_combinators disks_ops)

section \<open>A run with a provider\<close>

definition provider_validated :: "'p provider \<Rightarrow> vmimport \<Rightarrow> 'p world \<Rightarrow> bool" where
  "provider_validated P v w \<longleftrightarrow> shouldReconcile v \<and> (\<exists>w1 w2.
     fetchVM v P w = (Inr (), w1) \<and> validate v P w1 = (Inr True, w2))"

definition run_validated :: "'p provider \<Rightarrow> 'p provider \<Rightarrow> nsname \<Rightarrow> 'p world \<Rightarrow> bool" where
  "run_validated ovirt vmware k w \<longleftrightarrow> (\<exists>v w0 v1 w1 v2 w2 P w3 message w4.
     get_import k w = (Inr v, w0) \<and>
     (if \<not> vmImportInProgress v then AddFinalizer v CancelledImportFinalizer else gret v) w0 = (Inr v1, w1) \<and>
     handle_deletion v1 w1 = (Inr (False, v2), w2) \<and> createProvider ovirt vmware v2 w2 = (Inr P, w3) \<and>
     initProvider v2 P w3 = (Inr (message, None), w4) \<and> provider_validated P v2 w4)"

text \<open>What a passed validation means: both conditions were true already, or this one found nothing false.\<close>

lemma shouldFailWith_valid: "fst (shouldFailWith cs) \<longleftrightarrow> (\<forall>c \<in> set cs. c_status c \<noteq> ConditionFalse)"
proof -
  have "fst (foldl (\<lambda>(valid, message) c. if c_status c = ConditionFalse
      then (False, case c_message c of None \<Rightarrow> message | Some m \<Rightarrow> WithMessage message m) else (valid, message)) s cs) \<longleftrightarrow>
    fst s \<and> (\<forall>c \<in> set cs. c_status c \<noteq> ConditionFalse)" for s
    by (induction cs arbitrary: s) (auto split: prod.splits)
  then show ?thesis by (simp add: shouldFailWith_def)
qed

lemma validate_passed:
  assumes "validate v P w = (Inr True, w')"
  shows "\<not> shouldInvoke (vi_status v) \<or>
    (\<exists>cs w1. pv_Validate P w = (Inr cs, w1) \<and> (\<forall>c \<in> set cs. c_status c \<noteq> ConditionFalse))"
proof (rule disjCI)
  assume "\<not> (\<exists>cs w1. pv_Validate P w = (Inr cs, w1) \<and> (\<forall>c \<in> set cs. c_status c \<noteq> ConditionFalse))"
  then have none: "\<not> fst (shouldFailWith cs)" if "pv_Validate P w = (Inr cs, w1)" for cs w1
    using that shouldFailWith_valid by blast
  show "\<not> shouldInvoke (vi_status v)"
  proof
    assume "shouldInvoke (vi_status v)"
    with assms obtain cs w1 w2 where cs: "pv_Validate P w = (Inr cs, w1)"
      and r: "(case shouldFailWith cs of
               (False, message) \<Rightarrow>
                 gbind (gtry (pv_GetVMName P) (\<lambda>_. gret ())
                     (\<lambda>vmName. record_event v EventNormal ''ImportBlocked''
                        (''Virtual Machine '' @ vi_namespace v @ ''/'' @ vmName @ '' import blocked: '' @ message)))
                   (\<lambda>_. gret False)
             | (True, _) \<Rightarrow>
                 gbind (pv_GetVMStatus P) (\<lambda>vmStatus.
                 gbind (storeSourceVMStatus v vmStatus) (\<lambda>_. gret True))) w2 = (Inr True, w')"
      by (auto simp: validate_def gbind_returns simp del: split_paired_Ex)
    from none [OF cs] obtain message where "shouldFailWith cs = (False, message)" by (cases "shouldFailWith cs") auto
    with r show False by (auto simp: gbind_returns)
  qed
qed

context provider_contract
begin

lemmas disks_provider = quiet_ops [THEN disks_quiet]

lemma disks_before_import:
  "frames keeps_disks (initProvider v P)" "frames keeps_disks (fetchVM v P)" "frames keeps_disks (validate v P)"
  "frames keeps_disks (finalize v P)"
  unfolding initProvider_def Let_def fetchVM_def validate_def finalize_def restoreInitialVMState_def
  by (intro keeps_disks.frames_combinators keeps_disks.frames_case_bool disks_client disks_ops disks_provider)+

lemma effect_needs_validation:
  assumes "\<not> keeps_disks w (snd (reconcile_with_provider E P ns v w))"
  shows "provider_validated P v w"
proof -
  have "frames keeps_disks (gtry (finalize v P) (\<lambda>_. gret (requeue_after 1)) (\<lambda>_. gret no_requeue))"
    by (intro keeps_disks.frames_combinators disks_before_import)
  then have "keeps_disks w (snd (gtry (finalize v P) (\<lambda>_. gret (requeue_after 1)) (\<lambda>_. gret no_requeue) w))"
    by (rule framesD)
  with assms have go: "shouldReconcile v"
    and "\<not> keeps_disks w (snd (gbind (fetchVM v P) (\<lambda>_. gbind (validate v P) (\<lambda>valid.
             if \<not> valid then gret (requeue_after requeueAfterValidationFailureTime)
             else import_vm E P ns v)) w))"
    by (auto simp: reconcile_with_provider_def keeps_disks.R_refl split: if_splits)
  from this(2) disks_before_import(2) obtain u w1 where f: "fetchVM v P w = (Inr u, w1)"
    and b: "\<not> keeps_disks w1 (snd (gbind (validate v P) (\<lambda>valid.
             if \<not> valid then gret (requeue_after requeueAfterValidationFailureTime)
             else import_vm E P ns v) w1))"
    by (rule keeps_disks.gbind_breaks)
  from b disks_before_import(3) obtain valid w2 where "validate v P w1 = (Inr valid, w2)"
    and "\<not> keeps_disks w2 (snd ((if \<not> valid then gret (requeue_after requeueAfterValidationFailureTime)
             else import_vm E P ns v) w2))"
    by (rule keeps_disks.gbind_breaks)
  then have "validate v P w1 = (Inr True, w2)" by (cases valid) (simp_all add: keeps_disks.R_refl)
  with go f show ?thesis unfolding provider_validated_def by auto
qed

end

context providers
begin

lemma disks_createProvider: "frames keeps_disks (createProvider ovirt vmware v)"
  unfolding createProvider_def Let_def
  by (intro keeps_disks.frames_combinators disks_client keeps_disks.frames_gmodify disks_same) simp_all

lemma existing_needs_validation:
  assumes "\<not> keeps_disks w (snd (reconcile_existing E ovirt vmware ns v w))"
  shows "\<exists>P w1 message w2. createProvider ovirt vmware v w = (Inr P, w1) \<and>
    initProvider v P w1 = (Inr (message, None), w2) \<and> provider_validated P v w2"
proof -
  let ?rest = "\<lambda>P (message, err). case err of
       Some e \<Rightarrow> (if vmImportInProgress v then gfail e
            else gbind (failNewImportProcess v message e) (\<lambda>_. gret no_requeue))
     | None \<Rightarrow> gdefer (reconcile_with_provider E P ns v) (pv_Close P)"
  from assms [unfolded reconcile_existing_def] disks_createProvider
  obtain P w1 where c: "createProvider ovirt vmware v w = (Inr P, w1)"
    and b: "\<not> keeps_disks w1 (snd (gbind (initProvider v P) (?rest P) w1))"
    by (rule keeps_disks.gbind_breaks)
  from c have P: "P = ovirt \<or> P = vmware" by (rule wellformed.createProvider_result)
  then have init: "frames keeps_disks (initProvider v P)" and close: "frames keeps_disks (pv_Close P)"
    using O.disks_before_import(1) V.disks_before_import(1) O.disks_provider(3) V.disks_provider(3) by auto
  from b init obtain x w2 where i: "initProvider v P w1 = (Inr x, w2)" and r: "\<not> keeps_disks w2 (snd (?rest P x w2))"
    by (rule keeps_disks.gbind_breaks)
  obtain message err where x: "x = (message, err)" by (cases x)
  have "frames keeps_disks (if vmImportInProgress v then gfail e
            else gbind (failNewImportProcess v message e) (\<lambda>_. gret no_requeue))" for e
    by (intro keeps_disks.frames_combinators disks_ops)
  with r x have n: "err = None" by (cases err) (auto dest: framesD)
  with r x close have "\<not> keeps_disks w2 (snd (reconcile_with_provider E P ns v w2))"
    by (auto dest: keeps_disks.gdefer_breaks)
  with P have "provider_validated P v w2" using O.effect_needs_validation V.effect_needs_validation by blast
  with c i x n show ?thesis by blast
qed

lemma Reconcile_needs_validation:
  assumes "\<not> keeps_disks w (snd (Reconcile E ovirt vmware k w))"
  shows "run_validated ovirt vmware k w"
proof -
  let ?fin = "\<lambda>v. if \<not> vmImportInProgress v then AddFinalizer v CancelledImportFinalizer else gret v"
  let ?rest = "\<lambda>(stop, v). if stop then gret no_requeue else reconcile_existing E ovirt vmware (fst k) v"
  have "frames keeps_disks (if IsNotFound e then gret no_requeue else gfail e)" for e
    by (intro keeps_disks.frames_combinators)
  with assms [unfolded Reconcile_def] disks_client(1) obtain v w0 where g: "get_import k w = (Inr v, w0)"
    and b: "\<not> keeps_disks w0 (snd (gbind (?fin v) (\<lambda>v. gbind (handle_deletion v) ?rest) w0))"
    by (rule keeps_disks.gtry_breaks)
  have "frames keeps_disks (?fin v)" by (intro keeps_disks.frames_combinators disks_ops)
  with b obtain v1 w1 where f: "?fin v w0 = (Inr v1, w1)" and b: "\<not> keeps_disks w1 (snd (gbind (handle_deletion v1) ?rest w1))"
    by (rule keeps_disks.gbind_breaks)
  from b disks_handle_deletion obtain x w2 where h: "handle_deletion v1 w1 = (Inr x, w2)" and r: "\<not> keeps_disks w2 (snd (?rest x w2))"
    by (rule keeps_disks.gbind_breaks)
  obtain stop v2 where x: "x = (stop, v2)" by (cases x)
  with r have "\<not> stop" "\<not> keeps_disks w2 (snd (reconcile_existing E ovirt vmware (fst k) v2 w2))"
    by (auto simp: keeps_disks.R_refl split: if_splits)
  from existing_needs_validation [OF this(2)] obtain P w3 message w4 where
    "createProvider ovirt vmware v2 w2 = (Inr P, w3)" "initProvider v2 P w3 = (Inr (message, None), w4)"
    "provider_validated P v2 w4" by blast
  moreover have "handle_deletion v1 w1 = (Inr (False, v2), w2)" using h x \<open>\<not> stop\<close> by simp
  ultimately show ?thesis using g f unfolding run_validated_def by (intro exI conjI)
qed

end

end
