(* ===== verification/Example.thy ===== *)
theory Example
  imports ProviderLaws
begin

text \<open>
  A concrete cluster, on which the properties of the whole reconciler are exercised: an import from a
  VMware source whose state is the power state of its only virtual machine, and whose disks are given.
\<close>

definition demo_key :: nsname where "demo_key = (''ns'', ''imp'')"

definition demo_disk :: "string \<Rightarrow> vw_device" where
  "demo_disk label = VirtualDisk \<lparr>wd_backing = Some (None, ''[ds] a.vmdk''), wd_capacity_bytes = 1073741824,
     wd_capacity_kb = 0, wd_vdisk_id = None, wd_object_id = ''2000'', wd_label = Some label\<rparr>"

definition demo_properties :: "vw_device list \<Rightarrow> string \<Rightarrow> vw_properties" where
  "demo_properties devices status =
     \<lparr>wp_name = ''source'', wp_power_state = status,
      wp_config = Some \<lparr>wf_devices = devices, wf_num_cpu = 2, wf_cores_per_socket = 1, wf_firmware = ''bios'',
        wf_uuid = ''uuid'', wf_instance_uuid = ''iuuid'', wf_annotation = []\<rparr>,
      wp_guest_host_name = Some ''host'', wp_summary_guest_id = Some ''rhel8_64Guest'', wp_config_guest_id = [],
      wp_guest_full_name = ''Red Hat Enterprise Linux 8'', wp_memory_mb = 1024, wp_tags = []\<rparr>"

text \<open>The VMware client: \<open>locked\<close> says that the source refuses to start the machine.\<close>

definition demo_client :: "bool \<Rightarrow> vw_device list \<Rightarrow> string vmware_client" where
  "demo_client locked devices =
     \<lparr>cl_New = (\<lambda>data. gret ()), cl_GetVM = (\<lambda>data i n c c'. gret \<lparr>wo_reference = ''vm-1'', wo_inventory_path = []\<rparr>),
      cl_StopVM = (\<lambda>data i. gmodify (\<lambda>_. poweredOff)),
      cl_StartVM = (\<lambda>data i. if locked then gfail (errorf ''VM is locked'') else gmodify (\<lambda>_. poweredOn)),
      cl_TestConnection = (\<lambda>data. gret ()), cl_Close = (\<lambda>data. gret ()),
      cl_GetVMProperties = (\<lambda>data vm. gread (demo_properties devices)),
      cl_GetVMHostProperties = (\<lambda>data vm. gret None)\<rparr>"

definition idle_client :: "(string, ov_vm) vm_client" where
  "idle_client =
     \<lparr>cl_New = (\<lambda>data. gret ()), cl_GetVM = (\<lambda>data i n c c'. gfail (errorf ''no such machine'')), cl_StopVM = (\<lambda>data i. gret ()),
      cl_StartVM = (\<lambda>data i. gret ()), cl_TestConnection = (\<lambda>data. gret ()), cl_Close = (\<lambda>data. gret ())\<rparr>"

definition demo_secret :: "string \<Rightarrow> string option" where
  "demo_secret k = (if k \<in> {''apiUrl'', ''username'', ''password''} then Some ''x'' else None)"

definition demo_platform :: platform where
  "demo_platform =
     \<lparr>pl_yaml_map = (\<lambda>s m. Inr (if s = [] then m else demo_secret)), pl_rules = (\<lambda>s. Some []), pl_cni_type = (\<lambda>s. Inr (Some s)),
      pl_process = (\<lambda>ns t. Inr (tm_objects t)), pl_decode_vm = (\<lambda>s. Inr (Some (empty_vm\<lparr>vm_template_spec :=
        Some (empty_template\<lparr>tp_labels := Some Map.empty\<rparr>)\<rparr>))),
      pl_xml = (\<lambda>d. Inr (ld_name d)), pl_LoadLocation = (\<lambda>s. None), pl_print = (\<lambda>s xs. s), pl_keys = (\<lambda>xs. xs),
      pl_virt_v2v_image = ''virt-v2v'', pl_pull_policy = ''Always''\<rparr>"

definition demo_surroundings :: "bool \<Rightarrow> vw_device list \<Rightarrow> string surroundings" where
  "demo_surroundings locked devices =
     \<lparr>en_runtime = \<lparr>re_pod_restart_tolerance = 3, re_ParseFloat = (\<lambda>s. None), re_round = (\<lambda>x. x), re_nan_to_int = 0,
        re_range_progress = (\<lambda>m. m), re_UnmarshalStringMap = (\<lambda>s. None)\<rparr>,
      en_platform = demo_platform,
      en_orders = \<lparr>rd_names = (\<lambda>xs. xs), rd_sources = (\<lambda>xs. xs), rd_networks = (\<lambda>xs. xs), rd_classes = (\<lambda>xs. xs),
        rd_volumes = (\<lambda>xs. xs)\<rparr>,
      en_shuffles = \<lparr>sh_network = (\<lambda>xs. xs), sh_storage = (\<lambda>xs. xs)\<rparr>,
      en_ovirt = idle_client, en_vmware = demo_client locked devices\<rparr>"

definition demo_annotations :: "string \<Rightarrow> string option" where
  "demo_annotations k =
     (if k = AnnCurrentProgress then Some ''10'' else if k = sourceVMInitialState then Some VMStatusUp else None)"

definition demo_import :: vmimport where
  "demo_import =
    \<lparr>vi_name = ''imp'', vi_namespace = ''ns'', vi_annotations = demo_annotations,
     vi_labels = Map.empty, vi_finalizers = [CancelledImportFinalizer], vi_deletion = None, vi_creation = 0, vi_uid = ''u'',
     vi_spec = \<lparr>sp_credentials = \<lparr>oi_name = ''secret'', oi_namespace = None\<rparr>, sp_resource_mapping = None,
       sp_source = \<lparr>ss_ovirt = None, ss_vmware = Some \<lparr>vs_vm_id = Some ''vm'', vs_vm_name = None, vs_mappings = None\<rparr>\<rparr>,
       sp_target_vm_name = Some ''target'', sp_start_vm = None\<rparr>,
     vi_status = \<lparr>st_target_vm_name = ''target'',
       st_conditions = [NewCondition Valid ''ValidationCompleted'' [] ConditionTrue 1,
         NewCondition MappingRulesVerified ''MappingRulesVerificationCompleted'' [] ConditionTrue 1,
         NewCondition Processing ''CopyingDisks'' [] ConditionTrue 2],
       st_data_volumes = []\<rparr>\<rparr>"

definition demo_source :: "string \<Rightarrow> string source" where
  "demo_source status =
     \<lparr>so_meta = demo_import, so_os_finder = \<lparr>of_name = [], of_namespace = []\<rparr>, so_secret = Map.empty, so_instance = None,
      so_mapping = None, so_ovirt_client = None, so_ovirt_vm = None, so_vmware_client = None, so_vmware_vm = None,
      so_vmware_properties = None, so_external = status\<rparr>"

definition demo_clock :: "nat \<Rightarrow> time" where "demo_clock n = int n"
definition demo_names :: "nat \<Rightarrow> string" where "demo_names n = replicate n (CHR ''x'')"
definition demo_faults :: "nat \<Rightarrow> fault" where "demo_faults n = NoFault"
definition one_fault :: "nat \<Rightarrow> nat \<Rightarrow> fault" where
  "one_fault n i = (if i = n then FailBefore (errorf ''denied'') else NoFault)"
definition demo_counters :: "import_result \<Rightarrow> nat" where "demo_counters r = 0"
definition nothing :: "'a \<Rightarrow> 'b option" where "nothing k = None"

definition demo_imports :: "vmimport \<Rightarrow> nsname \<Rightarrow> vmimport option" where
  "demo_imports v k = (if k = demo_key then Some v else None)"

definition demo_secrets :: "string \<Rightarrow> string option" where
  "demo_secrets k = (if k = ''vmware'' then Some ''yaml'' else None)"

text \<open>The cluster: only the import and the secret of its source; no call fails; the clock shows the number of calls.\<close>

definition demo_world :: "string \<Rightarrow> vmimport \<Rightarrow> string source world" where
  "demo_world status v =
     \<lparr>w_imports = demo_imports v, w_mappings = nothing, w_vms = nothing, w_instances = nothing, w_dvs = nothing,
      w_pods = nothing, w_secrets = [((''ns'', ''secret''), \<lparr>se_meta = empty_meta\<lparr>om_name := ''secret'', om_namespace := ''ns''\<rparr>,
        se_data = demo_secrets\<rparr>)],
      w_config_maps = [], w_jobs = [], w_templates = [], w_nads = nothing, w_storage_classes = nothing,
      w_kv_config = nothing, w_ctrl_config = nothing, w_events = [], w_counters = demo_counters, w_durations = [],
      w_watches = [], w_calls = 0, w_faults = demo_faults, w_now = demo_clock, w_suffix = demo_names, w_uids = demo_names,
      w_provider = demo_source status\<rparr>"

text \<open>The same cluster late in the import: the machine exists, its disk is copied, the guest is converted.\<close>

definition demo_vm :: kubevm where
  "demo_vm = empty_vm\<lparr>vm_meta := empty_meta\<lparr>om_name := ''target'', om_namespace := ''ns''\<rparr>,
     vm_template_spec := Some empty_template\<rparr>"

definition demo_dv :: "string \<Rightarrow> dv_phase \<Rightarrow> datavolume" where
  "demo_dv n p = empty_datavolume\<lparr>dv_meta := empty_meta\<lparr>om_name := n, om_namespace := ''ns''\<rparr>, dv_phase := p\<rparr>"

definition demo_job :: job where
  "demo_job = \<lparr>jb_meta = label_meta demo_key empty_meta\<lparr>om_name := ''job''\<rparr>,
     jb_spec = \<lparr>js_completions = 1, js_parallelism = 1, js_backoff_limit = 0, js_template_labels = None,
       js_restart_policy = ''Never'', js_image = [], js_pull_policy = [], js_volumes = [], js_mounts = [], js_node_selector = Map.empty\<rparr>,
     jb_active = 0, jb_failed = 0, jb_succeeded = 1\<rparr>"

definition demo_vms :: "nsname \<Rightarrow> kubevm option" where
  "demo_vms k = (if k = (''ns'', ''target'') then Some demo_vm else None)"

definition demo_dvs :: "nsname \<Rightarrow> datavolume option" where
  "demo_dvs k = (if k = (''ns'', ''target-d'') then Some (demo_dv ''target-d'' DVSucceeded) else None)"

definition demo_late :: "vmimport \<Rightarrow> string source world" where
  "demo_late v = (demo_world poweredOff v)
     \<lparr>w_vms := demo_vms, w_dvs := demo_dvs,
      w_jobs := [((''ns'', ''job''), demo_job)]\<rparr>"


section \<open>Running it\<close>

text \<open>A computation is run step by step: nothing is rewritten in what is still to be done.\<close>

named_theorems run_cong \<open>what is still to be done stays as it is\<close>
named_theorems run_defs \<open>definitions that a run unfolds\<close>

lemma gbind_wait [run_cong]: "gbind m k = gbind m k" by (rule refl)
lemma gtry_wait [run_cong]: "gtry m h k = gtry m h k" by (rule refl)
lemma gdefer_wait [run_cong]: "gdefer m c = gdefer m c" by (rule refl)
lemma api_wait [run_cong]: "api f = api f" by (rule refl)
lemma gforeach_wait [run_cong]: "xs = ys \<Longrightarrow> s = t \<Longrightarrow> gforeach f xs s = gforeach f ys t" by simp
lemma loop_wait [run_cong]: "xs = ys \<Longrightarrow> s = t \<Longrightarrow> import_disk_loop f xs s = import_disk_loop f ys t" by simp

lemma api_runs [run_defs]:
  "w_faults w (w_calls w) = NoFault \<Longrightarrow>
   api f w = (case f (w\<lparr>w_calls := Suc (w_calls w)\<rparr>) of Inl e \<Rightarrow> (Inl e, w\<lparr>w_calls := Suc (w_calls w)\<rparr>) | Inr (x, w2) \<Rightarrow> (Inr x, w2))"
  "w_faults w (w_calls w) = FailBefore e \<Longrightarrow> api f w = (Inl e, w\<lparr>w_calls := Suc (w_calls w)\<rparr>)"
  by (simp_all add: api_def Let_def)

lemmas [run_defs] = gbind_unfold gtry_unfold gdefer_def gresult_def Let_def
lemmas [run_defs] = not_found_def already_exists_def get_from_def now_def get_import_def put_import_def
  patch_import_def update_import_status_def RestoreVMStateFinalizer_def CancelledImportFinalizer_def
  HasFinalizer_def patch_finalizers_def AddFinalizer_def RemoveFinalizer_def get_mapping_def get_vm_def
  get_instance_def get_dv_def get_pod_def get_secret_def get_config_map_def get_nad_def get_storage_class_def
  list_templates_def create_vm_def patch_vm_def delete_vm_def create_dv_def patch_dv_owners_def delete_dv_def
  record_event_def inc_counter_def save_duration_def watch_pod_def GetBareConfig_def   LiveMigrationEnabled_def   GetKubeVirtConfig_def config_value_def OsConfigMapNamespace_def OsConfigMapName_def prefix_def
  vmiNameLabel_def has_label_def labelled_for_def list_labelled_def FindFor_def create_object_def
  delete_object_def label_meta_def CreateFor_def DeleteFor_def secret_store_def config_map_store_def
  job_store_def CreateForJob_def FindDataVolumes_def DeleteDataVolumes_def FindVirtualMachine_def
  DeleteVirtualMachine_def vm_api_version_def import_api_version_def newVMOwnerReference_def
  import_owner_reference_def NewVMImportOwnerReference_def NewVMImportControllerReference_def
  AddOwnerReference_def removeDataVolumeOwnerReference_def removeDataVolumesOwnerReferences_def
  removeVMOwnerReference_def PurgeOwnerReferences_def group_of_def refer_same_def GetControllerOf_def
  SetControllerReference_def apos_def VMStatusDown_def VMStatusUp_def annAPIGroup_def sourceVMInitialState_def
  AnnCurrentProgress_def AnnPropagate_def TrackingLabel_def progressStart_def progressCreatingVM_def
  progressCopyingDisks_def progressConvertingGuest_def progressStartVM_def progressDone_def
  progressCopyDiskRange_def requeueAfterValidationFailureTime_def podCrashLoopBackOff_def
  importerPodNameFromDv_def no_requeue_def requeue_after_def vmImportInProgress_def shouldReconcile_def
  shouldStartVM_def has_import_finished_def shouldConvertGuest_def shouldImportDisks_def isIncomplete_def
  shouldInvoke_def isDoneImport_def shouldFailWith_def new_condition_def newValidationCondition_def
  upsertStatusConditions_def upsertValidationCondition_def set_annotation_def storeSourceVMStatus_def
  parse_int_def updateProgress_def updateTargetVMName_def updateDVs_def updateToRunning_def
  updateVMSpecDataVolumes_def calculateImportDuration_def removeFinalizer_def foldErrors_def
  restoreInitialVMState_def save_metrics_def err_list_def afterSuccess_def afterFailure_def end_as_failed_def
  endGuestConversionAsFailed_def endImportAsFailed_def complete_processing_def
  updateConditionsAfterSuccess_def fetchSecret_def fetchResourceMapping_def createProvider_def
  initProvider_def failNewImportProcess_def fetchVM_def validate_def templateMatchingFailed_def
  setAnnotations_def setTrackerLabel_def vm_definition_def createVM_def createDataVolume_def check_pod_def
  handle_phase_def dv_progress_value_def import_disk_def importDisks_def convertGuest_def startVM_def
  finalize_def finish_import_def convert_and_finish_def ensure_vm_def import_vm_def
  reconcile_with_provider_def reconcile_existing_def handle_deletion_def Reconcile_def get_source_def
  set_source_def external_def new_source_def GetVmiNamespacedName_def init_source_def ensure_present_def
  create_owned_secret_def ovirt_getClient_def ovirt_LoadVM_def load_instance_def ovirt_getVM_def
  ovirt_Init_def ovirt_TestConnection_def ovirt_Close_def ovirt_PrepareResourceMapping_def ovirt_Validate_def
  disk_by_name_def ovirt_ValidateDiskStatus_def ovirt_StopVM_def ovirt_StartVM_def ovirt_GetVMStatus_def
  ovirt_GetVMName_def ovirt_FindTemplate_def with_metadata_def ovirt_ProcessTemplate_def
  ensureSecretIsPresent_def createConfigMap_def ensureConfigMapIsPresent_def prepareDataVolumeCredentials_def
  ovirt_CreateMapper_def clean_up_def ovirt_CleanUp_def ovirt_provider_def vmware_getClient_def
  vmware_LoadVM_def vmware_getVM_def getVmProperties_def vmware_Init_def vmware_TestConnection_def
  vmware_Close_def vmware_PrepareResourceMapping_def vmware_Validate_def poweredOff_def poweredOn_def
  vmware_StopVM_def vmware_StartVM_def vmware_GetVMStatus_def vmware_GetVMName_def vmware_FindTemplate_def
  vmware_ProcessTemplate_def vmware_ensureSecretIsPresent_def vmware_prepareDataVolumeCredentials_def
  vmware_CreateMapper_def vmware_CleanUp_def GetGuestConversionJob_def create_domain_config_map_def
  createGuestConversionJob_def LaunchGuestConversionJob_def vmware_provider_def object_name_def
  vmware_default_linux_def vmware_default_windows_def  VmwareFindOperatingSystem_def
  serverWorkload_def desktopWorkload_def VmwareFindTemplate_def template_workload_def VmwareGetMetadata_def
  vmware_vm_prefix_def biosTypeMapping_def card_nic_def buildNics_def nic_matches_def vmware_network_type_def
  vmware_network_def vmware_mapNetworks_def vmware_interface_def mapNetworkInterfaces_def
  getDatastoreNameFromBacking_def getCapacityForVirtualDisk_def build_disk_def buildDisks_def class_match_def
  vmware_storage_class_def vmware_data_volume_def vmware_MapDataVolumes_def sort_disks_def vmware_MapDisk_def
  vmware_resolveVMNameBase_def vmware_ResolveVMName_def mapCPUTopology_def vmware_mapFirmware_def
  vmware_mapFeatures_def mapResourceReservations_def vmware_labels_def vmware_networking_def vmware_MapVM_def
  vmware_mapper_ops_def NewCondition_def NewSucceededCondition_def NewProcessingCondition_def
  merge_condition_def UpsertCondition_def vi_key_def om_key_def empty_meta_def admitted_def stored_def
  ranged_def merge_mappings_def VmwareMergeMappings_def empty_mappings_def reconcile_def the_vmware_def
  the_ovirt_def demo_key_def demo_disk_def demo_properties_def demo_client_def idle_client_def demo_secret_def
  demo_platform_def demo_surroundings_def demo_annotations_def demo_source_def demo_clock_def demo_faults_def one_fault_def nothing_def
  demo_imports_def demo_secrets_def demo_world_def demo_vm_def demo_dv_def demo_job_def demo_vms_def
  demo_dvs_def

lemma demo_import_sel [run_defs]:
  "vi_name demo_import = ''imp''" "vi_namespace demo_import = ''ns''" "vi_annotations demo_import = demo_annotations"
  "vi_labels demo_import = Map.empty" "vi_finalizers demo_import = [CancelledImportFinalizer]"
  "vi_deletion demo_import = None" "vi_creation demo_import = 0" "vi_uid demo_import = ''u''"
  "sp_credentials (vi_spec demo_import) = \<lparr>oi_name = ''secret'', oi_namespace = None\<rparr>"
  "sp_resource_mapping (vi_spec demo_import) = None" "sp_target_vm_name (vi_spec demo_import) = Some ''target''"
  "sp_start_vm (vi_spec demo_import) = None" "ss_ovirt (sp_source (vi_spec demo_import)) = None"
  "ss_vmware (sp_source (vi_spec demo_import)) = Some \<lparr>vs_vm_id = Some ''vm'', vs_vm_name = None, vs_mappings = None\<rparr>"
  "st_target_vm_name (vi_status demo_import) = ''target''" "st_data_volumes (vi_status demo_import) = []"
  "vi_conditions demo_import = [NewCondition Valid ''ValidationCompleted'' [] ConditionTrue 1,
     NewCondition MappingRulesVerified ''MappingRulesVerificationCompleted'' [] ConditionTrue 1,
     NewCondition Processing ''CopyingDisks'' [] ConditionTrue 2]"
  by (simp_all add: demo_import_def)

lemma demo_world_sel [run_defs]:
  "w_imports (demo_world s v) = demo_imports v" "w_faults (demo_world s v) = demo_faults" "w_calls (demo_world s v) = 0"
  "w_now (demo_world s v) = demo_clock" "w_provider (demo_world s v) = demo_source s" "w_ctrl_config (demo_world s v) = nothing"
  "w_secrets (demo_world s v) = [((''ns'', ''secret''),
     \<lparr>se_meta = empty_meta\<lparr>om_name := ''secret'', om_namespace := ''ns''\<rparr>, se_data = demo_secrets\<rparr>)]"
  "w_config_maps (demo_world s v) = []" "w_jobs (demo_world s v) = []" "w_vms (demo_world s v) = nothing"
  "w_dvs (demo_world s v) = nothing" "w_watches (demo_world s v) = []" "w_counters (demo_world s v) = demo_counters"
  "w_events (demo_world s v) = []" "w_durations (demo_world s v) = []" "w_suffix (demo_world s v) = demo_names"
  "w_uids (demo_world s v) = demo_names"
  by (simp_all add: demo_world_def)

lemma demo_strings [run_defs]:
  "EnsureLabelValueLength ''imp'' = ''imp''" "buildDataVolumeName ''target'' ''d'' = ''target-d''"
  "FormatBytes 1073741824 = Inr ''1Gi''" "quantity ''1Gi'' = 1073741824" "getDatastoreNameFromBacking ''[ds] a.vmdk'' = ''ds''"
  "Atoi ''0'' = Some 0" "Atoi ''5'' = Some 5" "Atoi ''10'' = Some 10" "Atoi ''70'' = Some 70" "Atoi ''90'' = Some 90"
  "Atoi ''100'' = Some 100" "Itoa 10 = ''10''" "NormalizeName ''host'' = Inr ''host''" "Itoa 1024 = ''1024''" "quantity ''1024Mi'' = 1073741824"
  "Split ''host'' CHR ''.'' = [''host'']" "EnsureLabelValueLength ''target'' = ''target''" "wrap64 10 = 10"
  by code_simp+

lemmas [run_defs] = disksImportProgress_def truncate_rat_def CountImportedDataVolumes_def set_conditions_def
  empty_template_def empty_vm_def empty_datavolume_def empty_domain_def empty_devices_def empty_resources_def

lemmas [run_defs] = updateOsMapsByUserMaps_def GetOSMaps_def TemplateOsLabel_def TemplateWorkloadLabel_def
  TemplateFlavorLabel_def TemplateNameOsAnnotation_def OSLabelBuilder_def FindTemplates_def newest_first_def
  defaultFlavor_def TemplateNamespace_def ProcessParameters_def Process_def addLabels_def strip_vm_def
  HandlerProcessTemplate_def append_opt_def UpdateLabels_def UpdateAnnotations_def or_empty_def
  CreateEmptyVM_def name_vm_def template_of_def mapNetworksToTypes_def
  mapDiskInterface_def disk_volume_name_def

lemma demo_os [run_defs]:
  "wp_summary_guest_id p = Some ''rhel8_64Guest'' \<Longrightarrow> vmware_os (map_of initOsInfoToCommon) p = Inr ''rhel8.1''"
proof -
  have "map_of initOsInfoToCommon ''rhel8_64Guest'' = Some ''rhel8.1''" by code_simp
  then show "wp_summary_guest_id p = Some ''rhel8_64Guest'' \<Longrightarrow> ?thesis" by (simp add: vmware_os_def)
qed

lemma demo_names_Suc [run_defs]: "demo_names (Suc n) \<noteq> []"
  by (simp add: demo_names_def)


text \<open>An import whose machine has not been created yet, where templates are optional.\<close>

definition demo_new :: vmimport where
  "demo_new = demo_import\<lparr>vi_status := (vi_status demo_import)\<lparr>st_target_vm_name := []\<rparr>\<rparr>"

definition demo_gates :: "string \<Rightarrow> string option" where
  "demo_gates k = (if k = ''feature-gates'' then Some ''ImportWithoutTemplate'' else None)"

definition demo_early :: "(nat \<Rightarrow> fault) \<Rightarrow> string source world" where
  "demo_early faults = (demo_world poweredOff demo_new)\<lparr>w_faults := faults, w_kv_config := demo_gates\<rparr>"


lemma demo_gates_eval [run_defs]:
  "ImportWithoutTemplateEnabled (NewKubeVirtConfigFrom demo_gates)"
  "prepareTabletInputDevice ''rhel8.1'' = \<lparr>in_type = ''tablet'', in_bus = ''virtio'', in_name = ''tablet''\<rparr>"
  by code_simp+

end
