(* ===== verification/Runs.thy ===== *)
theory Runs
  imports Blocking Example
begin

text \<open>
  The program in its cluster: the reconciler runs on one import at a time, and between two runs users
  create, edit and delete imports while everything else of the world changes freely.  The properties
  here are those of the whole reconciler with both providers: what it never changes of an import, what
  holds of every import in every reachable world, what happens to deleted, finished and blocked imports.
\<close>

section \<open>What a reconciler never changes of an import\<close>

definition import_identity where
  "import_identity v =
     (vi_key v, vi_uid v, vi_creation v, vi_deletion v, vi_labels v, vi_spec v)"

definition same_import :: "vmimport option \<Rightarrow> vmimport option \<Rightarrow> bool" where
  "same_import before after =
     (case before of
        None \<Rightarrow> after = None
      | Some v \<Rightarrow> (case after of
          None \<Rightarrow> vi_deletion v \<noteq> None
        | Some v' \<Rightarrow> import_identity v' = import_identity v))"

definition keeps_identity :: "'p world \<Rightarrow> 'p world \<Rightarrow> bool" where
  "keeps_identity w w' \<longleftrightarrow> (\<forall>k. same_import (w_imports w k) (w_imports w' k))"

lemma identity_fields:
  "import_identity v' = import_identity v \<Longrightarrow>
   vi_deletion v' = vi_deletion v \<and> vi_key v' = vi_key v \<and> vi_spec v' = vi_spec v \<and> vi_labels v' = vi_labels v"
  by (simp add: import_identity_def)

lemma same_import_refl [simp]: "same_import x x"
  by (simp add: same_import_def split: option.split)

lemma same_import_trans: "same_import x y \<Longrightarrow> same_import y z \<Longrightarrow> same_import x z"
  by (cases x; cases y; cases z) (auto simp: same_import_def dest: identity_fields)

lemma same_import_stored: "import_identity v' = import_identity v \<Longrightarrow> same_import (Some v) (stored v')"
  by (auto simp: same_import_def stored_def dest: identity_fields)

lemma identity_changes:
  assumes "changes_import k f w w'" and "\<And>v. import_identity (f v) = import_identity v"
  shows "keeps_identity w w'"
proof -
  from assms(1) consider "w_imports w' = w_imports w"
    | v where "w_imports w k = Some v" "w_imports w' = (w_imports w)(k := stored (f v))"
    by (auto simp: changes_import_def put_import_def)
  then show ?thesis
    by cases (auto simp: keeps_identity_def same_import_stored assms(2))
qed

lemma identity_upserts: "import_identity (upserts n cs v) = import_identity v"
  by (simp add: upserts_def import_identity_def set_conditions_def vi_key_def)

lemma identity_provider: "provider_step w w' \<Longrightarrow> keeps_identity w w'"
proof -
  have "same_import x y" if "import_step x y" for x y
    using that by (cases x; cases y) (auto simp: import_step_def same_import_def import_identity_def vi_key_def)
  then show "provider_step w w' \<Longrightarrow> keeps_identity w w'"
    unfolding provider_step_def keeps_identity_def by blast
qed

lemma identity_trans: "keeps_identity u v \<Longrightarrow> keeps_identity v w \<Longrightarrow> keeps_identity u w"
  unfolding keeps_identity_def using same_import_trans by blast

interpretation identity: import_rel keeps_identity "\<lambda>c. c_reason c \<noteq> None"
proof unfold_locales
  show "keeps_identity w w" for w :: "'a world" by (simp add: keeps_identity_def)
  show "keeps_identity u w" if "keeps_identity u v" "keeps_identity v w" for u v w :: "'a world"
    using that by (rule identity_trans)
  show "keeps_identity w w'" if "w_imports w' = w_imports w" for w w' :: "'a world"
    using that by (simp add: keeps_identity_def)
  show "keeps_identity w w'" if "provider_step w w'" for w w' :: "'a world"
    using that by (rule identity_provider)
  show "keeps_identity w w'" if "changes_import k (upserts n cs) w w'" for k n cs and w w' :: "'a world"
    using that by (rule identity_changes) (rule identity_upserts)
qed ((erule identity_changes, simp add: import_identity_def vi_key_def)+, simp)

interpretation identity: reconcile_rel keeps_identity "\<lambda>c. c_reason c \<noteq> None" "the_ovirt X" "the_vmware X" for X
  by unfold_locales

lemmas reconcile_identity = identity.frames_Reconcile [where X = X and E = "en_runtime X" for X, folded reconcile_def]

section \<open>Runs of the program\<close>

text \<open>
  A step is a run of the reconciler for some import, a request of a user for an import (the server
  ignores a status in such a request, and an object that is deleted with finalizers stays), or a change
  of anything but the imports.
\<close>

inductive step :: "'e surroundings \<Rightarrow> 'e source world \<Rightarrow> 'e source world \<Rightarrow> bool" for X where
  reconciling: "step X w (snd (reconcile X k w))"
| creating: "w_imports w k = None \<Longrightarrow> vi_key v = k \<Longrightarrow> vi_deletion v = None \<Longrightarrow>
    vi_status v = \<lparr>st_target_vm_name = [], st_conditions = [], st_data_volumes = []\<rparr> \<Longrightarrow>
    step X w (w\<lparr>w_imports := (w_imports w)(k \<mapsto> v)\<rparr>)"
| editing: "w_imports w k = Some v \<Longrightarrow>
    step X w (put_import k (v\<lparr>vi_spec := s, vi_annotations := a, vi_labels := l\<rparr>) w)"
| deleting: "w_imports w k = Some v \<Longrightarrow> vi_deletion v = None \<Longrightarrow>
    step X w (put_import k (v\<lparr>vi_deletion := Some t\<rparr>) w)"
| elsewhere: "w_imports w' = w_imports w \<Longrightarrow> step X w w'"

inductive reachable :: "'e surroundings \<Rightarrow> 'e source world \<Rightarrow> bool" for X where
  initial: "w_imports w = Map.empty \<Longrightarrow> reachable X w"
| further: "reachable X w \<Longrightarrow> step X w w' \<Longrightarrow> reachable X w'"

definition import_ok :: "nsname \<Rightarrow> vmimport \<Rightarrow> bool" where
  "import_ok k v \<longleftrightarrow> vi_key v = k \<and> conds_wf (vi_conditions v)"

lemma all_importsD: "all_imports Q w \<Longrightarrow> w_imports w k = Some v \<Longrightarrow> Q k v"
  unfolding all_imports_def by blast

lemma all_imports_empty: "w_imports w = Map.empty \<Longrightarrow> all_imports Q w"
  by (simp add: all_imports_def)

lemma all_imports_put: "all_imports Q w \<Longrightarrow> Q k v \<Longrightarrow> all_imports Q (put_import k v w)"
  by (auto simp: all_imports_def put_import_def stored_def split: if_splits)

lemma reconcile_keys:
  assumes "all_imports (\<lambda>k v. vi_key v = k) w"
  shows "all_imports (\<lambda>k v. vi_key v = k) (snd (reconcile X request w))"
  unfolding all_imports_def
proof (intro allI impI)
  fix k v'
  assume v': "w_imports (snd (reconcile X request w)) k = Some v'"
  have "same_import (w_imports w k) (w_imports (snd (reconcile X request w)) k)"
    using framesD [OF reconcile_identity] unfolding keeps_identity_def by blast
  with v' obtain v where "w_imports w k = Some v" "import_identity v' = import_identity v"
    by (auto simp: same_import_def split: option.splits)
  with all_importsD [OF assms, of k v] show "vi_key v' = k" by (auto dest: identity_fields)
qed

lemma import_ok_split: "all_imports import_ok w \<longleftrightarrow>
   all_imports (\<lambda>k v. vi_key v = k) w \<and> all_imports (\<lambda>k v. conds_wf (vi_conditions v)) w"
  by (auto simp: all_imports_def import_ok_def)

lemma step_import_ok: "step X w w' \<Longrightarrow> all_imports import_ok w \<Longrightarrow> all_imports import_ok w'"
proof (induction rule: step.induct)
  case (reconciling w k)
  then show ?case
    using reconcile_keys [of w X k] program.Reconcile_wellformed [of w "en_runtime X" X k]
    by (simp add: import_ok_split reconcile_def)
next
  case (creating w k v)
  then show ?case by (auto simp: all_imports_def import_ok_def conds_wf_def)
next
  case (editing w k v s a l)
  then have "import_ok k v" by (auto dest: all_importsD)
  with editing show ?case by (intro all_imports_put) (auto simp: import_ok_def vi_key_def)
next
  case (deleting w k v t)
  then have "import_ok k v" by (auto dest: all_importsD)
  with deleting show ?case by (intro all_imports_put) (auto simp: import_ok_def vi_key_def)
next
  case (elsewhere w' w)
  then show ?case by (simp add: all_imports_def)
qed

lemma reachable_import_ok: "reachable X w \<Longrightarrow> all_imports import_ok w"
  by (induction rule: reachable.induct) (auto intro: all_imports_empty step_import_ok)


section \<open>Facts of evaluated runs\<close>

text \<open>The last run of the demo import, and the first one.\<close>

lemma demo_late_run:
  "\<exists>w' v'. reconcile (demo_surroundings False [demo_disk ''d'']) demo_key (demo_late demo_import) = (Inr no_requeue, w') \<and>
     w_imports w' demo_key = Some v' \<and> succeeded_true (vi_conditions v')"
  by (simp add: run_defs demo_late_def succeeded_true_def cong: run_cong)

lemma demo_early_run:
  "w_vms (snd (reconcile (demo_surroundings False [demo_disk ''d'']) demo_key (demo_early demo_faults))) (''ns'', ''target'') \<noteq> None"
  by (simp add: run_defs demo_early_def demo_new_def cong: run_cong)

lemma api_NoFault:
  "w_faults w (w_calls w) = NoFault \<Longrightarrow> f (w\<lparr>w_calls := Suc (w_calls w)\<rparr>) = Inr r \<Longrightarrow> api f w = (Inr (fst r), snd r)"
  by (cases r) (simp add: api_def Let_def)

section \<open>Properties\<close>

text \<open>
  C8. Whatever request it works on, the reconciler creates no import, never changes the key, uid,
  creation and deletion times, labels or the spec of one, and lets an import disappear only when its
  deletion was requested.
\<close>

theorem reconcile_keeps_identity: "keeps_identity w (snd (reconcile X k w))"
  using reconcile_identity by (rule framesD)

text \<open>
  C3. In every world that the program, its users and the rest of the cluster can reach, an import is
  stored under its own key, has at most one condition of each type, every one with a reason, so that
  the tests of the Succeeded condition never run into a nil pointer.
\<close>

theorem reachable_imports_wellformed:
  assumes "reachable X w" and "w_imports w k = Some v"
  shows "vi_key v = k \<and> conds_wf (vi_conditions v) \<and>
    HasSucceededConditionOfReason (vi_conditions v) rs =
      Inr (\<exists>c \<in> set (vi_conditions v). c_type c = Succeeded \<and> the (c_reason c) \<in> succeeded_reason ` set rs)"
proof -
  have ok: "import_ok k v" using reachable_import_ok [OF assms(1)] assms(2) by (rule all_importsD)
  then have wf: "conds_wf (vi_conditions v)" by (simp add: import_ok_def)
  have "(case FindConditionOfType cs Succeeded of None \<Rightarrow> False | Some c \<Rightarrow> Q c) \<longleftrightarrow> (\<exists>c \<in> set cs. c_type c = Succeeded \<and> Q c)"
    if "distinct (map c_type cs)" for cs Q
    using that
  proof (induction cs)
    case (Cons c cs)
    then have "c_type c = Succeeded \<Longrightarrow> \<forall>d \<in> set cs. c_type d \<noteq> Succeeded" by (force simp: image_iff)
    with Cons show ?case by (cases "c_type c = Succeeded") simp_all
  qed simp
  then show ?thesis
    using ok wf HasSucceeded_wf [OF wf] by (simp add: import_ok_def conds_wf_def)
qed

theorem reachable_imports_wellformed_witness:
  "\<exists>v. w_imports ((demo_world poweredOff demo_import)\<lparr>w_imports := [demo_key \<mapsto> v]\<rparr>) demo_key = Some v \<and>
     HasSucceededConditionOfReason (vi_conditions v) [VirtualMachineReady] = Inr False"
proof -
  let ?v = "demo_import\<lparr>vi_status := \<lparr>st_target_vm_name = [], st_conditions = [], st_data_volumes = []\<rparr>\<rparr>"
  let ?w = "(demo_world poweredOff demo_import)\<lparr>w_imports := Map.empty\<rparr>"
  have "reachable (demo_surroundings False []) ?w" by (rule initial) simp
  moreover have "step (demo_surroundings False []) ?w (?w\<lparr>w_imports := (w_imports ?w)(demo_key \<mapsto> ?v)\<rparr>)"
    by (rule creating) (simp_all add: demo_import_sel demo_key_def vi_key_def)
  ultimately have "reachable (demo_surroundings False []) (?w\<lparr>w_imports := (w_imports ?w)(demo_key \<mapsto> ?v)\<rparr>)"
    by (rule further)
  from reachable_imports_wellformed [OF this, of demo_key ?v "[VirtualMachineReady]"] show ?thesis
    by (intro exI [of _ ?v]) simp
qed

text \<open>
  C1. A run that leaves an import with a true Succeeded condition it did not have before has, in this
  order, validated the source, found or created the virtual machine, seen every data volume that the
  mapper lists for this machine in the phase Succeeded and, where the provider needs it, seen the guest
  conversion succeed; and at its end all these data volumes are in the phase Succeeded.
\<close>

theorem success_has_evidence:
  assumes "reconcile X k w = (r, w')"
    and "w_imports w k = Some v" and "FindConditionOfType (vi_conditions v) Succeeded = None"
    and "w_imports w' k = Some v'" and "succeeded_true (vi_conditions v')"
  shows "reconcile_completed (en_runtime X) (the_ovirt X) (the_vmware X) k w w'"
  using program.Reconcile_sound [OF assms(1) [unfolded reconcile_def] assms(2-5)] .

theorem success_has_evidence_witness:
  "\<exists>w'. reconcile_completed (en_runtime (demo_surroundings False [demo_disk ''d''])) (the_ovirt (demo_surroundings False [demo_disk ''d'']))
     (the_vmware (demo_surroundings False [demo_disk ''d''])) demo_key (demo_late demo_import) w'"
proof -
  have "w_imports (demo_late demo_import) demo_key = Some demo_import"
    by (simp add: demo_late_def demo_world_def demo_imports_def)
  moreover have "FindConditionOfType (vi_conditions demo_import) Succeeded = None" by (simp add: demo_import_sel)
  ultimately show ?thesis using demo_late_run success_has_evidence by blast
qed

text \<open>
  C2. A run touches a virtual machine or a data volume of the cluster only for an import that it found
  in the cluster and that is still to be reconciled, after the provider of its source was initialized
  and the validation of the source passed in this run or was recorded as passed before.
\<close>

theorem effects_need_validation:
  assumes "\<not> (w_vms (snd (reconcile X k w)) = w_vms w \<and> w_dvs (snd (reconcile X k w)) = w_dvs w)"
  shows "run_validated (the_ovirt X) (the_vmware X) k w"
  using assms program.Reconcile_needs_validation [of w "en_runtime X" X k]
  by (simp add: keeps_disks_def reconcile_def)

theorem effects_need_validation_witness:
  "run_validated (the_ovirt (demo_surroundings False [demo_disk ''d''])) (the_vmware (demo_surroundings False [demo_disk ''d''])) demo_key (demo_early demo_faults)"
proof (rule effects_need_validation)
  have "w_vms (demo_early demo_faults) (''ns'', ''target'') = None"
    by (simp add: demo_early_def demo_world_def nothing_def)
  then show "\<not> (w_vms (snd (reconcile (demo_surroundings False [demo_disk ''d'']) demo_key (demo_early demo_faults))) = w_vms (demo_early demo_faults) \<and>
      w_dvs (snd (reconcile (demo_surroundings False [demo_disk ''d'']) demo_key (demo_early demo_faults))) = w_dvs (demo_early demo_faults))"
    using demo_early_run by metis
qed

text \<open>
  C4. An import whose deletion was requested and that has no finalizer but the one of a cancelled
  import disappears in its next run without faults: the run counts it as cancelled, with the time from
  its creation to the request, asks for no other run and touches nothing else.
\<close>

theorem cancelled_import_disappears:
  assumes "w_imports w k = Some v" and "vi_key v = k" and "vi_deletion v = Some t"
    and "vi_finalizers v = [CancelledImportFinalizer]" and "\<forall>n. w_faults w n = NoFault"
  shows "\<exists>n. reconcile X k w = (Inr no_requeue,
     w\<lparr>w_calls := n, w_imports := (w_imports w)(k := None),
       w_counters := (w_counters w)(ResultCancelled := Suc (w_counters w ResultCancelled)),
       w_durations := w_durations w @ [(ResultCancelled, t - vi_creation v)]\<rparr>)"
proof -
  have has: "HasFinalizer v CancelledImportFinalizer" by (simp add: HasFinalizer_def assms)
  show ?thesis
    using assms has
    by (intro exI [of _ "Suc (Suc (w_calls w))"])
      (simp add: reconcile_def Reconcile_def handle_deletion_def AddFinalizer_def RemoveFinalizer_def patch_finalizers_def
        patch_import_def put_import_def stored_def save_metrics_def calculateImportDuration_def now_def inc_counter_def
        save_duration_def get_import_def get_from_def gtry_unfold gbind_unfold api_NoFault)
qed


definition demo_deleted :: "string list \<Rightarrow> vmimport" where
  "demo_deleted fs = demo_import\<lparr>vi_annotations := [sourceVMInitialState \<mapsto> VMStatusUp], vi_finalizers := fs, vi_deletion := Some 5\<rparr>"

theorem cancelled_import_disappears_witness:
  "w_imports (snd (reconcile (demo_surroundings False []) demo_key
     (demo_world poweredOff (demo_deleted [CancelledImportFinalizer])))) demo_key = None"
proof -
  let ?v = "demo_deleted [CancelledImportFinalizer]" and ?w = "demo_world poweredOff (demo_deleted [CancelledImportFinalizer])"
  have "w_imports ?w demo_key = Some ?v" "\<forall>n. w_faults ?w n = NoFault"
    by (simp_all add: demo_world_def demo_imports_def demo_faults_def)
  moreover have "vi_key ?v = demo_key" "vi_deletion ?v = Some 5" "vi_finalizers ?v = [CancelledImportFinalizer]"
    by (simp_all add: demo_deleted_def vi_key_def demo_key_def demo_import_sel)
  ultimately show ?thesis using cancelled_import_disappears [of ?w demo_key ?v 5 "demo_surroundings False []"] by auto
qed

text \<open>
  C6. An import whose deletion was requested, that keeps a finalizer, has no progress recorded and lost
  the finalizer of cancelled imports can never leave the cluster: the reconciler first tries to add
  that finalizer again, which the server refuses for an object that is being deleted, so that every run
  without faults ends in an error before the source machine is restored, and no run changes anything.
\<close>

theorem stuck_deletion:
  assumes "w_imports w k = Some v" and "vi_key v = k" and "vi_deletion v \<noteq> None"
    and "\<not> vmImportInProgress v" and "\<not> HasFinalizer v CancelledImportFinalizer"
  shows "(\<exists>n. snd (reconcile X k w) = w\<lparr>w_calls := n\<rparr>) \<and>
    ((\<forall>n. w_faults w n = NoFault) \<longrightarrow> (\<exists>e. fst (reconcile X k w) = Inl e))"
proof -
  have "CancelledImportFinalizer \<notin> set (vi_finalizers v)"
    using assms(5) by (simp add: HasFinalizer_def list_ex_iff)
  with assms have add: "\<exists>e. AddFinalizer v CancelledImportFinalizer w1 = (Inl e, w1\<lparr>w_calls := Suc (w_calls w1)\<rparr>)"
    if "w_imports w1 = w_imports w" for w1
    using that
    by (cases "w_faults w1 (w_calls w1)")
      (simp_all add: AddFinalizer_def patch_finalizers_def patch_import_def gbind_unfold api_def Let_def)
  show ?thesis
  proof (cases "get_import k w")
    case (Pair r w1)
    then have w1: "w1 = w\<lparr>w_calls := Suc (w_calls w)\<rparr>"
      using get_from_world [of _ w_imports k w] by (simp add: get_import_def)
    show ?thesis
    proof (cases r)
      case (Inl e)
      then have "\<not> (\<forall>n. w_faults w n = NoFault)"
        using Pair assms(1) by (intro notI) (simp add: get_import_def get_from_def api_NoFault)
      moreover have "snd (reconcile X k w) = w1"
        using Pair Inl by (simp add: reconcile_def Reconcile_def gtry_unfold)
      ultimately show ?thesis unfolding w1 by blast
    next
      case (Inr v')
      then have "v' = v" using get_import_result [of k w v' w1] Pair assms(1) by simp
      obtain e where "AddFinalizer v CancelledImportFinalizer w1 = (Inl e, w1\<lparr>w_calls := Suc (w_calls w1)\<rparr>)"
        using add [of w1] w1 by auto
      then have "reconcile X k w = (Inl e, w\<lparr>w_calls := Suc (w_calls w1)\<rparr>)"
        using Pair Inr assms(4) \<open>v' = v\<close> by (simp add: reconcile_def Reconcile_def gtry_unfold gbind_unfold w1)
      then show ?thesis by auto
    qed
  qed
qed

text \<open>
  The deletion gets stuck when the source refuses to start the machine in the first run after the
  request: the machine stays off and later runs leave it so, even when the source would start it.
\<close>

theorem stuck_deletion_witness:
  "\<exists>w'. reconcile (demo_surroundings True []) demo_key
       (demo_world poweredOff (demo_deleted [CancelledImportFinalizer, RestoreVMStateFinalizer])) = (Inr (requeue_after 1), w') \<and>
     so_external (w_provider w') = poweredOff \<and> (\<exists>n. snd (reconcile (demo_surroundings False []) demo_key w') = w'\<lparr>w_calls := n\<rparr>)"
proof -
  have "\<exists>w' v'. reconcile (demo_surroundings True []) demo_key
       (demo_world poweredOff (demo_deleted [CancelledImportFinalizer, RestoreVMStateFinalizer])) = (Inr (requeue_after 1), w') \<and>
     so_external (w_provider w') = poweredOff \<and> w_imports w' demo_key = Some v' \<and> vi_key v' = demo_key \<and>
     vi_deletion v' \<noteq> None \<and> \<not> vmImportInProgress v' \<and> \<not> HasFinalizer v' CancelledImportFinalizer"
    by (simp add: run_defs demo_deleted_def cong: run_cong)
  then show ?thesis using stuck_deletion by blast
qed



definition demo_starting :: vmimport where
  "demo_starting = demo_import\<lparr>vi_spec := (vi_spec demo_import)\<lparr>sp_start_vm := Some True\<rparr>\<rparr>"

end
