(* ===== verification/RestSpec.thy ===== *)
theory RestSpec
  imports Runs
begin

text \<open>
  When the reconciler comes to rest: a run for an import that is done only connects to its provider, asks for no
  other run and leaves the cluster as it is.
\<close>

text \<open>What stays when only the calls are counted and the provider's own fields change.\<close>

definition rests :: "'p world \<Rightarrow> 'p world \<Rightarrow> bool" where
  "rests w w' \<longleftrightarrow> w' = w\<lparr>w_calls := w_calls w', w_provider := w_provider w'\<rparr>"

lemma rests_simps [simp]:
  "rests w (w\<lparr>w_calls := n\<rparr>)" "rests w (w\<lparr>w_provider := p\<rparr>)" "rests w w"
  by (simp_all add: rests_def)

interpretation rests: frame_rel rests
proof
  fix u v w :: "'p world"
  show "rests w w" by simp
  assume "rests u v" and "rests v w"
  then show "rests u w" by (cases u; cases v; cases w) (simp add: rests_def)
qed

lemma rests_get_from: "frames rests (get_from kind store k)"
proof (rule framesI)
  show "rests w (snd (get_from kind store k w))" for w
    using get_from_world [of kind store k w] by (cases "get_from kind store k w") auto
qed

lemma rests_source:
  "frames rests (get_source f)" "frames rests (set_source g)" "frames rests (external m)"
  by (auto simp: get_source_def set_source_def external_def frames_def split: prod.split)

lemma rests_Init: "frames rests (pv_Init (the_ovirt X) s v)" "frames rests (pv_Init (the_vmware X) s v)"
  by (auto simp: the_ovirt_def the_vmware_def ovirt_provider_def vmware_provider_def ovirt_Init_def vmware_Init_def init_source_def
      intro!: rests.frames_gbind rests_source rests.frames_gfail rests.frames_glift split: sum.split)

lemma rests_Close: "frames rests (pv_Close (the_ovirt X))" "frames rests (pv_Close (the_vmware X))"
  by (auto simp: the_ovirt_def the_vmware_def ovirt_provider_def vmware_provider_def ovirt_Close_def vmware_Close_def
      intro!: rests.frames_gbind rests.frames_gresult rests_source rests.frames_gret split: option.split)

section \<open>A finished import\<close>

text \<open>The provider of an import, when its source has one kind; the secret as it is found; and whether \<open>Init\<close> accepts it.\<close>

definition source_secret :: "vmimport \<Rightarrow> 'p world \<Rightarrow> secret option" where
  "source_secret v w =
     (let cred = sp_credentials (vi_spec v)
      in gm_get (w_secrets w) ((case oi_namespace cred of None \<Rightarrow> vi_namespace v | Some ns \<Rightarrow> ns), oi_name cred))"

definition accepted_secret :: "platform \<Rightarrow> string \<Rightarrow> string \<Rightarrow> string list \<Rightarrow> secret option \<Rightarrow> bool" where
  "accepted_secret pl key provider_name attributes sec \<longleftrightarrow>
     (case sec of None \<Rightarrow> False | Some s \<Rightarrow>
        (case pl_yaml_map pl (config_value (se_data s) key) Map.empty of
           Inl e \<Rightarrow> False | Inr data \<Rightarrow> check_attributes provider_name attributes data = Inr ()))"

definition source_ready :: "'e surroundings \<Rightarrow> vmimport \<Rightarrow> 'p world \<Rightarrow> bool" where
  "source_ready X v w \<longleftrightarrow>
     (let src = sp_source (vi_spec v); sec = source_secret v w
      in if ss_ovirt src \<noteq> None
         then ss_vmware src = None \<and> accepted_secret (en_platform X) ''ovirt'' ''oVirt'' [''apiUrl'', ''username'', ''password'', ''caCert''] sec
         else ss_vmware src \<noteq> None \<and> accepted_secret (en_platform X) ''vmware'' ''vmware'' [''apiUrl'', ''username'', ''password''] sec)"

lemma finished_provider:
  assumes "\<not> shouldReconcile v" and "vi_deletion v = None"
  shows "reconcile_with_provider E P ns v = gret no_requeue"
  using assms by (simp add: reconcile_with_provider_def)

lemma finished_init_rests:
  assumes "initProvider v P w = (Inr (message, None), w')" and "\<And>s v. frames rests (pv_Init P s v)" and "vmImportInProgress v"
  shows "rests w w'"
proof -
  from assms(1,3) obtain s w1 where s: "fetchSecret v w = (Inr s, w1)" and i: "pv_Init P s v w1 = (Inr (), w')"
    by (auto simp: initProvider_def Let_def gtry_returns split: if_splits)
  have "rests w w1"
    using framesD2 [OF rests_get_from, of "''secrets''" "\<lambda>w. gm_get (w_secrets w)"] s
    by (auto simp: fetchSecret_def Let_def get_secret_def)
  with framesD2 [OF assms(2) i] show ?thesis by (blast intro: rests.R_trans)
qed

lemma existing_rests:
  assumes "reconcile_existing E (the_ovirt X) (the_vmware X) ns v w = (Inr x, w')"
    and "\<not> shouldReconcile v" and "vi_deletion v = None" and "vmImportInProgress v"
  shows "x = no_requeue \<and> rests w w'"
proof -
  from assms(1) obtain P w1 where P: "createProvider (the_ovirt X) (the_vmware X) v w = (Inr P, w1)"
    and run: "gbind (initProvider v P) (\<lambda>(message, err). case err of
         Some e \<Rightarrow> (if vmImportInProgress v then gfail e
            else gbind (failNewImportProcess v message e) (\<lambda>_. gret no_requeue))
       | None \<Rightarrow> gdefer (reconcile_with_provider E P ns v) (pv_Close P)) w1 = (Inr x, w')"
    by (auto simp: reconcile_existing_def gbind_returns)
  have kind: "P = the_ovirt X \<or> P = the_vmware X"
    using P by (auto simp: createProvider_def Let_def gbind_returns split: if_splits)
  have "frames rests (createProvider (the_ovirt X) (the_vmware X) v)"
    unfolding createProvider_def Let_def GetBareConfig_def
    by (intro rests.frames_gbind rests.frames_gresult rests.frames_if rests.frames_gmodify rests.frames_gret rests.frames_gfail)
      (auto simp: frames_def api_def Let_def split: fault.split)
  with P have w1: "rests w w1" by (blast dest: framesD2)
  from run assms(4) obtain message w2 where i: "initProvider v P w1 = (Inr (message, None), w2)"
    and d: "gdefer (reconcile_with_provider E P ns v) (pv_Close P) w2 = (Inr x, w')"
    by (auto simp: gbind_returns split: option.splits)
  have w2: "rests w1 w2"
    using finished_init_rests [OF i _ assms(4)] kind rests_Init [of X] by blast
  have "frames rests (pv_Close P)" using kind rests_Close [of X] by auto
  with d have "x = no_requeue" "rests w2 w'"
    by (auto simp: finished_provider [OF assms(2,3)] gdefer_def dest: framesD split: prod.splits)
  with w1 w2 show ?thesis by (blast intro: rests.R_trans)
qed

lemma init_accepts:
  "accepted_secret pl key provider_name attributes (Some s) \<Longrightarrow> \<exists>w'. init_source pl key provider_name attributes s v w = (Inr (), w')"
  by (auto simp: init_source_def accepted_secret_def gbind_unfold set_source_def split: sum.splits)

lemma ready_provider:
  assumes "\<forall>n. w_faults w n = NoFault" and "source_ready X v w" and "vmImportInProgress v"
  obtains P w1 w2 where "createProvider (the_ovirt X) (the_vmware X) v w = (Inr P, w1)" and "initProvider v P w1 = (Inr ([], None), w2)"
proof -
  let ?P = "if ss_ovirt (sp_source (vi_spec v)) \<noteq> None then the_ovirt X else the_vmware X"
  from assms(2) obtain s where s: "source_secret v w = Some s" and init: "\<exists>w'. pv_Init ?P s v w1 = (Inr (), w')" for w1
    by (cases "source_secret v w")
      (auto simp: source_ready_def Let_def accepted_secret_def [of _ _ _ _ None] the_ovirt_def the_vmware_def ovirt_provider_def
        vmware_provider_def ovirt_Init_def vmware_Init_def intro!: init_accepts split: if_splits)
  have "gresult (GetBareConfig w_ctrl_config) w = (Inr (Inr (w_ctrl_config w)), w\<lparr>w_calls := Suc (w_calls w)\<rparr>)"
    using assms(1) by (simp add: gresult_def gtry_unfold GetBareConfig_def api_NoFault)
  then have "createProvider (the_ovirt X) (the_vmware X) v w =
      (Inr ?P, w\<lparr>w_calls := Suc (w_calls w), w_provider := pv_New ?P v (w_ctrl_config w) (w_provider w)\<rparr>)"
    using assms(2) by (auto simp: createProvider_def gbind_unfold source_ready_def Let_def split: if_splits)
  then obtain w1 where create: "createProvider (the_ovirt X) (the_vmware X) v w = (Inr ?P, w1)" and w1: "w_faults w1 = w_faults w" "w_secrets w1 = w_secrets w"
    by simp
  have "fetchSecret v w1 = (Inr s, w1\<lparr>w_calls := Suc (w_calls w1)\<rparr>)"
    using s assms(1) w1 by (simp add: fetchSecret_def get_secret_def get_from_def source_secret_def Let_def api_NoFault)
  moreover obtain w2 where "pv_Init ?P s v (w1\<lparr>w_calls := Suc (w_calls w1)\<rparr>) = (Inr (), w2)" using init by blast
  ultimately have "initProvider v ?P w1 = (Inr ([], None), w2)"
    using assms(3) by (simp add: initProvider_def Let_def gtry_unfold)
  with create show ?thesis by (rule that)
qed


definition demo_done :: vmimport where
  "demo_done = set_conditions demo_import
     [\<lparr>c_type = Succeeded, c_status = ConditionTrue, c_reason = Some ''VirtualMachineReady'', c_message = None,
       c_heartbeat = None, c_transition = None\<rparr>]"


end
