(* ===== verification/Watches.thy ===== *)
theory Watches
  imports Managers Conditions
begin

text \<open>
  What wakes the controller up: the watches that \<open>add\<close> of
  \<open>pkg/controller/virtualmachineimport/virtualmachineimport_controller.go\<close> registers, with the event handlers of
  controller-runtime (\<open>pkg/handler\<close>) that turn an object into requests.  The watches on importer pods are those that
  \<open>watch_pod\<close> adds to the world.
\<close>

text \<open>An owner type is a group and a kind; \<open>EnqueueRequestForOwner\<close> has \<open>IsController\<close> first.\<close>

datatype event_handler =
    EnqueueRequestForObject
  | EnqueueRequestForOwner bool "string \<times> string"

text \<open>
  \<open>getOwnerReconcileRequest\<close>: the owners of the given type, in the namespace of the object; with \<open>IsController\<close>
  only the controller counts.  The API server has no owner reference whose version does not parse.
\<close>

definition owner_requests :: "bool \<Rightarrow> string \<times> string \<Rightarrow> object_meta \<Rightarrow> nsname list" where
  "owner_requests is_controller owner_type m =
     (let refs = (if is_controller then opt_list (GetControllerOf (om_owners m)) else om_owners m)
      in map (\<lambda>r. (om_namespace m, or_name r))
           (filter (\<lambda>r. or_kind r = snd owner_type \<and> group_of (or_api_version r) = fst owner_type) refs))"

fun handler_requests :: "event_handler \<Rightarrow> object_meta \<Rightarrow> nsname list" where
  "handler_requests EnqueueRequestForObject m = [om_key m]"
| "handler_requests (EnqueueRequestForOwner is_controller owner_type) m = owner_requests is_controller owner_type m"

record controller =
  co_watches :: "(string \<times> event_handler) list"

text \<open>The requests that a change of an object of a kind adds to the queue.\<close>

definition requests :: "controller \<Rightarrow> string \<Rightarrow> object_meta \<Rightarrow> nsname list" where
  "requests c kind m = concat (map (\<lambda>(k, h). if k = kind then handler_requests h m else []) (co_watches c))"

definition pod_requests :: "'p world \<Rightarrow> string \<Rightarrow> nsname list" where
  "pod_requests w pod_name = map snd (filter (\<lambda>(n, r). n = pod_name) (w_watches w))"

text \<open>\<open>fails\<close> says for which kinds the watch cannot be started.\<close>

definition Watch :: "(string \<Rightarrow> go_error option) \<Rightarrow> string \<Rightarrow> event_handler \<Rightarrow> (controller, unit) go" where
  "Watch fails kind h =
     (case fails kind of
        Some e \<Rightarrow> gfail e
      | None \<Rightarrow> gmodify (\<lambda>c. c\<lparr>co_watches := co_watches c @ [(kind, h)]\<rparr>))"

definition import_type :: "string \<times> string" where
  "import_type = (''v2v.kubevirt.io'', ''VirtualMachineImport'')"

text \<open>\<open>created\<close> is the result of \<open>controller.New\<close>.\<close>

definition add_controller :: "go_error + controller \<Rightarrow> (string \<Rightarrow> go_error option) \<Rightarrow> go_error + controller" where
  "add_controller created fails =
     rbind created (\<lambda>c.
       let owned = EnqueueRequestForOwner True import_type;
           (r, c') = gbind (Watch fails ''VirtualMachineImport'' EnqueueRequestForObject) (\<lambda>_.
             gbind (Watch fails ''VirtualMachine'' owned) (\<lambda>_.
             gbind (Watch fails ''DataVolume'' owned) (\<lambda>_.
               Watch fails ''Job'' owned))) c
       in case r of Inl e \<Rightarrow> Inl e | Inr _ \<Rightarrow> Inr c')"

section \<open>What is watched\<close>

lemma add_controller_watches:
  assumes "add_controller (Inr \<lparr>co_watches = []\<rparr>) fails = Inr c"
  shows "co_watches c = [(''VirtualMachineImport'', EnqueueRequestForObject),
    (''VirtualMachine'', EnqueueRequestForOwner True import_type), (''DataVolume'', EnqueueRequestForOwner True import_type),
    (''Job'', EnqueueRequestForOwner True import_type)]"
  using assms by (auto simp: add_controller_def rbind_Inr Let_def gbind_unfold Watch_def split: option.splits)

lemma watched_requests:
  assumes "add_controller (Inr \<lparr>co_watches = []\<rparr>) fails = Inr c"
  shows "requests c ''VirtualMachineImport'' m = [om_key m]"
    and "kind \<in> {''VirtualMachine'', ''DataVolume'', ''Job''} \<Longrightarrow> requests c kind m = owner_requests True import_type m"
  by (auto simp: requests_def add_controller_watches [OF assms])

text \<open>An object whose controller is an import wakes this import up.\<close>

definition woken_by :: "object_meta \<Rightarrow> nsname list" where
  "woken_by m = owner_requests True import_type m"

lemma group_of_import [simp]: "group_of import_api_version = ''v2v.kubevirt.io''"
  by (simp add: group_of_def import_api_version_def)

lemma woken_by_import:
  "GetControllerOf (om_owners m) = Some r \<Longrightarrow> refer_same r (import_owner_reference True v) \<Longrightarrow>
   woken_by m = [(om_namespace m, vi_name v)]"
  by (simp add: woken_by_def owner_requests_def refer_same_def import_owner_reference_def import_type_def opt_list_def)

lemma woken_by_cong: "om_namespace m' = om_namespace m \<Longrightarrow> GetControllerOf (om_owners m') = GetControllerOf (om_owners m) \<Longrightarrow>
   woken_by m' = woken_by m"
  by (simp add: woken_by_def owner_requests_def)

lemma controller_upserted:
  assumes "or_controller ref = Some True" and "\<And>r. GetControllerOf refs = Some r \<Longrightarrow> refer_same r ref"
  shows "\<exists>r. GetControllerOf (upsertOwnerRef ref refs) = Some r \<and> refer_same r ref"
  using assms(2)
proof (induction refs)
  case Nil
  then show ?case using assms(1) by (simp add: GetControllerOf_def refer_same_def)
next
  case (Cons x refs)
  show ?case
  proof (cases "refer_same x ref")
    case True
    then show ?thesis using assms(1) by (simp add: GetControllerOf_def refer_same_def)
  next
    case False
    then have "or_controller x \<noteq> Some True" using Cons.prems [of x] by (auto simp: GetControllerOf_def)
    then show ?thesis using Cons False by (simp add: GetControllerOf_def)
  qed
qed

lemma controlled_woken:
  assumes "SetControllerReference v m = Inr m'" and "vi_namespace v \<noteq> []"
  shows "woken_by m' = [(vi_namespace v, vi_name v)] \<and> om_namespace m' = vi_namespace v \<and> om_name m' = om_name m"
proof -
  let ?ref = "import_owner_reference True v"
  have ns: "om_namespace m = vi_namespace v" and m': "m' = m\<lparr>om_owners := upsertOwnerRef ?ref (om_owners m)\<rparr>"
    and same: "GetControllerOf (om_owners m) = Some r \<Longrightarrow> refer_same r ?ref" for r
    using assms by (auto simp: SetControllerReference_def Let_def split: option.splits if_splits)
  have "or_controller ?ref = Some True" by (simp add: import_owner_reference_def)
  from controller_upserted [OF this same] obtain r where "GetControllerOf (upsertOwnerRef ?ref (om_owners m)) = Some r"
    and "refer_same r ?ref" by blast
  then show ?thesis using woken_by_import [of m' r v] ns m' by simp
qed

lemma controlled_generate: "SetControllerReference v m = Inr m' \<Longrightarrow> om_generate_name m' = om_generate_name m"
  by (auto simp: SetControllerReference_def Let_def split: option.splits if_splits)

lemma job_reference_woken:
  "woken_by (m\<lparr>om_owners := [NewVMImportControllerReference v]\<rparr>) = [(om_namespace m, vi_name v)]"
  by (simp add: woken_by_def owner_requests_def GetControllerOf_def NewVMImportControllerReference_def
      import_owner_reference_def import_type_def opt_list_def)

lemma vm_owner_not_controller:
  "GetControllerOf (refs @ [newVMOwnerReference vm]) = GetControllerOf refs"
  by (simp add: GetControllerOf_def find_append newVMOwnerReference_def split: option.split)

end
