(* ===== verification/WaitFrames.thy ===== *)
theory WaitFrames
  imports Runs Watches
begin

text \<open>
  What a run keeps while an import waits: as long as the import has not ended, data volumes stay with their phases
  and owners, new ones are controlled by the import, no job is made, every watch on a pod stays, and so does the
  metadata of the provider.
\<close>

section \<open>Jobs, watches and the metadata of the provider\<close>

definition keeps_jobs :: "'e source world \<Rightarrow> 'e source world \<Rightarrow> bool" where
  "keeps_jobs w w' \<longleftrightarrow> so_meta (w_provider w') = so_meta (w_provider w) \<and> set (w_jobs w') \<subseteq> set (w_jobs w) \<and>
     set (w_watches w) \<subseteq> set (w_watches w')"

interpretation keeps_jobs: frame_rel keeps_jobs
  by unfold_locales (auto simp: keeps_jobs_def)

lemma jobs_same:
  "w_provider w' = w_provider w \<Longrightarrow> w_jobs w' = w_jobs w \<Longrightarrow> set (w_watches w) \<subseteq> set (w_watches w') \<Longrightarrow> keeps_jobs w w'"
  by (simp add: keeps_jobs_def)

lemma jobs_silent: "frames silent m \<Longrightarrow> frames keeps_jobs m"
  by (erule frames_mono) (auto simp: silent_def intro: jobs_same)

lemma jobs_api:
  assumes f: "\<And>w x w'. f w = Inr (x, w') \<Longrightarrow> keeps_jobs w w'"
  shows "frames keeps_jobs (api f)"
proof (rule framesI)
  fix w
  obtain r w' where a: "api f w = (r, w')" by (cases "api f w")
  have calls: "keeps_jobs w (w\<lparr>w_calls := Suc (w_calls w)\<rparr>)" by (simp add: jobs_same)
  from a show "keeps_jobs w (snd (api f w))"
    by (cases rule: api_cases) (use a calls keeps_jobs.R_trans [OF calls f] in auto)
qed

lemma jobs_source:
  "frames keeps_jobs (get_source f)" "frames keeps_jobs (external m)" "frames keeps_jobs now"
  "frames keeps_jobs GetVmiNamespacedName"
  by (auto simp: get_source_def external_def now_def GetVmiNamespacedName_def keeps_jobs_def frames_def split: prod.split)

lemma jobs_set_source: "(\<And>s. so_meta (f s) = so_meta s) \<Longrightarrow> frames keeps_jobs (set_source f)"
  by (auto simp: set_source_def keeps_jobs_def frames_def)

lemma jobs_get_from: "frames keeps_jobs (get_from kind store k)"
  unfolding get_from_def by (rule jobs_api) (auto simp: jobs_same split: option.splits)

lemma jobs_gets:
  "frames keeps_jobs (get_import k)" "frames keeps_jobs (get_mapping k)" "frames keeps_jobs (get_vm k)"
  "frames keeps_jobs (get_instance k)" "frames keeps_jobs (get_dv k)" "frames keeps_jobs (get_pod k)"
  "frames keeps_jobs (get_secret k)" "frames keeps_jobs (get_config_map k)"
  unfolding get_import_def get_mapping_def get_vm_def get_instance_def get_dv_def get_pod_def get_secret_def get_config_map_def
  by (rule jobs_get_from)+

lemma jobs_background:
  "frames keeps_jobs (record_event v t reason message)" "frames keeps_jobs (inc_counter res)"
  "frames keeps_jobs (save_duration res d)" "frames keeps_jobs (watch_pod n k)" "frames keeps_jobs (GetBareConfig sel)"
  "frames keeps_jobs (create_vm vm)" "frames keeps_jobs (delete_vm k)" "frames keeps_jobs (patch_vm k g)"
  "frames keeps_jobs (create_dv dv)" "frames keeps_jobs (delete_dv k)" "frames keeps_jobs (patch_dv_owners k refs)"
  "frames keeps_jobs (patch_import k h)"
  unfolding record_event_def inc_counter_def save_duration_def watch_pod_def GetBareConfig_def create_vm_def
    delete_vm_def patch_vm_def create_dv_def delete_dv_def patch_dv_owners_def patch_import_def
  by (auto intro!: keeps_jobs.frames_gmodify jobs_api jobs_same simp: Let_def put_import_def split: if_splits option.splits)

lemma jobs_ops:
  "frames keeps_jobs (upsertStatusConditions k cs)" "frames keeps_jobs (new_condition t r m st)"
  "frames keeps_jobs (updateProgress v p)" "frames keeps_jobs (storeSourceVMStatus v s)"
  "frames keeps_jobs (updateTargetVMName k n)" "frames keeps_jobs (updateDVs k n)"
  "frames keeps_jobs (updateVMSpecDataVolumes mapper k dv)" "frames keeps_jobs (AddOwnerReference vm dv)"
  "frames keeps_jobs (AddFinalizer v f)" "frames keeps_jobs (RemoveFinalizer v f)" "frames keeps_jobs (removeFinalizer f v)"
  "frames keeps_jobs (save_metrics res v)" "frames keeps_jobs GetKubeVirtConfig" "frames keeps_jobs (fetchSecret v)"
  "frames keeps_jobs (fetchResourceMapping i ns)"
  unfolding upsertStatusConditions_def update_import_status_def new_condition_def updateProgress_def set_annotation_def
    storeSourceVMStatus_def updateTargetVMName_def updateDVs_def updateVMSpecDataVolumes_def AddOwnerReference_def
    AddFinalizer_def RemoveFinalizer_def removeFinalizer_def patch_finalizers_def save_metrics_def
    calculateImportDuration_def GetKubeVirtConfig_def fetchSecret_def fetchResourceMapping_def Let_def
  by (intro keeps_jobs.frames_combinators jobs_source jobs_gets jobs_background)+

lemmas jobs_client = jobs_source jobs_gets jobs_background jobs_ops

subsection \<open>The providers\<close>

locale other_store = object_store S for S :: "('e source, 'o) store" +
  assumes put_jobs: "keeps_jobs w (ob_put S x w)"
begin

lemma jobs_FindFor: "frames keeps_jobs (FindFor S k)"
  unfolding FindFor_def list_labelled_def by (intro keeps_jobs.frames_combinators jobs_api) (auto simp: keeps_jobs.R_refl)

lemma jobs_CreateFor: "frames keeps_jobs (CreateFor S x k)"
  unfolding CreateFor_def create_object_def by (intro jobs_api) (auto simp: Let_def put_jobs split: if_splits)

lemma jobs_DeleteFor: "frames keeps_jobs (DeleteFor S k)"
  unfolding DeleteFor_def delete_object_def
  by (intro keeps_jobs.frames_combinators jobs_FindFor jobs_api) (auto simp: put_jobs split: if_splits)

lemma jobs_ensure_present: "frames keeps_jobs create \<Longrightarrow> frames keeps_jobs (ensure_present S create)"
  unfolding ensure_present_def by (intro keeps_jobs.frames_combinators jobs_source jobs_FindFor)

end

interpretation other_secrets: other_store secret_store
  by unfold_locales (auto simp: secret_store_def intro: jobs_same)

interpretation other_config_maps: other_store config_map_store
  by unfold_locales (auto simp: config_map_store_def intro: jobs_same)

lemma jobs_of_jobs: "frames keeps_jobs (FindFor job_store k)" "frames keeps_jobs (DeleteFor job_store k)"
proof -
  show find: "frames keeps_jobs (FindFor job_store k)"
    unfolding FindFor_def list_labelled_def by (intro keeps_jobs.frames_combinators jobs_api) (auto simp: keeps_jobs.R_refl)
  show "frames keeps_jobs (DeleteFor job_store k)"
    unfolding DeleteFor_def delete_object_def
    by (intro keeps_jobs.frames_combinators find jobs_api)
      (auto simp: job_store_def keeps_jobs_def AList.delete_eq split: if_splits)
qed

lemmas jobs_stores = other_secrets.jobs_CreateFor other_secrets.jobs_DeleteFor other_secrets.jobs_ensure_present
  other_config_maps.jobs_CreateFor other_config_maps.jobs_DeleteFor other_config_maps.jobs_ensure_present jobs_of_jobs

lemma jobs_find_dvs: "frames keeps_jobs (find_dvs ns names)"
  by (induction names) (simp_all only: find_dvs.simps, (intro keeps_jobs.frames_combinators jobs_client | assumption)+)

lemma jobs_delete_dvs: "frames keeps_jobs (delete_dvs dvs)"
  by (induction dvs) (simp_all only: delete_dvs.simps, (intro keeps_jobs.frames_combinators jobs_client | assumption)+)

lemma jobs_deletions: "frames keeps_jobs (DeleteDataVolumes k)" "frames keeps_jobs (DeleteVirtualMachine k)"
  unfolding DeleteDataVolumes_def FindDataVolumes_def DeleteVirtualMachine_def FindVirtualMachine_def
  by (intro keeps_jobs.frames_combinators jobs_client jobs_find_dvs jobs_delete_dvs)+

lemma jobs_run_all: "(\<And>m. m \<in> set ms \<Longrightarrow> frames keeps_jobs m) \<Longrightarrow> frames keeps_jobs (run_all ms)"
  by (induction ms) (simp_all only: run_all.simps, (intro keeps_jobs.frames_combinators | simp)+)

lemma jobs_clean_up: "(\<And>k m. m \<in> set (steps k) \<Longrightarrow> frames keeps_jobs m) \<Longrightarrow> frames keeps_jobs (clean_up steps cr)"
  unfolding clean_up_def by (intro keeps_jobs.frames_combinators jobs_client jobs_run_all)

lemma jobs_init_source: "frames keeps_jobs (init_source pl key n attrs s v)"
  unfolding init_source_def by (intro keeps_jobs.frames_combinators jobs_client jobs_set_source) simp_all

lemma jobs_load_instance: "(\<And>src. frames keeps_jobs (load src)) \<Longrightarrow> frames keeps_jobs (load_instance load)"
  unfolding load_instance_def by (intro keeps_jobs.frames_combinators jobs_client)

lemma jobs_create_owned_secret: "frames keeps_jobs (create_owned_secret a b)"
  unfolding create_owned_secret_def by (intro keeps_jobs.frames_combinators jobs_client jobs_stores)

text \<open>What the controller relies on besides: no operation but the launch makes a job or changes the metadata.\<close>

locale waiting_contract = provider_contract P for P :: "'e source provider" +
  assumes jobs_Init: "frames keeps_jobs (pv_Init P s v)"
    and jobs_TestConnection: "frames keeps_jobs (pv_TestConnection P)"
    and jobs_Close: "frames keeps_jobs (pv_Close P)"
    and jobs_LoadVM: "frames keeps_jobs (pv_LoadVM P src)"
    and jobs_PrepareResourceMapping: "frames keeps_jobs (pv_PrepareResourceMapping P m src)"
    and jobs_Validate: "frames keeps_jobs (pv_Validate P)"
    and jobs_ValidateDiskStatus: "frames keeps_jobs (pv_ValidateDiskStatus P n)"
    and jobs_StopVM: "frames keeps_jobs (pv_StopVM P v)"
    and jobs_CreateMapper: "frames keeps_jobs (pv_CreateMapper P)"
    and jobs_MapVM: "pv_CreateMapper P w = (Inr mapper, w') \<Longrightarrow> frames keeps_jobs (mp_MapVM mapper t vm)"
    and jobs_GetVMStatus: "frames keeps_jobs (pv_GetVMStatus P)"
    and jobs_GetVMName: "frames keeps_jobs (pv_GetVMName P)"
    and jobs_StartVM: "frames keeps_jobs (pv_StartVM P)"
    and jobs_CleanUp: "frames keeps_jobs (pv_CleanUp P failed v)"
    and jobs_FindTemplate: "frames keeps_jobs (pv_FindTemplate P)"
    and jobs_ProcessTemplate: "frames keeps_jobs (pv_ProcessTemplate P tpl t ns)"
    and jobs_GetGuestConversionJob: "frames keeps_jobs (pv_GetGuestConversionJob P)"
begin

lemmas jobs_provider = jobs_Init jobs_TestConnection jobs_Close jobs_LoadVM jobs_PrepareResourceMapping jobs_Validate
  jobs_ValidateDiskStatus jobs_StopVM jobs_CreateMapper jobs_GetVMStatus jobs_GetVMName jobs_StartVM jobs_CleanUp
  jobs_FindTemplate jobs_ProcessTemplate jobs_GetGuestConversionJob

end

lemma jobs_HandlerProcessTemplate: "frames keeps_jobs (HandlerProcessTemplate pl t n ns)"
  by (rule jobs_silent) (rule silent_ProcessTemplate)

lemma jobs_ovirt_client:
  "frames keeps_jobs (ovirt_getClient C)" "frames keeps_jobs (ovirt_LoadVM C src)" "frames keeps_jobs (ovirt_getVM C)"
proof -
  show c: "frames keeps_jobs (ovirt_getClient C)"
    unfolding ovirt_getClient_def by (intro keeps_jobs.frames_combinators jobs_client jobs_set_source) simp
  show l: "frames keeps_jobs (ovirt_LoadVM C src)" for src
    unfolding ovirt_LoadVM_def by (intro keeps_jobs.frames_combinators jobs_client c jobs_set_source) simp
  show "frames keeps_jobs (ovirt_getVM C)"
    unfolding ovirt_getVM_def by (intro keeps_jobs.frames_combinators jobs_client jobs_load_instance l)
qed

interpretation ovirt_waits: waiting_contract "ovirt_provider pl rd sh C" for pl rd sh C
proof unfold_locales
  fix s v src m n t vm tpl ns failure'
  let ?P = "ovirt_provider pl rd sh C"
  note prov = keeps_jobs.frames_combinators jobs_client jobs_ovirt_client jobs_load_instance jobs_HandlerProcessTemplate
  show "frames keeps_jobs (pv_Init ?P s v)" by (simp add: ovirt_provider_def ovirt_Init_def jobs_init_source)
  show "frames keeps_jobs (pv_TestConnection ?P)" by (simp add: ovirt_provider_def ovirt_TestConnection_def) (intro prov)
  show "frames keeps_jobs (pv_Close ?P)" by (simp add: ovirt_provider_def ovirt_Close_def) (intro prov)
  show "frames keeps_jobs (pv_LoadVM ?P src)" by (simp add: ovirt_provider_def jobs_ovirt_client)
  show "frames keeps_jobs (pv_PrepareResourceMapping ?P m src)"
    by (simp add: ovirt_provider_def ovirt_PrepareResourceMapping_def) (intro prov jobs_set_source, simp)
  show "frames keeps_jobs (pv_Validate ?P)"
    by (simp add: ovirt_provider_def ovirt_Validate_def) (intro prov jobs_silent silent_OvirtValidate)
  show "frames keeps_jobs (pv_ValidateDiskStatus ?P n)" by (simp add: ovirt_provider_def ovirt_ValidateDiskStatus_def) (intro prov)
  show "frames keeps_jobs (pv_StopVM ?P v)" by (simp add: ovirt_provider_def ovirt_StopVM_def) (intro prov)
  show "frames keeps_jobs (pv_CreateMapper ?P)"
    by (simp add: ovirt_provider_def ovirt_CreateMapper_def prepareDataVolumeCredentials_def ensureSecretIsPresent_def
        ensureConfigMapIsPresent_def createConfigMap_def Let_def) (intro prov jobs_create_owned_secret jobs_stores)
  show "frames keeps_jobs (pv_GetVMStatus ?P)" by (simp add: ovirt_provider_def ovirt_GetVMStatus_def) (intro prov)
  show "frames keeps_jobs (pv_GetVMName ?P)" by (simp add: ovirt_provider_def ovirt_GetVMName_def) (intro prov)
  show "frames keeps_jobs (pv_StartVM ?P)" by (simp add: ovirt_provider_def ovirt_StartVM_def) (intro prov)
  show "frames keeps_jobs (pv_CleanUp ?P failure' v)"
    by (simp add: ovirt_provider_def ovirt_CleanUp_def) (rule jobs_clean_up, auto intro: jobs_stores jobs_deletions split: if_splits)
  show "frames keeps_jobs (pv_FindTemplate ?P)"
    by (simp add: ovirt_provider_def ovirt_FindTemplate_def) (intro prov jobs_silent [OF silent_OvirtFindTemplate])
  show "frames keeps_jobs (pv_ProcessTemplate ?P tpl t ns)"
    by (simp add: ovirt_provider_def ovirt_ProcessTemplate_def) (intro prov jobs_silent [OF silent_OvirtGetMetadata])
  show "frames keeps_jobs (pv_GetGuestConversionJob ?P)" by (simp add: ovirt_provider_def keeps_jobs.frames_gret)
next
  fix w mapper w' t vm
  assume "pv_CreateMapper (ovirt_provider pl rd sh C) w = (Inr mapper, w')"
  then obtain o' where "mapper = ovirt_mapper_ops pl rd o'"
    by (auto simp: ovirt_provider_def ovirt_CreateMapper_def gbind_returns)
  then show "frames keeps_jobs (mp_MapVM mapper t vm)" by (simp add: ovirt_mapper_ops_def jobs_silent silent_MapVM)
qed

lemma jobs_vmware_client:
  "frames keeps_jobs (vmware_getClient C)" "frames keeps_jobs (vmware_LoadVM C src)" "frames keeps_jobs (vmware_getVM C)"
  "frames keeps_jobs (getVmProperties C)"
proof -
  show c: "frames keeps_jobs (vmware_getClient C)"
    unfolding vmware_getClient_def by (intro keeps_jobs.frames_combinators jobs_client jobs_set_source) simp
  show l: "frames keeps_jobs (vmware_LoadVM C src)" for src
    unfolding vmware_LoadVM_def by (intro keeps_jobs.frames_combinators jobs_client c jobs_set_source) simp
  show v: "frames keeps_jobs (vmware_getVM C)"
    unfolding vmware_getVM_def by (intro keeps_jobs.frames_combinators jobs_client jobs_load_instance l)
  show "frames keeps_jobs (getVmProperties C)"
    unfolding getVmProperties_def by (intro keeps_jobs.frames_combinators jobs_client c v jobs_set_source) simp
qed

interpretation vmware_waits: waiting_contract "vmware_provider pl rd sh C" for pl rd sh C
proof unfold_locales
  fix s v src m n t vm tpl ns failure'
  let ?P = "vmware_provider pl rd sh C"
  note prov = keeps_jobs.frames_combinators jobs_client jobs_vmware_client jobs_load_instance jobs_HandlerProcessTemplate
  show "frames keeps_jobs (pv_Init ?P s v)" by (simp add: vmware_provider_def vmware_Init_def jobs_init_source)
  show "frames keeps_jobs (pv_TestConnection ?P)" by (simp add: vmware_provider_def vmware_TestConnection_def) (intro prov)
  show "frames keeps_jobs (pv_Close ?P)" by (simp add: vmware_provider_def vmware_Close_def) (intro prov)
  show "frames keeps_jobs (pv_LoadVM ?P src)" by (simp add: vmware_provider_def jobs_vmware_client)
  show "frames keeps_jobs (pv_PrepareResourceMapping ?P m src)"
    by (simp add: vmware_provider_def vmware_PrepareResourceMapping_def) (intro prov jobs_set_source, simp)
  show "frames keeps_jobs (pv_Validate ?P)" by (simp add: vmware_provider_def vmware_Validate_def) (intro prov)
  show "frames keeps_jobs (pv_ValidateDiskStatus ?P n)" by (simp add: vmware_provider_def keeps_jobs.frames_gret)
  show "frames keeps_jobs (pv_StopVM ?P v)" by (simp add: vmware_provider_def vmware_StopVM_def) (intro prov)
  show "frames keeps_jobs (pv_CreateMapper ?P)"
    by (simp add: vmware_provider_def vmware_CreateMapper_def vmware_prepareDataVolumeCredentials_def
        vmware_ensureSecretIsPresent_def Let_def) (intro prov jobs_create_owned_secret jobs_stores)
  show "frames keeps_jobs (pv_GetVMStatus ?P)" by (simp add: vmware_provider_def vmware_GetVMStatus_def) (intro prov)
  show "frames keeps_jobs (pv_GetVMName ?P)" by (simp add: vmware_provider_def vmware_GetVMName_def) (intro prov)
  show "frames keeps_jobs (pv_StartVM ?P)" by (simp add: vmware_provider_def vmware_StartVM_def) (intro prov)
  show "frames keeps_jobs (pv_CleanUp ?P failure' v)"
    by (simp add: vmware_provider_def vmware_CleanUp_def) (rule jobs_clean_up, auto intro: jobs_stores jobs_deletions split: if_splits)
  show "frames keeps_jobs (pv_FindTemplate ?P)"
    by (simp add: vmware_provider_def vmware_FindTemplate_def) (intro prov jobs_silent [OF silent_VmwareFindTemplate])
  show "frames keeps_jobs (pv_ProcessTemplate ?P tpl t ns)"
    by (simp add: vmware_provider_def vmware_ProcessTemplate_def) (intro prov jobs_silent [OF silent_VmwareGetMetadata])
  show "frames keeps_jobs (pv_GetGuestConversionJob ?P)"
    by (simp add: vmware_provider_def GetGuestConversionJob_def) (intro prov jobs_stores)
next
  fix w mapper w' t vm
  assume "pv_CreateMapper (vmware_provider pl rd sh C) w = (Inr mapper, w')"
  then obtain r where "mapper = vmware_mapper_ops pl rd r"
    by (auto simp: vmware_provider_def vmware_CreateMapper_def gbind_returns)
  then show "frames keeps_jobs (mp_MapVM mapper t vm)" by (simp add: vmware_mapper_ops_def jobs_silent silent_vmware_MapVM)
qed

end
