(* ===== verification/Waiting.thy ===== *)
theory Waiting
  imports WaitFrames
begin

text \<open>
  \<open>waits k\<close>: what every part of a run keeps until the import \<open>k\<close> has ended, function by function down to
  the import of the disks.
\<close>

section \<open>An import that has ended\<close>

definition ended :: "nsname \<Rightarrow> 'p world \<Rightarrow> bool" where
  "ended k w \<longleftrightarrow> (case w_imports w k of None \<Rightarrow> True | Some v \<Rightarrow> FindConditionOfType (vi_conditions v) Succeeded \<noteq> None)"

definition ends :: "nsname \<Rightarrow> 'p world \<Rightarrow> 'p world \<Rightarrow> bool" where
  "ends k w w' \<longleftrightarrow> (ended k w \<longrightarrow> ended k w')"

lemma Find_upserts:
  "FindConditionOfType (vi_conditions v) t \<noteq> None \<or> (\<exists>c \<in> set cs. c_type c = t) \<Longrightarrow>
   FindConditionOfType (vi_conditions (upserts n cs v)) t \<noteq> None"
proof -
  have "FindConditionOfType (vi_conditions v) t \<noteq> None \<or> (\<exists>c \<in> set cs. c_type c = t) \<Longrightarrow>
    FindConditionOfType (vi_conditions (fold (\<lambda>c v. UpsertCondition v c n) cs v)) t \<noteq> None"
  proof (induction cs arbitrary: v)
    case (Cons c cs)
    then have "FindConditionOfType (vi_conditions (UpsertCondition v c n)) t \<noteq> None \<or> (\<exists>c \<in> set cs. c_type c = t)"
      by (auto simp: Find_Upsert)
    from Cons.IH [OF this] show ?case by simp
  qed simp
  then show "FindConditionOfType (vi_conditions v) t \<noteq> None \<or> (\<exists>c \<in> set cs. c_type c = t) \<Longrightarrow>
    FindConditionOfType (vi_conditions (upserts n cs v)) t \<noteq> None"
    by (simp add: upserts_def)
qed

definition has_succeeded :: "vmimport \<Rightarrow> bool" where
  "has_succeeded v \<longleftrightarrow> FindConditionOfType (vi_conditions v) Succeeded \<noteq> None"

lemma ended_iff: "ended k w \<longleftrightarrow> (\<forall>v. w_imports w k = Some v \<longrightarrow> has_succeeded v)"
  by (auto simp: ended_def has_succeeded_def split: option.splits)

lemma stored_SomeD: "stored v = Some v' \<Longrightarrow> v' = v"
  by (simp add: stored_def split: if_splits)

lemma ends_changes:
  assumes "changes_import k' f w w'" and "\<And>v. has_succeeded v \<Longrightarrow> has_succeeded (f v)"
  shows "ends k w w'"
proof -
  from assms(1) consider "w_imports w' = w_imports w"
    | v where "w_imports w k' = Some v" "w_imports w' = (w_imports w)(k' := stored (f v))"
    by (auto simp: changes_import_def put_import_def)
  then show ?thesis
    by cases (auto simp: ends_def ended_iff assms(2) dest: stored_SomeD)
qed

lemma ends_provider:
  assumes "provider_step w w'"
  shows "ends k w w'"
proof -
  have "import_step (w_imports w k) (w_imports w' k)" using assms unfolding provider_step_def by blast
  then show ?thesis by (auto simp: ends_def ended_iff has_succeeded_def import_step_def split: option.splits)
qed

lemma ends_refl: "ends k w w" and ends_trans: "ends k u v \<Longrightarrow> ends k v w \<Longrightarrow> ends k u w"
  by (auto simp: ends_def)

interpretation ends: import_rel "ends k" "\<lambda>_. True" for k
proof unfold_locales
  show "ends k w w" for w :: "'a world" by (rule ends_refl)
  show "ends k u w" if "ends k u v" "ends k v w" for u v w :: "'a world" using that by (rule ends_trans)
  show "ends k w w'" if "w_imports w' = w_imports w" for w w' :: "'a world"
    using that by (simp add: ends_def ended_iff)
  show "ends k w w'" if "provider_step w w'" for w w' :: "'a world" using that by (rule ends_provider)
  show "ends k w w'" if "changes_import k' (upserts n cs) w w'" for k' n cs and w w' :: "'a world"
    using that by (rule ends_changes) (use Find_upserts in \<open>auto simp: has_succeeded_def\<close>)
qed ((erule ends_changes, simp add: has_succeeded_def)+, simp)

lemma upsert_ends:
  assumes "upsertStatusConditions k cs w = (Inr u, w')" and "\<exists>c \<in> set cs. c_type c = Succeeded"
  shows "ended k w'"
proof -
  from assms(1) obtain v w1 n w2 u' where g: "get_import k w = (Inr v, w1)" and "now w1 = (Inr n, w2)"
    and p: "patch_import k (\<lambda>x. x\<lparr>vi_status := vi_status (fold (\<lambda>c copy. UpsertCondition copy c n) cs v)\<rparr>) w2 = (Inr u', w')"
    by (auto simp: upsertStatusConditions_def update_import_status_def gbind_returns)
  from patch_import_result [OF p] obtain v0 where u': "u' = v0\<lparr>vi_status := vi_status (fold (\<lambda>c copy. UpsertCondition copy c n) cs v)\<rparr>"
    and w': "w_imports w' k = stored u'" by (auto simp: put_import_def)
  have "FindConditionOfType (vi_conditions (upserts n cs v)) Succeeded \<noteq> None" using assms(2) Find_upserts by blast
  then have "has_succeeded u'" by (simp add: u' upserts_def has_succeeded_def)
  then show ?thesis using w' by (auto simp: ended_iff dest: stored_SomeD)
qed

section \<open>Data volumes\<close>

definition same_volumes :: "'p world \<Rightarrow> 'p world \<Rightarrow> bool" where
  "same_volumes w w' \<longleftrightarrow> w_dvs w' = w_dvs w"

interpretation same_volumes: frame_rel same_volumes
  by unfold_locales (simp_all add: same_volumes_def)

text \<open>A volume stays as it is for everybody who waits for it; one that is new wakes the import up.\<close>

definition volume_step :: "nsname \<Rightarrow> datavolume option \<Rightarrow> datavolume option \<Rightarrow> bool" where
  "volume_step k before after =
     (case before of
        None \<Rightarrow> (\<forall>d. after = Some d \<longrightarrow> k \<in> set (woken_by (dv_meta d)))
      | Some d \<Rightarrow> (\<exists>d'. after = Some d' \<and> dv_phase d' = dv_phase d \<and> woken_by (dv_meta d') = woken_by (dv_meta d)))"

definition waits :: "nsname \<Rightarrow> 'e source world \<Rightarrow> 'e source world \<Rightarrow> bool" where
  "waits k w w' \<longleftrightarrow> ends k w w' \<and> (ended k w' \<or> (\<forall>i. volume_step k (w_dvs w i) (w_dvs w' i))) \<and> keeps_jobs w w'"

lemma volume_step_refl [simp]: "volume_step k x x"
  by (simp add: volume_step_def split: option.split)

lemma volume_step_trans: "volume_step k x y \<Longrightarrow> volume_step k y z \<Longrightarrow> volume_step k x z"
  by (auto simp: volume_step_def split: option.splits)

lemma waits_refl: "waits k w w"
  by (simp add: waits_def ends_refl keeps_jobs.R_refl)

lemma waits_trans: "waits k u v \<Longrightarrow> waits k v w \<Longrightarrow> waits k u w"
  unfolding waits_def ends_def by (blast intro: keeps_jobs.R_trans volume_step_trans)

interpretation waits: frame_rel "waits k" for k
proof
  show "waits k w w" for w :: "'e source world" by (rule waits_refl)
  show "waits k u w" if "waits k u v" "waits k v w" for u v w :: "'e source world" using that by (rule waits_trans)
qed

lemma waits_of:
  assumes "frames (ends k) m" and "frames same_volumes m" and "frames keeps_jobs m"
  shows "frames (waits k) m"
  using assms unfolding frames_def waits_def same_volumes_def by simp

lemma waits_quiet: "frames quiet m \<Longrightarrow> frames keeps_jobs m \<Longrightarrow> frames (waits k) m"
  by (rule waits_of) (auto simp: quiet_def keeps_disks_def same_volumes_def ends_provider elim!: frames_mono)

lemma volumes_api: "(\<And>w x w'. f w = Inr (x, w') \<Longrightarrow> w_dvs w' = w_dvs w) \<Longrightarrow> frames same_volumes (api f)"
  by (rule framesI) (force simp: api_def Let_def same_volumes_def split: fault.split sum.split)

lemma volumes_get_from: "frames same_volumes (get_from kind store k)"
  unfolding get_from_def by (rule volumes_api) (auto split: option.splits)

lemma volumes_gets:
  "frames same_volumes (get_import k)" "frames same_volumes (get_mapping k)" "frames same_volumes (get_vm k)"
  "frames same_volumes (get_instance k)" "frames same_volumes (get_dv k)" "frames same_volumes (get_pod k)"
  "frames same_volumes (get_secret k)"
  unfolding get_import_def get_mapping_def get_vm_def get_instance_def get_dv_def get_pod_def get_secret_def
  by (rule volumes_get_from)+

lemma volumes_background:
  "frames same_volumes now" "frames same_volumes (record_event v t reason message)" "frames same_volumes (inc_counter res)"
  "frames same_volumes (save_duration res d)" "frames same_volumes (watch_pod n k)" "frames same_volumes (GetBareConfig sel)"
  "frames same_volumes (create_vm vm)" "frames same_volumes (patch_vm k g)" "frames same_volumes (patch_import k h)"
  unfolding now_def record_event_def inc_counter_def save_duration_def watch_pod_def GetBareConfig_def create_vm_def
    patch_vm_def patch_import_def
  by (auto intro!: same_volumes.frames_gread same_volumes.frames_gmodify volumes_api
      simp: same_volumes_def Let_def put_import_def split: if_splits option.splits)

lemma volumes_ops:
  "frames same_volumes (upsertStatusConditions k cs)" "frames same_volumes (new_condition t r m st)"
  "frames same_volumes (updateProgress v p)" "frames same_volumes (storeSourceVMStatus v s)"
  "frames same_volumes (updateTargetVMName k n)" "frames same_volumes (updateDVs k n)"
  "frames same_volumes (updateVMSpecDataVolumes mapper k dv)"
  "frames same_volumes (AddFinalizer v f)" "frames same_volumes (RemoveFinalizer v f)" "frames same_volumes (removeFinalizer f v)"
  "frames same_volumes (save_metrics res v)" "frames same_volumes GetKubeVirtConfig" "frames same_volumes (fetchSecret v)"
  "frames same_volumes (fetchResourceMapping i ns)"
  unfolding upsertStatusConditions_def update_import_status_def new_condition_def updateProgress_def set_annotation_def
    storeSourceVMStatus_def updateTargetVMName_def updateDVs_def updateVMSpecDataVolumes_def
    AddFinalizer_def RemoveFinalizer_def removeFinalizer_def patch_finalizers_def save_metrics_def
    calculateImportDuration_def GetKubeVirtConfig_def fetchSecret_def fetchResourceMapping_def Let_def
  by (intro same_volumes.frames_combinators volumes_gets volumes_background)+

lemma ends_ops:
  "frames (ends k) (upsertStatusConditions k' cs)" "frames (ends k) (new_condition t r m st)"
  "frames (ends k) (fetchSecret v)" "frames (ends k) (fetchResourceMapping i ns)"
proof -
  show "frames (ends k) (upsertStatusConditions k' cs)" by (rule ends.frames_upsertStatusConditions) simp
  show "frames (ends k) (new_condition t r m st)"
    unfolding new_condition_def by (intro ends.frames_combinators ends.client_frames)
  show "frames (ends k) (fetchSecret v)" "frames (ends k) (fetchResourceMapping i ns)"
    unfolding fetchSecret_def fetchResourceMapping_def Let_def by (intro ends.frames_combinators ends.client_frames)+
qed

lemma waits_client:
  "frames (waits k) (get_import k')" "frames (waits k) (get_vm k')" "frames (waits k) (get_dv k')" "frames (waits k) (get_pod k')"
  "frames (waits k) now" "frames (waits k) (record_event v t reason message)" "frames (waits k) (inc_counter res)"
  "frames (waits k) (save_duration res d)" "frames (waits k) (watch_pod n k')" "frames (waits k) (GetBareConfig sel)"
  "frames (waits k) (create_vm vm)" "frames (waits k) (patch_vm k' g)" "frames (waits k) (updateProgress v p)"
  "frames (waits k) (storeSourceVMStatus v s)" "frames (waits k) (updateTargetVMName k' n')" "frames (waits k) (updateDVs k' n')"
  "frames (waits k) (updateVMSpecDataVolumes mapper k' dv)" "frames (waits k) (AddFinalizer v f)"
  "frames (waits k) (RemoveFinalizer v f)" "frames (waits k) (removeFinalizer f v)" "frames (waits k) (save_metrics res v)"
  "frames (waits k) GetKubeVirtConfig"
  by (intro waits_of ends.client_frames ends.frames_managers volumes_gets volumes_background volumes_ops jobs_client)+

lemma waits_ops:
  "frames (waits k) (upsertStatusConditions k' cs)" "frames (waits k) (new_condition t r m st)"
  "frames (waits k) (fetchSecret v)" "frames (waits k) (fetchResourceMapping i ns)"
  by (intro waits_of ends_ops volumes_ops jobs_client)+

section \<open>The end of an import\<close>

lemma waits_end:
  assumes "\<And>x. frames (ends k) (rest x)" and "\<And>x. frames keeps_jobs (rest x)"
  shows "frames (waits k) (gbind (upsertStatusConditions k (NewCondition Succeeded reason message st n # cs)) rest)"
proof (rule framesI)
  fix w :: "'a source world"
  let ?u = "upsertStatusConditions k (NewCondition Succeeded reason message st n # cs)"
  obtain r w1 where u: "?u w = (r, w1)" by (cases "?u w")
  have w1: "waits k w w1" using waits_ops(1) u by (rule framesD2)
  show "waits k w (snd (gbind ?u rest w))"
  proof (cases r)
    case (Inr x)
    have "ended k w1" using u unfolding Inr by (rule upsert_ends) (simp add: NewCondition_def)
    moreover have "ends k w1 (snd (rest x w1))" "keeps_jobs w1 (snd (rest x w1))" using assms by (auto dest: framesD)
    ultimately have "waits k w1 (snd (rest x w1))" by (simp add: waits_def ends_def)
    with w1 show ?thesis by (auto simp: gbind_def u Inr intro: waits_trans)
  qed (simp add: gbind_def u w1)
qed

lemma waits_new_condition:
  "(\<And>n. frames (waits k) (g (NewCondition t reason message status n))) \<Longrightarrow>
   frames (waits k) (gbind (new_condition t reason message status) g)"
  unfolding new_condition_def gbind_assoc gbind_gret by (intro waits.frames_gbind waits_client)

context frame_rel
begin

lemma frames_gbind_ret:
  "frames R m \<Longrightarrow> returns S m \<Longrightarrow> (\<And>x. S x \<Longrightarrow> frames R (g x)) \<Longrightarrow> frames R (gbind m g)"
  by (rule frames_gbind_val) (auto dest: returnsD)

lemma frames_gforeach_ret:
  assumes "\<And>x s. I s \<Longrightarrow> frames R (f x s)" and "\<And>x s. I s \<Longrightarrow> returns I (f x s)"
  shows "I s \<Longrightarrow> frames R (gforeach f xs s)"
proof (induction xs arbitrary: s)
  case (Cons x xs)
  have "frames R (gbind (f x s) (gforeach f xs))"
    by (rule frames_gbind_ret [OF assms Cons.IH]) (use Cons.prems in simp_all)
  then show ?case by simp
qed (simp add: frames_gret)

end

lemma returns_gforeach:
  assumes "\<And>x s. I s \<Longrightarrow> returns I (f x s)"
  shows "I s \<Longrightarrow> returns I (gforeach f xs s)"
  by (induction xs arbitrary: s) (auto intro!: returns_gret returns_gbind [OF assms])

context waiting_contract
begin

sublocale ending: success_rel "ends k" "\<lambda>_. True" P for k
  by unfold_locales auto

lemmas waits_provider =
  waits_quiet [OF Init jobs_Init] waits_quiet [OF TestConnection jobs_TestConnection] waits_quiet [OF Close jobs_Close]
  waits_quiet [OF LoadVM jobs_LoadVM] waits_quiet [OF PrepareResourceMapping jobs_PrepareResourceMapping]
  waits_quiet [OF Validate jobs_Validate] waits_quiet [OF ValidateDiskStatus jobs_ValidateDiskStatus]
  waits_quiet [OF StopVM jobs_StopVM] waits_quiet [OF CreateMapper jobs_CreateMapper]
  waits_quiet [OF GetVMStatus jobs_GetVMStatus] waits_quiet [OF GetVMName jobs_GetVMName]
  waits_quiet [OF FindTemplate jobs_FindTemplate] waits_quiet [OF ProcessTemplate jobs_ProcessTemplate]
  waits_quiet [OF GetGuestConversionJob jobs_GetGuestConversionJob]

lemma jobs_afterFailure: "frames keeps_jobs (afterFailure P v)"
  unfolding afterFailure_def restoreInitialVMState_def
  by (intro keeps_jobs.frames_combinators jobs_client jobs_provider)

lemma same_key: "same_but_finalizers v v' \<Longrightarrow> vi_key v' = vi_key v"
  by (simp add: vi_key_def same_but_finalizers_fields)

lemma afterFailure_key: "returns (\<lambda>v'. vi_key v' = vi_key v) (afterFailure P v)"
  unfolding returns_def using afterFailure_same same_key by blast

lemma end_as_failed_key: "returns (\<lambda>v'. vi_key v' = vi_key v) (end_as_failed P reason ev v msg message)"
  unfolding end_as_failed_def by (intro returns_gbind_any afterFailure_key)

lemma ends_key:
  "returns (\<lambda>v'. vi_key v' = vi_key v) (endImportAsFailed P v dv message)"
  "returns (\<lambda>v'. vi_key v' = vi_key v) (endGuestConversionAsFailed P v message)"
  unfolding endImportAsFailed_def endGuestConversionAsFailed_def by (rule end_as_failed_key)+

lemma waits_end_as_failed: "frames (waits (vi_key v)) (end_as_failed P reason ev v msg message)"
  unfolding end_as_failed_def
  by (intro waits_new_condition waits_end waits.frames_combinators waits_client waits_ops(1)
      ends.frames_combinators ends.client_frames ending.frames_afterFailure
      keeps_jobs.frames_combinators jobs_client jobs_afterFailure)

lemma waits_ends:
  "frames (waits (vi_key v)) (endImportAsFailed P v dv message)"
  "frames (waits (vi_key v)) (endGuestConversionAsFailed P v message)"
  unfolding endImportAsFailed_def endGuestConversionAsFailed_def by (rule waits_end_as_failed)+

section \<open>The functions before the import of the disks\<close>

lemma waits_validation_condition:
  "frames (waits k) (newValidationCondition reason message)" "frames (waits k) (upsertValidationCondition v reason message e)"
  unfolding newValidationCondition_def upsertValidationCondition_def by (intro waits.frames_combinators waits_ops)+

lemma waits_initProvider: "frames (waits k) (initProvider v P)"
  unfolding initProvider_def Let_def
  by (intro waits.frames_combinators waits_client waits_ops waits_provider waits_validation_condition)

lemma waits_failNewImportProcess: "frames (waits (vi_key v)) (failNewImportProcess v message e)"
  unfolding failNewImportProcess_def by (intro waits.frames_combinators waits_ops)

lemma waits_fetchVM: "frames (waits k) (fetchVM v P)"
  unfolding fetchVM_def
  by (intro waits.frames_combinators waits_client waits_ops waits_provider waits_validation_condition)

lemma waits_validate: "frames (waits k) (validate v P)"
  unfolding validate_def
  by (intro waits.frames_combinators waits_client waits_ops waits_provider waits.frames_case_bool)

lemma waits_templateMatchingFailed: "frames (waits (vi_key v)) (templateMatchingFailed msg c P v)"
  unfolding templateMatchingFailed_def
  by (intro waits_new_condition waits_end ending.frames_afterFailure jobs_afterFailure)

lemma waits_vm_definition: "frames (waits (vi_key v)) (vm_definition P mapper v c t)"
  unfolding vm_definition_def Let_def
  by (intro waits.frames_combinators waits_client waits_provider waits_templateMatchingFailed)

lemma waits_createVM:
  assumes "pv_CreateMapper P w = (Inr mapper, w')"
  shows "frames (waits (vi_key v)) (createVM E P v mapper)"
  unfolding createVM_def Let_def
  by (intro waits_new_condition waits_end waits.frames_combinators waits_client waits_ops(1) waits_vm_definition
      waits_quiet MapVM [OF assms] jobs_MapVM [OF assms] ends.frames_combinators ending.frames_afterFailure
      keeps_jobs.frames_combinators jobs_afterFailure)

lemma waits_ensure_vm:
  "pv_CreateMapper P w = (Inr mapper, w') \<Longrightarrow> frames (waits (vi_key v)) (ensure_vm E P ns v mapper)"
  unfolding ensure_vm_def by (intro waits.frames_combinators waits_client waits_createVM)

end

section \<open>A new data volume\<close>

text \<open>It wakes the import up, and keeps doing so when the machine becomes another owner.\<close>

lemma admitted_woken: "woken_by (admitted w m) = woken_by m"
  by (rule woken_by_cong) (simp_all add: admitted_def)

lemma tracked_meta:
  "om_owners (setTrackerLabel m v) = om_owners m" "om_namespace (setTrackerLabel m v) = om_namespace m"
  "om_name (setTrackerLabel m v) = om_name m" "om_generate_name (setTrackerLabel m v) = om_generate_name m"
  by (simp_all add: setTrackerLabel_def split: option.split)

lemma tracked_woken: "woken_by (setTrackerLabel m v) = woken_by m"
  by (rule woken_by_cong) (simp_all add: tracked_meta)

lemma waits_new_volume:
  assumes "w_imports w' = w_imports w" and "w_provider w' = w_provider w" and "w_jobs w' = w_jobs w"
    and "w_watches w' = w_watches w" and "w_dvs w i = None" and "w_dvs w' = (w_dvs w)(i \<mapsto> d)" and "k \<in> set (woken_by (dv_meta d))"
  shows "waits k w w'"
  using assms by (simp add: waits_def ends_def ended_def jobs_same volume_step_def split: option.split)

lemma create_dv_cases:
  assumes "create_dv dv w = (r, w')"
  obtains (unchanged) e where "r = Inl e" and "w' = w\<lparr>w_calls := Suc (w_calls w)\<rparr>"
  | (created) d where "d = dv\<lparr>dv_meta := admitted (w\<lparr>w_calls := Suc (w_calls w)\<rparr>) (dv_meta dv)\<rparr>"
      and "w_dvs w (om_key (dv_meta d)) = None"
      and "w' = w\<lparr>w_calls := Suc (w_calls w), w_dvs := (w_dvs w)(om_key (dv_meta d) \<mapsto> d)\<rparr>"
      and "r = Inr d \<or> (\<exists>e. r = Inl e)"
  using assms unfolding create_dv_def
  by (cases rule: api_cases) (auto simp: Let_def split: if_splits)

lemma waits_create_owned:
  fixes rest :: "datavolume \<Rightarrow> ('e source, 'b) op"
  assumes m: "SetControllerReference v (dv_meta dv0) = Inr m" and ns: "vi_namespace v \<noteq> []" and k: "vi_key v = k"
    and rest: "\<And>d. frames (waits k) (rest d)"
  shows "frames (waits k) (gbind (gtry (create_dv (dv\<lparr>dv_meta := setTrackerLabel m v'\<rparr>)) (\<lambda>e. gfail (h e)) gret)
    (\<lambda>d. gbind (AddOwnerReference vm d) (\<lambda>_. rest d)))" (is "frames _ (gbind (gtry (create_dv ?dv) _ _) ?add)")
proof (rule framesI)
  fix w :: "'e source world"
  have new: "k \<in> set (woken_by (setTrackerLabel m v'))"
    using controlled_woken [OF m ns] k by (simp add: tracked_woken vi_key_def)
  obtain r w1 where c: "create_dv ?dv w = (r, w1)" by (cases "create_dv ?dv w")
  from c show "waits k w (snd (gbind (gtry (create_dv ?dv) (\<lambda>e. gfail (h e)) gret) ?add w))"
  proof (cases rule: create_dv_cases)
    case (unchanged e)
    then have "waits k w w1" by (simp add: waits_def ends_def ended_def jobs_same)
    with unchanged c show ?thesis by (simp add: gbind_def gtry_def)
  next
    case (created d)
    have d: "k \<in> set (woken_by (dv_meta d))" using new by (simp add: created(1) admitted_woken)
    show ?thesis
    proof (cases r)
      case (Inl e)
      have "waits k w w1" using created d by (intro waits_new_volume [where i = "om_key (dv_meta d)" and d = d]) simp_all
      with Inl c show ?thesis by (simp add: gbind_def gtry_def)
    next
      case (Inr d')
      with created(4) have "d' = d" by auto
      obtain r2 w2 where a: "AddOwnerReference vm d w1 = (r2, w2)" by (cases "AddOwnerReference vm d w1")
      let ?d = "d\<lparr>dv_meta := (dv_meta d)\<lparr>om_owners := om_owners (dv_meta d) @ [newVMOwnerReference vm]\<rparr>\<rparr>"
      have "woken_by (dv_meta ?d) = woken_by (dv_meta d)"
        by (rule woken_by_cong) (simp_all add: vm_owner_not_controller)
      then have "k \<in> set (woken_by (dv_meta ?d))" using d by simp
      moreover have "w_dvs w2 = (w_dvs w)(om_key (dv_meta d) \<mapsto> d) \<or> w_dvs w2 = (w_dvs w)(om_key (dv_meta d) \<mapsto> ?d)"
        "w_imports w2 = w_imports w" "w_provider w2 = w_provider w" "w_jobs w2 = w_jobs w" "w_watches w2 = w_watches w"
        using a created(3) unfolding AddOwnerReference_def patch_dv_owners_def
        by (auto elim!: api_cases split: option.splits)
      ultimately have w2: "waits k w w2" using created(2) d waits_new_volume [of w2 w "om_key (dv_meta d)"] by blast
      have "snd (gbind (gtry (create_dv ?dv) (\<lambda>e. gfail (h e)) gret) ?add w) = (case r2 of Inl e \<Rightarrow> w2 | Inr x \<Rightarrow> snd (rest d w2))"
        by (simp add: gbind_def gtry_def c Inr \<open>d' = d\<close> a split: sum.split)
      moreover have "waits k w (snd (rest d w2))" using w2 framesD [OF rest] by (blast intro: waits_trans)
      ultimately show ?thesis using w2 by (cases r2) simp_all
    qed
  qed
qed

section \<open>The import of the disks\<close>

context waiting_contract
begin

lemma waits_createDataVolume:
  assumes "vi_key v = k" and "fst k \<noteq> []"
  shows "frames (waits k) (createDataVolume mapper v dv vmName)"
proof -
  have ns: "vi_namespace v \<noteq> []" using assms by (auto simp: vi_key_def)
  have "frames (waits k) (gbind (glift (SetControllerReference v (dv_meta dv))) (\<lambda>m.
     gbind (gtry (create_dv (dv\<lparr>dv_meta := setTrackerLabel m v\<rparr>))
         (\<lambda>e. gfail (errorf (''Data volume '' @ om_namespace (dv_meta dv) @ ''/'' @ om_name (dv_meta dv) @
                 '' creation failed: '' @ emsg e)))
         gret) (\<lambda>dv.
     gbind (AddOwnerReference vmDef dv) (\<lambda>_.
     gbind (record_event v EventNormal ''ImportInProgress''
         (''Import of Virtual Machine '' @ fst vmName @ ''/'' @ snd vmName @ '' disk '' @ om_name (dv_meta dv) @ '' in progress'')) (\<lambda>_.
     gbind (updateDVs (vi_key v) (om_name (dv_meta dv))) (\<lambda>_.
       updateVMSpecDataVolumes mapper vmName dv))))))" for vmDef
  proof (rule waits.frames_gbind_val [OF waits.frames_glift])
    fix m w w'
    assume "glift (SetControllerReference v (dv_meta dv)) w = (Inr m, w')"
    then have "SetControllerReference v (dv_meta dv) = Inr m" by simp
    then show "frames (waits k) (gbind (gtry (create_dv (dv\<lparr>dv_meta := setTrackerLabel m v\<rparr>))
         (\<lambda>e. gfail (errorf (''Data volume '' @ om_namespace (dv_meta dv) @ ''/'' @ om_name (dv_meta dv) @
                 '' creation failed: '' @ emsg e)))
         gret) (\<lambda>dv.
     gbind (AddOwnerReference vmDef dv) (\<lambda>_.
     gbind (record_event v EventNormal ''ImportInProgress''
         (''Import of Virtual Machine '' @ fst vmName @ ''/'' @ snd vmName @ '' disk '' @ om_name (dv_meta dv) @ '' in progress'')) (\<lambda>_.
     gbind (updateDVs (vi_key v) (om_name (dv_meta dv))) (\<lambda>_.
       updateVMSpecDataVolumes mapper vmName dv)))))"
      by (rule waits_create_owned [OF _ ns assms(1)]) (intro waits.frames_combinators waits_client)
  qed
  then show ?thesis
    unfolding createDataVolume_def
    by (intro waits.frames_gbind [where m = "new_condition t r m st" for t r m st]
        waits.frames_gbind [where m = "upsertStatusConditions k' cs" for k' cs]
        waits.frames_gbind [where m = "updateProgress v p" for v p] waits.frames_gbind [where m = "get_vm n" for n] waits_client waits_ops)
qed

lemma waits_check_pod:
  assumes "vi_key v = k"
  shows "frames (waits k) (check_pod E P v dv p)" and "returns (\<lambda>v'. vi_key v' = k) (check_pod E P v dv p)"
proof -
  let ?f = "\<lambda>cs v. if cs_waiting_reason cs = Some podCrashLoopBackOff \<and> cs_restart_count cs > re_pod_restart_tolerance E
         then endImportAsFailed P v dv ''pod CrashLoopBackoff restart exceeded'' else gret v"
  have f: "frames (waits k) (?f cs v)" "returns (\<lambda>v'. vi_key v' = k) (?f cs v)" if "vi_key v = k" for cs v
    using that waits_ends(1) ends_key(1) by (auto intro: waits.frames_gret returns_gret)
  have "frames (waits k) (gforeach ?f css v)" for css
    by (rule waits.frames_gforeach_ret [where I = "\<lambda>v. vi_key v = k", OF f assms])
  then show "frames (waits k) (check_pod E P v dv p)"
    unfolding check_pod_def
    by (intro waits.frames_gbind waits.frames_case_option waits.frames_case_list waits.frames_case_prod waits.frames_if
        waits.frames_gret waits.frames_gfail waits_client)
  have "returns (\<lambda>v'. vi_key v' = k) (gforeach ?f css v)" for css
    by (rule returns_gforeach [where I = "\<lambda>v. vi_key v = k", OF f(2) assms])
  then show "returns (\<lambda>v'. vi_key v' = k) (check_pod E P v dv p)"
    unfolding check_pod_def by (intro returns_gbind_any)
qed

lemma waits_handle_phase:
  assumes "vi_key (dl_import s) = k"
  shows "frames (waits k) (handle_phase E P i dv s)" and "returns (\<lambda>s'. vi_key (dl_import s') = k) (handle_phase E P i dv s)"
proof -
  note ends = waits_ends(1) [of "dl_import s", unfolded assms] ends_key(1) [of "dl_import s", unfolded assms]
    and pod = waits_check_pod [OF assms]
  show "frames (waits k) (handle_phase E P i dv s)"
    by (cases "dv_phase dv"; simp only: handle_phase_def Let_def dv_phase.case)
      (intro waits.frames_combinators waits_client waits_ops ends(1) pod(1))+
  show "returns (\<lambda>s'. vi_key (dl_import s') = k) (handle_phase E P i dv s)"
  proof (cases "dv_phase dv")
    case DVFailed
    then show ?thesis
      unfolding handle_phase_def Let_def by (simp, intro returns_gbind [OF ends(2)] returns_gret) simp
  next
    case DVImportInProgress
    then show ?thesis
      unfolding handle_phase_def Let_def
      by simp (intro returns_gbind_any returns_gtry returns_gbind [OF pod(2)] returns_gret, simp_all add: assms)
  qed (simp_all add: handle_phase_def Let_def assms returns_gret returns_gbind_any del: gret_apply)
qed

definition step_key :: "nsname \<Rightarrow> loop_step \<Rightarrow> bool" where
  "step_key k r \<longleftrightarrow> (case r of Continue s \<Rightarrow> vi_key (dl_import s) = k | ReturnFalse v \<Rightarrow> vi_key v = k)"

lemma waits_import_disk:
  assumes "vi_key (dl_import s) = k" and "fst k \<noteq> []"
  shows "frames (waits k) (import_disk E P mapper vmName x s)" and "returns (step_key k) (import_disk E P mapper vmName x s)"
proof -
  obtain i dv where x: "x = (i, dv)" by fastforce
  note ends = waits_ends(1) [of "dl_import s", unfolded assms(1)] ends_key(1) [of "dl_import s", unfolded assms(1)]
    and phase = waits_handle_phase [OF assms(1)]
  show "frames (waits k) (import_disk E P mapper vmName x s)"
    unfolding x import_disk_def prod.case Let_def
    by (intro waits.frames_combinators waits_client waits_provider ends(1) phase(1) waits_createDataVolume [OF assms])
  have gret_step: "returns (step_key k) (gret (Continue s'))" if "vi_key (dl_import s') = k" for s'
    using that by (simp add: step_key_def returns_gret del: gret_apply)
  show "returns (step_key k) (import_disk E P mapper vmName x s)"
    unfolding x import_disk_def prod.case Let_def
    by (intro returns_gbind_any [where m = "watch_pod n r" for n r] returns_gtry returns_if returns_gfail
        returns_gbind_any [where m = "pv_ValidateDiskStatus P n" for n] returns_gbind [OF ends(2)] returns_gbind [OF phase(2)]
        gret_step returns_gret)
      (simp_all add: assms(1) step_key_def)
qed

lemma waits_import_disk_loop:
  "vi_key (dl_import s) = k \<Longrightarrow> fst k \<noteq> [] \<Longrightarrow> frames (waits k) (import_disk_loop (import_disk E P mapper vmName) xs s)"
proof (induction xs arbitrary: s)
  case (Cons x xs)
  have rest: "frames (waits k) (case r of ReturnFalse v \<Rightarrow> gret (ReturnFalse v) | Continue s' \<Rightarrow> import_disk_loop (import_disk E P mapper vmName) xs s')"
    if "step_key k r" for r
    using that Cons.IH Cons.prems(2) by (cases r) (auto simp: step_key_def intro: waits.frames_gret simp del: gret_apply)
  show ?case
    using waits.frames_gbind_ret [OF waits_import_disk [OF Cons.prems] rest] by simp
qed (simp add: waits.frames_gret del: gret_apply)

end

end
