(* ===== verification/ValidationSpec.thy ===== *)
theory ValidationSpec
  imports OvirtMapper Example
begin

text \<open>
  What the validation of an oVirt machine promises, stated on the machine itself: when its checks block
  an import (\<open>vm_importable\<close>, \<open>nic_importable\<close>, \<open>disk_importable\<close>), and what the two conditions that
  the provider reports say.
\<close>

section \<open>The action of every check\<close>

lemma action_table [simp]:
  "action_of NicInterfaceCheckID = Block" "action_of NicOnBootID = Log" "action_of NicPluggedID = Warn"
  "action_of NicVNicPortMirroringID = Warn" "action_of NicVNicCustomPropertiesID = Warn" "action_of NicVNicNetworkFilterID = Warn"
  "action_of NicVNicQosID = Log" "action_of DiskAttachmentsExistID = Block" "action_of DiskAttachmentInterfaceID = Block"
  "action_of DiskAttachmentLogicalNameID = Log" "action_of DiskAttachmentPassDiscardID = Log" "action_of DiskAttachmentUsesScsiReservationID = Block"
  "action_of DiskInterfaceID = Block" "action_of DiskLogicalNameID = Log" "action_of DiskUsesScsiReservationID = Block"
  "action_of DiskBackupID = Warn" "action_of DiskLunStorageID = Block" "action_of DiskPropagateErrorsID = Log"
  "action_of DiskWipeAfterDeleteID = Log" "action_of DiskStatusID = Block" "action_of DiskStoragaTypeID = Block"
  "action_of DiskSgioID = Block" "action_of VMBiosBootMenuID = Log" "action_of VMStatusID = Block"
  "action_of VMBiosTypeID = Block" "action_of VMBiosTypeQ35SecureBootID = Warn" "action_of VMCpuArchitectureID = Block"
  "action_of VMCpuTuneID = Warn" "action_of VMCpuSharesID = Log" "action_of VMCustomEmulatedMachine = Log"
  "action_of VMCustomPropertiesID = Warn" "action_of VMDisplayTypeID = Log" "action_of VMHasIllegalImagesID = Block"
  "action_of VMHighAvailabilityPriorityID = Log" "action_of VMIoThreadsID = Warn" "action_of VMMemoryPolicyBallooningID = Log"
  "action_of VMMemoryPolicyOvercommitPercentID = Log" "action_of VMMemoryPolicyGuaranteedID = Log" "action_of VMMemoryTemplateLimitID = Block"
  "action_of VMMigrationID = Log" "action_of VMMigrationDowntimeID = Log" "action_of VMNumaTuneModeID = Warn"
  "action_of VMOriginID = Block" "action_of VMPlacementPolicyAffinityID = Block" "action_of VMRngDeviceSourceID = Log"
  "action_of VMSoundcardEnabledID = Warn" "action_of VMStartPausedID = Log" "action_of VMStorageErrorResumeBehaviourID = Log"
  "action_of VMTunnelMigrationID = Warn" "action_of VMUsbID = Block" "action_of VMGraphicConsolesID = Log"
  "action_of VMHostDevicesID = Log" "action_of VMReportedDevicesID = Log" "action_of VMQuotaID = Log"
  "action_of VMWatchdogsID = Block" "action_of VMCdromsID = Log" "action_of VMFloppiesID = Log"
  "action_of VMTimezoneID = Block" "action_of NetworkConfig = Block" "action_of NetworkTargetID = Block"
  "action_of NetworkMappingID = Block" "action_of NetworkMultiplePodTargetsID = Block" "action_of NetworkTypeID = Block"
  "action_of StorageTargetID = Block" "action_of DiskTargetID = Block" "action_of StorageTargetDefaultClass = Warn"
  by (rule action_of_entry, simp add: checkToAction_def)+

definition blocks :: "ValidationFailure list \<Rightarrow> bool" where
  "blocks fs \<longleftrightarrow> list_ex (\<lambda>f. action_of (vf_id f) = Block) fs"

lemma blocks_simps [simp]:
  "blocks [] = False" "blocks (f # fs) \<longleftrightarrow> action_of (vf_id f) = Block \<or> blocks fs"
  "blocks (fs @ gs) \<longleftrightarrow> blocks fs \<or> blocks gs"
  by (auto simp: blocks_def)

lemma blocks_opt [simp]: "blocks (opt_list (fail_when b c m)) \<longleftrightarrow> b \<and> action_of c = Block"
  by (cases b) (simp_all add: fail_when_def blocks_def)

lemma blocks_concat: "blocks (concat (map f xs)) \<longleftrightarrow> (\<exists>x \<in> set xs. blocks (f x))"
  by (induction xs) auto

section \<open>Interfaces and disks\<close>

definition nic_importable :: "ov_nic \<Rightarrow> bool" where
  "nic_importable nic \<longleftrightarrow> nc_interface nic \<in> Some ` {''e1000'', ''rtl8139'', ''virtio'', ''pci_passthrough''}"

definition known_interface :: "string option \<Rightarrow> bool" where
  "known_interface i \<longleftrightarrow> i \<in> {None, Some ''sata'', Some ''virtio_scsi'', Some ''virtio''}"

definition disk_importable :: "ov_attachment \<Rightarrow> bool" where
  "disk_importable da \<longleftrightarrow>
     known_interface (da_interface da) \<and> da_uses_scsi_reservation da \<noteq> Some True \<and>
     (case da_disk da of None \<Rightarrow> True | Some d \<Rightarrow>
        known_interface (od_interface d) \<and> od_uses_scsi_reservation d \<noteq> Some True \<and> od_lun_storage d = None \<and>
        od_status d \<in> {None, Some ''ok''} \<and> od_storage_type d = Some ''image'' \<and> od_sgio d \<in> {None, Some ''disabled''})"

lemma interface_model: "map_of InterfaceModelMapping i \<noteq> None \<longleftrightarrow> i \<in> {''e1000'', ''rtl8139'', ''virtio'', ''pci_passthrough''}"
  by (simp add: InterfaceModelMapping_def map_of_eq_None_iff)

lemma disk_interface: "map_of DiskInterfaceModelMapping i = None \<longleftrightarrow> i \<notin> {''sata'', ''virtio_scsi'', ''virtio''}"
  by (simp add: DiskInterfaceModelMapping_def map_of_eq_None_iff)

lemma flag_iff: "flag b \<longleftrightarrow> b = Some True"
  by (cases b) (auto simp: flag_def)

lemma nic_blocks: "blocks (validateNic pl nic) \<longleftrightarrow> \<not> nic_importable nic"
  using interface_model [of "str (nc_interface nic)"]
  by (auto simp: validateNic_def Let_def nic_importable_def isValidNicInterfaceModel_def isValidNicOnBoot_def
      isValidNicPlugged_def isValidVnicPortMirroring_def isValidVnicProfileCustomProperties_def
      isValidVnicProfileNetworFilter_def isValidVnicProfileQos_def str_def split: option.splits)

lemma interface_blocks: "action_of c = Block \<Longrightarrow> blocks (opt_list (isValidStorageInterface pl i n c)) \<longleftrightarrow> \<not> known_interface i"
  by (cases i) (simp_all add: isValidStorageInterface_def known_interface_def disk_interface)

lemma disk_blocks: "blocks (validateDiskAttachment pl da) \<longleftrightarrow> \<not> disk_importable da"
  by (auto simp: validateDiskAttachment_def validateDisk_def Let_def disk_importable_def interface_blocks flag_iff
      isValidStorageLogicalName_def isValidStorageUsesScsiReservation_def isValidDiskAttachmentPassDiscard_def
      isValidDiskBackup_def isValidDiskLunStorage_def isValidDiskPropagateErrors_def isValidDiskWipeAfterDelete_def
      isValidDiskStatus_def disk_status_ok_def isValidDiskStorageType_def isValidDiskSgio_def split: option.splits)

section \<open>The machine\<close>

definition vm_importable :: "platform \<Rightarrow> string \<Rightarrow> ov_vm \<Rightarrow> bool" where
  "vm_importable pl gates vm \<longleftrightarrow>
     ov_status vm \<in> {Some ''up'', Some ''down''} \<and>
     (case ov_bios vm of None \<Rightarrow> True | Some b \<Rightarrow> map_of BiosTypeMapping (bios_type_of b (at_obj (ov_cluster vm))) \<noteq> None) \<and>
     (case ov_time_zone vm of None \<Rightarrow> True | Some tz \<Rightarrow> (case oz_name tz of None \<Rightarrow> True
        | Some n \<Rightarrow> IsUtcCompatible (pl_LoadLocation pl) n)) \<and>
     (case ov_cpu vm of None \<Rightarrow> True | Some c \<Rightarrow> oc_architecture c \<noteq> Some ''s390x'') \<and>
     ov_has_illegal_images vm \<noteq> Some True \<and> ov_origin vm \<noteq> Some ''kubevirt'' \<and>
     (at_obj (ov_placement_policy vm) = Some ''migratable'' \<longrightarrow> LiveMigrationEnabled gates) \<and>
     at_obj (ov_usb vm) \<noteq> Some True \<and> list_all (\<lambda>m. m \<in> {None, Some ''i6300esb''}) (slice (ov_watchdogs vm))"

lemma status_blocks: "blocks (opt_list (isValidStatus vm)) \<longleftrightarrow> ov_status vm \<notin> {Some ''up'', Some ''down''}"
  by (cases "ov_status vm") (simp_all add: isValidStatus_def)

lemma bios_blocks: "blocks (isValidBios vm) \<longleftrightarrow> \<not> (case ov_bios vm of None \<Rightarrow> True
    | Some b \<Rightarrow> map_of BiosTypeMapping (bios_type_of b (at_obj (ov_cluster vm))) \<noteq> None)"
  by (cases "ov_bios vm") (simp_all add: isValidBios_def isValidBootMenu_def isValidBiosType_def Let_def)

lemma timezone_blocks: "blocks (opt_list (isValidTimezone pl vm)) \<longleftrightarrow>
    \<not> (case ov_time_zone vm of None \<Rightarrow> True | Some tz \<Rightarrow> (case oz_name tz of None \<Rightarrow> True
      | Some n \<Rightarrow> IsUtcCompatible (pl_LoadLocation pl) n))"
  by (simp add: isValidTimezone_def split: option.split)

lemma cpu_blocks: "isValidCPU vm = Inr fs \<Longrightarrow> 
    blocks fs \<longleftrightarrow> \<not> (case ov_cpu vm of None \<Rightarrow> True | Some c \<Rightarrow> oc_architecture c \<noteq> Some ''s390x'')"
  by (auto simp: isValidCPU_def isValidCPUTune_def isValidArchitecture_def rbind_Inr split: option.splits)

lemma watchdogs_block: "blocks (isValidWatchdogs pl vm) \<longleftrightarrow> \<not> list_all (\<lambda>m. m \<in> {None, Some ''i6300esb''}) (slice (ov_watchdogs vm))"
  by (auto simp: isValidWatchdogs_def blocks_concat list_all_iff)

lemma checks_block: "blocks (vm_checks pl gates vm) \<longleftrightarrow>
    ov_has_illegal_images vm = Some True \<or> ov_origin vm = Some ''kubevirt'' \<or>
    at_obj (ov_placement_policy vm) = Some ''migratable'' \<and> \<not> LiveMigrationEnabled gates \<or>
    at_obj (ov_usb vm) = Some True \<or> \<not> list_all (\<lambda>m. m \<in> {None, Some ''i6300esb''}) (slice (ov_watchdogs vm))"
proof -
  have cdroms: "\<not> blocks (isValidCdroms vm)" and consoles: "\<not> blocks (isValidGraphicsConsoles vm)"
    by (auto simp: isValidCdroms_def isValidCdrom_def isValidGraphicsConsoles_def blocks_concat split: option.splits)
  have memory: "\<not> blocks (isValidMemoryPolicy vm)"
    by (simp add: isValidMemoryPolicy_def isValidBallooning_def isValidGuaranteed_def isValidOvercommit_def split: option.split)
  have quota: "\<not> blocks (opt_list (isValidQuota vm))" "\<not> blocks (opt_list (isValidHighAvailabilityPriority vm))"
    "\<not> blocks (opt_list (isValidRandomNumberGeneratorSource vm))" "\<not> blocks (opt_list (isValidCustomEmulatedMachine vm))"
    by (simp_all add: isValidQuota_def isValidHighAvailabilityPriority_def isValidRandomNumberGeneratorSource_def
        isValidCustomEmulatedMachine_def split: option.split)
  show ?thesis
    by (simp add: vm_checks_def watchdogs_block cdroms consoles memory quota flag_iff isValidCPUShares_def
        isValidCustomProperties_def isValidDisplayType_def hasIllegalImages_def isValidIoThreads_def isValidMigration_def
        isValidMigrationDowntime_def isValidNumaTuneMode_def isValidOrigin_def isValidPlacementPolicy_def
        isValidSoundcardEnabled_def isValidStartPaused_def isValidTunnelMigration_def
        isValidStorageErrorResumeBehaviour_def isValidUsb_def isValidHostDevices_def isValidReportedDevices_def
        isValidFloppies_def)
qed

lemma memory_blocks: "memory_rule vm n rules = Some f \<Longrightarrow> action_of (vf_id f) = Block"
  by (induction vm n rules rule: memory_rule.induct) (auto split: option.splits if_splits)

lemma memory_result: "isMemoryAboveRequests pl f vm w = (Inr m, w') \<Longrightarrow> blocks (opt_list m) \<longleftrightarrow> m \<noteq> None"
  by (cases m) (auto simp: isMemoryAboveRequests_def gtry_returns dest: memory_blocks split: option.splits)

lemma vm_blocks:
  assumes "ValidateVM pl vm gates f w = (Inr fs, w')"
  shows "\<exists>memory w1. isMemoryAboveRequests pl f vm w = (Inr memory, w1) \<and>
    (blocks fs \<longleftrightarrow> \<not> (vm_importable pl gates vm \<and> memory = None))"
proof -
  from assms obtain cpu memory where cpu: "isValidCPU vm = Inr cpu" and m: "isMemoryAboveRequests pl f vm w = (Inr memory, w')"
    and fs: "fs = isValidBios vm @ opt_list (isValidStatus vm) @ opt_list (isValidTimezone pl vm) @ cpu @
             vm_checks pl gates vm @ opt_list memory"
    by (auto simp: ValidateVM_def gbind_returns)
  have "blocks fs \<longleftrightarrow> \<not> (vm_importable pl gates vm \<and> memory = None)"
    unfolding fs
    by (simp only: blocks_simps status_blocks bios_blocks timezone_blocks cpu_blocks [OF cpu] checks_block memory_result [OF m]
        vm_importable_def) argo
  with m show ?thesis by blast
qed

section \<open>The conditions\<close>

text \<open>Every failure has a message, so a blocking failure is a condition that is false.\<close>

definition told :: "ValidationFailure list \<Rightarrow> bool" where
  "told fs \<longleftrightarrow> list_all (\<lambda>f. vf_message f \<noteq> []) fs"

lemma told_simps [simp]:
  "told []" "told (f # fs) \<longleftrightarrow> vf_message f \<noteq> [] \<and> told fs" "told (fs @ gs) \<longleftrightarrow> told fs \<and> told gs"
  by (simp_all add: told_def)

lemma told_opt [simp]: "told (opt_list (fail_when b c m)) \<longleftrightarrow> (b \<longrightarrow> m \<noteq> [])"
  by (simp add: fail_when_def)

lemma told_concat: "told (concat (map f xs)) \<longleftrightarrow> (\<forall>x \<in> set xs. told (f x))"
  by (induction xs) auto

lemma nic_told: "told (validateNic pl nic)"
  by (auto simp: validateNic_def Let_def isValidNicInterfaceModel_def isValidNicOnBoot_def
      isValidNicPlugged_def isValidVnicPortMirroring_def isValidVnicProfileCustomProperties_def
      isValidVnicProfileNetworFilter_def isValidVnicProfileQos_def split: option.splits)

lemma disk_told: "told (validateDiskAttachment pl da)"
  by (auto simp: validateDiskAttachment_def validateDisk_def Let_def isValidStorageInterface_def
      isValidStorageLogicalName_def isValidStorageUsesScsiReservation_def isValidDiskAttachmentPassDiscard_def
      isValidDiskBackup_def isValidDiskLunStorage_def isValidDiskPropagateErrors_def isValidDiskWipeAfterDelete_def
      isValidDiskStatus_def isValidDiskStorageType_def isValidDiskSgio_def split: option.splits)

lemma checks_told: "told (vm_checks pl gates vm)"
proof -
  have lists: "told (isValidCdroms vm)" "told (isValidGraphicsConsoles vm)" "told (isValidWatchdogs pl vm)"
    by (auto simp: isValidCdroms_def isValidCdrom_def isValidGraphicsConsoles_def isValidWatchdogs_def told_concat
        split: option.splits)
  have cases: "told (isValidMemoryPolicy vm)" "told (opt_list (isValidQuota vm))"
    "told (opt_list (isValidHighAvailabilityPriority vm))"
    "told (opt_list (isValidRandomNumberGeneratorSource vm))" "told (opt_list (isValidCustomEmulatedMachine vm))"
    by (simp_all add: isValidMemoryPolicy_def isValidBallooning_def isValidGuaranteed_def isValidOvercommit_def
        isValidQuota_def isValidHighAvailabilityPriority_def isValidRandomNumberGeneratorSource_def
        isValidCustomEmulatedMachine_def split: option.split)
  show ?thesis
    by (simp add: vm_checks_def lists cases isValidCPUShares_def
        isValidCustomProperties_def isValidDisplayType_def hasIllegalImages_def isValidIoThreads_def isValidMigration_def
        isValidMigrationDowntime_def isValidNumaTuneMode_def isValidOrigin_def isValidPlacementPolicy_def
        isValidSoundcardEnabled_def isValidStartPaused_def isValidTunnelMigration_def
        isValidStorageErrorResumeBehaviour_def isValidUsb_def isValidHostDevices_def isValidReportedDevices_def
        isValidFloppies_def)
qed

lemma memory_told: "isMemoryAboveRequests pl f vm w = (Inr m, w') \<Longrightarrow> told (opt_list m)"
proof -
  have "told (opt_list (memory_rule vm n rules))" for n rules
    by (induction vm n rules rule: memory_rule.induct) (auto split: option.splits)
  then show "isMemoryAboveRequests pl f vm w = (Inr m, w') \<Longrightarrow> ?thesis"
    by (auto simp: isMemoryAboveRequests_def gtry_returns split: option.splits)
qed

lemma vm_told:
  assumes "ValidateVM pl vm gates f w = (Inr fs, w')"
  shows "told fs"
proof -
  from assms obtain cpu memory where cpu: "isValidCPU vm = Inr cpu" and m: "isMemoryAboveRequests pl f vm w = (Inr memory, w')"
    and fs: "fs = isValidBios vm @ opt_list (isValidStatus vm) @ opt_list (isValidTimezone pl vm) @ cpu @
             vm_checks pl gates vm @ opt_list memory"
    by (auto simp: ValidateVM_def gbind_returns)
  have "told cpu" using cpu by (auto simp: isValidCPU_def isValidCPUTune_def isValidArchitecture_def rbind_Inr split: option.splits)
  moreover have "told (isValidBios vm)" "told (opt_list (isValidStatus vm))" "told (opt_list (isValidTimezone pl vm))"
    by (simp_all add: isValidBios_def isValidBootMenu_def isValidBiosType_def Let_def isValidStatus_def isValidTimezone_def
        split: option.split)
  ultimately show ?thesis using checks_told memory_told [OF m] by (simp add: fs)
qed

lemma processFailures_error:
  assumes "told fs"
  shows "snd (processFailures fs) \<noteq> [] \<longleftrightarrow> blocks fs"
proof -
  have "snd (foldl (\<lambda>(warnMessage, errorMessage) f.
        case action_of (vf_id f) of
          Log \<Rightarrow> (warnMessage, errorMessage)
        | Warn \<Rightarrow> (WithMessage warnMessage (vf_message f), errorMessage)
        | Block \<Rightarrow> (warnMessage, WithMessage errorMessage (vf_message f))) s fs) \<noteq> [] \<longleftrightarrow> snd s \<noteq> [] \<or> blocks fs" for s
    using assms by (induction fs arbitrary: s) (auto simp: WithMessage_def split: prod.splits action.splits)
  from this [of "([], [])"] show ?thesis by (simp add: processFailures_def)
qed

definition disks_importable :: "ov_attachment list option \<Rightarrow> bool" where
  "disks_importable das = (case das of None \<Rightarrow> True | Some ds \<Rightarrow> ds \<noteq> [] \<and> list_all disk_importable ds)"

lemma rule_failures_block:
  "blocks (rule_failures pl vm) \<longleftrightarrow>
     \<not> (list_all nic_importable (slice (ov_nics vm)) \<and> disks_importable (ov_disk_attachments vm))"
  by (auto simp: rule_failures_def ValidateNics_def ValidateDiskAttachments_def blocks_concat nic_blocks disk_blocks
      disks_importable_def list_all_iff slice_def split: option.split)

lemma rule_failures_told: "told (rule_failures pl vm)"
  by (simp add: rule_failures_def ValidateNics_def ValidateDiskAttachments_def told_concat nic_told disk_told split: option.split)

lemma mapping_condition_type: "c_type (processMappingValidationFailures n fs) = Valid"
  by (simp add: processMappingValidationFailures_def split: prod.split)

lemma rules_condition_decided: "c_status (processValidationFailures n fs) \<in> {ConditionTrue, ConditionFalse}"
  by (simp add: processValidationFailures_def split: prod.split)

lemma rules_condition:
  assumes "OvirtValidate pl rd f vm mappings ns (w :: 'p world) = (Inr cs, w')"
  shows "\<exists>valid rules (w1 :: 'p world) gates w2 memory w3. cs = [valid, rules] \<and> c_type valid = Valid \<and> c_type rules = MappingRulesVerified \<and>
    validateMappings pl rd vm mappings ns w = (Inr valid, w1) \<and> GetKubeVirtConfig w1 = (Inr gates, w2) \<and> isMemoryAboveRequests pl f vm w2 = (Inr memory, w3) \<and>
    (c_status rules = ConditionFalse \<longleftrightarrow>
       \<not> (vm_importable pl gates vm \<and> memory = None \<and> list_all nic_importable (slice (ov_nics vm)) \<and>
          disks_importable (ov_disk_attachments vm)))"
proof -
  from assms obtain valid w1 gates w2 fs w3 n where v: "validateMappings pl rd vm mappings ns w = (Inr valid, w1)"
    and g: "GetKubeVirtConfig w1 = (Inr gates, w2)" and r: "ValidateVM pl vm gates f w2 = (Inr fs, w3)"
    and cs: "cs = [valid, processValidationFailures n (fs @ rule_failures pl vm)]"
    by (auto simp: OvirtValidate_def gbind_returns)
  have types: "c_type valid = Valid" "c_type (processValidationFailures n (fs @ rule_failures pl vm)) = MappingRulesVerified"
    using v by (auto simp: validateMappings_def gbind_returns mapping_condition_type processValidationFailures_def split: prod.split)
  have "c_status (processValidationFailures n (fs @ rule_failures pl vm)) = ConditionFalse \<longleftrightarrow> blocks fs \<or> blocks (rule_failures pl vm)"
    using processFailures_error [of "fs @ rule_failures pl vm"] vm_told [OF r] rule_failures_told [of pl vm]
    by (auto simp: processValidationFailures_def split: prod.splits)
  moreover from vm_blocks [OF r] obtain memory w4 where m: "isMemoryAboveRequests pl f vm w2 = (Inr memory, w4)"
    and "blocks fs \<longleftrightarrow> \<not> (vm_importable pl gates vm \<and> memory = None)" by blast
  ultimately have verdict: "c_status (processValidationFailures n (fs @ rule_failures pl vm)) = ConditionFalse \<longleftrightarrow>
       \<not> (vm_importable pl gates vm \<and> memory = None \<and> list_all nic_importable (slice (ov_nics vm)) \<and>
          disks_importable (ov_disk_attachments vm))"
    unfolding rule_failures_block by blast
  show ?thesis
    by (rule exI [where x = valid], rule exI [where x = "processValidationFailures n (fs @ rule_failures pl vm)"],
        rule exI [where x = w1], rule exI [where x = gates], rule exI [where x = w2], rule exI [where x = memory],
        rule exI [where x = w4]) (intro conjI cs types v g m verdict)
qed


definition blank_machine :: ov_vm where
  "blank_machine =
     \<lparr>ov_id = None, ov_name = None, ov_type = None, ov_status = None, ov_fqdn = None, ov_bios = None,
      ov_cluster = None, ov_time_zone = None, ov_cpu = None, ov_cpu_shares = None, ov_custom_cpu_model = None,
      ov_custom_emulated_machine = None, ov_custom_properties = None, ov_display = None, ov_has_illegal_images
      = None, ov_high_availability = None, ov_io = None, ov_memory = None, ov_memory_policy = None,
      ov_migration = None, ov_migration_downtime = None, ov_numa_tune_mode = None, ov_origin = None,
      ov_placement_policy = None, ov_rng_device = None, ov_serial_number = None, ov_soundcard_enabled = None,
      ov_start_paused = None, ov_tunnel_migration = None, ov_storage_error_resume = None, ov_usb = None,
      ov_console = None, ov_graphics_consoles = None, ov_host_devices = None, ov_reported_devices = None,
      ov_quota = None, ov_watchdogs = None, ov_cdroms = None, ov_floppies = None, ov_nics = None,
      ov_disk_attachments = None, ov_instance_type = None, ov_tags = None, ov_comment = None, ov_sso = None,
      ov_guest_os = None, ov_os = None\<rparr>"

definition plain_orders :: orders where
  "plain_orders = \<lparr>rd_names = (\<lambda>xs. xs), rd_sources = (\<lambda>xs. xs), rd_networks = (\<lambda>xs. xs), rd_classes = (\<lambda>xs. xs), rd_volumes = (\<lambda>xs. xs)\<rparr>"

lemma blank_validation:
  "\<exists>cs w'. OvirtValidate demo_platform plain_orders \<lparr>of_name = [], of_namespace = []\<rparr> blank_machine None ''ns''
     (demo_world poweredOff demo_import) = (Inr cs, w')"
  by (simp add: OvirtValidate_def validateMappings_def blank_machine_def ValidateVM_def isValidCPU_def isMemoryAboveRequests_def
      OvirtFindTemplate_def OvirtFindOperatingSystem_def os_of_vm_def run_defs cong: run_cong)


end
