(* ===== verification/MappingSpec.thy ===== *)
theory MappingSpec
  imports ValidationSpec
begin

text \<open>
  The agreement of the validation with the mapping of an oVirt machine: the two parts of the program look
  the resource mappings up in different ways, and what the one accepts the other has to find.
\<close>

section \<open>Networks\<close>

definition connected :: "vm_network \<Rightarrow> bool" where
  "connected net \<longleftrightarrow> nw_pod net \<or> nw_multus net \<noteq> None"

definition legal_type :: "network_item \<Rightarrow> bool" where
  "legal_type item \<longleftrightarrow> ni_type item \<in> {None, Some ''pod'', Some ''multus''}"

lemma blocks_member: "f \<in> set fs \<Longrightarrow> action_of (vf_id f) = Block \<Longrightarrow> blocks fs"
  by (auto simp: blocks_def list_ex_iff)

lemma required_found:
  "\<not> blocks (fst (required_networks byID byName vnics targets)) \<Longrightarrow> v \<in> set vnics \<Longrightarrow> lookup_source byID byName v \<noteq> None"
  by (induction byID byName vnics targets rule: required_networks.induct) (auto split: option.splits prod.splits)

lemma lookup_member:
  assumes "lookup_source (fst (index_networks items)) (snd (index_networks items)) v = Some ni"
  shows "snd ni \<in> set items \<and>
    (src_id v \<noteq> None \<and> src_id (ni_source (snd ni)) = src_id v \<or>
     src_name v \<noteq> None \<and> src_name (ni_source (snd ni)) = src_name v)"
proof -
  have mem: "x \<in> set (enumerate 0 items) \<Longrightarrow> snd x \<in> set items" for x
    by (cases x) (auto simp: in_set_enumerate_eq)
  from assms show ?thesis
    by (auto simp: lookup_source_def index_networks_def dest!: index_by_id_Some index_by_name_Some mem split: option.splits)
qed

lemma source_found:
  assumes "lookup_source (fst (index_networks items)) (snd (index_networks items)) v \<noteq> None"
    and "nic_source nic = Some v" and "nc_profile nic = Some p"
  shows "\<exists>networkName. vp_network p = Some networkName \<and>
    list_ex (matches_nic (GetNetworkMappingName (str networkName) (str (vp_name p))) p) items"
proof -
  from assms(1) obtain ni where ni: "lookup_source (fst (index_networks items)) (snd (index_networks items)) v = Some ni" by blast
  from assms(2,3) show ?thesis using lookup_member [OF ni]
    by (auto simp: nic_source_def createSourceNetworkIdentifier_def matches_nic_def list_ex_iff split: option.splits if_splits)
qed

lemma apply_connects: "legal_type m \<Longrightarrow> connected (apply_network_type ns sriov m net)"
  by (auto simp: apply_network_type_def connected_def legal_type_def maps_to_pod_def)

lemma apply_keeps: "connected net \<Longrightarrow> connected (apply_network_type ns sriov m net)"
  by (auto simp: apply_network_type_def connected_def)

lemma fold_keeps:
  "connected net \<Longrightarrow> connected (fold (\<lambda>m net. if P m then apply_network_type ns sriov m net else net) items net)"
  by (induction items arbitrary: net) (auto simp: apply_keeps)

lemma fold_connects:
  "list_all legal_type items \<Longrightarrow> list_ex P items \<Longrightarrow>
   connected (fold (\<lambda>m net. if P m then apply_network_type ns sriov m net else net) items net)"
  by (induction items arbitrary: net) (auto simp: fold_keeps apply_connects)

lemma network_validation_found:
  assumes v: "ValidateNetworkMapping pl rd nics (Some items) ns w = (Inr fs, w')" and "\<not> blocks fs" and "is_shuffle (rd_sources rd)"
    and "nic \<in> set nics" and "nic_source nic = Some s"
  shows "lookup_source (fst (index_networks items)) (snd (index_networks items)) s \<noteq> None"
proof -
  obtain byID byName where ix: "index_networks items = (byID, byName)" by fastforce
  obtain failures targets where r: "required_networks byID byName (getRequiredVnicProfiles rd nics) [] = (failures, targets)" by fastforce
  have "\<not> blocks failures"
    using v \<open>\<not> blocks fs\<close> by (auto simp: ValidateNetworkMapping_def ix r gbind_returns validateSourceNetworkFormat_def Let_def split: if_splits)
  moreover have "s \<in> set (getRequiredVnicProfiles rd nics)"
    using assms(3-5) by (auto simp: getRequiredVnicProfiles_def)
  ultimately show ?thesis using required_found [of byID byName "getRequiredVnicProfiles rd nics" "[]" s] by (simp add: ix r)
qed

definition profiled :: "ov_nic list \<Rightarrow> ov_nic list" where
  "profiled nics = filter (\<lambda>nic. nc_profile nic \<noteq> None) nics"

definition identified_nic :: "ov_nic \<Rightarrow> bool" where
  "identified_nic nic \<longleftrightarrow> nc_profile nic = None \<or> nic_source nic \<noteq> None"

lemma map_networks_connected:
  assumes "ma_mappings o' = Some ms" and "rm_network ms = Some items" and "list_all legal_type items"
    and "\<And>nic p. nic \<in> set nics \<Longrightarrow> nc_profile nic = Some p \<Longrightarrow> \<exists>networkName. vp_network p = Some networkName \<and>
      list_ex (matches_nic (GetNetworkMappingName (str networkName) (str (vp_name p))) p) items"
  shows "\<exists>nets. map_networks o' nics = Inr nets \<and> list_all connected nets \<and>
    map nw_name nets = map (\<lambda>nic. or_empty (NormalizeName (str (nc_name nic)))) (profiled nics)"
  using assms(4)
proof (induction nics)
  case Nil
  then show ?case by (simp add: profiled_def)
next
  case (Cons nic nics)
  from Cons obtain nets where IH: "map_networks o' nics = Inr nets" "list_all connected nets"
    "map nw_name nets = map (\<lambda>nic. or_empty (NormalizeName (str (nc_name nic)))) (profiled nics)" by fastforce
  show ?case
  proof (cases "nc_profile nic")
    case None
    with IH show ?thesis by (simp add: profiled_def)
  next
    case (Some p)
    with Cons.prems [of nic p] obtain networkName where n: "vp_network p = Some networkName"
      and m: "list_ex (matches_nic (GetNetworkMappingName (str networkName) (str (vp_name p))) p) items" by auto
    obtain net where g: "getNetworkForNic o' p = Inr net" and c: "connected net"
      using fold_connects [OF assms(3) m] by (simp add: getNetworkForNic_def n assms(1,2) Let_def)
    have "connected (net\<lparr>nw_name := x\<rparr>)" for x using c by (simp add: connected_def)
    with IH g Some show ?thesis by (simp add: profiled_def)
  qed
qed


text \<open>A machine with the interfaces and the disks given, and a mapper for it.\<close>

definition sample_nic :: "string \<Rightarrow> string \<Rightarrow> ov_nic" where
  "sample_nic name i =
     \<lparr>nc_id = Some name, nc_name = Some name, nc_mac = None, nc_interface = Some ''virtio'', nc_on_boot = None, nc_plugged = None,
      nc_profile = Some \<lparr>vp_id = Some i, vp_name = Some i, vp_network = Some (Some ''net''), vp_pass_through = None,
        vp_port_mirroring = None, vp_custom_properties = None, vp_network_filter = None, vp_qos = None\<rparr>\<rparr>"

definition by_id :: "string \<Rightarrow> source_id" where "by_id i = \<lparr>src_name = None, src_id = Some i\<rparr>"

definition sample_mapper :: "ov_vm \<Rightarrow> resource_mappings \<Rightarrow> ovirt_mapper" where
  "sample_mapper vm ms = \<lparr>ma_vm = vm, ma_mappings = Some ms,
     ma_creds = \<lparr>cr_url = [], cr_ca_certificate = [], cr_key_access = [], cr_key_secret = [], cr_config_map = [], cr_secret = []\<rparr>,
     ma_namespace = ''ns'', ma_os_finder = \<lparr>of_name = [], of_namespace = []\<rparr>\<rparr>"

definition sample_networks :: "network_item list \<Rightarrow> resource_mappings" where
  "sample_networks items = \<lparr>rm_network = Some items, rm_storage = None, rm_disk = None\<rparr>"

definition pod_item :: "string \<Rightarrow> network_item" where
  "pod_item i = \<lparr>ni_source = by_id i, ni_target = \<lparr>oi_name = ''pod'', oi_namespace = None\<rparr>, ni_type = Some ''pod''\<rparr>"

lemmas mapping_run = ValidateNetworkMapping_def index_networks_def validateSourceNetworkFormat_def getRequiredVnicProfiles_def
  nic_source_def createSourceNetworkIdentifier_def sample_nic_def lookup_source_def target_key_def getPodNetworks_def
  pod_network_def maps_to_pod_def validateNetwork_def isValidMultusNetwork_def pod_failures_def fail_when_def IsSRIOV_def
  plain_orders_def by_id_def pod_item_def


text \<open>
  The types of the targets are kept per target name: an item of an unknown type passes the validation
  when a later interface uses an item with the same target name, and the interface gets no network.
\<close>

lemma unknown_type_hidden:
  "\<exists>nics items w'. ValidateNetworkMapping demo_platform plain_orders nics (Some items) ''ns'' (demo_world poweredOff demo_import) = (Inr [], w') \<and>
     (\<exists>net1 net2. mapNetworks (sample_mapper (blank_machine\<lparr>ov_nics := Some nics\<rparr>) (sample_networks items)) = Inr [net1, net2] \<and>
       \<not> connected net1 \<and> connected net2) \<and>
     (\<exists>f w''. ValidateNetworkMapping demo_platform plain_orders [nics ! 0] (Some items) ''ns'' (demo_world poweredOff demo_import) = (Inr [f], w'') \<and>
       vf_id f = NetworkTypeID)"
proof -
  let ?nics = "[sample_nic ''eth0'' ''p'', sample_nic ''eth1'' ''q'']"
    and ?items = "[(pod_item ''p'')\<lparr>ni_type := Some ''genie''\<rparr>, pod_item ''q'']"
  let ?o = "sample_mapper (blank_machine\<lparr>ov_nics := Some ?nics\<rparr>) (sample_networks ?items)"
  have "\<exists>w'. ValidateNetworkMapping demo_platform plain_orders ?nics (Some ?items) ''ns'' (demo_world poweredOff demo_import) = (Inr [], w')"
    by (simp add: mapping_run run_defs cong: run_cong)
  moreover have "\<exists>net1 net2. mapNetworks ?o = Inr [net1, net2] \<and> \<not> connected net1 \<and> connected net2"
    by (simp add: mapNetworks_def sample_mapper_def sample_networks_def mapping_run getNetworkForNic_def Let_def matches_nic_def
        apply_network_type_def connected_def GetNetworkMappingName_def)
  moreover have "\<exists>f w''. ValidateNetworkMapping demo_platform plain_orders [?nics ! 0] (Some ?items) ''ns'' (demo_world poweredOff demo_import)
      = (Inr [f], w'') \<and> vf_id f = NetworkTypeID"
    by (simp add: mapping_run run_defs cong: run_cong)
  ultimately show ?thesis by blast
qed

section \<open>Storage classes\<close>

text \<open>An item of the mapping and the classes that validation and mapper choose for a disk.\<close>

definition item_for :: "string \<Rightarrow> string \<Rightarrow> storage_item \<Rightarrow> bool" where
  "item_for i n m \<longleftrightarrow> source_is (si_source m) i n"

definition unambiguous :: "string \<Rightarrow> string \<Rightarrow> storage_item list \<Rightarrow> bool" where
  "unambiguous i n items \<longleftrightarrow> list_all (\<lambda>x. list_all (\<lambda>y. item_for i n x \<and> item_for i n y \<longrightarrow> si_target x = si_target y) items) items"

definition clear_disk :: "resource_mappings \<Rightarrow> ov_disk \<Rightarrow> bool" where
  "clear_disk ms disk \<longleftrightarrow> unambiguous (str (od_id disk)) (str (od_alias disk)) (slice (rm_disk ms)) \<and>
     (case od_storage_domain disk of None \<Rightarrow> True
      | Some sd \<Rightarrow> unambiguous (str (sd_id sd)) (str (sd_name sd)) (slice (rm_storage ms)))"

lemma unambiguousD:
  "unambiguous i n items \<Longrightarrow> x \<in> set items \<Longrightarrow> item_for i n x \<Longrightarrow> y \<in> set items \<Longrightarrow> item_for i n y \<Longrightarrow> si_target x = si_target y"
  unfolding unambiguous_def list_all_iff by blast

lemma storage_item_at:
  assumes "gm_get (fst (index_storage items)) i = Some ni \<or> gm_get (snd (index_storage items)) n = Some ni"
  shows "snd ni \<in> set items \<and> item_for i n (snd ni)"
proof -
  have mem: "x \<in> set (enumerate 0 items) \<Longrightarrow> snd x \<in> set items" for x
    by (cases x) (auto simp: in_set_enumerate_eq)
  from assms show ?thesis
    by (auto simp: index_storage_def item_for_def source_is_def dest!: index_by_id_Some index_by_name_Some mem)
qed

lemma storage_item_none:
  assumes "gm_get (fst (index_storage items)) i = None" and "gm_get (snd (index_storage items)) n = None" and "m \<in> set items"
  shows "\<not> item_for i n m"
proof -
  from \<open>m \<in> set items\<close> obtain k where "k < length items" "items ! k = m" by (auto simp: in_set_conv_nth)
  then have "(k, m) \<in> set (enumerate 0 items)" by (simp add: in_set_enumerate_eq)
  with assms(1,2) show ?thesis
    by (force simp: index_storage_def item_for_def source_is_def index_by_id index_by_name find_None_set split: option.splits)
qed

text \<open>The search by index and the search by scan agree where the matching items agree.\<close>

lemma searches_agree:
  assumes "unambiguous i n items"
  shows "map_option (\<lambda>ni. si_target (snd ni)) (first_of (gm_get (fst (index_storage items)) i) (gm_get (snd (index_storage items)) n)) =
    map_option si_target (find (item_for i n) items)"
proof (cases "first_of (gm_get (fst (index_storage items)) i) (gm_get (snd (index_storage items)) n)")
  case None
  then have "gm_get (fst (index_storage items)) i = None" "gm_get (snd (index_storage items)) n = None"
    by (simp_all add: first_of_def split: option.splits)
  from storage_item_none [OF this] have "find (item_for i n) items = None" by (simp add: find_None_set)
  with None show ?thesis by simp
next
  case (Some ni)
  then have "gm_get (fst (index_storage items)) i = Some ni \<or> gm_get (snd (index_storage items)) n = Some ni"
    by (auto simp: first_of_def split: option.splits)
  from storage_item_at [OF this] have ni: "snd ni \<in> set items" "item_for i n (snd ni)" by simp_all
  then obtain m where m: "find (item_for i n) items = Some m" by (cases "find (item_for i n) items") (auto simp: find_None_set)
  from unambiguousD [OF assms ni] find_Some_set [OF m] have "si_target (snd ni) = si_target m" by simp
  with Some m show ?thesis by simp
qed

lemma domain_scan:
  "find_domain_mapping (Some sd) items = Inr (find (item_for (str (sd_id sd)) (str (sd_name sd))) items)"
  by (induction items) (auto simp: item_for_def source_is_def)

lemma domain_scan_slice:
  "d = Some sd \<Longrightarrow> (case items of None \<Rightarrow> Inr None | Some xs \<Rightarrow> find_domain_mapping d xs) =
     Inr (find (item_for (str (sd_id sd)) (str (sd_name sd))) (slice items))"
  by (cases items) (simp_all add: domain_scan slice_def)

lemma domain_scan_none: "find_domain_mapping None items = Inr m \<Longrightarrow> m = None"
  by (induction items) (auto split: if_splits)

lemma class_name:
  "fst (fst (disk_class (index_storage ds) (index_storage ss) disk)) =
     (case first_of (map_option (\<lambda>ni. si_target (snd ni)) (first_of (gm_get (fst (index_storage ds)) (str (od_id disk)))
                                                                    (gm_get (snd (index_storage ds)) (str (od_alias disk)))))
        (case od_storage_domain disk of None \<Rightarrow> None | Some sd \<Rightarrow>
           map_option (\<lambda>ni. si_target (snd ni)) (first_of (gm_get (fst (index_storage ss)) (str (sd_id sd)))
                                                          (gm_get (snd (index_storage ss)) (str (sd_name sd))))) of
       None \<Rightarrow> DefaultStorageClassTargetName | Some t \<Rightarrow> oi_name t)"
  by (auto simp: disk_class_def Let_def first_of_def class_key_def split: option.splits)

lemma classes_agree:
  assumes clear: "clear_disk ms disk" and m: "getMapping disk (Some ms) = Inr mapping"
  shows "getStorageClassForDisk mapping =
    (let c = fst (fst (disk_class (index_storage (slice (rm_disk ms))) (index_storage (slice (rm_storage ms))) disk))
     in if c = DefaultStorageClassTargetName then None else Some c)"
proof -
  from clear have d: "unambiguous (str (od_id disk)) (str (od_alias disk)) (slice (rm_disk ms))" by (simp add: clear_disk_def)
  have scan: "find (\<lambda>m. source_is (si_source m) (str (od_id disk)) (str (od_alias disk))) (slice (rm_disk ms)) =
      find (item_for (str (od_id disk)) (str (od_alias disk))) (slice (rm_disk ms))" unfolding item_for_def [abs_def] by (rule refl)
  have s: "unambiguous (str (sd_id sd)) (str (sd_name sd)) (slice (rm_storage ms))" if "od_storage_domain disk = Some sd" for sd
    using clear that by (simp add: clear_disk_def)
  show ?thesis
  proof (cases "find (item_for (str (od_id disk)) (str (od_alias disk))) (slice (rm_disk ms))")
    case (Some x)
    with m show ?thesis
      by (auto simp: getMapping_def scan class_name searches_agree [OF d] getStorageClassForDisk_def Let_def)
  next
    case None
    show ?thesis
    proof (cases "od_storage_domain disk")
      case no_domain: None
      with m None show ?thesis
        by (auto simp: getMapping_def scan class_name searches_agree [OF d] getStorageClassForDisk_def Let_def
            dest: domain_scan_none split: option.splits)
    next
      case (Some sd)
      with m None show ?thesis
        by (auto simp: getMapping_def scan class_name searches_agree [OF d] searches_agree [OF s [OF Some]]
            getStorageClassForDisk_def Let_def domain_scan_slice [OF Some] split: option.split)
    qed
  qed
qed

text \<open>Every disk adds its class to the classes that the validation looks up.\<close>

definition sought :: "string \<times> (source_type \<times> nat) option \<Rightarrow> class_target list \<Rightarrow> bool" where
  "sought k targets \<longleftrightarrow> (\<exists>sources. (k, sources) \<in> set targets \<and> sources \<noteq> [])"

lemma gm_set_other: "(j, x) \<in> set m \<Longrightarrow> j \<noteq> i \<Longrightarrow> (j, x) \<in> set (gm_set i y m)"
  by (induction m) auto

lemma gm_set_new: "(i, y) \<in> set (gm_set i y m)"
  by (induction m) auto

lemma new_source_sought: "sought (fst ks) (add_source ks m)"
  unfolding sought_def add_source_def by (rule exI, rule conjI, rule gm_set_new) simp

lemma add_source_sought: "sought k m \<Longrightarrow> sought k (add_source ks m)"
proof (cases "k = fst ks")
  case False
  assume "sought k m"
  then obtain sources where "(k, sources) \<in> set m" "sources \<noteq> []" by (auto simp: sought_def)
  with gm_set_other [OF this(1) False] show ?thesis by (auto simp: sought_def add_source_def)
qed (simp add: new_source_sought)

lemma fold_sought:
  "sought k m \<Longrightarrow> sought k (fold (\<lambda>da m. case da_disk da of None \<Rightarrow> m | Some disk \<Rightarrow> add_source (f disk) m) das m)"
  by (induction das arbitrary: m) (auto intro: add_source_sought split: option.split)

lemma disk_sought:
  "da \<in> set das \<Longrightarrow> da_disk da = Some disk \<Longrightarrow>
   sought (fst (f disk)) (fold (\<lambda>da m. case da_disk da of None \<Rightarrow> m | Some disk \<Rightarrow> add_source (f disk) m) das m)"
  by (induction das arbitrary: m) (auto intro: fold_sought [OF new_source_sought])

lemma class_exists:
  assumes "get_storage_class k w = (Inr u, w')"
  shows "w_storage_classes w k \<noteq> None"
  using assms get_from_result [of w_storage_classes w "''storageclasses''" k u w'] by (simp add: get_storage_class_def)

lemma class_read: "get_storage_class k w = (r, w') \<Longrightarrow> w_storage_classes w' = w_storage_classes w"
  by (auto simp: get_storage_class_def dest: get_from_world)

lemma getCheckID_blocks [simp]: "action_of (getCheckID s) = Block"
  by (simp add: getCheckID_def split: source_type.split)

lemma classes_checked:
  assumes "validateStorageClasses targets w = (Inr fs, w')" and "\<not> blocks fs"
    and "sought k targets" and "fst k \<noteq> DefaultStorageClassTargetName"
  shows "w_storage_classes w ([], fst k) \<noteq> None"
  using assms(1-3)
proof (induction targets arbitrary: w fs)
  case Nil
  then show ?case by (simp add: sought_def)
next
  case (Cons target targets)
  obtain j sources where t: "target = (j, sources)" by fastforce
  from Cons.prems(1) obtain gs hs w1 where rest: "validateStorageClasses targets w1 = (Inr hs, w')" and fs: "fs = gs @ hs"
    and this_class: "fst j = DefaultStorageClassTargetName \<and> w1 = w \<or>
      (\<exists>u. get_storage_class ([], fst j) w = (Inr u, w1)) \<or>
      (\<exists>e. get_storage_class ([], fst j) w = (Inl e, w1) \<and> map vf_id gs = map getCheckID sources)"
    by (auto simp: t gbind_returns gtry_returns o_def split: if_splits)
  then have same: "w_storage_classes w1 = w_storage_classes w" by (auto dest: class_read)
  show ?case
  proof (cases "sought k targets")
    case True
    with Cons.IH [OF rest] Cons.prems(2) fs same show ?thesis by simp
  next
    case False
    with Cons.prems(3) have "j = k" and "sources \<noteq> []" by (auto simp: sought_def t)
    then obtain s ss where "sources = s # ss" by (cases sources) auto
    then have "map vf_id gs \<noteq> map getCheckID sources"
      using Cons.prems(2) by (cases gs) (auto simp: fs)
    with this_class \<open>j = k\<close> assms(4) show ?thesis by (auto dest: class_exists)
  qed
qed

section \<open>Data volumes\<close>

text \<open>The volumes are those of the disks, each under the name made from the id of its attachment.\<close>

lemma gm_set_member: "(k, v) \<in> set (gm_set i x m) \<Longrightarrow> (k, v) = (i, x) \<or> (k, v) \<in> set m"
  by (induction m) (auto split: if_splits)

lemma map_data_volumes_member:
  "map_data_volumes o' n das dvs = Inr out \<Longrightarrow> (k, dv) \<in> set out \<Longrightarrow>
   (k, dv) \<in> set dvs \<or> (\<exists>da \<in> set das. k = buildDataVolumeName n (str (da_id da)) \<and> map_data_volume o' k da = Inr dv)"
proof (induction o' n das dvs rule: map_data_volumes.induct)
  case (2 o' n da das dvs)
  then show ?case by (fastforce simp: Let_def rbind_Inr dest: gm_set_member)
qed simp

lemma map_data_volumes_keys:
  "map_data_volumes o' n das dvs = Inr out \<Longrightarrow>
   fst ` set out = fst ` set dvs \<union> (\<lambda>da. buildDataVolumeName n (str (da_id da))) ` set das \<and>
   (distinct (map fst dvs) \<longrightarrow> distinct (map fst out))"
proof (induction o' n das dvs rule: map_data_volumes.induct)
  case (2 o' n da das dvs)
  let ?k = "buildDataVolumeName n (str (da_id da))"
  from 2(2) obtain dv where dv: "map_data_volume o' ?k da = Inr dv" and rest: "map_data_volumes o' n das (gm_set ?k dv dvs) = Inr out"
    by (auto simp: Let_def rbind_Inr)
  have "fst ` set (gm_set ?k dv dvs) = insert ?k (fst ` set dvs)"
    using dom_update [of ?k dv dvs] by simp
  with 2(1) [OF refl rest] show ?case by (auto simp: distinct_update)
qed simp

lemma MapDataVolumes_member:
  assumes "MapDataVolumes o' n = Inr dvs" and "(k, dv) \<in> set dvs"
  obtains das da where "ov_disk_attachments (ma_vm o') = Some das" and "da \<in> set das"
    and "k = buildDataVolumeName n (str (da_id da))" and "map_data_volume o' k da = Inr dv"
  using assms map_data_volumes_member [of o' n _ "[]" dvs k dv] by (auto simp: MapDataVolumes_def rbind_Inr deref_def split: option.splits)


definition sample_domain :: ov_domain where
  "sample_domain = \<lparr>sd_id = Some ''sd-1'', sd_name = Some ''data'', sd_type = None\<rparr>"

definition sample_disk :: ov_disk where
  "sample_disk = \<lparr>od_id = Some ''disk-1'', od_alias = Some ''root'', od_interface = None, od_logical_name = None,
     od_uses_scsi_reservation = None, od_backup = None, od_lun_storage = None, od_propagate_errors = None,
     od_wipe_after_delete = None, od_status = Some ''ok'', od_storage_type = Some ''image'', od_sgio = None,
     od_storage_domain = Some sample_domain, od_provisioned_size = Some 1073741824\<rparr>"

definition sample_attachment :: ov_attachment where
  "sample_attachment = \<lparr>da_id = Some ''d'', da_interface = Some ''virtio_scsi'', da_logical_name = None, da_pass_discard = None,
     da_uses_scsi_reservation = None, da_bootable = Some True, da_read_only = None, da_disk = Some sample_disk\<rparr>"

definition class_item :: "string option \<Rightarrow> string option \<Rightarrow> string \<Rightarrow> storage_item" where
  "class_item n i target = \<lparr>si_source = \<lparr>src_name = n, src_id = i\<rparr>,
     si_target = \<lparr>oi_name = target, oi_namespace = None\<rparr>, si_volume_mode = None\<rparr>"

definition sample_storage :: "storage_item list \<Rightarrow> resource_mappings" where
  "sample_storage items = \<lparr>rm_network = None, rm_storage = Some items, rm_disk = None\<rparr>"

definition fast_class :: "nsname \<Rightarrow> unit option" where
  "fast_class k = (if k = ([], ''fast'') then Some () else None)"

definition fast_world :: "string source world" where
  "fast_world = (demo_world poweredOff demo_import)\<lparr>w_storage_classes := fast_class\<rparr>"

definition disk_machine :: ov_vm where
  "disk_machine = blank_machine\<lparr>ov_disk_attachments := Some [sample_attachment]\<rparr>"

lemmas storage_run = ValidateStorageMapping_def getRequiredStorageClasses_def disk_class_def index_storage_def class_key_def
  item_source_def DefaultStorageClassTargetName_def add_source_def getCheckID_def sample_domain_def sample_disk_def
  sample_attachment_def class_item_def sample_storage_def fast_world_def fast_class_def plain_orders_def

lemmas volume_run = MapDataVolumes_def map_data_volume_def getMapping_def source_is_def getStorageClassForDisk_def
  getAccessMode_def getVolumeMode_def sample_mapper_def disk_machine_def blank_machine_def


text \<open>
  Where two items match a storage domain, one by its name and a later one by its id, the validation
  looks at the later one and the mapper uses the earlier one, whose class need not exist.
\<close>

theorem unchecked_class_used:
  "\<exists>ms w'. ValidateStorageMapping plain_orders [sample_attachment] (rm_storage ms) (rm_disk ms) fast_world = (Inr [], w') \<and>
     (\<exists>k dv. MapDataVolumes (sample_mapper disk_machine ms) ''target'' = Inr [(k, dv)] \<and> dv_storage_class dv = Some ''gone'') \<and>
     w_storage_classes fast_world ([], ''gone'') = None"
proof -
  let ?ms = "sample_storage [class_item (Some ''data'') None ''gone'', class_item None (Some ''sd-1'') ''fast'']"
  have "\<exists>w'. ValidateStorageMapping plain_orders [sample_attachment] (rm_storage ?ms) (rm_disk ?ms) fast_world = (Inr [], w')"
    by (simp add: storage_run slice_def run_defs cong: run_cong)
  moreover have "\<exists>k dv. MapDataVolumes (sample_mapper disk_machine ?ms) ''target'' = Inr [(k, dv)] \<and> dv_storage_class dv = Some ''gone''"
    by (simp add: volume_run storage_run slice_def run_defs deref_def)
  moreover have "w_storage_classes fast_world ([], ''gone'') = None" by (simp add: fast_world_def fast_class_def)
  ultimately show ?thesis by blast
qed

end
