(* ===== verification/DiskSpec.thy ===== *)
theory DiskSpec
  imports MappingSpec VmwareMapper "HOL-Library.Multiset"
begin

text \<open>
  Disks: the data volumes that the two mappers make of the disks of a machine, and the disks that they
  add to the virtual machine for the volumes.
\<close>

definition vm_disks :: "kubevm \<Rightarrow> vm_disk list" where
  "vm_disks vm = dv_disks (do_devices (tp_domain (template_of vm)))"

definition vm_volumes :: "kubevm \<Rightarrow> vm_volume list" where
  "vm_volumes vm = tp_volumes (template_of vm)"

definition volume_of :: "datavolume \<Rightarrow> vm_volume" where
  "volume_of dv = \<lparr>vo_name = disk_volume_name dv, vo_data_volume = Some (om_name (dv_meta dv))\<rparr>"

section \<open>Volumes of oVirt disks\<close>

definition attachment_name :: "string \<Rightarrow> ov_attachment \<Rightarrow> string" where
  "attachment_name n da = buildDataVolumeName n (str (da_id da))"

definition ovirt_disk :: "ov_attachment \<Rightarrow> datavolume \<Rightarrow> vm_disk" where
  "ovirt_disk da dv = \<lparr>dk_name = disk_volume_name dv, dk_bus = mapDiskInterface (str (da_interface da)),
     dk_boot_order = (if flag (da_bootable da) then Some 1 else None)\<rparr>"

lemma formatted_size:
  assumes "FormatBytes n = Inr s" and "0 \<le> n" and "n \<le> max_int64"
  shows "quantity s = n"
  using FormatBytes_exact [OF assms(2,3)] assms(1) by (auto simp: quantity_def)

lemma volume_fields:
  assumes "map_data_volume o' k da = Inr dv"
  obtains disk where "da_disk da = Some disk" and "om_key (dv_meta dv) = (ma_namespace o', k)"
    and "dv_from dv = Imageio (cr_url (ma_creds o')) (str (od_id disk)) (cr_secret (ma_creds o')) (cr_config_map (ma_creds o'))"
    and "0 \<le> num (od_provisioned_size disk) \<Longrightarrow> num (od_provisioned_size disk) \<le> max_int64 \<Longrightarrow>
         dv_storage dv = num (od_provisioned_size disk)"
  using assms by (auto simp: map_data_volume_def rbind_Inr deref_def om_key_def formatted_size split: option.splits)

lemma attachment_found:
  assumes names: "distinct (map (attachment_name n) das)" and da: "da \<in> set das" and ids: "list_all (\<lambda>x. da_id x \<noteq> None) das"
  shows "find (\<lambda>x. case da_id x of None \<Rightarrow> False | Some i \<Rightarrow> buildDataVolumeName n i = attachment_name n da) das = Some da"
proof (rule find_unique [OF da])
  show "case da_id da of None \<Rightarrow> False | Some i \<Rightarrow> buildDataVolumeName n i = attachment_name n da"
    using da ids by (auto simp: attachment_name_def list_all_iff)
  fix y assume y: "y \<in> set das" and "case da_id y of None \<Rightarrow> False | Some i \<Rightarrow> buildDataVolumeName n i = attachment_name n da"
  then have "attachment_name n y = attachment_name n da" by (auto simp: attachment_name_def split: option.splits)
  with names da y show "y = da" by (simp add: distinct_map inj_on_def)
qed

lemma attachment_mapped:
  assumes dvs: "MapDataVolumes o' n = Inr dvs" and das: "ov_disk_attachments (ma_vm o') = Some das"
    and names: "distinct (map (attachment_name n) das)" and ids: "list_all (\<lambda>da. da_id da \<noteq> None) das"
    and vm: "om_name (vm_meta vm) = n" "vm_template_spec vm \<noteq> None" and dv: "(k, dv) \<in> set dvs"
  shows "\<exists>da disk vm'. da \<in> set das \<and> da_disk da = Some disk \<and> om_key (dv_meta dv) = (ma_namespace o', k) \<and> k = attachment_name n da \<and>
    dv_from dv = Imageio (cr_url (ma_creds o')) (str (od_id disk)) (cr_secret (ma_creds o')) (cr_config_map (ma_creds o')) \<and>
    MapDisk o' vm dv = Inr vm' \<and> vm_disks vm' = vm_disks vm @ [ovirt_disk da dv] \<and> vm_volumes vm' = vm_volumes vm @ [volume_of dv]"
proof -
  from dvs dv das obtain da where da: "da \<in> set das" and k: "k = attachment_name n da" and m: "map_data_volume o' k da = Inr dv"
    by (auto simp: attachment_name_def elim: MapDataVolumes_member)
  from volume_fields [OF m] obtain disk where disk: "da_disk da = Some disk" "om_key (dv_meta dv) = (ma_namespace o', k)"
    "dv_from dv = Imageio (cr_url (ma_creds o')) (str (od_id disk)) (cr_secret (ma_creds o')) (cr_config_map (ma_creds o'))" by blast
  have "om_name (dv_meta dv) = attachment_name n da" using disk(2) k by (simp add: om_key_def)
  then have found: "getDiskAttachmentByID (om_name (dv_meta dv)) (ov_disk_attachments (ma_vm o')) (om_name (vm_meta vm)) = Inr (Some da)"
    by (simp add: getDiskAttachmentByID_def das vm(1) attachment_found [OF names da ids])
  from vm(2) obtain t where t: "vm_template_spec vm = Some t" by blast
  define vm' where "vm' = vm\<lparr>vm_template_spec := Some (t\<lparr>tp_volumes := tp_volumes t @ [volume_of dv],
            tp_domain := (tp_domain t)\<lparr>do_devices := (do_devices (tp_domain t))
              \<lparr>dv_disks := dv_disks (do_devices (tp_domain t)) @ [ovirt_disk da dv]\<rparr>\<rparr>\<rparr>)\<rparr>"
  have "MapDisk o' vm dv = Inr vm'"
    by (simp add: MapDisk_def Let_def found append_volume_def t vm'_def volume_of_def ovirt_disk_def)
  moreover have "vm_disks vm' = vm_disks vm @ [ovirt_disk da dv]" "vm_volumes vm' = vm_volumes vm @ [volume_of dv]"
    by (simp_all add: vm_disks_def vm_volumes_def template_of_def t vm'_def)
  ultimately show ?thesis using da disk k by blast
qed

text \<open>
  C14. An oVirt machine whose disks have distinct volume names gets one data volume per disk, in the namespace
  of the import and read from that disk, and for each of them \<open>MapDisk\<close> finds the attachment it came from
  again: it adds the volume and a disk with the bus and the boot order of the attachment.
\<close>

theorem ovirt_disks_complete:
  assumes "MapDataVolumes o' n = Inr dvs" and "ov_disk_attachments (ma_vm o') = Some das"
    and "distinct (map (attachment_name n) das)" and "list_all (\<lambda>da. da_id da \<noteq> None) das"
    and "om_name (vm_meta vm) = n" and "vm_template_spec vm \<noteq> None"
  shows "mset (map fst dvs) = mset (map (attachment_name n) das) \<and>
    (\<forall>(k, dv) \<in> set dvs. \<exists>da disk vm'. da \<in> set das \<and> da_disk da = Some disk \<and> om_key (dv_meta dv) = (ma_namespace o', k) \<and>
      k = attachment_name n da \<and>
      dv_from dv = Imageio (cr_url (ma_creds o')) (str (od_id disk)) (cr_secret (ma_creds o')) (cr_config_map (ma_creds o')) \<and>
      MapDisk o' vm dv = Inr vm' \<and> vm_disks vm' = vm_disks vm @ [ovirt_disk da dv] \<and> vm_volumes vm' = vm_volumes vm @ [volume_of dv])"
proof
  have "set (map fst dvs) = set (map (attachment_name n) das)" "distinct (map fst dvs)"
    using map_data_volumes_keys [of o' n das "[]" dvs] assms(1,2) by (auto simp: MapDataVolumes_def attachment_name_def)
  with assms(3) show "mset (map fst dvs) = mset (map (attachment_name n) das)"
    by (simp only: set_eq_iff_mset_eq_distinct)
qed (use attachment_mapped [OF assms] in \<open>auto simp: conj_assoc\<close>)

theorem ovirt_disks_complete_witness:
  "\<exists>dv vm'. MapDataVolumes (sample_mapper disk_machine (sample_storage [])) ''target'' = Inr [(''target-d'', dv)] \<and>
     MapDisk (sample_mapper disk_machine (sample_storage [])) demo_vm dv = Inr vm' \<and>
     vm_disks vm' = [ovirt_disk sample_attachment dv] \<and> dk_bus (ovirt_disk sample_attachment dv) = ''virtio''"
proof -
  let ?o = "sample_mapper disk_machine (sample_storage [])"
  have "\<exists>dv. MapDataVolumes ?o ''target'' = Inr [(''target-d'', dv)]"
    by (simp add: volume_run storage_run slice_def run_defs deref_def)
  then obtain dv where dvs: "MapDataVolumes ?o ''target'' = Inr [(''target-d'', dv)]" ..
  have das: "ov_disk_attachments (ma_vm ?o) = Some [sample_attachment]" by (simp add: sample_mapper_def disk_machine_def)
  have "distinct (map (attachment_name ''target'') [sample_attachment])" "list_all (\<lambda>x. da_id x \<noteq> None) [sample_attachment]"
    "om_name (vm_meta demo_vm) = ''target''" "vm_template_spec demo_vm \<noteq> None"
    by (simp_all add: sample_attachment_def demo_vm_def)
  from ovirt_disks_complete [OF dvs das this] obtain vm' where "MapDisk ?o demo_vm dv = Inr vm'"
    "vm_disks vm' = vm_disks demo_vm @ [ovirt_disk sample_attachment dv]" by auto
  moreover have "vm_disks demo_vm = []"
    by (simp add: vm_disks_def demo_vm_def template_of_def empty_template_def empty_domain_def empty_devices_def)
  ultimately show ?thesis using dvs by (simp add: ovirt_disk_def sample_attachment_def mapDiskInterface_def)
qed

section \<open>Volumes of VMware disks\<close>

text \<open>What the controller does with a mapper: one volume after the other.\<close>

fun map_disks :: "(kubevm \<Rightarrow> datavolume \<Rightarrow> go_error + kubevm) \<Rightarrow> datavolume list \<Rightarrow> kubevm \<Rightarrow> go_error + kubevm" where
  "map_disks f [] vm = Inr vm"
| "map_disks f (dv # dvs) vm = rbind (f vm dv) (map_disks f dvs)"

definition vmware_disk :: "datavolume \<Rightarrow> vm_disk" where
  "vmware_disk dv = \<lparr>dk_name = disk_volume_name dv, dk_bus = ''virtio'', dk_boot_order = None\<rparr>"

lemma sort_once: "sort_key f (sort_key f xs @ ys) = sort_key f (xs @ ys)"
proof (rule properties_for_sort_key)
  show "mset (sort_key f (xs @ ys)) = mset (sort_key f xs @ ys)" by simp
  fix k
  show "filter (\<lambda>x. f k = f x) (sort_key f (xs @ ys)) = filter (\<lambda>x. f k = f x) (sort_key f xs @ ys)"
  proof -
    have eq: "(\<lambda>x. f k = f x) = (\<lambda>x. f x = f k)" by auto
    show ?thesis unfolding eq by (simp add: sort_key_stable)
  qed
qed simp

lemma vmware_disk_added:
  assumes "vm_template_spec vm = Some t"
  shows "\<exists>vm' t'. vmware_MapDisk vm dv = Inr vm' \<and> vm_template_spec vm' = Some t' \<and>
    vm_disks vm' = sort_disks (vm_disks vm @ [vmware_disk dv]) \<and> vm_volumes vm' = vm_volumes vm @ [volume_of dv]"
  using assms by (simp add: vmware_MapDisk_def Let_def vm_disks_def vm_volumes_def template_of_def vmware_disk_def volume_of_def)

lemma vmware_disks_sorted:
  "vm_template_spec vm \<noteq> None \<Longrightarrow> sort_disks (vm_disks vm) = vm_disks vm \<Longrightarrow>
   \<exists>vm'. map_disks vmware_MapDisk dvs vm = Inr vm' \<and> vm_disks vm' = sort_disks (vm_disks vm @ map vmware_disk dvs) \<and>
     vm_volumes vm' = vm_volumes vm @ map volume_of dvs"
proof (induction dvs arbitrary: vm)
  case Nil
  then show ?case by simp
next
  case (Cons dv dvs)
  from Cons.prems(1) obtain t where "vm_template_spec vm = Some t" by blast
  from vmware_disk_added [OF this, of dv] obtain vm1 t1 where step: "vmware_MapDisk vm dv = Inr vm1" "vm_template_spec vm1 = Some t1"
    "vm_disks vm1 = sort_disks (vm_disks vm @ [vmware_disk dv])" "vm_volumes vm1 = vm_volumes vm @ [volume_of dv]" by blast
  have "sort_disks (vm_disks vm1) = vm_disks vm1" using step(3) sort_once [of dk_name _ "[]"] by (simp add: sort_disks_def)
  with Cons.IH [of vm1] step show ?case by (simp add: sort_disks_def sort_once)
qed

lemma sorted_permutation:
  assumes "mset xs = mset ys" and "inj_on f (set xs)"
  shows "sort_key f xs = sort_key f ys"
proof (rule properties_for_sort_key [symmetric])
  show "mset (sort_key f xs) = mset ys" using assms(1) by simp
  fix k
  assume "k \<in> set (sort_key f xs)"
  then have k: "k \<in> set xs" by simp
  have eq: "filter (\<lambda>x. f k = f x) zs = replicate (count (mset zs) k) k" if "set zs = set xs" for zs
  proof -
    have "filter (\<lambda>x. f k = f x) zs = filter (\<lambda>x. k = x) zs"
      using assms(2) k that by (intro filter_cong) (auto simp: inj_on_def)
    then show ?thesis by (simp add: replicate_count_mset_eq_filter_eq)
  qed
  have "set ys = set xs" using assms(1) by (metis set_mset_mset)
  with eq [of "sort_key f xs"] eq [of ys] assms(1) show "filter (\<lambda>x. f k = f x) (sort_key f xs) = filter (\<lambda>x. f k = f x) ys" by simp
qed simp

text \<open>
  C15. Mapping the volumes of a VMware machine succeeds and gives it exactly their disks, sorted by name: whatever
  the order in which Go ranges over the map of volumes, the virtual machine gets the same disks.
\<close>

theorem vmware_disks_deterministic:
  assumes "vm_template_spec vm \<noteq> None" and "vm_disks vm = []"
    and "mset dvs = mset dvs'" and "inj_on disk_volume_name (set dvs)"
  shows "\<exists>vm1 vm2. map_disks vmware_MapDisk dvs vm = Inr vm1 \<and> map_disks vmware_MapDisk dvs' vm = Inr vm2 \<and>
    vm_disks vm1 = vm_disks vm2 \<and> mset (vm_disks vm1) = mset (map vmware_disk dvs) \<and>
    sorted (map dk_name (vm_disks vm1)) \<and> mset (vm_volumes vm1) = mset (vm_volumes vm2)"
proof -
  have empty: "sort_disks (vm_disks vm) = vm_disks vm" by (simp add: assms(2) sort_disks_def)
  from vmware_disks_sorted [OF assms(1) empty, of dvs] obtain vm1 where vm1: "map_disks vmware_MapDisk dvs vm = Inr vm1"
    "vm_disks vm1 = sort_disks (map vmware_disk dvs)" "vm_volumes vm1 = vm_volumes vm @ map volume_of dvs" by (auto simp: assms(2))
  from vmware_disks_sorted [OF assms(1) empty, of dvs'] obtain vm2 where vm2: "map_disks vmware_MapDisk dvs' vm = Inr vm2"
    "vm_disks vm2 = sort_disks (map vmware_disk dvs')" "vm_volumes vm2 = vm_volumes vm @ map volume_of dvs'" by (auto simp: assms(2))
  have "inj_on dk_name (set (map vmware_disk dvs))"
    using assms(4) by (auto simp: inj_on_def vmware_disk_def)
  then have "vm_disks vm1 = vm_disks vm2"
    unfolding vm1(2) vm2(2) sort_disks_def using assms(3) by (intro sorted_permutation) simp_all
  moreover have "mset (vm_volumes vm1) = mset (vm_volumes vm2)" using assms(3) by (simp add: vm1(3) vm2(3))
  moreover have "mset (vm_disks vm1) = mset (map vmware_disk dvs)" "sorted (map dk_name (vm_disks vm1))"
    by (simp_all add: vm1(2) sort_disks_def)
  ultimately show ?thesis using vm1(1) vm2(1) by blast
qed

theorem vmware_disks_deterministic_witness:
  "\<exists>vm1 vm2. map_disks vmware_MapDisk [demo_dv ''b'' DVPending, demo_dv ''a'' DVPending] demo_vm = Inr vm1 \<and>
     map_disks vmware_MapDisk [demo_dv ''a'' DVPending, demo_dv ''b'' DVPending] demo_vm = Inr vm2 \<and> vm_disks vm1 = vm_disks vm2"
proof -
  have "disk_volume_name (demo_dv ''a'' DVPending) = ''dv-a''" "disk_volume_name (demo_dv ''b'' DVPending) = ''dv-b''" by code_simp+
  then have "inj_on disk_volume_name (set [demo_dv ''b'' DVPending, demo_dv ''a'' DVPending])" by (simp add: inj_on_def)
  moreover have "vm_template_spec demo_vm \<noteq> None" "vm_disks demo_vm = []"
    by (simp_all add: vm_disks_def demo_vm_def template_of_def empty_template_def empty_domain_def empty_devices_def)
  ultimately show ?thesis
    using vmware_disks_deterministic [of demo_vm "[demo_dv ''b'' DVPending, demo_dv ''a'' DVPending]"
        "[demo_dv ''a'' DVPending, demo_dv ''b'' DVPending]"] by (auto simp: add_mset_commute)
qed

end
