(* ===== verification/WaitSpec.thy ===== *)
theory WaitSpec
  imports Waiting RestSpec DiskSpec
begin

text \<open>
  Whoever waits is woken: a run that leaves an import unfinished without asking for another run leaves an object that
  is not ready yet, and whose changes the controller turns into a request for this import.  And the case in which
  nothing wakes the import.
\<close>

section \<open>A volume that is not copied yet\<close>

definition unfinished :: "nsname \<Rightarrow> 'p world \<Rightarrow> bool" where
  "unfinished i w \<longleftrightarrow> (\<exists>d. w_dvs w i = Some d \<and> dv_phase d \<noteq> DVSucceeded)"

text \<open>The import waits for such a volume in its namespace, whose importer pod it watches.\<close>

definition pending :: "nsname \<Rightarrow> 'p world \<Rightarrow> bool" where
  "pending k w \<longleftrightarrow> (\<exists>n. unfinished (fst k, n) w \<and> (importerPodNameFromDv n, k) \<in> set (w_watches w))"

lemma pendingI: "unfinished (fst k, n) w \<Longrightarrow> (importerPodNameFromDv n, k) \<in> set (w_watches w) \<Longrightarrow> pending k w"
  unfolding pending_def by blast

lemma pending_waits:
  assumes "pending k w" and "waits k w w'"
  shows "ended k w' \<or> pending k w'"
proof (cases "ended k w'")
  case False
  from assms(1) obtain n d where d: "w_dvs w (fst k, n) = Some d" "dv_phase d \<noteq> DVSucceeded"
    and n: "(importerPodNameFromDv n, k) \<in> set (w_watches w)" by (auto simp: pending_def unfinished_def)
  from assms(2) False have "volume_step k (w_dvs w (fst k, n)) (w_dvs w' (fst k, n))" by (simp add: waits_def)
  with d obtain d' where "w_dvs w' (fst k, n) = Some d'" "dv_phase d' \<noteq> DVSucceeded" by (auto simp: volume_step_def)
  moreover have "(importerPodNameFromDv n, k) \<in> set (w_watches w')"
    using assms(2) n by (auto simp: waits_def keeps_jobs_def)
  ultimately show ?thesis by (auto simp: pending_def unfinished_def)
qed simp

lemma watches_waits: "x \<in> set (w_watches w) \<Longrightarrow> waits k w w' \<Longrightarrow> x \<in> set (w_watches w')"
  by (auto simp: waits_def keeps_jobs_def)

lemma ended_waits: "ended k w \<Longrightarrow> waits k w w' \<Longrightarrow> ended k w'"
  by (simp add: waits_def ends_def)

lemma unfinished_phases:
  assumes "unfinished i w" and "keeps_phases w w'"
  shows "unfinished i w'"
proof -
  have "map_option dv_phase (w_dvs w' i) = map_option dv_phase (w_dvs w i)"
    using assms(2) unfolding keeps_phases_def by (cases i) blast
  with assms(1) show ?thesis unfolding unfinished_def by (cases "w_dvs w' i") auto
qed

lemma phases_volume_ops:
  "frames keeps_phases (updateDVs k n)" "frames keeps_phases (updateVMSpecDataVolumes mapper k dv)"
  "frames keeps_phases (AddOwnerReference vm dv)"
  unfolding updateDVs_def update_import_status_def updateVMSpecDataVolumes_def AddOwnerReference_def
  by (intro keeps_phases.frames_combinators phases_client)+

text \<open>\<open>leaves Q m\<close>: when \<open>m\<close> returns without an error, the world satisfies \<open>Q\<close>.\<close>

definition leaves :: "('w \<Rightarrow> bool) \<Rightarrow> ('w, 'a) go \<Rightarrow> bool" where
  "leaves Q m \<longleftrightarrow> (\<forall>w x w'. m w = (Inr x, w') \<longrightarrow> Q w')"

lemma leavesD: "leaves Q m \<Longrightarrow> m w = (Inr x, w') \<Longrightarrow> Q w'"
  unfolding leaves_def by blast

lemma leaves_gbind: "(\<And>x w w'. m w = (Inr x, w') \<Longrightarrow> leaves Q (g x)) \<Longrightarrow> leaves Q (gbind m g)"
  unfolding leaves_def gbind_returns by blast

lemma leaves_gfail: "leaves Q (gfail e)"
  by (simp add: leaves_def)

lemma leaves_frames:
  assumes "leaves Q m" and "\<And>x. frames R (g x)" and "\<And>w w'. Q w \<Longrightarrow> R w w' \<Longrightarrow> Q w'"
  shows "leaves Q (gbind m g)"
  unfolding leaves_def gbind_returns
proof (intro allI impI, elim exE conjE)
  fix w y w'' x w'
  assume "m w = (Inr x, w')" and "g x w' = (Inr y, w'')"
  with assms show "Q w''" by (blast dest: leavesD framesD2)
qed

lemma create_dv_unfinished:
  assumes "om_generate_name (dv_meta dv) = []" and "dv_phase dv \<noteq> DVSucceeded"
  shows "leaves (unfinished (om_key (dv_meta dv))) (create_dv dv)"
  unfolding leaves_def
proof (intro allI impI)
  fix w x and w' :: "'p world"
  assume "create_dv dv w = (Inr x, w')"
  then show "unfinished (om_key (dv_meta dv)) w'"
    by (cases rule: create_dv_cases) (use assms in \<open>auto simp: admitted_def om_key_def unfinished_def\<close>)
qed

lemma createDataVolume_unfinished:
  assumes k: "vi_key v = k" and ns: "fst k \<noteq> []" and gen: "om_generate_name (dv_meta dv) = []" and phase: "dv_phase dv \<noteq> DVSucceeded"
  shows "leaves (unfinished (fst k, om_name (dv_meta dv))) (createDataVolume mapper v dv vmName)"
proof -
  let ?Q = "unfinished (fst k, om_name (dv_meta dv))"
  have "leaves ?Q (gtry (create_dv (dv\<lparr>dv_meta := setTrackerLabel m v\<rparr>))
         (\<lambda>e. gfail (errorf (''Data volume '' @ om_namespace (dv_meta dv) @ ''/'' @ om_name (dv_meta dv) @
                 '' creation failed: '' @ emsg e))) gret)"
    if m: "SetControllerReference v (dv_meta dv) = Inr m" for m
  proof -
    have "om_key (setTrackerLabel m v) = (fst k, om_name (dv_meta dv))" "om_generate_name (setTrackerLabel m v) = []"
      using controlled_woken [OF m] controlled_generate [OF m] gen k ns by (auto simp: vi_key_def om_key_def tracked_meta)
    then have "leaves ?Q (create_dv (dv\<lparr>dv_meta := setTrackerLabel m v\<rparr>))"
      using phase create_dv_unfinished [of "dv\<lparr>dv_meta := setTrackerLabel m v\<rparr>"] by simp
    then show ?thesis unfolding leaves_def gtry_returns by auto
  qed
  then have "leaves ?Q (gbind (gtry (create_dv (dv\<lparr>dv_meta := setTrackerLabel m v\<rparr>))
         (\<lambda>e. gfail (errorf (''Data volume '' @ om_namespace (dv_meta dv) @ ''/'' @ om_name (dv_meta dv) @
                 '' creation failed: '' @ emsg e))) gret) (\<lambda>dv.
     gbind (AddOwnerReference vmDef dv) (\<lambda>_.
     gbind (record_event v EventNormal ''ImportInProgress''
         (''Import of Virtual Machine '' @ fst vmName @ ''/'' @ snd vmName @ '' disk '' @ om_name (dv_meta dv) @ '' in progress'')) (\<lambda>_.
     gbind (updateDVs (vi_key v) (om_name (dv_meta dv))) (\<lambda>_.
       updateVMSpecDataVolumes mapper vmName dv)))))"
    if m: "SetControllerReference v (dv_meta dv) = Inr m" for m vmDef
    by (rule leaves_frames [where R = keeps_phases], use m in simp)
      (intro keeps_phases.frames_combinators phases_volume_ops phases_client, blast intro: unfinished_phases)
  then show ?thesis
    unfolding createDataVolume_def
    by (intro leaves_gbind [where m = "new_condition t r m st" for t r m st]
        leaves_gbind [where m = "upsertStatusConditions k' cs" for k' cs] leaves_gbind [where m = "updateProgress v p" for v p]
        leaves_gbind [where m = "get_vm n" for n] leaves_gbind [where m = "glift x" for x]) simp
qed

section \<open>What the controller relies on to be woken\<close>

text \<open>
  The volumes of a mapper have names of their own and are not copied yet; the guest conversion job that a provider finds
  or launches is on the server, and a new one is controlled by the import; closing the provider leaves the cluster alone.
\<close>

definition fresh_volumes :: "(string, datavolume) gomap \<Rightarrow> bool" where
  "fresh_volumes dvs \<longleftrightarrow> distinct (map fst dvs) \<and>
     (\<forall>(i, dv) \<in> set dvs. om_name (dv_meta dv) = i \<and> om_generate_name (dv_meta dv) = [] \<and> dv_phase dv \<noteq> DVSucceeded)"

definition stored_job :: "job \<Rightarrow> 'p world \<Rightarrow> bool" where
  "stored_job j w \<longleftrightarrow> j \<in> snd ` set (w_jobs w)"

locale waking_contract = waiting_contract +
  fixes fair :: bool
  assumes volumes: "fair \<Longrightarrow> pv_CreateMapper P w = (Inr mapper, w') \<Longrightarrow> mp_MapDataVolumes mapper n = Inr dvs \<Longrightarrow> fresh_volumes dvs"
    and found_job: "pv_GetGuestConversionJob P w = (Inr (Some j), w') \<Longrightarrow> stored_job j w'"
    and launched_job: "pv_LaunchGuestConversionJob P vm w = (Inr (Some j), w') \<Longrightarrow> stored_job j w' \<and>
          (stored_job j w \<or> vi_key (so_meta (w_provider w)) \<in> set (woken_by (jb_meta j)))"
    and Close_rests: "frames rests (pv_Close P)"

section \<open>A run over the disks\<close>

lemma leaves_mono: "leaves Q m \<Longrightarrow> (\<And>w. Q w \<Longrightarrow> Q' w) \<Longrightarrow> leaves Q' m"
  unfolding leaves_def by blast

lemma leaves_upsert:
  "leaves (ended k) (gbind (new_condition Succeeded reason message st) (\<lambda>c. upsertStatusConditions k (c # cs)))"
proof (rule leaves_gbind)
  fix c and w w' :: "'p world"
  assume "new_condition Succeeded reason message st w = (Inr c, w')"
  then have "c_type c = Succeeded" by (auto simp: new_condition_def gbind_returns NewCondition_def)
  then show "leaves (ended k) (upsertStatusConditions k (c # cs))"
    unfolding leaves_def using upsert_ends by fastforce
qed

lemma leaves_ended:
  assumes "\<And>x. frames (ends k) (g x)"
  shows "leaves (ended k) (gbind (new_condition Succeeded reason message st) (\<lambda>c. gbind (upsertStatusConditions k (c # cs)) g))"
  unfolding gbind_assoc [symmetric]
  by (rule leaves_frames [where R = "ends k", OF leaves_upsert assms]) (simp add: ends_def)

context waiting_contract
begin

lemma ends_ended:
  "leaves (ended (vi_key v)) (endImportAsFailed P v dv message)"
  "leaves (ended (vi_key v)) (endGuestConversionAsFailed P v message)"
proof -
  have "leaves (ended (vi_key v)) (end_as_failed P reason ev v msg message)" for reason ev msg
    unfolding end_as_failed_def
    by (intro leaves_gbind [where m = "new_condition Processing r m st" for r m st]
        leaves_gbind [where m = "upsertStatusConditions k [x]" for k x] leaves_ended
        ends.frames_combinators ends.client_frames ending.frames_afterFailure)
  then show "leaves (ended (vi_key v)) (endImportAsFailed P v dv message)"
    "leaves (ended (vi_key v)) (endGuestConversionAsFailed P v message)"
    by (simp_all add: endImportAsFailed_def endGuestConversionAsFailed_def)
qed

text \<open>An iteration ends the import, finds or makes a volume to wait for, or notes the disk as done.\<close>

lemma import_disk_waits:
  assumes r: "import_disk E P mapper vmName (i, dv) s w = (Inr r, w')"
    and k: "vi_key (dl_import s) = k" and ns: "fst k \<noteq> []"
    and dv: "om_name (dv_meta dv) = i" "om_generate_name (dv_meta dv) = []" "dv_phase dv \<noteq> DVSucceeded"
  shows "ended k w' \<or> pending k w' \<or> (\<exists>s'. r = Continue s' \<and> dl_done s' = gm_set i True (dl_done s))"
proof -
  let ?v = "dl_import s"
  from r obtain w1 where w1: "watch_pod (importerPodNameFromDv i) (vi_key ?v) w = (Inr (), w1)"
    unfolding import_disk_def by (auto simp: gbind_returns Let_def)
  have watched: "(importerPodNameFromDv i, k) \<in> set (w_watches w1)"
    using w1 k by (auto simp: watch_pod_def elim!: api_cases)
  obtain g w2 where g: "get_dv (vi_namespace ?v, i) w1 = (g, w2)" by fastforce
  have w2: "waits k w1 w2" using waits_client(3) g by (rule framesD2)
  show ?thesis
  proof (cases g)
    case (Inr d)
    have d: "w_dvs w2 (fst k, i) = Some d"
      using g Inr get_from_result [of w_dvs w1 _ "(vi_namespace ?v, i)" d w2] get_from_world g k
      unfolding get_dv_def by (fastforce simp: vi_key_def)
    obtain s1 where h: "handle_phase E P i d s w2 = (Inr s1, w')" and r': "\<exists>s'. r = Continue s' \<and> dl_done s' = dl_done s1"
      using r w1 g Inr by (auto simp: import_disk_def gbind_returns gtry_returns Let_def)
    show ?thesis
    proof (cases "dv_phase d = DVSucceeded")
      case True
      with h r' show ?thesis by (auto simp: handle_phase_def Let_def)
    next
      case False
      have "pending k w2"
        using False d w2 watched by (auto simp: pending_def unfinished_def waits_def keeps_jobs_def)
      with framesD2 [OF waits_handle_phase(1) [OF k] h] show ?thesis by (blast dest: pending_waits)
    qed
  next
    case (Inl e)
    with r w1 g obtain valid w3 where v3: "pv_ValidateDiskStatus P i w2 = (Inr valid, w3)"
      and c: "(if valid
            then gtry (createDataVolume mapper ?v dv vmName)
                (\<lambda>e. gbind (endImportAsFailed P ?v empty_datavolume (emsg e)) (\<lambda>v'. gret (ReturnFalse v')))
                (\<lambda>_. gret (Continue s))
            else gbind (endImportAsFailed P ?v empty_datavolume ''disk is in illegal status'')
                (\<lambda>v'. gret (Continue (s\<lparr>dl_import := v'\<rparr>)))) w3 = (Inr r, w')"
      unfolding import_disk_def prod.case Let_def gbind_returns [of "watch_pod n q" for n q]
      by (auto simp: gtry_returns gbind_returns [of "pv_ValidateDiskStatus P n" for n] dv(1) simp del: gret_apply split: if_splits)
    have w3: "waits k w2 w3" using waits_quiet [OF ValidateDiskStatus jobs_ValidateDiskStatus] v3 by (rule framesD2)
    note failed = leavesD [OF ends_ended(1) [of ?v, unfolded k]]
    from c consider u where "createDataVolume mapper ?v dv vmName w3 = (Inr u, w')" | "ended k w'"
      by (cases valid) (auto simp: gtry_returns gbind_returns dest: failed)
    then show ?thesis
    proof cases
      case 1
      have "unfinished (fst k, i) w'"
        using leavesD [OF createDataVolume_unfinished [OF k ns dv(2,3)] 1] by (simp add: dv(1))
      moreover have "waits k w3 w'" using waits_createDataVolume [OF k ns] 1 by (rule framesD2)
      moreover from this have "(importerPodNameFromDv i, k) \<in> set (w_watches w')"
        using watched w2 w3 by (blast dest: watches_waits)
      ultimately show ?thesis by (blast intro: pendingI)
    qed simp
  qed
qed

lemma CountImported_new:
  "i \<notin> fst ` set m \<Longrightarrow> CountImportedDataVolumes (gm_set i True m) = Suc (CountImportedDataVolumes m)"
  by (simp add: CountImportedDataVolumes_def update_new)

lemma import_disk_loop_waits:
  assumes "import_disk_loop (import_disk E P mapper vmName) xs s w = (Inr r, w')"
    and "vi_key (dl_import s) = k" and "fst k \<noteq> []" and "fresh_volumes xs" and "fst ` set xs \<inter> fst ` set (dl_done s) = {}"
  shows "ended k w' \<or> pending k w' \<or>
    (\<exists>s'. r = Continue s' \<and> CountImportedDataVolumes (dl_done s') = CountImportedDataVolumes (dl_done s) + length xs)"
  using assms
proof (induction xs arbitrary: s w)
  case (Cons x xs)
  obtain i dv where x: "x = (i, dv)" by fastforce
  note k = Cons.prems(2) and ns = Cons.prems(3)
  from Cons.prems(1) obtain r1 w1 where r1: "import_disk E P mapper vmName (i, dv) s w = (Inr r1, w1)"
    and rest: "(case r1 of ReturnFalse v \<Rightarrow> gret (ReturnFalse v)
      | Continue s' \<Rightarrow> import_disk_loop (import_disk E P mapper vmName) xs s') w1 = (Inr r, w')"
    by (auto simp: gbind_returns x)
  have dv: "om_name (dv_meta dv) = i" "om_generate_name (dv_meta dv) = []" "dv_phase dv \<noteq> DVSucceeded"
    and xs: "fresh_volumes xs" "i \<notin> fst ` set xs"
    using Cons.prems(4) by (auto simp: fresh_volumes_def x)
  have key: "step_key k r1" using returnsD [OF waits_import_disk(2) [OF k ns] r1] .
  have w': "waits k w1 w'"
  proof (cases r1)
    case (Continue s1)
    with key have "vi_key (dl_import s1) = k" by (simp add: step_key_def)
    from framesD2 [OF waits_import_disk_loop [OF this ns]] rest Continue show ?thesis by simp
  next
    case (ReturnFalse v)
    with rest show ?thesis by (simp add: waits_refl)
  qed
  from import_disk_waits [OF r1 k ns dv]
  consider "ended k w1" | "pending k w1" | s1 where "r1 = Continue s1" "dl_done s1 = gm_set i True (dl_done s)" by blast
  then show ?case
  proof cases
    case 1
    with w' show ?thesis by (blast dest: ended_waits)
  next
    case 2
    with w' show ?thesis by (blast dest: pending_waits)
  next
    case 3
    have new: "i \<notin> fst ` set (dl_done s)" using Cons.prems(5) by (auto simp: x)
    have "fst ` set xs \<inter> fst ` set (dl_done s1) = {}"
      using Cons.prems(5) xs(2) 3(2) new by (auto simp: x update_new)
    with Cons.IH [of s1 w1] rest key 3 xs(1) ns CountImported_new [OF new] show ?thesis
      by (auto simp: step_key_def)
  qed
next
  case Nil
  then have "r = Continue s" by simp
  then show ?case by simp
qed

lemma importDisks_waits:
  assumes "importDisks E P v mapper vmName w = (Inr (False, v'), w')"
    and "mp_MapDataVolumes mapper (snd vmName) = Inr dvs" and "fresh_volumes dvs" and k: "vi_key v = k" and ns: "fst k \<noteq> []"
  shows "ended k w' \<or> pending k w'"
proof -
  let ?s = "\<lparr>dl_import = v, dl_done = [], dl_progress = []\<rparr>"
  from assms(1,2) obtain r w1 where l: "import_disk_loop (import_disk E P mapper vmName) dvs ?s w = (Inr r, w1)"
    and c: "(case r of ReturnFalse v' \<Rightarrow> gret (False, v')
       | Continue s \<Rightarrow>
           gbind (updateProgress (dl_import s) (disksImportProgress E (dl_progress s) (length dvs))) (\<lambda>_.
             gret (isDoneImport (dl_done s) (length dvs), dl_import s))) w1 = (Inr (False, v'), w')"
    by (auto simp: importDisks_def gbind_returns)
  have w': "waits k w1 w'"
    using c framesD2 [OF waits_client(13) [of k]] by (cases r) (auto simp: gbind_returns waits_refl)
  have "ended k w1 \<or> pending k w1"
    using import_disk_loop_waits [OF l, of k] c k ns assms(3)
    by (cases r) (auto simp: gbind_returns isDoneImport_def CountImportedDataVolumes_def)
  with w' show ?thesis by (blast dest: ended_waits pending_waits)
qed

end

section \<open>The providers of the program\<close>

text \<open>The volumes of both mappers; the order of the iteration over the map of volumes has to keep its entries.\<close>

lemma fresh_ranged:
  assumes "ranged rd r = Inr dvs" and "fair_orders rd" and "\<And>dvs'. r = Inr dvs' \<Longrightarrow> fresh_volumes dvs'"
  shows "fresh_volumes dvs"
proof -
  from assms(1) obtain dvs' where r: "r = Inr dvs'" and dvs: "dvs = rd_volumes rd dvs'" by (auto simp: ranged_def rbind_Inr)
  have same: "set dvs = set dvs'" "length dvs = length dvs'"
    using assms(2) by (simp_all add: dvs fair_orders_def)
  have fresh: "fresh_volumes dvs'" using r assms(3) by simp
  have "distinct (map fst dvs)"
  proof (rule card_distinct)
    have "card (set (map fst dvs')) = length dvs'" using fresh distinct_card [of "map fst dvs'"] by (simp add: fresh_volumes_def)
    then show "card (set (map fst dvs)) = length (map fst dvs)" using same by simp
  qed
  with fresh same(1) show ?thesis by (simp add: fresh_volumes_def)
qed

lemma fresh_MapDataVolumes: "MapDataVolumes o' n = Inr dvs \<Longrightarrow> fresh_volumes dvs"
proof -
  assume m: "MapDataVolumes o' n = Inr dvs"
  have "distinct (map fst dvs)"
    using m map_data_volumes_keys [of o' n _ "[]" dvs] by (auto simp: MapDataVolumes_def rbind_Inr)
  moreover have "om_name (dv_meta dv) = i \<and> om_generate_name (dv_meta dv) = [] \<and> dv_phase dv \<noteq> DVSucceeded"
    if "(i, dv) \<in> set dvs" for i dv
    using m that
    by (elim MapDataVolumes_member) (auto simp: map_data_volume_def rbind_Inr empty_datavolume_def empty_meta_def)
  ultimately show ?thesis by (auto simp: fresh_volumes_def)
qed

lemma fresh_vmware_volumes: "vmware_MapDataVolumes r n = Inr dvs \<Longrightarrow> fresh_volumes dvs"
proof -
  let ?put = "\<lambda>config ms (d :: mapper_disk) dvs. let dvName = buildDataVolumeName n (md_name d)
     in gm_set dvName (vmware_data_volume r config ms dvName d) dvs"
  have "fresh_volumes dvs \<Longrightarrow> fresh_volumes (fold (?put config ms) disks dvs)" for config ms disks dvs
  proof (induction disks arbitrary: dvs)
    case (Cons d disks)
    have "fresh_volumes (?put config ms d dvs)"
      using Cons.prems
      by (auto simp: fresh_volumes_def Let_def distinct_update vmware_data_volume_def empty_datavolume_def empty_meta_def
          dest!: gm_set_member)
    from Cons.IH [OF this] show ?case by simp
  qed simp
  moreover have none: "fresh_volumes []" by (simp add: fresh_volumes_def)
  ultimately have "fresh_volumes (fold (?put config ms) disks [])" for config ms disks by blast
  then show "vmware_MapDataVolumes r n = Inr dvs \<Longrightarrow> fresh_volumes dvs"
    using none by (auto simp: vmware_MapDataVolumes_def rbind_Inr split: if_splits)
qed

text \<open>The job of a guest conversion.\<close>

lemma FindFor_lists: "FindFor S k w = (Inr (Some y), w') \<Longrightarrow> list_labelled S k w = (Inr [y], w')"
proof -
  assume "FindFor S k w = (Inr (Some y), w')"
  then obtain xs w1 where l: "list_labelled S k w = (Inr xs, w1)"
    and c: "(case xs of [] \<Rightarrow> gret None | [x] \<Rightarrow> gret (Some x)
      | _ \<Rightarrow> gfail (errorf (''too many '' @ ob_kind S @ '' matching given labels: '' @ vmiNameLabel))) w1 = (Inr (Some y), w')"
    unfolding FindFor_def gbind_returns by blast
  from c have "xs = [y] \<and> w1 = w'" by (cases xs rule: remdups_adj.cases) auto
  with l show ?thesis by simp
qed

lemma found_stored:
  assumes "FindFor job_store k w = (Inr (Some j), w')"
  shows "stored_job j w'" and "w_jobs w' = w_jobs w"
proof -
  from FindFor_lists [OF assms] have "filter (labelled_for k \<circ> jb_meta) (map snd (w_jobs w)) = [j]"
    by (auto simp: list_labelled_def job_store_def elim!: api_cases)
  then have "j \<in> set (filter (labelled_for k \<circ> jb_meta) (map snd (w_jobs w)))" by simp
  then have "j \<in> snd ` set (w_jobs w)" by simp
  moreover show "w_jobs w' = w_jobs w" using jobs.FindFor_frame [OF assms] by simp
  ultimately show "stored_job j w'" by (simp add: stored_job_def)
qed

lemma created_job:
  assumes "createGuestConversionJob pl vm cm w = (Inr j, w')"
  shows "stored_job j w' \<and> vi_key (so_meta (w_provider w)) \<in> set (woken_by (jb_meta j))"
proof -
  let ?v = "so_meta (w_provider w)"
  from assms obtain j1 where j1: "CreateFor job_store j1 (vi_key ?v) w = (Inr j, w')"
    and owners: "om_owners (jb_meta j1) = [NewVMImportControllerReference ?v]"
    by (auto simp: createGuestConversionJob_def CreateForJob_def gbind_returns get_source_def)
  note r = jobs.CreateFor_result [OF j1]
  have "(om_key (jb_meta j), j) \<in> set (w_jobs w')" using r gm_set_new by (simp add: job_store_def)
  moreover have "woken_by (jb_meta j) = woken_by ((label_meta (vi_key ?v) (jb_meta j1))\<lparr>om_owners := [NewVMImportControllerReference ?v]\<rparr>)"
    using r by (intro woken_by_cong) (simp_all add: job_store_def admitted_def label_meta_def owners)
  then have "woken_by (jb_meta j) = [vi_key ?v]" by (simp add: job_reference_woken label_meta_def vi_key_def)
  ultimately show ?thesis by (force simp: stored_job_def)
qed

lemma launch_stores:
  assumes "LaunchGuestConversionJob pl vm w = (Inr (Some j), w')"
  shows "stored_job j w' \<and> (stored_job j w \<or> vi_key (so_meta (w_provider w)) \<in> set (woken_by (jb_meta j)))"
proof -
  from assms obtain cm w1 where c: "ensure_present config_map_store (create_domain_config_map pl vm) w = (Inr cm, w1)"
    and j: "ensure_present job_store (createGuestConversionJob pl vm cm) w1 = (Inr j, w')"
    by (auto simp: LaunchGuestConversionJob_def gbind_returns)
  have "frames keeps_jobs (create_domain_config_map pl vm)"
    unfolding create_domain_config_map_def by (intro keeps_jobs.frames_combinators jobs_source jobs_stores)
  from framesD2 [OF other_config_maps.jobs_ensure_present [OF this] c]
  have w1: "so_meta (w_provider w1) = so_meta (w_provider w)" "set (w_jobs w1) \<subseteq> set (w_jobs w)" by (simp_all add: keeps_jobs_def)
  from j obtain found w2 where f: "FindFor job_store (vi_key (so_meta (w_provider w1))) w1 = (Inr found, w2)"
    and r: "(case found of Some x \<Rightarrow> gret x | None \<Rightarrow> createGuestConversionJob pl vm cm) w2 = (Inr j, w')"
    by (auto simp: ensure_present_def GetVmiNamespacedName_def get_source_def gbind_returns)
  show ?thesis
  proof (cases found)
    case (Some x)
    with r f have "FindFor job_store (vi_key (so_meta (w_provider w1))) w1 = (Inr (Some j), w')" by simp
    from found_stored [OF this] have "stored_job j w'" "w_jobs w' = w_jobs w1" .
    then show ?thesis using w1(2) by (auto simp: stored_job_def)
  next
    case None
    then show ?thesis using created_job [of pl vm cm w2 j w'] r w1(1) jobs.FindFor_frame [OF f] by simp
  qed
qed

interpretation ovirt_wakes: waking_contract "ovirt_provider pl rd sh C" "fair_orders rd" for pl rd sh C
proof unfold_locales
  fix w mapper w' n dvs
  assume fair: "fair_orders rd" and "pv_CreateMapper (ovirt_provider pl rd sh C) w = (Inr mapper, w')"
    and m: "mp_MapDataVolumes mapper n = Inr dvs"
  then obtain o' where "mapper = ovirt_mapper_ops pl rd o'"
    by (auto simp: ovirt_provider_def ovirt_CreateMapper_def gbind_returns)
  with m have "ranged rd (MapDataVolumes o' n) = Inr dvs" by (simp add: ovirt_mapper_ops_def)
  then show "fresh_volumes dvs" using fair fresh_MapDataVolumes by (rule fresh_ranged)
next
  show "frames rests (pv_Close (ovirt_provider pl rd sh C))"
    by (auto simp: ovirt_provider_def ovirt_Close_def
        intro!: rests.frames_gbind rests.frames_gresult rests_source rests.frames_gret split: option.split)
qed (simp_all add: ovirt_provider_def)

interpretation vmware_wakes: waking_contract "vmware_provider pl rd sh C" "fair_orders rd" for pl rd sh C
proof unfold_locales
  fix w mapper w' n dvs
  assume fair: "fair_orders rd" and "pv_CreateMapper (vmware_provider pl rd sh C) w = (Inr mapper, w')"
    and m: "mp_MapDataVolumes mapper n = Inr dvs"
  then obtain r where "mapper = vmware_mapper_ops pl rd r"
    by (auto simp: vmware_provider_def vmware_CreateMapper_def gbind_returns)
  with m have "ranged rd (vmware_MapDataVolumes r n) = Inr dvs" by (simp add: vmware_mapper_ops_def)
  then show "fresh_volumes dvs" using fair fresh_vmware_volumes by (rule fresh_ranged)
next
  fix w j w'
  assume "pv_GetGuestConversionJob (vmware_provider pl rd sh C) w = (Inr (Some j), w')"
  then have "FindFor job_store (vi_key (so_meta (w_provider w))) w = (Inr (Some j), w')"
    by (simp add: vmware_provider_def GetGuestConversionJob_def gbind_returns GetVmiNamespacedName_def get_source_def)
  then show "stored_job j w'" by (rule found_stored)
next
  fix vm w j w'
  assume "pv_LaunchGuestConversionJob (vmware_provider pl rd sh C) vm w = (Inr (Some j), w')"
  then have "LaunchGuestConversionJob pl vm w = (Inr (Some j), w')" by (simp add: vmware_provider_def)
  then show "stored_job j w' \<and> (stored_job j w \<or> vi_key (so_meta (w_provider w)) \<in> set (woken_by (jb_meta j)))"
    by (rule launch_stores)
next
  show "frames rests (pv_Close (vmware_provider pl rd sh C))"
    by (auto simp: vmware_provider_def vmware_Close_def
        intro!: rests.frames_gbind rests.frames_gresult rests_source rests.frames_gret split: option.split)
qed

end
