(* ===== verification/WakeSpec.thy ===== *)
theory WakeSpec
  imports WaitSpec
begin

text \<open>
  The whole run: an import that it leaves unfinished, without asking for another run, waits for a data volume or a job
  that is on the server and that wakes it up.
\<close>

section \<open>What an import waits for\<close>

definition unfinished_job :: "job \<Rightarrow> bool" where
  "unfinished_job j \<longleftrightarrow> jb_active j > 0 \<or> \<not> jb_failed j > 0 \<and> \<not> jb_succeeded j > 0"

text \<open>A volume or job wakes the import up, unless it was there before without being controlled by it.\<close>

definition awaits_volume :: "nsname \<Rightarrow> 'p world \<Rightarrow> 'p world \<Rightarrow> bool" where
  "awaits_volume k w w' \<longleftrightarrow> (\<exists>n d. w_dvs w' (fst k, n) = Some d \<and> dv_phase d \<noteq> DVSucceeded \<and>
     (importerPodNameFromDv n, k) \<in> set (w_watches w') \<and>
     (k \<in> set (woken_by (dv_meta d)) \<or> (\<exists>d0. w_dvs w (fst k, n) = Some d0 \<and> k \<notin> set (woken_by (dv_meta d0)))))"

definition awaits_job :: "nsname \<Rightarrow> 'p world \<Rightarrow> 'p world \<Rightarrow> bool" where
  "awaits_job k w w' \<longleftrightarrow> (\<exists>j. stored_job j w' \<and> unfinished_job j \<and> (k \<in> set (woken_by (jb_meta j)) \<or> stored_job j w))"

definition awaits :: "nsname \<Rightarrow> 'e source world \<Rightarrow> 'e source world \<Rightarrow> bool" where
  "awaits k w w' \<longleftrightarrow> ends k w w' \<and> (ended k w' \<or> awaits_volume k w w' \<or> awaits_job k w w')"

lemma awaits_ended: "ended k w' \<Longrightarrow> awaits k w w'"
  by (simp add: awaits_def ends_def)

lemma awaits_pending:
  assumes "waits k w w'" and "ended k w' \<or> pending k w'"
  shows "awaits k w w'"
proof (cases "ended k w'")
  case False
  with assms(2) obtain n d where d: "w_dvs w' (fst k, n) = Some d" "dv_phase d \<noteq> DVSucceeded"
    and n: "(importerPodNameFromDv n, k) \<in> set (w_watches w')" by (auto simp: pending_def unfinished_def)
  from assms(1) False have "volume_step k (w_dvs w (fst k, n)) (w_dvs w' (fst k, n))" by (simp add: waits_def)
  with d have "k \<in> set (woken_by (dv_meta d)) \<or> (\<exists>d0. w_dvs w (fst k, n) = Some d0 \<and> k \<notin> set (woken_by (dv_meta d0)))"
    by (auto simp: volume_step_def split: option.splits)
  with d n have "awaits_volume k w w'" unfolding awaits_volume_def by blast
  with assms(1) show ?thesis by (simp add: awaits_def waits_def)
qed (rule awaits_ended)

lemma awaits_waits:
  assumes "waits k w0 w" and "awaits k w w'"
  shows "awaits k w0 w'"
proof (cases "ended k w'")
  case False
  then have going: "\<not> ended k w" using assms(2) by (auto simp: awaits_def ends_def)
  then have same: "volume_step k (w_dvs w0 i) (w_dvs w i)" for i
    using assms(1) unfolding waits_def by blast
  have volume: "awaits_volume k w0 w'" if new: "awaits_volume k w w'"
  proof -
    from new obtain n d where d: "w_dvs w' (fst k, n) = Some d" "dv_phase d \<noteq> DVSucceeded"
      "(importerPodNameFromDv n, k) \<in> set (w_watches w')"
      and o: "k \<in> set (woken_by (dv_meta d)) \<or> (\<exists>d0. w_dvs w (fst k, n) = Some d0 \<and> k \<notin> set (woken_by (dv_meta d0)))"
      unfolding awaits_volume_def by blast
    from o same [of "(fst k, n)"]
    have "k \<in> set (woken_by (dv_meta d)) \<or> (\<exists>d0. w_dvs w0 (fst k, n) = Some d0 \<and> k \<notin> set (woken_by (dv_meta d0)))"
      by (auto simp: volume_step_def split: option.splits)
    with d show ?thesis unfolding awaits_volume_def by blast
  qed
  have "stored_job j w \<Longrightarrow> stored_job j w0" for j
    using assms(1) by (auto simp: waits_def keeps_jobs_def stored_job_def)
  then have "awaits_job k w w' \<Longrightarrow> awaits_job k w0 w'" unfolding awaits_job_def by blast
  with volume assms False show ?thesis by (auto simp: awaits_def waits_def ends_def)
qed (rule awaits_ended)

lemma awaits_rests:
  assumes "awaits k w w1" and "rests w1 w'"
  shows "awaits k w w'"
proof -
  from assms(2) have "w_imports w' = w_imports w1" "w_dvs w' = w_dvs w1" "w_jobs w' = w_jobs w1" "w_watches w' = w_watches w1"
    unfolding rests_def by (cases w'; simp)+
  with assms(1) show ?thesis
    by (simp add: awaits_def ends_def ended_def awaits_volume_def awaits_job_def stored_job_def)
qed

lemma awaits_before:
  assumes "awaits k w w'" and "w_imports w = w_imports w0" and "w_dvs w = w_dvs w0" and "w_jobs w = w_jobs w0"
  shows "awaits k w0 w'"
  using assms by (simp add: awaits_def ends_def ended_def awaits_volume_def awaits_job_def stored_job_def)

section \<open>The guest conversion and the end\<close>

definition same_jobs :: "'p world \<Rightarrow> 'p world \<Rightarrow> bool" where
  "same_jobs w w' \<longleftrightarrow> w_jobs w' = w_jobs w"

interpretation same_jobs: frame_rel same_jobs
  by unfold_locales (simp_all add: same_jobs_def)

lemma same_jobs_ops:
  "frames same_jobs (new_condition t r m st)" "frames same_jobs (upsertStatusConditions k cs)" "frames same_jobs (updateProgress v p)"
proof -
  have calls: "frames same_jobs now" "frames same_jobs (get_import k)" "frames same_jobs (patch_import k h)" for k h
    by (auto simp: now_def get_import_def get_from_def patch_import_def put_import_def same_jobs_def frames_def api_def Let_def gread_def
        split: fault.split option.split)
  show "frames same_jobs (new_condition t r m st)" "frames same_jobs (upsertStatusConditions k cs)" "frames same_jobs (updateProgress v p)"
    unfolding new_condition_def upsertStatusConditions_def update_import_status_def updateProgress_def set_annotation_def Let_def
    by (intro same_jobs.frames_combinators calls)+
qed

context waking_contract
begin

lemma waits_importDisks:
  assumes "vi_key v = k" and "fst k \<noteq> []"
  shows "frames (waits k) (importDisks E P v mapper vmName)"
  unfolding importDisks_def
proof (intro waits.frames_gbind waits.frames_glift)
  fix dvs r
  show "frames (waits k) (import_disk_loop (import_disk E P mapper vmName) dvs \<lparr>dl_import = v, dl_done = [], dl_progress = []\<rparr>)"
    using assms by (intro waits_import_disk_loop) simp_all
  show "frames (waits k) (case r of ReturnFalse v' \<Rightarrow> gret (False, v')
       | Continue s \<Rightarrow>
           gbind (updateProgress (dl_import s) (disksImportProgress E (dl_progress s) (length dvs))) (\<lambda>_.
             gret (isDoneImport (dl_done s) (length dvs), dl_import s)))"
    by (cases r; simp del: gret_apply) (intro waits.frames_gbind waits_client waits.frames_gret)+
qed

text \<open>A conversion that goes on has a job on the server.\<close>

lemma convertGuest_awaits:
  assumes "convertGuest P v vmName w = (Inr (False, v'), w')" and key: "vi_key (so_meta (w_provider w)) = k" and k: "vi_key v = k"
  shows "awaits k w w'"
proof -
  let ?note = "\<lambda>job. gbind (new_condition Processing (processing_reason ConvertingGuest)
               (''Running virt-v2v job '' @ om_name (jb_meta job)) ConditionTrue) (\<lambda>c.
           gbind (upsertStatusConditions (vi_key v) [c]) (\<lambda>_.
           gbind (updateProgress v progressConvertingGuest) (\<lambda>_. gret job)))"
  from assms(1) obtain vm w1 found w2 j w3 where vm: "get_vm vmName w = (Inr vm, w1)"
    and found: "pv_GetGuestConversionJob P w1 = (Inr found, w2)"
    and job: "(case found of Some job \<Rightarrow> gret job
       | None \<Rightarrow>
           gbind (pv_LaunchGuestConversionJob P vm) (\<lambda>launched.
           gbind (glift (deref launched)) (\<lambda>job.
           gbind (new_condition Processing (processing_reason ConvertingGuest)
               (''Running virt-v2v job '' @ om_name (jb_meta job)) ConditionTrue) (\<lambda>c.
           gbind (upsertStatusConditions (vi_key v) [c]) (\<lambda>_.
           gbind (updateProgress v progressConvertingGuest) (\<lambda>_. gret job)))))) w2 = (Inr j, w3)"
    and last: "(if jb_active j > 0 then gret (False, v)
       else if jb_failed j > 0
       then gbind (endGuestConversionAsFailed P v (''virt-v2v job '' @ om_name (jb_meta j) @ '' failed''))
              (\<lambda>v'. gret (False, v'))
       else gret (jb_succeeded j > 0, v)) w3 = (Inr (False, v'), w')"
    unfolding convertGuest_def gbind_returns by blast
  have "frames (waits k) (pv_GetGuestConversionJob P)" by (rule waits_quiet [OF GetGuestConversionJob jobs_GetGuestConversionJob])
  from framesD2 [OF this found] framesD2 [OF waits_client(2) vm] have w2: "waits k w w2" by (blast intro: waits_trans)
  have old: "stored_job x w2 \<Longrightarrow> stored_job x w" for x
    using w2 by (auto simp: waits_def keeps_jobs_def stored_job_def)
  have "ends k w2 w3 \<and> stored_job j w3 \<and> (k \<in> set (woken_by (jb_meta j)) \<or> stored_job j w)"
  proof (cases found)
    case (Some x)
    then show ?thesis using job found_job [of w1 x w2] found old by (auto simp: ends_refl)
  next
    case None
    then obtain wl where l: "pv_LaunchGuestConversionJob P vm w2 = (Inr (Some j), wl)"
      and rest: "?note j wl = (Inr j, w3)"
      using job by (auto simp: gbind_returns deref_def split: option.splits)
    have "frames same_jobs (?note j)" by (intro same_jobs.frames_combinators same_jobs_ops)
    with rest have "same_jobs wl w3" by (blast dest: framesD2)
    moreover have "frames (ends k) (?note j)" by (intro ends.frames_combinators ends_ops ends.client_frames)
    with rest have "ends k wl w3" by (blast dest: framesD2)
    moreover have "ends k w2 wl" using ending.frames_quiet [OF LaunchGuestConversionJob] l by (rule framesD2)
    moreover have "so_meta (w_provider w2) = so_meta (w_provider w)" using w2 by (simp add: waits_def keeps_jobs_def)
    ultimately show ?thesis
      using launched_job [OF l] old key by (auto simp: same_jobs_def stored_job_def intro: ends_trans)
  qed
  then have w3: "ends k w w3" "stored_job j w3" "k \<in> set (woken_by (jb_meta j)) \<or> stored_job j w"
    using w2 by (auto simp: waits_def intro: ends_trans)
  from last consider "unfinished_job j" "w' = w3" | "ended k w'"
    using leavesD [OF ends_ended(2) [of v, unfolded k]]
    by (auto simp: unfinished_job_def gbind_returns split: if_splits)
  then show ?thesis
  proof cases
    case 1
    with w3 show ?thesis unfolding awaits_def awaits_job_def by blast
  qed (rule awaits_ended)
qed

text \<open>The last part of a run for an import without the condition Succeeded adds it.\<close>

lemma finish_import_ended:
  assumes "finish_import P v vmName w = (Inr x, w')" and none: "FindConditionOfType (vi_conditions v) Succeeded = None"
    and k: "vi_key v = k"
  shows "ended k w'"
proof -
  let ?update = "updateConditionsAfterSuccess v ''Virtual machine disks import done'' VirtualMachineReady"
  have "leaves (ended k) ?update"
    unfolding updateConditionsAfterSuccess_def Let_def k by (intro leaves_ended ends.frames_gret)
  moreover have "frames (ends k) (gbind (glift (shouldStartVM v)) (\<lambda>start.
       if start then gbind (startVM P v vmName) (\<lambda>_. gret no_requeue)
       else gbind (updateProgress v progressDone) (\<lambda>_.
            gbind (afterSuccess P vmName v) (\<lambda>v.
            gbind (record_event v EventNormal ''ImportSucceeded''
                (''Virtual Machine '' @ fst vmName @ ''/'' @ snd vmName @ '' import successful'')) (\<lambda>_.
              gret no_requeue)))))" for v
    by (intro ends.frames_combinators ending.frames_startVM ending.frames_afterSuccess ends.client_frames)
  ultimately have "leaves (ended k) (gbind ?update (\<lambda>v. gbind (glift (shouldStartVM v)) (\<lambda>start.
       if start then gbind (startVM P v vmName) (\<lambda>_. gret no_requeue)
       else gbind (updateProgress v progressDone) (\<lambda>_.
            gbind (afterSuccess P vmName v) (\<lambda>v.
            gbind (record_event v EventNormal ''ImportSucceeded''
                (''Virtual Machine '' @ fst vmName @ ''/'' @ snd vmName @ '' import successful'')) (\<lambda>_.
              gret no_requeue))))))"
    by (rule leaves_frames [where R = "ends k"]) (simp add: ends_def)
  moreover have "has_import_finished v = Inr False"
    using none by (simp add: has_import_finished_def no_succeeded_not_finished del: HasSucceededConditionOfReason.simps)
  ultimately show ?thesis
    using assms(1) unfolding finish_import_def by (auto simp: gbind_returns [of "glift y" for y] dest: leavesD)
qed

lemma convertGuest_same: "convertGuest P v vmName w = (Inr (True, v'), w') \<Longrightarrow> v' = v"
  unfolding convertGuest_def gbind_returns by (auto split: if_splits simp: gbind_returns)

lemma convert_and_finish_awaits:
  assumes "convert_and_finish P v vmName w = (Inr x, w')" and none: "FindConditionOfType (vi_conditions v) Succeeded = None"
    and k: "vi_key v = k" and key: "vi_key (so_meta (w_provider w)) = k"
  shows "awaits k w w'"
proof (cases "pv_NeedsGuestConversion P")
  case False
  with assms(1) have "finish_import P v vmName w = (Inr x, w')"
    by (simp add: convert_and_finish_def shouldConvertGuest_def gbind_def)
  from finish_import_ended [OF this none k] show ?thesis by (rule awaits_ended)
next
  case True
  with assms(1) none obtain fin v1 w1 where c: "convertGuest P v vmName w = (Inr (fin, v1), w1)"
    and f: "(if \<not> fin then gret no_requeue else finish_import P v1 vmName) w1 = (Inr x, w')"
    by (auto simp: convert_and_finish_def shouldConvertGuest_def has_import_finished_def no_succeeded_not_finished
        gbind_returns del: HasSucceededConditionOfReason.simps)
  show ?thesis
  proof (cases fin)
    case False
    with c f convertGuest_awaits [of v vmName w v1 w1 k] key k show ?thesis by simp
  next
    case True
    with c convertGuest_same [of v vmName w v1 w1] have "v1 = v" by simp
    with f True have "finish_import P v vmName w1 = (Inr x, w')" by simp
    from finish_import_ended [OF this none k] show ?thesis by (rule awaits_ended)
  qed
qed

section \<open>The whole run\<close>

lemma waits_meta: "waits k w w' \<Longrightarrow> vi_key (so_meta (w_provider w')) = vi_key (so_meta (w_provider w))"
  by (simp add: waits_def keeps_jobs_def)

lemma import_vm_awaits:
  assumes "import_vm E P ns v w = (Inr x, w')" and none: "FindConditionOfType (vi_conditions v) Succeeded = None"
    and k: "vi_key v = k" and key: "vi_key (so_meta (w_provider w)) = k" and ns: "fst k \<noteq> []" and fair: fair
  shows "awaits k w w'"
proof -
  from assms(1) obtain v1 w1 mapper w2 nv w3 where stop: "pv_StopVM P v w = (Inr v1, w1)"
    and c: "pv_CreateMapper P w1 = (Inr mapper, w2)" and "ensure_vm E P ns v1 mapper w2 = (Inr nv, w3)"
    and "(case nv of (name, v) \<Rightarrow> gbind (glift (shouldImportDisks v)) (\<lambda>import.
       if import
       then gbind (importDisks E P v mapper (ns, name)) (\<lambda>(finished, v).
              if \<not> finished then gret no_requeue else convert_and_finish P v (ns, name))
       else convert_and_finish P v (ns, name))) w3 = (Inr x, w')"
    unfolding import_vm_def gbind_returns by blast
  then obtain name v2 import w4 where e: "ensure_vm E P ns v1 mapper w2 = (Inr (name, v2), w3)"
    and si: "glift (shouldImportDisks v2) w3 = (Inr import, w4)"
    and rest: "(if import
       then gbind (importDisks E P v2 mapper (ns, name)) (\<lambda>(finished, v).
              if \<not> finished then gret no_requeue else convert_and_finish P v (ns, name))
       else convert_and_finish P v2 (ns, name)) w4 = (Inr x, w')"
    by (cases nv) (auto simp: gbind_returns)
  have v1: "same_but_finalizers v v1" using StopVM_result [OF stop] by (simp add: same_but_finalizers_def)
  have v2: "same_but_finalizers v v2" using v1 ensure_vm_same [OF e] by (rule same_but_finalizers_trans)
  have k1: "vi_key v1 = k" and k2: "vi_key v2 = k" using same_key v1 v2 k by auto
  have none2: "FindConditionOfType (vi_conditions v2) Succeeded = None"
    using none same_but_finalizers_fields [OF v2] by simp
  have "frames (waits k) (ensure_vm E P ns v1 mapper)" using waits_ensure_vm [OF c, of v1] k1 by simp
  from framesD2 [OF this e] framesD2 [OF waits_quiet [OF CreateMapper jobs_CreateMapper] c]
    framesD2 [OF waits_quiet [OF StopVM jobs_StopVM] stop]
  have w3: "waits k w w3" by (blast intro: waits_trans)
  from si none2 have "import" and "w4 = w3"
    by (auto simp: shouldImportDisks_def has_import_finished_def no_succeeded_not_finished simp del: HasSucceededConditionOfReason.simps)
  with rest obtain fin v3 w5 where d: "importDisks E P v2 mapper (ns, name) w3 = (Inr (fin, v3), w5)"
    and f: "(if \<not> fin then gret no_requeue else convert_and_finish P v3 (ns, name)) w5 = (Inr x, w')"
    by (auto simp: gbind_returns)
  have w5: "waits k w3 w5" using waits_importDisks [OF k2 ns] d by (rule framesD2)
  obtain dvs where "mp_MapDataVolumes mapper (snd (ns, name)) = Inr dvs"
    using d unfolding importDisks_def by (auto simp: gbind_returns)
  note dvs = this volumes [OF fair c this]
  have "awaits k w3 w'"
  proof (cases fin)
    case False
    with d f have "ended k w' \<or> pending k w'" and "w5 = w'" using importDisks_waits [OF _ dvs k2 ns] by auto
    with w5 show ?thesis by (blast intro: awaits_pending)
  next
    case True
    with d have "importDisks E P v2 mapper (ns, name) w3 = (Inr (True, v3), w5)" by simp
    from importDisks_done [OF this] have "v3 = v2" by blast
    with f True have "convert_and_finish P v2 (ns, name) w5 = (Inr x, w')" by simp
    from convert_and_finish_awaits [OF this none2 k2] waits_meta [OF w5] waits_meta [OF w3] key have "awaits k w5 w'" by simp
    with w5 show ?thesis by (rule awaits_waits)
  qed
  with w3 show ?thesis by (rule awaits_waits)
qed

lemma requeue_not_none: "requeue_after n \<noteq> no_requeue"
  by (simp add: requeue_after_def no_requeue_def)

lemma reconcile_with_provider_awaits:
  assumes "reconcile_with_provider E P ns v w = (Inr no_requeue, w')"
    and none: "FindConditionOfType (vi_conditions v) Succeeded = None" and "vi_deletion v = None"
    and k: "vi_key v = k" and key: "vi_key (so_meta (w_provider w)) = k" and ns: "fst k \<noteq> []" and fair: fair
  shows "awaits k w w'"
proof -
  have "shouldReconcile v" using none by (simp add: shouldReconcile_def)
  with assms(1,3) obtain u w1 valid w2 where fetch: "fetchVM v P w = (Inr u, w1)" and val: "validate v P w1 = (Inr valid, w2)"
    and r: "(if \<not> valid then gret (requeue_after requeueAfterValidationFailureTime) else import_vm E P ns v) w2 = (Inr no_requeue, w')"
    by (auto simp: reconcile_with_provider_def gbind_returns)
  from framesD2 [OF waits_fetchVM fetch] framesD2 [OF waits_validate val] have w2: "waits k w w2"
    by (blast intro: waits_trans)
  from r have "import_vm E P ns v w2 = (Inr no_requeue, w')" by (auto simp: requeue_not_none split: if_splits)
  from import_vm_awaits [OF this none k _ ns fair] waits_meta [OF w2] key have "awaits k w2 w'" by simp
  with w2 show ?thesis by (rule awaits_waits)
qed

lemma with_provider_awaits:
  assumes "gbind (initProvider v P) (\<lambda>(message, err). case err of
       Some e \<Rightarrow> (if vmImportInProgress v then gfail e else gbind (failNewImportProcess v message e) (\<lambda>_. gret no_requeue))
     | None \<Rightarrow> gdefer (reconcile_with_provider E P ns v) (pv_Close P)) w = (Inr no_requeue, w')"
    and none: "FindConditionOfType (vi_conditions v) Succeeded = None" and "vi_deletion v = None"
    and k: "vi_key v = k" and key: "vi_key (so_meta (w_provider w)) = k" and ns: "fst k \<noteq> []" and fair: fair
  shows "awaits k w w'"
proof -
  from assms(1) obtain message err w1 where i: "initProvider v P w = (Inr (message, err), w1)"
    and r: "(case err of
       Some e \<Rightarrow> (if vmImportInProgress v then gfail e else gbind (failNewImportProcess v message e) (\<lambda>_. gret no_requeue))
     | None \<Rightarrow> gdefer (reconcile_with_provider E P ns v) (pv_Close P)) w1 = (Inr no_requeue, w')"
    by (auto simp: gbind_returns)
  have w1: "waits k w w1" using waits_initProvider i by (rule framesD2)
  show ?thesis
  proof (cases err)
    case (Some e)
    with r obtain u where "failNewImportProcess v message e w1 = (Inr u, w')" by (auto simp: gbind_returns split: if_splits)
    moreover have "leaves (ended k) (failNewImportProcess v message e)"
      unfolding failNewImportProcess_def k by (rule leaves_upsert)
    ultimately show ?thesis by (blast dest: leavesD intro: awaits_ended)
  next
    case None
    then obtain w2 where rwp: "reconcile_with_provider E P ns v w1 = (Inr no_requeue, w2)" and w': "w' = snd (pv_Close P w2)"
      using r by (auto simp: gdefer_def split: prod.splits)
    have "awaits k w1 w2"
      using reconcile_with_provider_awaits [OF rwp none assms(3) k _ ns fair] waits_meta [OF w1] key by simp
    moreover have "rests w2 w'" unfolding w' using Close_rests by (rule framesD)
    ultimately have "awaits k w1 w'" by (rule awaits_rests)
    with w1 show ?thesis by (rule awaits_waits)
  qed
qed

end

text \<open>The reconciler of the program: each of its providers keeps the contract.\<close>

lemma existing_awaits:
  assumes "reconcile_existing E (the_ovirt X) (the_vmware X) ns v w = (Inr no_requeue, w')" and "fair_orders (en_orders X)"
    and none: "FindConditionOfType (vi_conditions v) Succeeded = None" and "vi_deletion v = None"
    and k: "vi_key v = k" and ns: "fst k \<noteq> []"
  shows "awaits k w w'"
proof -
  from assms(1) obtain P w1 where P: "createProvider (the_ovirt X) (the_vmware X) v w = (Inr P, w1)"
    and run: "gbind (initProvider v P) (\<lambda>(message, err). case err of
         Some e \<Rightarrow> (if vmImportInProgress v then gfail e else gbind (failNewImportProcess v message e) (\<lambda>_. gret no_requeue))
       | None \<Rightarrow> gdefer (reconcile_with_provider E P ns v) (pv_Close P)) w1 = (Inr no_requeue, w')"
    unfolding reconcile_existing_def gbind_returns by blast
  have "so_meta (w_provider w1) = v \<and> w_imports w1 = w_imports w \<and> w_dvs w1 = w_dvs w \<and> w_jobs w1 = w_jobs w \<and>
      (P = the_ovirt X \<or> P = the_vmware X)"
    using P by (auto simp: createProvider_def Let_def gbind_returns GetBareConfig_def gresult_def gtry_returns the_ovirt_def the_vmware_def
        ovirt_provider_def vmware_provider_def new_source_def elim!: api_cases split: if_splits)
  then have key: "vi_key (so_meta (w_provider w1)) = k"
    and same: "w_imports w1 = w_imports w" "w_dvs w1 = w_dvs w" "w_jobs w1 = w_jobs w"
    and kind: "P = the_ovirt X \<or> P = the_vmware X" using k by simp_all
  have "awaits k w1 w'" using kind
  proof
    assume "P = the_ovirt X"
    then show ?thesis
      using ovirt_wakes.with_provider_awaits [OF _ none assms(4) k key ns assms(2)] run unfolding the_ovirt_def by blast
  next
    assume "P = the_vmware X"
    then show ?thesis
      using vmware_wakes.with_provider_awaits [OF _ none assms(4) k key ns assms(2)] run unfolding the_vmware_def by blast
  qed
  then show ?thesis using same by (rule awaits_before)
qed

text \<open>The server does not say of an object that it has that it was not found.\<close>

definition honest :: "'p world \<Rightarrow> bool" where
  "honest w \<longleftrightarrow> (\<forall>n e. w_faults w n = FailBefore e \<or> w_faults w n = FailAfter e \<longrightarrow> \<not> IsNotFound e)"

lemma honest_get_import:
  assumes "honest w" and "w_imports w k = Some v" and "get_import k w = (Inl e, w')"
  shows "\<not> IsNotFound e"
  using assms by (auto simp: honest_def get_import_def get_from_def api_def Let_def split: fault.splits)

interpretation ending_run: reconcile_rel "ends k" "\<lambda>_. True" "the_ovirt X" "the_vmware X" for k X
  unfolding the_ovirt_def the_vmware_def by unfold_locales simp_all

lemma run_awaits:
  assumes run: "reconcile X k w = (Inr no_requeue, w')" and fair: "fair_orders (en_orders X)" and "honest w"
    and v: "w_imports w k = Some v" "vi_key v = k" "vi_deletion v = None" and ns: "fst k \<noteq> []"
    and going: "\<not> ended k w'"
  shows "awaits k w w'"
proof -
  have "frames (ends k) (reconcile X k)"
    unfolding reconcile_def by (rule ending_run.frames_Reconcile)
  then have "ends k w w'" using run by (rule framesD2)
  with going v(1) have none: "FindConditionOfType (vi_conditions v) Succeeded = None" by (auto simp: ends_def ended_def)
  obtain r w0 where g: "get_import k w = (r, w0)" by fastforce
  with run honest_get_import [OF assms(3) v(1)] obtain v0 where "r = Inr v0"
    by (cases r) (auto simp: reconcile_def Reconcile_def gtry_returns split: if_splits)
  with g v(1) get_import_result have r: "get_import k w = (Inr v, w0)" by fastforce
  with run obtain v1 w1 where add: "(if \<not> vmImportInProgress v then AddFinalizer v CancelledImportFinalizer else gret v) w0 = (Inr v1, w1)"
    and rest: "gbind (handle_deletion v1) (\<lambda>(stop, v). if stop then gret no_requeue
       else reconcile_existing (en_runtime X) (the_ovirt X) (the_vmware X) (fst k) v) w1 = (Inr no_requeue, w')"
    by (auto simp: reconcile_def Reconcile_def gtry_returns gbind_returns [of "if b then m else n" for b m n] simp del: gret_apply)
  have v1: "same_but_finalizers v v1" using add finalizers_same(1) by (auto split: if_splits)
  have "handle_deletion v1 w1 = (Inr (False, v1), w1)"
    using same_but_finalizers_fields [OF v1] v(3) by (simp add: handle_deletion_def)
  with rest have "reconcile_existing (en_runtime X) (the_ovirt X) (the_vmware X) (fst k) v1 w1 = (Inr no_requeue, w')" by (simp add: gbind_def)
  moreover have "vi_key v1 = k" using v(2) same_but_finalizers_fields [OF v1] by (simp add: vi_key_def)
  ultimately have "awaits k w1 w'"
    using existing_awaits [of "en_runtime X" X "fst k" v1 w1 w' k] fair none v(3) ns same_but_finalizers_fields [OF v1] by simp
  moreover have "waits k w w0" using waits_client(1) r by (rule framesD2)
  moreover have "waits k w0 w1" using add framesD2 [OF waits_client(18) [of k]] by (auto simp: waits_refl split: if_splits)
  ultimately show ?thesis by (blast intro: awaits_waits)
qed

section \<open>Who waits is woken\<close>


definition demo_controller :: controller where
  "demo_controller = \<lparr>co_watches = [(''VirtualMachineImport'', EnqueueRequestForObject),
     (''VirtualMachine'', EnqueueRequestForOwner True import_type), (''DataVolume'', EnqueueRequestForOwner True import_type),
     (''Job'', EnqueueRequestForOwner True import_type)]\<rparr>"

lemma demo_controller: "add_controller (Inr \<lparr>co_watches = []\<rparr>) (\<lambda>_. None) = Inr demo_controller"
  by (simp add: add_controller_def rbind_Inr Let_def gbind_unfold Watch_def demo_controller_def)

text \<open>A run that finds the volume of the only disk in the making.\<close>

definition pending_dvs :: "nsname \<Rightarrow> datavolume option" where
  "pending_dvs k = (if k = (''ns'', ''target-d'') then Some ((demo_dv ''target-d'' DVPending)
     \<lparr>dv_meta := empty_meta\<lparr>om_name := ''target-d'', om_namespace := ''ns'', om_owners := [import_owner_reference True demo_import]\<rparr>\<rparr>)
     else None)"

definition copying :: "string source world \<Rightarrow> bool" where
  "copying w \<longleftrightarrow> (\<exists>v. w_imports w demo_key = Some v \<and> FindConditionOfType (vi_conditions v) Succeeded = None) \<and>
     list_all (\<lambda>(k, j). jb_active j = 0 \<and> jb_succeeded j = 1) (w_jobs w)"

lemma waiting_run:
  "\<exists>w. reconcile (demo_surroundings False [demo_disk ''d'']) demo_key ((demo_late demo_import)\<lparr>w_dvs := pending_dvs\<rparr>) = (Inr no_requeue, w) \<and>
     copying w"
  apply (simp add: run_defs pending_dvs_def demo_late_def cong: run_cong)
  apply (simp add: copying_def demo_key_def demo_job_def demo_import_sel)
  done


definition owned_vms :: "nsname \<Rightarrow> kubevm option" where
  "owned_vms k = (if k = (''ns'', ''target'')
     then Some (demo_vm\<lparr>vm_meta := (vm_meta demo_vm)\<lparr>om_owners := [import_owner_reference True demo_import]\<rparr>\<rparr>) else None)"

text \<open>What the first run leaves behind.\<close>

definition reported :: "string source world \<Rightarrow> bool" where
  "reported w \<longleftrightarrow> map ev_reason (w_events w) = [''ImportSucceeded''] \<and> w_counters w ResultSuccessful = 1 \<and>
     w_faults w = demo_faults \<and> w_now w = demo_clock \<and> w_instances w = nothing \<and> w_ctrl_config w = nothing \<and>
     w_secrets w = w_secrets (demo_late demo_starting) \<and> so_external (w_provider w) = poweredOff \<and>
     (\<exists>v. w_imports w demo_key = Some v \<and> vi_annotations v = demo_annotations(AnnCurrentProgress \<mapsto> ''100'') \<and>
        vi_key v = demo_key \<and> vi_deletion v = None \<and> vi_spec v = vi_spec demo_starting \<and>
        st_target_vm_name (vi_status v) = ''target'' \<and>
        (\<exists>c. vi_conditions v = [NewCondition Valid ''ValidationCompleted'' [] ConditionTrue 1,
          NewCondition MappingRulesVerified ''MappingRulesVerificationCompleted'' [] ConditionTrue 1, c,
          NewCondition Succeeded (succeeded_reason VirtualMachineReady) ''Virtual machine disks import done'' ConditionTrue 9] \<and>
          c_type c = Processing)) \<and>
     (\<exists>vm. w_vms w (''ns'', ''target'') = Some vm \<and> om_owners (vm_meta vm) = [])"

lemma reported_run:
  "\<exists>w. reconcile (demo_surroundings False [demo_disk ''d'']) demo_key ((demo_late demo_starting)\<lparr>w_vms := owned_vms\<rparr>) = (Inr no_requeue, w) \<and>
     reported w"
  apply (simp add: run_defs demo_late_def demo_starting_def demo_counters_def owned_vms_def cong: run_cong)
  apply (simp add: reported_def demo_starting_def demo_late_def demo_import_sel NewCondition_def demo_world_sel empty_meta_def vi_key_def demo_key_def poweredOff_def AnnCurrentProgress_def annAPIGroup_def)
  done

lemma start_run:
  assumes "reported w"
  shows "\<exists>w' v vm. reconcile (demo_surroundings False [demo_disk ''d'']) demo_key w = (Inr no_requeue, w') \<and>
     w_imports w demo_key = Some v \<and> w_imports w' demo_key = Some v \<and>
     vi_annotations v AnnCurrentProgress = Some ''100'' \<and> shouldReconcile v \<and>
     w_vms w' (''ns'', ''target'') = Some vm \<and> vm_running vm = Some True \<and> om_owners (vm_meta vm) = [] \<and> w_watches w' = w_watches w"
proof -
  from assms obtain v vm c where w: "w_faults w = demo_faults" "w_now w = demo_clock" "w_instances w = nothing" "w_ctrl_config w = nothing"
    "w_secrets w = w_secrets (demo_late demo_starting)" "so_external (w_provider w) = poweredOff" "w_imports w demo_key = Some v"
    "w_vms w (''ns'', ''target'') = Some vm" "om_owners (vm_meta vm) = []"
    and v: "vi_annotations v = demo_annotations(AnnCurrentProgress \<mapsto> ''100'')" "vi_key v = demo_key" "vi_deletion v = None"
    "vi_spec v = vi_spec demo_starting" "st_target_vm_name (vi_status v) = ''target''" "c_type c = Processing"
    "vi_conditions v = [NewCondition Valid ''ValidationCompleted'' [] ConditionTrue 1,
       NewCondition MappingRulesVerified ''MappingRulesVerificationCompleted'' [] ConditionTrue 1, c,
       NewCondition Succeeded (succeeded_reason VirtualMachineReady) ''Virtual machine disks import done'' ConditionTrue 9]"
    by (auto simp: reported_def)
  from v(2) have "vi_name v = ''imp''" "vi_namespace v = ''ns''" by (simp_all add: vi_key_def demo_key_def)
  with w v show ?thesis
    by (simp add: run_defs demo_starting_def demo_late_def cong: run_cong)
qed


end
