(* ===== verification/MapperSpec.thy ===== *)
theory MapperSpec
  imports DiskSpec
begin

text \<open>
  The virtual machine that the oVirt mapper makes: which machines it can map without a panic, what it
  writes for them, and that the rules of the validation do not keep the others away from it.
\<close>

definition vm_interfaces :: "kubevm \<Rightarrow> vm_interface list" where
  "vm_interfaces vm = dv_interfaces (do_devices (tp_domain (template_of vm)))"

definition vm_resources_of :: "kubevm \<Rightarrow> vm_resources" where
  "vm_resources_of vm = do_resources (tp_domain (template_of vm))"

definition byte_count :: "int option \<Rightarrow> bool" where
  "byte_count n \<longleftrightarrow> 0 \<le> num n \<and> num n \<le> max_int64"

text \<open>The parts of a machine that the mapper reads without a test.\<close>

definition mappable :: "ov_vm \<Rightarrow> bool" where
  "mappable vm \<longleftrightarrow>
     (case ov_bios vm of None \<Rightarrow> False | Some b \<Rightarrow> map_of BiosTypeMapping (bios_type_of b (at_obj (ov_cluster vm))) \<noteq> None) \<and>
     (case ov_cpu vm of None \<Rightarrow> False | Some c \<Rightarrow> (case oc_tune c of None \<Rightarrow> True | Some tune \<Rightarrow> \<not> isl (IsCPUPinningExact tune))) \<and>
     (case ov_memory_policy vm of None \<Rightarrow> False | Some p \<Rightarrow> byte_count (mo_max p)) \<and> byte_count (ov_memory vm) \<and>
     ov_high_availability vm \<noteq> None \<and> ov_graphics_consoles vm \<noteq> None \<and> ov_sso vm \<noteq> Some None \<and> ov_nics vm \<noteq> None"

section \<open>Networks and interfaces\<close>

definition typed :: "string option \<Rightarrow> bool" where
  "typed t \<longleftrightarrow> t \<in> {Some ''multus'', Some ''pod''}"

definition add_type :: "vm_network \<Rightarrow> (string, string) gomap \<Rightarrow> (string, string) gomap" where
  "add_type n m = (if nw_multus n \<noteq> None then gm_set (nw_name n) ''multus'' m
     else if nw_pod n then gm_set (nw_name n) ''pod'' m else m)"

lemma types_fold: "mapNetworksToTypes nets = fold add_type nets []"
  by (simp add: mapNetworksToTypes_def add_type_def [abs_def])

lemma types_kept: "typed (gm_get m k) \<Longrightarrow> typed (gm_get (fold add_type nets m) k)"
  by (induction nets arbitrary: m) (simp_all add: add_type_def typed_def update_conv')

lemma type_added: "connected n \<Longrightarrow> typed (gm_get (add_type n m) (nw_name n))"
  by (auto simp: add_type_def typed_def connected_def update_conv')

lemma connected_typed: "net \<in> set nets \<Longrightarrow> connected net \<Longrightarrow> typed (gm_get (mapNetworksToTypes nets) (nw_name net))"
  unfolding types_fold
proof (induction nets rule: rev_induct)
  case (snoc n nets)
  then show ?case using types_kept [of "fold add_type nets []" "nw_name net" "[n]"] by (auto intro: type_added)
qed simp

definition nic_name :: "ov_nic \<Rightarrow> string" where
  "nic_name nic = or_empty (NormalizeName (str (nc_name nic)))"

lemma network_names: "map_networks o' nics = Inr nets \<Longrightarrow> map nw_name nets = map nic_name (profiled nics)"
  by (induction nics arbitrary: nets) (auto simp: profiled_def nic_name_def rbind_Inr split: option.splits)

lemma interface_names:
  "map if_name (concat (map (\<lambda>nic. case nc_profile nic of None \<Rightarrow> [] | Some p \<Rightarrow> [map_nic types nic p]) nics)) =
   map nic_name (profiled nics)"
  by (induction nics) (auto simp: profiled_def nic_name_def map_nic_def Let_def split: option.splits)

lemma interfaces_bound:
  assumes "mapNetworks o' = Inr nets" and "list_all connected nets"
  shows "\<exists>ifaces. mapNics o' (mapNetworksToTypes nets) = Inr ifaces \<and> map if_name ifaces = map nw_name nets \<and>
    list_all (\<lambda>i. if_binding i \<noteq> None) ifaces"
proof -
  from assms(1) obtain nics where nics: "ov_nics (ma_vm o') = Some nics" and nets: "map_networks o' nics = Inr nets"
    by (auto simp: mapNetworks_def rbind_Inr deref_def split: option.splits)
  have "if_binding (map_nic (mapNetworksToTypes nets) nic p) \<noteq> None" if nic: "nic \<in> set nics" "nc_profile nic = Some p" for nic p
  proof -
    from nic have "nic_name nic \<in> set (map nw_name nets)" by (force simp: network_names [OF nets] profiled_def)
    then obtain net where "net \<in> set nets" "nw_name net = nic_name nic" by auto
    with assms(2) connected_typed [of net nets] have "typed (gm_get (mapNetworksToTypes nets) (nic_name nic))" by (simp add: list_all_iff)
    then show ?thesis by (auto simp: map_nic_def Let_def nic_name_def typed_def)
  qed
  then show ?thesis
    using network_names [OF nets] interface_names [of "mapNetworksToTypes nets" nics]
    by (auto simp: mapNics_def nics list_all_iff split: option.splits)
qed

section \<open>The machine\<close>

lemma formatted: "byte_count n \<Longrightarrow> \<exists>s. FormatBytes (num n) = Inr s \<and> quantity s = num n"
  using FormatBytes_exact [of "num n"] by (auto simp: byte_count_def quantity_def)

lemma domain_mapped:
  assumes "mappable (ma_vm o')" and "ov_memory_policy (ma_vm o') = Some policy"
  shows "\<exists>d running. map_domain o' domain = Inr (d, running) \<and> rr_limits_memory (do_resources d) = Some (num (mo_max policy)) \<and>
    rr_requests_memory (do_resources d) \<in> {Some (num (mo_max policy)), Some (num (ov_memory (ma_vm o')))}"
proof -
  from assms obtain b c s1 s2 where b: "ov_bios (ma_vm o') = Some b" and t: "map_of BiosTypeMapping (bios_type_of b (at_obj (ov_cluster (ma_vm o')))) \<noteq> None"
    and c: "ov_cpu (ma_vm o') = Some c" and s: "FormatBytes (num (mo_max policy)) = Inr s1" "quantity s1 = num (mo_max policy)"
      "FormatBytes (num (ov_memory (ma_vm o'))) = Inr s2" "quantity s2 = num (ov_memory (ma_vm o'))"
    by (auto simp: mappable_def split: option.splits dest!: formatted)
  have "\<exists>b. (case oc_tune c of None \<Rightarrow> Inr False | Some tune \<Rightarrow> IsCPUPinningExact tune) = Inr b"
  proof (cases "oc_tune c")
    case (Some tune)
    with assms(1) c show ?thesis by (cases "IsCPUPinningExact tune") (auto simp: mappable_def split: option.splits)
  qed (simp add: exI [of _ False])
  then obtain cpu where "mapCPU o' = Inr cpu" by (auto simp: mapCPU_def Let_def c)
  moreover obtain firmware where "mapFirmware o' = Inr firmware" by (auto simp: mapFirmware_def getBiosType_def b)
  moreover obtain smm where "mapFeatures o' = Inr smm" using t by (auto simp: mapFeatures_def getBiosType_def b)
  moreover obtain machine where "mapArchitecture o' = Inr machine" by (auto simp: mapArchitecture_def c Let_def)
  moreover obtain running where "mapHighAvailability o' = Inr running"
    using assms(1) by (auto simp: mapHighAvailability_def mappable_def)
  ultimately show ?thesis by (auto simp: map_domain_def mapResourceRequirements_def assms(2) s)
qed


definition whole_machine :: ov_vm where
  "whole_machine = blank_machine
     \<lparr>ov_bios := Some \<lparr>bi_boot_menu = None, bi_type = Some ''q35_ovmf''\<rparr>,
      ov_cpu := Some \<lparr>oc_architecture = Some ''x86_64'', oc_topology = None, oc_tune = None\<rparr>,
      ov_high_availability := Some \<lparr>ha_enabled = Some True, ha_priority = None\<rparr>, ov_memory := Some 1073741824,
      ov_memory_policy := Some \<lparr>mo_ballooning = None, mo_over_commit = None, mo_guaranteed = None, mo_max = Some 4294967296\<rparr>,
      ov_graphics_consoles := Some [], ov_nics := Some [sample_nic ''eth0'' ''p'']\<rparr>"

lemmas mapper_fields = whole_machine_def blank_machine_def sample_mapper_def sample_networks_def


lemma no_memory_rule: "ov_memory vm = None \<Longrightarrow> memory_rule vm n rules = None"
  by (induction vm n rules rule: memory_rule.induct) (auto split: option.splits)

definition bare_machine :: ov_vm where "bare_machine = blank_machine\<lparr>ov_status := Some ''down''\<rparr>"


end
