(* ===== verification/ProgressSpec.thy ===== *)
theory ProgressSpec
  imports Example
begin

text \<open>
  The progress annotation of an import: the bounds of the progress of the disks under the rounding of
  binary floating point, and when the annotation can go back.
\<close>

section \<open>The progress of the disks\<close>

text \<open>
  What the computation relies on of IEEE 754 double precision: rounding is monotone, integers up to
  \<open>2 ^ 53\<close> are exact, and the relative error is at most \<open>2 ^ -53\<close>.
\<close>

definition double_precision :: "(rat \<Rightarrow> rat) \<Rightarrow> bool" where
  "double_precision rnd \<longleftrightarrow> mono rnd \<and> (\<forall>n::int. \<bar>n\<bar> \<le> 2 ^ 53 \<longrightarrow> rnd (of_int n) = of_int n) \<and> (\<forall>x. \<bar>rnd x - x\<bar> \<le> \<bar>x\<bar> / 2 ^ 53)"

lemma double_between:
  assumes "double_precision rnd" and "of_int a \<le> x" and "x \<le> of_int b" and "\<bar>a\<bar> \<le> 2 ^ 53" and "\<bar>b\<bar> \<le> 2 ^ 53"
  shows "of_int a \<le> rnd x" and "rnd x \<le> of_int b"
  using assms monoD [of rnd "of_int a" x] monoD [of rnd x "of_int b"] by (auto simp: double_precision_def)

lemma progress_sum:
  assumes "double_precision rnd" and "list_all (\<lambda>kv. 0 \<le> snd kv \<and> snd kv \<le> 100) m"
    and "0 \<le> s" and "s \<le> of_int (100 * k)" and "0 \<le> k" and "100 * (k + int (length m)) \<le> 2 ^ 53"
  shows "0 \<le> foldl (\<lambda>s kv. rnd (s + snd kv)) s m \<and> foldl (\<lambda>s kv. rnd (s + snd kv)) s m \<le> of_int (100 * (k + int (length m)))"
  using assms(2-6)
proof (induction m arbitrary: s k)
  case (Cons kv m)
  have "0 \<le> rnd (s + snd kv)" "rnd (s + snd kv) \<le> of_int (100 * (k + 1))"
    using Cons.prems double_between [OF assms(1), of 0 "s + snd kv" "100 * (k + 1)"] by simp_all
  with Cons.IH [of "rnd (s + snd kv)" "k + 1"] Cons.prems show ?case by (simp add: algebra_simps)
qed simp

lemma copied_share:
  assumes "double_precision rnd" and "0 \<le> a" and "a \<le> 100"
  shows "0 \<le> rnd (a * rnd (65 / 100))" and "rnd (a * rnd (65 / 100)) < 66"
proof -
  let ?f = "rnd (65 / 100)"
  have f: "0 \<le> ?f" using double_between(1) [OF assms(1), of 0 "65 / 100" 1] by simp
  have err: "rnd x \<le> x + x / 2 ^ 53" if "0 \<le> x" for x
  proof -
    from assms(1) have "\<bar>rnd x - x\<bar> \<le> \<bar>x\<bar> / 2 ^ 53" by (simp only: double_precision_def)
    from abs_le_D1 [OF this] abs_of_nonneg [OF that] show ?thesis by linarith
  qed
  have f': "?f \<le> 65 / 100 + 65 / 100 / 2 ^ 53" by (rule err) simp
  have p: "0 \<le> a * ?f" using assms(2) f by (rule mult_nonneg_nonneg)
  have share: "a * ?f \<le> 100 * (65 / 100 + 65 / 100 / 2 ^ 53)" by (rule mult_mono [OF assms(3) f' _ f]) simp
  have "rnd (a * ?f) \<le> a * ?f + a * ?f / 2 ^ 53" using p by (rule err)
  also have "\<dots> < 66" using share by simp
  finally show "rnd (a * ?f) < 66" .
  have "mono rnd" "rnd 0 = 0" using assms(1) by (auto simp: double_precision_def dest: spec [of _ "0 :: int"])
  then show "0 \<le> rnd (a * ?f)" using monoD [of rnd 0 "a * ?f"] p by simp
qed


definition demo_runtime :: runtime_env where
  "demo_runtime = en_runtime (demo_surroundings False [])"


section \<open>The annotation\<close>

definition progress_of :: "vmimport \<Rightarrow> int" where
  "progress_of v = (case vi_annotations v AnnCurrentProgress of None \<Rightarrow> 0
     | Some p \<Rightarrow> (case Atoi p of None \<Rightarrow> 0 | Some n \<Rightarrow> n))"

text \<open>
  C18. Recording a progress never lowers that of the import in the cluster when the copy in memory has the same
  progress: whatever fails, the stored progress is the old one, or the new one if that is larger.
\<close>

theorem updateProgress_raises:
  assumes "updateProgress v p w = (r, w')" and "w_imports w (vi_key v) = Some stored_import"
    and "vi_annotations stored_import AnnCurrentProgress = vi_annotations v AnnCurrentProgress"
    and "w_imports w' (vi_key v) = Some new_import"
  shows "progress_of new_import = progress_of stored_import \<or>
    Atoi p = Some (progress_of new_import) \<and> progress_of stored_import < progress_of new_import"
proof -
  let ?f = "\<lambda>x. x\<lparr>vi_annotations := (vi_annotations x)(AnnCurrentProgress \<mapsto> p)\<rparr>"
  have zero: "Atoi ''0'' = Some 0" by code_simp
  have "w' = w \<or> changes_import (vi_key v) ?f w w' \<and> Atoi p \<noteq> None \<and> progress_of v < the (Atoi p)"
    using assms(1) by (auto simp: updateProgress_def Let_def gbind_unfold parse_int_def set_annotation_def progress_of_def zero
        split: prod.splits sum.splits option.splits if_splits dest!: patch_import_changes)
  then show ?thesis
  proof
    assume "w' = w"
    with assms(2,4) show ?thesis by simp
  next
    assume *: "changes_import (vi_key v) ?f w w' \<and> Atoi p \<noteq> None \<and> progress_of v < the (Atoi p)"
    then obtain n where n: "Atoi p = Some n" "progress_of v < n" by auto
    have "progress_of stored_import = progress_of v" using assms(3) by (simp add: progress_of_def)
    with * n assms(2,4) show ?thesis
      by (auto simp: changes_import_def put_import_def stored_def progress_of_def split: if_splits)
  qed
qed

theorem updateProgress_raises_witness:
  "\<exists>v w'. updateProgress demo_import ''70'' (demo_world poweredOff demo_import) = (Inr (), w') \<and>
     w_imports w' (vi_key demo_import) = Some v \<and> progress_of v = 70"
proof -
  have ten: "progress_of demo_import = 10" "Atoi ''70'' = Some 70"
    by (simp_all add: progress_of_def run_defs)
  have "\<exists>v w'. updateProgress demo_import ''70'' (demo_world poweredOff demo_import) = (Inr (), w') \<and>
     w_imports w' (vi_key demo_import) = Some v \<and> vi_annotations v AnnCurrentProgress = Some ''70''"
    by (simp add: run_defs cong: run_cong)
  then obtain v w' where run: "updateProgress demo_import ''70'' (demo_world poweredOff demo_import) = (Inr (), w')"
    and v: "w_imports w' (vi_key demo_import) = Some v" and a: "vi_annotations v AnnCurrentProgress = Some ''70''" by blast
  have "w_imports (demo_world poweredOff demo_import) (vi_key demo_import) = Some demo_import" by (simp add: run_defs)
  from updateProgress_raises [OF run this refl v] a ten have "progress_of v = 70"
    by (auto simp: progress_of_def)
  with run v show ?thesis by blast
qed

text \<open>
  The copy in memory is not refreshed within a run, so the progress goes back: once all disks are copied it
  is 75, and starting the conversion of the guest in the same run sets it to 70.
\<close>

lemma progress_goes_back:
  "\<exists>w1 w2 v1 v2. updateProgress demo_import (disksImportProgress demo_runtime [(''target-d'', 100)] 1) (demo_world poweredOff demo_import) = (Inr (), w1) \<and>
     updateProgress demo_import progressConvertingGuest w1 = (Inr (), w2) \<and>
     w_imports w1 (vi_key demo_import) = Some v1 \<and> progress_of v1 = 75 \<and>
     w_imports w2 (vi_key demo_import) = Some v2 \<and> progress_of v2 = 70"
proof -
  have "disksImportProgress demo_runtime [(''target-d'', 100)] 1 = ''75''" "Atoi ''75'' = Some 75"
    unfolding demo_runtime_def demo_surroundings_def by code_simp+
  then show ?thesis by (simp add: progress_of_def run_defs cong: run_cong)
qed

end
