(* ===== verification/OvirtClient.thy ===== *)
theory OvirtClient
  imports Providers
begin

text \<open>
  \<open>pkg/providers/ovirt/client/ovirt-client.go\<close>: the client of the oVirt engine, on the SDK.  A call of the SDK
  is an operation on the state \<open>'e\<close> of the source, given by the record \<open>ovirt_sdk\<close>.  The engine answers with
  links in place of the parts of a machine, and \<open>FollowLink\<close> fetches what a link points to as an
  \<open>interface{}\<close>: \<open>None\<close> stands for a value of another type, on which the type assertion panics.
\<close>

record connection_settings =
  cs_url :: string
  cs_username :: string
  cs_password :: string
  cs_ca_cert :: string

text \<open>
  \<open>sk_polls\<close> says how many polls of \<open>StopVM\<close> are answered before its timeout: at most the number of intervals of
  five seconds in five minutes.
\<close>

record 'e ovirt_sdk =
  sk_connect :: "connection_settings \<Rightarrow> ('e, unit) go"
  sk_close :: "connection_settings \<Rightarrow> ('e, unit) go"
  sk_test :: "connection_settings \<Rightarrow> ('e, unit) go"
  sk_get_vm :: "connection_settings \<Rightarrow> string \<Rightarrow> bool \<Rightarrow> ('e, ov_vm option) go"
  sk_list_vms :: "connection_settings \<Rightarrow> string \<Rightarrow> ('e, ov_vm list option) go"
  sk_shutdown :: "connection_settings \<Rightarrow> string \<Rightarrow> ('e, unit) go"
  sk_start :: "connection_settings \<Rightarrow> string \<Rightarrow> ('e, unit) go"
  sk_polls :: nat
  sk_nics :: "connection_settings \<Rightarrow> ov_nic list \<Rightarrow> ('e, ov_nic list option) go"
  sk_profile :: "connection_settings \<Rightarrow> ov_profile \<Rightarrow> ('e, ov_profile option) go"
  sk_network :: "connection_settings \<Rightarrow> string option \<Rightarrow> ('e, string option option) go"
  sk_nic_network :: "ov_nic \<Rightarrow> string option option"
  sk_attachments :: "connection_settings \<Rightarrow> ov_attachment list \<Rightarrow> ('e, ov_attachment list option) go"
  sk_disk :: "connection_settings \<Rightarrow> ov_disk \<Rightarrow> ('e, ov_disk option) go"
  sk_storage_domains :: "ov_disk \<Rightarrow> ov_domain list option"
  sk_domain :: "connection_settings \<Rightarrow> ov_domain \<Rightarrow> ('e, ov_domain option) go"
  sk_cdroms :: "connection_settings \<Rightarrow> ov_cdrom list \<Rightarrow> ('e, ov_cdrom list option) go"
  sk_floppies :: "connection_settings \<Rightarrow> string option list \<Rightarrow> ('e, string option list option) go"
  sk_host_devices :: "connection_settings \<Rightarrow> string option list \<Rightarrow> ('e, string option list option) go"
  sk_reported_devices :: "connection_settings \<Rightarrow> (string option \<times> string option) list \<Rightarrow>
    ('e, (string option \<times> string option) list option) go"
  sk_quota_href :: "string option \<Rightarrow> bool"
  sk_quota :: "connection_settings \<Rightarrow> string option \<Rightarrow> ('e, string option option) go"
  sk_watchdogs :: "connection_settings \<Rightarrow> string option list \<Rightarrow> ('e, string option list option) go"
  sk_consoles :: "connection_settings \<Rightarrow> string option list \<Rightarrow> ('e, string option list option) go"
  sk_instance_type :: "connection_settings \<Rightarrow> string option \<Rightarrow> ('e, string option option) go"
  sk_tags :: "connection_settings \<Rightarrow> string option list \<Rightarrow> ('e, string option list option) go"
  sk_cluster :: "connection_settings \<Rightarrow> string option \<Rightarrow> ('e, string option option) go"

section \<open>Panics\<close>

abbreviation conversion_panic :: go_error where
  "conversion_panic \<equiv> GoErr Panicked ''interface conversion: interface {} is nil''"

text \<open>The deferred function that turns a panic into an error of the named method.\<close>

definition grecover :: "string \<Rightarrow> ('e, 'a) go \<Rightarrow> ('e, 'a) go" where
  "grecover method m = (\<lambda>w. case m w of
      (Inl e, w') \<Rightarrow> (Inl (if is_panic e then errorf (''ovirt client panicked '' @ method @ '': '' @ emsg e) else e), w')
    | (Inr x, w') \<Rightarrow> (Inr x, w'))"

definition assert_type :: "'a option \<Rightarrow> go_error + 'a" where
  "assert_type x = (case x of None \<Rightarrow> Inl conversion_panic | Some y \<Rightarrow> Inr y)"

definition follow :: "('e, 'a option) go \<Rightarrow> ('e, 'a) go" where
  "follow m = gbind m (\<lambda>x. glift (assert_type x))"

section \<open>Finding a machine\<close>

fun getVMIDs :: "ov_vm list \<Rightarrow> go_error + string list" where
  "getVMIDs [] = Inr []"
| "getVMIDs (vm # vms) = rbind (must (ov_id vm)) (\<lambda>i. rbind (getVMIDs vms) (\<lambda>is. Inr (i # is)))"

definition vm_search :: "string \<Rightarrow> string option \<Rightarrow> string" where
  "vm_search name clusterName =
     (case clusterName of
        None \<Rightarrow> ''name='' @ name
      | Some c \<Rightarrow> ''name='' @ name @ '' and cluster='' @ c)"

text \<open>
  The id of the cluster is compared with the ids of the machines.  The messages end before the cluster and its
  id, which are printed as pointers.
\<close>

definition the_vm_of :: "string \<Rightarrow> string option \<Rightarrow> ov_vm list \<Rightarrow> go_error + ov_vm" where
  "the_vm_of name clusterID vms =
     (if length vms = 1 then Inr (hd vms)
      else if length vms > 1
      then (case (case clusterID of None \<Rightarrow> None | Some c \<Rightarrow> find (\<lambda>vm. str (ov_id vm) = c) vms) of
              Some vm \<Rightarrow> Inr vm
            | None \<Rightarrow> rbind (getVMIDs vms) (\<lambda>ids.
                Inl (errorf (''Found more than one virtual machine with name '' @ name @ ''. VM IDs: '' @ show_strings ids))))
      else Inl (errorf (''Virtual machine '' @ name @ '' not found'')))"

definition rich_fetchVM :: "'e ovirt_sdk \<Rightarrow> connection_settings \<Rightarrow> string option \<Rightarrow> string option \<Rightarrow> string option \<Rightarrow> string option \<Rightarrow>
    ('e, ov_vm) go" where
  "rich_fetchVM S c vmID name clusterName clusterID =
     (case vmID of
        Some i \<Rightarrow> gbind (sk_get_vm S c i True) (\<lambda>r. case r of
            Some vm \<Rightarrow> gret vm
          | None \<Rightarrow> gfail (errorf (''Virtual machine '' @ i @ '' not found'')))
      | None \<Rightarrow> (case name of
            None \<Rightarrow> gfail (errorf ''both ID and name of the VM are missing'')
          | Some n \<Rightarrow> gbind (sk_list_vms S c (vm_search n clusterName)) (\<lambda>vms.
              gbind (glift (deref vms)) (\<lambda>vms. glift (the_vm_of n clusterID vms)))))"

section \<open>Following the links of a machine\<close>

definition populateHostDevices :: "'e ovirt_sdk \<Rightarrow> connection_settings \<Rightarrow> ov_vm \<Rightarrow> ('e, ov_vm) go" where
  "populateHostDevices S c vm = (case ov_host_devices vm of None \<Rightarrow> gret vm
     | Some x \<Rightarrow> gbind (follow (sk_host_devices S c x)) (\<lambda>y. gret (vm\<lparr>ov_host_devices := Some y\<rparr>)))"

definition populateReportedDevices :: "'e ovirt_sdk \<Rightarrow> connection_settings \<Rightarrow> ov_vm \<Rightarrow> ('e, ov_vm) go" where
  "populateReportedDevices S c vm = (case ov_reported_devices vm of None \<Rightarrow> gret vm
     | Some x \<Rightarrow> gbind (follow (sk_reported_devices S c x)) (\<lambda>y. gret (vm\<lparr>ov_reported_devices := Some y\<rparr>)))"

definition populateCdRoms :: "'e ovirt_sdk \<Rightarrow> connection_settings \<Rightarrow> ov_vm \<Rightarrow> ('e, ov_vm) go" where
  "populateCdRoms S c vm = (case ov_cdroms vm of None \<Rightarrow> gret vm
     | Some x \<Rightarrow> gbind (follow (sk_cdroms S c x)) (\<lambda>y. gret (vm\<lparr>ov_cdroms := Some y\<rparr>)))"

definition populateFloppies :: "'e ovirt_sdk \<Rightarrow> connection_settings \<Rightarrow> ov_vm \<Rightarrow> ('e, ov_vm) go" where
  "populateFloppies S c vm = (case ov_floppies vm of None \<Rightarrow> gret vm
     | Some x \<Rightarrow> gbind (follow (sk_floppies S c x)) (\<lambda>y. gret (vm\<lparr>ov_floppies := Some y\<rparr>)))"

definition populateWatchdogs :: "'e ovirt_sdk \<Rightarrow> connection_settings \<Rightarrow> ov_vm \<Rightarrow> ('e, ov_vm) go" where
  "populateWatchdogs S c vm = (case ov_watchdogs vm of None \<Rightarrow> gret vm
     | Some x \<Rightarrow> gbind (follow (sk_watchdogs S c x)) (\<lambda>y. gret (vm\<lparr>ov_watchdogs := Some y\<rparr>)))"

definition populateGraphicsConsoles :: "'e ovirt_sdk \<Rightarrow> connection_settings \<Rightarrow> ov_vm \<Rightarrow> ('e, ov_vm) go" where
  "populateGraphicsConsoles S c vm = (case ov_graphics_consoles vm of None \<Rightarrow> gret vm
     | Some x \<Rightarrow> gbind (follow (sk_consoles S c x)) (\<lambda>y. gret (vm\<lparr>ov_graphics_consoles := Some y\<rparr>)))"

definition populateQuota :: "'e ovirt_sdk \<Rightarrow> connection_settings \<Rightarrow> ov_vm \<Rightarrow> ('e, ov_vm) go" where
  "populateQuota S c vm = (case ov_quota vm of None \<Rightarrow> gret vm
     | Some x \<Rightarrow> if sk_quota_href S x
         then gbind (follow (sk_quota S c x)) (\<lambda>y. gret (vm\<lparr>ov_quota := Some y\<rparr>)) else gret vm)"

definition populateInstanceType :: "'e ovirt_sdk \<Rightarrow> connection_settings \<Rightarrow> ov_vm \<Rightarrow> ('e, ov_vm) go" where
  "populateInstanceType S c vm = (case ov_instance_type vm of None \<Rightarrow> gret vm
     | Some x \<Rightarrow> gbind (follow (sk_instance_type S c x)) (\<lambda>y. gret (vm\<lparr>ov_instance_type := Some y\<rparr>)))"

definition populateTags :: "'e ovirt_sdk \<Rightarrow> connection_settings \<Rightarrow> ov_vm \<Rightarrow> ('e, ov_vm) go" where
  "populateTags S c vm = (case ov_tags vm of None \<Rightarrow> gret vm
     | Some x \<Rightarrow> gbind (follow (sk_tags S c x)) (\<lambda>y. gret (vm\<lparr>ov_tags := Some y\<rparr>)))"

definition populateCluster :: "'e ovirt_sdk \<Rightarrow> connection_settings \<Rightarrow> ov_vm \<Rightarrow> ('e, ov_vm) go" where
  "populateCluster S c vm = (case ov_cluster vm of None \<Rightarrow> gret vm
     | Some x \<Rightarrow> gbind (follow (sk_cluster S c x)) (\<lambda>y. gret (vm\<lparr>ov_cluster := Some y\<rparr>)))"

text \<open>The profile of an interface with its network, and the network of the interface itself, which nothing reads.\<close>

definition populate_nic :: "'e ovirt_sdk \<Rightarrow> connection_settings \<Rightarrow> ov_nic \<Rightarrow> ('e, ov_nic) go" where
  "populate_nic S c nic =
     gbind (case nc_profile nic of
         None \<Rightarrow> gret nic
       | Some prof \<Rightarrow> gbind (follow (sk_profile S c prof)) (\<lambda>vnic.
           gbind (case vp_network vnic of
               None \<Rightarrow> gret vnic
             | Some net \<Rightarrow> gbind (follow (sk_network S c net)) (\<lambda>network. gret (vnic\<lparr>vp_network := Some network\<rparr>))) (\<lambda>vnic.
             gret (nic\<lparr>nc_profile := Some vnic\<rparr>)))) (\<lambda>nic.
     gbind (case sk_nic_network S nic of
         None \<Rightarrow> gret ()
       | Some net \<Rightarrow> gbind (follow (sk_network S c net)) (\<lambda>_. gret ())) (\<lambda>_.
       gret nic))"

fun each :: "('a \<Rightarrow> ('e, 'b) go) \<Rightarrow> 'a list \<Rightarrow> ('e, 'b list) go" where
  "each f [] = gret []"
| "each f (x # xs) = gbind (f x) (\<lambda>y. gbind (each f xs) (\<lambda>ys. gret (y # ys)))"

text \<open>The type of the answer is asserted before its error is looked at, so an error panics.\<close>

definition populateNics :: "'e ovirt_sdk \<Rightarrow> connection_settings \<Rightarrow> ov_vm \<Rightarrow> ('e, ov_vm) go" where
  "populateNics S c vm = (case ov_nics vm of None \<Rightarrow> gret vm
     | Some x \<Rightarrow> gtry (follow (sk_nics S c x)) (\<lambda>e. gfail conversion_panic) (\<lambda>nics.
         gbind (each (populate_nic S c) nics) (\<lambda>nics. gret (vm\<lparr>ov_nics := Some nics\<rparr>))))"

definition populate_disk :: "'e ovirt_sdk \<Rightarrow> connection_settings \<Rightarrow> ov_attachment \<Rightarrow> ('e, ov_attachment) go" where
  "populate_disk S c da =
     (case da_disk da of
        None \<Rightarrow> gret da
      | Some disk \<Rightarrow> gbind (follow (sk_disk S c disk)) (\<lambda>diskPopulated.
          gbind (case sk_storage_domains S diskPopulated of
              None \<Rightarrow> gret diskPopulated
            | Some [] \<Rightarrow> gfail (GoErr Panicked ''index out of range'')
            | Some (storageDomainHref # _) \<Rightarrow> gbind (follow (sk_domain S c storageDomainHref)) (\<lambda>sd.
                gret (diskPopulated\<lparr>od_storage_domain := Some sd\<rparr>))) (\<lambda>diskPopulated.
            gret (da\<lparr>da_disk := Some diskPopulated\<rparr>))))"

definition populateDiskAttachments :: "'e ovirt_sdk \<Rightarrow> connection_settings \<Rightarrow> ov_vm \<Rightarrow> ('e, ov_vm) go" where
  "populateDiskAttachments S c vm = (case ov_disk_attachments vm of None \<Rightarrow> gret vm
     | Some x \<Rightarrow> gbind (follow (sk_attachments S c x)) (\<lambda>das.
         gbind (each (populate_disk S c) das) (\<lambda>das. gret (vm\<lparr>ov_disk_attachments := Some das\<rparr>))))"

definition rich_GetVM :: "'e ovirt_sdk \<Rightarrow> connection_settings \<Rightarrow> string option \<Rightarrow> string option \<Rightarrow> string option \<Rightarrow> string option \<Rightarrow>
    ('e, ov_vm) go" where
  "rich_GetVM S c vmID name cluster clusterID = grecover ''GetVM''
     (gbind (rich_fetchVM S c vmID name cluster clusterID) (\<lambda>vm.
      gbind (populateNics S c vm) (\<lambda>vm.
      gbind (populateDiskAttachments S c vm) (\<lambda>vm.
      gbind (populateCdRoms S c vm) (\<lambda>vm.
      gbind (populateFloppies S c vm) (\<lambda>vm.
      gbind (populateHostDevices S c vm) (\<lambda>vm.
      gbind (populateReportedDevices S c vm) (\<lambda>vm.
      gbind (populateQuota S c vm) (\<lambda>vm.
      gbind (populateWatchdogs S c vm) (\<lambda>vm.
      gbind (populateGraphicsConsoles S c vm) (\<lambda>vm.
      gbind (populateInstanceType S c vm) (\<lambda>vm.
      gbind (populateTags S c vm) (\<lambda>vm.
        populateCluster S c vm)))))))))))))"

section \<open>Stopping and starting a machine\<close>

text \<open>
  The polls run in a goroutine of their own, whose panics nothing recovers.  A poll whose request fails has no
  response, and one without a machine goes on to read its status: both panic.
\<close>

fun poll_down :: "'e ovirt_sdk \<Rightarrow> connection_settings \<Rightarrow> string \<Rightarrow> nat \<Rightarrow> ov_vm option \<Rightarrow> ('e, unit) go" where
  "poll_down S c i 0 seen =
     gfail (errorf (''Failed to stop vm '' @ i @ '', current status is '' @
       (case seen of None \<Rightarrow> ''unknown'' | Some vm \<Rightarrow> (case ov_status vm of None \<Rightarrow> ''unknown'' | Some s \<Rightarrow> s))))"
| "poll_down S c i (Suc n) seen =
     gtry (sk_get_vm S c i False) (\<lambda>e. gfail nil_deref) (\<lambda>r.
       gbind (glift (deref r)) (\<lambda>vm.
         if ov_status vm = Some ''down'' then gret () else poll_down S c i n (Some vm)))"

definition rich_StopVM :: "'e ovirt_sdk \<Rightarrow> connection_settings \<Rightarrow> string \<Rightarrow> ('e, unit) go" where
  "rich_StopVM S c i =
     gbind (grecover ''in StopVM'' (sk_shutdown S c i)) (\<lambda>_. poll_down S c i (sk_polls S) None)"

definition rich_StartVM :: "'e ovirt_sdk \<Rightarrow> connection_settings \<Rightarrow> string \<Rightarrow> ('e, unit) go" where
  "rich_StartVM S c i = grecover ''in StartVM''
     (gtry (sk_get_vm S c i False) (\<lambda>e. gfail nil_deref) (\<lambda>r.
        case r of
          None \<Rightarrow> gfail (errorf (''Failed to start vm '' @ i @ '', vm is not available''))
        | Some vm \<Rightarrow> if ov_status vm = Some ''down'' then sk_start S c i else gret ()))"

section \<open>The client\<close>

definition rich_TestConnection :: "'e ovirt_sdk \<Rightarrow> connection_settings \<Rightarrow> ('e, unit) go" where
  "rich_TestConnection S c = sk_test S c"

definition rich_Close :: "'e ovirt_sdk \<Rightarrow> connection_settings \<Rightarrow> ('e, unit) go" where
  "rich_Close S c = sk_close S c"

definition NewRichOvirtClient :: "'e ovirt_sdk \<Rightarrow> connection_settings \<Rightarrow> ('e, unit) go" where
  "NewRichOvirtClient S c = sk_connect S c"

text \<open>The settings that \<open>NewOvirtClient\<close> of the client factory takes from the data of the secret.\<close>

definition ovirt_settings :: "(string \<rightharpoonup> string) \<Rightarrow> connection_settings" where
  "ovirt_settings dataMap =
     \<lparr>cs_url = config_value dataMap ''apiUrl'', cs_username = config_value dataMap ''username'',
      cs_password = config_value dataMap ''password'', cs_ca_cert = config_value dataMap ''caCert''\<rparr>"

definition NewOvirtClient :: "'e ovirt_sdk \<Rightarrow> ('e, ov_vm) vm_client" where
  "NewOvirtClient S =
     \<lparr>cl_New = (\<lambda>d. NewRichOvirtClient S (ovirt_settings d)), cl_GetVM = (\<lambda>d. rich_GetVM S (ovirt_settings d)),
      cl_StopVM = (\<lambda>d. rich_StopVM S (ovirt_settings d)), cl_StartVM = (\<lambda>d. rich_StartVM S (ovirt_settings d)),
      cl_TestConnection = (\<lambda>d. rich_TestConnection S (ovirt_settings d)), cl_Close = (\<lambda>d. rich_Close S (ovirt_settings d))\<rparr>"

end
