(* ===== verification/VmwareClient.thy ===== *)
theory VmwareClient
  imports Providers
begin

text \<open>
  \<open>pkg/providers/vmware/client/client.go\<close>: the client of vCenter or ESXi, on govmomi.  A call of govmomi is an
  operation on the state \<open>'e\<close> of the source, given by the record \<open>vim_sdk\<close>; running into the timeout of the
  client is one of its errors.
\<close>

record parsed_url =
  pu_text :: string
  pu_user :: "(string \<times> string) option"

text \<open>What \<open>RichVmwareClient\<close> keeps: the URL with its thumbprint, and the user.\<close>

record vim_client =
  rc_url :: parsed_url
  rc_user :: "string \<times> string"
  rc_thumbprint :: string

record 'e vim_sdk =
  vk_parse :: "string \<Rightarrow> go_error + parsed_url"
  vk_connect :: "parsed_url \<Rightarrow> string \<Rightarrow> ('e, unit) go"
  vk_login :: "vim_client \<Rightarrow> ('e, unit) go"
  vk_logout :: "vim_client \<Rightarrow> ('e, unit) go"
  vk_get :: "vim_client \<Rightarrow> ('e, unit) go"
  vk_find_by_uuid :: "vim_client \<Rightarrow> string \<Rightarrow> ('e, string option) go"
  vk_find_by_path :: "vim_client \<Rightarrow> string \<Rightarrow> ('e, vw_object) go"
  vk_properties :: "vim_client \<Rightarrow> string \<Rightarrow> ('e, vw_properties) go"
  vk_host_system :: "vim_client \<Rightarrow> string \<Rightarrow> ('e, string) go"
  vk_host_properties :: "vim_client \<Rightarrow> string \<Rightarrow> ('e, int option) go"
  vk_power_state :: "vim_client \<Rightarrow> string \<Rightarrow> ('e, string) go"
  vk_power_on :: "vim_client \<Rightarrow> string \<Rightarrow> ('e, unit) go"
  vk_power_off :: "vim_client \<Rightarrow> string \<Rightarrow> ('e, string) go"
  vk_wait :: "vim_client \<Rightarrow> string \<Rightarrow> ('e, unit) go"

section \<open>Connecting\<close>

text \<open>The user of the URL wins over the one of the secret.\<close>

definition client_for :: "parsed_url \<Rightarrow> string \<Rightarrow> string \<Rightarrow> string \<Rightarrow> vim_client" where
  "client_for u username password thumbprint =
     \<lparr>rc_url = u, rc_user = (case pu_user u of None \<Rightarrow> (username, password) | Some user \<Rightarrow> user), rc_thumbprint = thumbprint\<rparr>"

definition NewRichVMWareClient :: "'e vim_sdk \<Rightarrow> string \<Rightarrow> string \<Rightarrow> string \<Rightarrow> string \<Rightarrow> ('e, vim_client) go" where
  "NewRichVMWareClient S apiUrl username password thumbprint =
     gbind (glift (vk_parse S apiUrl)) (\<lambda>u.
       let client = client_for u username password thumbprint
       in gbind (vk_connect S u thumbprint) (\<lambda>_.
          gbind (vk_login S client) (\<lambda>_. gret client)))"

definition vim_TestConnection :: "'e vim_sdk \<Rightarrow> vim_client \<Rightarrow> ('e, unit) go" where
  "vim_TestConnection S r = vk_get S r"

definition vim_Close :: "'e vim_sdk \<Rightarrow> vim_client \<Rightarrow> ('e, unit) go" where
  "vim_Close S r = vk_logout S r"

section \<open>Finding a machine\<close>

definition getVMByMoRef :: "string \<Rightarrow> vw_object" where
  "getVMByMoRef moRef = \<lparr>wo_reference = moRef, wo_inventory_path = []\<rparr>"

text \<open>An object made from a reference has no inventory path.\<close>

definition getVMByUUID :: "'e vim_sdk \<Rightarrow> vim_client \<Rightarrow> string \<Rightarrow> ('e, vw_object) go" where
  "getVMByUUID S r i =
     gbind (vk_find_by_uuid S r i) (\<lambda>vmRef. case vmRef of
         None \<Rightarrow> gfail (errorf (''vm '' @ apos @ i @ apos @ '' not found''))
       | Some reference \<Rightarrow> gret \<lparr>wo_reference = reference, wo_inventory_path = []\<rparr>)"

definition getVMByInventoryPath :: "'e vim_sdk \<Rightarrow> vim_client \<Rightarrow> string \<Rightarrow> ('e, vw_object) go" where
  "getVMByInventoryPath S r vmPath = vk_find_by_path S r vmPath"

definition vim_GetVM :: "'e vim_sdk \<Rightarrow> vim_client \<Rightarrow> string option \<Rightarrow> string option \<Rightarrow> string option \<Rightarrow> string option \<Rightarrow>
    ('e, vw_object) go" where
  "vim_GetVM S r vmID name cluster clusterID =
     (case vmID of
        Some i \<Rightarrow> getVMByUUID S r i
      | None \<Rightarrow> (case name of
            Some n \<Rightarrow> getVMByInventoryPath S r n
          | None \<Rightarrow> gfail (errorf ''not found'')))"

definition vim_GetVMProperties :: "'e vim_sdk \<Rightarrow> vim_client \<Rightarrow> vw_object \<Rightarrow> ('e, vw_properties) go" where
  "vim_GetVMProperties S r vm = vk_properties S r (wo_reference vm)"

text \<open>Of the properties of the host the mapper reads the offset of its time zone.\<close>

definition vim_GetVMHostProperties :: "'e vim_sdk \<Rightarrow> vim_client \<Rightarrow> vw_object \<Rightarrow> ('e, int option) go" where
  "vim_GetVMHostProperties S r vm = gbind (vk_host_system S r (wo_reference vm)) (vk_host_properties S r)"

section \<open>Stopping and starting a machine\<close>

definition vim_StartVM :: "'e vim_sdk \<Rightarrow> vim_client \<Rightarrow> string \<Rightarrow> ('e, unit) go" where
  "vim_StartVM S r moRef =
     (let vm = getVMByMoRef moRef
      in gbind (vk_power_state S r (wo_reference vm)) (\<lambda>powerState.
           if powerState \<noteq> poweredOn then vk_power_on S r (wo_reference vm) else gret ()))"

definition vim_StopVM :: "'e vim_sdk \<Rightarrow> vim_client \<Rightarrow> string \<Rightarrow> ('e, unit) go" where
  "vim_StopVM S r moRef =
     (let vm = getVMByMoRef moRef
      in gbind (vk_power_state S r (wo_reference vm)) (\<lambda>powerState.
           if powerState \<noteq> poweredOff
           then gbind (vk_power_off S r (wo_reference vm)) (\<lambda>task. vk_wait S r task)
           else gret ()))"

section \<open>The client\<close>

text \<open>
  The client that \<open>NewVmwareClient\<close> of the factory makes of the data of the secret.  A method of a client that has
  been made works on the parts of its URL, so parsing it again gives the same client.
\<close>

definition with_client :: "'e vim_sdk \<Rightarrow> (string \<rightharpoonup> string) \<Rightarrow> (vim_client \<Rightarrow> ('e, 'a) go) \<Rightarrow> ('e, 'a) go" where
  "with_client S dataMap m =
     gbind (glift (vk_parse S (config_value dataMap ''apiUrl''))) (\<lambda>u.
       m (client_for u (config_value dataMap ''username'') (config_value dataMap ''password'') (config_value dataMap ''thumbprint'')))"

definition NewVmwareClient :: "'e vim_sdk \<Rightarrow> 'e vmware_client" where
  "NewVmwareClient S =
     \<lparr>cl_New = (\<lambda>d. gbind (NewRichVMWareClient S (config_value d ''apiUrl'') (config_value d ''username'')
          (config_value d ''password'') (config_value d ''thumbprint'')) (\<lambda>_. gret ())),
      cl_GetVM = (\<lambda>d i n c c'. with_client S d (\<lambda>r. vim_GetVM S r i n c c')),
      cl_StopVM = (\<lambda>d i. with_client S d (\<lambda>r. vim_StopVM S r i)), cl_StartVM = (\<lambda>d i. with_client S d (\<lambda>r. vim_StartVM S r i)),
      cl_TestConnection = (\<lambda>d. with_client S d (vim_TestConnection S)), cl_Close = (\<lambda>d. with_client S d (vim_Close S)),
      cl_GetVMProperties = (\<lambda>d vm. with_client S d (\<lambda>r. vim_GetVMProperties S r vm)),
      cl_GetVMHostProperties = (\<lambda>d vm. with_client S d (\<lambda>r. vim_GetVMHostProperties S r vm))\<rparr>"

end
