(* ===== verification/ClientSpec.thy ===== *)
theory ClientSpec
  imports OvirtClient VmwareClient ValidationSpec
begin

text \<open>
  What the clients of the source systems promise the providers: which machine they find, what following the
  links of a machine changes, and when stopping a machine returns.
\<close>

section \<open>Following links\<close>

text \<open>Only the parts behind links change, and none of them appears or disappears.\<close>

definition same_presence :: "'a option \<Rightarrow> 'b option \<Rightarrow> bool" where
  "same_presence x y \<longleftrightarrow> (x = None \<longleftrightarrow> y = None)"

definition relinked :: "ov_vm \<Rightarrow> ov_vm \<Rightarrow> bool" where
  "relinked v v' \<longleftrightarrow>
     v' = v\<lparr>ov_cluster := ov_cluster v', ov_host_devices := ov_host_devices v', ov_graphics_consoles := ov_graphics_consoles v',
       ov_reported_devices := ov_reported_devices v', ov_quota := ov_quota v', ov_watchdogs := ov_watchdogs v',
       ov_cdroms := ov_cdroms v', ov_floppies := ov_floppies v', ov_nics := ov_nics v',
       ov_disk_attachments := ov_disk_attachments v', ov_instance_type := ov_instance_type v', ov_tags := ov_tags v'\<rparr> \<and>
     same_presence (ov_cluster v) (ov_cluster v') \<and> same_presence (ov_host_devices v) (ov_host_devices v') \<and>
     same_presence (ov_graphics_consoles v) (ov_graphics_consoles v') \<and> same_presence (ov_reported_devices v) (ov_reported_devices v') \<and>
     same_presence (ov_quota v) (ov_quota v') \<and> same_presence (ov_watchdogs v) (ov_watchdogs v') \<and>
     same_presence (ov_cdroms v) (ov_cdroms v') \<and> same_presence (ov_floppies v) (ov_floppies v') \<and>
     same_presence (ov_nics v) (ov_nics v') \<and> same_presence (ov_disk_attachments v) (ov_disk_attachments v') \<and>
     same_presence (ov_instance_type v) (ov_instance_type v') \<and> same_presence (ov_tags v) (ov_tags v')"

lemma relinked_refl: "relinked v v"
  by (simp add: relinked_def same_presence_def)

lemma relinked_trans: "relinked u v \<Longrightarrow> relinked v w \<Longrightarrow> relinked u w"
proof -
  assume uv: "relinked u v" and vw: "relinked v w"
  have "same_presence (f u) (f v) \<Longrightarrow> same_presence (f v) (f w) \<Longrightarrow> same_presence (f u) (f w)" for f :: "ov_vm \<Rightarrow> 'x option"
    by (simp add: same_presence_def)
  with uv vw show ?thesis by (cases u; cases v; cases w) (simp add: relinked_def same_presence_def)
qed

text \<open>A step of \<open>GetVM\<close> on a machine.\<close>

definition relinks :: "(ov_vm \<Rightarrow> ('e, ov_vm) go) \<Rightarrow> bool" where
  "relinks m \<longleftrightarrow> (\<forall>v w v' w'. m v w = (Inr v', w') \<longrightarrow> relinked v v')"

lemma relinks_gbind: "relinks m \<Longrightarrow> relinks k \<Longrightarrow> relinks (\<lambda>v. gbind (m v) k)"
  unfolding relinks_def gbind_returns using relinked_trans by blast

lemma relinks_populate:
  "relinks (populateHostDevices S c)" "relinks (populateReportedDevices S c)" "relinks (populateCdRoms S c)"
  "relinks (populateFloppies S c)" "relinks (populateWatchdogs S c)" "relinks (populateGraphicsConsoles S c)"
  "relinks (populateQuota S c)" "relinks (populateInstanceType S c)" "relinks (populateTags S c)"
  "relinks (populateCluster S c)" "relinks (populateNics S c)" "relinks (populateDiskAttachments S c)"
  unfolding relinks_def relinked_def same_presence_def
  by (auto simp: gbind_returns gtry_returns populateHostDevices_def populateReportedDevices_def populateCdRoms_def
      populateFloppies_def populateWatchdogs_def populateGraphicsConsoles_def populateQuota_def populateInstanceType_def
      populateTags_def populateCluster_def populateNics_def populateDiskAttachments_def split: option.splits if_splits)

lemma grecover_returns: "grecover n m w = (Inr x, w') \<longleftrightarrow> m w = (Inr x, w')"
  by (auto simp: grecover_def split: prod.splits sum.splits)

lemma grecover_fails: "grecover n m w = (Inl e, w') \<Longrightarrow> \<not> is_panic e"
  by (auto simp: grecover_def split: prod.splits sum.splits if_splits)

definition followed :: "'e ovirt_sdk \<Rightarrow> connection_settings \<Rightarrow> ov_vm \<Rightarrow> ('e, ov_vm) go" where
  "followed S c = (\<lambda>vm. gbind (populateNics S c vm) (\<lambda>vm. gbind (populateDiskAttachments S c vm) (\<lambda>vm.
     gbind (populateCdRoms S c vm) (\<lambda>vm. gbind (populateFloppies S c vm) (\<lambda>vm.
     gbind (populateHostDevices S c vm) (\<lambda>vm. gbind (populateReportedDevices S c vm) (\<lambda>vm.
     gbind (populateQuota S c vm) (\<lambda>vm. gbind (populateWatchdogs S c vm) (\<lambda>vm.
     gbind (populateGraphicsConsoles S c vm) (\<lambda>vm. gbind (populateInstanceType S c vm) (\<lambda>vm.
     gbind (populateTags S c vm) (\<lambda>vm. populateCluster S c vm))))))))))))"

lemma GetVM_chain:
  "rich_GetVM S c vmID name cluster clusterID = grecover ''GetVM'' (gbind (rich_fetchVM S c vmID name cluster clusterID) (followed S c))"
  by (simp add: rich_GetVM_def followed_def)

lemma relinks_followed: "relinks (followed S c)"
  unfolding followed_def by (intro relinks_gbind relinks_populate)

text \<open>
  C20. Whatever the SDK answers, \<open>GetVM\<close> of the oVirt client returns an error that is no panic, or the machine it
  found with links followed: every other part is as the engine gave it, and no part appears or disappears.
\<close>

theorem GetVM_keeps_machine:
  "case rich_GetVM S c vmID name cluster clusterID w of
     (Inl e, w') \<Rightarrow> \<not> is_panic e
   | (Inr v', w') \<Rightarrow> \<exists>v w1. rich_fetchVM S c vmID name cluster clusterID w = (Inr v, w1) \<and> relinked v v'"
proof (cases "rich_GetVM S c vmID name cluster clusterID w")
  case (Pair r w')
  show ?thesis
  proof (cases r)
    case (Inl e)
    with Pair show ?thesis by (auto simp: GetVM_chain dest: grecover_fails)
  next
    case (Inr v')
    with Pair obtain v w1 where v: "rich_fetchVM S c vmID name cluster clusterID w = (Inr v, w1)" "followed S c v w1 = (Inr v', w')"
      by (auto simp: GetVM_chain grecover_returns gbind_returns)
    with relinks_followed [of S c] have "relinked v v'" unfolding relinks_def by blast
    with Pair Inr v(1) show ?thesis by auto
  qed
qed

section \<open>An engine\<close>

text \<open>An engine with the machines given; its state is the status of every machine, or that it does not answer.\<close>

definition answer :: "'a \<Rightarrow> (string, 'a) go" where
  "answer x = (\<lambda>w. if w = ''broken'' then (Inl (errorf ''no answer''), w) else (Inr x, w))"

definition engine :: "(string \<times> string) list \<Rightarrow> nat \<Rightarrow> string ovirt_sdk" where
  "engine machines polls =
     (let machine = (\<lambda>status (i, cluster). blank_machine\<lparr>ov_id := Some i, ov_status := Some status, ov_cluster := Some (Some cluster)\<rparr>)
      in \<lparr>sk_connect = (\<lambda>c. answer ()), sk_close = (\<lambda>c. gret ()), sk_test = (\<lambda>c. answer ()),
          sk_get_vm = (\<lambda>c i b w. answer (map_option (\<lambda>cl. machine w (i, cl)) (map_of machines i)) w),
          sk_list_vms = (\<lambda>c s w. answer (Some (map (machine w) machines)) w),
          sk_shutdown = (\<lambda>c i w. (Inr (), if w = ''failing'' then ''broken'' else ''down'')), sk_start = (\<lambda>c i w. (Inr (), ''up'')),
          sk_polls = polls, sk_nics = (\<lambda>c x. answer (Some x)), sk_profile = (\<lambda>c x. answer (Some x)),
          sk_network = (\<lambda>c x. answer (Some x)), sk_nic_network = (\<lambda>n. None), sk_attachments = (\<lambda>c x. answer (Some x)),
          sk_disk = (\<lambda>c x. answer (Some x)), sk_storage_domains = (\<lambda>d. None), sk_domain = (\<lambda>c x. answer (Some x)),
          sk_cdroms = (\<lambda>c x. answer (Some x)), sk_floppies = (\<lambda>c x. answer (Some x)), sk_host_devices = (\<lambda>c x. answer (Some x)),
          sk_reported_devices = (\<lambda>c x. answer (Some x)), sk_quota_href = (\<lambda>q. True), sk_quota = (\<lambda>c x. answer (Some x)),
          sk_watchdogs = (\<lambda>c x. answer (Some x)), sk_consoles = (\<lambda>c x. answer (Some x)), sk_instance_type = (\<lambda>c x. answer (Some x)),
          sk_tags = (\<lambda>c x. answer (Some x)), sk_cluster = (\<lambda>c x. answer (Some x))\<rparr>)"

definition no_settings :: connection_settings where
  "no_settings = \<lparr>cs_url = [], cs_username = [], cs_password = [], cs_ca_cert = []\<rparr>"

lemmas engine_run = engine_def answer_def blank_machine_def

section \<open>Finding a machine\<close>

lemma getVMIDs_all: "list_all (\<lambda>vm. ov_id vm \<noteq> None) vms \<Longrightarrow> \<exists>ids. getVMIDs vms = Inr ids"
  by (induction vms) (auto simp: must_def)

text \<open>
  C38. A machine whose name is not unique cannot be found by the id of its cluster: the id is compared with the ids
  of the machines, so \<open>GetVM\<close> fails, although the cluster may have exactly one of them.
\<close>

theorem cluster_id_finds_nothing:
  assumes "sk_list_vms S c (vm_search n clusterName) w = (Inr (Some vms), w')" and "length vms > 1"
    and "list_all (\<lambda>vm. ov_id vm \<noteq> None \<and> ov_id vm \<noteq> Some clusterID) vms"
  shows "\<exists>e. rich_GetVM S c None (Some n) clusterName (Some clusterID) w = (Inl e, w') \<and> \<not> is_panic e"
proof -
  from assms(3) obtain ids where ids: "getVMIDs vms = Inr ids" using getVMIDs_all [of vms] by (auto simp: list_all_iff)
  have "find (\<lambda>vm. str (ov_id vm) = clusterID) vms = None" using assms(3) by (auto simp: find_None_set list_all_iff)
  then have "\<exists>e. the_vm_of n (Some clusterID) vms = Inl e \<and> \<not> is_panic e" using assms(2) ids by (simp add: the_vm_of_def)
  then show ?thesis using assms(1) by (auto simp: rich_GetVM_def rich_fetchVM_def grecover_def gbind_unfold)
qed

theorem cluster_id_finds_nothing_witness:
  "\<exists>e. rich_GetVM (engine [(''vm-1'', ''east''), (''vm-2'', ''west'')] 1) no_settings None (Some ''db'') None (Some ''west'') ''up'' =
     (Inl e, ''up'') \<and> \<not> is_panic e"
  by (rule cluster_id_finds_nothing [where vms = "map (\<lambda>(i, cl). blank_machine\<lparr>ov_id := Some i, ov_status := Some ''up'',
        ov_cluster := Some (Some cl)\<rparr>) [(''vm-1'', ''east''), (''vm-2'', ''west'')]"])
    (simp_all add: engine_run Let_def)

section \<open>Stopping a machine\<close>

lemma poll_down_returns:
  "poll_down S c i n seen w = (Inr (), w') \<Longrightarrow> \<exists>w1 vm. sk_get_vm S c i False w1 = (Inr (Some vm), w') \<and> ov_status vm = Some ''down''"
  by (induction n arbitrary: seen w) (auto simp: gtry_returns gbind_returns split: if_splits)

text \<open>
  C19. \<open>StopVM\<close> of the oVirt client returns without an error only when the last answer of the engine was that the
  machine is down.
\<close>

theorem StopVM_waits_for_down:
  assumes "rich_StopVM S c i w = (Inr (), w')"
  shows "\<exists>w1 vm. sk_get_vm S c i False w1 = (Inr (Some vm), w') \<and> ov_status vm = Some ''down''"
  using assms poll_down_returns by (fastforce simp: rich_StopVM_def gbind_returns)

theorem StopVM_waits_for_down_witness:
  "\<exists>w1 vm. sk_get_vm (engine [(''vm-1'', ''east'')] 3) no_settings ''vm-1'' False w1 = (Inr (Some vm), ''down'') \<and> ov_status vm = Some ''down''"
proof (rule StopVM_waits_for_down)
  have "3 = Suc 2" by simp
  then show "rich_StopVM (engine [(''vm-1'', ''east'')] 3) no_settings ''vm-1'' ''up'' = (Inr (), ''down'')"
    by (simp add: rich_StopVM_def engine_run gbind_unfold gtry_unfold grecover_def numeral_3_eq_3)
qed

text \<open>
  An error of the engine while \<open>StopVM\<close> of the oVirt client waits ends in a panic outside of the function that
  would recover it, whatever the error.
\<close>

lemma poll_error_panics:
  assumes "sk_shutdown S c i w = (Inr (), w1)" and "sk_get_vm S c i False w1 = (Inl e, w2)" and "0 < sk_polls S"
  shows "\<exists>p. rich_StopVM S c i w = (Inl p, w2) \<and> is_panic p"
proof -
  obtain n where "sk_polls S = Suc n" using assms(3) by (cases "sk_polls S") auto
  then show ?thesis using assms(1,2) by (simp add: rich_StopVM_def gbind_unfold gtry_unfold grecover_def)
qed

lemma poll_error_panics_example:
  "\<exists>p. rich_StopVM (engine [(''vm-1'', ''east'')] 3) no_settings ''vm-1'' ''failing'' = (Inl p, ''broken'') \<and> is_panic p"
  by (rule poll_error_panics [where ?w1.0 = "''broken''" and e = "errorf ''no answer''"]) (simp_all add: engine_run Let_def)

section \<open>Machines of a vCenter\<close>

text \<open>
  A VMware machine that is looked up by its id has no name: without a target name in the import the mapper
  resolves none, and the definition without a template is then made from a nil name, which panics.
\<close>

lemma vmware_id_has_no_name:
  assumes "vim_GetVM S client (Some i) name cluster clusterID w = (Inr vm, w')" and "wm_vm r = vm"
  shows "vmware_ResolveVMName r None = None \<and> (\<exists>e. CreateEmptyVM (vmware_ResolveVMName r None) = Inl e \<and> is_panic e)"
proof -
  have "wo_inventory_path vm = []" using assms(1) by (auto simp: vim_GetVM_def getVMByUUID_def gbind_returns split: option.splits)
  moreover have "\<exists>e. NormalizeName [] = Inl e" by (simp add: NormalizeName_def normalize_def)
  ultimately show ?thesis using assms(2)
    by (auto simp: vmware_ResolveVMName_def vmware_resolveVMNameBase_def object_name_def CreateEmptyVM_def)
qed

definition vcenter :: "unit vim_sdk" where
  "vcenter =
     \<lparr>vk_parse = (\<lambda>s. Inr \<lparr>pu_text = s, pu_user = None\<rparr>), vk_connect = (\<lambda>u t. gret ()), vk_login = (\<lambda>r. gret ()),
      vk_logout = (\<lambda>r. gret ()), vk_get = (\<lambda>r. gret ()), vk_find_by_uuid = (\<lambda>r i. gret (Some ''vm-1'')),
      vk_find_by_path = (\<lambda>r p. gret \<lparr>wo_reference = ''vm-1'', wo_inventory_path = p\<rparr>),
      vk_properties = (\<lambda>r m. gret (demo_properties [] poweredOff)), vk_host_system = (\<lambda>r m. gret ''host-1''),
      vk_host_properties = (\<lambda>r h. gret None), vk_power_state = (\<lambda>r m. gret poweredOff), vk_power_on = (\<lambda>r m. gret ()),
      vk_power_off = (\<lambda>r m. gret ''task-1''), vk_wait = (\<lambda>r t. gret ())\<rparr>"

definition vcenter_mapper :: "vw_object \<Rightarrow> vmware_mapper" where
  "vcenter_mapper vm = \<lparr>wm_vm = vm, wm_properties = demo_properties [] poweredOff, wm_gmt_offset = None,
     wm_credentials = \<lparr>vc_url = [], vc_username = [], vc_password = [], vc_thumbprint = [], vc_secret = []\<rparr>,
     wm_mappings = None, wm_namespace = ''ns'', wm_os_finder = \<lparr>of_name = [], of_namespace = []\<rparr>\<rparr>"

lemma vmware_id_has_no_name_example:
  "vmware_ResolveVMName (vcenter_mapper \<lparr>wo_reference = ''vm-1'', wo_inventory_path = []\<rparr>) None = None"
  using vmware_id_has_no_name [of vcenter "client_for \<lparr>pu_text = [], pu_user = None\<rparr> [] [] []" "''uuid''" None None None "()"
      "\<lparr>wo_reference = ''vm-1'', wo_inventory_path = []\<rparr>" "()" "vcenter_mapper \<lparr>wo_reference = ''vm-1'', wo_inventory_path = []\<rparr>"]
  by (simp add: vim_GetVM_def getVMByUUID_def vcenter_def vcenter_mapper_def)

end
