(* ===== verification/Schema.thy ===== *)
theory Schema
  imports Prelude
begin

text \<open>
  JSON documents and the schemas of custom resources: \<open>JSONSchemaProps\<close> of the package \<open>apiextensions/v1\<close>, as
  far as the program's resource definitions use it, and what the API server does with a document by means
  of a schema: it removes the fields that the schema does not have
  (\<open>apiextensions-apiserver/pkg/apiserver/schema/pruning\<close>) and validates the rest.

  \<^item> A string in a field of the format \<open>date-time\<close> is a \<open>JTime\<close>, seconds since the epoch; the calendar is not modelled.
  \<^item> The documents of the program have no fractions, so numbers are integers.
  \<^item> \<open>extends s t\<close> decides that every document of the schema \<open>s\<close> is one of \<open>t\<close>.
\<close>

section \<open>Documents and schemas\<close>

datatype json =
    JNull
  | JBool bool
  | JInt int
  | JStr string
  | JTime int
  | JArray "json list"
  | JObject "(string \<times> json) list"

datatype json_schema =
  JSONSchemaProps
    (sc_type: string)
    (sc_properties: "(string \<times> json_schema) list")
    (sc_required: "string list")
    (sc_items: "json_schema option")
    (sc_additional: "json_schema option")
    (sc_enum: "json list")
    (sc_max_length: "nat option")
    (sc_format: string)

text \<open>The shapes that occur in the program.\<close>

abbreviation stringProps :: json_schema where
  "stringProps \<equiv> JSONSchemaProps ''string'' [] [] None None [] None []"

abbreviation typeProps :: "string \<Rightarrow> json_schema" where
  "typeProps t \<equiv> JSONSchemaProps t [] [] None None [] None []"

abbreviation formatProps :: "string \<Rightarrow> string \<Rightarrow> json_schema" where
  "formatProps t f \<equiv> JSONSchemaProps t [] [] None None [] None f"

abbreviation enumProps :: "json list \<Rightarrow> json_schema" where
  "enumProps vs \<equiv> JSONSchemaProps ''string'' [] [] None None vs None []"

abbreviation boundedProps :: "nat \<Rightarrow> json_schema" where
  "boundedProps n \<equiv> JSONSchemaProps ''string'' [] [] None None [] (Some n) []"

abbreviation objectProps :: "(string \<times> json_schema) list \<Rightarrow> string list \<Rightarrow> json_schema" where
  "objectProps ps rs \<equiv> JSONSchemaProps ''object'' ps rs None None [] None []"

abbreviation arrayProps :: "json_schema \<Rightarrow> json_schema" where
  "arrayProps s \<equiv> JSONSchemaProps ''array'' [] [] (Some s) None [] None []"

abbreviation mapProps :: "json_schema \<Rightarrow> json_schema" where
  "mapProps s \<equiv> JSONSchemaProps ''object'' [] [] None (Some s) [] None []"

text \<open>The schema of a field: a property of its own, or that of all additional ones.\<close>

definition field_schema :: "json_schema \<Rightarrow> string \<Rightarrow> json_schema option" where
  "field_schema s k = (case map_of (sc_properties s) k of None \<Rightarrow> sc_additional s | Some p \<Rightarrow> Some p)"

section \<open>The API server\<close>

text \<open>\<open>prune\<close>: without a schema, objects lose all their fields.\<close>

fun prune :: "json_schema option \<Rightarrow> json \<Rightarrow> json"
  and prune_fields :: "json_schema \<Rightarrow> (string \<times> json) list \<Rightarrow> (string \<times> json) list"
  and prune_items :: "json_schema option \<Rightarrow> json list \<Rightarrow> json list" where
  "prune s (JObject kvs) = JObject (case s of None \<Rightarrow> [] | Some p \<Rightarrow> prune_fields p kvs)"
| "prune s (JArray xs) = JArray (prune_items (Option.bind s sc_items) xs)"
| "prune s JNull = JNull"
| "prune s (JBool b) = JBool b"
| "prune s (JInt i) = JInt i"
| "prune s (JStr x) = JStr x"
| "prune s (JTime t) = JTime t"
| "prune_fields s [] = []"
| "prune_fields s ((k, v) # kvs) =
     (case field_schema s k of None \<Rightarrow> prune_fields s kvs | Some p \<Rightarrow> (k, prune (Some p) v) # prune_fields s kvs)"
| "prune_items s [] = []"
| "prune_items s (x # xs) = prune s x # prune_items s xs"

definition metaFields :: "string list" where
  "metaFields = [''apiVersion'', ''kind'', ''metadata'']"

text \<open>\<open>Prune\<close> of the root of a resource leaves the fields of the metadata alone.\<close>

fun prune_root :: "json_schema \<Rightarrow> (string \<times> json) list \<Rightarrow> (string \<times> json) list" where
  "prune_root s [] = []"
| "prune_root s ((k, v) # kvs) =
     (if k \<in> set metaFields then (k, v) # prune_root s kvs else prune_fields s [(k, v)] @ prune_root s kvs)"

text \<open>Validation.  No schema of the program is nullable, so a null is not accepted where a type is given.\<close>

definition scalar_ok :: "json_schema \<Rightarrow> json \<Rightarrow> bool" where
  "scalar_ok s j \<longleftrightarrow> (sc_enum s = [] \<or> j \<in> set (sc_enum s))"

definition length_ok :: "json_schema \<Rightarrow> string \<Rightarrow> bool" where
  "length_ok s x \<longleftrightarrow> (case sc_max_length s of None \<Rightarrow> True | Some n \<Rightarrow> length x \<le> n)"

fun accepts :: "json_schema \<Rightarrow> json \<Rightarrow> bool"
  and accepts_fields :: "json_schema \<Rightarrow> (string \<times> json) list \<Rightarrow> bool"
  and accepts_items :: "json_schema option \<Rightarrow> json list \<Rightarrow> bool" where
  "accepts s (JObject kvs) \<longleftrightarrow> sc_type s = ''object'' \<and> set (sc_required s) \<subseteq> fst ` set kvs \<and> accepts_fields s kvs"
| "accepts s (JArray xs) \<longleftrightarrow> sc_type s = ''array'' \<and> accepts_items (sc_items s) xs"
| "accepts s JNull \<longleftrightarrow> sc_type s = []"
| "accepts s (JBool b) \<longleftrightarrow> sc_type s = ''boolean'' \<and> scalar_ok s (JBool b)"
| "accepts s (JInt i) \<longleftrightarrow> sc_type s = ''integer'' \<and> scalar_ok s (JInt i)"
| "accepts s (JStr x) \<longleftrightarrow> sc_type s = ''string'' \<and> sc_format s \<noteq> ''date-time'' \<and> length_ok s x \<and> scalar_ok s (JStr x)"
| "accepts s (JTime t) \<longleftrightarrow> sc_type s = ''string'' \<and> sc_format s = ''date-time''"
| "accepts_fields s [] \<longleftrightarrow> True"
| "accepts_fields s ((k, v) # kvs) \<longleftrightarrow>
     (case field_schema s k of None \<Rightarrow> True | Some p \<Rightarrow> accepts p v) \<and> accepts_fields s kvs"
| "accepts_items s [] \<longleftrightarrow> True"
| "accepts_items s (x # xs) \<longleftrightarrow> (case s of None \<Rightarrow> True | Some p \<Rightarrow> accepts p x) \<and> accepts_items s xs"

text \<open>What is stored of a document, when it is admitted.\<close>

definition admit_schema :: "json_schema \<Rightarrow> json \<Rightarrow> json option" where
  "admit_schema s j =
     (case j of
        JObject kvs \<Rightarrow> (let d = JObject (prune_root s kvs) in if accepts s d then Some d else None)
      | _ \<Rightarrow> None)"

section \<open>Laws of pruning\<close>

lemma accepts_fieldsD:
  "accepts_fields s kvs \<Longrightarrow> map_of kvs k = Some j \<Longrightarrow> field_schema s k = Some p \<Longrightarrow> accepts p j"
  by (induction kvs) (auto split: if_splits option.splits)

lemma prune_fields_append: "prune_fields s (xs @ ys) = prune_fields s xs @ prune_fields s ys"
  by (induction xs) (auto split: option.splits)

lemma accepts_fields_append: "accepts_fields s (xs @ ys) \<longleftrightarrow> accepts_fields s xs \<and> accepts_fields s ys"
  by (induction xs) auto

lemma prune_idem:
  "prune s (prune s j) = prune s j"
  "prune_fields p (prune_fields p kvs) = prune_fields p kvs"
  "prune_items s (prune_items s xs) = prune_items s xs"
  by (induction s j and p kvs and s xs rule: prune_prune_fields_prune_items.induct) (auto split: option.splits)

lemma prune_root_idem: "prune_root s (prune_root s kvs) = prune_root s kvs"
proof (induction kvs)
  case (Cons x kvs)
  then show ?case by (cases x) (auto simp: prune_idem split: option.splits)
qed simp

lemma admit_stable:
  assumes "admit_schema s d = Some e"
  shows "admit_schema s e = Some e"
  using assms by (auto simp: admit_schema_def Let_def prune_root_idem split: json.splits if_splits)

section \<open>Schemas that extend others\<close>

fun extends :: "json_schema \<Rightarrow> json_schema \<Rightarrow> bool"
  and extends_fields :: "(string \<times> json_schema) list \<Rightarrow> json_schema \<Rightarrow> bool"
  and extends_option :: "json_schema option \<Rightarrow> json_schema option \<Rightarrow> bool" where
  "extends (JSONSchemaProps ty ps rs it ad en ml fm) t \<longleftrightarrow>
     ty = sc_type t \<and> set (sc_required t) \<subseteq> set rs \<and> extends_fields ps t \<and> extends_option it (sc_items t) \<and>
     (ad = None \<or> set (map fst (sc_properties t)) \<subseteq> set (map fst ps) \<and> extends_option ad (sc_additional t)) \<and>
     (sc_enum t = [] \<or> en \<noteq> [] \<and> set en \<subseteq> set (sc_enum t)) \<and>
     (case sc_max_length t of None \<Rightarrow> True | Some n \<Rightarrow> (case ml of None \<Rightarrow> False | Some m \<Rightarrow> m \<le> n)) \<and>
     (fm = ''date-time'' \<longleftrightarrow> sc_format t = ''date-time'')"
| "extends_fields [] t \<longleftrightarrow> True"
| "extends_fields ((k, p) # ps) t \<longleftrightarrow>
     (case map_of (sc_properties t) k of None \<Rightarrow> False | Some q \<Rightarrow> extends p q) \<and> extends_fields ps t"
| "extends_option None t \<longleftrightarrow> t = None"
| "extends_option (Some p) t \<longleftrightarrow> (case t of None \<Rightarrow> False | Some q \<Rightarrow> extends p q)"

lemma extends_fieldsD:
  "extends_fields ps t \<Longrightarrow> map_of ps k = Some p \<Longrightarrow> \<exists>q. map_of (sc_properties t) k = Some q \<and> extends p q"
  by (induction ps) (auto split: if_splits option.splits)

lemma extends_field_schema:
  assumes "extends s t" and "field_schema s k = Some p"
  shows "\<exists>q. field_schema t k = Some q \<and> extends p q"
proof (cases s)
  case (JSONSchemaProps ty ps rs it ad en ml fm)
  show ?thesis
  proof (cases "map_of ps k")
    case None
    then have "ad = Some p" using assms(2) JSONSchemaProps by (simp add: field_schema_def)
    moreover have "k \<notin> set (map fst ps)" using None by (simp add: map_of_eq_None_iff)
    moreover from calculation(1) have "set (map fst (sc_properties t)) \<subseteq> set (map fst ps)" "extends_option ad (sc_additional t)"
      using assms(1) JSONSchemaProps by simp_all
    ultimately have "map_of (sc_properties t) k = None" "\<exists>q. sc_additional t = Some q \<and> extends p q"
      by (auto simp: map_of_eq_None_iff split: option.splits)
    then show ?thesis by (auto simp: field_schema_def)
  next
    case (Some p')
    then show ?thesis
      using assms JSONSchemaProps by (auto simp: field_schema_def dest!: extends_fieldsD)
  qed
qed

lemma map_fixed: "map f xs = xs \<longleftrightarrow> (\<forall>x \<in> set xs. f x = x)"
  by (induction xs) auto

lemma prune_items_map: "prune_items s xs = map (prune s) xs"
  by (induction xs) simp_all

lemma accepts_items_all: "accepts_items s xs \<longleftrightarrow> (case s of None \<Rightarrow> True | Some p \<Rightarrow> list_all (accepts p) xs)"
  by (induction xs) (auto split: option.splits)

lemma accepts_fields_all:
  "accepts_fields s kvs \<longleftrightarrow> (\<forall>(k, v) \<in> set kvs. case field_schema s k of None \<Rightarrow> True | Some p \<Rightarrow> accepts p v)"
  by (induction kvs) auto

lemma prune_fields_length: "length (prune_fields s kvs) \<le> length kvs"
  by (induction kvs) (auto split: option.splits)

lemma prune_fields_fixed:
  "prune_fields s kvs = kvs \<longleftrightarrow> (\<forall>(k, v) \<in> set kvs. \<exists>p. field_schema s k = Some p \<and> prune (Some p) v = v)"
proof (induction kvs)
  case (Cons x kvs)
  have "prune_fields s kvs \<noteq> (k, v) # kvs" for k v using prune_fields_length [of s kvs] by auto
  with Cons show ?case by (cases x) (auto split: option.splits)
qed simp

lemma extends_sc:
  assumes "extends s t"
  shows "sc_type t = sc_type s" and "sc_format t = ''date-time'' \<longleftrightarrow> sc_format s = ''date-time''"
    and "scalar_ok s j \<Longrightarrow> scalar_ok t j" and "length_ok s x \<Longrightarrow> length_ok t x"
  using assms by (cases s; auto simp: scalar_ok_def length_ok_def split: option.splits)+

lemma extends_sound:
  "extends s t \<Longrightarrow> accepts s j \<Longrightarrow> prune (Some s) j = j \<Longrightarrow> accepts t j \<and> prune (Some t) j = j"
proof (induction j arbitrary: s t)
  case (JObject kvs)
  have "\<exists>q. field_schema t k = Some q \<and> accepts q v \<and> prune (Some q) v = v" if "(k, v) \<in> set kvs" for k v
  proof -
    from that JObject.prems obtain p where p: "field_schema s k = Some p" "prune (Some p) v = v" "accepts p v"
      by (fastforce simp: prune_fields_fixed accepts_fields_all)
    with extends_field_schema [OF JObject.prems(1)] obtain q where "field_schema t k = Some q" "extends p q" by blast
    moreover have "(k, v) \<in> set kvs" "v \<in> Basic_BNFs.snds (k, v)" using that by simp_all
    ultimately show ?thesis using JObject.IH p by blast
  qed
  then have "accepts_fields t kvs" "prune_fields t kvs = kvs"
    by (fastforce simp: accepts_fields_all prune_fields_fixed)+
  then show ?case using JObject.prems by (cases s) auto
next
  case (JArray xs)
  show ?case
  proof (cases "sc_items s")
    case None
    then show ?thesis using JArray.prems by (cases s) (auto simp: accepts_items_all)
  next
    case (Some p)
    then obtain q where q: "sc_items t = Some q" "extends p q" using JArray.prems(1) by (cases s) (auto split: option.splits)
    have "accepts p x \<and> prune (Some p) x = x" if "x \<in> set xs" for x
      using JArray.prems(2,3) Some that by (simp add: accepts_items_all prune_items_map list_all_iff map_fixed)
    with JArray.IH q show ?thesis
      using JArray.prems Some by (cases s) (simp add: accepts_items_all prune_items_map list_all_iff map_fixed)
  qed
qed (simp_all add: extends_sc)

lemma prune_root_fixed:
  "prune_root s kvs = kvs \<longleftrightarrow> (\<forall>(k, v) \<in> set kvs. k \<in> set metaFields \<or> (\<exists>p. field_schema s k = Some p \<and> prune (Some p) v = v))"
proof (induction kvs)
  case (Cons x kvs)
  have "length (prune_root s kvs) \<le> length kvs" for kvs
    by (induction kvs) (auto split: option.splits)
  then have "prune_root s kvs \<noteq> (k, v) # kvs" for k v by (metis Suc_n_not_le_n length_Cons)
  with Cons show ?case by (cases x) (auto split: option.splits)
qed simp

lemma extends_admits:
  assumes "extends s t" and "admit_schema s d = Some e"
    and "\<forall>k \<in> set metaFields. \<exists>p q. field_schema s k = Some p \<and> field_schema t k = Some q \<and> (\<forall>j. accepts p j \<longrightarrow> accepts q j)"
  shows "admit_schema t e = Some e"
proof -
  from admit_stable [OF assms(2)] obtain kvs where e: "e = JObject kvs" and acc: "accepts s e" and fixed: "prune_root s kvs = kvs"
    by (auto simp: admit_schema_def Let_def split: json.splits if_splits)
  have "k \<in> set metaFields \<or> (\<exists>q. field_schema t k = Some q \<and> accepts q v \<and> prune (Some q) v = v)" if "(k, v) \<in> set kvs" for k v
  proof (cases "k \<in> set metaFields")
    case False
    with that fixed acc obtain p where p: "field_schema s k = Some p" "prune (Some p) v = v" "accepts p v"
      by (fastforce simp: prune_root_fixed accepts_fields_all e)
    with extends_field_schema [OF assms(1)] obtain q where "field_schema t k = Some q" "extends p q" by blast
    with p extends_sound show ?thesis by blast
  qed simp
  moreover have "case field_schema t k of None \<Rightarrow> True | Some q \<Rightarrow> accepts q v" if kv: "(k, v) \<in> set kvs" "k \<in> set metaFields" for k v
  proof -
    from assms(3) kv(2) obtain p q where "field_schema s k = Some p" "field_schema t k = Some q" "\<forall>j. accepts p j \<longrightarrow> accepts q j" by blast
    with acc kv(1) show ?thesis by (fastforce simp: accepts_fields_all e)
  qed
  ultimately have "accepts_fields t kvs" "prune_root t kvs = kvs"
    by (fastforce simp: accepts_fields_all prune_root_fixed)+
  then show ?thesis
    using acc assms(1) by (cases s) (auto simp: admit_schema_def e)
qed

end
