(* ===== verification/Crds.thy ===== *)
theory Crds
  imports Schema
begin

text \<open>
  The custom resource definitions of \<open>pkg/operator/resources/operator/operator.go\<close>: those of imports and of
  resource mappings, which the operator installs, and that of its own configuration.  The descriptions of
  the fields are left out.  A schema of many lines is cut into definitions that are named by the path of the
  field.  The schema of the configuration's status comes from the controller-lifecycle SDK, as an argument.
\<close>

record crd_version =
  cv_name :: string
  cv_served :: bool
  cv_storage :: bool
  cv_status :: bool  \<comment> \<open>the subresource\<close>
  cv_schema :: json_schema

record crd =
  cr_name :: string
  cr_labels :: "string \<rightharpoonup> string"
  cr_group :: string
  cr_scope :: string
  cr_conversion :: "string option"  \<comment> \<open>the strategy\<close>
  cr_versions :: "crd_version list"
  cr_kind :: string
  cr_list_kind :: string
  cr_plural :: string
  cr_singular :: string
  cr_categories :: "string list"
  cr_short_names :: "string list"

text \<open>\<open>validation.LabelValueMaxLength\<close>\<close>

definition maxTargetVMName :: nat where "maxTargetVMName = 63"

section \<open>Resource mappings\<close>

definition Mapping_v1alpha1_spec :: "json_schema" where
  "Mapping_v1alpha1_spec = objectProps
    [(''ovirt'', objectProps
      [(''networkMappings'', arrayProps (objectProps
          [(''source'', objectProps [(''id'', stringProps), (''name'', stringProps)] []),
           (''target'', objectProps [(''name'', stringProps), (''namespace'', stringProps)] [''name'']),
           (''type'', stringProps)] [''source'', ''target''])),
       (''storageMappings'', arrayProps (objectProps
          [(''source'', objectProps [(''id'', stringProps), (''name'', stringProps)] []),
           (''target'', objectProps [(''name'', stringProps), (''namespace'', stringProps)] [''name'']),
           (''type'', stringProps)] [''source'', ''target''])),
       (''diskMappings'', arrayProps (objectProps
          [(''source'', objectProps [(''id'', stringProps), (''name'', stringProps)] []),
           (''target'', objectProps [(''name'', stringProps), (''namespace'', stringProps)] [''name'']),
           (''type'', stringProps)] [''source'', ''target'']))] [])] []"

definition Mapping_v1alpha1 :: "json_schema" where
  "Mapping_v1alpha1 = objectProps
    [(''apiVersion'', stringProps),
     (''kind'', stringProps),
     (''metadata'', typeProps ''object''),
     (''spec'', Mapping_v1alpha1_spec),
     (''status'', typeProps ''object'')] []"

definition Mapping_v1beta1_spec_ovirt :: "json_schema" where
  "Mapping_v1beta1_spec_ovirt = objectProps
    [(''networkMappings'', arrayProps (objectProps
        [(''source'', objectProps [(''id'', stringProps), (''name'', stringProps)] []),
         (''target'', objectProps [(''name'', stringProps), (''namespace'', stringProps)] [''name'']),
         (''type'', stringProps)] [''source'', ''target''])),
     (''storageMappings'', arrayProps (objectProps
        [(''source'', objectProps [(''id'', stringProps), (''name'', stringProps)] []),
         (''target'', objectProps [(''name'', stringProps), (''namespace'', stringProps)] [''name'']),
         (''type'', stringProps),
         (''volumeMode'', stringProps)] [''source'', ''target''])),
     (''diskMappings'', arrayProps (objectProps
        [(''source'', objectProps [(''id'', stringProps), (''name'', stringProps)] []),
         (''target'', objectProps [(''name'', stringProps), (''namespace'', stringProps)] [''name'']),
         (''type'', stringProps),
         (''volumeMode'', stringProps)] [''source'', ''target'']))] []"

definition Mapping_v1beta1_spec_vmware :: "json_schema" where
  "Mapping_v1beta1_spec_vmware = objectProps
    [(''networkMappings'', arrayProps (objectProps
        [(''source'', objectProps [(''id'', stringProps), (''name'', stringProps)] []),
         (''target'', objectProps [(''name'', stringProps), (''namespace'', stringProps)] [''name'']),
         (''type'', stringProps)] [''source'', ''target''])),
     (''storageMappings'', arrayProps (objectProps
        [(''source'', objectProps [(''id'', stringProps), (''name'', stringProps)] []),
         (''target'', objectProps [(''name'', stringProps), (''namespace'', stringProps)] [''name'']),
         (''type'', stringProps),
         (''volumeMode'', stringProps)] [''source'', ''target''])),
     (''diskMappings'', arrayProps (objectProps
        [(''source'', objectProps [(''id'', stringProps), (''name'', stringProps)] []),
         (''target'', objectProps [(''name'', stringProps), (''namespace'', stringProps)] [''name'']),
         (''type'', stringProps),
         (''volumeMode'', stringProps)] [''source'', ''target'']))] []"

definition Mapping_v1beta1_spec :: "json_schema" where
  "Mapping_v1beta1_spec = objectProps [(''ovirt'', Mapping_v1beta1_spec_ovirt), (''vmware'', Mapping_v1beta1_spec_vmware)] []"

definition Mapping_v1beta1 :: "json_schema" where
  "Mapping_v1beta1 = objectProps
    [(''apiVersion'', stringProps),
     (''kind'', stringProps),
     (''metadata'', typeProps ''object''),
     (''spec'', Mapping_v1beta1_spec),
     (''status'', typeProps ''object'')] []"

definition CreateResourceMapping :: "crd" where
  "CreateResourceMapping =
     \<lparr>cr_name = ''resourcemappings.v2v.kubevirt.io'', cr_labels = [''operator.v2v.kubevirt.io'' \<mapsto> ''''],
      cr_group = ''v2v.kubevirt.io'', cr_scope = ''Namespaced'', cr_conversion = None,
      cr_versions =
        [\<lparr>cv_name = ''v1alpha1'', cv_served = True, cv_storage = False, cv_status = True, cv_schema = Mapping_v1alpha1\<rparr>,
         \<lparr>cv_name = ''v1beta1'', cv_served = True, cv_storage = True, cv_status = True, cv_schema = Mapping_v1beta1\<rparr>],
      cr_kind = ''ResourceMapping'', cr_list_kind = ''ResourceMappingList'', cr_plural = ''resourcemappings'',
      cr_singular = ''resourcemapping'', cr_categories = [''all''], cr_short_names = []\<rparr>"

section \<open>Virtual machine imports\<close>

definition VMImport_v1alpha1_spec_providerCredentialsSecret :: "json_schema" where
  "VMImport_v1alpha1_spec_providerCredentialsSecret = objectProps [(''name'', stringProps), (''namespace'', stringProps)] [''name'']"

definition VMImport_v1alpha1_spec_resourceMapping :: "json_schema" where
  "VMImport_v1alpha1_spec_resourceMapping = objectProps [(''name'', stringProps), (''namespace'', stringProps)] [''name'']"

definition VMImport_v1alpha1_spec_source_ovirt_mappings :: "json_schema" where
  "VMImport_v1alpha1_spec_source_ovirt_mappings = objectProps
    [(''networkMappings'', arrayProps (objectProps
        [(''source'', objectProps [(''id'', stringProps), (''name'', stringProps)] []),
         (''target'', objectProps [(''name'', stringProps), (''namespace'', stringProps)] [''name'']),
         (''type'', stringProps)] [''source''])),
     (''storageMappings'', arrayProps (objectProps
        [(''source'', objectProps [(''id'', stringProps), (''name'', stringProps)] []),
         (''target'', objectProps [(''name'', stringProps), (''namespace'', stringProps)] [''name'']),
         (''type'', stringProps)] [''source''])),
     (''diskMappings'', arrayProps (objectProps
        [(''source'', objectProps [(''id'', stringProps), (''name'', stringProps)] []),
         (''target'', objectProps [(''name'', stringProps), (''namespace'', stringProps)] [''name'']),
         (''type'', stringProps)] [''source'']))] []"

definition VMImport_v1alpha1_spec_source_ovirt_vm :: "json_schema" where
  "VMImport_v1alpha1_spec_source_ovirt_vm = objectProps
    [(''cluster'', objectProps [(''id'', stringProps), (''name'', stringProps)] []),
     (''id'', stringProps),
     (''name'', stringProps)] []"

definition VMImport_v1alpha1_spec_source_ovirt :: "json_schema" where
  "VMImport_v1alpha1_spec_source_ovirt = objectProps
    [(''mappings'', VMImport_v1alpha1_spec_source_ovirt_mappings),
     (''vm'', VMImport_v1alpha1_spec_source_ovirt_vm)] [''vm'']"

definition VMImport_v1alpha1_spec_source :: "json_schema" where
  "VMImport_v1alpha1_spec_source = objectProps [(''ovirt'', VMImport_v1alpha1_spec_source_ovirt)] []"

definition VMImport_v1alpha1_spec :: "json_schema" where
  "VMImport_v1alpha1_spec = objectProps
    [(''providerCredentialsSecret'', VMImport_v1alpha1_spec_providerCredentialsSecret),
     (''resourceMapping'', VMImport_v1alpha1_spec_resourceMapping),
     (''source'', VMImport_v1alpha1_spec_source),
     (''startVm'', typeProps ''boolean''),
     (''targetVmName'', boundedProps maxTargetVMName)] [''providerCredentialsSecret'', ''source'']"

definition VMImport_v1alpha1_status :: "json_schema" where
  "VMImport_v1alpha1_status = objectProps
    [(''conditions'', arrayProps (objectProps
        [(''lastHeartbeatTime'', formatProps ''string'' ''date-time''),
         (''lastTransitionTime'', formatProps ''string'' ''date-time''),
         (''message'', stringProps),
         (''reason'', stringProps),
         (''status'', stringProps),
         (''type'', stringProps)] [''status'', ''type''])),
     (''dataVolumes'', arrayProps (objectProps [(''name'', stringProps)] [''name''])),
     (''targetVmName'', stringProps)] []"

definition VMImport_v1alpha1 :: "json_schema" where
  "VMImport_v1alpha1 = objectProps
    [(''apiVersion'', stringProps),
     (''kind'', stringProps),
     (''metadata'', typeProps ''object''),
     (''spec'', VMImport_v1alpha1_spec),
     (''status'', VMImport_v1alpha1_status)] []"

definition VMImport_v1beta1_spec_providerCredentialsSecret :: "json_schema" where
  "VMImport_v1beta1_spec_providerCredentialsSecret = objectProps [(''name'', stringProps), (''namespace'', stringProps)] [''name'']"

definition VMImport_v1beta1_spec_resourceMapping :: "json_schema" where
  "VMImport_v1beta1_spec_resourceMapping = objectProps [(''name'', stringProps), (''namespace'', stringProps)] [''name'']"

definition VMImport_v1beta1_spec_source_ovirt_mappings :: "json_schema" where
  "VMImport_v1beta1_spec_source_ovirt_mappings = objectProps
    [(''networkMappings'', arrayProps (objectProps
        [(''source'', objectProps [(''id'', stringProps), (''name'', stringProps)] []),
         (''target'', objectProps [(''name'', stringProps), (''namespace'', stringProps)] [''name'']),
         (''type'', stringProps)] [''source''])),
     (''storageMappings'', arrayProps (objectProps
        [(''source'', objectProps [(''id'', stringProps), (''name'', stringProps)] []),
         (''target'', objectProps [(''name'', stringProps), (''namespace'', stringProps)] [''name'']),
         (''type'', stringProps),
         (''volumeMode'', stringProps)] [''source''])),
     (''diskMappings'', arrayProps (objectProps
        [(''source'', objectProps [(''id'', stringProps), (''name'', stringProps)] []),
         (''target'', objectProps [(''name'', stringProps), (''namespace'', stringProps)] [''name'']),
         (''type'', stringProps),
         (''volumeMode'', stringProps)] [''source'']))] []"

definition VMImport_v1beta1_spec_source_ovirt_vm :: "json_schema" where
  "VMImport_v1beta1_spec_source_ovirt_vm = objectProps
    [(''cluster'', objectProps [(''id'', stringProps), (''name'', stringProps)] []),
     (''id'', stringProps),
     (''name'', stringProps)] []"

definition VMImport_v1beta1_spec_source_ovirt :: "json_schema" where
  "VMImport_v1beta1_spec_source_ovirt = objectProps
    [(''mappings'', VMImport_v1beta1_spec_source_ovirt_mappings),
     (''vm'', VMImport_v1beta1_spec_source_ovirt_vm)] [''vm'']"

definition VMImport_v1beta1_spec_source_vmware_mappings :: "json_schema" where
  "VMImport_v1beta1_spec_source_vmware_mappings = objectProps
    [(''networkMappings'', arrayProps (objectProps
        [(''source'', objectProps [(''id'', stringProps), (''name'', stringProps)] []),
         (''target'', objectProps [(''name'', stringProps), (''namespace'', stringProps)] [''name'']),
         (''type'', stringProps)] [''source''])),
     (''storageMappings'', arrayProps (objectProps
        [(''source'', objectProps [(''id'', stringProps), (''name'', stringProps)] []),
         (''target'', objectProps [(''name'', stringProps), (''namespace'', stringProps)] [''name'']),
         (''type'', stringProps),
         (''volumeMode'', stringProps)] [''source''])),
     (''diskMappings'', arrayProps (objectProps
        [(''source'', objectProps [(''id'', stringProps), (''name'', stringProps)] []),
         (''target'', objectProps [(''name'', stringProps), (''namespace'', stringProps)] [''name'']),
         (''type'', stringProps),
         (''volumeMode'', stringProps)] [''source'']))] []"

definition VMImport_v1beta1_spec_source_vmware_vm :: "json_schema" where
  "VMImport_v1beta1_spec_source_vmware_vm = objectProps [(''id'', stringProps), (''name'', stringProps)] []"

definition VMImport_v1beta1_spec_source_vmware :: "json_schema" where
  "VMImport_v1beta1_spec_source_vmware = objectProps
    [(''mappings'', VMImport_v1beta1_spec_source_vmware_mappings),
     (''vm'', VMImport_v1beta1_spec_source_vmware_vm)] [''vm'']"

definition VMImport_v1beta1_spec_source :: "json_schema" where
  "VMImport_v1beta1_spec_source = objectProps
    [(''ovirt'', VMImport_v1beta1_spec_source_ovirt),
     (''vmware'', VMImport_v1beta1_spec_source_vmware)] []"

definition VMImport_v1beta1_spec :: "json_schema" where
  "VMImport_v1beta1_spec = objectProps
    [(''providerCredentialsSecret'', VMImport_v1beta1_spec_providerCredentialsSecret),
     (''resourceMapping'', VMImport_v1beta1_spec_resourceMapping),
     (''source'', VMImport_v1beta1_spec_source),
     (''startVm'', typeProps ''boolean''),
     (''targetVmName'', boundedProps maxTargetVMName)] [''providerCredentialsSecret'', ''source'']"

definition VMImport_v1beta1_status :: "json_schema" where
  "VMImport_v1beta1_status = objectProps
    [(''conditions'', arrayProps (objectProps
        [(''lastHeartbeatTime'', formatProps ''string'' ''date-time''),
         (''lastTransitionTime'', formatProps ''string'' ''date-time''),
         (''message'', stringProps),
         (''reason'', stringProps),
         (''status'', stringProps),
         (''type'', stringProps)] [''status'', ''type''])),
     (''dataVolumes'', arrayProps (objectProps [(''name'', stringProps)] [''name''])),
     (''targetVmName'', stringProps)] []"

definition VMImport_v1beta1 :: "json_schema" where
  "VMImport_v1beta1 = objectProps
    [(''apiVersion'', stringProps),
     (''kind'', stringProps),
     (''metadata'', typeProps ''object''),
     (''spec'', VMImport_v1beta1_spec),
     (''status'', VMImport_v1beta1_status)] []"

definition CreateVMImport :: "crd" where
  "CreateVMImport =
     \<lparr>cr_name = ''virtualmachineimports.v2v.kubevirt.io'', cr_labels = [''operator.v2v.kubevirt.io'' \<mapsto> ''''],
      cr_group = ''v2v.kubevirt.io'', cr_scope = ''Namespaced'', cr_conversion = Some ''None'',
      cr_versions =
        [\<lparr>cv_name = ''v1alpha1'', cv_served = True, cv_storage = False, cv_status = True, cv_schema = VMImport_v1alpha1\<rparr>,
         \<lparr>cv_name = ''v1beta1'', cv_served = True, cv_storage = True, cv_status = True, cv_schema = VMImport_v1beta1\<rparr>],
      cr_kind = ''VirtualMachineImport'', cr_list_kind = ''VirtualMachineImportList'', cr_plural = ''virtualmachineimports'',
      cr_singular = ''virtualmachineimport'', cr_categories = [''all''], cr_short_names = [''vmimports'']\<rparr>"

section \<open>The configuration of the operator\<close>

definition Config_v1alpha1_spec_imagePullPolicy :: "json_schema" where
  "Config_v1alpha1_spec_imagePullPolicy = enumProps [JStr ''Always'', JStr ''IfNotPresent'', JStr ''Never'']"

definition Config_v1alpha1_spec_infra_affinity_nodeAffinity_preferred :: "json_schema" where
  "Config_v1alpha1_spec_infra_affinity_nodeAffinity_preferred = arrayProps (objectProps
      [(''preference'', objectProps
        [(''matchExpressions'', arrayProps (objectProps [(''key'', stringProps), (''operator'', stringProps), (''values'', arrayProps stringProps)] [''key'', ''operator''])),
         (''matchFields'', arrayProps (objectProps [(''key'', stringProps), (''operator'', stringProps), (''values'', arrayProps stringProps)] [''key'', ''operator'']))] []),
       (''weight'', formatProps ''integer'' ''int32'')] [''preference'', ''weight''])"

definition Config_v1alpha1_spec_infra_affinity_nodeAffinity_required :: "json_schema" where
  "Config_v1alpha1_spec_infra_affinity_nodeAffinity_required = objectProps
    [(''nodeSelectorTerms'', arrayProps (objectProps
        [(''matchExpressions'', arrayProps (objectProps [(''key'', stringProps), (''operator'', stringProps), (''values'', arrayProps stringProps)] [''key'', ''operator''])),
         (''matchFields'', arrayProps (objectProps [(''key'', stringProps), (''operator'', stringProps), (''values'', arrayProps stringProps)] [''key'', ''operator'']))] []))] [''nodeSelectorTerms'']"

definition Config_v1alpha1_spec_infra_affinity_nodeAffinity :: "json_schema" where
  "Config_v1alpha1_spec_infra_affinity_nodeAffinity = objectProps
    [(''preferredDuringSchedulingIgnoredDuringExecution'', Config_v1alpha1_spec_infra_affinity_nodeAffinity_preferred),
     (''requiredDuringSchedulingIgnoredDuringExecution'', Config_v1alpha1_spec_infra_affinity_nodeAffinity_required)] []"

definition Config_v1alpha1_spec_infra_affinity_podAffinity_preferred :: "json_schema" where
  "Config_v1alpha1_spec_infra_affinity_podAffinity_preferred = arrayProps (objectProps
      [(''podAffinityTerm'', objectProps
        [(''labelSelector'', objectProps
          [(''matchExpressions'', arrayProps (objectProps [(''key'', stringProps), (''operator'', stringProps), (''values'', arrayProps stringProps)] [''key'', ''operator''])),
           (''matchLabels'', mapProps stringProps)] []),
         (''namespaces'', arrayProps stringProps),
         (''topologyKey'', stringProps)] [''topologyKey'']),
       (''weight'', formatProps ''integer'' ''int32'')] [''podAffinityTerm'', ''weight''])"

definition Config_v1alpha1_spec_infra_affinity_podAffinity_required :: "json_schema" where
  "Config_v1alpha1_spec_infra_affinity_podAffinity_required = arrayProps (objectProps
      [(''labelSelector'', objectProps
        [(''matchExpressions'', arrayProps (objectProps [(''key'', stringProps), (''operator'', stringProps), (''values'', arrayProps stringProps)] [''key'', ''operator''])),
         (''matchLabels'', mapProps stringProps)] []),
       (''namespaces'', arrayProps stringProps),
       (''topologyKey'', stringProps)] [''topologyKey''])"

definition Config_v1alpha1_spec_infra_affinity_podAffinity :: "json_schema" where
  "Config_v1alpha1_spec_infra_affinity_podAffinity = objectProps
    [(''preferredDuringSchedulingIgnoredDuringExecution'', Config_v1alpha1_spec_infra_affinity_podAffinity_preferred),
     (''requiredDuringSchedulingIgnoredDuringExecution'', Config_v1alpha1_spec_infra_affinity_podAffinity_required)] []"

definition Config_v1alpha1_spec_infra_affinity_podAntiAffinity_preferred :: "json_schema" where
  "Config_v1alpha1_spec_infra_affinity_podAntiAffinity_preferred = arrayProps (objectProps
      [(''podAffinityTerm'', objectProps
        [(''labelSelector'', objectProps
          [(''matchExpressions'', arrayProps (objectProps [(''key'', stringProps), (''operator'', stringProps), (''values'', arrayProps stringProps)] [''key'', ''operator''])),
           (''matchLabels'', mapProps stringProps)] []),
         (''namespaces'', arrayProps stringProps),
         (''topologyKey'', stringProps)] [''topologyKey'']),
       (''weight'', formatProps ''integer'' ''int32'')] [''podAffinityTerm'', ''weight''])"

definition Config_v1alpha1_spec_infra_affinity_podAntiAffinity_required :: "json_schema" where
  "Config_v1alpha1_spec_infra_affinity_podAntiAffinity_required = arrayProps (objectProps
      [(''labelSelector'', objectProps
        [(''matchExpressions'', arrayProps (objectProps [(''key'', stringProps), (''operator'', stringProps), (''values'', arrayProps stringProps)] [''key'', ''operator''])),
         (''matchLabels'', mapProps stringProps)] []),
       (''namespaces'', arrayProps stringProps),
       (''topologyKey'', stringProps)] [''topologyKey''])"

definition Config_v1alpha1_spec_infra_affinity_podAntiAffinity :: "json_schema" where
  "Config_v1alpha1_spec_infra_affinity_podAntiAffinity = objectProps
    [(''preferredDuringSchedulingIgnoredDuringExecution'', Config_v1alpha1_spec_infra_affinity_podAntiAffinity_preferred),
     (''requiredDuringSchedulingIgnoredDuringExecution'', Config_v1alpha1_spec_infra_affinity_podAntiAffinity_required)] []"

definition Config_v1alpha1_spec_infra_affinity :: "json_schema" where
  "Config_v1alpha1_spec_infra_affinity = objectProps
    [(''nodeAffinity'', Config_v1alpha1_spec_infra_affinity_nodeAffinity),
     (''podAffinity'', Config_v1alpha1_spec_infra_affinity_podAffinity),
     (''podAntiAffinity'', Config_v1alpha1_spec_infra_affinity_podAntiAffinity)] []"

definition Config_v1alpha1_spec_infra_tolerations :: "json_schema" where
  "Config_v1alpha1_spec_infra_tolerations = arrayProps (objectProps
      [(''effect'', stringProps),
       (''key'', stringProps),
       (''operator'', stringProps),
       (''tolerationSeconds'', formatProps ''integer'' ''int64''),
       (''value'', stringProps)] [])"

definition Config_v1alpha1_spec_infra :: "json_schema" where
  "Config_v1alpha1_spec_infra = objectProps
    [(''affinity'', Config_v1alpha1_spec_infra_affinity),
     (''nodeSelector'', mapProps stringProps),
     (''tolerations'', Config_v1alpha1_spec_infra_tolerations)] []"

definition Config_v1alpha1_spec :: "json_schema" where
  "Config_v1alpha1_spec = objectProps
    [(''imagePullPolicy'', Config_v1alpha1_spec_imagePullPolicy),
     (''infra'', Config_v1alpha1_spec_infra)] []"

definition Config_v1alpha1_status :: "json_schema" where
  "Config_v1alpha1_status = objectProps
    [(''conditions'', arrayProps (objectProps
        [(''lastHeartbeatTime'', formatProps ''string'' ''date-time''),
         (''lastTransitionTime'', formatProps ''string'' ''date-time''),
         (''message'', stringProps),
         (''reason'', stringProps),
         (''status'', stringProps),
         (''type'', stringProps)] [])),
     (''targetVersion'', stringProps),
     (''observedVersion'', stringProps),
     (''operatorVersion'', stringProps),
     (''phase'', stringProps)] []"

definition Config_v1alpha1 :: "json_schema" where
  "Config_v1alpha1 = objectProps
    [(''apiVersion'', stringProps),
     (''kind'', stringProps),
     (''metadata'', typeProps ''object''),
     (''spec'', Config_v1alpha1_spec),
     (''status'', Config_v1alpha1_status)] []"

definition Config_v1beta1_spec_imagePullPolicy :: "json_schema" where
  "Config_v1beta1_spec_imagePullPolicy = enumProps [JStr ''Always'', JStr ''IfNotPresent'', JStr ''Never'']"

definition Config_v1beta1_spec_infra_affinity_nodeAffinity_preferred :: "json_schema" where
  "Config_v1beta1_spec_infra_affinity_nodeAffinity_preferred = arrayProps (objectProps
      [(''preference'', objectProps
        [(''matchExpressions'', arrayProps (objectProps [(''key'', stringProps), (''operator'', stringProps), (''values'', arrayProps stringProps)] [''key'', ''operator''])),
         (''matchFields'', arrayProps (objectProps [(''key'', stringProps), (''operator'', stringProps), (''values'', arrayProps stringProps)] [''key'', ''operator'']))] []),
       (''weight'', formatProps ''integer'' ''int32'')] [''preference'', ''weight''])"

definition Config_v1beta1_spec_infra_affinity_nodeAffinity_required :: "json_schema" where
  "Config_v1beta1_spec_infra_affinity_nodeAffinity_required = objectProps
    [(''nodeSelectorTerms'', arrayProps (objectProps
        [(''matchExpressions'', arrayProps (objectProps [(''key'', stringProps), (''operator'', stringProps), (''values'', arrayProps stringProps)] [''key'', ''operator''])),
         (''matchFields'', arrayProps (objectProps [(''key'', stringProps), (''operator'', stringProps), (''values'', arrayProps stringProps)] [''key'', ''operator'']))] []))] [''nodeSelectorTerms'']"

definition Config_v1beta1_spec_infra_affinity_nodeAffinity :: "json_schema" where
  "Config_v1beta1_spec_infra_affinity_nodeAffinity = objectProps
    [(''preferredDuringSchedulingIgnoredDuringExecution'', Config_v1beta1_spec_infra_affinity_nodeAffinity_preferred),
     (''requiredDuringSchedulingIgnoredDuringExecution'', Config_v1beta1_spec_infra_affinity_nodeAffinity_required)] []"

definition Config_v1beta1_spec_infra_affinity_podAffinity_preferred :: "json_schema" where
  "Config_v1beta1_spec_infra_affinity_podAffinity_preferred = arrayProps (objectProps
      [(''podAffinityTerm'', objectProps
        [(''labelSelector'', objectProps
          [(''matchExpressions'', arrayProps (objectProps [(''key'', stringProps), (''operator'', stringProps), (''values'', arrayProps stringProps)] [''key'', ''operator''])),
           (''matchLabels'', mapProps stringProps)] []),
         (''namespaces'', arrayProps stringProps),
         (''topologyKey'', stringProps)] [''topologyKey'']),
       (''weight'', formatProps ''integer'' ''int32'')] [''podAffinityTerm'', ''weight''])"

definition Config_v1beta1_spec_infra_affinity_podAffinity_required :: "json_schema" where
  "Config_v1beta1_spec_infra_affinity_podAffinity_required = arrayProps (objectProps
      [(''labelSelector'', objectProps
        [(''matchExpressions'', arrayProps (objectProps [(''key'', stringProps), (''operator'', stringProps), (''values'', arrayProps stringProps)] [''key'', ''operator''])),
         (''matchLabels'', mapProps stringProps)] []),
       (''namespaces'', arrayProps stringProps),
       (''topologyKey'', stringProps)] [''topologyKey''])"

definition Config_v1beta1_spec_infra_affinity_podAffinity :: "json_schema" where
  "Config_v1beta1_spec_infra_affinity_podAffinity = objectProps
    [(''preferredDuringSchedulingIgnoredDuringExecution'', Config_v1beta1_spec_infra_affinity_podAffinity_preferred),
     (''requiredDuringSchedulingIgnoredDuringExecution'', Config_v1beta1_spec_infra_affinity_podAffinity_required)] []"

definition Config_v1beta1_spec_infra_affinity_podAntiAffinity_preferred :: "json_schema" where
  "Config_v1beta1_spec_infra_affinity_podAntiAffinity_preferred = arrayProps (objectProps
      [(''podAffinityTerm'', objectProps
        [(''labelSelector'', objectProps
          [(''matchExpressions'', arrayProps (objectProps [(''key'', stringProps), (''operator'', stringProps), (''values'', arrayProps stringProps)] [''key'', ''operator''])),
           (''matchLabels'', mapProps stringProps)] []),
         (''namespaces'', arrayProps stringProps),
         (''topologyKey'', stringProps)] [''topologyKey'']),
       (''weight'', formatProps ''integer'' ''int32'')] [''podAffinityTerm'', ''weight''])"

definition Config_v1beta1_spec_infra_affinity_podAntiAffinity_required :: "json_schema" where
  "Config_v1beta1_spec_infra_affinity_podAntiAffinity_required = arrayProps (objectProps
      [(''labelSelector'', objectProps
        [(''matchExpressions'', arrayProps (objectProps [(''key'', stringProps), (''operator'', stringProps), (''values'', arrayProps stringProps)] [''key'', ''operator''])),
         (''matchLabels'', mapProps stringProps)] []),
       (''namespaces'', arrayProps stringProps),
       (''topologyKey'', stringProps)] [''topologyKey''])"

definition Config_v1beta1_spec_infra_affinity_podAntiAffinity :: "json_schema" where
  "Config_v1beta1_spec_infra_affinity_podAntiAffinity = objectProps
    [(''preferredDuringSchedulingIgnoredDuringExecution'', Config_v1beta1_spec_infra_affinity_podAntiAffinity_preferred),
     (''requiredDuringSchedulingIgnoredDuringExecution'', Config_v1beta1_spec_infra_affinity_podAntiAffinity_required)] []"

definition Config_v1beta1_spec_infra_affinity :: "json_schema" where
  "Config_v1beta1_spec_infra_affinity = objectProps
    [(''nodeAffinity'', Config_v1beta1_spec_infra_affinity_nodeAffinity),
     (''podAffinity'', Config_v1beta1_spec_infra_affinity_podAffinity),
     (''podAntiAffinity'', Config_v1beta1_spec_infra_affinity_podAntiAffinity)] []"

definition Config_v1beta1_spec_infra_tolerations :: "json_schema" where
  "Config_v1beta1_spec_infra_tolerations = arrayProps (objectProps
      [(''effect'', stringProps),
       (''key'', stringProps),
       (''operator'', stringProps),
       (''tolerationSeconds'', formatProps ''integer'' ''int64''),
       (''value'', stringProps)] [])"

definition Config_v1beta1_spec_infra :: "json_schema" where
  "Config_v1beta1_spec_infra = objectProps
    [(''affinity'', Config_v1beta1_spec_infra_affinity),
     (''nodeSelector'', mapProps stringProps),
     (''tolerations'', Config_v1beta1_spec_infra_tolerations)] []"

definition Config_v1beta1_spec :: "json_schema" where
  "Config_v1beta1_spec = objectProps
    [(''imagePullPolicy'', Config_v1beta1_spec_imagePullPolicy),
     (''infra'', Config_v1beta1_spec_infra)] []"

definition Config_v1beta1 :: "(string \<Rightarrow> string \<Rightarrow> json_schema) \<Rightarrow> json_schema" where
  "Config_v1beta1 operatorConfigStatus = objectProps
    [(''apiVersion'', stringProps),
     (''kind'', stringProps),
     (''metadata'', typeProps ''object''),
     (''spec'', Config_v1beta1_spec),
     (''status'', operatorConfigStatus '''' ''VMImportConfig'')] []"

definition CreateVMImportConfig :: "(string \<Rightarrow> string \<Rightarrow> json_schema) \<Rightarrow> crd" where
  "CreateVMImportConfig operatorConfigStatus =
     \<lparr>cr_name = ''vmimportconfigs.v2v.kubevirt.io'', cr_labels = [''operator.v2v.kubevirt.io'' \<mapsto> ''''],
      cr_group = ''v2v.kubevirt.io'', cr_scope = ''Cluster'', cr_conversion = None,
      cr_versions =
        [\<lparr>cv_name = ''v1alpha1'', cv_served = True, cv_storage = False, cv_status = True, cv_schema = Config_v1alpha1\<rparr>,
         \<lparr>cv_name = ''v1beta1'', cv_served = True, cv_storage = True, cv_status = True, cv_schema = Config_v1beta1 operatorConfigStatus\<rparr>],
      cr_kind = ''VMImportConfig'', cr_list_kind = ''VMImportConfigList'', cr_plural = ''vmimportconfigs'',
      cr_singular = ''vmimportconfig'', cr_categories = [''all''], cr_short_names = []\<rparr>"

end
