(* ===== verification/Operator.thy ===== *)
theory Operator
  imports Templates Crds
begin

text \<open>
  The operator that deploys the controller: \<open>pkg/operator/controller\<close> and the part of
  \<open>pkg/operator/resources/operator/operator.go\<close> that builds the controller's objects.  The reconciliation itself
  is in the controller-lifecycle SDK, which calls the functions modelled here as its hooks.  The rules of
  node placement are of an abstract type \<open>'n\<close>.
\<close>

section \<open>Objects\<close>

type_synonym labels = "string \<rightharpoonup> string"

datatype env_value = EnvValue string | FieldRef string

record container =
  ct_name :: string
  ct_image :: string
  ct_pull_policy :: string
  ct_env :: "(string \<times> env_value) list"
  ct_command :: "string list"

record 'n deployment =
  dp_key :: nsname
  dp_labels :: labels
  dp_selector :: labels
  dp_pod_labels :: labels
  dp_replicas :: nat
  dp_service_account :: string
  dp_containers :: "container list"
  dp_non_root :: bool
  dp_placement :: "'n option"

record policy_rule =
  pr_groups :: "string list"
  pr_names :: "string list"
  pr_resources :: "string list"
  pr_verbs :: "string list"

record service_object =
  sv_key :: nsname
  sv_labels :: labels
  sv_selector :: labels
  sv_ports :: "(string \<times> nat) list"

record service_monitor =
  sm_key :: nsname
  sm_labels :: labels
  sm_namespaces :: "string list"
  sm_selector :: labels
  sm_endpoints :: "string list"

datatype 'n resource =
    ServiceAccount nsname
  | ClusterRole string "policy_rule list"
  | ClusterRoleBinding string string nsname
  | ControllerDeployment "'n deployment"
  | MetricsService service_object
  | MetricsMonitor service_monitor
  | CustomResource crd

definition operatorName :: string where "operatorName = ''vm-import-operator''"
definition ControllerName :: string where "ControllerName = ''vm-import-controller''"

definition commonLabels :: labels where "commonLabels = [''v2v.kubevirt.io'' \<mapsto> []]"
definition operatorLabels :: labels where "operatorLabels = [''operator.v2v.kubevirt.io'' \<mapsto> []]"

text \<open>\<open>WithLabels\<close>, \<open>CreateDeployment\<close> and \<open>CreateContainer\<close> of the SDK.\<close>

definition WithLabels :: "labels \<Rightarrow> labels \<Rightarrow> labels" where
  "WithLabels labels existing = existing ++ labels"

definition CreateDeployment :: "nsname \<Rightarrow> labels \<Rightarrow> labels \<Rightarrow> nat \<Rightarrow> container list \<Rightarrow> bool \<Rightarrow> string \<Rightarrow> 'n option \<Rightarrow> 'n deployment" where
  "CreateDeployment k selector labels replicas containers nonRoot account policy =
     \<lparr>dp_key = k, dp_labels = labels, dp_selector = selector, dp_pod_labels = labels, dp_replicas = replicas,
      dp_service_account = account, dp_containers = containers, dp_non_root = nonRoot, dp_placement = policy\<rparr>"

definition CreateContainer :: "string \<Rightarrow> string \<Rightarrow> string \<Rightarrow> container" where
  "CreateContainer name img pullPolicy =
     \<lparr>ct_name = name, ct_image = img, ct_pull_policy = pullPolicy, ct_env = [], ct_command = []\<rparr>"

section \<open>Permissions\<close>

definition getControllerPolicyRules :: "policy_rule list" where
  "getControllerPolicyRules =
    [\<lparr>pr_groups = [''''], pr_names = [], pr_resources = [''pods'', ''services'', ''services/finalizers'', ''endpoints'',
        ''persistentvolumeclaims'', ''events'', ''configmaps'', ''secrets'', ''services''], pr_verbs = [''*'']\<rparr>,
     \<lparr>pr_groups = [''apps''], pr_names = [], pr_resources = [''deployments'', ''daemonsets'', ''replicasets'', ''statefulsets''],
      pr_verbs = [''*'']\<rparr>,
     \<lparr>pr_groups = [''monitoring.coreos.com''], pr_names = [], pr_resources = [''servicemonitors''], pr_verbs = [''get'', ''create'']\<rparr>,
     \<lparr>pr_groups = [''apps''], pr_names = [''vm-import-operator''], pr_resources = [''deployments/finalizers''], pr_verbs = [''update'']\<rparr>,
     \<lparr>pr_groups = [''v2v.kubevirt.io''], pr_names = [], pr_resources = [''*''], pr_verbs = [''*'']\<rparr>,
     \<lparr>pr_groups = [''kubevirt.io''], pr_names = [], pr_resources = [''virtualmachines'', ''virtualmachines/finalizers'',
        ''virtualmachineinstances''], pr_verbs = [''*'']\<rparr>,
     \<lparr>pr_groups = [''cdi.kubevirt.io''], pr_names = [], pr_resources = [''datavolumes''], pr_verbs = [''*'']\<rparr>,
     \<lparr>pr_groups = [''template.openshift.io''], pr_names = [], pr_resources = [''templates''], pr_verbs = [''get'', ''list'']\<rparr>,
     \<lparr>pr_groups = [''template.openshift.io''], pr_names = [], pr_resources = [''processedtemplates''], pr_verbs = [''create'']\<rparr>,
     \<lparr>pr_groups = [''storage.k8s.io''], pr_names = [], pr_resources = [''storageclasses''], pr_verbs = [''get'', ''list'', ''watch'']\<rparr>,
     \<lparr>pr_groups = [''k8s.cni.cncf.io''], pr_names = [], pr_resources = [''network-attachment-definitions''],
      pr_verbs = [''get'', ''list'', ''watch'']\<rparr>,
     \<lparr>pr_groups = [''hco.kubevirt.io''], pr_names = [], pr_resources = [''hyperconvergeds''], pr_verbs = [''get'', ''list'']\<rparr>,
     \<lparr>pr_groups = [''batch''], pr_names = [], pr_resources = [''jobs''], pr_verbs = [''*'']\<rparr>]"

definition getOperatorPolicyRules :: "policy_rule list" where
  "getOperatorPolicyRules =
    [\<lparr>pr_groups = [''''], pr_names = [], pr_resources = [''pods'', ''events'', ''configmaps'', ''secrets'', ''serviceaccounts'',
        ''services'', ''services/finalizers''], pr_verbs = [''*'']\<rparr>,
     \<lparr>pr_groups = [''apps''], pr_names = [], pr_resources = [''deployments'', ''deployments/finalizers''], pr_verbs = [''*'']\<rparr>,
     \<lparr>pr_groups = [''v2v.kubevirt.io''], pr_names = [], pr_resources = [''vmimportconfigs'', ''vmimportconfigs/finalizers'',
        ''vmimportconfigs/status''], pr_verbs = [''*'']\<rparr>,
     \<lparr>pr_groups = [''apiextensions.k8s.io''], pr_names = [], pr_resources = [''customresourcedefinitions''], pr_verbs = [''*'']\<rparr>,
     \<lparr>pr_groups = [''rbac.authorization.k8s.io''], pr_names = [], pr_resources = [''clusterrolebindings'', ''clusterroles''],
      pr_verbs = [''*'']\<rparr>,
     \<lparr>pr_groups = [''monitoring.coreos.com''], pr_names = [], pr_resources = [''servicemonitors''], pr_verbs = [''*'']\<rparr>]"

definition CreateControllerRole :: "'n resource" where
  "CreateControllerRole = ClusterRole ControllerName getControllerPolicyRules"

definition CreateControllerRoleBinding :: "string \<Rightarrow> 'n resource" where
  "CreateControllerRoleBinding namespace = ClusterRoleBinding ControllerName ControllerName (namespace, ControllerName)"

definition CreateServiceAccount :: "string \<Rightarrow> 'n resource" where
  "CreateServiceAccount namespace = ServiceAccount (namespace, ControllerName)"

section \<open>Deployments\<close>

definition createControllerEnv :: "string \<Rightarrow> string \<Rightarrow> (string \<times> env_value) list" where
  "createControllerEnv virtV2vImage pullPolicy =
     [(''WATCH_NAMESPACE'', EnvValue []), (''POD_NAME'', FieldRef ''metadata.name''),
      (''OPERATOR_NAME'', EnvValue ''vm-import-operator''), (''IMPORT_POD_RESTART_TOLERANCE'', EnvValue ''3''),
      (''PULL_POLICY'', EnvValue pullPolicy), (''VIRTV2V_IMAGE'', EnvValue virtV2vImage)]"

definition createControllerContainers :: "string \<Rightarrow> string \<Rightarrow> string \<Rightarrow> container list" where
  "createControllerContainers img virtV2vImage pullPolicy =
     [(CreateContainer ControllerName img pullPolicy)
        \<lparr>ct_env := createControllerEnv virtV2vImage pullPolicy, ct_command := [ControllerName]\<rparr>]"

definition CreateControllerDeployment :: "string \<Rightarrow> string \<Rightarrow> string \<Rightarrow> string \<Rightarrow> string \<Rightarrow> nat \<Rightarrow> 'n option \<Rightarrow> 'n deployment" where
  "CreateControllerDeployment name namespace img virtV2vImage pullPolicy numReplicas policy =
     (let selectorMatchMap = WithLabels [''v2v.kubevirt.io'' \<mapsto> ControllerName] operatorLabels
      in CreateDeployment (namespace, name) selectorMatchMap selectorMatchMap numReplicas
           (createControllerContainers img virtV2vImage pullPolicy) False ControllerName policy)"

definition createOperatorEnvVar :: "string \<Rightarrow> string \<Rightarrow> string \<Rightarrow> string \<Rightarrow> string \<Rightarrow> (string \<times> env_value) list" where
  "createOperatorEnvVar operatorVersion deployClusterResources controllerImage virtV2vImage pullPolicy =
     [(''DEPLOY_CLUSTER_RESOURCES'', EnvValue deployClusterResources), (''OPERATOR_VERSION'', EnvValue operatorVersion),
      (''CONTROLLER_IMAGE'', EnvValue controllerImage), (''PULL_POLICY'', EnvValue pullPolicy), (''WATCH_NAMESPACE'', EnvValue []),
      (''POD_NAME'', FieldRef ''metadata.name''), (''MONITORING_NAMESPACE'', EnvValue ''openshift-monitoring''),
      (''VIRTV2V_IMAGE'', EnvValue virtV2vImage)]"

definition CreateOperatorDeployment :: "string \<Rightarrow> string \<Rightarrow> string \<Rightarrow> string \<Rightarrow> string \<Rightarrow> nat \<Rightarrow> 'n deployment" where
  "CreateOperatorDeployment name namespace matchKey matchValue serviceAccount numReplicas =
     (let labels = WithLabels [matchKey \<mapsto> matchValue] operatorLabels
      in CreateDeployment (namespace, name) labels labels numReplicas [] True serviceAccount None)"

definition createOperatorDeployment :: "string \<Rightarrow> string \<Rightarrow> string \<Rightarrow> string \<Rightarrow> string \<Rightarrow> string \<Rightarrow> string \<Rightarrow> 'n deployment" where
  "createOperatorDeployment operatorVersion namespace deployClusterResources operatorImage controllerImage virtV2vImage pullPolicy =
     (CreateOperatorDeployment operatorName namespace ''name'' operatorName operatorName 1)
       \<lparr>dp_containers := [(CreateContainer operatorName operatorImage pullPolicy)
          \<lparr>ct_env := createOperatorEnvVar operatorVersion deployClusterResources controllerImage virtV2vImage pullPolicy\<rparr>]\<rparr>"

section \<open>Metrics\<close>

definition MetricsPort :: nat where "MetricsPort = 8383"
definition OperatorMetricsPort :: nat where "OperatorMetricsPort = 8686"

definition CreateMetricsService :: "string \<Rightarrow> service_object" where
  "CreateMetricsService namespace =
     \<lparr>sv_key = (namespace, operatorName @ ''-metrics''),
      sv_labels = WithLabels [''v2v.kubevirt.io'' \<mapsto> ''vm-import-controller''] (WithLabels [''name'' \<mapsto> operatorName] commonLabels),
      sv_selector = [''v2v.kubevirt.io'' \<mapsto> ''vm-import-controller''],
      sv_ports = [(''http-metrics'', MetricsPort), (''cr-metrics'', OperatorMetricsPort)]\<rparr>"

definition CreateServiceMonitor :: "string \<Rightarrow> string \<Rightarrow> service_monitor" where
  "CreateServiceMonitor monitoringNamespace svcNamespace =
     (let labels = [''name'' \<mapsto> operatorName]
      in \<lparr>sm_key = (monitoringNamespace, operatorName @ ''-monitor''), sm_labels = labels, sm_namespaces = [svcNamespace],
          sm_selector = labels, sm_endpoints = [''http-metrics'', ''cr-metrics'']\<rparr>)"

section \<open>The cluster of the operator\<close>

record 'n op_world =
  ow_deployments :: "nsname \<Rightarrow> 'n deployment option"
  ow_config_maps :: "nsname \<Rightarrow> (string \<rightharpoonup> string) option"
  ow_pods :: "(nsname \<times> labels) list"
  ow_events :: "string list"
  ow_calls :: nat
  ow_faults :: "nat \<Rightarrow> fault"

definition op_api :: "('n op_world \<Rightarrow> go_error + 'a \<times> 'n op_world) \<Rightarrow> ('n op_world, 'a) go" where
  "op_api f = (\<lambda>w. let w1 = w\<lparr>ow_calls := Suc (ow_calls w)\<rparr> in
     case ow_faults w (ow_calls w) of
       FailBefore e \<Rightarrow> (Inl e, w1)
     | NoFault \<Rightarrow> (case f w1 of Inl e \<Rightarrow> (Inl e, w1) | Inr (x, w2) \<Rightarrow> (Inr x, w2))
     | FailAfter e \<Rightarrow> (case f w1 of Inl e' \<Rightarrow> (Inl e', w1) | Inr (x, w2) \<Rightarrow> (Inl e, w2)))"

definition op_get_deployment :: "nsname \<Rightarrow> ('n op_world, 'n deployment) go" where
  "op_get_deployment k = op_api (\<lambda>w. case ow_deployments w k of None \<Rightarrow> Inl (not_found ''deployments'' k) | Some d \<Rightarrow> Inr (d, w))"

definition op_get_config_map :: "nsname \<Rightarrow> ('n op_world, string \<rightharpoonup> string) go" where
  "op_get_config_map k = op_api (\<lambda>w. case ow_config_maps w k of None \<Rightarrow> Inl (not_found ''configmaps'' k) | Some d \<Rightarrow> Inr (d, w))"

definition op_create_config_map :: "nsname \<Rightarrow> (string \<rightharpoonup> string) \<Rightarrow> ('n op_world, unit) go" where
  "op_create_config_map k d = op_api (\<lambda>w. case ow_config_maps w k of
     Some _ \<Rightarrow> Inl (already_exists ''configmaps'' k)
   | None \<Rightarrow> Inr ((), w\<lparr>ow_config_maps := (ow_config_maps w)(k := Some d)\<rparr>))"

definition op_list_pods :: "string \<Rightarrow> ('n op_world, nsname list) go" where
  "op_list_pods label = op_api (\<lambda>w. Inr (map fst (filter (\<lambda>p. snd p label \<noteq> None) (ow_pods w)), w))"

definition op_delete_pod :: "nsname \<Rightarrow> ('n op_world, unit) go" where
  "op_delete_pod k = op_api (\<lambda>w. if k \<in> fst ` set (ow_pods w)
     then Inr ((), w\<lparr>ow_pods := filter (\<lambda>p. fst p \<noteq> k) (ow_pods w)\<rparr>) else Inl (not_found ''pods'' k))"

definition op_event :: "string \<Rightarrow> ('n op_world, unit) go" where
  "op_event reason = gmodify (\<lambda>w. w\<lparr>ow_events := ow_events w @ [reason]\<rparr>)"

section \<open>The resources of a configuration\<close>

record operator_args =
  oa_version :: string
  oa_controller_image :: string
  oa_virtv2v_image :: string
  oa_deploy_cluster_resources :: string
  oa_pull_policy :: string
  oa_namespace :: string
  oa_monitoring_namespace :: string

record 'n import_config =
  ic_pull_policy :: string
  ic_infra :: 'n
  ic_conditions :: "string list"

definition IsCreating :: "'n import_config \<Rightarrow> bool" where
  "IsCreating cr \<longleftrightarrow> ic_conditions cr = []"

definition env_value_of :: "(string \<times> env_value) list \<Rightarrow> string \<Rightarrow> string \<Rightarrow> string" where
  "env_value_of env name old =
     fold (\<lambda>(n, v) x. if n = name then (case v of EnvValue s \<Rightarrow> s | FieldRef _ \<Rightarrow> []) else x) env old"

text \<open>The namespace of the monitoring is taken from the first container, which a deployment need not have.\<close>

definition getOperatorArgs :: "operator_args \<Rightarrow> 'n import_config option \<Rightarrow> ('n op_world, operator_args \<times> 'n option) go" where
  "getOperatorArgs args cr =
     (let result = (case cr of None \<Rightarrow> args
            | Some c \<Rightarrow> if ic_pull_policy c \<noteq> [] then args\<lparr>oa_pull_policy := ic_pull_policy c\<rparr> else args);
          infra = map_option ic_infra cr
      in gtry (op_get_deployment (oa_namespace result, ''vm-import-operator''))
           (\<lambda>e. gret (result, infra))
           (\<lambda>d. case dp_containers d of
              [] \<Rightarrow> gfail (GoErr Panicked ''index out of range'')
            | c # _ \<Rightarrow> gret (result\<lparr>oa_monitoring_namespace :=
                env_value_of (ct_env c) ''MONITORING_NAMESPACE'' (oa_monitoring_namespace result)\<rparr>, infra)))"

definition createCRDResources :: "'n resource list" where
  "createCRDResources = [CustomResource CreateResourceMapping, CustomResource CreateVMImport]"

text \<open>\<open>monitor\<close> is what \<open>hasServiceMonitor\<close> finds out from the API server.\<close>

definition createControllerResources :: "go_error + bool \<Rightarrow> operator_args \<times> 'n option \<Rightarrow> 'n resource list" where
  "createControllerResources monitor argsInfra =
     (let (args, infra) = argsInfra; ns = oa_namespace args
      in [CreateServiceAccount ns, CreateControllerRole, CreateControllerRoleBinding ns,
          ControllerDeployment (CreateControllerDeployment ControllerName ns (oa_controller_image args) (oa_virtv2v_image args)
            (oa_pull_policy args) 1 infra)] @
         (if monitor = Inr True
          then [MetricsService (CreateMetricsService ns), MetricsMonitor (CreateServiceMonitor (oa_monitoring_namespace args) ns)]
          else []))"

definition deployClusterResources :: "string \<Rightarrow> bool" where
  "deployClusterResources env \<longleftrightarrow> ToLower env \<noteq> ''false''"

definition getAllResources :: "string \<Rightarrow> go_error + bool \<Rightarrow> operator_args \<Rightarrow> 'n import_config option \<Rightarrow> ('n op_world, 'n resource list) go" where
  "getAllResources env monitor args cr =
     gbind (getOperatorArgs args cr) (\<lambda>result.
       gret ((if deployClusterResources env then createCRDResources else []) @ createControllerResources monitor result))"

section \<open>The configuration of the controller\<close>

definition findVMImportOperatorContainer :: "'n deployment \<Rightarrow> container" where
  "findVMImportOperatorContainer d =
     (case find (\<lambda>c. ct_name c = ''vm-import-operator'') (dp_containers d) of
        Some c \<Rightarrow> c
      | None \<Rightarrow> CreateContainer [] [] [])"

text \<open>The name and the namespace that the environment of the operator gives.\<close>

definition getOsMappingConfigMapName :: "string \<Rightarrow> ('n op_world, nsname option) go" where
  "getOsMappingConfigMapName namespace =
     gtry (op_get_deployment (namespace, ''vm-import-operator''))
       (\<lambda>e. gret None)
       (\<lambda>d. let env = ct_env (findVMImportOperatorContainer d);
                name = env_value_of env ''OS_CONFIGMAP_NAME'' [];
                ns = env_value_of env ''OS_CONFIGMAP_NAMESPACE'' []
            in gret (if name = [] \<and> ns = [] then None else Some (ns, name)))"

definition config_key :: "string \<Rightarrow> nsname" where
  "config_key namespace = (namespace, ''vm-import-controller-config'')"

definition updateControllerConfig :: "string \<Rightarrow> ('n op_world, unit) go" where
  "updateControllerConfig namespace =
     gtry (op_get_config_map (config_key namespace))
       (\<lambda>e. if \<not> IsNotFound e then gfail e
          else gbind (getOsMappingConfigMapName namespace) (\<lambda>found.
            let d = (case found of None \<Rightarrow> Map.empty
                     | Some (ns, name) \<Rightarrow> [''osConfigMap.name'' \<mapsto> name, ''osConfigMap.namespace'' \<mapsto> ns])
            in gbind (op_create_config_map (config_key namespace) d) (\<lambda>_.
                 if found \<noteq> None then op_event ''OSConfigMapMigrated'' else gret ())))
       (\<lambda>_. gret ())"

section \<open>Deleting the pods of the controller\<close>

datatype reconcile_state = PreCreate | PostCreate | PostRead | PreUpdate | PostUpdate | PreDelete | PostDelete | OperatorDelete

definition isControllerDeployment :: "'n deployment \<Rightarrow> bool" where
  "isControllerDeployment d \<longleftrightarrow> snd (dp_key d) = ControllerName"

definition reconcileDeleteControllerDeployment :: "reconcile_state \<Rightarrow> 'n deployment option \<Rightarrow> 'n deployment option \<Rightarrow> ('n op_world, unit) go" where
  "reconcileDeleteControllerDeployment state desired current =
     (if state \<notin> {PostDelete, OperatorDelete} then gret ()
      else case (case desired of None \<Rightarrow> current | Some d \<Rightarrow> Some d) of
        None \<Rightarrow> gret ()
      | Some d \<Rightarrow>
          if \<not> isControllerDeployment d then gret ()
          else gbind (op_list_pods ''v2v.kubevirt.io'') (\<lambda>pods.
            gforeach (\<lambda>k _. op_delete_pod k) pods ()))"

end
