(* ===== verification/OperatorSpec.thy ===== *)
theory OperatorSpec
  imports Operator GuestConversion Example
begin

text \<open>
  What the operator promises: that the controller it deploys may do what it does, runs with the settings it
  reads, and keeps its configuration.
\<close>

section \<open>Permissions\<close>

text \<open>A call of the API: group, resource and verb.  Rules that name objects are left aside.\<close>

type_synonym api_call = "string \<times> string \<times> string"

definition rule_permits :: "api_call \<Rightarrow> policy_rule \<Rightarrow> bool" where
  "rule_permits = (\<lambda>(g, r, v) rule. pr_names rule = [] \<and> g \<in> set (pr_groups rule) \<and>
     (r \<in> set (pr_resources rule) \<or> ''*'' \<in> set (pr_resources rule)) \<and> (v \<in> set (pr_verbs rule) \<or> ''*'' \<in> set (pr_verbs rule)))"

definition permits :: "policy_rule list \<Rightarrow> api_call \<Rightarrow> bool" where
  "permits rules call = list_ex (rule_permits call) rules"

text \<open>The calls of the reconciler, of the providers and of the managers.\<close>

definition calls_on :: "string \<Rightarrow> string \<Rightarrow> string list \<Rightarrow> api_call list" where
  "calls_on g r vs = map (\<lambda>v. (g, r, v)) vs"

definition controller_calls :: "api_call list" where
  "controller_calls =
     calls_on ''v2v.kubevirt.io'' ''virtualmachineimports'' [''get'', ''list'', ''watch'', ''patch''] @
     calls_on ''v2v.kubevirt.io'' ''virtualmachineimports/status'' [''update''] @
     calls_on ''v2v.kubevirt.io'' ''resourcemappings'' [''get'', ''list'', ''watch''] @
     calls_on ''kubevirt.io'' ''virtualmachines'' [''get'', ''list'', ''watch'', ''create'', ''patch'', ''delete''] @
     calls_on ''kubevirt.io'' ''virtualmachineinstances'' [''get'', ''list'', ''watch''] @
     calls_on ''cdi.kubevirt.io'' ''datavolumes'' [''get'', ''list'', ''watch'', ''create'', ''patch'', ''delete''] @
     calls_on '''' ''pods'' [''get'', ''list'', ''watch''] @
     calls_on '''' ''secrets'' [''get'', ''list'', ''watch'', ''create'', ''delete''] @
     calls_on '''' ''configmaps'' [''get'', ''list'', ''watch'', ''create'', ''delete''] @
     calls_on '''' ''events'' [''create'', ''patch''] @
     calls_on ''batch'' ''jobs'' [''get'', ''list'', ''watch'', ''create'', ''delete''] @
     calls_on ''template.openshift.io'' ''templates'' [''list''] @
     calls_on ''template.openshift.io'' ''processedtemplates'' [''create''] @
     calls_on ''k8s.cni.cncf.io'' ''network-attachment-definitions'' [''get'', ''list'', ''watch''] @
     calls_on ''storage.k8s.io'' ''storageclasses'' [''get'', ''list'', ''watch'']"

lemma controller_permissions: "list_all (permits getControllerPolicyRules) controller_calls"
  by (simp add: controller_calls_def calls_on_def permits_def rule_permits_def getControllerPolicyRules_def)

lemma first_container:
  "(case cs of [] \<Rightarrow> gfail e | c # _ \<Rightarrow> gret (f c)) w = (Inr y, w') \<longleftrightarrow> (\<exists>c ds. cs = c # ds \<and> y = f c \<and> w' = w)"
  by (cases cs) auto


definition fresh_cluster :: "unit op_world" where
  "fresh_cluster = \<lparr>ow_deployments = (\<lambda>k. if k = (''ns'', ''vm-import-operator'')
       then Some (CreateDeployment k Map.empty Map.empty 1 [(CreateContainer ''vm-import-operator'' [] [])
         \<lparr>ct_env := [(''OS_CONFIGMAP_NAME'', EnvValue ''os''), (''OS_CONFIGMAP_NAMESPACE'', EnvValue ''kube'')]\<rparr>] True [] None) else None),
     ow_config_maps = Map.empty, ow_pods = [((''ns'', ''p1''), [''v2v.kubevirt.io'' \<mapsto> ControllerName]), ((''ns'', ''p2''), Map.empty)],
     ow_events = [], ow_calls = 0, ow_faults = (\<lambda>n. NoFault)\<rparr>"

definition sample_args :: operator_args where
  "sample_args = \<lparr>oa_version = ''v1'', oa_controller_image = ''img'', oa_virtv2v_image = ''virt-v2v'', oa_deploy_cluster_resources = ''true'',
     oa_pull_policy = ''Always'', oa_namespace = ''ns'', oa_monitoring_namespace = []\<rparr>"


section \<open>Settings\<close>

text \<open>What the controller finds in an environment variable: nothing is an empty text.\<close>

definition controller_env :: "'n deployment \<Rightarrow> string \<Rightarrow> string" where
  "controller_env d name = env_value_of (concat (map ct_env (dp_containers d))) name []"

lemma deployed_env:
  "controller_env (CreateControllerDeployment n ns img v2v policy k infra) name =
     (if name = ''OPERATOR_NAME'' then ''vm-import-operator'' else if name = ''IMPORT_POD_RESTART_TOLERANCE'' then ''3''
      else if name = ''PULL_POLICY'' then policy else if name = ''VIRTV2V_IMAGE'' then v2v else [])"
  by (simp add: controller_env_def env_value_of_def CreateControllerDeployment_def CreateDeployment_def
      createControllerContainers_def createControllerEnv_def CreateContainer_def Let_def)

definition deployed_platform :: "'n deployment \<Rightarrow> platform \<Rightarrow> platform" where
  "deployed_platform d pl = pl\<lparr>pl_virt_v2v_image := controller_env d ''VIRTV2V_IMAGE'', pl_pull_policy := controller_env d ''IMAGE_PULL_POLICY''\<rparr>"

text \<open>
  C40. The pull policy that the operator is configured with never reaches the jobs of guest conversions: the controller
  reads another variable than the one the operator sets, so the policy of every job is empty.
\<close>

theorem job_pull_policy_lost:
  assumes "MakeGuestConversionJobSpec (deployed_platform (CreateControllerDeployment n ns img v2v policy k infra) pl) vm cm = Inr job"
  shows "js_image (jb_spec job) = v2v \<and> js_pull_policy (jb_spec job) = [] \<and>
    list_ex (\<lambda>c. (''PULL_POLICY'', EnvValue policy) \<in> set (ct_env c)) (dp_containers (CreateControllerDeployment n ns img v2v policy k infra))"
proof -
  have "js_image (jb_spec job) = v2v \<and> js_pull_policy (jb_spec job) = []"
    using assms by (auto simp: MakeGuestConversionJobSpec_def rbind_Inr deployed_platform_def deployed_env)
  then show ?thesis
    by (simp add: CreateControllerDeployment_def CreateDeployment_def createControllerContainers_def createControllerEnv_def Let_def)
qed

theorem job_pull_policy_lost_witness:
  "\<exists>job. MakeGuestConversionJobSpec (deployed_platform (CreateControllerDeployment ''c'' ''ns'' ''img'' ''virt-v2v'' ''Always'' 1 (None :: unit option))
       demo_platform) demo_vm \<lparr>cm_meta = empty_meta, cm_data = Map.empty, cm_binary = Map.empty\<rparr> = Inr job \<and>
     js_image (jb_spec job) = ''virt-v2v'' \<and> js_pull_policy (jb_spec job) = []"
proof -
  let ?run = "MakeGuestConversionJobSpec (deployed_platform (CreateControllerDeployment ''c'' ''ns'' ''img'' ''virt-v2v'' ''Always'' 1 (None :: unit option))
       demo_platform) demo_vm \<lparr>cm_meta = empty_meta, cm_data = Map.empty, cm_binary = Map.empty\<rparr>"
  obtain job where "?run = Inr job"
    by (auto simp: MakeGuestConversionJobSpec_def demo_vm_def makeJobVolumeMounts_def empty_template_def)
  with job_pull_policy_lost [OF this] show ?thesis by blast
qed

section \<open>The configuration of the controller\<close>

lemma op_api_success: "op_api f w = (Inr x, w') \<Longrightarrow> f (w\<lparr>ow_calls := Suc (ow_calls w)\<rparr>) = Inr (x, w')"
  by (auto simp: op_api_def Let_def split: fault.splits sum.splits)

lemma op_get_deployment_world: "op_get_deployment k w = (r, w') \<Longrightarrow> ow_config_maps w' = ow_config_maps w \<and> ow_pods w' = ow_pods w"
  by (auto simp: op_get_deployment_def op_api_def Let_def split: fault.splits sum.splits option.splits)

lemma op_get_config_map_world: "op_get_config_map k w = (r, w') \<Longrightarrow> ow_config_maps w' = ow_config_maps w"
  by (auto simp: op_get_config_map_def op_api_def Let_def split: fault.splits sum.splits option.splits)

lemma op_get_config_map_result:
  "op_get_config_map k w = (Inr d, w') \<Longrightarrow> ow_config_maps w k = Some d"
  by (auto simp: op_get_config_map_def dest!: op_api_success split: option.splits)

lemma op_create_config_map_result:
  "op_create_config_map k d w = (Inr u, w') \<Longrightarrow> ow_config_maps w k = None \<and> ow_config_maps w' = (ow_config_maps w)(k := Some d)"
  by (auto simp: op_create_config_map_def dest!: op_api_success split: option.splits)

lemma getOsMapping_world: "getOsMappingConfigMapName ns w = (Inr found, w') \<Longrightarrow> ow_config_maps w' = ow_config_maps w"
  by (auto simp: getOsMappingConfigMapName_def gtry_returns Let_def dest!: op_get_deployment_world split: if_splits)

definition config_from :: "nsname option \<Rightarrow> (string \<rightharpoonup> string)" where
  "config_from found = (case found of None \<Rightarrow> Map.empty
     | Some (ns, name) \<Rightarrow> [''osConfigMap.name'' \<mapsto> name, ''osConfigMap.namespace'' \<mapsto> ns])"

text \<open>
  The update of the controller's configuration never overwrites one: after it succeeded the config map exists, as it was
  before or, if there was none, made from the environment of the operator; no other config map changed.
\<close>

theorem updateControllerConfig_keeps:
  assumes "updateControllerConfig namespace (w :: 'n op_world) = (Inr (), w')"
  shows "(\<exists>d. ow_config_maps w (config_key namespace) = Some d \<and> ow_config_maps w' = ow_config_maps w) \<or>
    ow_config_maps w (config_key namespace) = None \<and>
    (\<exists>found (w1 :: 'n op_world) w2. getOsMappingConfigMapName namespace w1 = (Inr found, w2) \<and> ow_config_maps w1 = ow_config_maps w \<and>
       ow_config_maps w' = (ow_config_maps w)(config_key namespace := Some (config_from found)))"
proof -
  from assms consider (found) d where "op_get_config_map (config_key namespace) w = (Inr d, w')"
    | (missing) e w1 found w2 w3 where "op_get_config_map (config_key namespace) w = (Inl e, w1)"
        "getOsMappingConfigMapName namespace w1 = (Inr found, w2)"
        "op_create_config_map (config_key namespace) (config_from found) w2 = (Inr (), w3)"
        "ow_config_maps w' = ow_config_maps w3"
    by (fastforce simp: updateControllerConfig_def gtry_returns gbind_returns Let_def config_from_def op_event_def split: if_splits)
  then show ?thesis
  proof cases
    case found
    then show ?thesis using op_get_config_map_result op_get_config_map_world by blast
  next
    case missing
    then have "ow_config_maps w1 = ow_config_maps w" "ow_config_maps w2 = ow_config_maps w1"
      using op_get_config_map_world getOsMapping_world by blast+
    with missing op_create_config_map_result [OF missing(3)] show ?thesis by auto
  qed
qed

theorem updateControllerConfig_keeps_witness:
  "\<exists>w' d. updateControllerConfig ''ns'' fresh_cluster = (Inr (), w') \<and> ow_config_maps w' (config_key ''ns'') = Some d \<and>
     d ''osConfigMap.name'' = Some ''os'' \<and> ow_events w' = [''OSConfigMapMigrated'']"
proof -
  have env: "env_value_of [(''OS_CONFIGMAP_NAME'', EnvValue ''os''), (''OS_CONFIGMAP_NAMESPACE'', EnvValue ''kube'')] ''OS_CONFIGMAP_NAME'' [] = ''os''"
    "env_value_of [(''OS_CONFIGMAP_NAME'', EnvValue ''os''), (''OS_CONFIGMAP_NAMESPACE'', EnvValue ''kube'')] ''OS_CONFIGMAP_NAMESPACE'' [] = ''kube''"
    by (simp_all add: env_value_of_def)
  have "\<exists>w' d. updateControllerConfig ''ns'' fresh_cluster = (Inr (), w') \<and> ow_config_maps w' (config_key ''ns'') = Some d \<and>
     d ''osConfigMap.name'' = Some ''os'' \<and> ow_events w' = [''OSConfigMapMigrated'']"
    by (simp add: updateControllerConfig_def op_get_config_map_def op_create_config_map_def op_get_deployment_def op_api_def
        getOsMappingConfigMapName_def findVMImportOperatorContainer_def fresh_cluster_def CreateDeployment_def CreateContainer_def
        config_key_def not_found_def op_event_def gbind_unfold gtry_unfold Let_def env)
  then obtain w' d where run: "updateControllerConfig ''ns'' fresh_cluster = (Inr (), w')" "ow_config_maps w' (config_key ''ns'') = Some d"
    "d ''osConfigMap.name'' = Some ''os''" "ow_events w' = [''OSConfigMapMigrated'']" by blast
  with updateControllerConfig_keeps [OF run(1)] show ?thesis by blast
qed

section \<open>Deleting the pods of the controller\<close>

lemma op_delete_pod_result:
  "op_delete_pod k w = (Inr u, w') \<Longrightarrow> ow_pods w' = filter (\<lambda>p. fst p \<noteq> k) (ow_pods w)"
  by (auto simp: op_delete_pod_def dest!: op_api_success split: if_splits)

lemma op_delete_pods:
  "gforeach (\<lambda>k _. op_delete_pod k) ks u w = (Inr v, w') \<Longrightarrow> ow_pods w' = filter (\<lambda>p. fst p \<notin> set ks) (ow_pods w)"
  by (induction ks arbitrary: u w) (auto simp: gbind_returns dest!: op_delete_pod_result intro: filter_cong)

text \<open>
  When the deployment of the controller is deleted, no pod with the label of the program is left once the callback
  succeeded, and no other pod is deleted, if names of pods are unique.
\<close>

theorem deletion_removes_pods:
  assumes "reconcileDeleteControllerDeployment state desired current w = (Inr (), w')" and "distinct (map fst (ow_pods w))"
    and "state \<in> {PostDelete, OperatorDelete}"
    and "(case desired of None \<Rightarrow> current | Some d \<Rightarrow> Some d) = Some d" and "isControllerDeployment d"
  shows "ow_pods w' = filter (\<lambda>p. snd p ''v2v.kubevirt.io'' = None) (ow_pods w)"
proof -
  from assms(1,3-5) obtain pods w1 where l: "op_list_pods ''v2v.kubevirt.io'' w = (Inr pods, w1)"
    and d: "gforeach (\<lambda>k _. op_delete_pod k) pods () w1 = (Inr (), w')"
    by (auto simp: reconcileDeleteControllerDeployment_def gbind_returns)
  from l have pods: "pods = map fst (filter (\<lambda>p. snd p ''v2v.kubevirt.io'' \<noteq> None) (ow_pods w))" and same: "ow_pods w1 = ow_pods w"
    by (auto simp: op_list_pods_def dest!: op_api_success)
  have "fst p \<notin> set pods \<longleftrightarrow> snd p ''v2v.kubevirt.io'' = None" if "p \<in> set (ow_pods w)" for p
    using assms(2) that unfolding pods by (force simp: distinct_map inj_on_def)
  then have "filter (\<lambda>p. fst p \<notin> set pods) (ow_pods w) = filter (\<lambda>p. snd p ''v2v.kubevirt.io'' = None) (ow_pods w)"
    by (rule filter_cong [OF refl])
  then show ?thesis using op_delete_pods [OF d] unfolding same by (rule trans [rotated])
qed

theorem deletion_removes_pods_witness:
  "\<exists>w'. reconcileDeleteControllerDeployment PostDelete (Some (CreateControllerDeployment ControllerName ''ns'' [] [] [] 1 None)) None
     fresh_cluster = (Inr (), w') \<and> map fst (ow_pods w') = [(''ns'', ''p2'')]"
proof -
  let ?d = "CreateControllerDeployment ControllerName ''ns'' [] [] [] 1 None :: unit deployment"
  have c: "isControllerDeployment ?d"
    by (simp add: isControllerDeployment_def CreateControllerDeployment_def CreateDeployment_def Let_def)
  have "\<exists>w'. reconcileDeleteControllerDeployment PostDelete (Some ?d) None fresh_cluster = (Inr (), w')"
    by (simp add: reconcileDeleteControllerDeployment_def c op_list_pods_def op_delete_pod_def op_api_def fresh_cluster_def
        gbind_unfold Let_def)
  then obtain w' where run: "reconcileDeleteControllerDeployment PostDelete (Some ?d) None fresh_cluster = (Inr (), w')" by blast
  from deletion_removes_pods [OF run _ _ _ c] have "ow_pods w' = filter (\<lambda>p. snd p ''v2v.kubevirt.io'' = None) (ow_pods fresh_cluster)"
    by (simp add: fresh_cluster_def)
  with run show ?thesis by (simp add: fresh_cluster_def)
qed

end
