(* ===== verification/ApiJson.thy ===== *)
theory ApiJson
  imports ImportTypes Schema
begin

text \<open>
  The JSON form of the types of \<open>pkg/apis/v2v/v1beta1\<close>, as \<open>encoding/json\<close> derives it from the tags of their
  fields: how a value is written, and how a document is read into a value.

  \<^item> A pointer with \<open>omitempty\<close> is written when it is not nil.  An empty slice stands for a nil one, which is a
    null where the tag has no \<open>omitempty\<close>.
  \<^item> Reading leaves the zero value in a field that is missing or null, ignores fields that the type does not
    have, and fails on a value of another type.
\<close>

section \<open>Fields\<close>

definition opt_field :: "string \<Rightarrow> ('a \<Rightarrow> json) \<Rightarrow> 'a option \<Rightarrow> (string \<times> json) list" where
  "opt_field k f x = (case x of None \<Rightarrow> [] | Some y \<Rightarrow> [(k, f y)])"

definition read_field :: "(json \<Rightarrow> 'a option) \<Rightarrow> 'a \<Rightarrow> string \<Rightarrow> (string \<times> json) list \<Rightarrow> 'a option" where
  "read_field f zero k kvs = (case map_of kvs k of None \<Rightarrow> Some zero | Some JNull \<Rightarrow> Some zero | Some j \<Rightarrow> f j)"

definition read_pointer :: "(json \<Rightarrow> 'a option) \<Rightarrow> string \<Rightarrow> (string \<times> json) list \<Rightarrow> 'a option option" where
  "read_pointer f k kvs = read_field (\<lambda>j. map_option Some (f j)) None k kvs"

fun read_string :: "json \<Rightarrow> string option" where
  "read_string (JStr s) = Some s"
| "read_string _ = None"

fun read_bool :: "json \<Rightarrow> bool option" where
  "read_bool (JBool b) = Some b"
| "read_bool _ = None"

fun read_time :: "json \<Rightarrow> time option" where
  "read_time (JTime t) = Some t"
| "read_time _ = None"

fun read_object :: "((string \<times> json) list \<Rightarrow> 'a option) \<Rightarrow> json \<Rightarrow> 'a option" where
  "read_object f (JObject kvs) = f kvs"
| "read_object f _ = None"

fun read_all :: "(json \<Rightarrow> 'a option) \<Rightarrow> json list \<Rightarrow> 'a list option" where
  "read_all f [] = Some []"
| "read_all f (x # xs) = Option.bind (f x) (\<lambda>y. map_option ((#) y) (read_all f xs))"

fun read_array :: "(json \<Rightarrow> 'a option) \<Rightarrow> json \<Rightarrow> 'a list option" where
  "read_array f (JArray xs) = read_all f xs"
| "read_array f _ = None"

section \<open>Resource mappings\<close>

definition identifier_json :: "object_identifier \<Rightarrow> json" where
  "identifier_json x = JObject ((''name'', JStr (oi_name x)) # opt_field ''namespace'' JStr (oi_namespace x))"

definition read_identifier :: "(string \<times> json) list \<Rightarrow> object_identifier option" where
  "read_identifier kvs =
     Option.bind (read_field read_string [] ''name'' kvs) (\<lambda>n.
     Option.bind (read_pointer read_string ''namespace'' kvs) (\<lambda>ns.
       Some \<lparr>oi_name = n, oi_namespace = ns\<rparr>))"

definition no_identifier :: object_identifier where
  "no_identifier = \<lparr>oi_name = [], oi_namespace = None\<rparr>"

definition source_json :: "source_id \<Rightarrow> json" where
  "source_json x = JObject (opt_field ''name'' JStr (src_name x) @ opt_field ''id'' JStr (src_id x))"

definition read_source :: "(string \<times> json) list \<Rightarrow> source_id option" where
  "read_source kvs =
     Option.bind (read_pointer read_string ''name'' kvs) (\<lambda>n.
     Option.bind (read_pointer read_string ''id'' kvs) (\<lambda>i.
       Some \<lparr>src_name = n, src_id = i\<rparr>))"

definition no_source :: source_id where
  "no_source = \<lparr>src_name = None, src_id = None\<rparr>"

definition network_item_json :: "network_item \<Rightarrow> json" where
  "network_item_json x =
     JObject ((''source'', source_json (ni_source x)) # (''target'', identifier_json (ni_target x)) #
       opt_field ''type'' JStr (ni_type x))"

definition read_network_item :: "(string \<times> json) list \<Rightarrow> network_item option" where
  "read_network_item kvs =
     Option.bind (read_field (read_object read_source) no_source ''source'' kvs) (\<lambda>s.
     Option.bind (read_field (read_object read_identifier) no_identifier ''target'' kvs) (\<lambda>t.
     Option.bind (read_pointer read_string ''type'' kvs) (\<lambda>ty.
       Some \<lparr>ni_source = s, ni_target = t, ni_type = ty\<rparr>)))"

definition storage_item_json :: "storage_item \<Rightarrow> json" where
  "storage_item_json x =
     JObject ((''source'', source_json (si_source x)) # (''target'', identifier_json (si_target x)) #
       opt_field ''volumeMode'' JStr (si_volume_mode x))"

definition read_storage_item :: "(string \<times> json) list \<Rightarrow> storage_item option" where
  "read_storage_item kvs =
     Option.bind (read_field (read_object read_source) no_source ''source'' kvs) (\<lambda>s.
     Option.bind (read_field (read_object read_identifier) no_identifier ''target'' kvs) (\<lambda>t.
     Option.bind (read_pointer read_string ''volumeMode'' kvs) (\<lambda>m.
       Some \<lparr>si_source = s, si_target = t, si_volume_mode = m\<rparr>)))"

definition items_json :: "('a \<Rightarrow> json) \<Rightarrow> 'a list \<Rightarrow> json" where
  "items_json f xs = JArray (map f xs)"

text \<open>\<open>OvirtMappings\<close> and \<open>VmwareMappings\<close>\<close>

definition mappings_json :: "resource_mappings \<Rightarrow> json" where
  "mappings_json m =
     JObject (opt_field ''networkMappings'' (items_json network_item_json) (rm_network m) @
       opt_field ''storageMappings'' (items_json storage_item_json) (rm_storage m) @
       opt_field ''diskMappings'' (items_json storage_item_json) (rm_disk m))"

definition read_mappings :: "(string \<times> json) list \<Rightarrow> resource_mappings option" where
  "read_mappings kvs =
     Option.bind (read_pointer (read_array (read_object read_network_item)) ''networkMappings'' kvs) (\<lambda>n.
     Option.bind (read_pointer (read_array (read_object read_storage_item)) ''storageMappings'' kvs) (\<lambda>s.
     Option.bind (read_pointer (read_array (read_object read_storage_item)) ''diskMappings'' kvs) (\<lambda>d.
       Some \<lparr>rm_network = n, rm_storage = s, rm_disk = d\<rparr>)))"

definition mapping_spec_json :: "mapping_spec \<Rightarrow> json" where
  "mapping_spec_json m =
     JObject (opt_field ''ovirt'' mappings_json (ms_ovirt m) @ opt_field ''vmware'' mappings_json (ms_vmware m))"

definition read_mapping_spec :: "(string \<times> json) list \<Rightarrow> mapping_spec option" where
  "read_mapping_spec kvs =
     Option.bind (read_pointer (read_object read_mappings) ''ovirt'' kvs) (\<lambda>o'.
     Option.bind (read_pointer (read_object read_mappings) ''vmware'' kvs) (\<lambda>v.
       Some \<lparr>ms_ovirt = o', ms_vmware = v\<rparr>))"

section \<open>The spec of an import\<close>

text \<open>The identity of a machine, and of its cluster: \<open>id\<close> and \<open>name\<close>.\<close>

definition identity_fields_json :: "string option \<Rightarrow> string option \<Rightarrow> (string \<times> json) list" where
  "identity_fields_json i n = opt_field ''id'' JStr i @ opt_field ''name'' JStr n"

definition read_identity :: "(string \<times> json) list \<Rightarrow> (string option \<times> string option) option" where
  "read_identity kvs =
     Option.bind (read_pointer read_string ''id'' kvs) (\<lambda>i.
     Option.bind (read_pointer read_string ''name'' kvs) (\<lambda>n. Some (i, n)))"

definition ovirt_vm_json :: "ovirt_source \<Rightarrow> json" where
  "ovirt_vm_json s =
     JObject (identity_fields_json (os_vm_id s) (os_vm_name s) @
       opt_field ''cluster'' (\<lambda>(i, n). JObject (identity_fields_json i n)) (os_cluster s))"

definition ovirt_source_json :: "ovirt_source \<Rightarrow> json" where
  "ovirt_source_json s = JObject ((''vm'', ovirt_vm_json s) # opt_field ''mappings'' mappings_json (os_mappings s))"

definition read_ovirt_vm :: "(string \<times> json) list \<Rightarrow> ((string option \<times> string option) \<times> (string option \<times> string option) option) option" where
  "read_ovirt_vm kvs =
     Option.bind (read_identity kvs) (\<lambda>x.
     Option.bind (read_pointer (read_object read_identity) ''cluster'' kvs) (\<lambda>c. Some (x, c)))"

definition read_ovirt_source :: "(string \<times> json) list \<Rightarrow> ovirt_source option" where
  "read_ovirt_source kvs =
     Option.bind (read_field (read_object read_ovirt_vm) ((None, None), None) ''vm'' kvs) (\<lambda>((i, n), c).
     Option.bind (read_pointer (read_object read_mappings) ''mappings'' kvs) (\<lambda>m.
       Some \<lparr>os_vm_id = i, os_vm_name = n, os_cluster = c, os_mappings = m\<rparr>))"

definition vmware_source_json :: "vmware_source \<Rightarrow> json" where
  "vmware_source_json s =
     JObject ((''vm'', JObject (identity_fields_json (vs_vm_id s) (vs_vm_name s))) #
       opt_field ''mappings'' mappings_json (vs_mappings s))"

definition read_vmware_source :: "(string \<times> json) list \<Rightarrow> vmware_source option" where
  "read_vmware_source kvs =
     Option.bind (read_field (read_object read_identity) (None, None) ''vm'' kvs) (\<lambda>(i, n).
     Option.bind (read_pointer (read_object read_mappings) ''mappings'' kvs) (\<lambda>m.
       Some \<lparr>vs_vm_id = i, vs_vm_name = n, vs_mappings = m\<rparr>))"

definition source_spec_json :: "source_spec \<Rightarrow> json" where
  "source_spec_json s =
     JObject (opt_field ''ovirt'' ovirt_source_json (ss_ovirt s) @ opt_field ''vmware'' vmware_source_json (ss_vmware s))"

definition read_source_spec :: "(string \<times> json) list \<Rightarrow> source_spec option" where
  "read_source_spec kvs =
     Option.bind (read_pointer (read_object read_ovirt_source) ''ovirt'' kvs) (\<lambda>o'.
     Option.bind (read_pointer (read_object read_vmware_source) ''vmware'' kvs) (\<lambda>v.
       Some \<lparr>ss_ovirt = o', ss_vmware = v\<rparr>))"

definition spec_json :: "vmi_spec \<Rightarrow> json" where
  "spec_json s =
     JObject ((''providerCredentialsSecret'', identifier_json (sp_credentials s)) #
       opt_field ''resourceMapping'' identifier_json (sp_resource_mapping s) @
       (''source'', source_spec_json (sp_source s)) #
       opt_field ''targetVmName'' JStr (sp_target_vm_name s) @ opt_field ''startVm'' JBool (sp_start_vm s))"

definition read_spec :: "(string \<times> json) list \<Rightarrow> vmi_spec option" where
  "read_spec kvs =
     Option.bind (read_field (read_object read_identifier) no_identifier ''providerCredentialsSecret'' kvs) (\<lambda>c.
     Option.bind (read_pointer (read_object read_identifier) ''resourceMapping'' kvs) (\<lambda>r.
     Option.bind (read_field (read_object read_source_spec) \<lparr>ss_ovirt = None, ss_vmware = None\<rparr> ''source'' kvs) (\<lambda>s.
     Option.bind (read_pointer read_string ''targetVmName'' kvs) (\<lambda>t.
     Option.bind (read_pointer read_bool ''startVm'' kvs) (\<lambda>b.
       Some \<lparr>sp_credentials = c, sp_resource_mapping = r, sp_source = s, sp_target_vm_name = t, sp_start_vm = b\<rparr>)))))"

section \<open>The status of an import\<close>

fun condition_type_string :: "condition_type \<Rightarrow> string" where
  "condition_type_string Succeeded = ''Succeeded''"
| "condition_type_string Valid = ''Valid''"
| "condition_type_string MappingRulesVerified = ''MappingRulesVerified''"
| "condition_type_string Processing = ''Processing''"

fun condition_status_string :: "condition_status \<Rightarrow> string" where
  "condition_status_string ConditionTrue = ''True''"
| "condition_status_string ConditionFalse = ''False''"
| "condition_status_string ConditionUnknown = ''Unknown''"

definition condition_json :: "condition \<Rightarrow> json" where
  "condition_json c =
     JObject ((''type'', JStr (condition_type_string (c_type c))) # (''status'', JStr (condition_status_string (c_status c))) #
       opt_field ''reason'' JStr (c_reason c) @ opt_field ''message'' JStr (c_message c) @
       opt_field ''lastHeartbeatTime'' JTime (c_heartbeat c) @ opt_field ''lastTransitionTime'' JTime (c_transition c))"

text \<open>A condition of a type or a status that the package does not know is outside of the model.\<close>

definition read_condition_type :: "json \<Rightarrow> condition_type option" where
  "read_condition_type j = find (\<lambda>t. j = JStr (condition_type_string t)) [Succeeded, Valid, MappingRulesVerified, Processing]"

definition read_condition_status :: "json \<Rightarrow> condition_status option" where
  "read_condition_status j =
     find (\<lambda>s. j = JStr (condition_status_string s)) [ConditionTrue, ConditionFalse, ConditionUnknown]"

definition read_condition :: "(string \<times> json) list \<Rightarrow> condition option" where
  "read_condition kvs =
     Option.bind (Option.bind (map_of kvs ''type'') read_condition_type) (\<lambda>t.
     Option.bind (Option.bind (map_of kvs ''status'') read_condition_status) (\<lambda>s.
     Option.bind (read_pointer read_string ''reason'' kvs) (\<lambda>r.
     Option.bind (read_pointer read_string ''message'' kvs) (\<lambda>m.
     Option.bind (read_pointer read_time ''lastHeartbeatTime'' kvs) (\<lambda>h.
     Option.bind (read_pointer read_time ''lastTransitionTime'' kvs) (\<lambda>l.
       Some \<lparr>c_type = t, c_status = s, c_reason = r, c_message = m, c_heartbeat = h, c_transition = l\<rparr>))))))"

definition data_volume_json :: "string \<Rightarrow> json" where
  "data_volume_json n = JObject [(''name'', JStr n)]"

definition read_data_volume :: "(string \<times> json) list \<Rightarrow> string option" where
  "read_data_volume kvs = read_field read_string [] ''name'' kvs"

definition slice_json :: "('a \<Rightarrow> json) \<Rightarrow> 'a list \<Rightarrow> json" where
  "slice_json f xs = (if xs = [] then JNull else items_json f xs)"

definition status_json :: "vmi_status \<Rightarrow> json" where
  "status_json s =
     JObject ((''targetVmName'', JStr (st_target_vm_name s)) # (''conditions'', slice_json condition_json (st_conditions s)) #
       (if st_data_volumes s = [] then [] else [(''dataVolumes'', items_json data_volume_json (st_data_volumes s))]))"

definition read_status :: "(string \<times> json) list \<Rightarrow> vmi_status option" where
  "read_status kvs =
     Option.bind (read_field read_string [] ''targetVmName'' kvs) (\<lambda>t.
     Option.bind (read_field (read_array (read_object read_condition)) [] ''conditions'' kvs) (\<lambda>cs.
     Option.bind (read_field (read_array (read_object read_data_volume)) [] ''dataVolumes'' kvs) (\<lambda>ds.
       Some \<lparr>st_target_vm_name = t, st_conditions = cs, st_data_volumes = ds\<rparr>)))"

section \<open>Resources\<close>

text \<open>The metadata are those of Kubernetes and stay as they are.\<close>

definition resource_json :: "string \<Rightarrow> string \<Rightarrow> (string \<times> json) list \<Rightarrow> json \<Rightarrow> json \<Rightarrow> json" where
  "resource_json version kind md sp st =
     JObject [(''kind'', JStr kind), (''apiVersion'', JStr version), (''metadata'', JObject md), (''spec'', sp), (''status'', st)]"

definition import_json :: "(string \<times> json) list \<Rightarrow> vmi_spec \<Rightarrow> vmi_status \<Rightarrow> json" where
  "import_json md sp st = resource_json ''v2v.kubevirt.io/v1beta1'' ''VirtualMachineImport'' md (spec_json sp) (status_json st)"

definition no_spec :: vmi_spec where
  "no_spec = \<lparr>sp_credentials = no_identifier, sp_resource_mapping = None, sp_source = \<lparr>ss_ovirt = None, ss_vmware = None\<rparr>,
     sp_target_vm_name = None, sp_start_vm = None\<rparr>"

definition no_status :: vmi_status where
  "no_status = \<lparr>st_target_vm_name = [], st_conditions = [], st_data_volumes = []\<rparr>"

definition read_import_spec :: "json \<Rightarrow> vmi_spec option" where
  "read_import_spec = read_object (read_field (read_object read_spec) no_spec ''spec'')"

definition read_import_status :: "json \<Rightarrow> vmi_status option" where
  "read_import_status = read_object (read_field (read_object read_status) no_status ''status'')"

definition mapping_json :: "(string \<times> json) list \<Rightarrow> mapping_spec \<Rightarrow> json" where
  "mapping_json md m = resource_json ''v2v.kubevirt.io/v1beta1'' ''ResourceMapping'' md (mapping_spec_json m) (JObject [])"

definition read_mapping :: "json \<Rightarrow> mapping_spec option" where
  "read_mapping = read_object (read_field (read_object read_mapping_spec) \<lparr>ms_ovirt = None, ms_vmware = None\<rparr> ''spec'')"

end
