(* ===== verification/AlphaTypes.thy ===== *)
theory AlphaTypes
  imports ApiJson
begin

text \<open>
  \<open>pkg/apis/v2v/v1alpha1\<close>, the older version of the resources, with the JSON form of its types.  Both versions are
  served, and a document is converted by another \<open>apiVersion\<close> alone.  The types that are the same in both
  packages are synonyms of those of \<open>v1beta1\<close>; \<open>upgrade\<close> of a value is the value of the newer types that says the same.
\<close>

section \<open>Resource mappings\<close>

record alpha_item =
  ai_source :: source_id
  ai_target :: object_identifier
  ai_type :: "string option"

record alpha_mappings =
  am_network :: "alpha_item list option"
  am_storage :: "alpha_item list option"
  am_disk :: "alpha_item list option"

record alpha_mapping_spec =
  as_ovirt :: "alpha_mappings option"

definition alpha_item_json :: "alpha_item \<Rightarrow> json" where
  "alpha_item_json x =
     JObject ((''source'', source_json (ai_source x)) # (''target'', identifier_json (ai_target x)) #
       opt_field ''type'' JStr (ai_type x))"

definition alpha_mappings_json :: "alpha_mappings \<Rightarrow> json" where
  "alpha_mappings_json m =
     JObject (opt_field ''networkMappings'' (items_json alpha_item_json) (am_network m) @
       opt_field ''storageMappings'' (items_json alpha_item_json) (am_storage m) @
       opt_field ''diskMappings'' (items_json alpha_item_json) (am_disk m))"

definition alpha_mapping_spec_json :: "alpha_mapping_spec \<Rightarrow> json" where
  "alpha_mapping_spec_json m = JObject (opt_field ''ovirt'' alpha_mappings_json (as_ovirt m))"

section \<open>Virtual machine imports\<close>

record alpha_ovirt_source =
  ao_vm_id :: "string option"
  ao_vm_name :: "string option"
  ao_cluster :: "(string option \<times> string option) option"
  ao_mappings :: "alpha_mappings option"

record alpha_source_spec =
  al_ovirt :: "alpha_ovirt_source option"

record alpha_spec =
  ap_credentials :: object_identifier
  ap_resource_mapping :: "object_identifier option"
  ap_source :: alpha_source_spec
  ap_target_vm_name :: "string option"
  ap_start_vm :: "bool option"

type_synonym alpha_condition = condition

record alpha_status =
  at_target_vm_name :: string
  at_conditions :: "alpha_condition list"
  at_data_volumes :: "string list"

text \<open>The reasons that conditions of the older version have.\<close>

definition alpha_succeeded_reasons :: "string list" where
  "alpha_succeeded_reasons =
     [''ValidationFailed'', ''VMTemplateMatchingFailed'', ''VMCreationFailed'', ''DataVolumeCreationFailed'',
      ''GuestConversionFailed'', ''VirtualMachineReady'', ''VirtualMachineRunning'']"

definition alpha_valid_reasons :: "string list" where
  "alpha_valid_reasons =
     [''ValidationCompleted'', ''SecretNotFound'', ''ResourceMappingNotFound'', ''UninitializedProvider'',
      ''UnreachableProvider'', ''SourceVMNotFound'', ''IncompleteMappingRules'']"

definition alpha_mapping_reasons :: "string list" where
  "alpha_mapping_reasons =
     [''MappingRulesVerificationCompleted'', ''MappingRulesVerificationFailed'', ''MappingRulesVerificationReportedWarnings'']"

definition alpha_processing_reasons :: "string list" where
  "alpha_processing_reasons =
     [''VMTemplateMatching'', ''CreatingTargetVM'', ''CopyingDisks'', ''ConvertingGuest'', ''ProcessingCompleted'', ''ProcessingFailed'']"

definition alpha_ovirt_vm_json :: "alpha_ovirt_source \<Rightarrow> json" where
  "alpha_ovirt_vm_json s =
     JObject (identity_fields_json (ao_vm_id s) (ao_vm_name s) @
       opt_field ''cluster'' (\<lambda>(i, n). JObject (identity_fields_json i n)) (ao_cluster s))"

definition alpha_ovirt_source_json :: "alpha_ovirt_source \<Rightarrow> json" where
  "alpha_ovirt_source_json s =
     JObject ((''vm'', alpha_ovirt_vm_json s) # opt_field ''mappings'' alpha_mappings_json (ao_mappings s))"

definition alpha_source_spec_json :: "alpha_source_spec \<Rightarrow> json" where
  "alpha_source_spec_json s = JObject (opt_field ''ovirt'' alpha_ovirt_source_json (al_ovirt s))"

definition alpha_spec_json :: "alpha_spec \<Rightarrow> json" where
  "alpha_spec_json s =
     JObject ((''providerCredentialsSecret'', identifier_json (ap_credentials s)) #
       opt_field ''resourceMapping'' identifier_json (ap_resource_mapping s) @
       (''source'', alpha_source_spec_json (ap_source s)) #
       opt_field ''targetVmName'' JStr (ap_target_vm_name s) @ opt_field ''startVm'' JBool (ap_start_vm s))"

text \<open>The data volumes have no \<open>omitempty\<close> here, so none of them is a null.\<close>

definition alpha_status_json :: "alpha_status \<Rightarrow> json" where
  "alpha_status_json s =
     JObject [(''targetVmName'', JStr (at_target_vm_name s)), (''conditions'', slice_json condition_json (at_conditions s)),
       (''dataVolumes'', slice_json data_volume_json (at_data_volumes s))]"

definition alpha_import_json :: "(string \<times> json) list \<Rightarrow> alpha_spec \<Rightarrow> alpha_status \<Rightarrow> json" where
  "alpha_import_json md sp st =
     resource_json ''v2v.kubevirt.io/v1alpha1'' ''VirtualMachineImport'' md (alpha_spec_json sp) (alpha_status_json st)"

definition alpha_mapping_json :: "(string \<times> json) list \<Rightarrow> alpha_mapping_spec \<Rightarrow> json" where
  "alpha_mapping_json md m =
     resource_json ''v2v.kubevirt.io/v1alpha1'' ''ResourceMapping'' md (alpha_mapping_spec_json m) (JObject [])"

section \<open>The same in the newer types\<close>

definition upgrade_network_item :: "alpha_item \<Rightarrow> network_item" where
  "upgrade_network_item x = \<lparr>ni_source = ai_source x, ni_target = ai_target x, ni_type = ai_type x\<rparr>"

definition upgrade_storage_item :: "alpha_item \<Rightarrow> storage_item" where
  "upgrade_storage_item x = \<lparr>si_source = ai_source x, si_target = ai_target x, si_volume_mode = None\<rparr>"

definition upgrade_mappings :: "alpha_mappings \<Rightarrow> resource_mappings" where
  "upgrade_mappings m =
     \<lparr>rm_network = map_option (map upgrade_network_item) (am_network m),
      rm_storage = map_option (map upgrade_storage_item) (am_storage m),
      rm_disk = map_option (map upgrade_storage_item) (am_disk m)\<rparr>"

definition upgrade_ovirt_source :: "alpha_ovirt_source \<Rightarrow> ovirt_source" where
  "upgrade_ovirt_source s =
     \<lparr>os_vm_id = ao_vm_id s, os_vm_name = ao_vm_name s, os_cluster = ao_cluster s,
      os_mappings = map_option upgrade_mappings (ao_mappings s)\<rparr>"

definition upgrade_spec :: "alpha_spec \<Rightarrow> vmi_spec" where
  "upgrade_spec s =
     \<lparr>sp_credentials = ap_credentials s, sp_resource_mapping = ap_resource_mapping s,
      sp_source = \<lparr>ss_ovirt = map_option upgrade_ovirt_source (al_ovirt (ap_source s)), ss_vmware = None\<rparr>,
      sp_target_vm_name = ap_target_vm_name s, sp_start_vm = ap_start_vm s\<rparr>"

definition upgrade_status :: "alpha_status \<Rightarrow> vmi_status" where
  "upgrade_status s =
     \<lparr>st_target_vm_name = at_target_vm_name s, st_conditions = at_conditions s, st_data_volumes = at_data_volumes s\<rparr>"

end
