(* ===== verification/CrdSpec.thy ===== *)
theory CrdSpec
  imports Crds AlphaTypes Utils
begin

text \<open>
  The resource definitions against the Go types: what the program writes is stored as it is and read back, what
  is stored can be read, and the versions of a resource agree.
\<close>

section \<open>Documents that fit a schema\<close>

definition fits :: "json_schema \<Rightarrow> json \<Rightarrow> bool" where
  "fits s j \<longleftrightarrow> accepts s j \<and> prune (Some s) j = j"

definition fits_fields :: "json_schema \<Rightarrow> (string \<times> json) list \<Rightarrow> bool" where
  "fits_fields s kvs \<longleftrightarrow> (\<forall>(k, v) \<in> set kvs. case field_schema s k of None \<Rightarrow> False | Some p \<Rightarrow> fits p v)"

named_theorems fitting \<open>when a document fits a schema\<close>

lemma fits_object [fitting]:
  "fits s (JObject kvs) \<longleftrightarrow> sc_type s = ''object'' \<and> set (sc_required s) \<subseteq> fst ` set kvs \<and> fits_fields s kvs"
  by (fastforce simp: fits_def fits_fields_def prune_fields_fixed accepts_fields_all split: option.splits)

lemma fits_array [fitting]:
  "sc_items s = Some p \<Longrightarrow> fits s (JArray xs) \<longleftrightarrow> sc_type s = ''array'' \<and> list_all (fits p) xs"
  by (auto simp: fits_def accepts_items_all prune_items_map map_fixed list_all_iff)

lemma fits_scalar [fitting]:
  "fits s (JStr x) \<longleftrightarrow> sc_type s = ''string'' \<and> sc_format s \<noteq> ''date-time'' \<and> length_ok s x \<and> scalar_ok s (JStr x)"
  "fits s (JBool b) \<longleftrightarrow> sc_type s = ''boolean'' \<and> scalar_ok s (JBool b)"
  "fits s (JTime t) \<longleftrightarrow> sc_type s = ''string'' \<and> sc_format s = ''date-time''"
  "fits s JNull \<longleftrightarrow> sc_type s = []"
  by (auto simp: fits_def)

lemma fits_fields_simps [fitting]:
  "fits_fields s []"
  "fits_fields s ((k, v) # kvs) \<longleftrightarrow> (case field_schema s k of None \<Rightarrow> False | Some p \<Rightarrow> fits p v) \<and> fits_fields s kvs"
  "fits_fields s (xs @ ys) \<longleftrightarrow> fits_fields s xs \<and> fits_fields s ys"
  "fits_fields s (opt_field k f x) \<longleftrightarrow>
     (\<forall>y. x = Some y \<longrightarrow> (case field_schema s k of None \<Rightarrow> False | Some p \<Rightarrow> fits p (f y)))"
  by (auto simp: fits_fields_def opt_field_def split: option.splits)

lemma fits_items [fitting]:
  "sc_items s = Some p \<Longrightarrow> fits s (items_json f xs) \<longleftrightarrow> sc_type s = ''array'' \<and> (\<forall>x \<in> set xs. fits p (f x))"
  by (simp add: items_json_def fits_array list_all_iff)

lemma unconstrained [fitting]:
  "sc_enum s = [] \<Longrightarrow> scalar_ok s j" "sc_max_length s = None \<Longrightarrow> length_ok s x"
  by (simp_all add: scalar_ok_def length_ok_def)

lemmas writing = identifier_json_def source_json_def network_item_json_def storage_item_json_def mappings_json_def
  mapping_spec_json_def identity_fields_json_def ovirt_vm_json_def ovirt_source_json_def vmware_source_json_def
  source_spec_json_def spec_json_def condition_json_def data_volume_json_def slice_json_def status_json_def

lemma field_schema_object [fitting]: "field_schema (objectProps ps rs) k = map_of ps k"
  by (simp add: field_schema_def split: option.splits)

lemma mappings_fit:
  "fits VMImport_v1beta1_spec_source_ovirt_mappings (mappings_json m)"
  "fits VMImport_v1beta1_spec_source_vmware_mappings (mappings_json m)"
  "fits Mapping_v1beta1_spec_ovirt (mappings_json m)"
  "fits Mapping_v1beta1_spec_vmware (mappings_json m)"
  by (simp_all add: fitting writing VMImport_v1beta1_spec_source_ovirt_mappings_def VMImport_v1beta1_spec_source_vmware_mappings_def
     Mapping_v1beta1_spec_ovirt_def Mapping_v1beta1_spec_vmware_def)

lemma vm_fits: "fits VMImport_v1beta1_spec_source_ovirt_vm (ovirt_vm_json s)"
  by (auto simp: fitting writing VMImport_v1beta1_spec_source_ovirt_vm_def)

lemma source_spec_fits: "fits VMImport_v1beta1_spec_source (source_spec_json s)"
proof -
  have "fits VMImport_v1beta1_spec_source_ovirt (ovirt_source_json x)" for x
    by (simp add: fitting mappings_fit vm_fits ovirt_source_json_def VMImport_v1beta1_spec_source_ovirt_def)
  moreover have "fits VMImport_v1beta1_spec_source_vmware (vmware_source_json x)" for x
    by (simp add: fitting mappings_fit vmware_source_json_def identity_fields_json_def VMImport_v1beta1_spec_source_vmware_def VMImport_v1beta1_spec_source_vmware_vm_def)
  ultimately show ?thesis
    by (simp add: fitting source_spec_json_def VMImport_v1beta1_spec_source_def)
qed

lemma spec_fits:
  assumes "case sp_target_vm_name sp of None \<Rightarrow> True | Some n \<Rightarrow> length n \<le> maxTargetVMName"
  shows "fits VMImport_v1beta1_spec (spec_json sp)"
proof -
  have "fits VMImport_v1beta1_spec_providerCredentialsSecret (identifier_json x)"
    "fits VMImport_v1beta1_spec_resourceMapping (identifier_json x)" for x
    by (simp_all add: fitting writing VMImport_v1beta1_spec_providerCredentialsSecret_def VMImport_v1beta1_spec_resourceMapping_def)
  then show ?thesis
    using assms source_spec_fits
    by (cases "sp_target_vm_name sp") (simp_all add: fitting length_ok_def spec_json_def VMImport_v1beta1_spec_def)
qed

lemma status_fits: "fits VMImport_v1beta1_status (status_json st) \<longleftrightarrow> st_conditions st \<noteq> []"
  by (auto simp: fitting writing VMImport_v1beta1_status_def)

lemma mapping_spec_fits: "fits Mapping_v1beta1_spec (mapping_spec_json m)"
  by (simp add: fitting mappings_fit mapping_spec_json_def Mapping_v1beta1_spec_def)

lemma admit_resource:
  assumes "field_schema s ''kind'' = Some stringProps" and "field_schema s ''apiVersion'' = Some stringProps"
    and "field_schema s ''metadata'' = Some (typeProps ''object'')" and "sc_type s = ''object''" and "sc_required s = []"
    and "field_schema s ''spec'' = Some p" and "field_schema s ''status'' = Some q" and "fits p sp" and "fits q st"
  shows "admit_schema s (resource_json ver kind md sp st) = Some (resource_json ver kind md sp st)"
proof -
  have "accepts_fields (typeProps ''object'') kvs" for kvs
    by (simp add: accepts_fields_all field_schema_def)
  with assms show ?thesis
    by (simp add: admit_schema_def resource_json_def metaFields_def Let_def length_ok_def scalar_ok_def fits_def)
qed

section \<open>Reading what was written\<close>

named_theorems reading \<open>reading a written field\<close>

lemma read_field_cons [reading]:
  "k \<noteq> k' \<Longrightarrow> read_field f z k ((k', j) # kvs) = read_field f z k kvs"
  "j \<noteq> JNull \<Longrightarrow> read_field f z k ((k, j) # kvs) = f j"
  "read_field f z k ((k, JNull) # kvs) = Some z"
  "read_field f z k [] = Some z"
  by (cases j; simp add: read_field_def)+

lemma read_field_opt [reading]:
  "k \<noteq> k' \<Longrightarrow> read_field f z k (opt_field k' g x @ kvs) = read_field f z k kvs"
  by (cases x) (simp_all add: opt_field_def reading)

lemma read_pointer_other [reading]:
  "k \<noteq> k' \<Longrightarrow> read_pointer f k ((k', j) # kvs) = read_pointer f k kvs"
  "k \<noteq> k' \<Longrightarrow> read_pointer f k (opt_field k' g x @ kvs) = read_pointer f k kvs"
  "k \<noteq> k' \<Longrightarrow> read_pointer f k (opt_field k' g x) = Some None"
  "read_pointer f k [] = Some None"
  by (cases x; simp add: read_pointer_def opt_field_def reading)+

lemma read_pointer_here [reading]:
  assumes "\<And>y. f (g y) = Some y" and "\<And>y. g y \<noteq> JNull"
  shows "read_pointer f k kvs = Some None \<Longrightarrow> read_pointer f k (opt_field k g x @ kvs) = Some x"
    and "read_pointer f k (opt_field k g x) = Some x"
  using assms by (cases x; simp add: read_pointer_def opt_field_def reading)+

lemma read_all_map: "(\<And>x. f (g x) = Some x) \<Longrightarrow> read_all f (map g xs) = Some xs"
  by (induction xs) auto

lemma read_items [reading]: "(\<And>x. f (g x) = Some x) \<Longrightarrow> read_array f (items_json g xs) = Some xs"
  by (simp add: items_json_def read_all_map)

lemma read_strings [reading]: "read_string (JStr x) = Some x" "read_bool (JBool b) = Some b" "read_time (JTime t) = Some t"
  by simp_all

lemma written_not_null [reading]:
  "identifier_json x \<noteq> JNull" "source_json y \<noteq> JNull" "mappings_json m \<noteq> JNull" "ovirt_source_json os \<noteq> JNull"
  "vmware_source_json vs \<noteq> JNull" "source_spec_json ss \<noteq> JNull" "items_json f xs \<noteq> JNull" "ovirt_vm_json os \<noteq> JNull"
  by (simp_all add: writing items_json_def)

lemma read_identifier_json [reading]: "read_object read_identifier (identifier_json x) = Some x"
  by (simp add: identifier_json_def read_identifier_def reading)

lemma read_source_json [reading]: "read_object read_source (source_json x) = Some x"
  by (simp add: source_json_def read_source_def reading)

lemma read_item_json [reading]:
  "read_object read_network_item (network_item_json x) = Some x"
  "read_object read_storage_item (storage_item_json y) = Some y"
  by (simp_all add: network_item_json_def read_network_item_def storage_item_json_def read_storage_item_def reading)

lemma read_mappings_json [reading]: "read_object read_mappings (mappings_json m) = Some m"
  by (simp add: mappings_json_def read_mappings_def reading)

lemma read_mapping_spec_json [reading]: "read_object read_mapping_spec (mapping_spec_json m) = Some m"
  by (simp add: mapping_spec_json_def read_mapping_spec_def reading)

lemma read_identity_json [reading]:
  "read_object read_identity (JObject (identity_fields_json i n)) = Some (i, n)"
  "read_identity (identity_fields_json i n) = Some (i, n)"
  "read_identity (identity_fields_json i n @ opt_field ''cluster'' f x) = Some (i, n)"
  by (simp_all add: identity_fields_json_def read_identity_def reading)

lemma read_ovirt_vm_json [reading]:
  "read_object read_ovirt_vm (ovirt_vm_json s) = Some ((os_vm_id s, os_vm_name s), os_cluster s)"
proof -
  have "read_object read_identity ((\<lambda>(i, n). JObject (identity_fields_json i n)) c) = Some c" for c
    by (cases c) (simp add: identity_fields_json_def read_identity_def reading)
  moreover have "(\<lambda>(i, n). JObject (identity_fields_json i n)) c \<noteq> JNull" for c by (cases c) simp
  ultimately show ?thesis
    by (simp add: ovirt_vm_json_def read_ovirt_vm_def identity_fields_json_def read_identity_def reading)
qed

lemma read_ovirt_source_json [reading]: "read_object read_ovirt_source (ovirt_source_json s) = Some s"
  by (simp add: ovirt_source_json_def read_ovirt_source_def reading)

lemma read_vmware_source_json [reading]: "read_object read_vmware_source (vmware_source_json s) = Some s"
  by (simp add: vmware_source_json_def read_vmware_source_def reading)

lemma read_source_spec_json [reading]: "read_object read_source_spec (source_spec_json s) = Some s"
  by (simp add: source_spec_json_def read_source_spec_def reading)

lemma read_spec_json [reading]: "read_object read_spec (spec_json s) = Some s"
  by (simp add: spec_json_def read_spec_def reading)

lemma read_condition_json [reading]: "read_object read_condition (condition_json c) = Some c"
proof -
  have "read_condition_type (JStr (condition_type_string t)) = Some t" for t
    by (cases t) (simp_all add: read_condition_type_def)
  moreover have "read_condition_status (JStr (condition_status_string s)) = Some s" for s
    by (cases s) (simp_all add: read_condition_status_def)
  ultimately show ?thesis by (simp add: condition_json_def read_condition_def reading)
qed

lemma read_status_json [reading]: "read_object read_status (status_json s) = Some s"
proof -
  have dv: "read_object read_data_volume (data_volume_json n) = Some n" for n
    by (simp add: data_volume_json_def read_data_volume_def reading)
  have "read_field (read_array (read_object read_condition)) [] k ((k, slice_json condition_json cs) # kvs) = Some cs" for k cs kvs
    by (simp add: slice_json_def reading)
  moreover have "read_field (read_array (read_object read_data_volume)) [] k (if ds = [] then [] else [(k, items_json data_volume_json ds)]) = Some ds"
    for k ds by (simp add: reading dv)
  ultimately show ?thesis by (simp add: status_json_def read_status_def reading)
qed

lemma read_import_json [reading]:
  "read_import_spec (resource_json ver kind md (spec_json sp) st) = Some sp"
  "read_import_status (resource_json ver kind md sp' (status_json st')) = Some st'"
proof -
  have "spec_json sp \<noteq> JNull" "status_json st' \<noteq> JNull" by (simp_all add: spec_json_def status_json_def)
  then show "read_import_spec (resource_json ver kind md (spec_json sp) st) = Some sp"
    "read_import_status (resource_json ver kind md sp' (status_json st')) = Some st'"
    by (simp_all add: resource_json_def read_import_spec_def read_import_status_def reading)
qed

lemma read_mapping_json [reading]: "read_mapping (resource_json ver kind md (mapping_spec_json m) st) = Some m"
proof -
  have "mapping_spec_json m \<noteq> JNull" by (simp add: mapping_spec_json_def)
  then show ?thesis by (simp add: resource_json_def read_mapping_def reading)
qed

section \<open>Versions of a resource\<close>

definition served_schema :: "crd \<Rightarrow> string \<Rightarrow> json_schema option" where
  "served_schema c ver = map_option cv_schema (find (\<lambda>v. cv_name v = ver \<and> cv_served v) (cr_versions c))"

definition admit :: "crd \<Rightarrow> string \<Rightarrow> json \<Rightarrow> json option" where
  "admit c ver j = Option.bind (served_schema c ver) (\<lambda>s. admit_schema s j)"

text \<open>Without a strategy, and with \<open>NoneConverter\<close>, the server changes the field \<open>apiVersion\<close> alone.\<close>

definition converted :: "crd \<Rightarrow> string \<Rightarrow> json \<Rightarrow> json" where
  "converted c ver j =
     (case j of
        JObject kvs \<Rightarrow> JObject (map (\<lambda>(k, v). (k, if k = ''apiVersion'' then JStr (cr_group c @ ''/'' @ ver) else v)) kvs)
      | _ \<Rightarrow> j)"

lemma served_schemas [simp]:
  "served_schema CreateVMImport ''v1alpha1'' = Some VMImport_v1alpha1"
  "served_schema CreateVMImport ''v1beta1'' = Some VMImport_v1beta1"
  "served_schema CreateResourceMapping ''v1alpha1'' = Some Mapping_v1alpha1"
  "served_schema CreateResourceMapping ''v1beta1'' = Some Mapping_v1beta1"
  by (simp_all add: served_schema_def CreateVMImport_def CreateResourceMapping_def)

lemma crd_groups [simp]: "cr_group CreateVMImport = ''v2v.kubevirt.io''" "cr_group CreateResourceMapping = ''v2v.kubevirt.io''"
  by (simp_all add: CreateVMImport_def CreateResourceMapping_def)

lemma converted_resource [simp]:
  "cr_group c = g \<Longrightarrow> converted c ver (resource_json ver' kind md sp st) = resource_json (g @ ''/'' @ ver) kind md sp st"
  by (simp add: converted_def resource_json_def)

lemma converted_admitted:
  assumes "admit_schema s j = Some j" and "field_schema s ''apiVersion'' = Some stringProps"
  shows "admit_schema s (converted c ver j) = Some (converted c ver j)"
proof -
  from assms(1) obtain kvs where j: "j = JObject kvs" and acc: "accepts s j" and pr: "prune_root s kvs = kvs"
    by (auto simp: admit_schema_def Let_def split: json.splits if_splits)
  let ?f = "\<lambda>(k, v). (k, if k = ''apiVersion'' then JStr (cr_group c @ ''/'' @ ver) else v)"
  have "fst ` set (map ?f kvs) = fst ` set kvs" by (simp add: image_image split_beta)
  moreover have "accepts_fields s (map ?f kvs)"
    using acc assms(2) by (fastforce simp: j accepts_fields_all length_ok_def scalar_ok_def)
  moreover have "prune_root s (map ?f kvs) = map ?f kvs"
    using pr by (fastforce simp: prune_root_fixed metaFields_def)
  ultimately show ?thesis
    using acc by (simp add: admit_schema_def converted_def j Let_def)
qed

lemma import_versions: "extends VMImport_v1alpha1 VMImport_v1beta1"
  by (simp add: VMImport_v1alpha1_def VMImport_v1beta1_def VMImport_v1alpha1_spec_def VMImport_v1beta1_spec_def
      VMImport_v1alpha1_spec_source_def VMImport_v1beta1_spec_source_def VMImport_v1alpha1_spec_source_ovirt_def
      VMImport_v1beta1_spec_source_ovirt_def VMImport_v1alpha1_spec_source_ovirt_vm_def VMImport_v1beta1_spec_source_ovirt_vm_def
      VMImport_v1alpha1_spec_source_ovirt_mappings_def VMImport_v1beta1_spec_source_ovirt_mappings_def
      VMImport_v1alpha1_spec_providerCredentialsSecret_def VMImport_v1beta1_spec_providerCredentialsSecret_def
      VMImport_v1alpha1_spec_resourceMapping_def VMImport_v1beta1_spec_resourceMapping_def
      VMImport_v1alpha1_status_def VMImport_v1beta1_status_def)

lemma mapping_versions: "extends Mapping_v1alpha1 Mapping_v1beta1"
  by (simp add: Mapping_v1alpha1_def Mapping_v1beta1_def Mapping_v1alpha1_spec_def Mapping_v1beta1_spec_def
      Mapping_v1beta1_spec_ovirt_def)

section \<open>What is written is stored\<close>

lemma root_schema:
  "field_schema VMImport_v1beta1 ''kind'' = Some stringProps" "field_schema VMImport_v1beta1 ''apiVersion'' = Some stringProps"
  "field_schema VMImport_v1beta1 ''metadata'' = Some (typeProps ''object'')" "sc_type VMImport_v1beta1 = ''object''"
  "sc_required VMImport_v1beta1 = []" "field_schema VMImport_v1beta1 ''spec'' = Some VMImport_v1beta1_spec"
  "field_schema VMImport_v1beta1 ''status'' = Some VMImport_v1beta1_status"
  by (simp_all add: VMImport_v1beta1_def fitting)

lemma mapping_root_schema:
  "field_schema Mapping_v1beta1 ''kind'' = Some stringProps" "field_schema Mapping_v1beta1 ''apiVersion'' = Some stringProps"
  "field_schema Mapping_v1beta1 ''metadata'' = Some (typeProps ''object'')" "sc_type Mapping_v1beta1 = ''object''"
  "sc_required Mapping_v1beta1 = []" "field_schema Mapping_v1beta1 ''spec'' = Some Mapping_v1beta1_spec"
  "field_schema Mapping_v1beta1 ''status'' = Some (typeProps ''object'')"
  by (simp_all add: Mapping_v1beta1_def fitting)


definition sample_mappings :: resource_mappings where
  "sample_mappings =
     \<lparr>rm_network = Some [\<lparr>ni_source = \<lparr>src_name = Some ''net/profile'', src_id = None\<rparr>,
        ni_target = \<lparr>oi_name = ''pod'', oi_namespace = None\<rparr>, ni_type = Some ''pod''\<rparr>],
      rm_storage = Some [\<lparr>si_source = \<lparr>src_name = None, src_id = Some ''domain''\<rparr>,
        si_target = \<lparr>oi_name = ''fast'', oi_namespace = None\<rparr>, si_volume_mode = Some ''Block''\<rparr>], rm_disk = None\<rparr>"

definition sample_spec :: vmi_spec where
  "sample_spec =
     \<lparr>sp_credentials = \<lparr>oi_name = ''secret'', oi_namespace = None\<rparr>, sp_resource_mapping = None,
      sp_source = \<lparr>ss_ovirt = None, ss_vmware = Some \<lparr>vs_vm_id = Some ''42'', vs_vm_name = None, vs_mappings = Some sample_mappings\<rparr>\<rparr>,
      sp_target_vm_name = Some ''target'', sp_start_vm = Some True\<rparr>"

definition sample_status :: vmi_status where
  "sample_status =
     \<lparr>st_target_vm_name = ''target'', st_conditions = [\<lparr>c_type = Valid, c_status = ConditionTrue, c_reason = Some ''ValidationCompleted'',
        c_message = None, c_heartbeat = Some 7, c_transition = Some 5\<rparr>], st_data_volumes = [''disk'']\<rparr>"


section \<open>What is stored can be read\<close>

definition readable :: "json_schema \<Rightarrow> (json \<Rightarrow> 'a option) \<Rightarrow> bool" where
  "readable s f \<longleftrightarrow> (\<forall>j. accepts s j \<longrightarrow> f j \<noteq> None)"

lemma readable_string: "sc_type s = ''string'' \<Longrightarrow> sc_format s \<noteq> ''date-time'' \<Longrightarrow> readable s read_string"
  unfolding readable_def by (intro allI, case_tac j) auto

lemma readable_bool: "sc_type s = ''boolean'' \<Longrightarrow> readable s read_bool"
  unfolding readable_def by (intro allI, case_tac j) auto

lemma readable_object:
  "sc_type s = ''object'' \<Longrightarrow> (\<And>kvs. accepts_fields s kvs \<Longrightarrow> f kvs \<noteq> None) \<Longrightarrow> readable s (read_object f)"
  unfolding readable_def by (intro allI, case_tac j) auto

lemma readable_array: "sc_type s = ''array'' \<Longrightarrow> sc_items s = Some p \<Longrightarrow> readable p f \<Longrightarrow> readable s (read_array f)"
proof -
  assume s: "sc_type s = ''array''" "sc_items s = Some p" and f: "readable p f"
  have "read_all f xs \<noteq> None" if "list_all (accepts p) xs" for xs
    using that f by (induction xs) (auto simp: readable_def)
  with s show ?thesis unfolding readable_def by (intro allI, case_tac j) (auto simp: accepts_items_all)
qed

lemma read_field_readable:
  assumes "readable p f" and "field_schema s k = Some p" and "accepts_fields s kvs"
  shows "\<exists>y. read_field f z k kvs = Some y"
proof (cases "map_of kvs k")
  case (Some j)
  with accepts_fieldsD [OF assms(3) _ assms(2)] assms(1) have "f j \<noteq> None" by (auto simp: readable_def)
  with Some show ?thesis by (cases j) (auto simp: read_field_def)
qed (simp add: read_field_def)

lemma read_pointer_readable:
  "readable p f \<Longrightarrow> field_schema s k = Some p \<Longrightarrow> accepts_fields s kvs \<Longrightarrow> \<exists>y. read_pointer f k kvs = Some y"
  unfolding read_pointer_def by (rule read_field_readable) (auto simp: readable_def)

lemma bind_exists: "\<exists>y. x = Some y \<Longrightarrow> (\<And>y. f y \<noteq> None) \<Longrightarrow> Option.bind x f \<noteq> None"
  by auto

lemma readable_plain: "readable stringProps read_string" "readable (boundedProps n) read_string" "readable (typeProps ''boolean'') read_bool"
  by (rule readable_string readable_bool; simp)+

lemmas reads = read_field_readable read_pointer_readable readable_plain readable_array option.distinct(2)

text \<open>A schema of each struct: the fields that the type reads, with schemas of their types.\<close>

lemma readable_identifier:
  assumes "sc_type s = ''object''" and "field_schema s ''name'' = Some stringProps" and "field_schema s ''namespace'' = Some stringProps"
  shows "readable s (read_object read_identifier)"
  unfolding read_identifier_def by (intro readable_object bind_exists) (blast intro: assms reads)+

lemma readable_pair:
  assumes "sc_type s = ''object''" and "field_schema s ''name'' = Some stringProps" and "field_schema s ''id'' = Some stringProps"
  shows "readable s (read_object read_source)" and "readable s (read_object read_identity)"
  unfolding read_source_def read_identity_def by (intro readable_object bind_exists; blast intro: assms reads)+

lemma readable_items:
  assumes "sc_type s = ''object''" and "field_schema s ''source'' = Some p" and "field_schema s ''target'' = Some q"
    and "readable p (read_object read_source)" and "readable q (read_object read_identifier)"
  shows "field_schema s ''type'' = Some stringProps \<Longrightarrow> readable s (read_object read_network_item)"
    and "field_schema s ''volumeMode'' = Some stringProps \<Longrightarrow> readable s (read_object read_storage_item)"
  unfolding read_network_item_def read_storage_item_def by (intro readable_object bind_exists; blast intro: assms reads)+

lemma readable_mappings:
  assumes "sc_type s = ''object''" and "field_schema s ''networkMappings'' = Some (arrayProps n)"
    and "field_schema s ''storageMappings'' = Some (arrayProps t)" and "field_schema s ''diskMappings'' = Some (arrayProps d)"
    and "readable n (read_object read_network_item)" and "readable t (read_object read_storage_item)"
    and "readable d (read_object read_storage_item)"
  shows "readable s (read_object read_mappings)"
proof -
  have array: "readable p f \<Longrightarrow> readable (arrayProps p) (read_array f)" for p and f :: "json \<Rightarrow> 'a option"
    by (rule readable_array) simp_all
  show ?thesis
    unfolding read_mappings_def by (intro readable_object bind_exists) (blast intro: assms reads array)+
qed

lemma import_mappings_readable:
  "readable VMImport_v1beta1_spec_source_ovirt_mappings (read_object read_mappings)"
  "readable VMImport_v1beta1_spec_source_vmware_mappings (read_object read_mappings)"
  by (rule readable_mappings readable_items readable_pair readable_identifier |
      simp add: fitting VMImport_v1beta1_spec_source_ovirt_mappings_def VMImport_v1beta1_spec_source_vmware_mappings_def)+

lemma import_fields:
  "field_schema VMImport_v1beta1_spec_source_ovirt_vm ''id'' = Some stringProps"
  "field_schema VMImport_v1beta1_spec_source_ovirt_vm ''name'' = Some stringProps"
  "field_schema VMImport_v1beta1_spec_source_ovirt_vm ''cluster'' = Some (objectProps [(''id'', stringProps), (''name'', stringProps)] [])"
  "field_schema VMImport_v1beta1_spec_source_ovirt ''vm'' = Some VMImport_v1beta1_spec_source_ovirt_vm"
  "field_schema VMImport_v1beta1_spec_source_ovirt ''mappings'' = Some VMImport_v1beta1_spec_source_ovirt_mappings"
  "field_schema VMImport_v1beta1_spec_source_vmware ''vm'' = Some VMImport_v1beta1_spec_source_vmware_vm"
  "field_schema VMImport_v1beta1_spec_source_vmware ''mappings'' = Some VMImport_v1beta1_spec_source_vmware_mappings"
  "field_schema VMImport_v1beta1_spec_source ''ovirt'' = Some VMImport_v1beta1_spec_source_ovirt"
  "field_schema VMImport_v1beta1_spec_source ''vmware'' = Some VMImport_v1beta1_spec_source_vmware"
  "field_schema VMImport_v1beta1_spec ''providerCredentialsSecret'' = Some VMImport_v1beta1_spec_providerCredentialsSecret"
  "field_schema VMImport_v1beta1_spec ''resourceMapping'' = Some VMImport_v1beta1_spec_resourceMapping"
  "field_schema VMImport_v1beta1_spec ''source'' = Some VMImport_v1beta1_spec_source"
  "field_schema VMImport_v1beta1_spec ''targetVmName'' = Some (boundedProps maxTargetVMName)"
  "field_schema VMImport_v1beta1_spec ''startVm'' = Some (typeProps ''boolean'')"
  by (simp_all add: fitting VMImport_v1beta1_spec_def VMImport_v1beta1_spec_source_def VMImport_v1beta1_spec_source_ovirt_def
      VMImport_v1beta1_spec_source_vmware_def VMImport_v1beta1_spec_source_ovirt_vm_def)

lemma import_objects:
  "sc_type VMImport_v1beta1_spec_source_ovirt_vm = ''object''" "sc_type VMImport_v1beta1_spec_source_ovirt = ''object''"
  "sc_type VMImport_v1beta1_spec_source_vmware = ''object''" "sc_type VMImport_v1beta1_spec_source = ''object''"
  "sc_type VMImport_v1beta1_spec = ''object''"
  by (simp_all add: VMImport_v1beta1_spec_def VMImport_v1beta1_spec_source_def VMImport_v1beta1_spec_source_ovirt_def
      VMImport_v1beta1_spec_source_vmware_def VMImport_v1beta1_spec_source_ovirt_vm_def)

lemma readable_ovirt_vm: "readable VMImport_v1beta1_spec_source_ovirt_vm (read_object read_ovirt_vm)"
proof -
  have cluster: "readable (objectProps [(''id'', stringProps), (''name'', stringProps)] []) (read_object read_identity)"
    by (rule readable_pair) (simp_all add: fitting)
  have vm: "\<exists>y. read_identity kvs = Some y" if "accepts_fields VMImport_v1beta1_spec_source_ovirt_vm kvs" for kvs
    unfolding read_identity_def not_None_eq [symmetric] by (intro bind_exists) (blast intro: that import_fields reads)+
  show ?thesis
    unfolding read_ovirt_vm_def
    by (intro readable_object bind_exists import_objects) (blast intro: import_fields reads cluster vm)+
qed

lemma readable_sources:
  "readable VMImport_v1beta1_spec_source_ovirt (read_object read_ovirt_source)"
  "readable VMImport_v1beta1_spec_source_vmware (read_object read_vmware_source)"
proof -
  have vm: "readable VMImport_v1beta1_spec_source_vmware_vm (read_object read_identity)"
    by (rule readable_pair) (simp_all add: fitting VMImport_v1beta1_spec_source_vmware_vm_def)
  show "readable VMImport_v1beta1_spec_source_ovirt (read_object read_ovirt_source)"
    "readable VMImport_v1beta1_spec_source_vmware (read_object read_vmware_source)"
    unfolding read_ovirt_source_def read_vmware_source_def case_prod_beta
    by (intro readable_object bind_exists import_objects; blast intro: import_fields reads vm readable_ovirt_vm import_mappings_readable)+
qed

lemma readable_spec: "readable VMImport_v1beta1_spec (read_object read_spec)"
proof -
  have "readable VMImport_v1beta1_spec_source (read_object read_source_spec)"
    unfolding read_source_spec_def
    by (intro readable_object bind_exists import_objects) (blast intro: import_fields reads readable_sources)+
  moreover have "readable VMImport_v1beta1_spec_providerCredentialsSecret (read_object read_identifier)"
    "readable VMImport_v1beta1_spec_resourceMapping (read_object read_identifier)"
    by (rule readable_identifier; simp add: fitting VMImport_v1beta1_spec_providerCredentialsSecret_def VMImport_v1beta1_spec_resourceMapping_def)+
  ultimately show ?thesis
    unfolding read_spec_def
    by (intro readable_object bind_exists import_objects) (blast intro: import_fields reads)+
qed

lemma read_target_name:
  assumes "accepts VMImport_v1beta1_spec j" and "read_object read_spec j = Some sp" and "sp_target_vm_name sp = Some n"
  shows "length n \<le> maxTargetVMName"
proof -
  from assms(1,2) obtain kvs where j: "j = JObject kvs" and acc: "accepts_fields VMImport_v1beta1_spec kvs"
    by (cases j) (auto simp: VMImport_v1beta1_spec_def)
  from assms(2,3) j have "read_pointer read_string ''targetVmName'' kvs = Some (Some n)"
    by (auto simp: read_spec_def bind_eq_Some_conv)
  then have "map_of kvs ''targetVmName'' = Some (JStr n)"
    by (auto simp: read_pointer_def read_field_def split: option.splits json.splits elim: read_string.elims)
  from accepts_fieldsD [OF acc this, of "boundedProps maxTargetVMName"] show ?thesis
    by (simp add: import_fields length_ok_def)
qed


lemma sample_stored:
  "admit CreateVMImport ''v1beta1'' (import_json [] sample_spec sample_status) = Some (import_json [] sample_spec sample_status)"
proof -
  have "admit_schema VMImport_v1beta1 (import_json [] sample_spec sample_status) = Some (import_json [] sample_spec sample_status)"
    unfolding import_json_def using root_schema spec_fits [of sample_spec] status_fits [of sample_status]
    by (intro admit_resource) (auto simp: sample_spec_def sample_status_def maxTargetVMName_def)
  then show ?thesis by (simp add: admit_def)
qed


section \<open>The older version\<close>

lemma alpha_root_schema:
  "field_schema VMImport_v1alpha1 ''apiVersion'' = Some stringProps" "field_schema Mapping_v1alpha1 ''apiVersion'' = Some stringProps"
  by (simp_all add: VMImport_v1alpha1_def Mapping_v1alpha1_def fitting)

lemma alpha_metadata:
  "\<forall>k \<in> set metaFields. \<exists>p. field_schema VMImport_v1alpha1 k = Some p \<and> field_schema VMImport_v1beta1 k = Some p"
  "\<forall>k \<in> set metaFields. \<exists>p. field_schema Mapping_v1alpha1 k = Some p \<and> field_schema Mapping_v1beta1 k = Some p"
  by (simp_all add: metaFields_def VMImport_v1alpha1_def VMImport_v1beta1_def Mapping_v1alpha1_def Mapping_v1beta1_def fitting)

text \<open>
  C25. The older version of imports and of resource mappings is a part of the newer one: whatever is admitted in
  version v1alpha1 is admitted in v1beta1 as it is, once its version is changed, so that no object of an older
  client is rejected or loses a field when it is stored.
\<close>

theorem older_resources_stored:
  assumes "c = CreateVMImport \<or> c = CreateResourceMapping" and "admit c ''v1alpha1'' j = Some e"
  shows "admit c ''v1beta1'' (converted c ''v1beta1'' e) = Some (converted c ''v1beta1'' e)"
proof -
  from assms obtain s t where s: "served_schema c ''v1alpha1'' = Some s" and t: "served_schema c ''v1beta1'' = Some t"
    and "extends s t" and meta: "\<forall>k \<in> set metaFields. \<exists>p. field_schema s k = Some p \<and> field_schema t k = Some p"
    and ver: "field_schema t ''apiVersion'' = Some stringProps"
    using import_versions mapping_versions alpha_metadata root_schema(2) mapping_root_schema(2) by auto
  from meta have "\<forall>k \<in> set metaFields. \<exists>p q. field_schema s k = Some p \<and> field_schema t k = Some q \<and> (\<forall>j. accepts p j \<longrightarrow> accepts q j)"
    by blast
  with \<open>extends s t\<close> assms(2) s have "admit_schema t e = Some e" by (auto intro: extends_admits simp: admit_def)
  from converted_admitted [OF this ver] t show ?thesis by (simp add: admit_def)
qed

definition sample_alpha :: alpha_spec where
  "sample_alpha =
     \<lparr>ap_credentials = \<lparr>oi_name = ''secret'', oi_namespace = None\<rparr>, ap_resource_mapping = None,
      ap_source = \<lparr>al_ovirt = Some \<lparr>ao_vm_id = Some ''42'', ao_vm_name = None, ao_cluster = None,
        ao_mappings = Some \<lparr>am_network = None,
          am_storage = Some [\<lparr>ai_source = \<lparr>src_name = Some ''domain'', src_id = None\<rparr>,
            ai_target = \<lparr>oi_name = ''fast'', oi_namespace = None\<rparr>, ai_type = None\<rparr>], am_disk = None\<rparr>\<rparr>\<rparr>,
      ap_target_vm_name = None, ap_start_vm = None\<rparr>"

definition sample_alpha_status :: alpha_status where
  "sample_alpha_status =
     \<lparr>at_target_vm_name = [], at_conditions = [], at_data_volumes = []\<rparr>"

lemmas alpha_writing = alpha_item_json_def alpha_mappings_json_def alpha_mapping_spec_json_def alpha_ovirt_vm_json_def
  alpha_ovirt_source_json_def alpha_source_spec_json_def alpha_spec_json_def alpha_status_json_def

lemmas alpha_schemas = VMImport_v1alpha1_def VMImport_v1alpha1_spec_def VMImport_v1alpha1_spec_source_def
  VMImport_v1alpha1_spec_source_ovirt_def VMImport_v1alpha1_spec_source_ovirt_vm_def
  VMImport_v1alpha1_spec_source_ovirt_mappings_def VMImport_v1alpha1_spec_providerCredentialsSecret_def
  VMImport_v1alpha1_spec_resourceMapping_def VMImport_v1alpha1_status_def

theorem older_resources_stored_witness:
  "\<exists>j e. admit CreateVMImport ''v1alpha1'' j = Some e \<and> e \<noteq> converted CreateVMImport ''v1beta1'' e \<and>
     admit CreateVMImport ''v1beta1'' (converted CreateVMImport ''v1beta1'' e) = Some (converted CreateVMImport ''v1beta1'' e)"
proof -
  let ?j = "JObject [(''apiVersion'', JStr ''v2v.kubevirt.io/v1alpha1''), (''spec'', alpha_spec_json sample_alpha)]"
  have "admit CreateVMImport ''v1alpha1'' ?j = Some ?j"
    by (simp add: admit_def admit_schema_def metaFields_def Let_def alpha_writing alpha_schemas sample_alpha_def opt_field_def
        items_json_def source_json_def identifier_json_def identity_fields_json_def field_schema_def scalar_ok_def length_ok_def)
  moreover from older_resources_stored [OF _ this]
  have "admit CreateVMImport ''v1beta1'' (converted CreateVMImport ''v1beta1'' ?j) = Some (converted CreateVMImport ''v1beta1'' ?j)" by blast
  moreover have "?j \<noteq> converted CreateVMImport ''v1beta1'' ?j" by (simp add: converted_def CreateVMImport_def)
  ultimately show ?thesis by blast
qed

lemma read_pointer_mapped:
  assumes "\<And>y. f (g y) = Some (h y)" and "\<And>y. g y \<noteq> JNull"
  shows "read_pointer f k kvs = Some None \<Longrightarrow> read_pointer f k (opt_field k g x @ kvs) = Some (map_option h x)"
    and "read_pointer f k (opt_field k g x) = Some (map_option h x)"
  using assms by (cases x; simp add: read_pointer_def opt_field_def reading)+

lemma read_items_mapped: "(\<And>x. f (g x) = Some (h x)) \<Longrightarrow> read_array f (items_json g xs) = Some (map h xs)"
  unfolding items_json_def by (induction xs) auto

lemma read_older_items:
  "read_array (read_object read_network_item) (items_json alpha_item_json xs) = Some (map upgrade_network_item xs)"
  "read_array (read_object read_storage_item) (items_json alpha_item_json xs) = Some (map upgrade_storage_item xs)"
  by (rule read_items_mapped; simp add: alpha_item_json_def read_network_item_def read_storage_item_def
      upgrade_network_item_def upgrade_storage_item_def reading)+

lemma read_older_mappings: "read_object read_mappings (alpha_mappings_json m) = Some (upgrade_mappings m)"
  by (simp add: alpha_mappings_json_def read_mappings_def upgrade_mappings_def reading
      read_older_items
      read_pointer_mapped [where f = "read_array (read_object read_network_item)" and g = "items_json alpha_item_json" and h = "map upgrade_network_item"]
      read_pointer_mapped [where f = "read_array (read_object read_storage_item)" and g = "items_json alpha_item_json" and h = "map upgrade_storage_item"])

lemma read_older_vm: "read_object read_ovirt_vm (alpha_ovirt_vm_json s) = Some ((ao_vm_id s, ao_vm_name s), ao_cluster s)"
  using read_ovirt_vm_json [of "\<lparr>os_vm_id = ao_vm_id s, os_vm_name = ao_vm_name s, os_cluster = ao_cluster s, os_mappings = None\<rparr>"]
  by (simp add: alpha_ovirt_vm_json_def ovirt_vm_json_def)

lemma older_not_null: "alpha_mappings_json m \<noteq> JNull" "alpha_ovirt_vm_json s \<noteq> JNull" "alpha_ovirt_source_json s \<noteq> JNull"
  "alpha_source_spec_json x \<noteq> JNull" "alpha_spec_json sp \<noteq> JNull" "alpha_status_json st \<noteq> JNull"
  by (simp_all add: alpha_writing)

lemma read_older_source: "read_object read_ovirt_source (alpha_ovirt_source_json s) = Some (upgrade_ovirt_source s)"
  by (simp add: alpha_ovirt_source_json_def read_ovirt_source_def upgrade_ovirt_source_def reading read_older_vm older_not_null
      read_older_mappings
      read_pointer_mapped [where f = "read_object read_mappings" and g = "alpha_mappings_json" and h = "upgrade_mappings"])

lemma read_older_source_spec:
  "read_object read_source_spec (alpha_source_spec_json s) = Some \<lparr>ss_ovirt = map_option upgrade_ovirt_source (al_ovirt s), ss_vmware = None\<rparr>"
  by (simp add: alpha_source_spec_json_def read_source_spec_def reading older_not_null read_older_source
      read_pointer_mapped [where f = "read_object read_ovirt_source" and g = "alpha_ovirt_source_json" and h = "upgrade_ovirt_source"])

lemma read_older_spec: "read_object read_spec (alpha_spec_json s) = Some (upgrade_spec s)"
  by (simp add: alpha_spec_json_def read_spec_def upgrade_spec_def reading older_not_null read_older_source_spec)

lemma read_older_status: "read_object read_status (alpha_status_json s) = Some (upgrade_status s)"
proof -
  have "read_object read_data_volume (data_volume_json n) = Some n" for n
    by (simp add: data_volume_json_def read_data_volume_def reading)
  moreover have "read_field (read_array (read_object read_condition)) [] k ((k, slice_json condition_json cs) # kvs) = Some cs" for k cs kvs
    by (simp add: slice_json_def reading)
  ultimately show ?thesis
    by (simp add: alpha_status_json_def read_status_def upgrade_status_def slice_json_def reading)
qed

text \<open>
  C26. The controller understands an import that a client wrote with the older types: it reads the spec and the
  status that say the same in its own types, where the items of all three mappings keep source and target,
  no storage item has a volume mode and there is no VMware source; and so for resource mappings.
\<close>

theorem older_resources_understood:
  "read_import_spec (converted CreateVMImport ''v1beta1'' (alpha_import_json md sp st)) = Some (upgrade_spec sp) \<and>
   read_import_status (converted CreateVMImport ''v1beta1'' (alpha_import_json md sp st)) = Some (upgrade_status st) \<and>
   read_mapping (converted CreateResourceMapping ''v1beta1'' (alpha_mapping_json md m)) =
     Some \<lparr>ms_ovirt = map_option upgrade_mappings (as_ovirt m), ms_vmware = None\<rparr>"
proof -
  have "read_object read_mapping_spec (alpha_mapping_spec_json m) = Some \<lparr>ms_ovirt = map_option upgrade_mappings (as_ovirt m), ms_vmware = None\<rparr>"
    by (simp add: alpha_mapping_spec_json_def read_mapping_spec_def reading older_not_null read_older_mappings
      read_pointer_mapped [where f = "read_object read_mappings" and g = "alpha_mappings_json" and h = "upgrade_mappings"])
  moreover have "alpha_mapping_spec_json m \<noteq> JNull" by (simp add: alpha_writing)
  ultimately show ?thesis
    using older_not_null
    by (simp add: alpha_import_json_def alpha_mapping_json_def converted_def resource_json_def read_import_spec_def
        read_import_status_def read_mapping_def reading read_older_spec read_older_status)
qed

text \<open>What an older client sees of an import, and writes back.\<close>

definition without_mode :: "storage_item \<Rightarrow> storage_item" where
  "without_mode x = x\<lparr>si_volume_mode := None\<rparr>"

definition without_modes :: "resource_mappings \<Rightarrow> resource_mappings" where
  "without_modes m =
     m\<lparr>rm_storage := map_option (map without_mode) (rm_storage m), rm_disk := map_option (map without_mode) (rm_disk m)\<rparr>"

definition seen_by_older :: "vmi_spec \<Rightarrow> vmi_spec" where
  "seen_by_older sp =
     sp\<lparr>sp_source := \<lparr>ss_ovirt = map_option (\<lambda>s. s\<lparr>os_mappings := map_option without_modes (os_mappings s)\<rparr>) (ss_ovirt (sp_source sp)),
        ss_vmware = None\<rparr>\<rparr>"

named_theorems pruning \<open>what pruning leaves of a written value\<close>

lemma prune_opt_field [pruning]:
  "prune_fields s (opt_field k f x) =
     (case field_schema s k of None \<Rightarrow> [] | Some p \<Rightarrow> opt_field k (\<lambda>y. prune (Some p) (f y)) x)"
  by (simp add: opt_field_def split: option.splits)

lemma prune_items_json [pruning]:
  "prune (Some (arrayProps p)) (items_json f xs) = items_json (\<lambda>x. prune (Some p) (f x)) xs"
  by (simp add: items_json_def prune_items_map)

lemma opt_field_None [pruning]: "opt_field k f None = []"
  by (simp add: opt_field_def)

lemma opt_field_comp: "opt_field k (\<lambda>y. f (h y)) x = opt_field k f (map_option h x)"
  by (cases x) (simp_all add: opt_field_def)

lemma items_json_comp: "items_json (\<lambda>y. f (h y)) xs = items_json f (map h xs)"
  by (simp add: items_json_def)

lemma older_mappings: "prune (Some VMImport_v1alpha1_spec_source_ovirt_mappings) (mappings_json m) = mappings_json (without_modes m)"
proof -
  let ?item = "objectProps [(''source'', objectProps [(''id'', stringProps), (''name'', stringProps)] []),
     (''target'', objectProps [(''name'', stringProps), (''namespace'', stringProps)] [''name'']), (''type'', stringProps)] [''source'']"
  have item: "prune (Some ?item) (network_item_json x) = network_item_json x" "prune (Some ?item) (storage_item_json y) = storage_item_json (without_mode y)" for x y
    by (simp_all add: pruning fitting network_item_json_def storage_item_json_def source_json_def identifier_json_def without_mode_def
        prune_fields_append)
  show ?thesis
    by (simp add: VMImport_v1alpha1_spec_source_ovirt_mappings_def mappings_json_def pruning fitting prune_fields_append item
        without_modes_def items_json_comp opt_field_comp)
qed

lemma older_vm: "prune (Some VMImport_v1alpha1_spec_source_ovirt_vm) (ovirt_vm_json s) = ovirt_vm_json s"
proof -
  have "prune (Some (objectProps [(''id'', stringProps), (''name'', stringProps)] [])) (case c of (i, n) \<Rightarrow> JObject (identity_fields_json i n)) =
      (case c of (i, n) \<Rightarrow> JObject (identity_fields_json i n))" for c
    by (cases c) (simp add: identity_fields_json_def pruning fitting prune_fields_append)
  then show ?thesis
    by (simp add: ovirt_vm_json_def identity_fields_json_def VMImport_v1alpha1_spec_source_ovirt_vm_def pruning fitting prune_fields_append)
qed

lemma older_spec: "prune (Some VMImport_v1alpha1_spec) (spec_json sp) = spec_json (seen_by_older sp)"
proof -
  have "prune (Some VMImport_v1alpha1_spec_source_ovirt) (ovirt_source_json s) =
      ovirt_source_json (s\<lparr>os_mappings := map_option without_modes (os_mappings s)\<rparr>)" for s
    using older_vm [of s]
    by (simp add: ovirt_source_json_def ovirt_vm_json_def VMImport_v1alpha1_spec_source_ovirt_def pruning fitting older_mappings opt_field_comp)
  then have "prune (Some VMImport_v1alpha1_spec_source) (source_spec_json s) =
      source_spec_json \<lparr>ss_ovirt = map_option (\<lambda>s. s\<lparr>os_mappings := map_option without_modes (os_mappings s)\<rparr>) (ss_ovirt s), ss_vmware = None\<rparr>" for s
    by (simp add: source_spec_json_def VMImport_v1alpha1_spec_source_def pruning fitting prune_fields_append
        opt_field_comp [of _ ovirt_source_json "\<lambda>s. s\<lparr>os_mappings := map_option without_modes (os_mappings s)\<rparr>"])
  moreover have "prune (Some VMImport_v1alpha1_spec_providerCredentialsSecret) (identifier_json x) = identifier_json x"
    "prune (Some VMImport_v1alpha1_spec_resourceMapping) (identifier_json x) = identifier_json x" for x
    by (simp_all add: identifier_json_def VMImport_v1alpha1_spec_providerCredentialsSecret_def VMImport_v1alpha1_spec_resourceMapping_def
        pruning fitting)
  ultimately show ?thesis
    by (simp add: spec_json_def VMImport_v1alpha1_spec_def pruning fitting prune_fields_append seen_by_older_def)
qed

text \<open>
  C39. A client of the older version that reads an import and writes it back changes it: the VMware source and the
  volume modes of all mappings are gone from what the controller reads then, and nothing else.  The versions
  are converted without a webhook, and the older one has no fields for them.
\<close>

theorem older_client_drops_fields:
  assumes "admit CreateVMImport ''v1alpha1'' (converted CreateVMImport ''v1alpha1'' (import_json md sp st)) = Some e"
  shows "read_import_spec (converted CreateVMImport ''v1beta1'' e) = Some (seen_by_older sp)"
proof -
  have "e = resource_json ''v2v.kubevirt.io/v1alpha1'' ''VirtualMachineImport'' md (spec_json (seen_by_older sp))
      (prune (Some VMImport_v1alpha1_status) (status_json st))"
    using assms
    by (auto simp: admit_def admit_schema_def import_json_def converted_def resource_json_def metaFields_def Let_def
        VMImport_v1alpha1_def older_spec field_schema_object split: if_splits)
  then show ?thesis
    by (simp add: reading)
qed

theorem older_client_drops_fields_witness:
  "\<exists>e. admit CreateVMImport ''v1alpha1'' (converted CreateVMImport ''v1alpha1'' (import_json [] sample_spec sample_status)) = Some e \<and>
     read_import_spec (converted CreateVMImport ''v1beta1'' e) = Some (sample_spec\<lparr>sp_source := \<lparr>ss_ovirt = None, ss_vmware = None\<rparr>\<rparr>)"
proof -
  have "fits VMImport_v1alpha1_status (status_json sample_status)"
    by (simp add: fitting writing VMImport_v1alpha1_status_def sample_status_def)
  moreover have "accepts VMImport_v1alpha1_spec (spec_json (seen_by_older sample_spec))"
    by (simp add: alpha_schemas writing seen_by_older_def sample_spec_def opt_field_def field_schema_def scalar_ok_def length_ok_def
        maxTargetVMName_def)
  ultimately have "\<exists>e. admit CreateVMImport ''v1alpha1'' (converted CreateVMImport ''v1alpha1'' (import_json [] sample_spec sample_status)) = Some e"
    by (simp add: admit_def admit_schema_def import_json_def converted_def resource_json_def metaFields_def Let_def
        VMImport_v1alpha1_def older_spec field_schema_object fits_def scalar_ok_def length_ok_def)
  then obtain e where e: "admit CreateVMImport ''v1alpha1'' (converted CreateVMImport ''v1alpha1'' (import_json [] sample_spec sample_status)) = Some e"
    by blast
  from older_client_drops_fields [OF this] have "read_import_spec (converted CreateVMImport ''v1beta1'' e) = Some (seen_by_older sample_spec)" .
  with e show ?thesis by (simp add: seen_by_older_def sample_spec_def)
qed

section \<open>Definitions that the API server takes\<close>

text \<open>A structural schema: each field has a type, arrays have items, what is required is a property.\<close>

fun structural :: "json_schema \<Rightarrow> bool"
  and structural_fields :: "(string \<times> json_schema) list \<Rightarrow> bool"
  and structural_option :: "json_schema option \<Rightarrow> bool" where
  "structural (JSONSchemaProps ty ps rs it ad en ml fm) \<longleftrightarrow>
     ty \<in> {''object'', ''array'', ''string'', ''boolean'', ''integer''} \<and> distinct (map fst ps) \<and> set rs \<subseteq> set (map fst ps) \<and>
     structural_fields ps \<and> structural_option it \<and> structural_option ad \<and>
     (ty = ''array'' \<longleftrightarrow> it \<noteq> None) \<and> (ps \<noteq> [] \<or> ad \<noteq> None \<longrightarrow> ty = ''object'') \<and> (ps = [] \<or> ad = None) \<and>
     (ml \<noteq> None \<longrightarrow> ty = ''string'') \<and> list_all (accepts (JSONSchemaProps ty [] [] None None [] ml fm)) en"
| "structural_fields [] \<longleftrightarrow> True"
| "structural_fields ((k, p) # ps) \<longleftrightarrow> structural p \<and> structural_fields ps"
| "structural_option None \<longleftrightarrow> True"
| "structural_option (Some p) \<longleftrightarrow> structural p"

definition crd_ok :: "crd \<Rightarrow> bool" where
  "crd_ok c \<longleftrightarrow>
     cr_name c = cr_plural c @ ''.'' @ cr_group c \<and> cr_list_kind c = cr_kind c @ ''List'' \<and>
     cr_scope c \<in> {''Cluster'', ''Namespaced''} \<and> distinct (map cv_name (cr_versions c)) \<and>
     length (filter cv_storage (cr_versions c)) = 1 \<and>
     list_all (\<lambda>v. cv_served v \<and> cv_status v \<and> structural (cv_schema v) \<and> sc_type (cv_schema v) = ''object'' \<and>
       map_of (sc_properties (cv_schema v)) ''metadata'' = Some (typeProps ''object'')) (cr_versions c)"

lemma import_crd_ok: "crd_ok CreateVMImport"
proof -
  have "structural VMImport_v1alpha1" by (simp add: alpha_schemas)
  moreover have "structural VMImport_v1beta1"
    by (simp add: VMImport_v1beta1_def VMImport_v1beta1_spec_def VMImport_v1beta1_spec_source_def VMImport_v1beta1_spec_source_ovirt_def
        VMImport_v1beta1_spec_source_ovirt_vm_def VMImport_v1beta1_spec_source_ovirt_mappings_def VMImport_v1beta1_spec_source_vmware_def
        VMImport_v1beta1_spec_source_vmware_vm_def VMImport_v1beta1_spec_source_vmware_mappings_def
        VMImport_v1beta1_spec_providerCredentialsSecret_def VMImport_v1beta1_spec_resourceMapping_def VMImport_v1beta1_status_def)
  ultimately show ?thesis
    by (simp add: crd_ok_def CreateVMImport_def VMImport_v1alpha1_def VMImport_v1beta1_def)
qed

lemma mapping_crd_ok: "crd_ok CreateResourceMapping"
proof -
  have "structural Mapping_v1alpha1" by (simp add: Mapping_v1alpha1_def Mapping_v1alpha1_spec_def)
  moreover have "structural Mapping_v1beta1"
    by (simp add: Mapping_v1beta1_def Mapping_v1beta1_spec_def Mapping_v1beta1_spec_ovirt_def Mapping_v1beta1_spec_vmware_def)
  ultimately show ?thesis
    by (simp add: crd_ok_def CreateResourceMapping_def Mapping_v1alpha1_def Mapping_v1beta1_def)
qed

end
