(* ===== verification/OperatorCsv.thy ===== *)
theory OperatorCsv
  imports Operator
begin

text \<open>
  The manifest of the operator for the lifecycle manager: \<open>NewClusterServiceVersion\<close> of
  \<open>pkg/operator/resources/operator/operator.go\<close>, and what \<open>tools/csv-generator\<close> prints.  The texts that are
  shown to users are left out.  Parsing of the version is that of a library, as an argument.
\<close>

record csv_data =
  cd_CsvVersion :: string
  cd_ReplacesCsvVersion :: string
  cd_Namespace :: string
  cd_ImagePullPolicy :: string
  cd_OperatorVersion :: string
  cd_OperatorImage :: string
  cd_ControllerImage :: string
  cd_VirtV2vImage :: string

text \<open>\<open>csvStrategySpec\<close>: for each service account the rules of its cluster role, and the deployments by name.\<close>

record 'n csv_strategy =
  cs_permissions :: "(string \<times> policy_rule list) list"
  cs_deployments :: "(string \<times> 'n deployment) list"

record crd_description =
  de_name :: string
  de_version :: string
  de_kind :: string
  de_spec_paths :: "string list"
  de_status_paths :: "string list"

record ('n, 'v) csv =
  sv_name :: nsname
  sv_version :: 'v
  sv_replaces :: string
  sv_maturity :: string
  sv_csv_labels :: labels
  sv_csv_selector :: labels
  sv_install_modes :: "(string \<times> bool) list"
  sv_strategy :: "string \<times> 'n csv_strategy"
  sv_owned :: "crd_description list"

definition serviceAccountName :: string where "serviceAccountName = operatorName"

text \<open>The custom resource of the program that users of the lifecycle manager see, with the fields it offers in forms.\<close>

definition csv_owned_definitions :: "crd_description list" where
  "csv_owned_definitions =
     [\<lparr>de_name = ''vmimportconfigs.v2v.kubevirt.io'', de_version = ''v1beta1'', de_kind = ''VMImportConfig'',
       de_spec_paths = [''imageRegistry'', ''imageTag'', ''imagePullPolicy''],
       de_status_paths = [''phase'', ''conditions'', ''observedVersion'', ''targetVersion'', ''operatorVersion'']\<rparr>]"

definition NewClusterServiceVersion :: "(string \<Rightarrow> go_error + 'v) \<Rightarrow> csv_data \<Rightarrow> go_error + ('n, 'v) csv" where
  "NewClusterServiceVersion semver data =
     (let deployment = createOperatorDeployment (cd_OperatorVersion data) (cd_Namespace data) ''true'' (cd_OperatorImage data)
            (cd_ControllerImage data) (cd_VirtV2vImage data) (cd_ImagePullPolicy data);
          strategySpec = \<lparr>cs_permissions = [(serviceAccountName, getOperatorPolicyRules)],
            cs_deployments = [(operatorName, deployment)]\<rparr>
      in rbind (semver (cd_CsvVersion data)) (\<lambda>csvVersion.
           Inr \<lparr>sv_name = (cd_Namespace data, operatorName @ ''.'' @ cd_CsvVersion data), sv_version = csvVersion,
             sv_replaces = cd_ReplacesCsvVersion data, sv_maturity = ''alpha'',
             sv_csv_labels = [''operated-by'' \<mapsto> operatorName], sv_csv_selector = [''operated-by'' \<mapsto> operatorName],
             sv_install_modes = [(''OwnNamespace'', True), (''SingleNamespace'', True), (''AllNamespaces'', True)],
             sv_strategy = (''deployment'', strategySpec),
             sv_owned = csv_owned_definitions\<rparr>))"

datatype ('n, 'v) manifest =
    ResourceManifest "'n resource"
  | CsvManifest "('n, 'v) csv"

text \<open>What the generator prints, or the error it panics with.\<close>

definition csv_generator :: "(string \<Rightarrow> go_error + 'v) \<Rightarrow> (string \<Rightarrow> string \<Rightarrow> json_schema) \<Rightarrow> bool \<Rightarrow> bool \<Rightarrow> csv_data \<Rightarrow>
    go_error + ('n, 'v) manifest list" where
  "csv_generator semver operatorConfigStatus controllerOnly dumpCRDs data =
     (if controllerOnly
      then Inr (map ResourceManifest
        [CustomResource CreateResourceMapping, CustomResource CreateVMImport, CreateServiceAccount (cd_Namespace data),
         CreateControllerRole, CreateControllerRoleBinding (cd_Namespace data)])
      else rbind (NewClusterServiceVersion semver data) (\<lambda>csv.
        Inr (CsvManifest csv # (if dumpCRDs then [ResourceManifest (CustomResource (CreateVMImportConfig operatorConfigStatus))] else []))))"

end
