(* ===== verification/InstallSpec.thy ===== *)
theory InstallSpec
  imports OperatorSpec OperatorCsv CrdSpec
begin

text \<open>
  What the operator installs, and the manifest that installs the operator: the API server takes the resource
  definitions, and the account of the operator may do all that the deployment of the controller takes.
\<close>

section \<open>Resource definitions\<close>

lemmas config_alpha_schemas =
  Config_v1alpha1_spec_imagePullPolicy_def Config_v1alpha1_spec_infra_affinity_nodeAffinity_preferred_def
  Config_v1alpha1_spec_infra_affinity_nodeAffinity_required_def Config_v1alpha1_spec_infra_affinity_nodeAffinity_def
  Config_v1alpha1_spec_infra_affinity_podAffinity_preferred_def
  Config_v1alpha1_spec_infra_affinity_podAffinity_required_def Config_v1alpha1_spec_infra_affinity_podAffinity_def
  Config_v1alpha1_spec_infra_affinity_podAntiAffinity_preferred_def
  Config_v1alpha1_spec_infra_affinity_podAntiAffinity_required_def
  Config_v1alpha1_spec_infra_affinity_podAntiAffinity_def Config_v1alpha1_spec_infra_affinity_def
  Config_v1alpha1_spec_infra_tolerations_def Config_v1alpha1_spec_infra_def Config_v1alpha1_spec_def
  Config_v1alpha1_status_def Config_v1alpha1_def

lemmas config_beta_schemas =
  Config_v1beta1_spec_imagePullPolicy_def Config_v1beta1_spec_infra_affinity_nodeAffinity_preferred_def
  Config_v1beta1_spec_infra_affinity_nodeAffinity_required_def Config_v1beta1_spec_infra_affinity_nodeAffinity_def
  Config_v1beta1_spec_infra_affinity_podAffinity_preferred_def
  Config_v1beta1_spec_infra_affinity_podAffinity_required_def Config_v1beta1_spec_infra_affinity_podAffinity_def
  Config_v1beta1_spec_infra_affinity_podAntiAffinity_preferred_def
  Config_v1beta1_spec_infra_affinity_podAntiAffinity_required_def Config_v1beta1_spec_infra_affinity_podAntiAffinity_def
  Config_v1beta1_spec_infra_affinity_def Config_v1beta1_spec_infra_tolerations_def Config_v1beta1_spec_infra_def
  Config_v1beta1_spec_def Config_v1beta1_def

lemma config_crd_ok:
  assumes "structural (operatorConfigStatus '''' ''VMImportConfig'')"
  shows "crd_ok (CreateVMImportConfig operatorConfigStatus)"
proof -
  have "structural Config_v1alpha1" by (simp add: config_alpha_schemas fitting)
  moreover have "structural (Config_v1beta1 operatorConfigStatus)" using assms by (simp add: config_beta_schemas fitting)
  ultimately show ?thesis
    by (simp add: crd_ok_def CreateVMImportConfig_def Config_v1alpha1_def Config_v1beta1_def)
qed

text \<open>The resources of a configuration, spelled out.\<close>

lemma getAllResources_result:
  assumes "getAllResources env monitor args cr w = (Inr rs, w')"
  shows "\<exists>args'. rs = (if deployClusterResources env then createCRDResources else []) @
      createControllerResources monitor (args', map_option ic_infra cr) \<and>
    oa_pull_policy args' = (case cr of None \<Rightarrow> oa_pull_policy args
      | Some c \<Rightarrow> if ic_pull_policy c = [] then oa_pull_policy args else ic_pull_policy c)"
proof -
  from assms obtain args' infra where run: "getOperatorArgs args cr w = (Inr (args', infra), w')"
    and rs: "rs = (if deployClusterResources env then createCRDResources else []) @ createControllerResources monitor (args', infra)"
    by (auto simp: getAllResources_def gbind_returns)
  from run have "infra = map_option ic_infra cr"
    and "oa_pull_policy args' = (case cr of None \<Rightarrow> oa_pull_policy args
      | Some c \<Rightarrow> if ic_pull_policy c = [] then oa_pull_policy args else ic_pull_policy c)"
    by (auto simp: getOperatorArgs_def Let_def gtry_returns first_container split: option.splits if_splits)
  with rs show ?thesis by blast
qed

lemmas controller_resources = createCRDResources_def createControllerResources_def CreateServiceAccount_def CreateControllerRole_def
  CreateControllerRoleBinding_def Let_def

text \<open>
  C27. Unless it is told not to, the operator installs the definitions of imports and of resource mappings, and no
  others; the API server takes both: names and kinds agree, every version is served with a structural schema
  of object type and a plain metadata field, and just one version, the newest, is stored.
\<close>

theorem installed_definitions:
  assumes "getAllResources env monitor args cr w = (Inr rs, w')"
  shows "{c. CustomResource c \<in> set rs} = (if deployClusterResources env then {CreateResourceMapping, CreateVMImport} else {}) \<and>
    (\<forall>c. CustomResource c \<in> set rs \<longrightarrow> crd_ok c \<and> map cv_name (filter cv_storage (cr_versions c)) = [''v1beta1''])"
proof -
  from getAllResources_result [OF assms] have
    "{c. CustomResource c \<in> set rs} = (if deployClusterResources env then {CreateResourceMapping, CreateVMImport} else {})"
    by (auto simp: controller_resources)
  moreover have "map cv_name (filter cv_storage (cr_versions CreateResourceMapping)) = [''v1beta1'']"
    "map cv_name (filter cv_storage (cr_versions CreateVMImport)) = [''v1beta1'']"
    by (simp_all add: CreateResourceMapping_def CreateVMImport_def)
  moreover from calculation(1) have "c = CreateResourceMapping \<or> c = CreateVMImport" if "CustomResource c \<in> set rs" for c
    using that by (auto split: if_splits)
  ultimately show ?thesis using import_crd_ok mapping_crd_ok by metis
qed

lemma sample_resources: "\<exists>rs w'. getAllResources ''true'' (Inr False) sample_args None fresh_cluster = (Inr rs, w')"
  by (simp add: getAllResources_def getOperatorArgs_def fresh_cluster_def sample_args_def op_get_deployment_def op_api_def
      CreateDeployment_def gbind_unfold gtry_unfold Let_def)

theorem installed_definitions_witness:
  "\<exists>rs w'. getAllResources ''true'' (Inr False) sample_args None fresh_cluster = (Inr rs, w') \<and>
     {c. CustomResource c \<in> set rs} = {CreateResourceMapping, CreateVMImport}"
proof -
  from sample_resources obtain rs w' where run: "getAllResources ''true'' (Inr False) sample_args None fresh_cluster = (Inr rs, w')" by blast
  with installed_definitions [OF run] show ?thesis by (auto simp: deployClusterResources_def ToLower_def lower_char_def is_upper_def)
qed

section \<open>The account of the operator\<close>

text \<open>The calls that manage a resource; a role and its binding need the right to grant what they hold.\<close>

fun resource_kind :: "'n resource \<Rightarrow> string \<times> string" where
  "resource_kind (ServiceAccount _) = ('''', ''serviceaccounts'')"
| "resource_kind (ClusterRole _ _) = (''rbac.authorization.k8s.io'', ''clusterroles'')"
| "resource_kind (ClusterRoleBinding _ _ _) = (''rbac.authorization.k8s.io'', ''clusterrolebindings'')"
| "resource_kind (ControllerDeployment _) = (''apps'', ''deployments'')"
| "resource_kind (MetricsService _) = ('''', ''services'')"
| "resource_kind (MetricsMonitor _) = (''monitoring.coreos.com'', ''servicemonitors'')"
| "resource_kind (CustomResource _) = (''apiextensions.k8s.io'', ''customresourcedefinitions'')"

definition managing_calls :: "'n resource \<Rightarrow> api_call list" where
  "managing_calls r =
     calls_on (fst (resource_kind r)) (snd (resource_kind r)) [''get'', ''list'', ''watch'', ''create'', ''update'', ''patch'', ''delete''] @
     (case r of ClusterRole _ _ \<Rightarrow> calls_on ''rbac.authorization.k8s.io'' ''clusterroles'' [''escalate'']
      | ClusterRoleBinding _ _ _ \<Rightarrow> calls_on ''rbac.authorization.k8s.io'' ''clusterroles'' [''bind''] | _ \<Rightarrow> [])"

definition operator_calls :: "api_call list" where
  "operator_calls =
     calls_on ''v2v.kubevirt.io'' ''vmimportconfigs'' [''get'', ''list'', ''watch'', ''update''] @
     calls_on ''v2v.kubevirt.io'' ''vmimportconfigs/status'' [''update''] @
     calls_on ''apps'' ''deployments'' [''get'', ''list'', ''watch''] @
     calls_on '''' ''configmaps'' [''get'', ''list'', ''watch'', ''create''] @
     calls_on '''' ''pods'' [''list'', ''watch'', ''delete''] @
     calls_on '''' ''events'' [''create'', ''patch'']"

text \<open>A rule for all verbs permits any list of calls on its resources.\<close>

lemma full_rule_permits:
  "list_ex (\<lambda>rule. pr_names rule = [] \<and> g \<in> set (pr_groups rule) \<and> r \<in> set (pr_resources rule) \<and> ''*'' \<in> set (pr_verbs rule)) rules \<Longrightarrow>
   list_all (permits rules) (calls_on g r vs)"
  by (fastforce simp: list_all_iff calls_on_def permits_def rule_permits_def list_ex_iff)

lemma list_all_append_intro: "list_all P xs \<Longrightarrow> list_all P ys \<Longrightarrow> list_all P (xs @ ys)"
  by simp

lemma operator_permissions:
  "list_all (permits getOperatorPolicyRules) operator_calls" "list_all (permits getOperatorPolicyRules) (managing_calls r)"
proof -
  show "list_all (permits getOperatorPolicyRules) operator_calls"
    unfolding operator_calls_def by (intro list_all_append_intro full_rule_permits) (simp_all add: getOperatorPolicyRules_def)
  have "list_all (permits getOperatorPolicyRules) (calls_on (fst (resource_kind r)) (snd (resource_kind r)) vs)" for vs
    by (rule full_rule_permits, cases r) (simp_all add: getOperatorPolicyRules_def)
  moreover have "list_all (permits getOperatorPolicyRules) (calls_on ''rbac.authorization.k8s.io'' ''clusterroles'' vs)" for vs
    by (rule full_rule_permits) (simp add: getOperatorPolicyRules_def)
  ultimately show "list_all (permits getOperatorPolicyRules) (managing_calls r)"
    by (simp add: managing_calls_def split: resource.split)
qed


definition sample_csv_data :: csv_data where
  "sample_csv_data =
     \<lparr>cd_CsvVersion = ''0.1.0'', cd_ReplacesCsvVersion = [], cd_Namespace = ''ns'', cd_ImagePullPolicy = ''Always'',
      cd_OperatorVersion = ''v1'', cd_OperatorImage = ''op'', cd_ControllerImage = ''img'', cd_VirtV2vImage = ''virt-v2v''\<rparr>"


section \<open>The configuration\<close>

definition config_pull_policy :: "json \<Rightarrow> string option" where
  "config_pull_policy =
     read_object (read_field (read_object (read_field read_string [] ''imagePullPolicy'')) [] ''spec'')"

lemma config_policy_legal:
  assumes "admit (CreateVMImportConfig s) ''v1beta1'' j = Some e" and "config_pull_policy e = Some p"
  shows "p \<in> {[], ''Always'', ''IfNotPresent'', ''Never''}"
proof -
  from assms(1) obtain kvs where e: "e = JObject kvs" and acc: "accepts_fields (Config_v1beta1 s) kvs"
    by (auto simp: admit_def served_schema_def CreateVMImportConfig_def admit_schema_def Let_def split: json.splits if_splits)
  from assms(2) have "p = [] \<or> (\<exists>ps. map_of kvs ''spec'' = Some (JObject ps) \<and> map_of ps ''imagePullPolicy'' = Some (JStr p))"
    by (auto simp: config_pull_policy_def e read_field_def split: option.splits json.splits elim!: read_string.elims)
  moreover have "p \<in> {''Always'', ''IfNotPresent'', ''Never''}"
    if "map_of kvs ''spec'' = Some (JObject ps)" "map_of ps ''imagePullPolicy'' = Some (JStr p)" for ps
  proof -
    have "accepts Config_v1beta1_spec (JObject ps)"
      using accepts_fieldsD [OF acc that(1)] by (simp add: Config_v1beta1_def field_schema_object)
    then have "accepts_fields Config_v1beta1_spec ps" by simp
    from accepts_fieldsD [OF this that(2)] show ?thesis
      by (simp add: Config_v1beta1_spec_def Config_v1beta1_spec_imagePullPolicy_def field_schema_object scalar_ok_def)
  qed
  ultimately show ?thesis by blast
qed

text \<open>
  C28. The pull policy of an admitted configuration is one that a container may have, and the container of the
  controller gets it; without one it gets that of the operator.
\<close>

theorem configured_pull_policy:
  assumes "admit (CreateVMImportConfig s) ''v1beta1'' j = Some e" and "config_pull_policy e = Some (ic_pull_policy cr)"
    and "getAllResources env monitor args (Some cr) w = (Inr rs, w')" and "ControllerDeployment d \<in> set rs"
  shows "ic_pull_policy cr \<in> {[], ''Always'', ''IfNotPresent'', ''Never''} \<and>
    map ct_pull_policy (dp_containers d) = [if ic_pull_policy cr = [] then oa_pull_policy args else ic_pull_policy cr]"
proof -
  have "map ct_pull_policy (dp_containers d) = [if ic_pull_policy cr = [] then oa_pull_policy args else ic_pull_policy cr]"
    using getAllResources_result [OF assms(3)] assms(4)
    by (auto simp: controller_resources CreateControllerDeployment_def CreateDeployment_def createControllerContainers_def
        CreateContainer_def split: if_splits)
  with config_policy_legal [OF assms(1,2)] show ?thesis by blast
qed

definition sample_config :: json where
  "sample_config =
     JObject [(''kind'', JStr ''VMImportConfig''), (''spec'', JObject [(''imagePullPolicy'', JStr ''Never'')])]"

theorem configured_pull_policy_witness:
  "\<exists>rs w' d. getAllResources ''true'' (Inr False) sample_args (Some \<lparr>ic_pull_policy = ''Never'', ic_infra = (), ic_conditions = []\<rparr>)
       fresh_cluster = (Inr rs, w') \<and> ControllerDeployment d \<in> set rs \<and> map ct_pull_policy (dp_containers d) = [''Never'']"
proof -
  let ?cr = "\<lparr>ic_pull_policy = ''Never'', ic_infra = (), ic_conditions = []\<rparr>"
  have "\<exists>rs w' d. getAllResources ''true'' (Inr False) sample_args (Some ?cr) fresh_cluster = (Inr rs, w') \<and> ControllerDeployment d \<in> set rs"
    by (auto simp: getAllResources_def getOperatorArgs_def fresh_cluster_def sample_args_def op_get_deployment_def op_api_def
      CreateDeployment_def gbind_unfold gtry_unfold controller_resources)
  then obtain rs w' d where run: "getAllResources ''true'' (Inr False) sample_args (Some ?cr) fresh_cluster = (Inr rs, w')"
    and d: "ControllerDeployment d \<in> set rs" by blast
  have "admit (CreateVMImportConfig (\<lambda>_ _. typeProps ''object'')) ''v1beta1'' sample_config = Some sample_config"
    by (simp add: admit_def served_schema_def CreateVMImportConfig_def admit_schema_def sample_config_def metaFields_def Let_def
        Config_v1beta1_def Config_v1beta1_spec_def Config_v1beta1_spec_imagePullPolicy_def field_schema_object scalar_ok_def length_ok_def)
  moreover have "config_pull_policy sample_config = Some (ic_pull_policy ?cr)"
    by (simp add: config_pull_policy_def sample_config_def read_field_def)
  ultimately have "map ct_pull_policy (dp_containers d) = [''Never'']"
    using configured_pull_policy [OF _ _ run d] by fastforce
  with run d show ?thesis by (intro exI [of _ rs] exI [of _ w'] exI [of _ d] conjI)
qed

text \<open>
  The manifest offers the fields \<open>imageRegistry\<close> and \<open>imageTag\<close> of the configuration to users, but the schema has
  neither, so the API server drops what is written there.
\<close>

lemma offered_fields_dropped:
  assumes "NewClusterServiceVersion semver data = Inr csv"
  shows "[p \<leftarrow> concat (map de_spec_paths (sv_owned csv)). field_schema Config_v1beta1_spec p = None] = [''imageRegistry'', ''imageTag'']"
  using assms
  by (auto simp: NewClusterServiceVersion_def csv_owned_definitions_def Let_def rbind_Inr Config_v1beta1_spec_def field_schema_object)

end
