(* ===== verification/Memory.thy ===== *)
theory Memory
  imports Prelude "HOL-Library.Sublist"
begin

text \<open>
  The memory that the copies of \<open>zz_generated.deepcopy.go\<close> work on.  A heap is a list of allocations; an
  allocation is a list of values, one for \<open>new(T)\<close> and \<open>n\<close> for \<open>make([]T, n)\<close>.  A pointer holds the address of
  an allocation of one value, a slice an address with an offset and a length, and a struct its fields by name.
  The types are finite, as those of the package are: no type refers to itself.

  \<open>read T h v\<close> is all that a value of type \<open>T\<close> holds when its pointers and slices are followed, and \<open>None\<close> when
  the value is not of the type.  \<open>reach T h v\<close> is the addresses that are followed.  A copier takes \<open>*in\<close> and the
  heap to \<open>*out\<close> and the heap after; \<open>deep T c\<close> is the contract of a deep copy: the copy holds the same, it is
  in allocations of its own, and no allocation that existed has changed.
\<close>

section \<open>Values and types\<close>

datatype gotype = StringT | BoolT | PtrT gotype | SliceT gotype | StructT "(string \<times> gotype) list"

datatype goval =
  Str string
| Boo bool
| Ptr "nat option"
| Slice "(nat \<times> nat \<times> nat) option"
| Rec "(string \<times> goval) list"

datatype tree = StrTree string | BoolTree bool | NilTree | PtrTree tree | SliceTree "tree list" | StructTree "tree list"

type_synonym heap = "goval list list"

type_synonym copier = "goval \<Rightarrow> heap \<Rightarrow> goval \<times> heap"

definition cell :: "heap \<Rightarrow> nat \<Rightarrow> goval list option" where
  "cell h a = (if a < length h then Some (h ! a) else None)"

text \<open>The elements of a slice: \<open>None\<close> when the slice is not within its array.\<close>

definition elements :: "heap \<Rightarrow> nat \<times> nat \<times> nat \<Rightarrow> goval list option" where
  "elements h s = (case s of (a, off, n) \<Rightarrow>
     (case cell h a of
        Some xs \<Rightarrow> if off + n \<le> length xs then Some (take n (drop off xs)) else None
      | None \<Rightarrow> None))"

fun field_of :: "goval \<Rightarrow> string \<Rightarrow> goval option" where
  "field_of (Rec fs) n = map_of fs n"
| "field_of _ n = None"

text \<open>The zero value of a type.\<close>

fun zero_of :: "gotype \<Rightarrow> goval" where
  "zero_of StringT = Str []"
| "zero_of BoolT = Boo False"
| "zero_of (PtrT T) = Ptr None"
| "zero_of (SliceT T) = Slice None"
| "zero_of (StructT fs) = Rec (map (\<lambda>(n, T). (n, zero_of T)) fs)"

section \<open>What a value holds\<close>

fun gather :: "('a \<Rightarrow> 'b option) \<Rightarrow> 'a list \<Rightarrow> 'b list option" where
  "gather f [] = Some []"
| "gather f (x # xs) = (case f x of
     None \<Rightarrow> None
   | Some y \<Rightarrow> map_option ((#) y) (gather f xs))"

lemma gather_cong [fundef_cong]:
  "xs = ys \<Longrightarrow> (\<And>x. x \<in> set ys \<Longrightarrow> f x = g x) \<Longrightarrow> gather f xs = gather g ys"
  by (induction xs arbitrary: ys) (auto split: option.splits)

lemma gather_Some: "gather f xs = Some ys \<longleftrightarrow> map f xs = map Some ys"
  by (induction xs arbitrary: ys) (auto split: option.splits simp: Cons_eq_map_conv)

lemma gather_each: "gather f xs = Some ys \<Longrightarrow> x \<in> set xs \<Longrightarrow> \<exists>y. f x = Some y"
  by (induction xs arbitrary: ys) (auto split: option.splits)

fun read :: "gotype \<Rightarrow> heap \<Rightarrow> goval \<Rightarrow> tree option" where
  "read StringT h v = (case v of Str s \<Rightarrow> Some (StrTree s) | _ \<Rightarrow> None)"
| "read BoolT h v = (case v of Boo b \<Rightarrow> Some (BoolTree b) | _ \<Rightarrow> None)"
| "read (PtrT T) h v = (case v of
     Ptr None \<Rightarrow> Some NilTree
   | Ptr (Some a) \<Rightarrow> (case cell h a of Some [x] \<Rightarrow> map_option PtrTree (read T h x) | _ \<Rightarrow> None)
   | _ \<Rightarrow> None)"
| "read (SliceT T) h v = (case v of
     Slice None \<Rightarrow> Some NilTree
   | Slice (Some s) \<Rightarrow> (case elements h s of
        Some xs \<Rightarrow> map_option SliceTree (gather (\<lambda>x. read T h x) xs)
      | None \<Rightarrow> None)
   | _ \<Rightarrow> None)"
| "read (StructT fs) h v = (case v of
     Rec vs \<Rightarrow> map_option StructTree (gather (\<lambda>(n, T). case map_of vs n of
        Some x \<Rightarrow> read T h x
      | None \<Rightarrow> None) fs)
   | _ \<Rightarrow> None)"

fun reach :: "gotype \<Rightarrow> heap \<Rightarrow> goval \<Rightarrow> nat list" where
  "reach StringT h v = []"
| "reach BoolT h v = []"
| "reach (PtrT T) h v = (case v of
     Ptr (Some a) \<Rightarrow> a # (case cell h a of Some [x] \<Rightarrow> reach T h x | _ \<Rightarrow> [])
   | _ \<Rightarrow> [])"
| "reach (SliceT T) h v = (case v of
     Slice (Some (a, off, n)) \<Rightarrow> a # (case elements h (a, off, n) of
        Some xs \<Rightarrow> concat (map (\<lambda>x. reach T h x) xs)
      | None \<Rightarrow> [])
   | _ \<Rightarrow> [])"
| "reach (StructT fs) h v = concat (map (\<lambda>(n, T). case field_of v n of
     Some x \<Rightarrow> reach T h x
   | None \<Rightarrow> []) fs)"

lemma read_example:
  "read (StructT [(''Name'', StringT), (''Namespace'', PtrT StringT)]) [[Str ''ns'']]
     (Rec [(''Name'', Str ''n''), (''Namespace'', Ptr (Some 0))])
     = Some (StructTree [StrTree ''n'', PtrTree (StrTree ''ns'')])"
  by (simp add: cell_def)


section \<open>Values in a heap that changes\<close>

lemma elements_agree: "cell h' a = cell h a \<Longrightarrow> elements h' (a, off, n) = elements h (a, off, n)"
  by (simp add: elements_def)

lemma read_reach_agree:
  "\<forall>a \<in> set (reach T h v). cell h' a = cell h a \<Longrightarrow> read T h' v = read T h v \<and> reach T h' v = reach T h v"
proof (induction T h v rule: read.induct)
  case (3 T h v)
  then show ?case
    by (fastforce split: goval.splits option.splits list.splits)
next
  case (4 T h v)
  show ?case
  proof (cases "\<exists>a off n. v = Slice (Some (a, off, n))")
    case True
    then obtain a off n where v: "v = Slice (Some (a, off, n))" by blast
    have el: "elements h' (a, off, n) = elements h (a, off, n)"
      using 4(2) by (intro elements_agree) (simp add: v)
    show ?thesis
    proof (cases "elements h (a, off, n)")
      case None
      then show ?thesis by (simp add: v el)
    next
      case (Some xs)
      have "read T h' x = read T h x \<and> reach T h' x = reach T h x" if "x \<in> set xs" for x
        using 4(1)[OF v refl Some that] 4(2) that by (auto simp: v Some)
      then show ?thesis
        by (auto simp: v el Some intro!: arg_cong [where f = "map_option SliceTree"] gather_cong arg_cong [where f = concat])
    qed
  next
    case False
    then show ?thesis by (auto split: goval.splits option.splits)
  qed
next
  case (5 fs h v)
  show ?case
  proof (cases v)
    case (Rec vs)
    have "read T h' x = read T h x \<and> reach T h' x = reach T h x"
      if "(n, T) \<in> set fs" and "map_of vs n = Some x" for n T x
      using 5(1)[OF Rec that(1) refl that(2)] 5(2) that by (force simp: Rec)
    then show ?thesis
      by (auto simp: Rec intro!: arg_cong [where f = "map_option StructTree"] gather_cong
            arg_cong [where f = concat] map_cong split: option.split)
  qed (auto intro!: arg_cong [where f = concat] map_cong)
qed auto

lemma read_agree: "\<forall>a \<in> set (reach T h v). cell h' a = cell h a \<Longrightarrow> read T h' v = read T h v"
  and reach_agree: "\<forall>a \<in> set (reach T h v). cell h' a = cell h a \<Longrightarrow> reach T h' v = reach T h v"
  using read_reach_agree by blast+

text \<open>What can be read lies in the heap.\<close>

lemma reach_allocated: "read T h v = Some t \<Longrightarrow> a \<in> set (reach T h v) \<Longrightarrow> a < length h"
proof (induction T h v arbitrary: t a rule: read.induct)
  case (3 T h v)
  from 3(3) obtain b where v: "v = Ptr (Some b)"
    by (auto split: goval.splits option.splits)
  from 3(2) v obtain x t' where x: "cell h b = Some [x]" and t': "read T h x = Some t'"
    by (auto split: option.splits list.splits)
  have "b < length h"
    using x by (simp add: cell_def split: if_splits)
  then show ?case
    using 3(1)[OF v refl x refl refl t'] 3(3) by (auto simp: v x)
next
  case (4 T h v)
  from 4(3) obtain b off n where v: "v = Slice (Some (b, off, n))"
    by (auto split: goval.splits option.splits)
  from 4(2) v obtain xs ts where xs: "elements h (b, off, n) = Some xs" and ts: "gather (\<lambda>x. read T h x) xs = Some ts"
    by (auto split: option.splits)
  have "\<forall>x \<in> set xs. \<exists>t. read T h x = Some t"
    using gather_each [OF ts] by blast
  moreover have "b < length h"
    using xs by (auto simp: elements_def cell_def split: option.splits if_splits)
  ultimately show ?case
    using 4(1)[OF v refl xs] 4(3) by (auto simp: v xs)
next
  case (5 fs h v)
  from 5(2) obtain vs ts where v: "v = Rec vs"
    and ts: "gather (\<lambda>(n, T). case map_of vs n of Some x \<Rightarrow> read T h x | None \<Rightarrow> None) fs = Some ts"
    by (auto split: goval.splits)
  from 5(3) obtain n T x where f: "(n, T) \<in> set fs" "map_of vs n = Some x" "a \<in> set (reach T h x)"
    by (auto simp: v split: option.splits dest: sym)
  have "\<exists>t. read T h x = Some t"
    using gather_each [OF ts f(1)] f(2) by simp
  then show ?case
    using 5(1)[OF v f(1) refl f(2)] f(3) by blast
qed auto

lemma nil_read: "read (PtrT T) h v = Some t \<Longrightarrow> v = Ptr None \<longleftrightarrow> t = NilTree"
  by (auto split: goval.splits option.splits list.splits)

lemma prefix_cell: "prefix h h' \<Longrightarrow> a < length h \<Longrightarrow> cell h' a = cell h a"
  by (auto simp: cell_def prefix_def nth_append)

lemma read_prefix: "prefix h h' \<Longrightarrow> read T h v = Some t \<Longrightarrow> read T h' v = Some t"
  using read_agree prefix_cell reach_allocated by metis

lemma reach_prefix: "prefix h h' \<Longrightarrow> read T h v = Some t \<Longrightarrow> reach T h' v = reach T h v"
  using reach_agree prefix_cell reach_allocated by metis

section \<open>Copies\<close>

text \<open>\<open>fresh T h0 t h x\<close>: in the heap \<open>h\<close>, \<open>x\<close> holds \<open>t\<close> in allocations that are not of \<open>h0\<close>.\<close>

definition fresh :: "gotype \<Rightarrow> heap \<Rightarrow> tree \<Rightarrow> heap \<Rightarrow> goval \<Rightarrow> bool" where
  "fresh T h0 t h x \<longleftrightarrow> read T h x = Some t \<and> (\<forall>a \<in> set (reach T h x). length h0 \<le> a)"

definition deep :: "gotype \<Rightarrow> copier \<Rightarrow> bool" where
  "deep T c \<longleftrightarrow> (\<forall>h v t. read T h v = Some t \<longrightarrow>
     prefix h (snd (c v h)) \<and> fresh T h t (snd (c v h)) (fst (c v h)))"

lemma fresh_prefix: "fresh T h0 t h x \<Longrightarrow> prefix h h' \<Longrightarrow> fresh T h0 t h' x"
  by (simp add: fresh_def read_prefix reach_prefix)

lemma fresh_older: "fresh T h0 t h x \<Longrightarrow> length h1 \<le> length h0 \<Longrightarrow> fresh T h1 t h x"
  by (auto simp: fresh_def)

lemma fresh_agree:
  assumes "fresh T h0 t h x" and "\<And>a. length h0 \<le> a \<Longrightarrow> a < length h \<Longrightarrow> cell h' a = cell h a"
  shows "fresh T h0 t h' x"
  using assms read_reach_agree [of T h x h'] reach_allocated [of T h x t] by (auto simp: fresh_def)

lemma deepD:
  assumes "deep T c" "read T h v = Some t" "c v h = (x, h')"
  shows "prefix h h'" "fresh T h t h' x"
  using assms unfolding deep_def by (metis fst_conv snd_conv)+

text \<open>\<open>*out = *in\<close>; of a type without pointers this is a deep copy.\<close>

definition assign :: copier where
  "assign v h = (v, h)"

fun flat :: "gotype \<Rightarrow> bool" where
  "flat StringT = True"
| "flat BoolT = True"
| "flat (PtrT T) = False"
| "flat (SliceT T) = False"
| "flat (StructT fs) = list_all (\<lambda>(n, T). flat T) fs"

lemma flat_reach: "flat T \<Longrightarrow> reach T h v = []"
  by (induction T h v rule: read.induct)
    (auto simp: list_all_iff split: option.splits, (case_tac v; force simp: list_all_iff)+)

lemma deep_assign: "flat T \<Longrightarrow> deep T assign"
  by (simp add: deep_def assign_def fresh_def flat_reach)


text \<open>\<open>new(T)\<close> and \<open>make([]T, n)\<close>\<close>

definition new :: "gotype \<Rightarrow> heap \<Rightarrow> nat \<times> heap" where
  "new T h = (length h, h @ [[zero_of T]])"

definition make :: "gotype \<Rightarrow> nat \<Rightarrow> heap \<Rightarrow> nat \<times> heap" where
  "make T n h = (length h, h @ [replicate n (zero_of T)])"

text \<open>
  \<open>if *in != nil { *out = new(T); (*in).DeepCopyInto(*out) }\<close>, and \<open>**out = **in\<close> with \<open>assign\<close> as the copier
  of the value.  A pointer that dangles is not a Go value.
\<close>

definition copy_pointer :: "gotype \<Rightarrow> copier \<Rightarrow> copier" where
  "copy_pointer T c v h = (case v of
     Ptr (Some a) \<Rightarrow> (case cell h a of
        Some [x] \<Rightarrow> (let (p, h1) = new T h; (y, h2) = c x h1 in (Ptr (Some p), h2[p := [y]]))
      | _ \<Rightarrow> (v, h))
   | _ \<Rightarrow> (v, h))"

text \<open>\<open>for i := range *in { (*in)[i].DeepCopyInto(&(*out)[i]) }\<close>, from an index on\<close>

fun copy_elements :: "copier \<Rightarrow> nat \<Rightarrow> nat \<Rightarrow> goval list \<Rightarrow> heap \<Rightarrow> heap" where
  "copy_elements c p i [] h = h"
| "copy_elements c p i (x # xs) h =
     (let (y, h1) = c x h in copy_elements c p (Suc i) xs (h1[p := (h1 ! p)[i := y]]))"

text \<open>\<open>if *in != nil { *out = make([]T, len(*in)); for ... }\<close>\<close>

definition copy_slice :: "gotype \<Rightarrow> copier \<Rightarrow> copier" where
  "copy_slice T c v h = (case v of
     Slice (Some s) \<Rightarrow> (case elements h s of
        Some xs \<Rightarrow> (let (p, h1) = make T (length xs) h in
                      (Slice (Some (p, 0, length xs)), copy_elements c p 0 xs h1))
      | None \<Rightarrow> (v, h))
   | _ \<Rightarrow> (v, h))"

text \<open>A field that points to a slice: \<open>*out = new([]T)\<close>, and the elements when the slice is not nil.\<close>

definition copy_items :: "gotype \<Rightarrow> copier \<Rightarrow> copier" where
  "copy_items T c = copy_pointer (SliceT T) (copy_slice T c)"

text \<open>\<open>if in.F != nil { *out = (*in).DeepCopy() }\<close> with a \<open>DeepCopy\<close> of another package\<close>

definition unless_nil :: "copier \<Rightarrow> copier" where
  "unless_nil c v h = (if v = Ptr None then (v, h) else c v h)"

text \<open>\<open>DeepCopyObject\<close>: a nil pointer becomes the nil interface, not an interface that holds a nil pointer.\<close>

type_synonym object_copier = "goval \<Rightarrow> heap \<Rightarrow> goval option \<times> heap"

definition as_object :: "copier \<Rightarrow> object_copier" where
  "as_object c p h = (let (q, h1) = c p h in (if q \<noteq> Ptr None then (Some q, h1) else (None, h1)))"

text \<open>\<open>*out = *in\<close> and then \<open>in.F.DeepCopyInto(&out.F)\<close> for some of the fields, in order\<close>

fun copy_fields :: "(string \<times> copier) list \<Rightarrow> (string \<times> goval) list \<Rightarrow> (string \<times> goval) list \<Rightarrow> heap
    \<Rightarrow> (string \<times> goval) list \<times> heap" where
  "copy_fields [] vs out h = (out, h)"
| "copy_fields ((n, c) # steps) vs out h = (case map_of vs n of
     None \<Rightarrow> copy_fields steps vs out h
   | Some x \<Rightarrow> (let (y, h1) = c x h in copy_fields steps vs (AList.update n y out) h1))"

definition into :: "(string \<times> copier) list \<Rightarrow> copier" where
  "into steps v h = (case v of
     Rec vs \<Rightarrow> (let (out, h1) = copy_fields steps vs vs h in (Rec out, h1))
   | _ \<Rightarrow> (v, h))"

section \<open>The copiers copy deeply\<close>

lemma prefix_nthI:
  assumes "length h \<le> length h'" and "\<And>a. a < length h \<Longrightarrow> h' ! a = h ! a"
  shows "prefix h h'"
proof -
  have "take (length h) h' = h"
    using assms by (intro nth_equalityI) auto
  then show ?thesis
    by (metis take_is_prefix)
qed

lemma prefix_nth: "prefix h h' \<Longrightarrow> a < length h \<Longrightarrow> h' ! a = h ! a"
  by (auto simp: prefix_def nth_append)

lemma deep_pointer:
  assumes "deep T c"
  shows "deep (PtrT T) (copy_pointer T c)"
  unfolding deep_def
proof (intro allI impI)
  fix h v t
  assume r: "read (PtrT T) h v = Some t"
  show "prefix h (snd (copy_pointer T c v h)) \<and>
      fresh (PtrT T) h t (snd (copy_pointer T c v h)) (fst (copy_pointer T c v h))"
  proof (cases "v = Ptr None")
    case True
    then show ?thesis using r by (simp add: copy_pointer_def fresh_def)
  next
    case False
    then obtain a where v: "v = Ptr (Some a)"
      using r by (auto split: goval.splits option.splits)
    with r obtain x t' where x: "cell h a = Some [x]" and t': "read T h x = Some t'" and t: "t = PtrTree t'"
      by (auto split: option.splits list.splits)
    define p h1 where p: "p = length h" and h1: "h1 = h @ [[zero_of T]]"
    obtain y h2 where c: "c x h1 = (y, h2)" by fastforce
    have "read T h1 x = Some t'"
      using t' read_prefix [of h h1 T x t'] by (simp add: h1)
    note d = deepD [OF assms this c]
    have len: "length h1 \<le> length h2"
      using d(1) by (rule prefix_length_le)
    have y: "fresh T h1 t' (h2[p := [y]]) y"
      using d(2) by (rule fresh_agree) (simp add: cell_def h1 p)
    have "prefix h (h2[p := [y]])"
      using prefix_nth [OF d(1)] len by (intro prefix_nthI) (auto simp: h1 p nth_append)
    moreover have "cell (h2[p := [y]]) p = Some [y]"
      using len by (simp add: cell_def h1 p)
    moreover have "copy_pointer T c v h = (Ptr (Some p), h2[p := [y]])"
      using c by (simp add: copy_pointer_def new_def v x h1 p)
    ultimately show ?thesis
      using y by (auto simp: t fresh_def h1 p)
  qed
qed

lemma copy_elements_deep:
  assumes "deep T c"
  shows "\<lbrakk>length h0 \<le> p; p < length h; \<forall>a < length h0. cell h a = cell h0 a;
      map (read T h0) xs = map Some ts; i + length xs \<le> length (h ! p); h' = copy_elements c p i xs h;
      length b = Suc p\<rbrakk>
    \<Longrightarrow> length h \<le> length h' \<and> (\<forall>a < length h. a \<noteq> p \<longrightarrow> h' ! a = h ! a) \<and> length (h' ! p) = length (h ! p) \<and>
      (\<forall>j < i. h' ! p ! j = h ! p ! j) \<and> (\<forall>j < length xs. fresh T b (ts ! j) h' (h' ! p ! (i + j)))"
proof (induction xs arbitrary: i h ts)
  case Nil
  then show ?case by simp
next
  case (Cons x xs)
  obtain t us where ts: "ts = t # us" and t: "read T h0 x = Some t" and us: "map (read T h0) xs = map Some us"
    using Cons.prems(4) by (cases ts) auto
  have "read T h x = Some t"
    using read_agree [of T h0 x h] reach_allocated [OF t] Cons.prems(3) t by auto
  obtain y h1 where c: "c x h = (y, h1)" by fastforce
  note d = deepD [OF assms \<open>read T h x = Some t\<close> c]
  define h2 where h2: "h2 = h1[p := (h1 ! p)[i := y]]"
  have len: "length h \<le> length h1"
    using d(1) by (rule prefix_length_le)
  have old: "h1 ! a = h ! a" if "a < length h" for a
    using d(1) that by (rule prefix_nth)
  have h2p: "h2 ! p = (h ! p)[i := y]"
    using len Cons.prems(2) old by (simp add: h2)
  have "\<forall>a < length h0. cell h2 a = cell h0 a"
    using Cons.prems(1,2,3) len old by (auto simp: cell_def h2)
  moreover have "p < length h2" "Suc i + length xs \<le> length (h2 ! p)" "h' = copy_elements c p (Suc i) xs h2"
    using Cons.prems(2,5,6) len h2p by (simp_all add: h2 c)
  ultimately have rest: "length h2 \<le> length h' \<and> (\<forall>a < length h2. a \<noteq> p \<longrightarrow> h' ! a = h2 ! a) \<and>
      length (h' ! p) = length (h2 ! p) \<and> (\<forall>j < Suc i. h' ! p ! j = h2 ! p ! j) \<and>
      (\<forall>j < length xs. fresh T b (us ! j) h' (h' ! p ! (Suc i + j)))"
    using Cons.IH [OF Cons.prems(1) _ _ us _ _ Cons.prems(7)] by blast
  have "h' ! p ! i = y"
    using rest h2p Cons.prems(5) by simp
  moreover have "fresh T b t h' y"
  proof (rule fresh_agree)
    show "fresh T b t h1 y"
      using fresh_older [OF d(2)] Cons.prems(2,7) by simp
    fix a assume a: "length b \<le> a" "a < length h1"
    with rest Cons.prems(7) have "a < length h2" "a < length h'" "a \<noteq> p"
      by (auto simp: h2)
    with rest have "h' ! a = h2 ! a" by simp
    with \<open>a < length h'\<close> \<open>a \<noteq> p\<close> a(2) show "cell h' a = cell h1 a"
      by (simp add: cell_def h2)
  qed
  ultimately have elem: "fresh T b (ts ! j) h' (h' ! p ! (i + j))" if "j < length (x # xs)" for j
    using rest that by (cases j) (auto simp: ts)
  have "length h \<le> length h'"
    using rest len by (simp add: h2)
  moreover have "h' ! a = h ! a" if "a < length h" "a \<noteq> p" for a
    using rest old that len by (simp add: h2)
  moreover have "length (h' ! p) = length (h ! p)" "\<forall>j < i. h' ! p ! j = h ! p ! j"
    using rest h2p by simp_all
  ultimately show ?case
    using elem by blast
qed

lemma deep_slice:
  assumes "deep T c"
  shows "deep (SliceT T) (copy_slice T c)"
  unfolding deep_def
proof (intro allI impI)
  fix h v t
  assume r: "read (SliceT T) h v = Some t"
  show "prefix h (snd (copy_slice T c v h)) \<and>
      fresh (SliceT T) h t (snd (copy_slice T c v h)) (fst (copy_slice T c v h))"
  proof (cases "v = Slice None")
    case True
    then show ?thesis using r by (simp add: copy_slice_def fresh_def)
  next
    case False
    then obtain s where v: "v = Slice (Some s)"
      using r by (auto split: goval.splits option.splits)
    with r obtain xs ts where xs: "elements h s = Some xs" and ts: "map (read T h) xs = map Some ts"
      and t: "t = SliceTree ts"
      by (auto simp: gather_Some split: option.splits)
    define n p h1 where n: "n = length xs" and p: "p = length h" and h1: "h1 = h @ [replicate n (zero_of T)]"
    define h' where h': "h' = copy_elements c p 0 xs h1"
    have all: "length h1 \<le> length h' \<and> (\<forall>a < length h1. a \<noteq> p \<longrightarrow> h' ! a = h1 ! a) \<and> length (h' ! p) = length (h1 ! p) \<and>
        (\<forall>j < 0. h' ! p ! j = h1 ! p ! j) \<and> (\<forall>j < length xs. fresh T h1 (ts ! j) h' (h' ! p ! (0 + j)))"
      by (rule copy_elements_deep [OF assms _ _ _ ts _ h']) (auto simp: h1 p n cell_def nth_append)
    have len: "length ts = n" "length (h' ! p) = n"
      using all ts by (auto simp: h1 p n dest: map_eq_imp_length_eq)
    have el: "elements h' (p, 0, n) = Some (h' ! p)"
      using all len by (simp add: elements_def cell_def h1 p)
    have "gather (\<lambda>x. read T h' x) (h' ! p) = Some ts"
      unfolding gather_Some using all len by (intro nth_equalityI) (auto simp: fresh_def n)
    moreover have "\<forall>x \<in> set (h' ! p). \<forall>a \<in> set (reach T h' x). length h \<le> a"
    proof
      fix x assume "x \<in> set (h' ! p)"
      then obtain j where j: "j < length xs" "x = h' ! p ! j"
        using len by (auto simp: in_set_conv_nth n)
      with all have "fresh T h1 (ts ! j) h' x" by simp
      then show "\<forall>a \<in> set (reach T h' x). length h \<le> a"
        by (auto simp: fresh_def h1 dest: Suc_leD)
    qed
    moreover have "prefix h h'"
      using all by (intro prefix_nthI) (auto simp: h1 p nth_append)
    moreover have "copy_slice T c v h = (Slice (Some (p, 0, n)), h')"
      by (simp add: copy_slice_def make_def v xs h1 p n h')
    ultimately show ?thesis
      using el by (auto simp: t fresh_def p)
  qed
qed

lemma copy_fields_deep:
  "\<lbrakk>distinct (map fst steps); prefix h0 h;
     \<forall>(n, c) \<in> set steps. \<exists>x. map_of vs n = Some x \<and> deep (T n) c \<and> read (T n) h0 x = Some (t n);
     copy_fields steps vs out h = (out', h')\<rbrakk>
   \<Longrightarrow> prefix h h' \<and> (\<forall>n. n \<notin> fst ` set steps \<longrightarrow> map_of out' n = map_of out n) \<and>
       (\<forall>n \<in> fst ` set steps. \<exists>y. map_of out' n = Some y \<and> fresh (T n) h0 (t n) h' y)"
proof (induction steps arbitrary: out h)
  case Nil
  then show ?case by simp
next
  case (Cons step steps)
  obtain n c where step: "step = (n, c)" by fastforce
  with Cons.prems(3) obtain x where x: "map_of vs n = Some x" "deep (T n) c" "read (T n) h0 x = Some (t n)"
    by auto
  obtain y h1 where c: "c x h = (y, h1)" by fastforce
  have d: "prefix h h1" "fresh (T n) h (t n) h1 y"
    using deepD [OF x(2) read_prefix [OF Cons.prems(2) x(3)] c] by simp_all
  have "prefix h0 h1"
    using Cons.prems(2) d(1) by (rule prefix_order.trans)
  then have ih: "prefix h1 h' \<and> (\<forall>m. m \<notin> fst ` set steps \<longrightarrow> map_of out' m = map_of (AList.update n y out) m) \<and>
       (\<forall>m \<in> fst ` set steps. \<exists>y. map_of out' m = Some y \<and> fresh (T m) h0 (t m) h' y)"
    using Cons.prems x(1) by (intro Cons.IH) (auto simp: step c)
  have "fresh (T n) h0 (t n) h' y"
    using fresh_prefix [OF fresh_older [OF d(2)]] prefix_length_le [OF Cons.prems(2)] ih by blast
  moreover have "map_of out' n = Some y"
    using ih Cons.prems(1) by (auto simp: step update_conv')
  moreover have "prefix h h'"
    using d(1) ih by (blast intro: prefix_order.trans)
  ultimately show ?case
    using ih by (auto simp: step update_conv')
qed

text \<open>A field without a step of its own has no pointers.\<close>

definition copied_fields :: "(string \<times> gotype) list \<Rightarrow> (string \<times> copier) list \<Rightarrow> bool" where
  "copied_fields fs steps \<longleftrightarrow> list_all (\<lambda>(n, T). case map_of steps n of None \<Rightarrow> flat T | Some c \<Rightarrow> deep T c) fs"

lemma deep_into:
  assumes "distinct (map fst fs)" "distinct (map fst steps)" "fst ` set steps \<subseteq> fst ` set fs"
    and "copied_fields fs steps"
  shows "deep (StructT fs) (into steps)"
  unfolding deep_def
proof (intro allI impI)
  fix h v t
  assume r: "read (StructT fs) h v = Some t"
  then obtain vs ts where v: "v = Rec vs" and t: "t = StructTree ts"
    and ts: "gather (\<lambda>(n, T). case map_of vs n of Some x \<Rightarrow> read T h x | None \<Rightarrow> None) fs = Some ts"
    by (auto split: goval.splits)
  define T where "T n = the (map_of fs n)" for n
  define t' where "t' n = the (read (T n) h (the (map_of vs n)))" for n
  have T: "T n = S" if "(n, S) \<in> set fs" for n S
    using that assms(1) by (simp add: T_def)
  have held: "\<exists>x. map_of vs n = Some x \<and> read S h x = Some (t' n)" if "(n, S) \<in> set fs" for n S
    using gather_each [OF ts that] that T by (auto simp: t'_def split: option.splits)
  obtain out h' where c: "copy_fields steps vs vs h = (out, h')" by fastforce
  have "\<forall>(n, c) \<in> set steps. \<exists>x. map_of vs n = Some x \<and> deep (T n) c \<and> read (T n) h x = Some (t' n)"
  proof clarify
    fix n c assume nc: "(n, c) \<in> set steps"
    then obtain S where S: "(n, S) \<in> set fs" using assms(3) by force
    moreover have "deep S c"
      using assms(2,4) S nc by (auto simp: copied_fields_def list_all_iff)
    ultimately show "\<exists>x. map_of vs n = Some x \<and> deep (T n) c \<and> read (T n) h x = Some (t' n)"
      using held T by auto
  qed
  note all = copy_fields_deep [OF assms(2) _ this c]
  have field: "\<exists>x. map_of out n = Some x \<and> fresh S h (t' n) h' x" if f: "(n, S) \<in> set fs" for n S
  proof (cases "n \<in> fst ` set steps")
    case True
    then show ?thesis using all T [OF f] by blast
  next
    case False
    then have "flat S"
      using assms(4) f by (force simp: copied_fields_def list_all_iff map_of_eq_None_iff split: option.splits)
    then show ?thesis
      using False all held [OF f] by (auto simp: fresh_def flat_reach intro: read_prefix)
  qed
  have "gather (\<lambda>(n, S). case map_of out n of Some x \<Rightarrow> read S h' x | None \<Rightarrow> None) fs =
      gather (\<lambda>(n, S). case map_of vs n of Some x \<Rightarrow> read S h x | None \<Rightarrow> None) fs"
    using field held by (intro gather_cong) (force simp: fresh_def)+
  moreover have "\<forall>a \<in> set (reach (StructT fs) h' (Rec out)). length h \<le> a"
    using field by (fastforce simp: fresh_def split: option.splits)
  ultimately show "prefix h (snd (into steps v h)) \<and>
      fresh (StructT fs) h t (snd (into steps v h)) (fst (into steps v h))"
    using all c by (auto simp: into_def v t ts fresh_def)
qed

lemma deep_unless_nil: "deep (PtrT T) c \<Longrightarrow> deep (PtrT T) (unless_nil c)"
  by (auto simp: deep_def unless_nil_def fresh_def)

lemma deep_items: "deep T c \<Longrightarrow> deep (PtrT (SliceT T)) (copy_items T c)"
  unfolding copy_items_def by (intro deep_pointer deep_slice)

named_theorems copiers \<open>deep copies, and what they need of the types\<close>

lemmas copier_rules [copiers] = deep_assign deep_pointer deep_slice deep_items deep_unless_nil deep_into copied_fields_def

text \<open>
  What a deep copy is for: nothing that is written through the copy, or allocated later, shows in the
  original, and the other way round.
\<close>

lemma deep_isolates:
  assumes "deep T c" "read T h v = Some t" "c v h = (x, h')"
  shows "read T h' x = Some t" "prefix h h'"
    and "set (reach T h' x) \<inter> set (reach T h' v) = {}"
    and "\<forall>a < length h'. a \<notin> set (reach T h' x) \<longrightarrow> cell h2 a = cell h' a \<Longrightarrow> read T h2 v = Some t"
    and "\<forall>a < length h'. a \<notin> set (reach T h' v) \<longrightarrow> cell h2 a = cell h' a \<Longrightarrow> read T h2 x = Some t"
proof -
  note d = deepD [OF assms]
  show x: "read T h' x = Some t" and pre: "prefix h h'"
    using d by (simp_all add: fresh_def)
  have v: "read T h' v = Some t"
    using pre assms(2) by (rule read_prefix)
  have "\<forall>a \<in> set (reach T h' v). a < length h"
    using reach_prefix [OF pre assms(2)] reach_allocated [OF assms(2)] by simp
  moreover have "\<forall>a \<in> set (reach T h' x). length h \<le> a"
    using d(2) by (simp add: fresh_def)
  ultimately show apart: "set (reach T h' x) \<inter> set (reach T h' v) = {}"
    by fastforce
  show "read T h2 v = Some t" if "\<forall>a < length h'. a \<notin> set (reach T h' x) \<longrightarrow> cell h2 a = cell h' a"
    using read_agree [of T h' v h2] reach_allocated [OF v] apart that v by auto
  show "read T h2 x = Some t" if "\<forall>a < length h'. a \<notin> set (reach T h' v) \<longrightarrow> cell h2 a = cell h' a"
    using read_agree [of T h' x h2] reach_allocated [OF x] apart that x by auto
qed

end
