(* ===== verification/DeepCopy.thy ===== *)
theory DeepCopy
  imports Memory
begin

text \<open>
  The types of \<open>pkg/apis/v2v/v1beta1\<close> as they lie in memory, and the copies that
  \<open>zz_generated.deepcopy.go\<close> makes of them: for every type \<open>DeepCopyInto\<close>, \<open>DeepCopy\<close> and, for the kinds that the
  cluster knows, \<open>DeepCopyObject\<close>.  \<open>DeepCopyInto\<close> assigns the whole struct and then replaces the fields that hold
  pointers, in the order of the code.

  The types of other packages, the metadata, times, placements, the status of the SDK and the conditions of
  OpenShift, come as \<open>external_copies\<close>: the type of each, and its own \<open>DeepCopyInto\<close> (of a time the
  \<open>DeepCopy\<close> that takes the pointer).  They are documented to be deep copies.
\<close>

section \<open>The types of other packages\<close>

record external_copies =
  ext_TypeMeta :: gotype
  ext_ObjectMeta :: "gotype \<times> copier"
  ext_ListMeta :: "gotype \<times> copier"
  ext_Time :: "gotype \<times> copier"
  ext_NodePlacement :: "gotype \<times> copier"
  ext_Status :: "gotype \<times> copier"
  ext_Condition :: "gotype \<times> copier"

definition documented :: "external_copies \<Rightarrow> bool" where
  "documented E \<longleftrightarrow> flat (ext_TypeMeta E) \<and>
     deep (fst (ext_ObjectMeta E)) (snd (ext_ObjectMeta E)) \<and>
     deep (fst (ext_ListMeta E)) (snd (ext_ListMeta E)) \<and>
     deep (PtrT (fst (ext_Time E))) (snd (ext_Time E)) \<and>
     deep (fst (ext_NodePlacement E)) (snd (ext_NodePlacement E)) \<and>
     deep (fst (ext_Status E)) (snd (ext_Status E)) \<and>
     deep (fst (ext_Condition E)) (snd (ext_Condition E))"

lemma documentedD [copiers]:
  assumes "documented E"
  shows "flat (ext_TypeMeta E)" "deep (fst (ext_ObjectMeta E)) (snd (ext_ObjectMeta E))"
    "deep (fst (ext_ListMeta E)) (snd (ext_ListMeta E))" "deep (PtrT (fst (ext_Time E))) (snd (ext_Time E))"
    "deep (fst (ext_NodePlacement E)) (snd (ext_NodePlacement E))" "deep (fst (ext_Status E)) (snd (ext_Status E))"
    "deep (fst (ext_Condition E)) (snd (ext_Condition E))"
  using assms by (simp_all add: documented_def)

section \<open>The types and their copies\<close>

definition DataVolumeItem_type :: "gotype" where
  "DataVolumeItem_type = StructT
    [(''Name'', StringT)]"

definition DataVolumeItem_DeepCopyInto :: "copier" where
  "DataVolumeItem_DeepCopyInto = assign"

definition DataVolumeItem_DeepCopy :: "copier" where
  "DataVolumeItem_DeepCopy = copy_pointer DataVolumeItem_type DataVolumeItem_DeepCopyInto"

definition Source_type :: "gotype" where
  "Source_type = StructT
    [(''Name'', PtrT StringT), (''ID'', PtrT StringT)]"

definition Source_DeepCopyInto :: "copier" where
  "Source_DeepCopyInto = into
    [(''Name'', copy_pointer StringT assign), (''ID'', copy_pointer StringT assign)]"

definition Source_DeepCopy :: "copier" where
  "Source_DeepCopy = copy_pointer Source_type Source_DeepCopyInto"

definition ObjectIdentifier_type :: "gotype" where
  "ObjectIdentifier_type = StructT
    [(''Name'', StringT), (''Namespace'', PtrT StringT)]"

definition ObjectIdentifier_DeepCopyInto :: "copier" where
  "ObjectIdentifier_DeepCopyInto = into
    [(''Namespace'', copy_pointer StringT assign)]"

definition ObjectIdentifier_DeepCopy :: "copier" where
  "ObjectIdentifier_DeepCopy = copy_pointer ObjectIdentifier_type ObjectIdentifier_DeepCopyInto"

definition NetworkResourceMappingItem_type :: "gotype" where
  "NetworkResourceMappingItem_type = StructT
    [(''Source'', Source_type), (''Target'', ObjectIdentifier_type), (''Type'', PtrT StringT)]"

definition NetworkResourceMappingItem_DeepCopyInto :: "copier" where
  "NetworkResourceMappingItem_DeepCopyInto = into
    [(''Source'', Source_DeepCopyInto), (''Target'', ObjectIdentifier_DeepCopyInto),
     (''Type'', copy_pointer StringT assign)]"

definition NetworkResourceMappingItem_DeepCopy :: "copier" where
  "NetworkResourceMappingItem_DeepCopy =
     copy_pointer NetworkResourceMappingItem_type NetworkResourceMappingItem_DeepCopyInto"

definition StorageResourceMappingItem_type :: "gotype" where
  "StorageResourceMappingItem_type = StructT
    [(''Source'', Source_type), (''Target'', ObjectIdentifier_type), (''VolumeMode'', PtrT StringT)]"

definition StorageResourceMappingItem_DeepCopyInto :: "copier" where
  "StorageResourceMappingItem_DeepCopyInto = into
    [(''Source'', Source_DeepCopyInto), (''Target'', ObjectIdentifier_DeepCopyInto),
     (''VolumeMode'', copy_pointer StringT assign)]"

definition StorageResourceMappingItem_DeepCopy :: "copier" where
  "StorageResourceMappingItem_DeepCopy =
     copy_pointer StorageResourceMappingItem_type StorageResourceMappingItem_DeepCopyInto"

definition OvirtMappings_type :: "gotype" where
  "OvirtMappings_type = StructT
    [(''NetworkMappings'', PtrT (SliceT NetworkResourceMappingItem_type)),
     (''StorageMappings'', PtrT (SliceT StorageResourceMappingItem_type)),
     (''DiskMappings'', PtrT (SliceT StorageResourceMappingItem_type))]"

definition OvirtMappings_DeepCopyInto :: "copier" where
  "OvirtMappings_DeepCopyInto = into
    [(''NetworkMappings'', copy_items NetworkResourceMappingItem_type NetworkResourceMappingItem_DeepCopyInto),
     (''StorageMappings'', copy_items StorageResourceMappingItem_type StorageResourceMappingItem_DeepCopyInto),
     (''DiskMappings'', copy_items StorageResourceMappingItem_type StorageResourceMappingItem_DeepCopyInto)]"

definition OvirtMappings_DeepCopy :: "copier" where
  "OvirtMappings_DeepCopy = copy_pointer OvirtMappings_type OvirtMappings_DeepCopyInto"

definition VmwareMappings_type :: "gotype" where
  "VmwareMappings_type = StructT
    [(''NetworkMappings'', PtrT (SliceT NetworkResourceMappingItem_type)),
     (''StorageMappings'', PtrT (SliceT StorageResourceMappingItem_type)),
     (''DiskMappings'', PtrT (SliceT StorageResourceMappingItem_type))]"

definition VmwareMappings_DeepCopyInto :: "copier" where
  "VmwareMappings_DeepCopyInto = into
    [(''NetworkMappings'', copy_items NetworkResourceMappingItem_type NetworkResourceMappingItem_DeepCopyInto),
     (''StorageMappings'', copy_items StorageResourceMappingItem_type StorageResourceMappingItem_DeepCopyInto),
     (''DiskMappings'', copy_items StorageResourceMappingItem_type StorageResourceMappingItem_DeepCopyInto)]"

definition VmwareMappings_DeepCopy :: "copier" where
  "VmwareMappings_DeepCopy = copy_pointer VmwareMappings_type VmwareMappings_DeepCopyInto"

definition ResourceMappingSpec_type :: "gotype" where
  "ResourceMappingSpec_type = StructT
    [(''OvirtMappings'', PtrT OvirtMappings_type), (''VmwareMappings'', PtrT VmwareMappings_type)]"

definition ResourceMappingSpec_DeepCopyInto :: "copier" where
  "ResourceMappingSpec_DeepCopyInto = into
    [(''OvirtMappings'', copy_pointer OvirtMappings_type OvirtMappings_DeepCopyInto),
     (''VmwareMappings'', copy_pointer VmwareMappings_type VmwareMappings_DeepCopyInto)]"

definition ResourceMappingSpec_DeepCopy :: "copier" where
  "ResourceMappingSpec_DeepCopy = copy_pointer ResourceMappingSpec_type ResourceMappingSpec_DeepCopyInto"

definition ResourceMappingStatus_type :: "gotype" where
  "ResourceMappingStatus_type = StructT
    []"

definition ResourceMappingStatus_DeepCopyInto :: "copier" where
  "ResourceMappingStatus_DeepCopyInto = assign"

definition ResourceMappingStatus_DeepCopy :: "copier" where
  "ResourceMappingStatus_DeepCopy = copy_pointer ResourceMappingStatus_type ResourceMappingStatus_DeepCopyInto"

definition ResourceMapping_type :: "external_copies \<Rightarrow> gotype" where
  "ResourceMapping_type E = StructT
    [(''TypeMeta'', ext_TypeMeta E), (''ObjectMeta'', fst (ext_ObjectMeta E)),
     (''Spec'', ResourceMappingSpec_type), (''Status'', ResourceMappingStatus_type)]"

definition ResourceMapping_DeepCopyInto :: "external_copies \<Rightarrow> copier" where
  "ResourceMapping_DeepCopyInto E = into
    [(''TypeMeta'', assign), (''ObjectMeta'', snd (ext_ObjectMeta E)),
     (''Spec'', ResourceMappingSpec_DeepCopyInto), (''Status'', assign)]"

definition ResourceMapping_DeepCopy :: "external_copies \<Rightarrow> copier" where
  "ResourceMapping_DeepCopy E = copy_pointer (ResourceMapping_type E) (ResourceMapping_DeepCopyInto E)"

definition ResourceMapping_DeepCopyObject :: "external_copies \<Rightarrow> object_copier" where
  "ResourceMapping_DeepCopyObject E = as_object (ResourceMapping_DeepCopy E)"

definition ResourceMappingList_type :: "external_copies \<Rightarrow> gotype" where
  "ResourceMappingList_type E = StructT
    [(''TypeMeta'', ext_TypeMeta E), (''ListMeta'', fst (ext_ListMeta E)),
     (''Items'', SliceT (ResourceMapping_type E))]"

definition ResourceMappingList_DeepCopyInto :: "external_copies \<Rightarrow> copier" where
  "ResourceMappingList_DeepCopyInto E = into
    [(''TypeMeta'', assign), (''ListMeta'', snd (ext_ListMeta E)),
     (''Items'', copy_slice (ResourceMapping_type E) (ResourceMapping_DeepCopyInto E))]"

definition ResourceMappingList_DeepCopy :: "external_copies \<Rightarrow> copier" where
  "ResourceMappingList_DeepCopy E = copy_pointer (ResourceMappingList_type E) (ResourceMappingList_DeepCopyInto E)"

definition ResourceMappingList_DeepCopyObject :: "external_copies \<Rightarrow> object_copier" where
  "ResourceMappingList_DeepCopyObject E = as_object (ResourceMappingList_DeepCopy E)"

definition VMImportConfigSpec_type :: "external_copies \<Rightarrow> gotype" where
  "VMImportConfigSpec_type E = StructT
    [(''ImagePullPolicy'', StringT), (''Infra'', fst (ext_NodePlacement E))]"

definition VMImportConfigSpec_DeepCopyInto :: "external_copies \<Rightarrow> copier" where
  "VMImportConfigSpec_DeepCopyInto E = into
    [(''Infra'', snd (ext_NodePlacement E))]"

definition VMImportConfigSpec_DeepCopy :: "external_copies \<Rightarrow> copier" where
  "VMImportConfigSpec_DeepCopy E = copy_pointer (VMImportConfigSpec_type E) (VMImportConfigSpec_DeepCopyInto E)"

definition VMImportConfigStatus_type :: "external_copies \<Rightarrow> gotype" where
  "VMImportConfigStatus_type E = StructT
    [(''Status'', fst (ext_Status E))]"

definition VMImportConfigStatus_DeepCopyInto :: "external_copies \<Rightarrow> copier" where
  "VMImportConfigStatus_DeepCopyInto E = into
    [(''Status'', snd (ext_Status E))]"

definition VMImportConfigStatus_DeepCopy :: "external_copies \<Rightarrow> copier" where
  "VMImportConfigStatus_DeepCopy E = copy_pointer (VMImportConfigStatus_type E) (VMImportConfigStatus_DeepCopyInto E)"

definition VMImportConfig_type :: "external_copies \<Rightarrow> gotype" where
  "VMImportConfig_type E = StructT
    [(''TypeMeta'', ext_TypeMeta E), (''ObjectMeta'', fst (ext_ObjectMeta E)),
     (''Spec'', VMImportConfigSpec_type E), (''Status'', VMImportConfigStatus_type E)]"

definition VMImportConfig_DeepCopyInto :: "external_copies \<Rightarrow> copier" where
  "VMImportConfig_DeepCopyInto E = into
    [(''TypeMeta'', assign), (''ObjectMeta'', snd (ext_ObjectMeta E)),
     (''Spec'', VMImportConfigSpec_DeepCopyInto E), (''Status'', VMImportConfigStatus_DeepCopyInto E)]"

definition VMImportConfig_DeepCopy :: "external_copies \<Rightarrow> copier" where
  "VMImportConfig_DeepCopy E = copy_pointer (VMImportConfig_type E) (VMImportConfig_DeepCopyInto E)"

definition VMImportConfig_DeepCopyObject :: "external_copies \<Rightarrow> object_copier" where
  "VMImportConfig_DeepCopyObject E = as_object (VMImportConfig_DeepCopy E)"

definition VMImportConfigList_type :: "external_copies \<Rightarrow> gotype" where
  "VMImportConfigList_type E = StructT
    [(''TypeMeta'', ext_TypeMeta E), (''ListMeta'', fst (ext_ListMeta E)),
     (''Items'', SliceT (VMImportConfig_type E))]"

definition VMImportConfigList_DeepCopyInto :: "external_copies \<Rightarrow> copier" where
  "VMImportConfigList_DeepCopyInto E = into
    [(''TypeMeta'', assign), (''ListMeta'', snd (ext_ListMeta E)),
     (''Items'', copy_slice (VMImportConfig_type E) (VMImportConfig_DeepCopyInto E))]"

definition VMImportConfigList_DeepCopy :: "external_copies \<Rightarrow> copier" where
  "VMImportConfigList_DeepCopy E = copy_pointer (VMImportConfigList_type E) (VMImportConfigList_DeepCopyInto E)"

definition VMImportConfigList_DeepCopyObject :: "external_copies \<Rightarrow> object_copier" where
  "VMImportConfigList_DeepCopyObject E = as_object (VMImportConfigList_DeepCopy E)"

definition VirtualMachineImportOvirtSourceVMClusterSpec_type :: "gotype" where
  "VirtualMachineImportOvirtSourceVMClusterSpec_type = StructT
    [(''ID'', PtrT StringT), (''Name'', PtrT StringT)]"

definition VirtualMachineImportOvirtSourceVMClusterSpec_DeepCopyInto :: "copier" where
  "VirtualMachineImportOvirtSourceVMClusterSpec_DeepCopyInto = into
    [(''ID'', copy_pointer StringT assign), (''Name'', copy_pointer StringT assign)]"

definition VirtualMachineImportOvirtSourceVMClusterSpec_DeepCopy :: "copier" where
  "VirtualMachineImportOvirtSourceVMClusterSpec_DeepCopy =
     copy_pointer VirtualMachineImportOvirtSourceVMClusterSpec_type
        VirtualMachineImportOvirtSourceVMClusterSpec_DeepCopyInto"

definition VirtualMachineImportOvirtSourceVMSpec_type :: "gotype" where
  "VirtualMachineImportOvirtSourceVMSpec_type = StructT
    [(''ID'', PtrT StringT), (''Name'', PtrT StringT),
     (''Cluster'', PtrT VirtualMachineImportOvirtSourceVMClusterSpec_type)]"

definition VirtualMachineImportOvirtSourceVMSpec_DeepCopyInto :: "copier" where
  "VirtualMachineImportOvirtSourceVMSpec_DeepCopyInto = into
    [(''ID'', copy_pointer StringT assign), (''Name'', copy_pointer StringT assign),
     (''Cluster'', copy_pointer VirtualMachineImportOvirtSourceVMClusterSpec_type
        VirtualMachineImportOvirtSourceVMClusterSpec_DeepCopyInto)]"

definition VirtualMachineImportOvirtSourceVMSpec_DeepCopy :: "copier" where
  "VirtualMachineImportOvirtSourceVMSpec_DeepCopy =
     copy_pointer VirtualMachineImportOvirtSourceVMSpec_type VirtualMachineImportOvirtSourceVMSpec_DeepCopyInto"

definition VirtualMachineImportOvirtSourceSpec_type :: "gotype" where
  "VirtualMachineImportOvirtSourceSpec_type = StructT
    [(''VM'', VirtualMachineImportOvirtSourceVMSpec_type), (''Mappings'', PtrT OvirtMappings_type)]"

definition VirtualMachineImportOvirtSourceSpec_DeepCopyInto :: "copier" where
  "VirtualMachineImportOvirtSourceSpec_DeepCopyInto = into
    [(''VM'', VirtualMachineImportOvirtSourceVMSpec_DeepCopyInto),
     (''Mappings'', copy_pointer OvirtMappings_type OvirtMappings_DeepCopyInto)]"

definition VirtualMachineImportOvirtSourceSpec_DeepCopy :: "copier" where
  "VirtualMachineImportOvirtSourceSpec_DeepCopy =
     copy_pointer VirtualMachineImportOvirtSourceSpec_type VirtualMachineImportOvirtSourceSpec_DeepCopyInto"

definition VirtualMachineImportVmwareSourceVMSpec_type :: "gotype" where
  "VirtualMachineImportVmwareSourceVMSpec_type = StructT
    [(''ID'', PtrT StringT), (''Name'', PtrT StringT)]"

definition VirtualMachineImportVmwareSourceVMSpec_DeepCopyInto :: "copier" where
  "VirtualMachineImportVmwareSourceVMSpec_DeepCopyInto = into
    [(''ID'', copy_pointer StringT assign), (''Name'', copy_pointer StringT assign)]"

definition VirtualMachineImportVmwareSourceVMSpec_DeepCopy :: "copier" where
  "VirtualMachineImportVmwareSourceVMSpec_DeepCopy =
     copy_pointer VirtualMachineImportVmwareSourceVMSpec_type VirtualMachineImportVmwareSourceVMSpec_DeepCopyInto"

definition VirtualMachineImportVmwareSourceSpec_type :: "gotype" where
  "VirtualMachineImportVmwareSourceSpec_type = StructT
    [(''VM'', VirtualMachineImportVmwareSourceVMSpec_type), (''Mappings'', PtrT VmwareMappings_type)]"

definition VirtualMachineImportVmwareSourceSpec_DeepCopyInto :: "copier" where
  "VirtualMachineImportVmwareSourceSpec_DeepCopyInto = into
    [(''VM'', VirtualMachineImportVmwareSourceVMSpec_DeepCopyInto),
     (''Mappings'', copy_pointer VmwareMappings_type VmwareMappings_DeepCopyInto)]"

definition VirtualMachineImportVmwareSourceSpec_DeepCopy :: "copier" where
  "VirtualMachineImportVmwareSourceSpec_DeepCopy =
     copy_pointer VirtualMachineImportVmwareSourceSpec_type VirtualMachineImportVmwareSourceSpec_DeepCopyInto"

definition VirtualMachineImportSourceSpec_type :: "gotype" where
  "VirtualMachineImportSourceSpec_type = StructT
    [(''Ovirt'', PtrT VirtualMachineImportOvirtSourceSpec_type),
     (''Vmware'', PtrT VirtualMachineImportVmwareSourceSpec_type)]"

definition VirtualMachineImportSourceSpec_DeepCopyInto :: "copier" where
  "VirtualMachineImportSourceSpec_DeepCopyInto = into
    [(''Ovirt'', copy_pointer VirtualMachineImportOvirtSourceSpec_type
        VirtualMachineImportOvirtSourceSpec_DeepCopyInto),
     (''Vmware'', copy_pointer VirtualMachineImportVmwareSourceSpec_type
        VirtualMachineImportVmwareSourceSpec_DeepCopyInto)]"

definition VirtualMachineImportSourceSpec_DeepCopy :: "copier" where
  "VirtualMachineImportSourceSpec_DeepCopy =
     copy_pointer VirtualMachineImportSourceSpec_type VirtualMachineImportSourceSpec_DeepCopyInto"

definition VirtualMachineImportSpec_type :: "gotype" where
  "VirtualMachineImportSpec_type = StructT
    [(''ProviderCredentialsSecret'', ObjectIdentifier_type), (''ResourceMapping'', PtrT ObjectIdentifier_type),
     (''Source'', VirtualMachineImportSourceSpec_type), (''TargetVMName'', PtrT StringT),
     (''StartVM'', PtrT BoolT)]"

definition VirtualMachineImportSpec_DeepCopyInto :: "copier" where
  "VirtualMachineImportSpec_DeepCopyInto = into
    [(''ProviderCredentialsSecret'', ObjectIdentifier_DeepCopyInto),
     (''ResourceMapping'', copy_pointer ObjectIdentifier_type ObjectIdentifier_DeepCopyInto),
     (''Source'', VirtualMachineImportSourceSpec_DeepCopyInto),
     (''TargetVMName'', copy_pointer StringT assign), (''StartVM'', copy_pointer BoolT assign)]"

definition VirtualMachineImportSpec_DeepCopy :: "copier" where
  "VirtualMachineImportSpec_DeepCopy =
     copy_pointer VirtualMachineImportSpec_type VirtualMachineImportSpec_DeepCopyInto"

definition VirtualMachineImportCondition_type :: "external_copies \<Rightarrow> gotype" where
  "VirtualMachineImportCondition_type E = StructT
    [(''Type'', StringT), (''Status'', StringT), (''Reason'', PtrT StringT), (''Message'', PtrT StringT),
     (''LastHeartbeatTime'', PtrT (fst (ext_Time E))), (''LastTransitionTime'', PtrT (fst (ext_Time E)))]"

definition VirtualMachineImportCondition_DeepCopyInto :: "external_copies \<Rightarrow> copier" where
  "VirtualMachineImportCondition_DeepCopyInto E = into
    [(''Reason'', copy_pointer StringT assign), (''Message'', copy_pointer StringT assign),
     (''LastHeartbeatTime'', unless_nil (snd (ext_Time E))),
     (''LastTransitionTime'', unless_nil (snd (ext_Time E)))]"

definition VirtualMachineImportCondition_DeepCopy :: "external_copies \<Rightarrow> copier" where
  "VirtualMachineImportCondition_DeepCopy E =
     copy_pointer (VirtualMachineImportCondition_type E) (VirtualMachineImportCondition_DeepCopyInto E)"

definition VirtualMachineImportStatus_type :: "external_copies \<Rightarrow> gotype" where
  "VirtualMachineImportStatus_type E = StructT
    [(''TargetVMName'', StringT), (''Conditions'', SliceT (VirtualMachineImportCondition_type E)),
     (''DataVolumes'', SliceT DataVolumeItem_type)]"

definition VirtualMachineImportStatus_DeepCopyInto :: "external_copies \<Rightarrow> copier" where
  "VirtualMachineImportStatus_DeepCopyInto E = into
    [(''Conditions'', copy_slice (VirtualMachineImportCondition_type E) (VirtualMachineImportCondition_DeepCopyInto E)),
     (''DataVolumes'', copy_slice DataVolumeItem_type assign)]"

definition VirtualMachineImportStatus_DeepCopy :: "external_copies \<Rightarrow> copier" where
  "VirtualMachineImportStatus_DeepCopy E =
     copy_pointer (VirtualMachineImportStatus_type E) (VirtualMachineImportStatus_DeepCopyInto E)"

definition VirtualMachineImport_type :: "external_copies \<Rightarrow> gotype" where
  "VirtualMachineImport_type E = StructT
    [(''TypeMeta'', ext_TypeMeta E), (''ObjectMeta'', fst (ext_ObjectMeta E)),
     (''Spec'', VirtualMachineImportSpec_type), (''Status'', VirtualMachineImportStatus_type E)]"

definition VirtualMachineImport_DeepCopyInto :: "external_copies \<Rightarrow> copier" where
  "VirtualMachineImport_DeepCopyInto E = into
    [(''TypeMeta'', assign), (''ObjectMeta'', snd (ext_ObjectMeta E)),
     (''Spec'', VirtualMachineImportSpec_DeepCopyInto), (''Status'', VirtualMachineImportStatus_DeepCopyInto E)]"

definition VirtualMachineImport_DeepCopy :: "external_copies \<Rightarrow> copier" where
  "VirtualMachineImport_DeepCopy E = copy_pointer (VirtualMachineImport_type E) (VirtualMachineImport_DeepCopyInto E)"

definition VirtualMachineImport_DeepCopyObject :: "external_copies \<Rightarrow> object_copier" where
  "VirtualMachineImport_DeepCopyObject E = as_object (VirtualMachineImport_DeepCopy E)"

definition VirtualMachineImportList_type :: "external_copies \<Rightarrow> gotype" where
  "VirtualMachineImportList_type E = StructT
    [(''TypeMeta'', ext_TypeMeta E), (''ListMeta'', fst (ext_ListMeta E)),
     (''Items'', SliceT (VirtualMachineImport_type E))]"

definition VirtualMachineImportList_DeepCopyInto :: "external_copies \<Rightarrow> copier" where
  "VirtualMachineImportList_DeepCopyInto E = into
    [(''TypeMeta'', assign), (''ListMeta'', snd (ext_ListMeta E)),
     (''Items'', copy_slice (VirtualMachineImport_type E) (VirtualMachineImport_DeepCopyInto E))]"

definition VirtualMachineImportList_DeepCopy :: "external_copies \<Rightarrow> copier" where
  "VirtualMachineImportList_DeepCopy E =
     copy_pointer (VirtualMachineImportList_type E) (VirtualMachineImportList_DeepCopyInto E)"

definition VirtualMachineImportList_DeepCopyObject :: "external_copies \<Rightarrow> object_copier" where
  "VirtualMachineImportList_DeepCopyObject E = as_object (VirtualMachineImportList_DeepCopy E)"

section \<open>Every copy is deep\<close>

lemma DataVolumeItem_flat [copiers]: "flat DataVolumeItem_type"
  by (simp add: DataVolumeItem_type_def)

lemma DataVolumeItem_deep [copiers]:
  "deep DataVolumeItem_type DataVolumeItem_DeepCopyInto"
  by (simp add: DataVolumeItem_type_def DataVolumeItem_DeepCopyInto_def copiers)

lemma Source_deep [copiers]:
  "deep Source_type Source_DeepCopyInto"
  by (simp add: Source_type_def Source_DeepCopyInto_def copiers)

lemma ObjectIdentifier_deep [copiers]:
  "deep ObjectIdentifier_type ObjectIdentifier_DeepCopyInto"
  by (simp add: ObjectIdentifier_type_def ObjectIdentifier_DeepCopyInto_def copiers)

lemma NetworkResourceMappingItem_deep [copiers]:
  "deep NetworkResourceMappingItem_type NetworkResourceMappingItem_DeepCopyInto"
  by (simp add: NetworkResourceMappingItem_type_def NetworkResourceMappingItem_DeepCopyInto_def copiers)

lemma StorageResourceMappingItem_deep [copiers]:
  "deep StorageResourceMappingItem_type StorageResourceMappingItem_DeepCopyInto"
  by (simp add: StorageResourceMappingItem_type_def StorageResourceMappingItem_DeepCopyInto_def copiers)

lemma OvirtMappings_deep [copiers]:
  "deep OvirtMappings_type OvirtMappings_DeepCopyInto"
  by (simp add: OvirtMappings_type_def OvirtMappings_DeepCopyInto_def copiers)

lemma VmwareMappings_deep [copiers]:
  "deep VmwareMappings_type VmwareMappings_DeepCopyInto"
  by (simp add: VmwareMappings_type_def VmwareMappings_DeepCopyInto_def copiers)

lemma ResourceMappingSpec_deep [copiers]:
  "deep ResourceMappingSpec_type ResourceMappingSpec_DeepCopyInto"
  by (simp add: ResourceMappingSpec_type_def ResourceMappingSpec_DeepCopyInto_def copiers)

lemma ResourceMappingStatus_flat [copiers]: "flat ResourceMappingStatus_type"
  by (simp add: ResourceMappingStatus_type_def)

lemma ResourceMappingStatus_deep [copiers]:
  "deep ResourceMappingStatus_type ResourceMappingStatus_DeepCopyInto"
  by (simp add: ResourceMappingStatus_type_def ResourceMappingStatus_DeepCopyInto_def copiers)

lemma ResourceMapping_deep [copiers]:
  "documented E \<Longrightarrow> deep (ResourceMapping_type E) (ResourceMapping_DeepCopyInto E)"
  by (simp add: ResourceMapping_type_def ResourceMapping_DeepCopyInto_def copiers)

lemma ResourceMappingList_deep [copiers]:
  "documented E \<Longrightarrow> deep (ResourceMappingList_type E) (ResourceMappingList_DeepCopyInto E)"
  by (simp add: ResourceMappingList_type_def ResourceMappingList_DeepCopyInto_def copiers)

lemma VMImportConfigSpec_deep [copiers]:
  "documented E \<Longrightarrow> deep (VMImportConfigSpec_type E) (VMImportConfigSpec_DeepCopyInto E)"
  by (simp add: VMImportConfigSpec_type_def VMImportConfigSpec_DeepCopyInto_def copiers)

lemma VMImportConfigStatus_deep [copiers]:
  "documented E \<Longrightarrow> deep (VMImportConfigStatus_type E) (VMImportConfigStatus_DeepCopyInto E)"
  by (simp add: VMImportConfigStatus_type_def VMImportConfigStatus_DeepCopyInto_def copiers)

lemma VMImportConfig_deep [copiers]:
  "documented E \<Longrightarrow> deep (VMImportConfig_type E) (VMImportConfig_DeepCopyInto E)"
  by (simp add: VMImportConfig_type_def VMImportConfig_DeepCopyInto_def copiers)

lemma VMImportConfigList_deep [copiers]:
  "documented E \<Longrightarrow> deep (VMImportConfigList_type E) (VMImportConfigList_DeepCopyInto E)"
  by (simp add: VMImportConfigList_type_def VMImportConfigList_DeepCopyInto_def copiers)

lemma VirtualMachineImportOvirtSourceVMClusterSpec_deep [copiers]:
  "deep VirtualMachineImportOvirtSourceVMClusterSpec_type VirtualMachineImportOvirtSourceVMClusterSpec_DeepCopyInto"
  by (simp add: VirtualMachineImportOvirtSourceVMClusterSpec_type_def VirtualMachineImportOvirtSourceVMClusterSpec_DeepCopyInto_def copiers)

lemma VirtualMachineImportOvirtSourceVMSpec_deep [copiers]:
  "deep VirtualMachineImportOvirtSourceVMSpec_type VirtualMachineImportOvirtSourceVMSpec_DeepCopyInto"
  by (simp add: VirtualMachineImportOvirtSourceVMSpec_type_def VirtualMachineImportOvirtSourceVMSpec_DeepCopyInto_def copiers)

lemma VirtualMachineImportOvirtSourceSpec_deep [copiers]:
  "deep VirtualMachineImportOvirtSourceSpec_type VirtualMachineImportOvirtSourceSpec_DeepCopyInto"
  by (simp add: VirtualMachineImportOvirtSourceSpec_type_def VirtualMachineImportOvirtSourceSpec_DeepCopyInto_def copiers)

lemma VirtualMachineImportVmwareSourceVMSpec_deep [copiers]:
  "deep VirtualMachineImportVmwareSourceVMSpec_type VirtualMachineImportVmwareSourceVMSpec_DeepCopyInto"
  by (simp add: VirtualMachineImportVmwareSourceVMSpec_type_def VirtualMachineImportVmwareSourceVMSpec_DeepCopyInto_def copiers)

lemma VirtualMachineImportVmwareSourceSpec_deep [copiers]:
  "deep VirtualMachineImportVmwareSourceSpec_type VirtualMachineImportVmwareSourceSpec_DeepCopyInto"
  by (simp add: VirtualMachineImportVmwareSourceSpec_type_def VirtualMachineImportVmwareSourceSpec_DeepCopyInto_def copiers)

lemma VirtualMachineImportSourceSpec_deep [copiers]:
  "deep VirtualMachineImportSourceSpec_type VirtualMachineImportSourceSpec_DeepCopyInto"
  by (simp add: VirtualMachineImportSourceSpec_type_def VirtualMachineImportSourceSpec_DeepCopyInto_def copiers)

lemma VirtualMachineImportSpec_deep [copiers]:
  "deep VirtualMachineImportSpec_type VirtualMachineImportSpec_DeepCopyInto"
  by (simp add: VirtualMachineImportSpec_type_def VirtualMachineImportSpec_DeepCopyInto_def copiers)

lemma VirtualMachineImportCondition_deep [copiers]:
  "documented E \<Longrightarrow> deep (VirtualMachineImportCondition_type E) (VirtualMachineImportCondition_DeepCopyInto E)"
  by (simp add: VirtualMachineImportCondition_type_def VirtualMachineImportCondition_DeepCopyInto_def copiers)

lemma VirtualMachineImportStatus_deep [copiers]:
  "documented E \<Longrightarrow> deep (VirtualMachineImportStatus_type E) (VirtualMachineImportStatus_DeepCopyInto E)"
  by (simp add: VirtualMachineImportStatus_type_def VirtualMachineImportStatus_DeepCopyInto_def copiers)

lemma VirtualMachineImport_deep [copiers]:
  "documented E \<Longrightarrow> deep (VirtualMachineImport_type E) (VirtualMachineImport_DeepCopyInto E)"
  by (simp add: VirtualMachineImport_type_def VirtualMachineImport_DeepCopyInto_def copiers)

lemma VirtualMachineImportList_deep [copiers]:
  "documented E \<Longrightarrow> deep (VirtualMachineImportList_type E) (VirtualMachineImportList_DeepCopyInto E)"
  by (simp add: VirtualMachineImportList_type_def VirtualMachineImportList_DeepCopyInto_def copiers)

lemmas api_copies_defs =
  DataVolumeItem_DeepCopy_def Source_DeepCopy_def ObjectIdentifier_DeepCopy_def
  NetworkResourceMappingItem_DeepCopy_def StorageResourceMappingItem_DeepCopy_def OvirtMappings_DeepCopy_def
  VmwareMappings_DeepCopy_def ResourceMappingSpec_DeepCopy_def ResourceMappingStatus_DeepCopy_def
  ResourceMapping_DeepCopy_def ResourceMappingList_DeepCopy_def VMImportConfigSpec_DeepCopy_def
  VMImportConfigStatus_DeepCopy_def VMImportConfig_DeepCopy_def VMImportConfigList_DeepCopy_def
  VirtualMachineImportOvirtSourceVMClusterSpec_DeepCopy_def VirtualMachineImportOvirtSourceVMSpec_DeepCopy_def
  VirtualMachineImportOvirtSourceSpec_DeepCopy_def VirtualMachineImportVmwareSourceVMSpec_DeepCopy_def
  VirtualMachineImportVmwareSourceSpec_DeepCopy_def VirtualMachineImportSourceSpec_DeepCopy_def
  VirtualMachineImportSpec_DeepCopy_def VirtualMachineImportCondition_DeepCopy_def
  VirtualMachineImportStatus_DeepCopy_def VirtualMachineImport_DeepCopy_def
  VirtualMachineImportList_DeepCopy_def

text \<open>Every \<open>DeepCopy\<close> of the package, with the type it copies.\<close>

definition api_copies :: "external_copies \<Rightarrow> (gotype \<times> copier) list" where
  "api_copies E =
    [(DataVolumeItem_type, DataVolumeItem_DeepCopy),
     (Source_type, Source_DeepCopy),
     (ObjectIdentifier_type, ObjectIdentifier_DeepCopy),
     (NetworkResourceMappingItem_type, NetworkResourceMappingItem_DeepCopy),
     (StorageResourceMappingItem_type, StorageResourceMappingItem_DeepCopy),
     (OvirtMappings_type, OvirtMappings_DeepCopy),
     (VmwareMappings_type, VmwareMappings_DeepCopy),
     (ResourceMappingSpec_type, ResourceMappingSpec_DeepCopy),
     (ResourceMappingStatus_type, ResourceMappingStatus_DeepCopy),
     (ResourceMapping_type E, ResourceMapping_DeepCopy E),
     (ResourceMappingList_type E, ResourceMappingList_DeepCopy E),
     (VMImportConfigSpec_type E, VMImportConfigSpec_DeepCopy E),
     (VMImportConfigStatus_type E, VMImportConfigStatus_DeepCopy E),
     (VMImportConfig_type E, VMImportConfig_DeepCopy E),
     (VMImportConfigList_type E, VMImportConfigList_DeepCopy E),
     (VirtualMachineImportOvirtSourceVMClusterSpec_type, VirtualMachineImportOvirtSourceVMClusterSpec_DeepCopy),
     (VirtualMachineImportOvirtSourceVMSpec_type, VirtualMachineImportOvirtSourceVMSpec_DeepCopy),
     (VirtualMachineImportOvirtSourceSpec_type, VirtualMachineImportOvirtSourceSpec_DeepCopy),
     (VirtualMachineImportVmwareSourceVMSpec_type, VirtualMachineImportVmwareSourceVMSpec_DeepCopy),
     (VirtualMachineImportVmwareSourceSpec_type, VirtualMachineImportVmwareSourceSpec_DeepCopy),
     (VirtualMachineImportSourceSpec_type, VirtualMachineImportSourceSpec_DeepCopy),
     (VirtualMachineImportSpec_type, VirtualMachineImportSpec_DeepCopy),
     (VirtualMachineImportCondition_type E, VirtualMachineImportCondition_DeepCopy E),
     (VirtualMachineImportStatus_type E, VirtualMachineImportStatus_DeepCopy E),
     (VirtualMachineImport_type E, VirtualMachineImport_DeepCopy E),
     (VirtualMachineImportList_type E, VirtualMachineImportList_DeepCopy E)]"

lemma api_copies_all_deep: "documented E \<Longrightarrow> list_all (\<lambda>(T, c). deep (PtrT T) c) (api_copies E)"
  by (simp add: api_copies_def api_copies_defs copiers)

lemma api_copies_deep: "documented E \<Longrightarrow> (T, c) \<in> set (api_copies E) \<Longrightarrow> deep (PtrT T) c"
  using api_copies_all_deep by (fastforce simp: list_all_iff)

end
