(* ===== verification/AlphaCopy.thy ===== *)
theory AlphaCopy
  imports DeepCopy
begin

text \<open>
  The types of \<open>pkg/apis/v2v/v1alpha1\<close> and the copies of its \<open>zz_generated.deepcopy.go\<close>.
\<close>

text \<open>\<open>VMImportPhase\<close>: the phases of the older configuration, and the reason of an upgrade\<close>

definition VMImportPhases :: "string list" where
  "VMImportPhases = [''Deploying'', ''Deployed'', ''Deleting'', ''Deleted'', ''Error'', ''Upgrading'', []]"

definition UpgradeStartedReason :: string where
  "UpgradeStartedReason = ''UpgradeStarted''"

section \<open>The types and their copies\<close>

definition alpha_DataVolumeItem_type :: "gotype" where
  "alpha_DataVolumeItem_type = StructT
    [(''Name'', StringT)]"

definition alpha_DataVolumeItem_DeepCopyInto :: "copier" where
  "alpha_DataVolumeItem_DeepCopyInto = assign"

definition alpha_DataVolumeItem_DeepCopy :: "copier" where
  "alpha_DataVolumeItem_DeepCopy = copy_pointer alpha_DataVolumeItem_type alpha_DataVolumeItem_DeepCopyInto"

definition alpha_ObjectIdentifier_type :: "gotype" where
  "alpha_ObjectIdentifier_type = StructT
    [(''Name'', StringT), (''Namespace'', PtrT StringT)]"

definition alpha_ObjectIdentifier_DeepCopyInto :: "copier" where
  "alpha_ObjectIdentifier_DeepCopyInto = into
    [(''Namespace'', copy_pointer StringT assign)]"

definition alpha_ObjectIdentifier_DeepCopy :: "copier" where
  "alpha_ObjectIdentifier_DeepCopy = copy_pointer alpha_ObjectIdentifier_type alpha_ObjectIdentifier_DeepCopyInto"

definition alpha_Source_type :: "gotype" where
  "alpha_Source_type = StructT
    [(''Name'', PtrT StringT), (''ID'', PtrT StringT)]"

definition alpha_Source_DeepCopyInto :: "copier" where
  "alpha_Source_DeepCopyInto = into
    [(''Name'', copy_pointer StringT assign), (''ID'', copy_pointer StringT assign)]"

definition alpha_Source_DeepCopy :: "copier" where
  "alpha_Source_DeepCopy = copy_pointer alpha_Source_type alpha_Source_DeepCopyInto"

definition alpha_ResourceMappingItem_type :: "gotype" where
  "alpha_ResourceMappingItem_type = StructT
    [(''Source'', alpha_Source_type), (''Target'', alpha_ObjectIdentifier_type), (''Type'', PtrT StringT)]"

definition alpha_ResourceMappingItem_DeepCopyInto :: "copier" where
  "alpha_ResourceMappingItem_DeepCopyInto = into
    [(''Source'', alpha_Source_DeepCopyInto), (''Target'', alpha_ObjectIdentifier_DeepCopyInto),
     (''Type'', copy_pointer StringT assign)]"

definition alpha_ResourceMappingItem_DeepCopy :: "copier" where
  "alpha_ResourceMappingItem_DeepCopy =
     copy_pointer alpha_ResourceMappingItem_type alpha_ResourceMappingItem_DeepCopyInto"

definition alpha_OvirtMappings_type :: "gotype" where
  "alpha_OvirtMappings_type = StructT
    [(''NetworkMappings'', PtrT (SliceT alpha_ResourceMappingItem_type)),
     (''StorageMappings'', PtrT (SliceT alpha_ResourceMappingItem_type)),
     (''DiskMappings'', PtrT (SliceT alpha_ResourceMappingItem_type))]"

definition alpha_OvirtMappings_DeepCopyInto :: "copier" where
  "alpha_OvirtMappings_DeepCopyInto = into
    [(''NetworkMappings'', copy_items alpha_ResourceMappingItem_type alpha_ResourceMappingItem_DeepCopyInto),
     (''StorageMappings'', copy_items alpha_ResourceMappingItem_type alpha_ResourceMappingItem_DeepCopyInto),
     (''DiskMappings'', copy_items alpha_ResourceMappingItem_type alpha_ResourceMappingItem_DeepCopyInto)]"

definition alpha_OvirtMappings_DeepCopy :: "copier" where
  "alpha_OvirtMappings_DeepCopy = copy_pointer alpha_OvirtMappings_type alpha_OvirtMappings_DeepCopyInto"

definition alpha_ResourceMappingSpec_type :: "gotype" where
  "alpha_ResourceMappingSpec_type = StructT
    [(''OvirtMappings'', PtrT alpha_OvirtMappings_type)]"

definition alpha_ResourceMappingSpec_DeepCopyInto :: "copier" where
  "alpha_ResourceMappingSpec_DeepCopyInto = into
    [(''OvirtMappings'', copy_pointer alpha_OvirtMappings_type alpha_OvirtMappings_DeepCopyInto)]"

definition alpha_ResourceMappingSpec_DeepCopy :: "copier" where
  "alpha_ResourceMappingSpec_DeepCopy =
     copy_pointer alpha_ResourceMappingSpec_type alpha_ResourceMappingSpec_DeepCopyInto"

definition alpha_ResourceMappingStatus_type :: "gotype" where
  "alpha_ResourceMappingStatus_type = StructT
    []"

definition alpha_ResourceMappingStatus_DeepCopyInto :: "copier" where
  "alpha_ResourceMappingStatus_DeepCopyInto = assign"

definition alpha_ResourceMappingStatus_DeepCopy :: "copier" where
  "alpha_ResourceMappingStatus_DeepCopy =
     copy_pointer alpha_ResourceMappingStatus_type alpha_ResourceMappingStatus_DeepCopyInto"

definition alpha_ResourceMapping_type :: "external_copies \<Rightarrow> gotype" where
  "alpha_ResourceMapping_type E = StructT
    [(''TypeMeta'', ext_TypeMeta E), (''ObjectMeta'', fst (ext_ObjectMeta E)),
     (''Spec'', alpha_ResourceMappingSpec_type), (''Status'', alpha_ResourceMappingStatus_type)]"

definition alpha_ResourceMapping_DeepCopyInto :: "external_copies \<Rightarrow> copier" where
  "alpha_ResourceMapping_DeepCopyInto E = into
    [(''TypeMeta'', assign), (''ObjectMeta'', snd (ext_ObjectMeta E)),
     (''Spec'', alpha_ResourceMappingSpec_DeepCopyInto), (''Status'', assign)]"

definition alpha_ResourceMapping_DeepCopy :: "external_copies \<Rightarrow> copier" where
  "alpha_ResourceMapping_DeepCopy E =
     copy_pointer (alpha_ResourceMapping_type E) (alpha_ResourceMapping_DeepCopyInto E)"

definition alpha_ResourceMapping_DeepCopyObject :: "external_copies \<Rightarrow> object_copier" where
  "alpha_ResourceMapping_DeepCopyObject E = as_object (alpha_ResourceMapping_DeepCopy E)"

definition alpha_ResourceMappingList_type :: "external_copies \<Rightarrow> gotype" where
  "alpha_ResourceMappingList_type E = StructT
    [(''TypeMeta'', ext_TypeMeta E), (''ListMeta'', fst (ext_ListMeta E)),
     (''Items'', SliceT (alpha_ResourceMapping_type E))]"

definition alpha_ResourceMappingList_DeepCopyInto :: "external_copies \<Rightarrow> copier" where
  "alpha_ResourceMappingList_DeepCopyInto E = into
    [(''TypeMeta'', assign), (''ListMeta'', snd (ext_ListMeta E)),
     (''Items'', copy_slice (alpha_ResourceMapping_type E) (alpha_ResourceMapping_DeepCopyInto E))]"

definition alpha_ResourceMappingList_DeepCopy :: "external_copies \<Rightarrow> copier" where
  "alpha_ResourceMappingList_DeepCopy E =
     copy_pointer (alpha_ResourceMappingList_type E) (alpha_ResourceMappingList_DeepCopyInto E)"

definition alpha_ResourceMappingList_DeepCopyObject :: "external_copies \<Rightarrow> object_copier" where
  "alpha_ResourceMappingList_DeepCopyObject E = as_object (alpha_ResourceMappingList_DeepCopy E)"

definition alpha_VMImportConfigSpec_type :: "external_copies \<Rightarrow> gotype" where
  "alpha_VMImportConfigSpec_type E = StructT
    [(''ImagePullPolicy'', StringT), (''Infra'', fst (ext_NodePlacement E))]"

definition alpha_VMImportConfigSpec_DeepCopyInto :: "external_copies \<Rightarrow> copier" where
  "alpha_VMImportConfigSpec_DeepCopyInto E = into
    [(''Infra'', snd (ext_NodePlacement E))]"

definition alpha_VMImportConfigSpec_DeepCopy :: "external_copies \<Rightarrow> copier" where
  "alpha_VMImportConfigSpec_DeepCopy E =
     copy_pointer (alpha_VMImportConfigSpec_type E) (alpha_VMImportConfigSpec_DeepCopyInto E)"

definition alpha_VMImportConfigStatus_type :: "external_copies \<Rightarrow> gotype" where
  "alpha_VMImportConfigStatus_type E = StructT
    [(''Conditions'', SliceT (fst (ext_Condition E))), (''OperatorVersion'', StringT),
     (''TargetVersion'', StringT), (''ObservedVersion'', StringT), (''Phase'', StringT)]"

definition alpha_VMImportConfigStatus_DeepCopyInto :: "external_copies \<Rightarrow> copier" where
  "alpha_VMImportConfigStatus_DeepCopyInto E = into
    [(''Conditions'', copy_slice (fst (ext_Condition E)) (snd (ext_Condition E)))]"

definition alpha_VMImportConfigStatus_DeepCopy :: "external_copies \<Rightarrow> copier" where
  "alpha_VMImportConfigStatus_DeepCopy E =
     copy_pointer (alpha_VMImportConfigStatus_type E) (alpha_VMImportConfigStatus_DeepCopyInto E)"

definition alpha_VMImportConfig_type :: "external_copies \<Rightarrow> gotype" where
  "alpha_VMImportConfig_type E = StructT
    [(''TypeMeta'', ext_TypeMeta E), (''ObjectMeta'', fst (ext_ObjectMeta E)),
     (''Spec'', alpha_VMImportConfigSpec_type E), (''Status'', alpha_VMImportConfigStatus_type E)]"

definition alpha_VMImportConfig_DeepCopyInto :: "external_copies \<Rightarrow> copier" where
  "alpha_VMImportConfig_DeepCopyInto E = into
    [(''TypeMeta'', assign), (''ObjectMeta'', snd (ext_ObjectMeta E)),
     (''Spec'', alpha_VMImportConfigSpec_DeepCopyInto E),
     (''Status'', alpha_VMImportConfigStatus_DeepCopyInto E)]"

definition alpha_VMImportConfig_DeepCopy :: "external_copies \<Rightarrow> copier" where
  "alpha_VMImportConfig_DeepCopy E = copy_pointer (alpha_VMImportConfig_type E) (alpha_VMImportConfig_DeepCopyInto E)"

definition alpha_VMImportConfig_DeepCopyObject :: "external_copies \<Rightarrow> object_copier" where
  "alpha_VMImportConfig_DeepCopyObject E = as_object (alpha_VMImportConfig_DeepCopy E)"

definition alpha_VMImportConfigList_type :: "external_copies \<Rightarrow> gotype" where
  "alpha_VMImportConfigList_type E = StructT
    [(''TypeMeta'', ext_TypeMeta E), (''ListMeta'', fst (ext_ListMeta E)),
     (''Items'', SliceT (alpha_VMImportConfig_type E))]"

definition alpha_VMImportConfigList_DeepCopyInto :: "external_copies \<Rightarrow> copier" where
  "alpha_VMImportConfigList_DeepCopyInto E = into
    [(''TypeMeta'', assign), (''ListMeta'', snd (ext_ListMeta E)),
     (''Items'', copy_slice (alpha_VMImportConfig_type E) (alpha_VMImportConfig_DeepCopyInto E))]"

definition alpha_VMImportConfigList_DeepCopy :: "external_copies \<Rightarrow> copier" where
  "alpha_VMImportConfigList_DeepCopy E =
     copy_pointer (alpha_VMImportConfigList_type E) (alpha_VMImportConfigList_DeepCopyInto E)"

definition alpha_VMImportConfigList_DeepCopyObject :: "external_copies \<Rightarrow> object_copier" where
  "alpha_VMImportConfigList_DeepCopyObject E = as_object (alpha_VMImportConfigList_DeepCopy E)"

definition alpha_VirtualMachineImportOvirtSourceVMClusterSpec_type :: "gotype" where
  "alpha_VirtualMachineImportOvirtSourceVMClusterSpec_type = StructT
    [(''ID'', PtrT StringT), (''Name'', PtrT StringT)]"

definition alpha_VirtualMachineImportOvirtSourceVMClusterSpec_DeepCopyInto :: "copier" where
  "alpha_VirtualMachineImportOvirtSourceVMClusterSpec_DeepCopyInto = into
    [(''ID'', copy_pointer StringT assign), (''Name'', copy_pointer StringT assign)]"

definition alpha_VirtualMachineImportOvirtSourceVMClusterSpec_DeepCopy :: "copier" where
  "alpha_VirtualMachineImportOvirtSourceVMClusterSpec_DeepCopy =
     copy_pointer alpha_VirtualMachineImportOvirtSourceVMClusterSpec_type
        alpha_VirtualMachineImportOvirtSourceVMClusterSpec_DeepCopyInto"

definition alpha_VirtualMachineImportOvirtSourceVMSpec_type :: "gotype" where
  "alpha_VirtualMachineImportOvirtSourceVMSpec_type = StructT
    [(''ID'', PtrT StringT), (''Name'', PtrT StringT),
     (''Cluster'', PtrT alpha_VirtualMachineImportOvirtSourceVMClusterSpec_type)]"

definition alpha_VirtualMachineImportOvirtSourceVMSpec_DeepCopyInto :: "copier" where
  "alpha_VirtualMachineImportOvirtSourceVMSpec_DeepCopyInto = into
    [(''ID'', copy_pointer StringT assign), (''Name'', copy_pointer StringT assign),
     (''Cluster'', copy_pointer alpha_VirtualMachineImportOvirtSourceVMClusterSpec_type
        alpha_VirtualMachineImportOvirtSourceVMClusterSpec_DeepCopyInto)]"

definition alpha_VirtualMachineImportOvirtSourceVMSpec_DeepCopy :: "copier" where
  "alpha_VirtualMachineImportOvirtSourceVMSpec_DeepCopy =
     copy_pointer alpha_VirtualMachineImportOvirtSourceVMSpec_type
        alpha_VirtualMachineImportOvirtSourceVMSpec_DeepCopyInto"

definition alpha_VirtualMachineImportOvirtSourceSpec_type :: "gotype" where
  "alpha_VirtualMachineImportOvirtSourceSpec_type = StructT
    [(''VM'', alpha_VirtualMachineImportOvirtSourceVMSpec_type), (''Mappings'', PtrT alpha_OvirtMappings_type)]"

definition alpha_VirtualMachineImportOvirtSourceSpec_DeepCopyInto :: "copier" where
  "alpha_VirtualMachineImportOvirtSourceSpec_DeepCopyInto = into
    [(''VM'', alpha_VirtualMachineImportOvirtSourceVMSpec_DeepCopyInto),
     (''Mappings'', copy_pointer alpha_OvirtMappings_type alpha_OvirtMappings_DeepCopyInto)]"

definition alpha_VirtualMachineImportOvirtSourceSpec_DeepCopy :: "copier" where
  "alpha_VirtualMachineImportOvirtSourceSpec_DeepCopy =
     copy_pointer alpha_VirtualMachineImportOvirtSourceSpec_type
        alpha_VirtualMachineImportOvirtSourceSpec_DeepCopyInto"

definition alpha_VirtualMachineImportSourceSpec_type :: "gotype" where
  "alpha_VirtualMachineImportSourceSpec_type = StructT
    [(''Ovirt'', PtrT alpha_VirtualMachineImportOvirtSourceSpec_type)]"

definition alpha_VirtualMachineImportSourceSpec_DeepCopyInto :: "copier" where
  "alpha_VirtualMachineImportSourceSpec_DeepCopyInto = into
    [(''Ovirt'', copy_pointer alpha_VirtualMachineImportOvirtSourceSpec_type
        alpha_VirtualMachineImportOvirtSourceSpec_DeepCopyInto)]"

definition alpha_VirtualMachineImportSourceSpec_DeepCopy :: "copier" where
  "alpha_VirtualMachineImportSourceSpec_DeepCopy =
     copy_pointer alpha_VirtualMachineImportSourceSpec_type alpha_VirtualMachineImportSourceSpec_DeepCopyInto"

definition alpha_VirtualMachineImportSpec_type :: "gotype" where
  "alpha_VirtualMachineImportSpec_type = StructT
    [(''ProviderCredentialsSecret'', alpha_ObjectIdentifier_type),
     (''ResourceMapping'', PtrT alpha_ObjectIdentifier_type),
     (''Source'', alpha_VirtualMachineImportSourceSpec_type), (''TargetVMName'', PtrT StringT),
     (''StartVM'', PtrT BoolT)]"

definition alpha_VirtualMachineImportSpec_DeepCopyInto :: "copier" where
  "alpha_VirtualMachineImportSpec_DeepCopyInto = into
    [(''ProviderCredentialsSecret'', alpha_ObjectIdentifier_DeepCopyInto),
     (''ResourceMapping'', copy_pointer alpha_ObjectIdentifier_type alpha_ObjectIdentifier_DeepCopyInto),
     (''Source'', alpha_VirtualMachineImportSourceSpec_DeepCopyInto),
     (''TargetVMName'', copy_pointer StringT assign), (''StartVM'', copy_pointer BoolT assign)]"

definition alpha_VirtualMachineImportSpec_DeepCopy :: "copier" where
  "alpha_VirtualMachineImportSpec_DeepCopy =
     copy_pointer alpha_VirtualMachineImportSpec_type alpha_VirtualMachineImportSpec_DeepCopyInto"

definition alpha_VirtualMachineImportCondition_type :: "external_copies \<Rightarrow> gotype" where
  "alpha_VirtualMachineImportCondition_type E = StructT
    [(''Type'', StringT), (''Status'', StringT), (''Reason'', PtrT StringT), (''Message'', PtrT StringT),
     (''LastHeartbeatTime'', PtrT (fst (ext_Time E))), (''LastTransitionTime'', PtrT (fst (ext_Time E)))]"

definition alpha_VirtualMachineImportCondition_DeepCopyInto :: "external_copies \<Rightarrow> copier" where
  "alpha_VirtualMachineImportCondition_DeepCopyInto E = into
    [(''Reason'', copy_pointer StringT assign), (''Message'', copy_pointer StringT assign),
     (''LastHeartbeatTime'', unless_nil (snd (ext_Time E))),
     (''LastTransitionTime'', unless_nil (snd (ext_Time E)))]"

definition alpha_VirtualMachineImportCondition_DeepCopy :: "external_copies \<Rightarrow> copier" where
  "alpha_VirtualMachineImportCondition_DeepCopy E =
     copy_pointer (alpha_VirtualMachineImportCondition_type E) (alpha_VirtualMachineImportCondition_DeepCopyInto E)"

definition alpha_VirtualMachineImportStatus_type :: "external_copies \<Rightarrow> gotype" where
  "alpha_VirtualMachineImportStatus_type E = StructT
    [(''TargetVMName'', StringT), (''Conditions'', SliceT (alpha_VirtualMachineImportCondition_type E)),
     (''DataVolumes'', SliceT alpha_DataVolumeItem_type)]"

definition alpha_VirtualMachineImportStatus_DeepCopyInto :: "external_copies \<Rightarrow> copier" where
  "alpha_VirtualMachineImportStatus_DeepCopyInto E = into
    [(''Conditions'', copy_slice (alpha_VirtualMachineImportCondition_type E) (alpha_VirtualMachineImportCondition_DeepCopyInto E)),
     (''DataVolumes'', copy_slice alpha_DataVolumeItem_type assign)]"

definition alpha_VirtualMachineImportStatus_DeepCopy :: "external_copies \<Rightarrow> copier" where
  "alpha_VirtualMachineImportStatus_DeepCopy E =
     copy_pointer (alpha_VirtualMachineImportStatus_type E) (alpha_VirtualMachineImportStatus_DeepCopyInto E)"

definition alpha_VirtualMachineImport_type :: "external_copies \<Rightarrow> gotype" where
  "alpha_VirtualMachineImport_type E = StructT
    [(''TypeMeta'', ext_TypeMeta E), (''ObjectMeta'', fst (ext_ObjectMeta E)),
     (''Spec'', alpha_VirtualMachineImportSpec_type), (''Status'', alpha_VirtualMachineImportStatus_type E)]"

definition alpha_VirtualMachineImport_DeepCopyInto :: "external_copies \<Rightarrow> copier" where
  "alpha_VirtualMachineImport_DeepCopyInto E = into
    [(''TypeMeta'', assign), (''ObjectMeta'', snd (ext_ObjectMeta E)),
     (''Spec'', alpha_VirtualMachineImportSpec_DeepCopyInto),
     (''Status'', alpha_VirtualMachineImportStatus_DeepCopyInto E)]"

definition alpha_VirtualMachineImport_DeepCopy :: "external_copies \<Rightarrow> copier" where
  "alpha_VirtualMachineImport_DeepCopy E =
     copy_pointer (alpha_VirtualMachineImport_type E) (alpha_VirtualMachineImport_DeepCopyInto E)"

definition alpha_VirtualMachineImport_DeepCopyObject :: "external_copies \<Rightarrow> object_copier" where
  "alpha_VirtualMachineImport_DeepCopyObject E = as_object (alpha_VirtualMachineImport_DeepCopy E)"

definition alpha_VirtualMachineImportList_type :: "external_copies \<Rightarrow> gotype" where
  "alpha_VirtualMachineImportList_type E = StructT
    [(''TypeMeta'', ext_TypeMeta E), (''ListMeta'', fst (ext_ListMeta E)),
     (''Items'', SliceT (alpha_VirtualMachineImport_type E))]"

definition alpha_VirtualMachineImportList_DeepCopyInto :: "external_copies \<Rightarrow> copier" where
  "alpha_VirtualMachineImportList_DeepCopyInto E = into
    [(''TypeMeta'', assign), (''ListMeta'', snd (ext_ListMeta E)),
     (''Items'', copy_slice (alpha_VirtualMachineImport_type E) (alpha_VirtualMachineImport_DeepCopyInto E))]"

definition alpha_VirtualMachineImportList_DeepCopy :: "external_copies \<Rightarrow> copier" where
  "alpha_VirtualMachineImportList_DeepCopy E =
     copy_pointer (alpha_VirtualMachineImportList_type E) (alpha_VirtualMachineImportList_DeepCopyInto E)"

definition alpha_VirtualMachineImportList_DeepCopyObject :: "external_copies \<Rightarrow> object_copier" where
  "alpha_VirtualMachineImportList_DeepCopyObject E = as_object (alpha_VirtualMachineImportList_DeepCopy E)"

section \<open>Every copy is deep\<close>

lemma alpha_DataVolumeItem_flat [copiers]: "flat alpha_DataVolumeItem_type"
  by (simp add: alpha_DataVolumeItem_type_def)

lemma alpha_DataVolumeItem_deep [copiers]:
  "deep alpha_DataVolumeItem_type alpha_DataVolumeItem_DeepCopyInto"
  by (simp add: alpha_DataVolumeItem_type_def alpha_DataVolumeItem_DeepCopyInto_def copiers)

lemma alpha_ObjectIdentifier_deep [copiers]:
  "deep alpha_ObjectIdentifier_type alpha_ObjectIdentifier_DeepCopyInto"
  by (simp add: alpha_ObjectIdentifier_type_def alpha_ObjectIdentifier_DeepCopyInto_def copiers)

lemma alpha_Source_deep [copiers]:
  "deep alpha_Source_type alpha_Source_DeepCopyInto"
  by (simp add: alpha_Source_type_def alpha_Source_DeepCopyInto_def copiers)

lemma alpha_ResourceMappingItem_deep [copiers]:
  "deep alpha_ResourceMappingItem_type alpha_ResourceMappingItem_DeepCopyInto"
  by (simp add: alpha_ResourceMappingItem_type_def alpha_ResourceMappingItem_DeepCopyInto_def copiers)

lemma alpha_OvirtMappings_deep [copiers]:
  "deep alpha_OvirtMappings_type alpha_OvirtMappings_DeepCopyInto"
  by (simp add: alpha_OvirtMappings_type_def alpha_OvirtMappings_DeepCopyInto_def copiers)

lemma alpha_ResourceMappingSpec_deep [copiers]:
  "deep alpha_ResourceMappingSpec_type alpha_ResourceMappingSpec_DeepCopyInto"
  by (simp add: alpha_ResourceMappingSpec_type_def alpha_ResourceMappingSpec_DeepCopyInto_def copiers)

lemma alpha_ResourceMappingStatus_flat [copiers]: "flat alpha_ResourceMappingStatus_type"
  by (simp add: alpha_ResourceMappingStatus_type_def)

lemma alpha_ResourceMappingStatus_deep [copiers]:
  "deep alpha_ResourceMappingStatus_type alpha_ResourceMappingStatus_DeepCopyInto"
  by (simp add: alpha_ResourceMappingStatus_type_def alpha_ResourceMappingStatus_DeepCopyInto_def copiers)

lemma alpha_ResourceMapping_deep [copiers]:
  "documented E \<Longrightarrow> deep (alpha_ResourceMapping_type E) (alpha_ResourceMapping_DeepCopyInto E)"
  by (simp add: alpha_ResourceMapping_type_def alpha_ResourceMapping_DeepCopyInto_def copiers)

lemma alpha_ResourceMappingList_deep [copiers]:
  "documented E \<Longrightarrow> deep (alpha_ResourceMappingList_type E) (alpha_ResourceMappingList_DeepCopyInto E)"
  by (simp add: alpha_ResourceMappingList_type_def alpha_ResourceMappingList_DeepCopyInto_def copiers)

lemma alpha_VMImportConfigSpec_deep [copiers]:
  "documented E \<Longrightarrow> deep (alpha_VMImportConfigSpec_type E) (alpha_VMImportConfigSpec_DeepCopyInto E)"
  by (simp add: alpha_VMImportConfigSpec_type_def alpha_VMImportConfigSpec_DeepCopyInto_def copiers)

lemma alpha_VMImportConfigStatus_deep [copiers]:
  "documented E \<Longrightarrow> deep (alpha_VMImportConfigStatus_type E) (alpha_VMImportConfigStatus_DeepCopyInto E)"
  by (simp add: alpha_VMImportConfigStatus_type_def alpha_VMImportConfigStatus_DeepCopyInto_def copiers)

lemma alpha_VMImportConfig_deep [copiers]:
  "documented E \<Longrightarrow> deep (alpha_VMImportConfig_type E) (alpha_VMImportConfig_DeepCopyInto E)"
  by (simp add: alpha_VMImportConfig_type_def alpha_VMImportConfig_DeepCopyInto_def copiers)

lemma alpha_VMImportConfigList_deep [copiers]:
  "documented E \<Longrightarrow> deep (alpha_VMImportConfigList_type E) (alpha_VMImportConfigList_DeepCopyInto E)"
  by (simp add: alpha_VMImportConfigList_type_def alpha_VMImportConfigList_DeepCopyInto_def copiers)

lemma alpha_VirtualMachineImportOvirtSourceVMClusterSpec_deep [copiers]:
  "deep alpha_VirtualMachineImportOvirtSourceVMClusterSpec_type alpha_VirtualMachineImportOvirtSourceVMClusterSpec_DeepCopyInto"
  by (simp add: alpha_VirtualMachineImportOvirtSourceVMClusterSpec_type_def alpha_VirtualMachineImportOvirtSourceVMClusterSpec_DeepCopyInto_def copiers)

lemma alpha_VirtualMachineImportOvirtSourceVMSpec_deep [copiers]:
  "deep alpha_VirtualMachineImportOvirtSourceVMSpec_type alpha_VirtualMachineImportOvirtSourceVMSpec_DeepCopyInto"
  by (simp add: alpha_VirtualMachineImportOvirtSourceVMSpec_type_def alpha_VirtualMachineImportOvirtSourceVMSpec_DeepCopyInto_def copiers)

lemma alpha_VirtualMachineImportOvirtSourceSpec_deep [copiers]:
  "deep alpha_VirtualMachineImportOvirtSourceSpec_type alpha_VirtualMachineImportOvirtSourceSpec_DeepCopyInto"
  by (simp add: alpha_VirtualMachineImportOvirtSourceSpec_type_def alpha_VirtualMachineImportOvirtSourceSpec_DeepCopyInto_def copiers)

lemma alpha_VirtualMachineImportSourceSpec_deep [copiers]:
  "deep alpha_VirtualMachineImportSourceSpec_type alpha_VirtualMachineImportSourceSpec_DeepCopyInto"
  by (simp add: alpha_VirtualMachineImportSourceSpec_type_def alpha_VirtualMachineImportSourceSpec_DeepCopyInto_def copiers)

lemma alpha_VirtualMachineImportSpec_deep [copiers]:
  "deep alpha_VirtualMachineImportSpec_type alpha_VirtualMachineImportSpec_DeepCopyInto"
  by (simp add: alpha_VirtualMachineImportSpec_type_def alpha_VirtualMachineImportSpec_DeepCopyInto_def copiers)

lemma alpha_VirtualMachineImportCondition_deep [copiers]:
  "documented E \<Longrightarrow> deep (alpha_VirtualMachineImportCondition_type E) (alpha_VirtualMachineImportCondition_DeepCopyInto E)"
  by (simp add: alpha_VirtualMachineImportCondition_type_def alpha_VirtualMachineImportCondition_DeepCopyInto_def copiers)

lemma alpha_VirtualMachineImportStatus_deep [copiers]:
  "documented E \<Longrightarrow> deep (alpha_VirtualMachineImportStatus_type E) (alpha_VirtualMachineImportStatus_DeepCopyInto E)"
  by (simp add: alpha_VirtualMachineImportStatus_type_def alpha_VirtualMachineImportStatus_DeepCopyInto_def copiers)

lemma alpha_VirtualMachineImport_deep [copiers]:
  "documented E \<Longrightarrow> deep (alpha_VirtualMachineImport_type E) (alpha_VirtualMachineImport_DeepCopyInto E)"
  by (simp add: alpha_VirtualMachineImport_type_def alpha_VirtualMachineImport_DeepCopyInto_def copiers)

lemma alpha_VirtualMachineImportList_deep [copiers]:
  "documented E \<Longrightarrow> deep (alpha_VirtualMachineImportList_type E) (alpha_VirtualMachineImportList_DeepCopyInto E)"
  by (simp add: alpha_VirtualMachineImportList_type_def alpha_VirtualMachineImportList_DeepCopyInto_def copiers)

lemmas alpha_copies_defs =
  alpha_DataVolumeItem_DeepCopy_def alpha_ObjectIdentifier_DeepCopy_def alpha_Source_DeepCopy_def
  alpha_ResourceMappingItem_DeepCopy_def alpha_OvirtMappings_DeepCopy_def
  alpha_ResourceMappingSpec_DeepCopy_def alpha_ResourceMappingStatus_DeepCopy_def
  alpha_ResourceMapping_DeepCopy_def alpha_ResourceMappingList_DeepCopy_def
  alpha_VMImportConfigSpec_DeepCopy_def alpha_VMImportConfigStatus_DeepCopy_def
  alpha_VMImportConfig_DeepCopy_def alpha_VMImportConfigList_DeepCopy_def
  alpha_VirtualMachineImportOvirtSourceVMClusterSpec_DeepCopy_def
  alpha_VirtualMachineImportOvirtSourceVMSpec_DeepCopy_def
  alpha_VirtualMachineImportOvirtSourceSpec_DeepCopy_def alpha_VirtualMachineImportSourceSpec_DeepCopy_def
  alpha_VirtualMachineImportSpec_DeepCopy_def alpha_VirtualMachineImportCondition_DeepCopy_def
  alpha_VirtualMachineImportStatus_DeepCopy_def alpha_VirtualMachineImport_DeepCopy_def
  alpha_VirtualMachineImportList_DeepCopy_def

text \<open>Every \<open>DeepCopy\<close> of the package, with the type it copies.\<close>

definition alpha_copies :: "external_copies \<Rightarrow> (gotype \<times> copier) list" where
  "alpha_copies E =
    [(alpha_DataVolumeItem_type, alpha_DataVolumeItem_DeepCopy),
     (alpha_ObjectIdentifier_type, alpha_ObjectIdentifier_DeepCopy),
     (alpha_Source_type, alpha_Source_DeepCopy),
     (alpha_ResourceMappingItem_type, alpha_ResourceMappingItem_DeepCopy),
     (alpha_OvirtMappings_type, alpha_OvirtMappings_DeepCopy),
     (alpha_ResourceMappingSpec_type, alpha_ResourceMappingSpec_DeepCopy),
     (alpha_ResourceMappingStatus_type, alpha_ResourceMappingStatus_DeepCopy),
     (alpha_ResourceMapping_type E, alpha_ResourceMapping_DeepCopy E),
     (alpha_ResourceMappingList_type E, alpha_ResourceMappingList_DeepCopy E),
     (alpha_VMImportConfigSpec_type E, alpha_VMImportConfigSpec_DeepCopy E),
     (alpha_VMImportConfigStatus_type E, alpha_VMImportConfigStatus_DeepCopy E),
     (alpha_VMImportConfig_type E, alpha_VMImportConfig_DeepCopy E),
     (alpha_VMImportConfigList_type E, alpha_VMImportConfigList_DeepCopy E),
     (alpha_VirtualMachineImportOvirtSourceVMClusterSpec_type, alpha_VirtualMachineImportOvirtSourceVMClusterSpec_DeepCopy),
     (alpha_VirtualMachineImportOvirtSourceVMSpec_type, alpha_VirtualMachineImportOvirtSourceVMSpec_DeepCopy),
     (alpha_VirtualMachineImportOvirtSourceSpec_type, alpha_VirtualMachineImportOvirtSourceSpec_DeepCopy),
     (alpha_VirtualMachineImportSourceSpec_type, alpha_VirtualMachineImportSourceSpec_DeepCopy),
     (alpha_VirtualMachineImportSpec_type, alpha_VirtualMachineImportSpec_DeepCopy),
     (alpha_VirtualMachineImportCondition_type E, alpha_VirtualMachineImportCondition_DeepCopy E),
     (alpha_VirtualMachineImportStatus_type E, alpha_VirtualMachineImportStatus_DeepCopy E),
     (alpha_VirtualMachineImport_type E, alpha_VirtualMachineImport_DeepCopy E),
     (alpha_VirtualMachineImportList_type E, alpha_VirtualMachineImportList_DeepCopy E)]"

lemma alpha_copies_all_deep: "documented E \<Longrightarrow> list_all (\<lambda>(T, c). deep (PtrT T) c) (alpha_copies E)"
  by (simp add: alpha_copies_def alpha_copies_defs copiers)

lemma alpha_copies_deep: "documented E \<Longrightarrow> (T, c) \<in> set (alpha_copies E) \<Longrightarrow> deep (PtrT T) c"
  using alpha_copies_all_deep by (fastforce simp: list_all_iff)

end
