(* ===== verification/CopySpec.thy ===== *)
theory CopySpec
  imports AlphaCopy
begin

text \<open>
  The copies of the API types against their contract.  The program changes an object by taking its \<open>DeepCopy\<close>,
  writing to the copy and sending the difference to the cluster (\<open>client.MergeFrom\<close> of the original); this is
  right only when the original does not change with the copy.
\<close>

text \<open>
  C29. Every \<open>DeepCopy\<close> of the two API versions is deep.  For each type, given that the copies of other packages'
  types are deep as documented: the copy holds what the original holds; the two share no allocation; the heap
  only grows; and nothing that is later written through the one, or allocated, can be seen through the other.
  A nil pointer is copied to nil.
\<close>

theorem copies_isolated:
  assumes "documented E" "(T, c) \<in> set (api_copies E @ alpha_copies E)"
    and "read (PtrT T) h p = Some t" "c p h = (q, h')"
  shows "read (PtrT T) h' q = Some t \<and> prefix h h' \<and> (q = Ptr None \<longleftrightarrow> p = Ptr None) \<and>
    set (reach (PtrT T) h' q) \<inter> set (reach (PtrT T) h' p) = {} \<and>
    (\<forall>h2. (\<forall>a < length h'. a \<notin> set (reach (PtrT T) h' q) \<longrightarrow> cell h2 a = cell h' a) \<longrightarrow>
       read (PtrT T) h2 p = Some t) \<and>
    (\<forall>h2. (\<forall>a < length h'. a \<notin> set (reach (PtrT T) h' p) \<longrightarrow> cell h2 a = cell h' a) \<longrightarrow>
       read (PtrT T) h2 q = Some t)"
proof -
  have d: "deep (PtrT T) c"
    using assms(1,2) api_copies_deep alpha_copies_deep by auto
  note i = deep_isolates [OF d assms(3,4)]
  have "q = Ptr None \<longleftrightarrow> p = Ptr None"
    using nil_read [OF i(1)] nil_read [OF assms(3)] by simp
  with i show ?thesis by blast
qed

text \<open>\<open>DeepCopyObject\<close> gives the same copy as an interface, and nil for nil.\<close>

lemma object_copy:
  assumes "deep (PtrT T) c" "read (PtrT T) h p = Some t"
  shows "fst (as_object c p h) = (if p = Ptr None then None else Some (fst (c p h)))"
    and "snd (as_object c p h) = snd (c p h)"
proof -
  obtain q h' where c: "c p h = (q, h')" by fastforce
  have "read (PtrT T) h' q = Some t"
    using deepD(2) [OF assms c] by (simp add: fresh_def)
  then have "q = Ptr None \<longleftrightarrow> p = Ptr None"
    using nil_read assms(2) by metis
  then show "fst (as_object c p h) = (if p = Ptr None then None else Some (fst (c p h)))"
    and "snd (as_object c p h) = snd (c p h)"
    by (simp_all add: as_object_def c)
qed

text \<open>An assignment alone would not do for a type with a pointer.\<close>

lemma assign_shares: "\<not> deep (PtrT StringT) assign"
proof
  assume "deep (PtrT StringT) assign"
  moreover have "read (PtrT StringT) [[Str []]] (Ptr (Some 0)) = Some (PtrTree (StrTree []))"
    by (simp add: cell_def)
  ultimately have "fresh (PtrT StringT) [[Str []]] (PtrTree (StrTree [])) [[Str []]] (Ptr (Some 0))"
    using deepD(2) [of "PtrT StringT" assign "[[Str []]]" "Ptr (Some 0)"] by (simp add: assign_def)
  then show False by (simp add: fresh_def)
qed

definition demo_copies :: external_copies where
  "demo_copies = \<lparr>ext_TypeMeta = StructT [(''Kind'', StringT), (''APIVersion'', StringT)],
     ext_ObjectMeta = (StructT [(''Name'', StringT), (''Finalizers'', SliceT StringT)],
       into [(''Finalizers'', copy_slice StringT assign)]),
     ext_ListMeta = (StructT [(''ResourceVersion'', StringT)], assign),
     ext_Time = (StructT [(''Time'', StringT)], copy_pointer (StructT [(''Time'', StringT)]) assign),
     ext_NodePlacement = (StructT [(''NodeSelector'', SliceT StringT)],
       into [(''NodeSelector'', copy_slice StringT assign)]),
     ext_Status = (StructT [(''Phase'', StringT)], assign),
     ext_Condition = (StructT [(''Type'', StringT)], assign)\<rparr>"

lemma demo_documented: "documented demo_copies"
  by (simp add: documented_def demo_copies_def copiers)

text \<open>An import of an oVirt machine by its id, with a finalizer and a condition that has a reason.\<close>

definition demo_heap :: heap where
  "demo_heap =
    [[Str ''vm-1''],
     [Rec [(''VM'', Rec [(''ID'', Ptr (Some 0)), (''Name'', Ptr None), (''Cluster'', Ptr None)]), (''Mappings'', Ptr None)]],
     [Str ''finalizer''],
     [Str ''Completed''],
     [Rec [(''Type'', Str ''Valid''), (''Status'', Str ''True''), (''Reason'', Ptr (Some 3)), (''Message'', Ptr None),
        (''LastHeartbeatTime'', Ptr None), (''LastTransitionTime'', Ptr None)]],
     [Rec [(''TypeMeta'', Rec [(''Kind'', Str ''VirtualMachineImport''), (''APIVersion'', Str ''v1beta1'')]),
        (''ObjectMeta'', Rec [(''Name'', Str ''import''), (''Finalizers'', Slice (Some (2, 0, 1)))]),
        (''Spec'', Rec [(''ProviderCredentialsSecret'', Rec [(''Name'', Str ''secret''), (''Namespace'', Ptr None)]),
           (''ResourceMapping'', Ptr None), (''Source'', Rec [(''Ovirt'', Ptr (Some 1)), (''Vmware'', Ptr None)]),
           (''TargetVMName'', Ptr None), (''StartVM'', Ptr None)]),
        (''Status'', Rec [(''TargetVMName'', Str []), (''Conditions'', Slice (Some (4, 0, 1))),
           (''DataVolumes'', Slice None)])]]]"

lemma demo_read: "\<exists>t. read (PtrT (VirtualMachineImport_type demo_copies)) demo_heap (Ptr (Some 5)) = Some t"
  by (simp add: VirtualMachineImport_type_def VirtualMachineImportSpec_type_def VirtualMachineImportStatus_type_def
      ObjectIdentifier_type_def VirtualMachineImportSourceSpec_type_def VirtualMachineImportOvirtSourceSpec_type_def
      VirtualMachineImportOvirtSourceVMSpec_type_def VirtualMachineImportCondition_type_def demo_copies_def
      demo_heap_def cell_def elements_def)

theorem copies_isolated_witness:
  "\<exists>q h' t. VirtualMachineImport_DeepCopy demo_copies (Ptr (Some 5)) demo_heap = (q, h') \<and>
     read (PtrT (VirtualMachineImport_type demo_copies)) h' q = Some t \<and> prefix demo_heap h' \<and> q \<noteq> Ptr None"
proof -
  obtain t where t: "read (PtrT (VirtualMachineImport_type demo_copies)) demo_heap (Ptr (Some 5)) = Some t"
    using demo_read by blast
  obtain q h' where c: "VirtualMachineImport_DeepCopy demo_copies (Ptr (Some 5)) demo_heap = (q, h')" by fastforce
  have "(VirtualMachineImport_type demo_copies, VirtualMachineImport_DeepCopy demo_copies)
      \<in> set (api_copies demo_copies @ alpha_copies demo_copies)"
    by (simp add: api_copies_def)
  from copies_isolated [OF demo_documented this t c] c t show ?thesis by auto
qed

end
