(* ===== verification/TypedClient.thy ===== *)
theory TypedClient
  imports Crds Complex_Main "HOL-Library.Word"
begin

text \<open>
  The typed clients of \<open>pkg/api-client/clientset/versioned\<close>.  A method builds a request with the builder of
  client-go and runs it; it is modelled as the calls to the builder in their order, the verb, and how the
  request ends: the answer is decoded into an object of a kind, or only its error is returned, or it is watched.
  Running it is the business of client-go.  A timeout is a \<open>time.Duration\<close>, 64 bits wide, of
  the seconds in the options.
\<close>

section \<open>Requests\<close>

datatype rest_verb = GET | POST | PUT | DELETE | PATCH string

record list_options =
  lo_selectors :: "string \<times> string"  \<comment> \<open>of labels and fields\<close>
  lo_timeout :: "64 word option"
  lo_watch :: bool

datatype rest_params = GetParams string | ListParams list_options

datatype 'b rest_call =
  Namespace string
| Resource string
| Name string
| SubResource "string list"
| VersionedParams rest_params
| Timeout "64 word"
| Body 'b

datatype rest_end = DoInto string | DoError | Watch

record 'b rest_request =
  rr_verb :: rest_verb
  rr_calls :: "'b rest_call list"
  rr_end :: rest_end

abbreviation request :: "rest_verb \<Rightarrow> 'b rest_call list \<Rightarrow> rest_end \<Rightarrow> 'b rest_request" where
  "request v cs e \<equiv> \<lparr>rr_verb = v, rr_calls = cs, rr_end = e\<rparr>"

text \<open>What an object passes to a request: its name and itself.\<close>

record 'b api_object =
  ao_name :: string
  ao_body :: 'b

definition Second :: "64 word" where "Second = 1000000000"

text \<open>\<open>if opts.TimeoutSeconds != nil { timeout = time.Duration(*opts.TimeoutSeconds) * time.Second }\<close>\<close>

definition timeout_of :: "list_options \<Rightarrow> 64 word" where
  "timeout_of opts = (case lo_timeout opts of Some s \<Rightarrow> s * Second | None \<Rightarrow> 0)"

section \<open>The clients of a version\<close>

text \<open>A group and a version, and the configuration of a REST client as far as the code reads or sets it.\<close>

type_synonym group_version = "string \<times> string"

record rest_config =
  rc_group_version :: "group_version option"
  rc_api_path :: string
  rc_serializer :: "string option"  \<comment> \<open>the serializer without conversion of \<open>scheme.Codecs\<close>, by name\<close>
  rc_user_agent :: string
  rc_qps :: rat
  rc_burst :: int
  rc_rate_limiter :: "(rat \<times> int) option"  \<comment> \<open>a token bucket, with its rate and size\<close>

text \<open>What client-go provides: REST and discovery clients for a configuration, and its name as an agent.\<close>

record ('c, 'd) rest_library =
  RESTClientFor :: "rest_config \<Rightarrow> go_error + 'c"
  NewDiscoveryClientForConfig :: "rest_config \<Rightarrow> go_error + 'd"
  NewDiscoveryClient :: "'c \<Rightarrow> 'd"
  DefaultKubernetesUserAgent :: string

record 'c v2v_client =
  restClient :: 'c

record 'c typed_client =
  tc_client :: 'c
  tc_ns :: string

definition or_die :: "go_error + 'a \<Rightarrow> go_error + 'a" where
  "or_die r = (case r of Inl e \<Rightarrow> Inl (GoErr Panicked (emsg e)) | Inr x \<Rightarrow> Inr x)"

definition SchemeGroupVersion :: group_version where
  "SchemeGroupVersion = (''v2v.kubevirt.io'', ''v1beta1'')"

definition setConfigDefaults :: "('c, 'd) rest_library \<Rightarrow> rest_config \<Rightarrow> go_error + rest_config" where
  "setConfigDefaults lib config = Inr (config
     \<lparr>rc_group_version := Some SchemeGroupVersion,
      rc_api_path := ''/apis'',
      rc_serializer := Some ''WithoutConversion'',
      rc_user_agent := (if rc_user_agent config = [] then DefaultKubernetesUserAgent lib else rc_user_agent config)\<rparr>)"

definition V2vNewForConfig :: "('c, 'd) rest_library \<Rightarrow> rest_config \<Rightarrow> go_error + 'c v2v_client" where
  "V2vNewForConfig lib c =
     rbind (setConfigDefaults lib c) (\<lambda>config.
     rbind (RESTClientFor lib config) (\<lambda>client. Inr \<lparr>restClient = client\<rparr>))"

definition V2vNewForConfigOrDie :: "('c, 'd) rest_library \<Rightarrow> rest_config \<Rightarrow> go_error + 'c v2v_client" where
  "V2vNewForConfigOrDie lib c = or_die (V2vNewForConfig lib c)"

definition V2vNew :: "'c \<Rightarrow> 'c v2v_client" where
  "V2vNew c = \<lparr>restClient = c\<rparr>"

definition RESTClient :: "'c v2v_client option \<Rightarrow> 'c option" where
  "RESTClient c = map_option restClient c"

definition alpha_SchemeGroupVersion :: group_version where
  "alpha_SchemeGroupVersion = (''v2v.kubevirt.io'', ''v1alpha1'')"

definition alpha_setConfigDefaults :: "('c, 'd) rest_library \<Rightarrow> rest_config \<Rightarrow> go_error + rest_config" where
  "alpha_setConfigDefaults lib config = Inr (config
     \<lparr>rc_group_version := Some alpha_SchemeGroupVersion,
      rc_api_path := ''/apis'',
      rc_serializer := Some ''WithoutConversion'',
      rc_user_agent := (if rc_user_agent config = [] then DefaultKubernetesUserAgent lib else rc_user_agent config)\<rparr>)"

definition alpha_V2vNewForConfig :: "('c, 'd) rest_library \<Rightarrow> rest_config \<Rightarrow> go_error + 'c v2v_client" where
  "alpha_V2vNewForConfig lib c =
     rbind (alpha_setConfigDefaults lib c) (\<lambda>config.
     rbind (RESTClientFor lib config) (\<lambda>client. Inr \<lparr>restClient = client\<rparr>))"

definition alpha_V2vNewForConfigOrDie :: "('c, 'd) rest_library \<Rightarrow> rest_config \<Rightarrow> go_error + 'c v2v_client" where
  "alpha_V2vNewForConfigOrDie lib c = or_die (alpha_V2vNewForConfig lib c)"

definition alpha_V2vNew :: "'c \<Rightarrow> 'c v2v_client" where
  "alpha_V2vNew c = \<lparr>restClient = c\<rparr>"

definition alpha_RESTClient :: "'c v2v_client option \<Rightarrow> 'c option" where
  "alpha_RESTClient c = map_option restClient c"


section \<open>\<open>resourceMappings\<close> of \<open>v1beta1\<close>\<close>

definition newResourceMappings :: "'c v2v_client \<Rightarrow> string \<Rightarrow> 'c typed_client" where
  "newResourceMappings c namespace = \<lparr>tc_client = restClient c, tc_ns = namespace\<rparr>"

definition resourceMappings_Get :: "'c typed_client \<Rightarrow> string \<Rightarrow> string \<Rightarrow> 'b rest_request" where
  "resourceMappings_Get c name options = request GET
     [Namespace (tc_ns c), Resource ''resourcemappings'', Name name, VersionedParams (GetParams options)]
     (DoInto ''ResourceMapping'')"

definition resourceMappings_List :: "'c typed_client \<Rightarrow> list_options \<Rightarrow> 'b rest_request" where
  "resourceMappings_List c opts = request GET
     [Namespace (tc_ns c), Resource ''resourcemappings'', VersionedParams (ListParams opts),
      Timeout (timeout_of opts)]
     (DoInto ''ResourceMappingList'')"

definition resourceMappings_Watch :: "'c typed_client \<Rightarrow> list_options \<Rightarrow> 'b rest_request" where
  "resourceMappings_Watch c opts = request GET
     [Namespace (tc_ns c), Resource ''resourcemappings'',
      VersionedParams (ListParams (opts\<lparr>lo_watch := True\<rparr>)), Timeout (timeout_of opts)]
     Watch"

definition resourceMappings_Create :: "'c typed_client \<Rightarrow> 'b api_object \<Rightarrow> 'b rest_request" where
  "resourceMappings_Create c obj = request POST
     [Namespace (tc_ns c), Resource ''resourcemappings'', Body (ao_body obj)]
     (DoInto ''ResourceMapping'')"

definition resourceMappings_Update :: "'c typed_client \<Rightarrow> 'b api_object \<Rightarrow> 'b rest_request" where
  "resourceMappings_Update c obj = request PUT
     [Namespace (tc_ns c), Resource ''resourcemappings'', Name (ao_name obj), Body (ao_body obj)]
     (DoInto ''ResourceMapping'')"

definition resourceMappings_UpdateStatus :: "'c typed_client \<Rightarrow> 'b api_object \<Rightarrow> 'b rest_request" where
  "resourceMappings_UpdateStatus c obj = request PUT
     [Namespace (tc_ns c), Resource ''resourcemappings'', Name (ao_name obj), SubResource [''status''],
      Body (ao_body obj)]
     (DoInto ''ResourceMapping'')"

definition resourceMappings_Delete :: "'c typed_client \<Rightarrow> string \<Rightarrow> 'b \<Rightarrow> 'b rest_request" where
  "resourceMappings_Delete c name options = request DELETE
     [Namespace (tc_ns c), Resource ''resourcemappings'', Name name, Body options]
     DoError"

definition resourceMappings_DeleteCollection :: "'c typed_client \<Rightarrow> 'b \<Rightarrow> list_options \<Rightarrow> 'b rest_request" where
  "resourceMappings_DeleteCollection c options listOptions = request DELETE
     [Namespace (tc_ns c), Resource ''resourcemappings'', VersionedParams (ListParams listOptions),
      Timeout (timeout_of listOptions), Body options]
     DoError"

definition resourceMappings_Patch :: "'c typed_client \<Rightarrow> string \<Rightarrow> string \<Rightarrow> 'b \<Rightarrow> string list \<Rightarrow> 'b rest_request" where
  "resourceMappings_Patch c name pt data subresources = request (PATCH pt)
     [Namespace (tc_ns c), Resource ''resourcemappings'', SubResource subresources, Name name, Body data]
     (DoInto ''ResourceMapping'')"

section \<open>\<open>virtualMachineImports\<close> of \<open>v1beta1\<close>\<close>

definition newVirtualMachineImports :: "'c v2v_client \<Rightarrow> string \<Rightarrow> 'c typed_client" where
  "newVirtualMachineImports c namespace = \<lparr>tc_client = restClient c, tc_ns = namespace\<rparr>"

definition virtualMachineImports_Get :: "'c typed_client \<Rightarrow> string \<Rightarrow> string \<Rightarrow> 'b rest_request" where
  "virtualMachineImports_Get c name options = request GET
     [Namespace (tc_ns c), Resource ''virtualmachineimports'', Name name, VersionedParams (GetParams options)]
     (DoInto ''VirtualMachineImport'')"

definition virtualMachineImports_List :: "'c typed_client \<Rightarrow> list_options \<Rightarrow> 'b rest_request" where
  "virtualMachineImports_List c opts = request GET
     [Namespace (tc_ns c), Resource ''virtualmachineimports'', VersionedParams (ListParams opts),
      Timeout (timeout_of opts)]
     (DoInto ''VirtualMachineImportList'')"

definition virtualMachineImports_Watch :: "'c typed_client \<Rightarrow> list_options \<Rightarrow> 'b rest_request" where
  "virtualMachineImports_Watch c opts = request GET
     [Namespace (tc_ns c), Resource ''virtualmachineimports'',
      VersionedParams (ListParams (opts\<lparr>lo_watch := True\<rparr>)), Timeout (timeout_of opts)]
     Watch"

definition virtualMachineImports_Create :: "'c typed_client \<Rightarrow> 'b api_object \<Rightarrow> 'b rest_request" where
  "virtualMachineImports_Create c obj = request POST
     [Namespace (tc_ns c), Resource ''virtualmachineimports'', Body (ao_body obj)]
     (DoInto ''VirtualMachineImport'')"

definition virtualMachineImports_Update :: "'c typed_client \<Rightarrow> 'b api_object \<Rightarrow> 'b rest_request" where
  "virtualMachineImports_Update c obj = request PUT
     [Namespace (tc_ns c), Resource ''virtualmachineimports'', Name (ao_name obj), Body (ao_body obj)]
     (DoInto ''VirtualMachineImport'')"

definition virtualMachineImports_UpdateStatus :: "'c typed_client \<Rightarrow> 'b api_object \<Rightarrow> 'b rest_request" where
  "virtualMachineImports_UpdateStatus c obj = request PUT
     [Namespace (tc_ns c), Resource ''virtualmachineimports'', Name (ao_name obj), SubResource [''status''],
      Body (ao_body obj)]
     (DoInto ''VirtualMachineImport'')"

definition virtualMachineImports_Delete :: "'c typed_client \<Rightarrow> string \<Rightarrow> 'b \<Rightarrow> 'b rest_request" where
  "virtualMachineImports_Delete c name options = request DELETE
     [Namespace (tc_ns c), Resource ''virtualmachineimports'', Name name, Body options]
     DoError"

definition virtualMachineImports_DeleteCollection :: "'c typed_client \<Rightarrow> 'b \<Rightarrow> list_options \<Rightarrow> 'b rest_request" where
  "virtualMachineImports_DeleteCollection c options listOptions = request DELETE
     [Namespace (tc_ns c), Resource ''virtualmachineimports'', VersionedParams (ListParams listOptions),
      Timeout (timeout_of listOptions), Body options]
     DoError"

definition virtualMachineImports_Patch :: "'c typed_client \<Rightarrow> string \<Rightarrow> string \<Rightarrow> 'b \<Rightarrow> string list \<Rightarrow> 'b rest_request" where
  "virtualMachineImports_Patch c name pt data subresources = request (PATCH pt)
     [Namespace (tc_ns c), Resource ''virtualmachineimports'', SubResource subresources, Name name, Body data]
     (DoInto ''VirtualMachineImport'')"

section \<open>\<open>resourceMappings\<close> of \<open>v1alpha1\<close>\<close>

definition alpha_newResourceMappings :: "'c v2v_client \<Rightarrow> string \<Rightarrow> 'c typed_client" where
  "alpha_newResourceMappings c namespace = \<lparr>tc_client = restClient c, tc_ns = namespace\<rparr>"

definition alpha_resourceMappings_Get :: "'c typed_client \<Rightarrow> string \<Rightarrow> string \<Rightarrow> 'b rest_request" where
  "alpha_resourceMappings_Get c name options = request GET
     [Namespace (tc_ns c), Resource ''resourcemappings'', Name name, VersionedParams (GetParams options)]
     (DoInto ''ResourceMapping'')"

definition alpha_resourceMappings_List :: "'c typed_client \<Rightarrow> list_options \<Rightarrow> 'b rest_request" where
  "alpha_resourceMappings_List c opts = request GET
     [Namespace (tc_ns c), Resource ''resourcemappings'', VersionedParams (ListParams opts),
      Timeout (timeout_of opts)]
     (DoInto ''ResourceMappingList'')"

definition alpha_resourceMappings_Watch :: "'c typed_client \<Rightarrow> list_options \<Rightarrow> 'b rest_request" where
  "alpha_resourceMappings_Watch c opts = request GET
     [Namespace (tc_ns c), Resource ''resourcemappings'',
      VersionedParams (ListParams (opts\<lparr>lo_watch := True\<rparr>)), Timeout (timeout_of opts)]
     Watch"

definition alpha_resourceMappings_Create :: "'c typed_client \<Rightarrow> 'b api_object \<Rightarrow> 'b rest_request" where
  "alpha_resourceMappings_Create c obj = request POST
     [Namespace (tc_ns c), Resource ''resourcemappings'', Body (ao_body obj)]
     (DoInto ''ResourceMapping'')"

definition alpha_resourceMappings_Update :: "'c typed_client \<Rightarrow> 'b api_object \<Rightarrow> 'b rest_request" where
  "alpha_resourceMappings_Update c obj = request PUT
     [Namespace (tc_ns c), Resource ''resourcemappings'', Name (ao_name obj), Body (ao_body obj)]
     (DoInto ''ResourceMapping'')"

definition alpha_resourceMappings_UpdateStatus :: "'c typed_client \<Rightarrow> 'b api_object \<Rightarrow> 'b rest_request" where
  "alpha_resourceMappings_UpdateStatus c obj = request PUT
     [Namespace (tc_ns c), Resource ''resourcemappings'', Name (ao_name obj), SubResource [''status''],
      Body (ao_body obj)]
     (DoInto ''ResourceMapping'')"

definition alpha_resourceMappings_Delete :: "'c typed_client \<Rightarrow> string \<Rightarrow> 'b \<Rightarrow> 'b rest_request" where
  "alpha_resourceMappings_Delete c name options = request DELETE
     [Namespace (tc_ns c), Resource ''resourcemappings'', Name name, Body options]
     DoError"

definition alpha_resourceMappings_DeleteCollection :: "'c typed_client \<Rightarrow> 'b \<Rightarrow> list_options \<Rightarrow> 'b rest_request" where
  "alpha_resourceMappings_DeleteCollection c options listOptions = request DELETE
     [Namespace (tc_ns c), Resource ''resourcemappings'', VersionedParams (ListParams listOptions),
      Timeout (timeout_of listOptions), Body options]
     DoError"

definition alpha_resourceMappings_Patch :: "'c typed_client \<Rightarrow> string \<Rightarrow> string \<Rightarrow> 'b \<Rightarrow> string list \<Rightarrow> 'b rest_request" where
  "alpha_resourceMappings_Patch c name pt data subresources = request (PATCH pt)
     [Namespace (tc_ns c), Resource ''resourcemappings'', SubResource subresources, Name name, Body data]
     (DoInto ''ResourceMapping'')"

section \<open>\<open>virtualMachineImports\<close> of \<open>v1alpha1\<close>\<close>

definition alpha_newVirtualMachineImports :: "'c v2v_client \<Rightarrow> string \<Rightarrow> 'c typed_client" where
  "alpha_newVirtualMachineImports c namespace = \<lparr>tc_client = restClient c, tc_ns = namespace\<rparr>"

definition alpha_virtualMachineImports_Get :: "'c typed_client \<Rightarrow> string \<Rightarrow> string \<Rightarrow> 'b rest_request" where
  "alpha_virtualMachineImports_Get c name options = request GET
     [Namespace (tc_ns c), Resource ''virtualmachineimports'', Name name, VersionedParams (GetParams options)]
     (DoInto ''VirtualMachineImport'')"

definition alpha_virtualMachineImports_List :: "'c typed_client \<Rightarrow> list_options \<Rightarrow> 'b rest_request" where
  "alpha_virtualMachineImports_List c opts = request GET
     [Namespace (tc_ns c), Resource ''virtualmachineimports'', VersionedParams (ListParams opts),
      Timeout (timeout_of opts)]
     (DoInto ''VirtualMachineImportList'')"

definition alpha_virtualMachineImports_Watch :: "'c typed_client \<Rightarrow> list_options \<Rightarrow> 'b rest_request" where
  "alpha_virtualMachineImports_Watch c opts = request GET
     [Namespace (tc_ns c), Resource ''virtualmachineimports'',
      VersionedParams (ListParams (opts\<lparr>lo_watch := True\<rparr>)), Timeout (timeout_of opts)]
     Watch"

definition alpha_virtualMachineImports_Create :: "'c typed_client \<Rightarrow> 'b api_object \<Rightarrow> 'b rest_request" where
  "alpha_virtualMachineImports_Create c obj = request POST
     [Namespace (tc_ns c), Resource ''virtualmachineimports'', Body (ao_body obj)]
     (DoInto ''VirtualMachineImport'')"

definition alpha_virtualMachineImports_Update :: "'c typed_client \<Rightarrow> 'b api_object \<Rightarrow> 'b rest_request" where
  "alpha_virtualMachineImports_Update c obj = request PUT
     [Namespace (tc_ns c), Resource ''virtualmachineimports'', Name (ao_name obj), Body (ao_body obj)]
     (DoInto ''VirtualMachineImport'')"

definition alpha_virtualMachineImports_UpdateStatus :: "'c typed_client \<Rightarrow> 'b api_object \<Rightarrow> 'b rest_request" where
  "alpha_virtualMachineImports_UpdateStatus c obj = request PUT
     [Namespace (tc_ns c), Resource ''virtualmachineimports'', Name (ao_name obj), SubResource [''status''],
      Body (ao_body obj)]
     (DoInto ''VirtualMachineImport'')"

definition alpha_virtualMachineImports_Delete :: "'c typed_client \<Rightarrow> string \<Rightarrow> 'b \<Rightarrow> 'b rest_request" where
  "alpha_virtualMachineImports_Delete c name options = request DELETE
     [Namespace (tc_ns c), Resource ''virtualmachineimports'', Name name, Body options]
     DoError"

definition alpha_virtualMachineImports_DeleteCollection :: "'c typed_client \<Rightarrow> 'b \<Rightarrow> list_options \<Rightarrow> 'b rest_request" where
  "alpha_virtualMachineImports_DeleteCollection c options listOptions = request DELETE
     [Namespace (tc_ns c), Resource ''virtualmachineimports'', VersionedParams (ListParams listOptions),
      Timeout (timeout_of listOptions), Body options]
     DoError"

definition alpha_virtualMachineImports_Patch :: "'c typed_client \<Rightarrow> string \<Rightarrow> string \<Rightarrow> 'b \<Rightarrow> string list \<Rightarrow> 'b rest_request" where
  "alpha_virtualMachineImports_Patch c name pt data subresources = request (PATCH pt)
     [Namespace (tc_ns c), Resource ''virtualmachineimports'', SubResource subresources, Name name, Body data]
     (DoInto ''VirtualMachineImport'')"

section \<open>The clients of a group and the client set\<close>

definition ResourceMappings :: "'c v2v_client \<Rightarrow> string \<Rightarrow> 'c typed_client" where
  "ResourceMappings c namespace = newResourceMappings c namespace"

definition VirtualMachineImports :: "'c v2v_client \<Rightarrow> string \<Rightarrow> 'c typed_client" where
  "VirtualMachineImports c namespace = newVirtualMachineImports c namespace"

definition alpha_ResourceMappings :: "'c v2v_client \<Rightarrow> string \<Rightarrow> 'c typed_client" where
  "alpha_ResourceMappings c namespace = alpha_newResourceMappings c namespace"

definition alpha_VirtualMachineImports :: "'c v2v_client \<Rightarrow> string \<Rightarrow> 'c typed_client" where
  "alpha_VirtualMachineImports c namespace = alpha_newVirtualMachineImports c namespace"

record ('c, 'd) clientset =
  cs_DiscoveryClient :: 'd
  cs_v2vV1beta1 :: "'c v2v_client"

definition Clientset_V2vV1beta1 :: "('c, 'd) clientset \<Rightarrow> 'c v2v_client" where
  "Clientset_V2vV1beta1 c = cs_v2vV1beta1 c"

definition Clientset_Discovery :: "('c, 'd) clientset option \<Rightarrow> 'd option" where
  "Clientset_Discovery c = (case c of None \<Rightarrow> None | Some cs \<Rightarrow> Some (cs_DiscoveryClient cs))"

text \<open>The part of \<open>NewForConfig\<close> that sets the limiter on its own copy of the configuration.\<close>

definition limit_rate :: "rest_config \<Rightarrow> go_error + rest_config" where
  "limit_rate c =
     (if rc_rate_limiter c = None \<and> rc_qps c > 0 then
        if rc_burst c \<le> 0
        then Inl (errorf ''Burst is required to be greater than 0 when RateLimiter is not set and QPS is set to greater than 0'')
        else Inr (c\<lparr>rc_rate_limiter := Some (rc_qps c, rc_burst c)\<rparr>)
      else Inr c)"

definition NewForConfig :: "('c, 'd) rest_library \<Rightarrow> rest_config \<Rightarrow> go_error + ('c, 'd) clientset" where
  "NewForConfig lib c =
     rbind (limit_rate c) (\<lambda>config.
     rbind (V2vNewForConfig lib config) (\<lambda>v2v.
     rbind (NewDiscoveryClientForConfig lib config) (\<lambda>discovery.
       Inr \<lparr>cs_DiscoveryClient = discovery, cs_v2vV1beta1 = v2v\<rparr>)))"

definition NewForConfigOrDie :: "('c, 'd) rest_library \<Rightarrow> rest_config \<Rightarrow> go_error + ('c, 'd) clientset" where
  "NewForConfigOrDie lib c =
     rbind (V2vNewForConfigOrDie lib c) (\<lambda>v2v.
     rbind (or_die (NewDiscoveryClientForConfig lib c)) (\<lambda>discovery.
       Inr \<lparr>cs_DiscoveryClient = discovery, cs_v2vV1beta1 = v2v\<rparr>))"

definition New :: "('c, 'd) rest_library \<Rightarrow> 'c \<Rightarrow> ('c, 'd) clientset" where
  "New lib c = \<lparr>cs_DiscoveryClient = NewDiscoveryClient lib c, cs_v2vV1beta1 = V2vNew c\<rparr>"

section \<open>The scheme\<close>

text \<open>\<open>SchemeBuilder.Register\<close> in the \<open>init\<close> functions of the types: the kinds of a version.\<close>

type_synonym scheme_builder = "group_version \<times> string list"

definition mapping_kinds :: "string list" where "mapping_kinds = [''ResourceMapping'', ''ResourceMappingList'']"
definition import_kinds :: "string list" where "import_kinds = [''VirtualMachineImport'', ''VirtualMachineImportList'']"
definition config_kinds :: "string list" where "config_kinds = [''VMImportConfig'', ''VMImportConfigList'']"

definition SchemeBuilder :: scheme_builder where
  "SchemeBuilder = (SchemeGroupVersion, mapping_kinds @ import_kinds @ config_kinds)"

definition alpha_SchemeBuilder :: scheme_builder where
  "alpha_SchemeBuilder = (alpha_SchemeGroupVersion, mapping_kinds @ import_kinds @ config_kinds)"

text \<open>\<open>localSchemeBuilder\<close> of the client set, from which \<open>Scheme\<close>, \<open>Codecs\<close> and \<open>ParameterCodec\<close> have their types\<close>

definition localSchemeBuilder :: "scheme_builder list" where
  "localSchemeBuilder = [SchemeBuilder]"

end
