(* ===== verification/TypedSpec.thy ===== *)
theory TypedSpec
  imports TypedClient
begin

text \<open>
  The requests of the typed clients against the resource definitions that the operator installs: the client and
  the cluster agree on groups, versions, names, scopes and subresources.
\<close>

section \<open>What a definition serves\<close>

fun call_served :: "crd \<Rightarrow> crd_version \<Rightarrow> 'b rest_call \<Rightarrow> bool" where
  "call_served d v (Namespace _) \<longleftrightarrow> cr_scope d = ''Namespaced''"
| "call_served d v (Resource r) \<longleftrightarrow> r = cr_plural d"
| "call_served d v (SubResource ss) \<longleftrightarrow> ss = [] \<or> ss = [''status''] \<and> cv_status v"
| "call_served d v _ \<longleftrightarrow> True"

fun names_object :: "'b rest_call \<Rightarrow> bool" where
  "names_object (Name _) = True"
| "names_object _ = False"

text \<open>The kind that is sent back: that of one object where one is named or created, and the list otherwise.\<close>

definition answer_kind :: "crd \<Rightarrow> 'b rest_request \<Rightarrow> string" where
  "answer_kind d rq = (if list_ex names_object (rr_calls rq) \<or> rr_verb rq = POST then cr_kind d else cr_list_kind d)"

fun ends_with_kind :: "string \<Rightarrow> rest_end \<Rightarrow> bool" where
  "ends_with_kind k (DoInto k') \<longleftrightarrow> k = k'"
| "ends_with_kind k _ \<longleftrightarrow> True"

definition served :: "crd \<Rightarrow> group_version \<Rightarrow> string \<Rightarrow> 'b rest_request \<Rightarrow> bool" where
  "served d gv ns rq \<longleftrightarrow> cr_group d = fst gv \<and>
     list_ex (\<lambda>v. cv_name v = snd gv \<and> cv_served v \<and> list_all (call_served d v) (rr_calls rq)) (cr_versions d) \<and>
     take 2 (rr_calls rq) = [Namespace ns, Resource (cr_plural d)] \<and>
     ends_with_kind (answer_kind d rq) (rr_end rq)"

text \<open>The kinds that a scheme knows for a version.\<close>

definition registered :: "scheme_builder list \<Rightarrow> group_version \<Rightarrow> rest_end \<Rightarrow> bool" where
  "registered builders gv e \<longleftrightarrow>
     (case e of
        DoInto k \<Rightarrow> (case map_of builders gv of Some ks \<Rightarrow> k \<in> set ks | None \<Rightarrow> False)
      | _ \<Rightarrow> True)"

section \<open>The requests of a client\<close>

definition import_requests :: "'c typed_client \<Rightarrow> string \<Rightarrow> string \<Rightarrow> list_options \<Rightarrow> 'b api_object \<Rightarrow> 'b \<Rightarrow> string \<Rightarrow> string list \<Rightarrow> 'b rest_request list" where
  "import_requests c name options opts obj b pt subresources =
     [virtualMachineImports_Get c name options, virtualMachineImports_List c opts, virtualMachineImports_Watch c opts,
      virtualMachineImports_Create c obj, virtualMachineImports_Update c obj, virtualMachineImports_UpdateStatus c obj,
      virtualMachineImports_Delete c name b, virtualMachineImports_DeleteCollection c b opts,
      virtualMachineImports_Patch c name pt b subresources]"

definition mapping_requests :: "'c typed_client \<Rightarrow> string \<Rightarrow> string \<Rightarrow> list_options \<Rightarrow> 'b api_object \<Rightarrow> 'b \<Rightarrow> string \<Rightarrow> string list \<Rightarrow> 'b rest_request list" where
  "mapping_requests c name options opts obj b pt subresources =
     [resourceMappings_Get c name options, resourceMappings_List c opts, resourceMappings_Watch c opts,
      resourceMappings_Create c obj, resourceMappings_Update c obj, resourceMappings_UpdateStatus c obj,
      resourceMappings_Delete c name b, resourceMappings_DeleteCollection c b opts,
      resourceMappings_Patch c name pt b subresources]"

definition alpha_import_requests :: "'c typed_client \<Rightarrow> string \<Rightarrow> string \<Rightarrow> list_options \<Rightarrow> 'b api_object \<Rightarrow> 'b \<Rightarrow> string \<Rightarrow> string list \<Rightarrow> 'b rest_request list" where
  "alpha_import_requests c name options opts obj b pt subresources =
     [alpha_virtualMachineImports_Get c name options, alpha_virtualMachineImports_List c opts,
      alpha_virtualMachineImports_Watch c opts, alpha_virtualMachineImports_Create c obj,
      alpha_virtualMachineImports_Update c obj, alpha_virtualMachineImports_UpdateStatus c obj,
      alpha_virtualMachineImports_Delete c name b, alpha_virtualMachineImports_DeleteCollection c b opts,
      alpha_virtualMachineImports_Patch c name pt b subresources]"

definition alpha_mapping_requests :: "'c typed_client \<Rightarrow> string \<Rightarrow> string \<Rightarrow> list_options \<Rightarrow> 'b api_object \<Rightarrow> 'b \<Rightarrow> string \<Rightarrow> string list \<Rightarrow> 'b rest_request list" where
  "alpha_mapping_requests c name options opts obj b pt subresources =
     [alpha_resourceMappings_Get c name options, alpha_resourceMappings_List c opts,
      alpha_resourceMappings_Watch c opts, alpha_resourceMappings_Create c obj,
      alpha_resourceMappings_Update c obj, alpha_resourceMappings_UpdateStatus c obj,
      alpha_resourceMappings_Delete c name b, alpha_resourceMappings_DeleteCollection c b opts,
      alpha_resourceMappings_Patch c name pt b subresources]"

lemmas beta_request_defs = virtualMachineImports_Get_def virtualMachineImports_List_def virtualMachineImports_Watch_def
  virtualMachineImports_Create_def virtualMachineImports_Update_def virtualMachineImports_UpdateStatus_def
  virtualMachineImports_Delete_def virtualMachineImports_DeleteCollection_def virtualMachineImports_Patch_def
  resourceMappings_Get_def resourceMappings_List_def resourceMappings_Watch_def
  resourceMappings_Create_def resourceMappings_Update_def resourceMappings_UpdateStatus_def
  resourceMappings_Delete_def resourceMappings_DeleteCollection_def resourceMappings_Patch_def

lemmas alpha_request_defs = alpha_virtualMachineImports_Get_def alpha_virtualMachineImports_List_def
  alpha_virtualMachineImports_Watch_def alpha_virtualMachineImports_Create_def alpha_virtualMachineImports_Update_def
  alpha_virtualMachineImports_UpdateStatus_def alpha_virtualMachineImports_Delete_def
  alpha_virtualMachineImports_DeleteCollection_def alpha_virtualMachineImports_Patch_def
  alpha_resourceMappings_Get_def alpha_resourceMappings_List_def alpha_resourceMappings_Watch_def
  alpha_resourceMappings_Create_def alpha_resourceMappings_Update_def alpha_resourceMappings_UpdateStatus_def
  alpha_resourceMappings_Delete_def alpha_resourceMappings_DeleteCollection_def alpha_resourceMappings_Patch_def

lemmas served_defs = served_def answer_kind_def registered_def

lemma import_requests_served:
  assumes "subs = [] \<or> subs = [''status'']"
  shows "list_all (\<lambda>rq. served CreateVMImport SchemeGroupVersion (tc_ns c) rq \<and>
      registered localSchemeBuilder SchemeGroupVersion (rr_end rq)) (import_requests c name options opts obj b pt subs)"
  using assms by (auto simp: import_requests_def beta_request_defs served_defs CreateVMImport_def SchemeGroupVersion_def
      localSchemeBuilder_def SchemeBuilder_def import_kinds_def)

lemma mapping_requests_served:
  assumes "subs = [] \<or> subs = [''status'']"
  shows "list_all (\<lambda>rq. served CreateResourceMapping SchemeGroupVersion (tc_ns c) rq \<and>
      registered localSchemeBuilder SchemeGroupVersion (rr_end rq)) (mapping_requests c name options opts obj b pt subs)"
  using assms by (auto simp: mapping_requests_def beta_request_defs served_defs CreateResourceMapping_def
      SchemeGroupVersion_def localSchemeBuilder_def SchemeBuilder_def mapping_kinds_def)

lemma alpha_requests_served:
  assumes "subs = [] \<or> subs = [''status'']"
  shows "list_all (served CreateVMImport alpha_SchemeGroupVersion (tc_ns c))
      (alpha_import_requests c name options opts obj b pt subs)"
    and "list_all (served CreateResourceMapping alpha_SchemeGroupVersion (tc_ns c))
      (alpha_mapping_requests c name options opts obj b pt subs)"
  using assms by (auto simp: alpha_import_requests_def alpha_mapping_requests_def alpha_request_defs served_defs
      CreateVMImport_def CreateResourceMapping_def alpha_SchemeGroupVersion_def)

section \<open>The client set\<close>

text \<open>A configuration that asks for a rate without a burst is refused; otherwise the limiter is set once.\<close>

lemma limit_rate_result:
  "limit_rate c = Inr c' \<Longrightarrow> (rc_qps c' > 0 \<longrightarrow> rc_rate_limiter c' \<noteq> None) \<and> rc_group_version c' = rc_group_version c"
  by (auto simp: limit_rate_def split: if_splits)

lemma V2vNewForConfig_version:
  assumes "\<forall>cfg c. RESTClientFor lib cfg = Inr c \<longrightarrow> version_of c = rc_group_version cfg"
    and "V2vNewForConfig lib cfg = Inr v"
  shows "version_of (restClient v) = Some SchemeGroupVersion"
  using assms by (auto simp: V2vNewForConfig_def setConfigDefaults_def rbind_Inr)

text \<open>
  C30. The requests of the client set fit the resource definitions of the operator.  Given that a REST client uses the
  version of its configuration: the clients for imports and mappings of a client set use the version that the
  scheme of the program has; every request is for the plural and the namespace of a definition that serves the
  version, with a subresource that the version has; and what is decoded is the kind of the definition, which the
  scheme has registered.
\<close>

theorem typed_requests_served:
  assumes "\<forall>cfg c. RESTClientFor lib cfg = Inr c \<longrightarrow> version_of c = rc_group_version cfg"
    and "NewForConfig lib cfg = Inr cs" and "subs = [] \<or> subs = [''status'']"
  shows "version_of (tc_client (VirtualMachineImports (Clientset_V2vV1beta1 cs) ns)) = Some SchemeGroupVersion \<and>
    version_of (tc_client (ResourceMappings (Clientset_V2vV1beta1 cs) ns)) = Some SchemeGroupVersion \<and>
    (\<forall>rq \<in> set (import_requests (VirtualMachineImports (Clientset_V2vV1beta1 cs) ns) name options opts obj b pt subs).
       served CreateVMImport SchemeGroupVersion ns rq \<and> registered localSchemeBuilder SchemeGroupVersion (rr_end rq)) \<and>
    (\<forall>rq \<in> set (mapping_requests (ResourceMappings (Clientset_V2vV1beta1 cs) ns) name options opts obj b pt subs).
       served CreateResourceMapping SchemeGroupVersion ns rq \<and> registered localSchemeBuilder SchemeGroupVersion (rr_end rq))"
proof -
  from assms(2) obtain cfg' where "V2vNewForConfig lib cfg' = Inr (cs_v2vV1beta1 cs)"
    by (auto simp: NewForConfig_def rbind_Inr)
  from V2vNewForConfig_version [OF assms(1) this]
  have v: "version_of (restClient (Clientset_V2vV1beta1 cs)) = Some SchemeGroupVersion"
    by (simp add: Clientset_V2vV1beta1_def)
  have i: "tc_client (VirtualMachineImports c ns) = restClient c" "tc_ns (VirtualMachineImports c ns) = ns"
    "tc_client (ResourceMappings c ns) = restClient c" "tc_ns (ResourceMappings c ns) = ns" for c :: "'a v2v_client"
    by (simp_all add: VirtualMachineImports_def newVirtualMachineImports_def ResourceMappings_def newResourceMappings_def)
  show ?thesis
    using v import_requests_served [OF assms(3), of "VirtualMachineImports (Clientset_V2vV1beta1 cs) ns" name options opts obj b pt]
      mapping_requests_served [OF assms(3), of "ResourceMappings (Clientset_V2vV1beta1 cs) ns" name options opts obj b pt]
    by (simp add: i list_all_iff)
qed

definition demo_library :: "(rest_config, rest_config) rest_library" where
  "demo_library = \<lparr>RESTClientFor = Inr, NewDiscoveryClientForConfig = Inr, NewDiscoveryClient = (\<lambda>c. c),
     DefaultKubernetesUserAgent = ''agent''\<rparr>"

definition demo_rest_config :: rest_config where
  "demo_rest_config = \<lparr>rc_group_version = None, rc_api_path = [], rc_serializer = None, rc_user_agent = [],
     rc_qps = 5, rc_burst = 10, rc_rate_limiter = None\<rparr>"

theorem typed_requests_served_witness:
  "\<exists>cs. NewForConfig demo_library demo_rest_config = Inr cs \<and>
     served CreateVMImport SchemeGroupVersion ''ns''
       (virtualMachineImports_UpdateStatus (VirtualMachineImports (Clientset_V2vV1beta1 cs) ''ns'')
         \<lparr>ao_name = ''import'', ao_body = ()\<rparr>)"
proof -
  have lib: "\<forall>cfg c. RESTClientFor demo_library cfg = Inr c \<longrightarrow> rc_group_version c = rc_group_version cfg"
    by (simp add: demo_library_def)
  obtain cs where cs: "NewForConfig demo_library demo_rest_config = Inr cs"
    by (simp add: NewForConfig_def limit_rate_def V2vNewForConfig_def setConfigDefaults_def rbind_def demo_library_def
        demo_rest_config_def)
  show ?thesis
    using typed_requests_served [OF lib cs, of "[''status'']" "''ns''" "''import''" "[]"
        "\<lparr>lo_selectors = ([], []), lo_timeout = None, lo_watch = False\<rparr>" "\<lparr>ao_name = ''import'', ao_body = ()\<rparr>" "()" "[]"] cs
    by (auto simp: import_requests_def)
qed

text \<open>
  The clients of the older version are served as well, but the scheme they encode and decode with knows none
  of its kinds.
\<close>

theorem alpha_kinds_unregistered:
  assumes "\<forall>cfg c. RESTClientFor lib cfg = Inr c \<longrightarrow> version_of c = rc_group_version cfg"
    and "alpha_V2vNewForConfig lib cfg = Inr c"
  shows "version_of (tc_client (alpha_VirtualMachineImports c ns)) = Some alpha_SchemeGroupVersion \<and>
    served CreateVMImport alpha_SchemeGroupVersion ns (alpha_virtualMachineImports_Get (alpha_VirtualMachineImports c ns) name options) \<and>
    \<not> registered localSchemeBuilder alpha_SchemeGroupVersion
        (rr_end (alpha_virtualMachineImports_Get (alpha_VirtualMachineImports c ns) name options))"
  using assms
  by (auto simp: alpha_V2vNewForConfig_def alpha_setConfigDefaults_def rbind_Inr alpha_VirtualMachineImports_def
      alpha_newVirtualMachineImports_def registered_def localSchemeBuilder_def SchemeBuilder_def served_defs
      CreateVMImport_def SchemeGroupVersion_def alpha_SchemeGroupVersion_def alpha_request_defs)

text \<open>The timeout of a list is exact for 292 years, and wraps around beyond.\<close>

lemma timeout_exact:
  assumes "lo_timeout opts = Some s" "\<bar>sint s\<bar> \<le> 9223372036"
  shows "sint (timeout_of opts) = sint s * 1000000000"
proof -
  have "sint (s * 1000000000) = signed_take_bit 63 (sint s * 1000000000)"
    by (simp add: sint_word_ariths)
  also have "\<dots> = sint s * 1000000000"
    using assms(2) by (intro signed_take_bit_int_eq_self) auto
  finally show ?thesis
    using assms(1) by (simp add: timeout_of_def Second_def)
qed

lemma timeout_wraps: "sint (timeout_of \<lparr>lo_selectors = ([], []), lo_timeout = Some 9223372037, lo_watch = False\<rparr>) < 0"
  by (simp add: timeout_of_def Second_def)

end
