(* ===== verification/Startup.thy ===== *)
theory Startup
  imports Prelude
begin

text \<open>
  The start of both programs: \<open>cmd/manager/main.go\<close>, which runs the controller, and \<open>cmd/operator/operator.go\<close>.
  Each is a sequence of calls of libraries, of which every one may fail; \<open>fails\<close> says which do.  The world is the
  list of the calls made so far, with whether they succeeded.  \<open>os.Exit(1)\<close> ends the process and no deferred
  function runs, as an error that nothing handles.  Flags and the messages of the log are left out.
\<close>

section \<open>Steps\<close>

datatype startup_step =
  GetWatchNamespace
| GetConfig
| Become string
| NewManager bool  \<comment> \<open>whether it serves metrics\<close>
| AddToScheme string
| GetNamespace
| NewConfigProviders
| AddController string
| GetGVKsFromAddToScheme
| GetOperatorNamespace
| GenerateAndServeCRMetrics "string list"
| Start

type_synonym trace = "(startup_step \<times> bool) list"

definition attempt :: "(startup_step \<Rightarrow> go_error option) \<Rightarrow> startup_step \<Rightarrow> (trace, unit) go" where
  "attempt fails s tr = (case fails s of
     Some e \<Rightarrow> (Inl (errorf (emsg e)), tr @ [(s, False)])
   | None \<Rightarrow> (Inr (), tr @ [(s, True)]))"

abbreviation exit_1 :: go_error where
  "exit_1 \<equiv> GoErr Panicked ''exit status 1''"

text \<open>\<open>if err != nil { log.Error(err, ...); os.Exit(1) }\<close>\<close>

definition or_exit :: "(trace, unit) go \<Rightarrow> (trace, unit) go" where
  "or_exit m = gtry m (\<lambda>_. gfail exit_1) gret"

text \<open>Becoming the leader may fail when the program is run for debugging (\<open>DEV_LOCAL_DEBUG\<close>).\<close>

definition or_debug :: "string \<Rightarrow> (trace, unit) go \<Rightarrow> (trace, unit) go" where
  "or_debug debug m = gtry m (\<lambda>_. if debug = [] then gfail exit_1 else gret ()) gret"

fun in_order :: "(trace, unit) go list \<Rightarrow> (trace, unit) go" where
  "in_order [] = gret ()"
| "in_order (m # ms) = gbind m (\<lambda>_. in_order ms)"

section \<open>The controller\<close>

text \<open>\<open>AddToManagerFuncs\<close>, to which \<open>add_virtualmachineimport.go\<close> appends\<close>

definition AddToManagerFuncs :: "string list" where
  "AddToManagerFuncs = [''virtualmachineimport'']"

fun add_all :: "(startup_step \<Rightarrow> go_error option) \<Rightarrow> string list \<Rightarrow> (trace, unit) go" where
  "add_all fails [] = gret ()"
| "add_all fails (f # fs) = gbind (attempt fails (AddController f)) (\<lambda>_. add_all fails fs)"

definition AddToManager :: "(startup_step \<Rightarrow> go_error option) \<Rightarrow> (trace, unit) go" where
  "AddToManager fails = add_all fails AddToManagerFuncs"

text \<open>The kinds of the program's own types that the controller serves metrics for.\<close>

definition controllerGVKs :: "string list \<Rightarrow> string list" where
  "controllerGVKs filteredGVK = filter (\<lambda>k. k = ''ResourceMapping'' \<or> k = ''VirtualMachineImport'') filteredGVK"

definition serveCRMetrics :: "(startup_step \<Rightarrow> go_error option) \<Rightarrow> string list \<Rightarrow> (trace, unit) go" where
  "serveCRMetrics fails kinds = in_order
     [attempt fails GetGVKsFromAddToScheme,
      attempt fails GetOperatorNamespace,
      attempt fails (GenerateAndServeCRMetrics (controllerGVKs kinds))]"

definition manager_main :: "(startup_step \<Rightarrow> go_error option) \<Rightarrow> string \<Rightarrow> string list \<Rightarrow> (trace, unit) go" where
  "manager_main fails debug kinds = in_order
     [or_exit (attempt fails GetWatchNamespace),
      or_exit (attempt fails GetConfig),
      or_debug debug (attempt fails (Become ''vm-import-operator-lock'')),
      or_exit (attempt fails (NewManager True)),
      or_exit (attempt fails (AddToScheme ''apis'')),
      or_exit (attempt fails (AddToScheme ''kubevirtv1'')),
      or_exit (attempt fails (AddToScheme ''cdiv1'')),
      or_exit (attempt fails (AddToScheme ''netv1'')),
      or_exit (attempt fails GetNamespace),
      gtry (attempt fails NewConfigProviders) (\<lambda>e. gfail (GoErr Panicked (emsg e))) gret,
      or_exit (AddToManager fails),
      gtry (serveCRMetrics fails kinds) (\<lambda>_. gret ()) gret,
      or_exit (attempt fails Start)]"

section \<open>The operator\<close>

definition operator_main :: "(startup_step \<Rightarrow> go_error option) \<Rightarrow> string \<Rightarrow> (trace, unit) go" where
  "operator_main fails debug = in_order
     [or_exit (attempt fails GetWatchNamespace),
      or_exit (attempt fails GetConfig),
      or_debug debug (attempt fails (Become ''import-operator-lock'')),
      or_exit (attempt fails (NewManager False)),
      or_exit (attempt fails (AddToScheme ''apis'')),
      or_exit (attempt fails (AddToScheme ''extv1'')),
      or_exit (attempt fails (AddToScheme ''monitoringv1'')),
      or_exit (attempt fails (AddController ''vmimportconfig'')),
      or_exit (attempt fails Start)]"

section \<open>What a start has done\<close>

lemma attempt_result:
  "attempt fails s tr = ((case fails s of Some e \<Rightarrow> Inl (errorf (emsg e)) | None \<Rightarrow> Inr ()), tr @ [(s, fails s = None)])"
  by (simp add: attempt_def split: option.split)

lemma or_exit_attempt:
  "or_exit (attempt fails s) tr = ((if fails s = None then Inr () else Inl exit_1), tr @ [(s, fails s = None)])"
  by (auto simp: or_exit_def gtry_unfold attempt_result gfail_def gret_def split: option.split)

lemma or_debug_attempt:
  "or_debug debug (attempt fails s) tr =
     ((if fails s = None \<or> debug \<noteq> [] then Inr () else Inl exit_1), tr @ [(s, fails s = None)])"
  by (auto simp: or_debug_def gtry_unfold attempt_result gfail_def gret_def split: option.split)

lemmas start_defs = in_order.simps gbind_unfold gret_def or_exit_attempt or_debug_attempt attempt_result

lemma AddToManager_exit:
  "or_exit (AddToManager fails) tr =
     ((if fails (AddController ''virtualmachineimport'') = None then Inr () else Inl exit_1),
      tr @ [(AddController ''virtualmachineimport'', fails (AddController ''virtualmachineimport'') = None)])"
  by (auto simp: AddToManager_def AddToManagerFuncs_def or_exit_def gtry_unfold gbind_unfold attempt_result gfail_def gret_def
      split: option.split)

text \<open>The metrics of resources are not needed for a start: whatever fails there is only logged.\<close>

lemma serveCRMetrics_optional:
  "\<exists>rest. gtry (serveCRMetrics fails kinds) (\<lambda>_. gret ()) gret tr = (Inr (), tr @ rest) \<and> Start \<notin> fst ` set rest"
  by (auto simp: serveCRMetrics_def start_defs gtry_unfold split: option.split)

definition manager_needs :: "startup_step list" where
  "manager_needs =
     [GetWatchNamespace, GetConfig, NewManager True, AddToScheme ''apis'', AddToScheme ''kubevirtv1'', AddToScheme ''cdiv1'',
      AddToScheme ''netv1'', GetNamespace, NewConfigProviders, AddController ''virtualmachineimport'']"

definition operator_needs :: "startup_step list" where
  "operator_needs =
     [GetWatchNamespace, GetConfig, NewManager False, AddToScheme ''apis'', AddToScheme ''extv1'',
      AddToScheme ''monitoringv1'', AddController ''vmimportconfig'']"

text \<open>
  The controllers are started exactly when every step that the program needs has succeeded, and the program is
  the leader or is debugged; the two programs wait for different locks.
\<close>

theorem operator_starts:
  "(Start, b) \<in> set (snd (operator_main fails debug [])) \<longleftrightarrow>
     b = (fails Start = None) \<and> list_all (\<lambda>s. fails s = None) operator_needs \<and>
     (fails (Become ''import-operator-lock'') = None \<or> debug \<noteq> [])"
  by (auto simp: operator_main_def operator_needs_def start_defs)

theorem manager_starts:
  "(Start, b) \<in> set (snd (manager_main fails debug kinds [])) \<longleftrightarrow>
     b = (fails Start = None) \<and> list_all (\<lambda>s. fails s = None) manager_needs \<and>
     (fails (Become ''vm-import-operator-lock'') = None \<or> debug \<noteq> [])"
proof -
  define tr where "tr =
    [(GetWatchNamespace, True), (GetConfig, True),
     (Become ''vm-import-operator-lock'', fails (Become ''vm-import-operator-lock'') = None), (NewManager True, True),
     (AddToScheme ''apis'', True), (AddToScheme ''kubevirtv1'', True), (AddToScheme ''cdiv1'', True), (AddToScheme ''netv1'', True),
     (GetNamespace, True), (NewConfigProviders, True), (AddController ''virtualmachineimport'', True)]"
  obtain rest where "gtry (serveCRMetrics fails kinds) (\<lambda>_. gret ()) gret tr = (Inr (), tr @ rest)" "Start \<notin> fst ` set rest"
    using serveCRMetrics_optional by blast
  then show ?thesis
    by (cases "fails NewConfigProviders")
      (auto simp: manager_main_def manager_needs_def start_defs AddToManager_exit gtry_unfold gfail_def tr_def rev_image_eqI)
qed

end
