(* ===== verification/Metrics.thy ===== *)
theory Metrics
  imports Cluster
begin

text \<open>
  \<open>metrics/metrics.go\<close>: a counter and a histogram of durations, each with a label for the result.  The world has the
  counters and the samples; a Prometheus vector gives a metric for every label, which starts at zero.
\<close>

section \<open>Counters\<close>

definition IncFailed :: "('p, unit) op" where "IncFailed = inc_counter ResultFailed"
definition IncSuccessful :: "('p, unit) op" where "IncSuccessful = inc_counter ResultSuccessful"
definition IncCancelled :: "('p, unit) op" where "IncCancelled = inc_counter ResultCancelled"

definition counter_value :: "import_result \<Rightarrow> 'p world \<Rightarrow> nat" where
  "counter_value r w = w_counters w r"

definition GetFailed :: "('p, nat) op" where "GetFailed = gread (counter_value ResultFailed)"
definition GetSuccessful :: "('p, nat) op" where "GetSuccessful = gread (counter_value ResultSuccessful)"
definition GetCancelled :: "('p, nat) op" where "GetCancelled = gread (counter_value ResultCancelled)"

section \<open>Durations\<close>

definition SaveDurationFailed :: "int \<Rightarrow> ('p, unit) op" where "SaveDurationFailed d = save_duration ResultFailed d"
definition SaveDurationSuccessful :: "int \<Rightarrow> ('p, unit) op" where "SaveDurationSuccessful d = save_duration ResultSuccessful d"
definition SaveDurationCancelled :: "int \<Rightarrow> ('p, unit) op" where "SaveDurationCancelled d = save_duration ResultCancelled d"

definition samples :: "import_result \<Rightarrow> 'p world \<Rightarrow> int list" where
  "samples r w = map snd (filter (\<lambda>(q, _). q = r) (w_durations w))"

definition getCountDurationSamples :: "import_result \<Rightarrow> ('p, nat) op" where
  "getCountDurationSamples r = gread (\<lambda>w. length (samples r w))"

definition GetCountDurationSuccessful :: "('p, nat) op" where
  "GetCountDurationSuccessful = getCountDurationSamples ResultSuccessful"

definition GetCountDurationFailed :: "('p, nat) op" where
  "GetCountDurationFailed = getCountDurationSamples ResultFailed"

definition GetCountDurationCancelled :: "('p, nat) op" where
  "GetCountDurationCancelled = getCountDurationSamples ResultCancelled"

text \<open>The upper bounds of the buckets, in seconds; a histogram counts the samples up to each bound.\<close>

definition duration_buckets :: "int list" where
  "duration_buckets = [60, 15 * 60, 60 * 60]"

definition bucket_counts :: "import_result \<Rightarrow> 'p world \<Rightarrow> nat list" where
  "bucket_counts r w = map (\<lambda>bound. length (filter (\<lambda>d. d \<le> bound) (samples r w))) duration_buckets"

section \<open>What the metrics count\<close>

text \<open>\<open>agreed r w\<close>: as many durations of a result have been saved as results were counted.\<close>

definition agreed :: "import_result \<Rightarrow> 'p world \<Rightarrow> bool" where
  "agreed r w \<longleftrightarrow> length (samples r w) = counter_value r w"

lemma counted_and_saved:
  assumes "agreed r w" "gbind (inc_counter q) (\<lambda>_. save_duration q d) w = (res, w')"
  shows "agreed r w'" "counter_value r w' = counter_value r w + (if q = r then 1 else 0)"
  using assms by (auto simp: agreed_def samples_def counter_value_def gbind_unfold inc_counter_def save_duration_def)

text \<open>The buckets are cumulative.\<close>

lemma bucket_counts_sorted: "sorted (bucket_counts r w @ [length (samples r w)])"
proof -
  have "length (filter (\<lambda>d. d \<le> a) xs) \<le> length (filter (\<lambda>d. d \<le> b) xs)" if "a \<le> b" for a b :: int and xs
    using that by (induction xs) auto
  then show ?thesis
    by (simp add: bucket_counts_def duration_buckets_def)
qed

end
