(* ===== verification/Spec2Isabelle.thy ===== *)
theory Spec2Isabelle
  imports Runs RestSpec WakeSpec ValidationSpec MappingSpec DiskSpec MapperSpec ProgressSpec ClientSpec OperatorSpec CrdSpec InstallSpec
    CopySpec TypedSpec Startup Metrics
begin

text \<open>
  A verification library for the virtual machine import operator: a Kubernetes operator that imports virtual
  machines of oVirt and VMware into KubeVirt.  Paths are relative to \<open>src/pkg\<close>.

  \<^bold>\<open>The program.\<close>  An operator deploys a controller.  The controller reconciles custom resources, each of which
  asks for one machine to be imported: it connects to the source, loads the machine, validates it and its
  resource mappings, stops it, creates the KubeVirt machine and a data volume for every disk, waits for the
  copies, runs a conversion of the guest where one is needed, starts the machine, and cleans up.  It keeps no
  state between two runs but what is in the custom resource: the conditions, the data volumes and the name of
  the machine of the status, the annotations of the progress and of the power state of the source, and two
  finalizers.  Everything it does is a call of the Kubernetes client or of a client of the source.

  \<^bold>\<open>The model.\<close>  A Go function is a HOL function of the same name, where that name is free.  \<open>go_error + 'a\<close> is a
  fallible result, a panic being an error of its own kind that no test of an error sees; \<open>('w, 'a) go\<close> is a
  computation that reads and changes the world \<open>'w\<close>.  A pointer is an option, a struct a record, a typed string
  constant a datatype, a Go map an association list where the order of a range matters (the order is then an
  argument, a shuffle) and a function with \<open>None\<close> for no entry elsewhere.  An in-memory object that a
  function changes through its pointer is returned.

  \<^descr> \<open>Prelude\<close>, \<open>GoStrings\<close>: errors, computations and their rules (\<open>frames\<close>, \<open>hoare\<close>, the locale \<open>frame_rel\<close>);
    the functions of \<open>strings\<close>, \<open>strconv\<close> and \<open>fmt\<close> that the code calls.
  \<^descr> \<open>ImportTypes\<close>, \<open>KubeTypes\<close>: the types of \<open>apis/v2v/v1beta1\<close>, and those of Kubernetes, KubeVirt and CDI.
  \<^descr> \<open>Conditions\<close>, \<open>Utils\<close>, \<open>Mappings\<close>: \<open>conditions/conditions.go\<close>, \<open>utils/utils.go\<close>, \<open>mappings\<close> and the
    mergers of both providers.
  \<^descr> \<open>Cluster\<close>: the \<open>world\<close> of the API server, in which any call may fail before or after it takes effect, and
    the functions of \<open>utils\<close>, \<open>metrics\<close> and \<open>config\<close> that call it.
  \<^descr> \<open>Managers\<close>: \<open>secrets\<close>, \<open>configmaps\<close>, \<open>jobs\<close>, \<open>datavolumes\<close>, \<open>virtualmachines\<close>, \<open>ownerreferences\<close>.
  \<^descr> \<open>ProviderApi\<close>, \<open>Controller\<close>: the interfaces of \<open>providers/provider.go\<close> as a record of operations, and
    \<open>controller/virtualmachineimport\<close>, down to \<open>Reconcile\<close>.  \<open>Watches\<close> has the watches that \<open>add\<close> of the same
    file registers, and the requests that a change of an object becomes.
  \<^descr> \<open>Templates\<close>, \<open>OvirtModel\<close>: \<open>templates\<close>, \<open>os\<close>, the finders of operating systems and templates, and the
    objects of the oVirt SDK.
  \<^descr> \<open>OvirtChecks\<close>, \<open>OvirtValidation\<close>, \<open>OvirtMappingValidation\<close>: \<open>providers/ovirt/validation\<close>.
  \<^descr> \<open>OvirtMapper\<close>, \<open>VmwareMapper\<close>, \<open>GuestConversion\<close>: the mappers of both providers and \<open>guestconversion\<close>.
  \<^descr> \<open>Providers\<close>: \<open>providers/ovirt/provider.go\<close> and \<open>providers/vmware/provider.go\<close>, as two values of the record
    of \<open>ProviderApi\<close>.
  \<^descr> \<open>OvirtClient\<close>, \<open>VmwareClient\<close>: the clients of the sources on their SDKs.
  \<^descr> \<open>Operator\<close>: \<open>operator/controller\<close>, and of \<open>operator/resources/operator\<close> what builds the controller's objects.
  \<^descr> \<open>Crds\<close>, \<open>OperatorCsv\<close>: of the same file, the definitions of the three custom resources with the schemas of all
    their versions, a definition per part of a schema, and the manifest for the lifecycle manager that
    \<open>tools/csv-generator\<close> prints.  Texts for users are left out.
  \<^descr> \<open>Schema\<close>: JSON, schemas, and what the API server does with a document: \<open>prune\<close> and \<open>accepts\<close>, from the
    package \<open>apiextensions-apiserver\<close> of the repository's \<open>vendor\<close> directory, as far as the program's schemas need it.
  \<^descr> \<open>ApiJson\<close>, \<open>AlphaTypes\<close>: the JSON form of the types of \<open>apis/v2v/v1beta1\<close>, by the tags of their fields, and the
    older types of \<open>apis/v2v/v1alpha1\<close> with theirs.
  \<^descr> \<open>Memory\<close>, \<open>DeepCopy\<close>, \<open>AlphaCopy\<close>: a heap of allocations with the values that lie in it, and the types of both
    versions as they lie there, with the copies of their \<open>zz_generated.deepcopy.go\<close>.  Everywhere else an object is a
    value, and a \<open>DeepCopy\<close> in the code is that value again.
  \<^descr> \<open>Metrics\<close>, \<open>Startup\<close>: the rest of \<open>metrics/metrics.go\<close>, and the two programs under \<open>cmd\<close>: what must succeed before
    the controllers start.
  \<^descr> \<open>TypedClient\<close>: the generated clients of \<open>api-client/clientset\<close>, as the requests they build.

  \<^bold>\<open>The interfaces.\<close>  Each is a locale, interpreted on the definitions of the model.
  \<^item> \<open>object_store\<close> (\<open>Managers\<close>): what the managers need of a collection; \<open>secrets\<close>, \<open>config_maps\<close>, \<open>jobs\<close>.  Its
    extension \<open>quiet_store\<close> adds that writing leaves imports, machines and volumes alone.
  \<^item> \<open>provider_contract\<close> (\<open>ProviderContract\<close>): what the controller relies on when it calls a provider; \<open>ovirt\<close> and
    \<open>vmware\<close> in \<open>ProviderLaws\<close>, and both together as \<open>program\<close> of \<open>providers\<close>.
  \<^item> \<open>import_rel\<close> and its extensions up to \<open>reconcile_rel\<close> (\<open>ControllerFrames\<close>): a relation of worlds that every
    step of the controller respects is respected by \<open>Reconcile\<close>; \<open>wellformed\<close>, \<open>unsuccessful\<close>, \<open>identity\<close> are the
    relations it is used for, and the locale \<open>condition_invariant\<close> gives one for each invariant of conditions.
  \<^item> \<open>frame_rel\<close> (\<open>Prelude\<close>): any reflexive and transitive relation; \<open>provider_step\<close>, \<open>keeps_disks\<close>, \<open>quiet\<close>,
    \<open>keeps_phases\<close>, \<open>silent\<close>, \<open>rests\<close>, \<open>keeps_jobs\<close>, \<open>waits\<close>.
  \<^item> \<open>waiting_contract\<close> (\<open>WaitFrames\<close>) and \<open>waking_contract\<close> (\<open>WaitSpec\<close>) extend \<open>provider_contract\<close> by what waiting
    relies on: which jobs, volumes and watches a provider leaves alone, makes, and with which owner.

  \<^bold>\<open>What is shown.\<close>
  \<^item> The whole reconciler with both providers (\<open>ControllerProps\<close>, \<open>Blocking\<close>, \<open>Runs\<close>, with runs on a concrete
    cluster in \<open>Example\<close>): an import becomes successful only with its disks copied, machines and volumes are touched
    only after a validation that passed, every import of every reachable world has well-formed conditions, nothing
    but status, annotations and finalizers of an import changes, and what happens to deleted and to failed ones; and
    the reconciler comes to rest, as a run for an import that is done changes nothing (\<open>RestSpec\<close>).
  \<^item> Waiting (\<open>WaitFrames\<close>, \<open>Waiting\<close>, \<open>WaitSpec\<close>, \<open>WakeSpec\<close>): \<open>waits\<close> is what every function of a run keeps until
    its import has ended, and with it a run that leaves its import unfinished leaves something on the server that is
    not ready and whose changes wake the import up; and the one import that nothing wakes.
  \<^item> Resources as the API server has them (\<open>CrdSpec\<close>, \<open>InstallSpec\<close>): what the types can express is stored and read
    back, what is admitted can be read, what an older client writes is understood, and what it loses; the
    definitions that the operator installs are legal, and its permissions suffice for all that it makes.
  \<^item> oVirt validation against a specification on the machine (\<open>ValidationSpec\<close>), and its agreement with the mapper:
    what it accepts is mapped to networks and storage classes that exist (\<open>MappingSpec\<close>), and to what kind of
    machine (\<open>MapperSpec\<close>); each with the cases in which the two part.
  \<^item> Disks (\<open>DiskSpec\<close>, \<open>GuestConversion\<close>): each gets one volume, in an order that does not depend on the
    iteration of maps, and the conversion looks for them where they are mounted.
  \<^item> Progress (\<open>ProgressSpec\<close>): bounds under any rounding of the precision of a double, and monotonicity.
  \<^item> Clients and operator (\<open>ClientSpec\<close>, \<open>OperatorSpec\<close>): when a stopped machine is down, that links keep a machine;
    that the controller has the permissions for the calls it makes, and which settings reach it.
  \<^item> Generated code (\<open>CopySpec\<close>, \<open>TypedSpec\<close>): every copy is deep, so that passing values in the model is what the code
    does; the clients ask for what the installed definitions serve.
  \<^item> Conditions, mergers, managers and utilities, next to their definitions.

  \<^bold>\<open>Bounds.\<close>  No loop of the reconciler is bounded by a fuel of the model: ranges are recursions on lists and
  \<open>format_loop\<close> has a measure.  The poll of the oVirt client runs on a ticker until a timeout; \<open>sk_polls\<close> is the
  number of ticks before it, of which no theorem bounds the size.  \<open>w_faults\<close> says of every call of the API whether it fails,
  and how; theorems hold for every schedule unless they name one.  Integers are unbounded where the code cannot
  reach a bound, \<open>wrap64\<close> or words where it can.  Floating point is rational arithmetic with a rounding function.

  \<^bold>\<open>Not modelled.\<close>  Of the registration with the controller runtime, the watches of
  the controller are modelled, and not the functions that hand the clients of the manager over.  The reconciliation of the operator's objects is that of the
  controller-lifecycle SDK; its hooks are modelled.  HTTP and SOAP of the SDKs are the parameters \<open>ovirt_sdk\<close> and
  \<open>vim_sdk\<close>; parsing of YAML and JSON, encoding of XML and the time zones are parts of \<open>platform\<close>.  The
  OpenAPI definitions and the client of CDI under \<open>generated\<close> are generated from other sources.  A pointer of the
  heap points to an allocation of its own, not into a struct or an array.  Of the tools, those that make the build are left out.  The placement of
  pods and the status of the operator's configuration are types of libraries and arguments of the model.  Of the
  validation of the API server, metadata and formats other than of times are left out.
  Concurrency is that of runs that alternate with arbitrary changes of the world (\<open>step\<close>): one run is not interleaved
  with others, as the controller has one worker, and a user's edit within a run is not modelled.
\<close>

end
